(* ===== verification/Prelude.thy ===== *)
theory Prelude imports Main "HOL-Library.Char_ord" "HOL-Library.List_Lexorder" "HOL-Library.AList" "HOL-Library.Multiset" begin

text \<open>
  The prelude: the Python values, strings and dictionaries every component uses, and the
  collections of automation the component theories share.

  Python strings are HOL \<open>string\<close>s: a character is a code point below 256, so the Latin-1
  part of Unicode is what the model covers.  A dictionary is the list of its items in insertion
  order, with distinct keys (\<open>wf_dict\<close>); reading is \<open>map_of\<close> and \<open>d[k] = v\<close> is
  \<open>AList.update\<close>, which replaces in place or appends, as Python does.
\<close>

named_theorems py_simps "evaluation of the modelled Python builtins"
named_theorems row_simps "effect of one SQL statement on the columns of a row"
named_theorems table_simps "rows of a table after one SQL statement"
named_theorems step_keeps "one operation keeps the invariant"

section \<open>Values\<close>

text \<open>
  The values of \<open>dict[str, Any]\<close> payloads.  A finite float is represented by its
  \<open>repr\<close> text, which determines it.
\<close>

datatype pyval =
    PNone
  | PBool bool
  | PInt int
  | PFloat string
  | PStr string
  | PList "pyval list"
  | PDict "(string \<times> pyval) list"

type_synonym pydict = "(string \<times> pyval) list"

text \<open>\<open>bool(v)\<close>, and \<open>a or b\<close>.\<close>

fun truthy :: "pyval \<Rightarrow> bool" where
  "truthy PNone = False"
| "truthy (PBool b) = b"
| "truthy (PInt i) = (i \<noteq> 0)"
| "truthy (PFloat r) = (r \<noteq> ''0.0'' \<and> r \<noteq> ''-0.0'')"
| "truthy (PStr s) = (s \<noteq> [])"
| "truthy (PList xs) = (xs \<noteq> [])"
| "truthy (PDict d) = (d \<noteq> [])"

definition py_or :: "pyval \<Rightarrow> pyval \<Rightarrow> pyval" where
  "py_or a b = (if truthy a then a else b)"

text \<open>\<open>d.get(k)\<close> and \<open>d.get(k, v)\<close>.\<close>

definition dict_get :: "pydict \<Rightarrow> string \<Rightarrow> pyval" where
  "dict_get d k = (case map_of d k of None \<Rightarrow> PNone | Some v \<Rightarrow> v)"

definition dict_get_default :: "pydict \<Rightarrow> string \<Rightarrow> pyval \<Rightarrow> pyval" where
  "dict_get_default d k v = (case map_of d k of None \<Rightarrow> v | Some w \<Rightarrow> w)"

definition dict_set :: "pydict \<Rightarrow> string \<Rightarrow> pyval \<Rightarrow> pydict" where
  "dict_set d k v = AList.update k v d"

definition wf_dict :: "(string \<times> 'a) list \<Rightarrow> bool" where
  "wf_dict d \<longleftrightarrow> distinct (map fst d)"

text \<open>An optional string as an operand of \<open>and\<close>, \<open>or\<close> and \<open>if\<close>.\<close>

definition opt_truthy :: "string option \<Rightarrow> bool" where
  "opt_truthy x = (case x of None \<Rightarrow> False | Some s \<Rightarrow> s \<noteq> [])"

definition opt_or :: "string option \<Rightarrow> string option \<Rightarrow> string option" where
  "opt_or a b = (if opt_truthy a then a else b)"

definition pv_of_opt :: "string option \<Rightarrow> pyval" where
  "pv_of_opt x = (case x of None \<Rightarrow> PNone | Some s \<Rightarrow> PStr s)"

lemma dict_get_set [simp]:
  "dict_get (dict_set d k v) k' = (if k' = k then v else dict_get d k')"
  by (simp add: dict_get_def dict_set_def update_conv')

lemma dict_get_default_set [simp]:
  "dict_get_default (dict_set d k v) k' w = (if k' = k then v else dict_get_default d k' w)"
  by (simp add: dict_get_default_def dict_set_def update_conv')

lemma dict_set_nonempty [simp]: "dict_set d k v \<noteq> []"
  unfolding dict_set_def by (cases d) auto

lemma wf_dict_set [simp]: "wf_dict d \<Longrightarrow> wf_dict (dict_set d k v)"
  by (simp add: wf_dict_def dict_set_def distinct_update)

lemma opt_truthy_simps [simp, py_simps]:
  "\<not> opt_truthy None" "opt_truthy (Some s) \<longleftrightarrow> s \<noteq> []"
  by (simp_all add: opt_truthy_def)

lemma opt_truthyE [elim]: "opt_truthy x \<Longrightarrow> (\<And>s. x = Some s \<Longrightarrow> s \<noteq> [] \<Longrightarrow> P) \<Longrightarrow> P"
  by (cases x) auto

section \<open>Strings\<close>

text \<open>\<open>str.isspace\<close> on Latin-1, \<open>str.strip()\<close>, \<open>str.lower()\<close>.\<close>

definition is_space :: "char \<Rightarrow> bool" where
  "is_space c = (let n = (of_char c :: nat) in
     (9 \<le> n \<and> n \<le> 13) \<or> (28 \<le> n \<and> n \<le> 32) \<or> n = 133 \<or> n = 160)"

definition py_strip :: "string \<Rightarrow> string" where
  "py_strip s = rev (dropWhile is_space (rev (dropWhile is_space s)))"

definition lower_char :: "char \<Rightarrow> char" where
  "lower_char c = (let n = (of_char c :: nat) in
     if (65 \<le> n \<and> n \<le> 90) \<or> (192 \<le> n \<and> n \<le> 222 \<and> n \<noteq> 215) then char_of (n + 32) else c)"

definition py_lower :: "string \<Rightarrow> string" where
  "py_lower s = map lower_char s"

definition starts_with :: "string \<Rightarrow> string \<Rightarrow> bool" where
  "starts_with s p = (take (length p) s = p)"

text \<open>\<open>s.partition(c)\<close> for a one-character separator: (head, separator found, tail).\<close>

definition py_partition :: "char \<Rightarrow> string \<Rightarrow> string \<times> bool \<times> string" where
  "py_partition c s =
     (takeWhile (\<lambda>x. x \<noteq> c) s, c \<in> set s, drop 1 (dropWhile (\<lambda>x. x \<noteq> c) s))"

fun py_join :: "string \<Rightarrow> string list \<Rightarrow> string" where
  "py_join sep [] = []"
| "py_join sep [s] = s"
| "py_join sep (s # t # ss) = s @ sep @ py_join sep (t # ss)"

text \<open>\<open>needle in haystack\<close> on strings.\<close>

fun substring :: "string \<Rightarrow> string \<Rightarrow> bool" where
  "substring p [] = (p = [])"
| "substring p (c # s) = (starts_with (c # s) p \<or> substring p s)"

lemma py_strip_Nil [simp]: "py_strip [] = []"
  by (simp add: py_strip_def)

lemma dropWhile_idem_hd: "dropWhile P (dropWhile P xs) = dropWhile P xs"
  by (induction xs) auto

lemma dropWhile_fixed: "dropWhile P xs = xs \<longleftrightarrow> xs = [] \<or> \<not> P (hd xs)"
proof (cases xs)
  case (Cons x ys)
  have "dropWhile P ys \<noteq> x # ys"
    by (metis length_dropWhile_le length_Cons Suc_n_not_le_n)
  then show ?thesis using Cons by auto
qed simp

lemma py_strip_idem [simp]: "py_strip (py_strip s) = py_strip s"
proof -
  define t where "t = dropWhile is_space s"
  define u where "u = rev (dropWhile is_space (rev t))"
  have u: "dropWhile is_space (rev u) = rev u"
    by (simp add: u_def dropWhile_idem_hd)
  have "dropWhile is_space u = u"
  proof (cases "u = []")
    case False
    have "\<exists>ys. u @ ys = t"
      unfolding u_def by (metis rev_append rev_rev_ident takeWhile_dropWhile_id)
    then obtain ys where ys: "t = u @ ys" by auto
    then have "hd t = hd u" "t \<noteq> []" using False by auto
    moreover have "dropWhile is_space t = t" by (simp add: t_def dropWhile_idem_hd)
    ultimately have "\<not> is_space (hd u)" by (simp add: dropWhile_fixed)
    then show ?thesis by (simp add: dropWhile_fixed)
  qed simp
  then show ?thesis
    using u by (simp add: py_strip_def t_def [symmetric] u_def [symmetric])
qed

text \<open>Decimal text of a number, as \<open>str(n)\<close> and \<open>f"{n}"\<close> print it.\<close>

fun nat_str :: "nat \<Rightarrow> string" where
  "nat_str n = (if n < 10 then [char_of (48 + n)] else nat_str (n div 10) @ [char_of (48 + n mod 10)])"

declare nat_str.simps [simp del]

definition int_str :: "int \<Rightarrow> string" where
  "int_str i = (if i < 0 then CHR ''-'' # nat_str (nat (- i)) else nat_str (nat i))"

lemma char_of_eq [py_simps]:
  "char_of n = c \<longleftrightarrow> take_bit 8 n = (of_char c :: nat)"
  "c = char_of n \<longleftrightarrow> take_bit 8 n = (of_char c :: nat)"
  for n :: nat
  by (metis char_of_eq_iff)+

text \<open>
  \<open>repr(v)\<close> and \<open>str(v)\<close>: a string is quoted with single quotes unless it holds one and no
  double quote; characters that do not print are escaped.
\<close>

definition repr_char :: "char \<Rightarrow> char \<Rightarrow> string" where
  "repr_char q c = (let n = (of_char c :: nat);
       hex = (\<lambda>k. if k < 10 then char_of (48 + k) else char_of (87 + k)) in
     if c = q \<or> n = 92 then [CHR 0x5C, c]
     else if n = 10 then [CHR 0x5C, CHR ''n'']
     else if n = 13 then [CHR 0x5C, CHR ''r'']
     else if n = 9 then [CHR 0x5C, CHR ''t'']
     else if n < 32 \<or> (127 \<le> n \<and> n \<le> 160) \<or> n = 173
       then [CHR 0x5C, CHR ''x'', hex (n div 16), hex (n mod 16)]
     else [c])"

definition repr_str :: "string \<Rightarrow> string" where
  "repr_str s = (let q = (if CHR 0x27 \<in> set s \<and> CHR 0x22 \<notin> set s then CHR 0x22 else CHR 0x27)
     in q # concat (map (repr_char q) s) @ [q])"

lemma size_snd_in_dict [termination_simp]:
  "kv \<in> set d \<Longrightarrow> size (snd kv) < Suc (size_list (size_prod (\<lambda>_. 0) size) d)"
  by (induction d) (auto simp: less_Suc_eq_le)

fun py_repr :: "pyval \<Rightarrow> string" where
  "py_repr PNone = ''None''"
| "py_repr (PBool b) = (if b then ''True'' else ''False'')"
| "py_repr (PInt i) = int_str i"
| "py_repr (PFloat r) = r"
| "py_repr (PStr s) = repr_str s"
| "py_repr (PList xs) = ''['' @ py_join '', '' (map py_repr xs) @ '']''"
| "py_repr (PDict d) =
     ''{'' @ py_join '', '' (map (\<lambda>kv. repr_str (fst kv) @ '': '' @ py_repr (snd kv)) d) @ ''}''"

definition py_str :: "pyval \<Rightarrow> string" where
  "py_str v = (case v of PStr s \<Rightarrow> s | _ \<Rightarrow> py_repr v)"

lemma py_str_PStr [simp]: "py_str (PStr s) = s"
  by (simp add: py_str_def)

section \<open>Lists as the code uses them\<close>

text \<open>\<open>next(x for x in xs if p(x))\<close> and the first index, as \<open>enumerate\<close> gives it.\<close>

fun find_from :: "nat \<Rightarrow> ('a \<Rightarrow> bool) \<Rightarrow> 'a list \<Rightarrow> (nat \<times> 'a) option" where
  "find_from i p [] = None"
| "find_from i p (x # xs) = (if p x then Some (i, x) else find_from (Suc i) p xs)"

lemma find_from_None: "find_from i p xs = None \<longleftrightarrow> (\<forall>x \<in> set xs. \<not> p x)"
  by (induction xs arbitrary: i) auto

lemma find_from_Some:
  "find_from i p xs = Some (j, x) \<longleftrightarrow>
     i \<le> j \<and> j - i < length xs \<and> x = xs ! (j - i) \<and> p x \<and> (\<forall>k < j - i. \<not> p (xs ! k))"
proof (induction xs arbitrary: i)
  case (Cons y ys)
  show ?case
  proof (cases "p y")
    case True
    then show ?thesis by (auto simp: nth_Cons split: nat.splits)
  next
    case False
    then have "find_from i p (y # ys) = find_from (Suc i) p ys" by simp
    also have "(\<dots> = Some (j, x)) \<longleftrightarrow>
      Suc i \<le> j \<and> j - Suc i < length ys \<and> x = ys ! (j - Suc i) \<and> p x \<and>
      (\<forall>k < j - Suc i. \<not> p (ys ! k))" by (rule Cons.IH)
    also have "\<dots> \<longleftrightarrow> i \<le> j \<and> j - i < length (y # ys) \<and> x = (y # ys) ! (j - i) \<and> p x \<and>
      (\<forall>k < j - i. \<not> p ((y # ys) ! k))"
    proof (cases "i < j")
      case True
      then obtain d where d: "j = i + Suc d" using less_iff_Suc_add by auto
      show ?thesis using False by (auto simp: d All_less_Suc2)
    next
      case le: False
      then show ?thesis using False by (cases "i = j") auto
    qed
    finally show ?thesis .
  qed
qed simp

lemma find_eq_SomeD: "List.find p xs = Some x \<Longrightarrow> x \<in> set xs \<and> p x"
  by (induction xs) (auto split: if_splits)

end
