(* ===== verification/Json.thy ===== *)
theory Json imports Prelude begin

text \<open>
  The text \<open>json.dumps\<close> prints for a payload and the digest the program takes of it:
  \<open>sha256(json.dumps(payload, sort_keys=True, separators=(",", ":"), ensure_ascii=False))\<close>,
  written in several modules under the name \<open>_payload_hash\<close> or \<open>_hash_payload\<close>.  The digest
  function itself (\<open>hashlib.sha256(...).hexdigest()\<close>) is the parameter \<open>H\<close> of every
  definition that hashes.  The lemmas show that the canonical text determines the payload up to the
  order of dictionary keys, so that two payloads with one digest are equal unless \<open>H\<close> collides.
\<close>

section \<open>Printing\<close>

definition hex_digit :: "nat \<Rightarrow> char" where
  "hex_digit n = (if n < 10 then char_of (48 + n) else char_of (87 + n))"

definition json_char :: "char \<Rightarrow> string" where
  "json_char c = (let n = (of_char c :: nat) in
     if n = 34 then [CHR 0x5C, CHR 0x22]
     else if n = 92 then [CHR 0x5C, CHR 0x5C]
     else if n = 10 then [CHR 0x5C, CHR ''n'']
     else if n = 13 then [CHR 0x5C, CHR ''r'']
     else if n = 9 then [CHR 0x5C, CHR ''t'']
     else if n = 12 then [CHR 0x5C, CHR ''f'']
     else if n = 8 then [CHR 0x5C, CHR ''b'']
     else if n < 32 then [CHR 0x5C, CHR ''u'', CHR ''0'', CHR ''0'', hex_digit (n div 16), hex_digit (n mod 16)]
     else [c])"

definition json_str :: "string \<Rightarrow> string" where
  "json_str s = CHR 0x22 # concat (map json_char s) @ [CHR 0x22]"

fun json_text :: "string \<Rightarrow> string \<Rightarrow> pyval \<Rightarrow> string" where
  "json_text isep ksep PNone = ''null''"
| "json_text isep ksep (PBool b) = (if b then ''true'' else ''false'')"
| "json_text isep ksep (PInt i) = int_str i"
| "json_text isep ksep (PFloat r) = r"
| "json_text isep ksep (PStr s) = json_str s"
| "json_text isep ksep (PList xs) =
     ''['' @ py_join isep (map (json_text isep ksep) xs) @ '']''"
| "json_text isep ksep (PDict d) =
     ''{'' @ py_join isep (map (\<lambda>kv. json_str (fst kv) @ ksep @ json_text isep ksep (snd kv)) d) @ ''}''"

text \<open>
  \<open>json.loads(json.dumps(v, sort_keys=True, ensure_ascii=False))\<close>: every dictionary with its
  keys sorted, at every depth.
\<close>

fun canonicalize_payload :: "pyval \<Rightarrow> pyval" where
  "canonicalize_payload (PList xs) = PList (map canonicalize_payload xs)"
| "canonicalize_payload (PDict d) =
     PDict (sort_key fst (map (\<lambda>kv. (fst kv, canonicalize_payload (snd kv))) d))"
| "canonicalize_payload v = v"

definition canonical_text :: "pyval \<Rightarrow> string" where
  "canonical_text v = json_text '','' '':'' (canonicalize_payload v)"

definition payload_hash :: "(string \<Rightarrow> string) \<Rightarrow> pyval \<Rightarrow> string" where
  "payload_hash H payload = H (canonical_text payload)"

text \<open>The snapshot column: a dictionary stored with sorted keys and read back.\<close>

definition canonical_dict :: "pydict \<Rightarrow> pydict" where
  "canonical_dict d = sort_key fst (map (\<lambda>kv. (fst kv, canonicalize_payload (snd kv))) d)"

lemma canonicalize_PDict: "canonicalize_payload (PDict d) = PDict (canonical_dict d)"
  by (simp add: canonical_dict_def)

section \<open>The canonical text determines the payload\<close>

definition num_char :: "char \<Rightarrow> bool" where
  "num_char c \<longleftrightarrow> c \<in> set ''0123456789+-.einfa''"

definition digit_char :: "char \<Rightarrow> bool" where
  "digit_char c \<longleftrightarrow> c \<in> set ''0123456789''"

text \<open>Well-formed payloads: a float text is a number text with a dot or an exponent.\<close>

definition wf_float :: "string \<Rightarrow> bool" where
  "wf_float r \<longleftrightarrow> r \<noteq> [] \<and> (digit_char (hd r) \<or> hd r = CHR ''-'') \<and> list_all num_char r \<and>
     \<not> list_all (\<lambda>c. digit_char c \<or> c = CHR ''-'') r"

fun wf_json :: "pyval \<Rightarrow> bool" where
  "wf_json (PFloat r) = wf_float r"
| "wf_json (PList xs) = (\<forall>x \<in> set xs. wf_json x)"
| "wf_json (PDict d) = (wf_dict d \<and> (\<forall>kv \<in> set d. wf_json (snd kv)))"
| "wf_json v = True"

definition delimited :: "string \<Rightarrow> bool" where
  "delimited r \<longleftrightarrow> r = [] \<or> \<not> num_char (hd r)"

subsection \<open>Characters and strings\<close>

definition hex_value :: "char \<Rightarrow> nat" where
  "hex_value c = (let n = (of_char c :: nat) in if n < 58 then n - 48 else n - 87)"

text \<open>The character an escaped text starts with, and the rest.\<close>

fun unescape :: "string \<Rightarrow> char \<times> string" where
  "unescape (c # d # s) =
     (if c \<noteq> CHR 0x5C then (c, d # s)
      else if d = CHR ''n'' then (CHR 0x0A, s)
      else if d = CHR ''r'' then (CHR 0x0D, s)
      else if d = CHR ''t'' then (CHR 0x09, s)
      else if d = CHR ''f'' then (CHR 0x0C, s)
      else if d = CHR ''b'' then (CHR 0x08, s)
      else if d = CHR ''u'' then (char_of (16 * hex_value (s ! 2) + hex_value (s ! 3)), drop 4 s)
      else (d, s))"
| "unescape [c] = (c, [])"
| "unescape [] = (CHR 0x00, [])"

lemma hex_value_digit: "n < 16 \<Longrightarrow> hex_value (hex_digit n) = n"
  by (auto simp: hex_value_def hex_digit_def Let_def)

lemma char_eq_of_char: "c = d \<longleftrightarrow> (of_char c :: nat) = of_char d"
  by simp

lemma of_char_less: "(of_char c :: nat) < 256"
  by (metis of_char_mod_256 mod_less_divisor zero_less_numeral)

lemma unescape_json_char: "unescape (json_char c @ x) = (c, x)"
proof -
  define n where "n = (of_char c :: nat)"
  have c: "c = char_of n" by (simp add: n_def)
  have small: "n < 32 \<Longrightarrow> n div 16 < 16 \<and> n mod 16 < 16" by auto
  have split: "16 * (n div 16) + n mod 16 = n" by simp
  consider "n = 34" | "n = 92" | "n \<in> {10, 13, 9, 12, 8}" | "n < 32" "n \<notin> {10, 13, 9, 12, 8}"
    | "32 \<le> n" "n \<noteq> 34" "n \<noteq> 92" by fastforce
  then show ?thesis
  proof cases
    case 5
    then have "json_char c = [c]" by (simp add: json_char_def n_def [symmetric])
    moreover have "c \<noteq> CHR 0x5C" using 5 by (auto simp: n_def)
    ultimately show ?thesis by (cases x) auto
  next
    case 4
    then have "json_char c = [CHR 0x5C, CHR ''u'', CHR ''0'', CHR ''0'', hex_digit (n div 16), hex_digit (n mod 16)]"
      by (auto simp: json_char_def n_def [symmetric])
    then show ?thesis using small 4 split by (simp add: hex_value_digit c)
  qed (auto simp: json_char_def c py_simps)
qed

lemma json_char_append_inject: "json_char c @ x = json_char d @ y \<Longrightarrow> c = d \<and> x = y"
  by (metis unescape_json_char prod.inject)

lemma json_char_hd: "json_char c \<noteq> [] \<and> hd (json_char c) \<noteq> CHR 0x22"
  by (auto simp: json_char_def Let_def)

lemma json_chars_inject:
  "concat (map json_char s) @ CHR 0x22 # x = concat (map json_char t) @ CHR 0x22 # y \<Longrightarrow> s = t \<and> x = y"
proof (induction s arbitrary: t)
  case Nil
  then show ?case using json_char_hd by (cases t) (auto, metis hd_append2 list.sel(1))
next
  case (Cons c s)
  show ?case
  proof (cases t)
    case Nil
    then show ?thesis using Cons.prems json_char_hd [of c] by (auto, metis hd_append2 list.sel(1))
  next
    case (Cons d u)
    with Cons.prems have "json_char c @ (concat (map json_char s) @ CHR 0x22 # x) =
      json_char d @ (concat (map json_char u) @ CHR 0x22 # y)" by simp
    from json_char_append_inject [OF this] Cons.IH Cons show ?thesis by blast
  qed
qed

lemma json_str_append_inject: "json_str s @ x = json_str t @ y \<Longrightarrow> s = t \<and> x = y"
  unfolding json_str_def using json_chars_inject [of s x t y] by simp

subsection \<open>Numbers\<close>

lemma nat_str_digits: "list_all digit_char (nat_str n)"
proof (induction n rule: nat_str.induct)
  case (1 n)
  have d: "digit_char (char_of (48 + k))" if "k < 10" for k :: nat
  proof -
    have "k \<in> {0,1,2,3,4,5,6,7,8,9}" using that by auto
    then show ?thesis by (auto simp: digit_char_def py_simps)
  qed
  then show ?case
    using 1 by (subst nat_str.simps) auto
qed

lemma nat_str_nonempty [simp]: "nat_str n \<noteq> []"
  by (subst nat_str.simps) auto

text \<open>Reading a decimal text back.\<close>

definition nat_val :: "string \<Rightarrow> nat" where
  "nat_val s = foldl (\<lambda>a c. 10 * a + (of_char c - 48)) 0 s"

lemma nat_val_str [simp]: "nat_val (nat_str n) = n"
proof (induction n rule: nat_str.induct)
  case (1 n)
  then show ?case
    by (cases "n < 10") (simp_all add: nat_str.simps [of n] nat_val_def)
qed

lemma nat_str_inject [simp]: "nat_str m = nat_str n \<longleftrightarrow> m = n"
  by (metis nat_val_str)

lemma nat_str_no_sign: "hd (nat_str n) \<noteq> CHR ''-''"
proof -
  have "digit_char (hd (nat_str n))"
    using nat_str_digits [of n] by (simp add: list_all_iff)
  then show ?thesis by (auto simp: digit_char_def)
qed

lemma int_str_inject [simp]: "int_str i = int_str j \<longleftrightarrow> i = j"
  using nat_str_no_sign [of "nat i"] nat_str_no_sign [of "nat j"]
  by (auto simp: int_str_def) (metis list.sel(1))+

lemma int_str_chars: "list_all (\<lambda>c. digit_char c \<or> c = CHR ''-'') (int_str i)"
  using nat_str_digits by (auto simp: int_str_def list_all_iff)

lemma digit_num_char: "digit_char c \<or> c = CHR ''-'' \<Longrightarrow> num_char c"
  by (auto simp: digit_char_def num_char_def)

lemma int_str_nonempty [simp]: "int_str i \<noteq> []"
  by (simp add: int_str_def)

lemma int_str_num: "list_all num_char (int_str i)"
  using int_str_chars digit_num_char by (auto simp: list_all_iff)

lemma delimited_takeWhile:
  assumes "list_all num_char t" "delimited r"
  shows "takeWhile num_char (t @ r) = t" "dropWhile num_char (t @ r) = r"
  using assms by (cases r; auto simp: delimited_def list_all_iff takeWhile_append2 dropWhile_append2)+

lemma number_token_inject:
  assumes "t @ r = u @ s" "list_all num_char t" "list_all num_char u" "delimited r" "delimited s"
  shows "t = u \<and> r = s"
  using assms delimited_takeWhile by metis

subsection \<open>Values\<close>

text \<open>The first character of a value's text tells its kind.\<close>

definition text_kind :: "char \<Rightarrow> nat" where
  "text_kind c = (if c = CHR ''n'' then 0 else if c = CHR ''t'' then 1 else if c = CHR ''f'' then 2
     else if c = CHR 0x22 then 3 else if c = CHR ''['' then 4 else if c = CHR ''{'' then 5
     else if digit_char c \<or> c = CHR ''-'' then 6 else 7)"

fun value_kind :: "pyval \<Rightarrow> nat" where
  "value_kind PNone = 0"
| "value_kind (PBool b) = (if b then 1 else 2)"
| "value_kind (PInt i) = 6"
| "value_kind (PFloat r) = 6"
| "value_kind (PStr s) = 3"
| "value_kind (PList xs) = 4"
| "value_kind (PDict d) = 5"

lemma text_kind_number: "digit_char c \<or> c = CHR ''-'' \<Longrightarrow> text_kind c = 6"
  by (auto simp: text_kind_def digit_char_def)

lemma int_str_hd: "digit_char (hd (int_str i)) \<or> hd (int_str i) = CHR ''-''"
  using int_str_chars [of i] by (cases "int_str i") auto

lemma json_text_hd:
  assumes "wf_json v"
  shows "json_text a b v \<noteq> [] \<and> text_kind (hd (json_text a b v)) = value_kind v"
  using assms text_kind_number int_str_hd
  by (cases v) (auto simp: text_kind_def json_str_def wf_float_def hd_append)

lemma text_kind_eq:
  assumes "wf_json v" "wf_json w" "json_text a b v @ r = json_text a b w @ s"
  shows "value_kind v = value_kind w"
  using json_text_hd [OF assms(1), of a b] json_text_hd [OF assms(2), of a b] assms(3)
  by (metis hd_append2)

lemma py_join_Cons: "py_join sep (x # xs) = x @ (if xs = [] then [] else sep @ py_join sep xs)"
  by (cases xs) auto

text \<open>
  Lists of texts: if each item's text can be read back in front of a delimiter, so can the joined
  text in front of the closing bracket.
\<close>

lemma joined_inject:
  assumes "\<And>x y r s. x \<in> set xs \<Longrightarrow> y \<in> set ys \<Longrightarrow> delimited r \<Longrightarrow> delimited s \<Longrightarrow>
      enc x @ r = enc y @ s \<Longrightarrow> x = y \<and> r = s"
    and "\<And>x. x \<in> set xs \<union> set ys \<Longrightarrow> enc x \<noteq> [] \<and> hd (enc x) \<noteq> cl"
    and "\<not> num_char cl" "cl \<noteq> CHR '',''"
    and "py_join (CHR '','' # sp) (map enc xs) @ cl # r = py_join (CHR '','' # sp) (map enc ys) @ cl # s"
  shows "xs = ys \<and> r = s"
  using assms
proof (induction xs arbitrary: ys)
  case Nil
  show ?case
  proof (cases ys)
    case (Cons y zs)
    with Nil.prems(2) [of y] Nil.prems(5) show ?thesis
      by (simp add: py_join_Cons) (metis hd_append2 list.sel(1))
  qed (use Nil.prems in simp)
next
  case (Cons x xs)
  show ?case
  proof (cases ys)
    case Nil
    with Cons.prems(2) [of x] Cons.prems(5) show ?thesis
      by (simp add: py_join_Cons) (metis hd_append2 list.sel(1))
  next
    case (Cons y zs)
    define tx where "tx = (if xs = [] then [] else (CHR '','' # sp) @ py_join (CHR '','' # sp) (map enc xs)) @ cl # r"
    define ty where "ty = (if zs = [] then [] else (CHR '','' # sp) @ py_join (CHR '','' # sp) (map enc zs)) @ cl # s"
    have "enc x @ tx = enc y @ ty"
      using Cons.prems(5) by (simp add: Cons py_join_Cons tx_def ty_def)
    moreover have "delimited tx" "delimited ty"
      using Cons.prems(3) by (auto simp: delimited_def tx_def ty_def num_char_def)
    ultimately have xy: "x = y" and t: "tx = ty"
      using Cons.prems(1) [of x y tx ty] Cons by auto
    show ?thesis
    proof (cases "xs = []")
      case True
      then show ?thesis using xy t Cons.prems(4) by (auto simp: tx_def ty_def Cons split: if_splits)
    next
      case False
      then have ne: "zs \<noteq> []" using t Cons.prems(4) by (auto simp: tx_def ty_def split: if_splits)
      have "py_join (CHR '','' # sp) (map enc xs) @ cl # r = py_join (CHR '','' # sp) (map enc zs) @ cl # s"
        using t False ne by (simp add: tx_def ty_def)
      moreover have "\<And>x y r s. x \<in> set xs \<Longrightarrow> y \<in> set zs \<Longrightarrow> delimited r \<Longrightarrow> delimited s \<Longrightarrow>
          enc x @ r = enc y @ s \<Longrightarrow> x = y \<and> r = s"
        using Cons.prems(1) Cons by auto
      moreover have "\<And>x. x \<in> set xs \<union> set zs \<Longrightarrow> enc x \<noteq> [] \<and> hd (enc x) \<noteq> cl"
        using Cons.prems(2) Cons by auto
      ultimately have "xs = zs \<and> r = s"
        using Cons.IH [of zs] Cons.prems(3,4) by blast
      then show ?thesis using xy Cons by simp
    qed
  qed
qed

text \<open>The text with the separators a comma and a colon, each followed by a fixed text.\<close>

abbreviation spaced :: "string \<Rightarrow> string \<Rightarrow> pyval \<Rightarrow> string" where
  "spaced a b \<equiv> json_text (CHR '','' # a) (CHR '':'' # b)"

definition item_text :: "string \<Rightarrow> string \<Rightarrow> string \<times> pyval \<Rightarrow> string" where
  "item_text a b kv = json_str (fst kv) @ (CHR '':'' # b) @ spaced a b (snd kv)"

lemma value_kind_close: "text_kind CHR '']'' = 7" "text_kind CHR ''}'' = 7"
  by (simp_all add: text_kind_def digit_char_def)

lemma value_kind_less: "value_kind v < 7"
  by (cases v) auto

lemma number_text:
  assumes "wf_json v" "value_kind v = 6"
  shows "list_all num_char (spaced a b v)"
  using assms int_str_num by (cases v) (auto simp: wf_float_def split: if_splits)

lemma spaced_number_inject:
  assumes "wf_json v" "wf_json w" "value_kind v = 6" "value_kind w = 6" "spaced a b v = spaced a b w"
  shows "v = w"
  using assms int_str_chars by (cases v; cases w) (auto simp: wf_float_def split: if_splits)

lemma spaced_append_inject:
  "wf_json v \<Longrightarrow> wf_json w \<Longrightarrow> delimited r \<Longrightarrow> delimited s \<Longrightarrow>
   spaced a b v @ r = spaced a b w @ s \<Longrightarrow> v = w \<and> r = s"
proof (induction v arbitrary: w r s)
  case (PList xs)
  have "value_kind w = 4" using text_kind_eq [OF PList.prems(1,2,5)] by simp
  then obtain ys where w: "w = PList ys" by (cases w) (auto split: if_splits)
  have "xs = ys \<and> r = s"
  proof (rule joined_inject [where enc = "spaced a b" and cl = "CHR '']''"])
    show "py_join (CHR '','' # a) (map (spaced a b) xs) @ CHR '']'' # r = py_join (CHR '','' # a) (map (spaced a b) ys) @ CHR '']'' # s"
      using PList.prems(5) by (simp add: w)
    show "x = y \<and> r = s" if "x \<in> set xs" "y \<in> set ys" "delimited r" "delimited s"
      "spaced a b x @ r = spaced a b y @ s" for x y r s
      using PList.IH [OF that(1) _ _ that(3,4,5)] PList.prems(1,2) that(1,2) by (simp add: w)
    show "spaced a b x \<noteq> [] \<and> hd (spaced a b x) \<noteq> CHR '']''" if "x \<in> set xs \<union> set ys" for x
    proof -
      have "wf_json x" using that PList.prems(1,2) by (auto simp: w)
      from json_text_hd [OF this] show ?thesis
        using value_kind_close(1) value_kind_less [of x] by (metis less_irrefl)
    qed
  qed (simp_all add: num_char_def)
  then show ?case by (simp add: w)
next
  case (PDict d)
  have "value_kind w = 5" using text_kind_eq [OF PDict.prems(1,2,5)] by simp
  then obtain e where w: "w = PDict e" by (cases w) (auto split: if_splits)
  have "d = e \<and> r = s"
  proof (rule joined_inject [where enc = "item_text a b" and cl = "CHR ''}''"])
    show "py_join (CHR '','' # a) (map (item_text a b) d) @ CHR ''}'' # r = py_join (CHR '','' # a) (map (item_text a b) e) @ CHR ''}'' # s"
      using PDict.prems(5) by (simp add: w item_text_def [abs_def])
    show "x = y \<and> r = s" if *: "x \<in> set d" "y \<in> set e" "delimited r" "delimited s"
      "item_text a b x @ r = item_text a b y @ s" for x y r s
    proof -
      have "json_str (fst x) @ (CHR '':'' # b) @ spaced a b (snd x) @ r = json_str (fst y) @ (CHR '':'' # b) @ spaced a b (snd y) @ s"
        using *(5) by (simp add: item_text_def)
      from json_str_append_inject [OF this]
      have k: "fst x = fst y" and v: "spaced a b (snd x) @ r = spaced a b (snd y) @ s" by auto
      have sub: "snd x \<in> Basic_BNFs.snds x" by (cases x) (simp add: snds.simps)
      have "wf_json (snd x)" "wf_json (snd y)" using PDict.prems(1,2) * by (auto simp: w)
      from PDict.IH [OF *(1) sub this *(3,4) v] k show ?thesis by (auto simp: prod_eq_iff)
    qed
    show "item_text a b x \<noteq> [] \<and> hd (item_text a b x) \<noteq> CHR ''}''" for x
      by (simp add: item_text_def json_str_def)
  qed (simp_all add: num_char_def)
  then show ?case by (simp add: w)
next
  case (PStr t)
  have "value_kind w = 3" using text_kind_eq [OF PStr.prems(1,2,5)] by simp
  then obtain u where w: "w = PStr u" by (cases w) (auto split: if_splits)
  show ?case using json_str_append_inject [of t r u s] PStr.prems(5) by (simp add: w)
next
  case (PInt i)
  have k: "value_kind w = 6" using text_kind_eq [OF PInt.prems(1,2,5)] by simp
  then have "spaced a b (PInt i) = spaced a b w \<and> r = s"
    using number_token_inject [OF PInt.prems(5)] number_text PInt.prems by (metis value_kind.simps(3))
  then show ?case using spaced_number_inject [OF PInt.prems(1,2)] k by simp
next
  case (PFloat i)
  have k: "value_kind w = 6" using text_kind_eq [OF PFloat.prems(1,2,5)] by simp
  then have "spaced a b (PFloat i) = spaced a b w \<and> r = s"
    using number_token_inject [OF PFloat.prems(5)] number_text PFloat.prems by (metis value_kind.simps(4))
  then show ?case using spaced_number_inject [OF PFloat.prems(1,2)] k by simp
next
  case PNone
  have "value_kind w = 0" using text_kind_eq [OF PNone.prems(1,2,5)] by simp
  then have "w = PNone" by (cases w) (auto split: if_splits)
  then show ?case using PNone by simp
next
  case (PBool b)
  have "value_kind w = value_kind (PBool b)" using text_kind_eq [OF PBool.prems(1,2,5)] by simp
  then have "w = PBool b" by (cases w) (auto split: if_splits)
  then show ?case using PBool by simp
qed

subsection \<open>Canonical form\<close>

lemma keys_canonical_dict [simp]: "set (map fst (canonical_dict d)) = set (map fst d)"
  by (force simp: canonical_dict_def)

lemma wf_canonical_dict [simp]: "wf_dict (canonical_dict d) = wf_dict d"
proof -
  have "mset (map fst (canonical_dict d)) = mset (map fst d)"
    by (simp add: canonical_dict_def image_mset.compositionality comp_def)
  then show ?thesis unfolding wf_dict_def by (metis mset_eq_imp_distinct_iff)
qed

lemma map_of_sort_key: "wf_dict d \<Longrightarrow> map_of (sort_key fst d) = map_of d"
proof -
  assume d: "wf_dict d"
  then have "wf_dict (sort_key fst d)"
    unfolding wf_dict_def by (metis mset_eq_imp_distinct_iff mset_map mset_sort)
  then show ?thesis using d unfolding wf_dict_def
    by (simp add: map_of_inject_set)
qed

lemma map_of_canonical_dict:
  "wf_dict d \<Longrightarrow> map_of (canonical_dict d) k = map_option canonicalize_payload (map_of d k)"
proof -
  assume d: "wf_dict d"
  let ?e = "map (\<lambda>kv. (fst kv, canonicalize_payload (snd kv))) d"
  have "wf_dict ?e" using d by (simp add: wf_dict_def comp_def)
  then have "map_of (canonical_dict d) k = map_of ?e k"
    by (simp add: canonical_dict_def map_of_sort_key)
  also have "\<dots> = map_option canonicalize_payload (map_of d k)" by (induction d) auto
  finally show ?thesis .
qed

lemma canonicalize_simps [simp]:
  "canonicalize_payload v = PStr s \<longleftrightarrow> v = PStr s"
  "canonicalize_payload v = PNone \<longleftrightarrow> v = PNone"
  "canonicalize_payload v = PInt i \<longleftrightarrow> v = PInt i"
  "canonicalize_payload v = PBool b \<longleftrightarrow> v = PBool b"
  by (cases v; simp)+

lemma canonicalize_idem [simp]: "canonicalize_payload (canonicalize_payload v) = canonicalize_payload v"
proof (induction v)
  case (PDict d)
  have "sort_key fst (map (\<lambda>kv. (fst kv, canonicalize_payload (snd kv))) (canonical_dict d)) = canonical_dict d"
  proof -
    have "canonicalize_payload (snd kv) = snd kv" if "kv \<in> set (canonical_dict d)" for kv
      using that PDict by (auto simp: canonical_dict_def snds.simps)
    then have "map (\<lambda>kv. (fst kv, canonicalize_payload (snd kv))) (canonical_dict d) = canonical_dict d"
      by (auto intro: map_idI)
    then show ?thesis by (simp add: sort_key_id_if_sorted canonical_dict_def)
  qed
  then show ?case by (simp add: canonical_dict_def)
qed auto

lemma wf_canonicalize: "wf_json v \<Longrightarrow> wf_json (canonicalize_payload v)"
proof (induction v)
  case (PDict d)
  have "wf_json (canonicalize_payload (snd kv))" if "kv \<in> set d" for kv
    using PDict that by (auto simp: snds.simps)
  then show ?case using PDict.prems
    by (auto simp: canonicalize_PDict simp del: canonicalize_payload.simps(2))
      (auto simp: canonical_dict_def)
qed auto

theorem canonical_text_inject:
  assumes "wf_json v" "wf_json w" "canonical_text v = canonical_text w"
  shows "canonicalize_payload v = canonicalize_payload w"
proof -
  have "spaced [] [] (canonicalize_payload v) @ [] = spaced [] [] (canonicalize_payload w) @ []"
    using assms(3) by (simp add: canonical_text_def)
  from spaced_append_inject [OF wf_canonicalize [OF assms(1)] wf_canonicalize [OF assms(2)] _ _ this]
  show ?thesis by (simp add: delimited_def)
qed

text \<open>\<open>json.dumps(v, sort_keys=True)\<close>, with its default separators, and its digest.\<close>

definition sorted_text :: "pyval \<Rightarrow> string" where
  "sorted_text v = json_text '', '' '': '' (canonicalize_payload v)"

definition sorted_hash :: "(string \<Rightarrow> string) \<Rightarrow> pyval \<Rightarrow> string" where
  "sorted_hash H v = H (sorted_text v)"

theorem sorted_text_inject:
  assumes "wf_json v" "wf_json w" "sorted_text v = sorted_text w"
  shows "canonicalize_payload v = canonicalize_payload w"
proof -
  have "spaced '' '' '' '' (canonicalize_payload v) @ [] = spaced '' '' '' '' (canonicalize_payload w) @ []"
    using assms(3) by (simp add: sorted_text_def)
  from spaced_append_inject [OF wf_canonicalize [OF assms(1)] wf_canonicalize [OF assms(2)] _ _ this]
  show ?thesis by (simp add: delimited_def)
qed

text \<open>
  \<open>collision_free H v w\<close>: the digest \<open>H\<close> separates the texts of these two payloads.  This is
  what the program relies on when it compares digests.
\<close>

definition collision_free :: "(string \<Rightarrow> string) \<Rightarrow> pyval \<Rightarrow> pyval \<Rightarrow> bool" where
  "collision_free H v w \<longleftrightarrow>
     (H (canonical_text v) = H (canonical_text w) \<longrightarrow> canonical_text v = canonical_text w)"

lemma payload_hash_inject:
  assumes "payload_hash H v = payload_hash H w" "collision_free H v w" "wf_json v" "wf_json w"
  shows "canonicalize_payload v = canonicalize_payload w"
proof -
  have "canonical_text v = canonical_text w"
    using assms(1,2) by (simp add: payload_hash_def collision_free_def)
  then show ?thesis by (rule canonical_text_inject [OF assms(3,4)])
qed

lemma payload_hash_dict_inject:
  assumes "payload_hash H (PDict d) = payload_hash H (PDict e)" "collision_free H (PDict d) (PDict e)"
    and "wf_json (PDict d)" "wf_json (PDict e)"
  shows "map_option canonicalize_payload (map_of d k) = map_option canonicalize_payload (map_of e k)"
proof -
  have "canonical_dict d = canonical_dict e"
    using payload_hash_inject [OF assms] by (simp only: canonicalize_PDict pyval.inject)
  moreover have "wf_dict d" "wf_dict e" using assms(3,4) by simp_all
  ultimately show ?thesis by (metis map_of_canonical_dict)
qed

text \<open>Equal digests of two dictionaries: equal strings under each key.\<close>

lemma payload_hash_strings:
  assumes "payload_hash H (PDict d) = payload_hash H (PDict e)" "collision_free H (PDict d) (PDict e)"
    and "wf_json (PDict d)" "wf_json (PDict e)"
    and "map_of d k = Some (PStr s)" "map_of e k = Some (PStr t)"
  shows "s = t"
  using payload_hash_dict_inject [OF assms(1-4), of k] assms(5,6) by simp

end
