(* ===== verification/Governance_Models.thy ===== *)
theory Governance_Models imports Json begin

text \<open>
  The data of \<open>imperaos/governance/models.py\<close>: the enumerations, the records of one governance run
  and the approval ticket.  An instant (\<open>datetime.now(UTC)\<close>) is a number of microseconds; the
  database keeps it as ISO text of one format and offset, whose order is the order of the instants.
\<close>

type_synonym time = int

datatype governance_action = Allow | Deny | RequireApproval

datatype governance_phase = TaskPhase | ToolPhase | HandoffPhase | MemoryWritePhase | DeviceActionPhase

datatype approval_status =
  Pending | Approved | Executing | Rejected | Expired | Executed | Consumed | ExecutionFailed | Cancelled

datatype execution_status = NotExecuted | ExecExecuting | ExecExecuted | ExecFailed

text \<open>The text a status has in its column.\<close>

fun approval_status_value :: "approval_status \<Rightarrow> string" where
  "approval_status_value Pending = ''pending''"
| "approval_status_value Approved = ''approved''"
| "approval_status_value Executing = ''executing''"
| "approval_status_value Rejected = ''rejected''"
| "approval_status_value Expired = ''expired''"
| "approval_status_value Executed = ''executed''"
| "approval_status_value Consumed = ''consumed''"
| "approval_status_value ExecutionFailed = ''execution_failed''"
| "approval_status_value Cancelled = ''cancelled''"

fun execution_status_value :: "execution_status \<Rightarrow> string" where
  "execution_status_value NotExecuted = ''not_executed''"
| "execution_status_value ExecExecuting = ''executing''"
| "execution_status_value ExecExecuted = ''executed''"
| "execution_status_value ExecFailed = ''execution_failed''"

fun governance_action_value :: "governance_action \<Rightarrow> string" where
  "governance_action_value Allow = ''allow''"
| "governance_action_value Deny = ''deny''"
| "governance_action_value RequireApproval = ''require_approval''"

text \<open>A column comparison \<open>status = ?\<close> on the texts is equality of the statuses.\<close>

lemma approval_status_value_inject [simp]:
  "approval_status_value s = approval_status_value t \<longleftrightarrow> s = t"
  by (cases s; cases t; simp)

lemma execution_status_value_inject [simp]:
  "execution_status_value s = execution_status_value t \<longleftrightarrow> s = t"
  by (cases s; cases t; simp)

record tool_call_record =
  tc_command_root :: string
  tc_args_fingerprint :: string
  tc_decision_action :: governance_action
  tc_reason_code :: string

record handoff_call_record =
  hc_from_role :: string
  hc_to_role :: string
  hc_payload_hash :: string
  hc_decision_action :: governance_action
  hc_reason_code :: string

record memory_write_record =
  mw_scope :: string
  mw_producer_role :: string
  mw_visibility :: string
  mw_decision_action :: governance_action
  mw_reason_code :: string

record device_action_record =
  da_action_id :: string
  da_category :: string
  da_risk_class :: string
  da_target_ref :: string
  da_app_identity :: string
  da_window_identity :: string
  da_selector_source :: string
  da_decision_action :: governance_action
  da_reason_code :: string

record governance_decision =
  gd_phase :: governance_phase
  gd_target :: string
  gd_action :: governance_action
  gd_reason_code :: string
  gd_matched_rule_path :: "string option"
  gd_policy_schema_version :: string
  gd_policy_version :: string
  gd_policy_hash :: string
  gd_decision_engine_version :: string
  gd_approval_required :: bool
  gd_approval_id :: "string option"
  gd_explain :: "string option"

record approval_ticket =
  t_version :: nat
  t_approval_id :: string
  t_workspace_id :: string
  t_run_id :: string
  t_status :: approval_status
  t_target_kind :: string
  t_target_ref :: string
  t_action_hash :: string
  t_policy_hash :: string
  t_request_hash :: string
  t_snapshot_hash :: string
  t_snapshot :: pydict
  t_expires_at :: time
  t_actor :: "string option"
  t_decision_reason :: "string option"
  t_execution_status :: execution_status
  t_executed_at :: "time option"
  t_execution_error_code :: "string option"
  t_executed_by :: "string option"
  t_execution_contract_hash :: "string option"
  t_execution_attempt_id :: "string option"
  t_execution_claimed_at :: "time option"
  t_execution_result_hash :: "string option"
  t_resume_token_ref :: "string option"
  t_resume_claimed_job_id :: "string option"
  t_resume_claimed_at :: "time option"
  t_consumed_by_job_id :: "string option"
  t_consumed_at :: "time option"
  t_idempotency_key :: string
  t_created_at :: time
  t_decided_at :: "time option"

end
