(* ===== verification/Sql_Table.thy ===== *)
theory Sql_Table imports Prelude begin

text \<open>
  The SQL statements the stores run, over a table that is the list of its rows in rowid order:
  \<open>UPDATE t SET .. WHERE ..\<close> gives the new rows and the row count, \<open>SELECT .. fetchone()\<close> the first
  matching row, \<open>ORDER BY\<close> a stable sort.  Two locales state what a guarded update of a keyed table
  promises: \<open>keyed_update\<close> (the key column is not written) and \<open>versioned_update\<close> (every write
  also bumps the version column, the optimistic lock of the stores).
\<close>

section \<open>Statements\<close>

definition sql_update :: "('r \<Rightarrow> bool) \<Rightarrow> ('r \<Rightarrow> 'r) \<Rightarrow> 'r list \<Rightarrow> 'r list \<times> nat" where
  "sql_update p f rs = (map (\<lambda>r. if p r then f r else r) rs, length (filter p rs))"

definition sql_fetchone :: "('r \<Rightarrow> bool) \<Rightarrow> 'r list \<Rightarrow> 'r option" where
  "sql_fetchone p rs = List.find p rs"

definition sql_fetchall :: "('r \<Rightarrow> bool) \<Rightarrow> 'r list \<Rightarrow> 'r list" where
  "sql_fetchall p rs = filter p rs"

definition lookup_key :: "('r \<Rightarrow> 'k) \<Rightarrow> 'k \<Rightarrow> 'r list \<Rightarrow> 'r option" where
  "lookup_key key k rs = List.find (\<lambda>r. key r = k) rs"

definition keys_distinct :: "('r \<Rightarrow> 'k) \<Rightarrow> 'r list \<Rightarrow> bool" where
  "keys_distinct key rs \<longleftrightarrow> distinct (map key rs)"

lemma sql_update_rows: "fst (sql_update p f rs) = map (\<lambda>r. if p r then f r else r) rs"
  by (simp add: sql_update_def)

lemma sql_update_count: "snd (sql_update p f rs) = length (filter p rs)"
  by (simp add: sql_update_def)

lemma sql_update_count_0: "snd (sql_update p f rs) = 0 \<longleftrightarrow> (\<forall>r \<in> set rs. \<not> p r)"
  by (simp add: sql_update_count filter_empty_conv)

lemma sql_update_none: "snd (sql_update p f rs) = 0 \<Longrightarrow> fst (sql_update p f rs) = rs"
  by (simp add: sql_update_count_0) (simp add: sql_update_rows map_idI)

lemma sql_update_set:
  "r' \<in> set (fst (sql_update p f rs)) \<Longrightarrow> \<exists>r \<in> set rs. r' = (if p r then f r else r)"
  by (auto simp: sql_update_rows)

text \<open>\<open>INSERT OR REPLACE\<close>: the rows that clash with the new one under some unique index go first.\<close>

definition sql_replace :: "('r \<Rightarrow> bool) \<Rightarrow> 'r \<Rightarrow> 'r list \<Rightarrow> 'r list" where
  "sql_replace clash row rs = filter (\<lambda>r. \<not> clash r) rs @ [row]"

lemma sql_replace_set: "r \<in> set (sql_replace clash row rs) \<longleftrightarrow> r = row \<or> (r \<in> set rs \<and> \<not> clash r)"
  by (auto simp: sql_replace_def)

lemma lookup_key_Some: "lookup_key key k rs = Some r \<Longrightarrow> r \<in> set rs \<and> key r = k"
  unfolding lookup_key_def by (rule find_eq_SomeD)

lemma lookup_key_None: "lookup_key key k rs = None \<longleftrightarrow> k \<notin> key ` set rs"
  by (auto simp: lookup_key_def find_None_iff)

lemma lookup_key_Cons [simp]:
  "lookup_key key k (r # rs) = (if key r = k then Some r else lookup_key key k rs)"
  "lookup_key key k [] = None"
  by (simp_all add: lookup_key_def)

lemma lookup_key_append:
  "lookup_key key k (rs @ ss) = (case lookup_key key k rs of None \<Rightarrow> lookup_key key k ss | Some r \<Rightarrow> Some r)"
  by (induction rs) auto

lemma lookup_key_member:
  "keys_distinct key rs \<Longrightarrow> r \<in> set rs \<Longrightarrow> lookup_key key (key r) rs = Some r"
  by (induction rs) (auto simp: keys_distinct_def)

text \<open>A replacement that clears its own key keeps the keys distinct and is found under its key.\<close>

lemma replace_distinct:
  assumes "keys_distinct key rs" "\<And>r. r \<in> set rs \<Longrightarrow> key r = key row \<Longrightarrow> clash r"
  shows "keys_distinct key (sql_replace clash row rs)"
proof -
  have "distinct (map key (filter (\<lambda>r. \<not> clash r) rs))"
    using assms(1) by (simp add: keys_distinct_def distinct_map_filter)
  moreover have "key row \<notin> key ` {r \<in> set rs. \<not> clash r}" using assms(2) by force
  ultimately show ?thesis by (simp add: keys_distinct_def sql_replace_def)
qed

lemma find_replace:
  assumes "P row" "\<And>r. r \<in> set rs \<Longrightarrow> P r \<Longrightarrow> clash r"
  shows "List.find P (sql_replace clash row rs) = Some row"
  using assms(2) unfolding sql_replace_def by (induction rs) (auto simp: assms(1))

lemma find_replace_other:
  assumes "\<not> P row" "\<And>r. r \<in> set rs \<Longrightarrow> P r \<Longrightarrow> \<not> clash r"
  shows "List.find P (sql_replace clash row rs) = List.find P rs"
  using assms(2) unfolding sql_replace_def by (induction rs) (auto simp: assms(1))

lemma replace_no_clash: "\<forall>r \<in> set rs. \<not> clash r \<Longrightarrow> sql_replace clash row rs = rs @ [row]"
  by (simp add: sql_replace_def)

text \<open>A query on the key and further columns finds the row the key names, or nothing.\<close>

lemma fetchone_key:
  assumes "keys_distinct key rs"
  shows "sql_fetchone (\<lambda>r. key r = k \<and> q r) rs =
    (case lookup_key key k rs of None \<Rightarrow> None | Some r \<Rightarrow> if q r then Some r else None)"
  using assms
proof (induction rs)
  case (Cons r rs)
  have "sql_fetchone (\<lambda>r. key r = k \<and> q r) rs = None" if "key r = k"
    using Cons.prems that unfolding sql_fetchone_def find_None_iff keys_distinct_def
    by (metis distinct.simps(2) image_eqI list.simps(9) set_map)
  then show ?case using Cons by (auto simp: sql_fetchone_def keys_distinct_def)
qed (simp add: sql_fetchone_def)

section \<open>Updates of a keyed table\<close>

locale keyed_update =
  fixes key :: "'r \<Rightarrow> 'k"
    and guard :: "'r \<Rightarrow> bool"
    and eff :: "'r \<Rightarrow> 'r"
  assumes eff_key: "guard r \<Longrightarrow> key (eff r) = key r"
begin

lemma keys_kept: "map key (fst (sql_update guard eff rs)) = map key rs"
  by (simp add: sql_update_rows eff_key)

lemma distinct_kept: "keys_distinct key rs \<Longrightarrow> keys_distinct key (fst (sql_update guard eff rs))"
  using keys_kept by (simp add: keys_distinct_def)

lemma lookup_after:
  "lookup_key key k (fst (sql_update guard eff rs)) =
     map_option (\<lambda>r. if guard r then eff r else r) (lookup_key key k rs)"
  by (induction rs) (auto simp: sql_update_rows eff_key)

text \<open>A guard that names the key touches at most one row.\<close>

lemma count_le_one:
  assumes "\<And>r. guard r \<Longrightarrow> key r = k" "keys_distinct key rs"
  shows "snd (sql_update guard eff rs) \<le> 1"
  using assms(2)
proof (induction rs)
  case (Cons r rs)
  show ?case
  proof (cases "guard r")
    case True
    have "\<not> guard s" if "s \<in> set rs" for s
      using Cons.prems that assms(1) [OF True] assms(1) [of s] unfolding keys_distinct_def
      by (metis distinct.simps(2) image_eqI list.simps(9) set_map)
    then have "snd (sql_update guard eff rs) = 0"
      by (simp add: sql_update_count_0)
    then show ?thesis by (simp add: sql_update_count)
  next
    case False
    with Cons show ?thesis by (simp add: sql_update_count keys_distinct_def)
  qed
qed (simp add: sql_update_count)

lemma count_one_iff:
  assumes "\<And>r. guard r \<Longrightarrow> key r = k" "keys_distinct key rs"
  shows "snd (sql_update guard eff rs) = 1 \<longleftrightarrow> (\<exists>r. lookup_key key k rs = Some r \<and> guard r)"
proof -
  have "snd (sql_update guard eff rs) \<noteq> 0 \<longleftrightarrow> (\<exists>r. lookup_key key k rs = Some r \<and> guard r)"
    unfolding sql_update_count_0 using lookup_key_member [OF assms(2)] assms(1) lookup_key_Some
    by metis
  moreover have "snd (sql_update guard eff rs) \<le> 1" using assms by (rule count_le_one)
  then have "snd (sql_update guard eff rs) = 1 \<longleftrightarrow> snd (sql_update guard eff rs) \<noteq> 0" by auto
  ultimately show ?thesis by simp
qed

end

locale versioned_update = keyed_update +
  fixes version :: "'r \<Rightarrow> nat"
  assumes eff_version: "guard r \<Longrightarrow> version (eff r) = Suc (version r)"
begin

lemma version_mono:
  assumes "lookup_key key k rs = Some r"
  shows "\<exists>r'. lookup_key key k (fst (sql_update guard eff rs)) = Some r' \<and> version r \<le> version r' \<and>
    (version r' = version r \<longrightarrow> r' = r)"
  using assms by (auto simp: lookup_after eff_version)

text \<open>
  Compare and swap: a statement guarded by the version a caller read changes nothing once the row
  has been written by anyone since.
\<close>

lemma stale_version_noop:
  assumes "\<And>r. guard r \<Longrightarrow> key r = k \<and> version r = v"
    and "lookup_key key k rs = Some r" "version r \<noteq> v" "keys_distinct key rs"
  shows "sql_update guard eff rs = (rs, 0)"
proof -
  have "\<not> guard s" if "s \<in> set rs" for s
    using assms lookup_key_member [OF assms(4) that] by fastforce
  then show ?thesis
    using sql_update_none [of guard eff rs] sql_update_count_0 [of guard eff rs] by (metis prod.collapse)
qed

end

end
