(* ===== verification/Approval_Store.thy ===== *)
theory Approval_Store imports Governance_Models Sql_Table begin

text \<open>
  The approval store, \<open>imperaos/governance/approval_store.py\<close>: the table of approvals, one guard and
  one effect per \<open>UPDATE\<close> statement, and every operation of the class composed from them.

  \<^item> A row has the columns of the \<open>CREATE TABLE\<close>; the snapshot column is the value its JSON text
    parses to (keys sorted), a status column its enumeration value.
  \<^item> \<open>clk i\<close> is the \<open>i\<close>-th reading of the clock in an operation.
  \<^item> \<open>env i\<close> is what other connections commit in the \<open>i\<close>-th gap between two transactions of the
    operation; \<open>\<lambda>_. id\<close> is a store nobody else uses.
  \<^item> A result is the ticket and the error code of \<open>ApprovalDecisionResult\<close>.
\<close>

section \<open>Digests of an execution contract\<close>

definition build_resume_token_ref ::
  "(string \<Rightarrow> string) \<Rightarrow> string \<Rightarrow> string \<Rightarrow> string \<Rightarrow> string \<Rightarrow> string \<Rightarrow> string" where
  "build_resume_token_ref H source_job_id task_run_id approval_id snapshot_hash target_kind =
     payload_hash H (PDict
       [(''source_job_id'', PStr source_job_id),
        (''task_run_id'', PStr task_run_id),
        (''approval_id'', PStr approval_id),
        (''snapshot_hash'', PStr snapshot_hash),
        (''target_kind'', PStr target_kind)])"

definition build_execution_contract_hash ::
  "(string \<Rightarrow> string) \<Rightarrow> string \<Rightarrow> string \<Rightarrow> string \<Rightarrow> pydict \<Rightarrow> string" where
  "build_execution_contract_hash H resume_token_ref action_hash policy_hash contract =
     payload_hash H (PDict
       [(''resume_token_ref'', PStr resume_token_ref),
        (''action_hash'', PStr action_hash),
        (''policy_hash'', PStr policy_hash),
        (''contract'', canonicalize_payload (PDict contract))])"

definition derive_execution_contract_refs ::
  "(string \<Rightarrow> string) \<Rightarrow> string \<Rightarrow> string \<Rightarrow> string \<Rightarrow> string \<Rightarrow> string \<Rightarrow> pydict \<Rightarrow> string option \<Rightarrow>
   string option \<times> string option" where
  "derive_execution_contract_refs H source_job_id approval_id snapshot_hash target_kind policy_hash
     contract fallback_action_hash =
   (let contract_task_run_id = py_strip (py_str (py_or (dict_get contract ''task_run_id'') (PStr [])));
        effective_target_kind =
          py_strip (py_str (py_or (dict_get contract ''target_kind'') (py_or (PStr target_kind) (PStr []))));
        effective_action_hash =
          py_strip (py_str (py_or (dict_get contract ''action_payload_hash'')
                                  (py_or (pv_of_opt fallback_action_hash) (PStr []))))
    in if \<not> (source_job_id \<noteq> [] \<and> approval_id \<noteq> [] \<and> snapshot_hash \<noteq> [] \<and> contract_task_run_id \<noteq> [] \<and>
             effective_target_kind \<noteq> [] \<and> effective_action_hash \<noteq> [])
       then (None, None)
       else let resume_token_ref =
                  build_resume_token_ref H source_job_id contract_task_run_id approval_id snapshot_hash
                    effective_target_kind;
                execution_contract_hash =
                  build_execution_contract_hash H resume_token_ref effective_action_hash policy_hash contract
            in (Some resume_token_ref, Some execution_contract_hash))"

section \<open>Rows and tickets\<close>

record approval_row =
  r_approval_id :: string
  r_workspace_id :: string
  r_version :: nat
  r_run_id :: string
  r_status :: approval_status
  r_target_kind :: string
  r_target_ref :: string
  r_action_hash :: string
  r_policy_hash :: string
  r_request_hash :: string
  r_snapshot_hash :: string
  r_snapshot_json :: pydict
  r_expires_at :: time
  r_actor :: "string option"
  r_decision_reason :: "string option"
  r_execution_status :: execution_status
  r_executed_at :: "time option"
  r_execution_error_code :: "string option"
  r_executed_by :: "string option"
  r_execution_contract_hash :: "string option"
  r_execution_attempt_id :: "string option"
  r_execution_claimed_at :: "time option"
  r_execution_result_hash :: "string option"
  r_resume_token_ref :: "string option"
  r_resume_claimed_job_id :: "string option"
  r_resume_claimed_at :: "time option"
  r_consumed_by_job_id :: "string option"
  r_consumed_at :: "time option"
  r_idempotency_key :: string
  r_created_at :: time
  r_decided_at :: "time option"

record approval_db =
  approvals :: "approval_row list"
  schema_meta :: "string option"

text \<open>A nullable text column read as \<open>str(x) if x else None\<close>.\<close>

definition text_or_none :: "string option \<Rightarrow> string option" where
  "text_or_none c = (if opt_truthy c then c else None)"

definition effective_execution_contract_hash ::
  "(string \<Rightarrow> string) \<Rightarrow> approval_ticket \<Rightarrow> string option" where
  "effective_execution_contract_hash H ticket =
   (case dict_get_default (t_snapshot ticket) ''execution_contract'' (PDict []) of
      PDict contract \<Rightarrow>
        (if contract = [] then t_execution_contract_hash ticket
         else opt_or
           (snd (derive_execution_contract_refs H (t_run_id ticket) (t_approval_id ticket)
              (t_snapshot_hash ticket) (t_target_kind ticket) (t_policy_hash ticket) contract
              (Some (t_action_hash ticket))))
           (t_execution_contract_hash ticket))
    | _ \<Rightarrow> t_execution_contract_hash ticket)"

definition ticket_of_columns :: "approval_row \<Rightarrow> approval_ticket" where
  "ticket_of_columns r =
     \<lparr>t_version = r_version r, t_approval_id = r_approval_id r, t_workspace_id = r_workspace_id r,
      t_run_id = r_run_id r, t_status = r_status r, t_target_kind = r_target_kind r,
      t_target_ref = r_target_ref r, t_action_hash = r_action_hash r, t_policy_hash = r_policy_hash r,
      t_request_hash = r_request_hash r, t_snapshot_hash = r_snapshot_hash r,
      t_snapshot = r_snapshot_json r, t_expires_at = r_expires_at r,
      t_actor = text_or_none (r_actor r), t_decision_reason = text_or_none (r_decision_reason r),
      t_execution_status = r_execution_status r, t_executed_at = r_executed_at r,
      t_execution_error_code = text_or_none (r_execution_error_code r),
      t_executed_by = text_or_none (r_executed_by r),
      t_execution_contract_hash = text_or_none (r_execution_contract_hash r),
      t_execution_attempt_id = text_or_none (r_execution_attempt_id r),
      t_execution_claimed_at = r_execution_claimed_at r,
      t_execution_result_hash = text_or_none (r_execution_result_hash r),
      t_resume_token_ref = text_or_none (r_resume_token_ref r),
      t_resume_claimed_job_id = text_or_none (r_resume_claimed_job_id r),
      t_resume_claimed_at = r_resume_claimed_at r,
      t_consumed_by_job_id = text_or_none (r_consumed_by_job_id r),
      t_consumed_at = r_consumed_at r, t_idempotency_key = r_idempotency_key r,
      t_created_at = r_created_at r, t_decided_at = r_decided_at r\<rparr>"

definition row_to_ticket :: "(string \<Rightarrow> string) \<Rightarrow> approval_row \<Rightarrow> approval_ticket" where
  "row_to_ticket H r =
     (let ticket = ticket_of_columns r in
      case effective_execution_contract_hash H ticket of
        None \<Rightarrow> ticket
      | Some h \<Rightarrow> ticket\<lparr>t_execution_contract_hash := Some h\<rparr>)"

type_synonym decision_result = "approval_ticket option \<times> string option"

section \<open>Queries\<close>

definition has_workspace :: "string option \<Rightarrow> bool" where
  "has_workspace w = (case w of None \<Rightarrow> False | Some s \<Rightarrow> py_strip s \<noteq> [])"

definition select_row :: "string \<Rightarrow> string \<Rightarrow> approval_db \<Rightarrow> approval_row option" where
  "select_row approval_id workspace_id db =
     sql_fetchone (\<lambda>r. r_approval_id r = approval_id \<and> r_workspace_id r = workspace_id) (approvals db)"

definition get :: "(string \<Rightarrow> string) \<Rightarrow> approval_db \<Rightarrow> string \<Rightarrow> string option \<Rightarrow> approval_ticket option" where
  "get H db approval_id workspace_id =
     (if \<not> has_workspace workspace_id then None
      else map_option (row_to_ticket H) (select_row approval_id (the workspace_id) db))"

definition get_by_idempotency_key_conn ::
  "(string \<Rightarrow> string) \<Rightarrow> approval_db \<Rightarrow> string \<Rightarrow> string option \<Rightarrow> approval_ticket option" where
  "get_by_idempotency_key_conn H db idempotency_key workspace_id =
     map_option (row_to_ticket H)
       (case workspace_id of
          None \<Rightarrow> sql_fetchone (\<lambda>r. r_idempotency_key r = idempotency_key) (approvals db)
        | Some w \<Rightarrow> sql_fetchone (\<lambda>r. r_idempotency_key r = idempotency_key \<and> r_workspace_id r = w)
                      (approvals db))"

definition get_by_idempotency_key ::
  "(string \<Rightarrow> string) \<Rightarrow> approval_db \<Rightarrow> string \<Rightarrow> string option \<Rightarrow> approval_ticket option" where
  "get_by_idempotency_key H db idempotency_key workspace_id =
     (if \<not> has_workspace workspace_id then None
      else get_by_idempotency_key_conn H db idempotency_key workspace_id)"

definition schema_version :: "approval_db \<Rightarrow> string" where
  "schema_version db = (case schema_meta db of None \<Rightarrow> ''3.0'' | Some v \<Rightarrow> v)"

section \<open>The UPDATE statements\<close>

text \<open>Every statement, as its \<open>WHERE\<close> clause and its \<open>SET\<close> clause.\<close>

definition at_row :: "string \<Rightarrow> string \<Rightarrow> approval_row \<Rightarrow> bool" where
  "at_row approval_id workspace_id r \<longleftrightarrow>
     r_approval_id r = approval_id \<and> r_workspace_id r = workspace_id"

definition at_version :: "string \<Rightarrow> string \<Rightarrow> nat \<Rightarrow> approval_row \<Rightarrow> bool" where
  "at_version approval_id workspace_id v r \<longleftrightarrow> at_row approval_id workspace_id r \<and> r_version r = v"

definition run_update ::
  "(approval_row \<Rightarrow> bool) \<Rightarrow> (approval_row \<Rightarrow> approval_row) \<Rightarrow> approval_db \<Rightarrow> approval_db \<times> nat" where
  "run_update guard eff db =
     (let res = sql_update guard eff (approvals db)
      in (db\<lparr>approvals := fst res\<rparr>, snd res))"

definition expire_guard :: "time \<Rightarrow> approval_row \<Rightarrow> bool" where
  "expire_guard now r \<longleftrightarrow> r_status r \<in> {Pending, Approved} \<and> r_expires_at r \<le> now"

definition expire_effect :: "approval_row \<Rightarrow> approval_row" where
  "expire_effect r = r\<lparr>r_status := Expired, r_version := Suc (r_version r)\<rparr>"

definition claim_action_guard :: "string \<Rightarrow> string \<Rightarrow> nat \<Rightarrow> approval_row \<Rightarrow> bool" where
  "claim_action_guard approval_id workspace_id v r \<longleftrightarrow>
     at_version approval_id workspace_id v r \<and> r_status r = Approved"

definition claim_action_effect :: "time \<Rightarrow> string \<Rightarrow> string \<Rightarrow> approval_row \<Rightarrow> approval_row" where
  "claim_action_effect now executor_principal_id claim_id r =
     r\<lparr>r_status := Executed, r_execution_status := ExecExecuted, r_executed_at := Some now,
       r_executed_by := Some executor_principal_id, r_resume_claimed_job_id := Some claim_id,
       r_resume_claimed_at := Some now, r_version := Suc (r_version r)\<rparr>"

definition complete_action_guard :: "string \<Rightarrow> string \<Rightarrow> nat \<Rightarrow> string \<Rightarrow> approval_row \<Rightarrow> bool" where
  "complete_action_guard approval_id workspace_id v claim_id r \<longleftrightarrow>
     at_version approval_id workspace_id v r \<and> r_status r = Executed \<and>
     r_resume_claimed_job_id r = Some claim_id"

definition consume_effect :: "time \<Rightarrow> string \<Rightarrow> approval_row \<Rightarrow> approval_row" where
  "consume_effect now job_id r =
     r\<lparr>r_status := Consumed, r_consumed_by_job_id := Some job_id, r_consumed_at := Some now,
       r_version := Suc (r_version r)\<rparr>"

definition claim_execution_guard :: "string \<Rightarrow> string \<Rightarrow> nat \<Rightarrow> approval_row \<Rightarrow> bool" where
  "claim_execution_guard approval_id workspace_id v r \<longleftrightarrow>
     at_version approval_id workspace_id v r \<and> r_status r = Approved"

definition claim_execution_effect :: "time \<Rightarrow> string \<Rightarrow> string \<Rightarrow> approval_row \<Rightarrow> approval_row" where
  "claim_execution_effect now attempt_id actor r =
     r\<lparr>r_status := Executing, r_execution_status := ExecExecuting,
       r_execution_attempt_id := Some attempt_id, r_execution_claimed_at := Some now,
       r_executed_by := Some actor, r_version := Suc (r_version r)\<rparr>"

definition finalize_guard :: "string \<Rightarrow> string \<Rightarrow> string \<Rightarrow> approval_row \<Rightarrow> bool" where
  "finalize_guard approval_id workspace_id attempt_id r \<longleftrightarrow>
     at_row approval_id workspace_id r \<and> r_status r = Executing \<and>
     r_execution_attempt_id r = Some attempt_id"

definition finalize_effect ::
  "time \<Rightarrow> approval_status \<Rightarrow> execution_status \<Rightarrow> string option \<Rightarrow> string option \<Rightarrow>
   approval_row \<Rightarrow> approval_row" where
  "finalize_effect now status execution_status result_hash error_code r =
     r\<lparr>r_status := status, r_execution_status := execution_status, r_executed_at := Some now,
       r_execution_result_hash := result_hash, r_execution_error_code := error_code,
       r_version := Suc (r_version r)\<rparr>"

definition decide_guard :: "string \<Rightarrow> string \<Rightarrow> nat \<Rightarrow> approval_row \<Rightarrow> bool" where
  "decide_guard approval_id workspace_id v r \<longleftrightarrow>
     at_version approval_id workspace_id v r \<and> r_status r = Pending"

definition decide_effect ::
  "time \<Rightarrow> bool \<Rightarrow> string \<Rightarrow> string option \<Rightarrow> approval_row \<Rightarrow> approval_row" where
  "decide_effect now approve actor reason r =
     r\<lparr>r_status := (if approve then Approved else Rejected), r_actor := Some actor,
       r_decision_reason := reason, r_decided_at := Some now, r_version := Suc (r_version r)\<rparr>"

definition mark_executed_effect :: "time \<Rightarrow> string \<Rightarrow> approval_row \<Rightarrow> approval_row" where
  "mark_executed_effect now executed_by r =
     r\<lparr>r_status := Executed, r_execution_status := ExecExecuted, r_executed_at := Some now,
       r_executed_by := Some executed_by, r_version := Suc (r_version r)\<rparr>"

definition mark_failed_effect :: "time \<Rightarrow> string \<Rightarrow> approval_row \<Rightarrow> approval_row" where
  "mark_failed_effect now error_code r =
     r\<lparr>r_status := ExecutionFailed, r_execution_status := ExecFailed, r_executed_at := Some now,
       r_execution_error_code := Some error_code, r_version := Suc (r_version r)\<rparr>"

definition mark_consumed_guard :: "string \<Rightarrow> string \<Rightarrow> nat \<Rightarrow> approval_row \<Rightarrow> bool" where
  "mark_consumed_guard approval_id workspace_id v r \<longleftrightarrow>
     at_version approval_id workspace_id v r \<and> r_status r = Executed"

definition attach_effect ::
  "string \<Rightarrow> pydict \<Rightarrow> string \<Rightarrow> approval_row \<Rightarrow> approval_row" where
  "attach_effect snapshot_hash snapshot contract_hash r =
     r\<lparr>r_snapshot_hash := snapshot_hash, r_snapshot_json := canonical_dict snapshot,
       r_execution_contract_hash := Some contract_hash, r_resume_token_ref := None,
       r_resume_claimed_job_id := None, r_resume_claimed_at := None,
       r_version := Suc (r_version r)\<rparr>"

definition claim_resume_guard ::
  "string \<Rightarrow> string \<Rightarrow> nat \<Rightarrow> string \<Rightarrow> string \<Rightarrow> approval_row \<Rightarrow> bool" where
  "claim_resume_guard approval_id workspace_id v resume_job_id resume_token_ref r \<longleftrightarrow>
     at_version approval_id workspace_id v r \<and> r_status r = Executed \<and> r_consumed_at r = None \<and>
     (r_resume_claimed_job_id r = None \<or>
      (r_resume_claimed_job_id r = Some resume_job_id \<and> r_resume_token_ref r = Some resume_token_ref))"

definition claim_resume_effect :: "time \<Rightarrow> string \<Rightarrow> string \<Rightarrow> approval_row \<Rightarrow> approval_row" where
  "claim_resume_effect now resume_job_id resume_token_ref r =
     r\<lparr>r_resume_token_ref := Some resume_token_ref, r_resume_claimed_job_id := Some resume_job_id,
       r_resume_claimed_at := Some now, r_version := Suc (r_version r)\<rparr>"

section \<open>Workspace binding\<close>

definition legacy_unbound_workspace :: string where
  "legacy_unbound_workspace = ''__legacy_unbound__''"

text \<open>The stripped text of a value that is a non-blank string.\<close>

definition binding_candidate :: "pyval \<Rightarrow> string list" where
  "binding_candidate v = (case v of PStr s \<Rightarrow> (if py_strip s \<noteq> [] then [py_strip s] else []) | _ \<Rightarrow> [])"

definition canonical_workspace_binding ::
  "string option \<Rightarrow> string \<Rightarrow> string \<Rightarrow> pydict \<Rightarrow> string + string" where
  "canonical_workspace_binding workspace_id target_kind target_ref snapshot =
   (let candidates = remdups (concat (map binding_candidate
          [pv_of_opt workspace_id, dict_get snapshot ''workspaceId'', dict_get snapshot ''workspace_id'']));
        (prefix, separator, remainder) = py_partition CHR '':'' target_ref;
        artifact = starts_with target_kind ''artifact''
    in if artifact \<and> (\<not> separator \<or> py_strip prefix = [] \<or> py_strip remainder = [])
       then Inl ''artifact approval workspace binding is malformed''
       else let candidates = (if artifact then List.insert (py_strip prefix) candidates else candidates)
            in case candidates of
                 [] \<Rightarrow> Inl ''approval workspace binding is required''
               | [bound] \<Rightarrow>
                   (if bound = legacy_unbound_workspace
                    then Inl ''approval workspace binding is reserved'' else Inr bound)
               | _ \<Rightarrow> Inl ''approval workspace binding is inconsistent'')"

text \<open>The bindings a legacy row offers, and the statement of \<open>_backfill_workspace_bindings\<close>.\<close>

definition backfill_candidates :: "approval_row \<Rightarrow> string list" where
  "backfill_candidates r =
   (let candidates = remdups (concat (map binding_candidate
          [dict_get (r_snapshot_json r) ''workspaceId'', dict_get (r_snapshot_json r) ''workspace_id'']));
        (prefix, separator, remainder) = py_partition CHR '':'' (r_target_ref r)
    in if starts_with (r_target_kind r) ''artifact'' \<and> separator \<and> py_strip prefix \<noteq> [] \<and>
          py_strip remainder \<noteq> []
       then List.insert (py_strip prefix) candidates else candidates)"

definition backfill_row :: "approval_row \<Rightarrow> approval_row" where
  "backfill_row r =
     (if r_workspace_id r = legacy_unbound_workspace
      then (case backfill_candidates r of [bound] \<Rightarrow> r\<lparr>r_workspace_id := bound\<rparr> | _ \<Rightarrow> r)
      else r)"

definition backfill_workspace_bindings :: "approval_db \<Rightarrow> approval_db" where
  "backfill_workspace_bindings db = db\<lparr>approvals := map backfill_row (approvals db)\<rparr>"

text \<open>Opening the store on an existing or new file.\<close>

definition init_db :: "approval_db \<Rightarrow> approval_db" where
  "init_db db = (backfill_workspace_bindings db)\<lparr>schema_meta := Some ''3.0''\<rparr>"

definition empty_db :: approval_db where
  "empty_db = \<lparr>approvals = [], schema_meta = None\<rparr>"

end
