(* ===== verification/Approval_Ops.thy ===== *)
theory Approval_Ops imports Approval_Store begin

text \<open>
  The operations of \<open>ApprovalStore\<close>, each composed from the statements of theory
  \<open>Approval_Store\<close> the way the method composes them: its transactions in order, its early returns,
  and the commits of other connections in the gaps.
\<close>

section \<open>Creating a ticket\<close>

datatype create_error = ValueError string | IntegrityError

record create_args =
  q_workspace_id :: "string option"
  q_run_id :: string
  q_target_kind :: string
  q_target_ref :: string
  q_action_hash :: string
  q_policy_hash :: string
  q_request_hash :: string
  q_snapshot_hash :: string
  q_snapshot :: pydict
  q_ttl_seconds :: int
  q_idempotency_key :: string

definition new_ticket :: "time \<Rightarrow> string \<Rightarrow> string \<Rightarrow> create_args \<Rightarrow> approval_ticket" where
  "new_ticket now uuid bound_workspace q =
     \<lparr>t_version = 0, t_approval_id = uuid, t_workspace_id = bound_workspace, t_run_id = q_run_id q,
      t_status = Pending, t_target_kind = q_target_kind q, t_target_ref = q_target_ref q,
      t_action_hash = q_action_hash q, t_policy_hash = q_policy_hash q,
      t_request_hash = q_request_hash q, t_snapshot_hash = q_snapshot_hash q,
      t_snapshot = q_snapshot q, t_expires_at = now + q_ttl_seconds q * 1000000,
      t_actor = None, t_decision_reason = None, t_execution_status = NotExecuted,
      t_executed_at = None, t_execution_error_code = None, t_executed_by = None,
      t_execution_contract_hash = None, t_execution_attempt_id = None,
      t_execution_claimed_at = None, t_execution_result_hash = None, t_resume_token_ref = None,
      t_resume_claimed_job_id = None, t_resume_claimed_at = None, t_consumed_by_job_id = None,
      t_consumed_at = None, t_idempotency_key = q_idempotency_key q, t_created_at = now,
      t_decided_at = None\<rparr>"

text \<open>The row the \<open>INSERT\<close> writes: the columns it does not name are null.\<close>

definition insert_row :: "approval_ticket \<Rightarrow> approval_row" where
  "insert_row t =
     \<lparr>r_approval_id = t_approval_id t, r_workspace_id = t_workspace_id t, r_version = t_version t,
      r_run_id = t_run_id t, r_status = t_status t, r_target_kind = t_target_kind t,
      r_target_ref = t_target_ref t, r_action_hash = t_action_hash t, r_policy_hash = t_policy_hash t,
      r_request_hash = t_request_hash t, r_snapshot_hash = t_snapshot_hash t,
      r_snapshot_json = canonical_dict (t_snapshot t), r_expires_at = t_expires_at t,
      r_actor = t_actor t, r_decision_reason = t_decision_reason t,
      r_execution_status = t_execution_status t, r_executed_at = t_executed_at t,
      r_execution_error_code = t_execution_error_code t, r_executed_by = t_executed_by t,
      r_execution_contract_hash = t_execution_contract_hash t,
      r_execution_attempt_id = None, r_execution_claimed_at = None, r_execution_result_hash = None,
      r_resume_token_ref = t_resume_token_ref t, r_resume_claimed_job_id = t_resume_claimed_job_id t,
      r_resume_claimed_at = t_resume_claimed_at t, r_consumed_by_job_id = t_consumed_by_job_id t,
      r_consumed_at = t_consumed_at t, r_idempotency_key = t_idempotency_key t,
      r_created_at = t_created_at t, r_decided_at = t_decided_at t\<rparr>"

definition violates_unique :: "approval_row \<Rightarrow> approval_db \<Rightarrow> bool" where
  "violates_unique r db \<longleftrightarrow>
     (\<exists>s \<in> set (approvals db). r_approval_id s = r_approval_id r \<or> r_idempotency_key s = r_idempotency_key r)"

definition create_ticket ::
  "(string \<Rightarrow> string) \<Rightarrow> time \<Rightarrow> string \<Rightarrow> create_args \<Rightarrow> approval_db \<Rightarrow>
   approval_db \<times> (create_error + approval_ticket)" where
  "create_ticket H now uuid q db =
   (case canonical_workspace_binding (q_workspace_id q) (q_target_kind q) (q_target_ref q) (q_snapshot q) of
      Inl message \<Rightarrow> (db, Inl (ValueError message))
    | Inr bound_workspace \<Rightarrow>
        let ticket = new_ticket now uuid bound_workspace q; row = insert_row ticket
        in if violates_unique row db
           then (case get_by_idempotency_key_conn H db (q_idempotency_key q) (Some bound_workspace) of
                   Some existing \<Rightarrow> (db, Inr existing)
                 | None \<Rightarrow> (db, Inl IntegrityError))
           else (db\<lparr>approvals := approvals db @ [row]\<rparr>, Inr ticket))"

section \<open>Expiry and listing\<close>

definition expire_pending :: "time \<Rightarrow> approval_db \<Rightarrow> approval_db" where
  "expire_pending now db = fst (run_update (expire_guard now) expire_effect db)"

definition list_pending ::
  "(string \<Rightarrow> string) \<Rightarrow> time \<Rightarrow> (nat \<Rightarrow> approval_db \<Rightarrow> approval_db) \<Rightarrow> string option \<Rightarrow> approval_db \<Rightarrow>
   approval_db \<times> approval_ticket list" where
  "list_pending H now env workspace_id db =
   (let db1 = expire_pending now db
    in if \<not> has_workspace workspace_id then (db1, [])
       else let db2 = env 0 db1 in
         (db2, map (row_to_ticket H)
           (sort_key r_created_at
             (sql_fetchall (\<lambda>r. r_status r = Pending \<and> r_workspace_id r = the workspace_id)
               (approvals db2)))))"

section \<open>Deciding\<close>

definition decide ::
  "(string \<Rightarrow> string) \<Rightarrow> (nat \<Rightarrow> time) \<Rightarrow> (nat \<Rightarrow> approval_db \<Rightarrow> approval_db) \<Rightarrow> string \<Rightarrow>
   string option \<Rightarrow> bool \<Rightarrow> string \<Rightarrow> string option \<Rightarrow> approval_db \<Rightarrow> approval_db \<times> decision_result" where
  "decide H clk env approval_id workspace_id approve actor reason db =
   (let db1 = env 0 (expire_pending (clk 0) db)
    in case get H db1 approval_id workspace_id of
         None \<Rightarrow> (db1, (None, Some ''APPROVAL_NOT_FOUND''))
       | Some ticket \<Rightarrow>
           if t_status ticket \<noteq> Pending then (db1, (Some ticket, Some ''APPROVAL_CONFLICT''))
           else let (db2, updated) =
                      run_update (decide_guard approval_id (t_workspace_id ticket) (t_version ticket))
                        (decide_effect (clk 1) approve actor reason) (env 1 db1);
                    db3 = env 2 db2
                in if updated = 0
                   then (db3, (get H db3 approval_id workspace_id, Some ''APPROVAL_CONFLICT''))
                   else (db3, (get H db3 approval_id workspace_id, None)))"

section \<open>Claiming and completing an approved action\<close>

definition claim_approved_action ::
  "(string \<Rightarrow> string) \<Rightarrow> (nat \<Rightarrow> time) \<Rightarrow> (nat \<Rightarrow> approval_db \<Rightarrow> approval_db) \<Rightarrow> string \<Rightarrow> string \<Rightarrow>
   string \<Rightarrow> string \<Rightarrow> string \<Rightarrow> string \<Rightarrow> string \<Rightarrow> approval_db \<Rightarrow> approval_db \<times> decision_result" where
  "claim_approved_action H clk env approval_id workspace_id claim_id target_kind target_ref action_hash
     executor_principal_id db =
   (let db1 = env 0 (expire_pending (clk 0) db)
    in case select_row approval_id workspace_id db1 of
         None \<Rightarrow> (db1, (None, Some ''APPROVAL_NOT_FOUND''))
       | Some row \<Rightarrow>
           let ticket = row_to_ticket H row
           in if t_target_kind ticket \<noteq> target_kind \<or> t_target_ref ticket \<noteq> target_ref \<or>
                 t_action_hash ticket \<noteq> action_hash
              then (db1, (Some ticket, Some ''STALE_APPROVAL_SNAPSHOT''))
              else if dict_get (t_snapshot ticket) ''executorPrincipalId'' \<noteq> PStr executor_principal_id
              then (db1, (Some ticket, Some ''APPROVAL_PRINCIPAL_MISMATCH''))
              else if t_status ticket = Consumed
              then (db1, (Some ticket,
                     if t_consumed_by_job_id ticket = Some claim_id then None else Some ''REPLAY_BLOCKED''))
              else if t_status ticket = Executed
              then (db1, (Some ticket,
                     if t_resume_claimed_job_id ticket = Some claim_id then None else Some ''REPLAY_BLOCKED''))
              else if t_status ticket \<noteq> Approved
              then (db1, (Some ticket, Some ''APPROVAL_CONFLICT''))
              else let (db2, updated) =
                         run_update (claim_action_guard approval_id workspace_id (t_version ticket))
                           (claim_action_effect (clk 1) executor_principal_id claim_id) db1
                   in if updated \<noteq> 1
                      then (db2, (Some ticket, Some ''APPROVAL_CONFLICT''))
                      else let db3 = env 1 db2
                           in (db3, (get H db3 approval_id (Some workspace_id), None)))"

definition complete_claimed_action ::
  "(string \<Rightarrow> string) \<Rightarrow> time \<Rightarrow> (nat \<Rightarrow> approval_db \<Rightarrow> approval_db) \<Rightarrow> string \<Rightarrow> string \<Rightarrow> string \<Rightarrow>
   approval_db \<Rightarrow> approval_db \<times> decision_result" where
  "complete_claimed_action H now env approval_id workspace_id claim_id db =
   (case select_row approval_id workspace_id db of
      None \<Rightarrow> (db, (None, Some ''APPROVAL_NOT_FOUND''))
    | Some row \<Rightarrow>
        let ticket = row_to_ticket H row
        in if t_status ticket = Consumed
           then (db, (Some ticket,
                  if t_consumed_by_job_id ticket = Some claim_id then None else Some ''REPLAY_BLOCKED''))
           else if t_status ticket \<noteq> Executed \<or> t_resume_claimed_job_id ticket \<noteq> Some claim_id
           then (db, (Some ticket, Some ''APPROVAL_CONFLICT''))
           else let (db1, updated) =
                      run_update (complete_action_guard approval_id workspace_id (t_version ticket) claim_id)
                        (consume_effect now claim_id) db
                in if updated \<noteq> 1
                   then (db1, (Some ticket, Some ''APPROVAL_CONFLICT''))
                   else let db2 = env 0 db1
                        in (db2, (get H db2 approval_id (Some workspace_id), None)))"

section \<open>Executing\<close>

definition claim_execution ::
  "(string \<Rightarrow> string) \<Rightarrow> (nat \<Rightarrow> time) \<Rightarrow> (nat \<Rightarrow> approval_db \<Rightarrow> approval_db) \<Rightarrow> string \<Rightarrow> string \<Rightarrow>
   string \<Rightarrow> string \<Rightarrow> approval_db \<Rightarrow> approval_db \<times> decision_result" where
  "claim_execution H clk env approval_id workspace_id attempt_id actor db =
   (let db1 = env 0 (expire_pending (clk 0) db)
    in case select_row approval_id workspace_id db1 of
         None \<Rightarrow> (db1, (None, Some ''APPROVAL_NOT_FOUND''))
       | Some row \<Rightarrow>
           let ticket = row_to_ticket H row
           in if t_status ticket \<noteq> Approved
              then (db1, (Some ticket, Some ''APPROVAL_EXECUTION_CLAIM_CONFLICT''))
              else let (db2, updated) =
                         run_update (claim_execution_guard approval_id workspace_id (t_version ticket))
                           (claim_execution_effect (clk 1) attempt_id actor) db1
                   in if updated \<noteq> 1
                      then (db2, (Some ticket, Some ''APPROVAL_EXECUTION_CLAIM_CONFLICT''))
                      else let db3 = env 1 db2
                           in (db3, (get H db3 approval_id (Some workspace_id), None)))"

definition finalize_execution ::
  "(string \<Rightarrow> string) \<Rightarrow> time \<Rightarrow> (nat \<Rightarrow> approval_db \<Rightarrow> approval_db) \<Rightarrow> string \<Rightarrow> string \<Rightarrow> string \<Rightarrow>
   approval_status \<Rightarrow> execution_status \<Rightarrow> string option \<Rightarrow> string option \<Rightarrow> approval_db \<Rightarrow>
   approval_db \<times> decision_result" where
  "finalize_execution H now env approval_id workspace_id attempt_id status execution_status result_hash
     error_code db =
   (let (db1, updated) =
          run_update (finalize_guard approval_id workspace_id attempt_id)
            (finalize_effect now status execution_status result_hash error_code) db;
        db2 = env 0 db1
    in if updated \<noteq> 1
       then (db2, (get H db2 approval_id (Some workspace_id), Some ''APPROVAL_EXECUTION_ATTEMPT_MISMATCH''))
       else (db2, (get H db2 approval_id (Some workspace_id), None)))"

definition finalize_execution_success ::
  "(string \<Rightarrow> string) \<Rightarrow> time \<Rightarrow> (nat \<Rightarrow> approval_db \<Rightarrow> approval_db) \<Rightarrow> string \<Rightarrow> string \<Rightarrow> string \<Rightarrow>
   string \<Rightarrow> approval_db \<Rightarrow> approval_db \<times> decision_result" where
  "finalize_execution_success H now env approval_id workspace_id attempt_id result_hash db =
     finalize_execution H now env approval_id workspace_id attempt_id Executed ExecExecuted
       (Some result_hash) None db"

definition finalize_execution_failure ::
  "(string \<Rightarrow> string) \<Rightarrow> time \<Rightarrow> (nat \<Rightarrow> approval_db \<Rightarrow> approval_db) \<Rightarrow> string \<Rightarrow> string \<Rightarrow> string \<Rightarrow>
   string \<Rightarrow> approval_db \<Rightarrow> approval_db \<times> decision_result" where
  "finalize_execution_failure H now env approval_id workspace_id attempt_id error_code db =
     finalize_execution H now env approval_id workspace_id attempt_id ExecutionFailed ExecFailed
       None (Some error_code) db"

definition mark_executed ::
  "(string \<Rightarrow> string) \<Rightarrow> (nat \<Rightarrow> time) \<Rightarrow> (nat \<Rightarrow> approval_db \<Rightarrow> approval_db) \<Rightarrow> string \<Rightarrow>
   string option \<Rightarrow> string \<Rightarrow> approval_db \<Rightarrow> approval_db \<times> decision_result" where
  "mark_executed H clk env approval_id workspace_id executed_by db =
   (let db1 = env 0 (expire_pending (clk 0) db)
    in case get H db1 approval_id workspace_id of
         None \<Rightarrow> (db1, (None, Some ''APPROVAL_NOT_FOUND''))
       | Some ticket \<Rightarrow>
           if t_status ticket \<noteq> Approved then (db1, (Some ticket, Some ''APPROVAL_CONFLICT''))
           else if t_execution_status ticket = ExecExecuted
           then (db1, (Some ticket, Some ''REPLAY_BLOCKED''))
           else let (db2, updated) =
                      run_update (claim_action_guard approval_id (t_workspace_id ticket) (t_version ticket))
                        (mark_executed_effect (clk 1) executed_by) (env 1 db1);
                    db3 = env 2 db2
                in if updated = 0
                   then (db3, (get H db3 approval_id workspace_id, Some ''APPROVAL_CONFLICT''))
                   else (db3, (get H db3 approval_id workspace_id, None)))"

definition mark_execution_failed ::
  "(string \<Rightarrow> string) \<Rightarrow> time \<Rightarrow> (nat \<Rightarrow> approval_db \<Rightarrow> approval_db) \<Rightarrow> string \<Rightarrow> string \<Rightarrow>
   string option \<Rightarrow> approval_db \<Rightarrow> approval_db \<times> decision_result" where
  "mark_execution_failed H now env approval_id error_code workspace_id db =
   (case get H db approval_id workspace_id of
      None \<Rightarrow> (db, (None, Some ''APPROVAL_NOT_FOUND''))
    | Some ticket \<Rightarrow>
        let (db1, updated) =
              run_update (at_row approval_id (t_workspace_id ticket)) (mark_failed_effect now error_code)
                (env 0 db);
            db2 = env 1 db1
        in (db2, (get H db2 approval_id workspace_id, None)))"

section \<open>Consuming and resuming\<close>

definition mark_consumed ::
  "(string \<Rightarrow> string) \<Rightarrow> time \<Rightarrow> (nat \<Rightarrow> approval_db \<Rightarrow> approval_db) \<Rightarrow> string \<Rightarrow> string \<Rightarrow> string \<Rightarrow>
   string option \<Rightarrow> string option \<Rightarrow> approval_db \<Rightarrow> approval_db \<times> decision_result" where
  "mark_consumed H now env approval_id workspace_id consumed_by_job_id execution_contract_hash
     resume_token_ref db =
   (case get H db approval_id (Some workspace_id) of
      None \<Rightarrow> (db, (None, Some ''APPROVAL_NOT_FOUND''))
    | Some ticket \<Rightarrow>
        if t_status ticket \<noteq> Executed then (db, (Some ticket, Some ''APPROVAL_CONFLICT''))
        else let effective = effective_execution_contract_hash H ticket
        in if opt_truthy effective \<and> opt_truthy execution_contract_hash \<and>
              effective \<noteq> execution_contract_hash
           then (db, (Some ticket, Some ''STALE_APPROVAL_SNAPSHOT''))
           else if opt_truthy effective \<and> \<not> opt_truthy execution_contract_hash
           then (db, (Some ticket, Some ''STALE_APPROVAL_SNAPSHOT''))
           else if opt_truthy (t_resume_token_ref ticket) \<and> opt_truthy resume_token_ref \<and>
                   t_resume_token_ref ticket \<noteq> resume_token_ref
           then (db, (Some ticket, Some ''APPROVAL_CONFLICT''))
           else let (db1, updated) =
                      run_update (mark_consumed_guard approval_id workspace_id (t_version ticket))
                        (consume_effect now consumed_by_job_id) (env 0 db);
                    db2 = env 1 db1
                in if updated = 0
                   then (db2, (get H db2 approval_id (Some workspace_id), Some ''APPROVAL_CONFLICT''))
                   else (db2, (get H db2 approval_id (Some workspace_id), None)))"

text \<open>The caller's \<open>snapshot_hash\<close> argument is recomputed from the merged snapshot and not used.\<close>

definition attach_execution_contract ::
  "(string \<Rightarrow> string) \<Rightarrow> (nat \<Rightarrow> approval_db \<Rightarrow> approval_db) \<Rightarrow> string \<Rightarrow> string \<Rightarrow> pydict \<Rightarrow> string \<Rightarrow>
   string \<Rightarrow> approval_db \<Rightarrow> approval_db \<times> decision_result" where
  "attach_execution_contract H env approval_id workspace_id execution_contract execution_contract_hash
     snapshot_hash db =
   (case get H db approval_id (Some workspace_id) of
      None \<Rightarrow> (db, (None, Some ''APPROVAL_NOT_FOUND''))
    | Some ticket \<Rightarrow>
        let snapshot = dict_set (t_snapshot ticket) ''execution_contract'' (PDict execution_contract);
            effective_snapshot_hash = payload_hash H (PDict snapshot);
            effective_contract_hash =
              snd (derive_execution_contract_refs H (t_run_id ticket) (t_approval_id ticket)
                     effective_snapshot_hash (t_target_kind ticket) (t_policy_hash ticket)
                     execution_contract (Some (t_action_hash ticket)));
            (db1, updated) =
              run_update (at_version approval_id workspace_id (t_version ticket))
                (attach_effect effective_snapshot_hash snapshot
                   (if opt_truthy effective_contract_hash then the effective_contract_hash
                    else execution_contract_hash)) (env 0 db);
            db2 = env 1 db1
        in if updated = 0
           then (db2, (get H db2 approval_id (Some workspace_id), Some ''APPROVAL_CONFLICT''))
           else (db2, (get H db2 approval_id (Some workspace_id), None)))"

definition claim_resume ::
  "(string \<Rightarrow> string) \<Rightarrow> time \<Rightarrow> (nat \<Rightarrow> approval_db \<Rightarrow> approval_db) \<Rightarrow> string \<Rightarrow> string \<Rightarrow> string \<Rightarrow>
   string \<Rightarrow> string \<Rightarrow> approval_db \<Rightarrow> approval_db \<times> decision_result" where
  "claim_resume H now env approval_id workspace_id resume_job_id resume_token_ref
     execution_contract_hash db =
   (case get H db approval_id (Some workspace_id) of
      None \<Rightarrow> (db, (None, Some ''APPROVAL_NOT_FOUND''))
    | Some ticket \<Rightarrow>
        if t_status ticket \<noteq> Executed then (db, (Some ticket, Some ''APPROVAL_CONFLICT''))
        else if t_consumed_at ticket \<noteq> None \<or> t_consumed_by_job_id ticket \<noteq> None
        then (db, (Some ticket, Some ''REPLAY_BLOCKED''))
        else let effective = effective_execution_contract_hash H ticket
        in if opt_truthy effective \<and> effective \<noteq> Some execution_contract_hash
           then (db, (Some ticket, Some ''STALE_APPROVAL_SNAPSHOT''))
           else if t_resume_claimed_job_id ticket = Some resume_job_id \<and>
                   t_resume_token_ref ticket = Some resume_token_ref
           then (db, (Some ticket, None))
           else if t_resume_claimed_job_id ticket \<noteq> None \<and>
                   t_resume_claimed_job_id ticket \<noteq> Some resume_job_id
           then (db, (Some ticket, Some ''RESUME_DUPLICATE_SUPPRESSED''))
           else let (db1, updated) =
                      run_update (claim_resume_guard approval_id workspace_id (t_version ticket)
                                    resume_job_id resume_token_ref)
                        (claim_resume_effect now resume_job_id resume_token_ref) (env 0 db);
                    db2 = env 1 db1;
                    current = get H db2 approval_id (Some workspace_id)
                in if updated = 0
                   then (case current of
                           Some c \<Rightarrow>
                             if t_resume_claimed_job_id c = Some resume_job_id \<and>
                                t_resume_token_ref c = Some resume_token_ref
                             then (db2, (Some c, None))
                             else (db2, (Some c, Some ''RESUME_DUPLICATE_SUPPRESSED''))
                         | None \<Rightarrow> (db2, (None, Some ''RESUME_DUPLICATE_SUPPRESSED'')))
                   else (db2, (current, None)))"

end
