(* ===== verification/Approval_Machine.thy ===== *)
theory Approval_Machine imports Approval_Ops Machine begin

text \<open>
  The store as a state machine.  A step is one committed transaction of any connection: an
  \<open>UPDATE\<close> statement with any arguments, the insertion of a new ticket, or the opening of the store.
  The arguments are arbitrary, so a step also covers a statement that was prepared from a ticket read
  long before; what holds in every run of the machine holds under every interleaving of operations.
  Every operation of theory \<open>Approval_Ops\<close> is a run of the machine (\<open>ops_run\<close>).
\<close>

section \<open>Statements and steps\<close>

datatype statement =
    SExpire time
  | SClaimAction string string nat time string string
  | SCompleteAction string string nat string time
  | SClaimExecution string string nat time string string
  | SFinalizeSuccess string string string time string
  | SFinalizeFailure string string string time string
  | SDecide string string nat time bool string "string option"
  | SMarkExecuted string string nat time string
  | SMarkFailed string string time string
  | SMarkConsumed string string nat time string
  | SAttach string string nat string pydict string
  | SClaimResume string string nat time string string

fun stmt_guard :: "statement \<Rightarrow> approval_row \<Rightarrow> bool" where
  "stmt_guard (SExpire now) = expire_guard now"
| "stmt_guard (SClaimAction a w v now p c) = claim_action_guard a w v"
| "stmt_guard (SCompleteAction a w v c now) = complete_action_guard a w v c"
| "stmt_guard (SClaimExecution a w v now t p) = claim_execution_guard a w v"
| "stmt_guard (SFinalizeSuccess a w t now h) = finalize_guard a w t"
| "stmt_guard (SFinalizeFailure a w t now e) = finalize_guard a w t"
| "stmt_guard (SDecide a w v now ok p why) = decide_guard a w v"
| "stmt_guard (SMarkExecuted a w v now p) = claim_action_guard a w v"
| "stmt_guard (SMarkFailed a w now e) = at_row a w"
| "stmt_guard (SMarkConsumed a w v now j) = mark_consumed_guard a w v"
| "stmt_guard (SAttach a w v sh snap ch) = at_version a w v"
| "stmt_guard (SClaimResume a w v now j t) = claim_resume_guard a w v j t"

fun stmt_effect :: "statement \<Rightarrow> approval_row \<Rightarrow> approval_row" where
  "stmt_effect (SExpire now) = expire_effect"
| "stmt_effect (SClaimAction a w v now p c) = claim_action_effect now p c"
| "stmt_effect (SCompleteAction a w v c now) = consume_effect now c"
| "stmt_effect (SClaimExecution a w v now t p) = claim_execution_effect now t p"
| "stmt_effect (SFinalizeSuccess a w t now h) = finalize_effect now Executed ExecExecuted (Some h) None"
| "stmt_effect (SFinalizeFailure a w t now e) = finalize_effect now ExecutionFailed ExecFailed None (Some e)"
| "stmt_effect (SDecide a w v now ok p why) = decide_effect now ok p why"
| "stmt_effect (SMarkExecuted a w v now p) = mark_executed_effect now p"
| "stmt_effect (SMarkFailed a w now e) = mark_failed_effect now e"
| "stmt_effect (SMarkConsumed a w v now j) = consume_effect now j"
| "stmt_effect (SAttach a w v sh snap ch) = attach_effect sh snap ch"
| "stmt_effect (SClaimResume a w v now j t) = claim_resume_effect now j t"

definition exec_stmt :: "statement \<Rightarrow> approval_db \<Rightarrow> approval_db" where
  "exec_stmt st db = fst (run_update (stmt_guard st) (stmt_effect st) db)"

inductive store_step :: "approval_db \<Rightarrow> approval_db \<Rightarrow> bool" where
  update: "store_step db (exec_stmt st db)"
| insert: "row = insert_row (new_ticket now uuid bound q) \<Longrightarrow> \<not> violates_unique row db \<Longrightarrow>
    store_step db (db\<lparr>approvals := approvals db @ [row]\<rparr>)"
| init: "store_step db (init_db db)"

inductive_cases store_stepE: "store_step db db'"

lemmas effect_defs [row_simps] =
  expire_effect_def claim_action_effect_def consume_effect_def claim_execution_effect_def
  finalize_effect_def decide_effect_def mark_executed_effect_def mark_failed_effect_def
  attach_effect_def claim_resume_effect_def

lemmas guard_defs [row_simps] =
  expire_guard_def claim_action_guard_def complete_action_guard_def claim_execution_guard_def
  finalize_guard_def decide_guard_def mark_consumed_guard_def claim_resume_guard_def
  at_version_def at_row_def

section \<open>What every statement keeps\<close>

lemma stmt_effect_key [simp]:
  "r_approval_id (stmt_effect st r) = r_approval_id r"
  "r_idempotency_key (stmt_effect st r) = r_idempotency_key r"
  "r_workspace_id (stmt_effect st r) = r_workspace_id r"
  "r_version (stmt_effect st r) = Suc (r_version r)"
  by (cases st; simp add: row_simps)+

interpretation stmt: versioned_update r_approval_id "stmt_guard st" "stmt_effect st" r_version
  for st
  by unfold_locales simp_all

interpretation stmt_idem: keyed_update r_idempotency_key "stmt_guard st" "stmt_effect st"
  for st
  by unfold_locales simp

lemma backfill_row_keeps [simp]:
  "r_approval_id (backfill_row r) = r_approval_id r"
  "r_idempotency_key (backfill_row r) = r_idempotency_key r"
  "r_version (backfill_row r) = r_version r"
  "r_status (backfill_row r) = r_status r"
  by (auto simp: backfill_row_def split: list.splits)

lemma exec_stmt_rows:
  "approvals (exec_stmt st db) = map (\<lambda>r. if stmt_guard st r then stmt_effect st r else r) (approvals db)"
  by (simp add: exec_stmt_def run_update_def Let_def sql_update_rows)

lemma run_update_exec:
  "run_update (stmt_guard st) (stmt_effect st) db =
     (exec_stmt st db, snd (sql_update (stmt_guard st) (stmt_effect st) (approvals db)))"
  by (simp add: exec_stmt_def run_update_def Let_def)

lemma init_db_rows: "approvals (init_db db) = map backfill_row (approvals db)"
  by (simp add: init_db_def backfill_workspace_bindings_def)

subsection \<open>The row invariant\<close>

fun exec_of_status :: "approval_status \<Rightarrow> execution_status" where
  "exec_of_status Executing = ExecExecuting"
| "exec_of_status Executed = ExecExecuted"
| "exec_of_status Consumed = ExecExecuted"
| "exec_of_status ExecutionFailed = ExecFailed"
| "exec_of_status s = NotExecuted"

text \<open>
  The two status columns agree, and each status fixes which of the other columns are set: a ticket
  that was approved, rejected, executed or consumed was decided by someone; nothing was executed before;
  an execution in progress has an attempt; a consumed ticket names its consumer.
\<close>

definition untouched :: "approval_row \<Rightarrow> bool" where
  "untouched r \<longleftrightarrow> r_executed_at r = None \<and> r_executed_by r = None \<and> r_execution_attempt_id r = None \<and>
     r_resume_claimed_job_id r = None"

definition decided :: "approval_row \<Rightarrow> bool" where
  "decided r \<longleftrightarrow> r_decided_at r \<noteq> None \<and> r_actor r \<noteq> None"

definition unconsumed :: "approval_row \<Rightarrow> bool" where
  "unconsumed r \<longleftrightarrow> r_consumed_at r = None \<and> r_consumed_by_job_id r = None"

fun status_shape :: "approval_status \<Rightarrow> approval_row \<Rightarrow> bool" where
  "status_shape Pending r = (untouched r \<and> unconsumed r \<and> r_decided_at r = None)"
| "status_shape Approved r = (decided r \<and> untouched r \<and> unconsumed r)"
| "status_shape Rejected r = (decided r \<and> untouched r \<and> unconsumed r)"
| "status_shape Expired r = (untouched r \<and> unconsumed r)"
| "status_shape Executing r = (decided r \<and> r_execution_attempt_id r \<noteq> None \<and> unconsumed r)"
| "status_shape Executed r = (decided r \<and> r_executed_at r \<noteq> None \<and> unconsumed r)"
| "status_shape Consumed r = (decided r \<and> r_executed_at r \<noteq> None \<and> r_consumed_at r \<noteq> None \<and>
     r_consumed_by_job_id r \<noteq> None)"
| "status_shape ExecutionFailed r = (r_executed_at r \<noteq> None \<and>
     (r_consumed_at r = None \<longleftrightarrow> r_consumed_by_job_id r = None))"
| "status_shape Cancelled r = False"

definition row_inv :: "approval_row \<Rightarrow> bool" where
  "row_inv r \<longleftrightarrow> r_execution_status r = exec_of_status (r_status r) \<and> status_shape (r_status r) r"

lemmas shape_defs = row_inv_def untouched_def decided_def unconsumed_def

definition db_inv :: "approval_db \<Rightarrow> bool" where
  "db_inv db \<longleftrightarrow> keys_distinct r_approval_id (approvals db) \<and>
     keys_distinct r_idempotency_key (approvals db) \<and> (\<forall>r \<in> set (approvals db). row_inv r)"

lemma stmt_row_inv [step_keeps]: "stmt_guard st r \<Longrightarrow> row_inv r \<Longrightarrow> row_inv (stmt_effect st r)"
proof (cases st)
  case (SAttach a w v sh snap ch)
  assume "row_inv r"
  then show ?thesis
    by (cases "r_status r") (simp_all add: SAttach attach_effect_def shape_defs)
next
  case (SMarkFailed a w now e)
  assume "row_inv r"
  then show ?thesis
    by (cases "r_status r") (auto simp: SMarkFailed mark_failed_effect_def shape_defs)
next
  case (SExpire now)
  assume "row_inv r" "stmt_guard st r"
  then show ?thesis
    by (cases "r_status r") (simp_all add: SExpire expire_effect_def expire_guard_def shape_defs)
qed (simp_all add: row_simps shape_defs)

lemma insert_row_inv [step_keeps]: "row_inv (insert_row (new_ticket now uuid bound q))"
  by (simp add: shape_defs insert_row_def new_ticket_def)

lemma backfill_row_inv [step_keeps]: "row_inv r \<Longrightarrow> row_inv (backfill_row r)"
proof (cases "backfill_row r = r")
  case False
  assume "row_inv r"
  moreover obtain w where "backfill_row r = r\<lparr>r_workspace_id := w\<rparr>"
    using False by (auto simp: backfill_row_def split: list.splits if_splits)
  ultimately show ?thesis by (cases "r_status r") (simp_all add: shape_defs)
qed simp

lemma db_inv_empty: "db_inv empty_db"
  by (simp add: db_inv_def empty_db_def keys_distinct_def)

lemma db_inv_update:
  assumes "db_inv db"
  shows "db_inv (exec_stmt st db)"
proof -
  have "keys_distinct r_approval_id (approvals (exec_stmt st db))"
    using stmt.distinct_kept [of "approvals db" st] assms
    by (simp add: exec_stmt_rows sql_update_rows db_inv_def)
  moreover have "keys_distinct r_idempotency_key (approvals (exec_stmt st db))"
    using stmt_idem.distinct_kept [of "approvals db" st] assms
    by (simp add: exec_stmt_rows sql_update_rows db_inv_def)
  moreover have "\<forall>r \<in> set (approvals (exec_stmt st db)). row_inv r"
    using assms by (auto simp: exec_stmt_rows db_inv_def intro: step_keeps)
  ultimately show ?thesis by (simp add: db_inv_def)
qed

lemma db_inv_insert:
  assumes "db_inv db" "row_inv row" "\<not> violates_unique row db"
  shows "db_inv (db\<lparr>approvals := approvals db @ [row]\<rparr>)"
  using assms by (fastforce simp: db_inv_def violates_unique_def keys_distinct_def)

lemma db_inv_init: "db_inv db \<Longrightarrow> db_inv (init_db db)"
  by (auto simp: db_inv_def init_db_rows keys_distinct_def comp_def intro: step_keeps)

lemma db_inv_step: "store_step db db' \<Longrightarrow> db_inv db \<Longrightarrow> db_inv db'"
  by (auto elim!: store_stepE intro!: db_inv_update db_inv_insert db_inv_init insert_row_inv)

section \<open>One row through a run\<close>

abbreviation row_of :: "string \<Rightarrow> approval_db \<Rightarrow> approval_row option" where
  "row_of approval_id db \<equiv> lookup_key r_approval_id approval_id (approvals db)"

lemma row_of_exec [table_simps]:
  "row_of k (exec_stmt st db) =
     map_option (\<lambda>r. if stmt_guard st r then stmt_effect st r else r) (row_of k db)"
  using stmt.lookup_after [of k st "approvals db"] by (simp add: exec_stmt_rows sql_update_rows)

lemma row_of_insert [table_simps]:
  "row_of k (db\<lparr>approvals := approvals db @ [row]\<rparr>) =
     (case row_of k db of None \<Rightarrow> (if r_approval_id row = k then Some row else None) | Some r \<Rightarrow> Some r)"
  by (simp add: lookup_key_append split: option.split)

lemma row_of_init [table_simps]: "row_of k (init_db db) = map_option backfill_row (row_of k db)"
proof -
  have "lookup_key r_approval_id k (map backfill_row rs) =
    map_option backfill_row (lookup_key r_approval_id k rs)" for rs
    by (induction rs) auto
  then show ?thesis by (simp add: init_db_rows)
qed

text \<open>The transitions the statements make on the status column.\<close>

inductive lifecycle :: "approval_status \<Rightarrow> approval_status \<Rightarrow> bool" where
  approve: "lifecycle Pending Approved"
| reject: "lifecycle Pending Rejected"
| expire_pending: "lifecycle Pending Expired"
| expire_approved: "lifecycle Approved Expired"
| claim: "lifecycle Approved Executing"
| execute: "lifecycle Approved Executed"
| finish: "lifecycle Executing Executed"
| consume: "lifecycle Executed Consumed"
| fail: "lifecycle s ExecutionFailed"

inductive_simps lifecycle_from [simp]:
  "lifecycle Pending t" "lifecycle Approved t" "lifecycle Executing t" "lifecycle Executed t"
  "lifecycle Rejected t" "lifecycle Expired t" "lifecycle Consumed t" "lifecycle ExecutionFailed t"

definition fixed_columns :: "approval_row \<Rightarrow>
    string \<times> string \<times> string \<times> string \<times> string \<times> string \<times> string \<times> string \<times> time \<times> time" where
  "fixed_columns r = (r_approval_id r, r_run_id r, r_target_kind r, r_target_ref r, r_action_hash r,
     r_policy_hash r, r_request_hash r, r_idempotency_key r, r_created_at r, r_expires_at r)"

definition row_later :: "approval_row \<Rightarrow> approval_row \<Rightarrow> bool" where
  "row_later r r' \<longleftrightarrow> lifecycle\<^sup>*\<^sup>* (r_status r) (r_status r') \<and> r_version r \<le> r_version r' \<and>
     fixed_columns r' = fixed_columns r \<and>
     (r_workspace_id r \<noteq> legacy_unbound_workspace \<longrightarrow> r_workspace_id r' = r_workspace_id r)"

definition db_later :: "approval_db \<Rightarrow> approval_db \<Rightarrow> bool" where
  "db_later db db' \<longleftrightarrow>
     (\<forall>k r. row_of k db = Some r \<longrightarrow> (\<exists>r'. row_of k db' = Some r' \<and> row_later r r'))"

lemma stmt_lifecycle: "stmt_guard st r \<Longrightarrow> lifecycle\<^sup>*\<^sup>* (r_status r) (r_status (stmt_effect st r))"
  by (cases st) (auto simp: row_simps intro: lifecycle.intros r_into_rtranclp)

lemma stmt_fixed_columns: "fixed_columns (stmt_effect st r) = fixed_columns r"
  by (cases st) (simp_all add: row_simps fixed_columns_def)

lemma stmt_row_later: "stmt_guard st r \<Longrightarrow> row_later r (stmt_effect st r)"
  by (simp add: row_later_def stmt_lifecycle stmt_fixed_columns)

lemma row_later_refl [simp]: "row_later r r"
  by (simp add: row_later_def)

lemma row_later_trans: "row_later r s \<Longrightarrow> row_later s t \<Longrightarrow> row_later r t"
  unfolding row_later_def by (metis order_trans rtranclp_trans)

lemma backfill_row_later: "row_later r (backfill_row r)"
  by (auto simp: row_later_def fixed_columns_def backfill_row_def split: list.splits)

lemma step_later: "store_step db db' \<Longrightarrow> db_later db db'"
  by (auto elim!: store_stepE simp: db_later_def table_simps stmt_row_later backfill_row_later lookup_key_append)

lemma db_later_trans: "db_later a b \<Longrightarrow> db_later b c \<Longrightarrow> db_later a c"
  unfolding db_later_def by (meson row_later_trans)

interpretation store: history_machine store_step db_inv db_later
proof unfold_locales
  show "db_later db db" for db by (simp add: db_later_def)
  show "db_later a b \<Longrightarrow> db_later b c \<Longrightarrow> db_later a c" for a b c by (rule db_later_trans)
  show "store_step a b \<Longrightarrow> db_inv a \<Longrightarrow> db_inv b" for a b by (rule db_inv_step)
  show "db_inv a \<Longrightarrow> store_step a b \<Longrightarrow> db_later a b" for a b by (rule step_later)
qed

text \<open>What follows a status in the life cycle.\<close>

definition claimable :: "approval_status \<Rightarrow> bool" where
  "claimable s \<longleftrightarrow> s = Pending \<or> s = Approved"

lemma lifecycle_claimed: "lifecycle s t \<Longrightarrow> \<not> claimable s \<Longrightarrow> \<not> claimable t"
  by (auto simp: claimable_def elim: lifecycle.cases)

lemma lifecycle_claimed_run: "lifecycle\<^sup>*\<^sup>* s t \<Longrightarrow> \<not> claimable s \<Longrightarrow> \<not> claimable t"
  by (induction rule: rtranclp_induct) (auto dest: lifecycle_claimed)

lemma lifecycle_closed:
  "lifecycle\<^sup>*\<^sup>* s t \<Longrightarrow> s \<in> {Rejected, Expired, Consumed, ExecutionFailed} \<Longrightarrow> t = s \<or> t = ExecutionFailed"
  by (induction rule: rtranclp_induct) auto

section \<open>Operations are runs\<close>

definition upd_count :: "statement \<Rightarrow> approval_db \<Rightarrow> nat" where
  "upd_count st db = snd (sql_update (stmt_guard st) (stmt_effect st) (approvals db))"

lemma run_stmt:
  "run_update (expire_guard now) expire_effect db = (exec_stmt (SExpire now) db, upd_count (SExpire now) db)"
  "run_update (claim_action_guard a w v) (claim_action_effect now p c) db =
     (exec_stmt (SClaimAction a w v now p c) db, upd_count (SClaimAction a w v now p c) db)"
  "run_update (complete_action_guard a w v c) (consume_effect now c) db =
     (exec_stmt (SCompleteAction a w v c now) db, upd_count (SCompleteAction a w v c now) db)"
  "run_update (claim_execution_guard a w v) (claim_execution_effect now t p) db =
     (exec_stmt (SClaimExecution a w v now t p) db, upd_count (SClaimExecution a w v now t p) db)"
  "run_update (finalize_guard a w t) (finalize_effect now Executed ExecExecuted (Some h) None) db =
     (exec_stmt (SFinalizeSuccess a w t now h) db, upd_count (SFinalizeSuccess a w t now h) db)"
  "run_update (finalize_guard a w t) (finalize_effect now ExecutionFailed ExecFailed None (Some e)) db =
     (exec_stmt (SFinalizeFailure a w t now e) db, upd_count (SFinalizeFailure a w t now e) db)"
  "run_update (decide_guard a w v) (decide_effect now ok p why) db =
     (exec_stmt (SDecide a w v now ok p why) db, upd_count (SDecide a w v now ok p why) db)"
  "run_update (claim_action_guard a w v) (mark_executed_effect now p) db =
     (exec_stmt (SMarkExecuted a w v now p) db, upd_count (SMarkExecuted a w v now p) db)"
  "run_update (at_row a w) (mark_failed_effect now e) db =
     (exec_stmt (SMarkFailed a w now e) db, upd_count (SMarkFailed a w now e) db)"
  "run_update (mark_consumed_guard a w v) (consume_effect now c) db =
     (exec_stmt (SMarkConsumed a w v now c) db, upd_count (SMarkConsumed a w v now c) db)"
  "run_update (at_version a w v) (attach_effect sh snap ch) db =
     (exec_stmt (SAttach a w v sh snap ch) db, upd_count (SAttach a w v sh snap ch) db)"
  "run_update (claim_resume_guard a w v c t) (claim_resume_effect now c t) db =
     (exec_stmt (SClaimResume a w v now c t) db, upd_count (SClaimResume a w v now c t) db)"
  by (simp_all add: exec_stmt_def run_update_def upd_count_def Let_def)

lemma expire_pending_exec: "expire_pending now db = exec_stmt (SExpire now) db"
  by (simp add: expire_pending_def run_stmt)

text \<open>An environment is legal when what it commits in each gap is itself a run of the store.\<close>

definition legal_env :: "(nat \<Rightarrow> approval_db \<Rightarrow> approval_db) \<Rightarrow> bool" where
  "legal_env env \<longleftrightarrow> (\<forall>i db. store_step\<^sup>*\<^sup>* db (env i db))"

lemma legal_env_id [simp]: "legal_env (\<lambda>_. id)" "legal_env (\<lambda>i db. db)"
  by (simp_all add: legal_env_def)

lemma run_exec: "store_step\<^sup>*\<^sup>* db (exec_stmt st db)"
  by (auto intro: store_step.update)

lemma run_then_exec: "store_step\<^sup>*\<^sup>* db db' \<Longrightarrow> store_step\<^sup>*\<^sup>* db (exec_stmt st db')"
  by (meson run_exec rtranclp_trans)

lemma run_then_env: "legal_env env \<Longrightarrow> store_step\<^sup>*\<^sup>* db db' \<Longrightarrow> store_step\<^sup>*\<^sup>* db (env i db')"
  unfolding legal_env_def by (meson rtranclp_trans)

lemmas op_splits = option.splits prod.splits if_splits

lemma decide_run: "legal_env env \<Longrightarrow> store_step\<^sup>*\<^sup>* db (fst (decide H clk env a w ok p why db))"
  by (auto simp: decide_def Let_def run_stmt expire_pending_exec run_exec run_then_exec run_then_env
      split: op_splits)

lemma claim_approved_action_run:
  "legal_env env \<Longrightarrow> store_step\<^sup>*\<^sup>* db (fst (claim_approved_action H clk env a w c k ref h p db))"
  by (auto simp: claim_approved_action_def Let_def run_stmt expire_pending_exec run_exec run_then_exec
      run_then_env split: option.splits prod.splits)

lemma complete_claimed_action_run:
  "legal_env env \<Longrightarrow> store_step\<^sup>*\<^sup>* db (fst (complete_claimed_action H now env a w c db))"
  by (auto simp: complete_claimed_action_def Let_def run_stmt run_exec run_then_exec run_then_env
      split: option.splits prod.splits)

lemma claim_execution_run:
  "legal_env env \<Longrightarrow> store_step\<^sup>*\<^sup>* db (fst (claim_execution H clk env a w t p db))"
  by (auto simp: claim_execution_def Let_def run_stmt expire_pending_exec run_exec run_then_exec
      run_then_env split: option.splits prod.splits)

lemma finalize_success_run:
  "legal_env env \<Longrightarrow> store_step\<^sup>*\<^sup>* db (fst (finalize_execution_success H now env a w t h db))"
  by (auto simp: finalize_execution_success_def finalize_execution_def Let_def run_stmt run_exec
      run_then_env split: prod.splits)

lemma finalize_failure_run:
  "legal_env env \<Longrightarrow> store_step\<^sup>*\<^sup>* db (fst (finalize_execution_failure H now env a w t e db))"
  by (auto simp: finalize_execution_failure_def finalize_execution_def Let_def run_stmt run_exec
      run_then_env split: prod.splits)

lemma mark_executed_run:
  "legal_env env \<Longrightarrow> store_step\<^sup>*\<^sup>* db (fst (mark_executed H clk env a w p db))"
  by (auto simp: mark_executed_def Let_def run_stmt expire_pending_exec run_exec run_then_exec
      run_then_env split: option.splits prod.splits)

lemma mark_execution_failed_run:
  "legal_env env \<Longrightarrow> store_step\<^sup>*\<^sup>* db (fst (mark_execution_failed H now env a e w db))"
  by (auto simp: mark_execution_failed_def Let_def run_stmt run_exec run_then_exec run_then_env
      legal_env_def split: option.splits prod.splits)

lemma mark_consumed_run:
  "legal_env env \<Longrightarrow> store_step\<^sup>*\<^sup>* db (fst (mark_consumed H now env a w j ch tok db))"
  by (auto simp: mark_consumed_def Let_def run_stmt run_exec run_then_exec run_then_env
      split: option.splits prod.splits)

lemma attach_execution_contract_run:
  "legal_env env \<Longrightarrow> store_step\<^sup>*\<^sup>* db (fst (attach_execution_contract H env a w c ch sh db))"
  by (auto simp: attach_execution_contract_def Let_def run_stmt run_exec run_then_exec run_then_env
      split: option.splits prod.splits)

lemma claim_resume_run:
  "legal_env env \<Longrightarrow> store_step\<^sup>*\<^sup>* db (fst (claim_resume H now env a w j tok ch db))"
  by (auto simp: claim_resume_def Let_def run_stmt run_exec run_then_exec run_then_env
      split: option.splits prod.splits)

lemma create_ticket_run: "store_step\<^sup>*\<^sup>* db (fst (create_ticket H now uuid q db))"
  by (auto simp: create_ticket_def Let_def split: sum.splits option.splits intro: store_step.insert)

lemma list_pending_run: "legal_env env \<Longrightarrow> store_step\<^sup>*\<^sup>* db (fst (list_pending H now env w db))"
  by (auto simp: list_pending_def Let_def expire_pending_exec run_exec run_then_env)

lemmas ops_run = decide_run claim_approved_action_run complete_claimed_action_run claim_execution_run
  finalize_success_run finalize_failure_run mark_executed_run mark_execution_failed_run
  mark_consumed_run attach_execution_contract_run claim_resume_run create_ticket_run list_pending_run

end
