(* ===== verification/Approval_Facts.thy ===== *)
theory Approval_Facts imports Approval_Machine begin

text \<open>
  The facts the properties of the approval store share: the columns of a ticket, the row a query
  finds, the row count of a statement, what a successful operation found, and a small concrete store
  on which the witnesses evaluate the operations.
\<close>

section \<open>Reading rows\<close>

lemma ticket_columns [simp]:
  "t_status (row_to_ticket H r) = r_status r" "t_version (row_to_ticket H r) = r_version r"
  "t_approval_id (row_to_ticket H r) = r_approval_id r"
  "t_workspace_id (row_to_ticket H r) = r_workspace_id r" "t_run_id (row_to_ticket H r) = r_run_id r"
  "t_target_kind (row_to_ticket H r) = r_target_kind r" "t_target_ref (row_to_ticket H r) = r_target_ref r"
  "t_action_hash (row_to_ticket H r) = r_action_hash r" "t_policy_hash (row_to_ticket H r) = r_policy_hash r"
  "t_request_hash (row_to_ticket H r) = r_request_hash r"
  "t_snapshot_hash (row_to_ticket H r) = r_snapshot_hash r"
  "t_snapshot (row_to_ticket H r) = r_snapshot_json r" "t_expires_at (row_to_ticket H r) = r_expires_at r"
  "t_actor (row_to_ticket H r) = text_or_none (r_actor r)"
  "t_execution_status (row_to_ticket H r) = r_execution_status r"
  "t_executed_at (row_to_ticket H r) = r_executed_at r"
  "t_resume_token_ref (row_to_ticket H r) = text_or_none (r_resume_token_ref r)"
  "t_resume_claimed_job_id (row_to_ticket H r) = text_or_none (r_resume_claimed_job_id r)"
  "t_consumed_by_job_id (row_to_ticket H r) = text_or_none (r_consumed_by_job_id r)"
  "t_consumed_at (row_to_ticket H r) = r_consumed_at r"
  "t_idempotency_key (row_to_ticket H r) = r_idempotency_key r"
  "t_created_at (row_to_ticket H r) = r_created_at r"
  by (simp_all add: row_to_ticket_def ticket_of_columns_def Let_def split: option.split)

lemma text_or_none_Some [simp]: "s \<noteq> [] \<Longrightarrow> text_or_none (Some s) = Some s"
  by (simp add: text_or_none_def)

lemma text_or_none_eq_Some [simp]: "text_or_none c = Some s \<longleftrightarrow> c = Some s \<and> s \<noteq> []"
  by (cases c) (auto simp: text_or_none_def)

lemma text_or_none_eq_None [simp]: "text_or_none c = None \<longleftrightarrow> (\<forall>y. c = Some y \<longrightarrow> y = [])"
  by (cases c) (auto simp: text_or_none_def)

lemma text_or_none_simps [simp]: "text_or_none None = None"
  by (simp add: text_or_none_def)

text \<open>The contract digest a reader recomputes, as a function of the row.\<close>

definition row_contract_hash :: "(string \<Rightarrow> string) \<Rightarrow> approval_row \<Rightarrow> string option" where
  "row_contract_hash H r =
   (case dict_get_default (r_snapshot_json r) ''execution_contract'' (PDict []) of
      PDict contract \<Rightarrow>
        (if contract = [] then text_or_none (r_execution_contract_hash r)
         else opt_or
           (snd (derive_execution_contract_refs H (r_run_id r) (r_approval_id r) (r_snapshot_hash r)
              (r_target_kind r) (r_policy_hash r) contract (Some (r_action_hash r))))
           (text_or_none (r_execution_contract_hash r)))
    | _ \<Rightarrow> text_or_none (r_execution_contract_hash r))"

lemma effective_columns: "effective_execution_contract_hash H (ticket_of_columns r) = row_contract_hash H r"
  by (simp add: effective_execution_contract_hash_def row_contract_hash_def ticket_of_columns_def
      split: pyval.split)

lemma effective_set:
  "row_contract_hash H r = Some h \<Longrightarrow>
     effective_execution_contract_hash H (ticket_of_columns r\<lparr>t_execution_contract_hash := Some h\<rparr>) = Some h"
  by (auto simp: effective_execution_contract_hash_def row_contract_hash_def ticket_of_columns_def opt_or_def
      split: pyval.splits if_splits)

lemma row_contract_hash_None: "row_contract_hash H r = None \<Longrightarrow> text_or_none (r_execution_contract_hash r) = None"
  by (auto simp: row_contract_hash_def opt_or_def split: pyval.splits if_splits)

lemma ticket_contract_hash:
  "effective_execution_contract_hash H (row_to_ticket H r) = row_contract_hash H r"
  "t_execution_contract_hash (row_to_ticket H r) = row_contract_hash H r"
  by (simp_all add: row_to_ticket_def Let_def effective_columns effective_set split: option.split)
    (auto simp: ticket_of_columns_def dest: row_contract_hash_None)

lemma select_row_of:
  "db_inv db \<Longrightarrow> select_row a w db =
     (case row_of a db of None \<Rightarrow> None | Some r \<Rightarrow> if r_workspace_id r = w then Some r else None)"
  unfolding select_row_def db_inv_def by (simp add: fetchone_key)

lemma select_row_Some:
  "db_inv db \<Longrightarrow> select_row a w db = Some r \<longleftrightarrow> row_of a db = Some r \<and> r_workspace_id r = w"
  by (auto simp: select_row_of split: option.splits if_splits)

lemma get_Some:
  "db_inv db \<Longrightarrow> get H db a (Some w) = Some tk \<longleftrightarrow>
     (\<exists>r. row_of a db = Some r \<and> r_workspace_id r = w \<and> py_strip w \<noteq> [] \<and> tk = row_to_ticket H r)"
  by (auto simp: get_def has_workspace_def select_row_Some)

lemma get_opt_Some:
  "db_inv db \<Longrightarrow> get H db a wo = Some tk \<longleftrightarrow>
     (\<exists>r. row_of a db = Some r \<and> wo = Some (r_workspace_id r) \<and> py_strip (r_workspace_id r) \<noteq> [] \<and>
        tk = row_to_ticket H r)"
  using get_Some by (cases wo) (auto simp: get_def has_workspace_def)

lemma get_None:
  "db_inv db \<Longrightarrow> get H db a (Some w) = None \<longleftrightarrow>
     py_strip w = [] \<or> (\<forall>r. row_of a db = Some r \<longrightarrow> r_workspace_id r \<noteq> w)"
  by (auto simp: get_def has_workspace_def select_row_of split: option.splits)

lemma select_row_found:
  "select_row a w db = Some r \<Longrightarrow> r_approval_id r = a \<and> r_workspace_id r = w"
  by (auto simp: select_row_def sql_fetchone_def dest: find_eq_SomeD)

lemma get_found: "get H db a wo = Some tk \<Longrightarrow> t_approval_id tk = a \<and> wo = Some (t_workspace_id tk)"
  by (auto simp: get_def has_workspace_def split: if_splits option.splits dest!: select_row_found)

text \<open>The row count of a statement that names a row.\<close>

fun stmt_target :: "statement \<Rightarrow> (string \<times> string) option" where
  "stmt_target (SExpire now) = None"
| "stmt_target (SClaimAction a w v now p c) = Some (a, w)"
| "stmt_target (SCompleteAction a w v c now) = Some (a, w)"
| "stmt_target (SClaimExecution a w v now t p) = Some (a, w)"
| "stmt_target (SFinalizeSuccess a w t now h) = Some (a, w)"
| "stmt_target (SFinalizeFailure a w t now e) = Some (a, w)"
| "stmt_target (SDecide a w v now ok p why) = Some (a, w)"
| "stmt_target (SMarkExecuted a w v now p) = Some (a, w)"
| "stmt_target (SMarkFailed a w now e) = Some (a, w)"
| "stmt_target (SMarkConsumed a w v now j) = Some (a, w)"
| "stmt_target (SAttach a w v sh snap ch) = Some (a, w)"
| "stmt_target (SClaimResume a w v now j t) = Some (a, w)"

lemma stmt_target_row:
  "stmt_target st = Some (a, w) \<Longrightarrow> stmt_guard st r \<Longrightarrow> r_approval_id r = a \<and> r_workspace_id r = w"
  by (cases st) (auto simp: row_simps)

lemma upd_count_target:
  assumes "db_inv db" "stmt_target st = Some (a, w)"
  shows "upd_count st db = (case row_of a db of None \<Rightarrow> 0 | Some r \<Rightarrow> if stmt_guard st r then 1 else 0)"
proof -
  have g: "\<And>r. stmt_guard st r \<Longrightarrow> r_approval_id r = a"
    using stmt_target_row [OF assms(2)] by blast
  have d: "keys_distinct r_approval_id (approvals db)" using assms(1) by (simp add: db_inv_def)
  have "upd_count st db \<le> 1" unfolding upd_count_def using g d by (rule stmt.count_le_one)
  moreover have "upd_count st db = 1 \<longleftrightarrow> (\<exists>r. row_of a db = Some r \<and> stmt_guard st r)"
    unfolding upd_count_def using g d by (rule stmt.count_one_iff)
  ultimately show ?thesis by (auto split: option.splits)
qed

lemma row_of_target:
  assumes "stmt_target st = Some (a, w)"
  shows "row_of k (exec_stmt st db) =
    (if k = a then map_option (\<lambda>r. if stmt_guard st r then stmt_effect st r else r) (row_of a db)
     else row_of k db)"
proof (cases "row_of k db")
  case (Some r)
  then have "r_approval_id r = k" by (blast dest: lookup_key_Some)
  then show ?thesis using Some stmt_target_row [OF assms, of r] by (auto simp: row_of_exec)
qed (auto simp: row_of_exec)

lemma exec_stmt_noop:
  assumes "db_inv db" "stmt_target st = Some (a, w)" "\<And>r. row_of a db = Some r \<Longrightarrow> \<not> stmt_guard st r"
  shows "exec_stmt st db = db"
proof -
  have "upd_count st db = 0" using upd_count_target [OF assms(1,2)] assms(3) by (auto split: option.splits)
  then have "fst (sql_update (stmt_guard st) (stmt_effect st) (approvals db)) = approvals db"
    unfolding upd_count_def by (rule sql_update_none)
  then show ?thesis by (simp add: exec_stmt_def run_update_def Let_def)
qed

lemma db_inv_env: "legal_env env \<Longrightarrow> db_inv db \<Longrightarrow> db_inv (env i db)"
  unfolding legal_env_def by (meson store.run_inv)

lemma db_inv_expire: "db_inv db \<Longrightarrow> db_inv (expire_pending now db)"
  by (simp add: expire_pending_exec db_inv_update)

lemma db_inv_run: "store_step\<^sup>*\<^sup>* db db' \<Longrightarrow> db_inv db \<Longrightarrow> db_inv db'"
  by (rule store.run_inv)

lemma later_row:
  assumes "db_inv db" "store_step\<^sup>*\<^sup>* db db'" "row_of k db = Some r"
  obtains r' where "row_of k db' = Some r'" "row_later r r'"
  using store.run_rel [OF assms(2,1)] assms(3) unfolding db_later_def by blast

text \<open>A row past the claimable statuses stays there.\<close>

lemma unclaimable_row:
  assumes "db_inv db" "store_step\<^sup>*\<^sup>* db db'" "row_of k db = Some r" "\<not> claimable (r_status r)"
  obtains r' where "row_of k db' = Some r'" "\<not> claimable (r_status r')"
proof -
  obtain r' where r': "row_of k db' = Some r'" "row_later r r'" by (rule later_row [OF assms(1-3)])
  with assms(4) have "\<not> claimable (r_status r')"
    unfolding row_later_def by (blast dest: lifecycle_claimed_run)
  with r'(1) show ?thesis by (rule that)
qed

lemma expire_run: "store_step\<^sup>*\<^sup>* db (expire_pending now db)"
  by (simp add: expire_pending_exec run_exec)

lemma gap_run: "legal_env env \<Longrightarrow> store_step\<^sup>*\<^sup>* db (env i (expire_pending now db))"
  by (meson run_then_env expire_run)

lemma row_inv_of: "db_inv db \<Longrightarrow> row_of a db = Some r \<Longrightarrow> row_inv r"
  unfolding db_inv_def using lookup_key_Some by metis

lemma row_of_member: "db_inv db \<Longrightarrow> s \<in> set (approvals db) \<Longrightarrow> row_of (r_approval_id s) db = Some s"
  unfolding db_inv_def using lookup_key_member by metis

lemma legal_env_run: "legal_env env \<Longrightarrow> store_step\<^sup>*\<^sup>* db (env i db)"
  by (simp add: legal_env_def)

section \<open>What a successful operation found\<close>

lemma claim_execution_ok:
  assumes "db_inv db" "legal_env env" "claim_execution H clk env a w t p db = (db', tk, None)"
  defines "db1 \<equiv> env 0 (expire_pending (clk 0) db)"
  obtains r where "row_of a db1 = Some r" "r_workspace_id r = w" "r_status r = Approved"
    "db' = env 1 (exec_stmt (SClaimExecution a w (r_version r) (clk 1) t p) db1)"
proof -
  have inv: "db_inv db1" unfolding db1_def by (intro db_inv_env [OF assms(2)] db_inv_update db_inv_expire assms(1))
  note op = assms(3) [unfolded claim_execution_def Let_def, folded db1_def]
  obtain r where sel: "select_row a w db1 = Some r" using op by (cases "select_row a w db1") auto
  then have st: "r_status r = Approved" using op by (auto split: if_splits)
  have "db' = env 1 (exec_stmt (SClaimExecution a w (r_version r) (clk 1) t p) db1)"
    using op sel st by (auto simp: run_stmt split: if_splits)
  then show ?thesis using that sel st by (simp add: select_row_Some [OF inv])
qed

lemma claim_execution_row:
  assumes "db_inv db" "legal_env env" "claim_execution H clk env a w t p db = (db', tk, None)"
  obtains r where "row_of a db' = Some r" "\<not> claimable (r_status r)" "db_inv db'"
proof -
  define db1 where "db1 = env 0 (expire_pending (clk 0) db)"
  obtain r where r: "row_of a db1 = Some r" "r_workspace_id r = w" "r_status r = Approved"
    "db' = env 1 (exec_stmt (SClaimExecution a w (r_version r) (clk 1) t p) db1)"
    unfolding db1_def by (rule claim_execution_ok [OF assms])
  let ?db2 = "exec_stmt (SClaimExecution a w (r_version r) (clk 1) t p) db1"
  have inv: "db_inv ?db2" unfolding db1_def by (intro db_inv_env [OF assms(2)] db_inv_update db_inv_expire assms(1))
  have "r_approval_id r = a" using lookup_key_Some [OF r(1)] by simp
  then have eff: "row_of a ?db2 = Some (claim_execution_effect (clk 1) t p r)"
    using r by (simp add: table_simps row_simps)
  have gone: "\<not> claimable (r_status (claim_execution_effect (clk 1) t p r))"
    by (simp add: claimable_def row_simps)
  have run: "store_step\<^sup>*\<^sup>* ?db2 db'" using assms(2) r(4) by (simp add: legal_env_def)
  obtain r' where "row_of a db' = Some r'" "\<not> claimable (r_status r')"
    by (rule unclaimable_row [OF inv run eff gone])
  moreover have "db_inv db'" using db_inv_env [OF assms(2) inv] r(4) by simp
  ultimately show ?thesis using that by blast
qed

text \<open>No operation that needs an approved or pending ticket succeeds on a row past those statuses.\<close>

lemma unclaimable_fails:
  assumes "db_inv db" "row_of a db = Some r" "\<not> claimable (r_status r)" "legal_env env"
  shows "snd (snd (claim_execution H clk env a w t p db)) \<noteq> None"
    and "snd (snd (mark_executed H clk env a wo p db)) \<noteq> None"
    and "snd (snd (decide H clk env a wo ok p why db)) \<noteq> None"
proof -
  define db1 where "db1 = env 0 (expire_pending (clk 0) db)"
  have inv: "db_inv db1" unfolding db1_def by (intro db_inv_env [OF assms(4)] db_inv_expire assms(1))
  obtain r' where r': "row_of a db1 = Some r'" "\<not> claimable (r_status r')"
    unfolding db1_def by (rule unclaimable_row [OF assms(1) gap_run [OF assms(4)] assms(2,3)])
  show "snd (snd (claim_execution H clk env a w t p db)) \<noteq> None"
    unfolding claim_execution_def db1_def [symmetric]
    using r' by (auto simp: Let_def select_row_of [OF inv] claimable_def)
  show "snd (snd (mark_executed H clk env a wo p db)) \<noteq> None"
    unfolding mark_executed_def db1_def [symmetric]
    using r' by (auto simp: Let_def get_opt_Some [OF inv] claimable_def split: option.split)
  show "snd (snd (decide H clk env a wo ok p why db)) \<noteq> None"
    unfolding decide_def db1_def [symmetric]
    using r' by (auto simp: Let_def get_opt_Some [OF inv] claimable_def split: option.split)
qed

section \<open>Creating\<close>

lemma distinct_singleton: "distinct xs \<Longrightarrow> xs = [b] \<longleftrightarrow> set xs = {b}"
  by (cases xs; cases "tl xs") auto

lemma binding_case:
  "(case xs of [] \<Rightarrow> Inl m1 | [x] \<Rightarrow> (if x = l then Inl m2 else Inr x) | _ \<Rightarrow> Inl m3) = Inr b \<longleftrightarrow>
     xs = [b] \<and> b \<noteq> l"
  by (auto split: list.splits)

lemma binding_not_legacy:
  "canonical_workspace_binding wo kind ref snap = Inr b \<Longrightarrow> b \<noteq> legacy_unbound_workspace"
  by (simp add: canonical_workspace_binding_def Let_def binding_case split: prod.splits if_splits)

text \<open>The row behind the ticket a creation returns.\<close>

lemma created_row:
  assumes "db_inv db" "create_ticket H now uuid q db = (db1, Inr tk)"
  obtains r where "row_of (t_approval_id tk) db1 = Some r" "r_workspace_id r = t_workspace_id tk"
    "r_idempotency_key r = q_idempotency_key q" "t_workspace_id tk \<noteq> legacy_unbound_workspace" "db_inv db1"
proof -
  obtain bw where bw: "canonical_workspace_binding (q_workspace_id q) (q_target_kind q) (q_target_ref q)
      (q_snapshot q) = Inr bw"
    using assms(2) by (auto simp: create_ticket_def split: sum.splits)
  have inv: "db_inv db1" using db_inv_run [OF create_ticket_run [of db H now uuid q] assms(1)] assms(2) by simp
  let ?row = "insert_row (new_ticket now uuid bw q)"
  show ?thesis
  proof (cases "violates_unique ?row db")
    case True
    then have "get_by_idempotency_key_conn H db (q_idempotency_key q) (Some bw) = Some tk" and db1: "db1 = db"
      using assms(2) bw by (simp_all add: create_ticket_def Let_def split: option.splits)
    then obtain r where "List.find (\<lambda>r. r_idempotency_key r = q_idempotency_key q \<and> r_workspace_id r = bw)
        (approvals db) = Some r" "tk = row_to_ticket H r"
      by (auto simp: get_by_idempotency_key_conn_def sql_fetchone_def)
    then have r: "r \<in> set (approvals db)" "r_idempotency_key r = q_idempotency_key q"
        "r_workspace_id r = bw" "tk = row_to_ticket H r" "db1 = db"
      using db1 by (auto dest: find_eq_SomeD)
    then show ?thesis using that row_of_member [OF assms(1) r(1)] binding_not_legacy [OF bw] inv by simp
  next
    case False
    then have "tk = new_ticket now uuid bw q" "db1 = db\<lparr>approvals := approvals db @ [?row]\<rparr>"
      using assms(2) bw by (auto simp: create_ticket_def Let_def)
    then show ?thesis
      using that [of ?row] row_of_member [OF inv, of ?row] binding_not_legacy [OF bw] inv
      by (simp add: insert_row_def new_ticket_def)
  qed
qed

lemma idem_lookup:
  assumes "db_inv db" "row_of a db = Some r"
  shows "get_by_idempotency_key_conn H db (r_idempotency_key r) (Some w) =
    (if r_workspace_id r = w then Some (row_to_ticket H r) else None)"
proof -
  have d: "keys_distinct r_idempotency_key (approvals db)" using assms(1) by (simp add: db_inv_def)
  have "r \<in> set (approvals db)" using lookup_key_Some [OF assms(2)] by blast
  from lookup_key_member [OF d this] show ?thesis
    by (simp add: get_by_idempotency_key_conn_def fetchone_key [OF d])
qed

section \<open>A concrete store\<close>

definition demo_hash :: "string \<Rightarrow> string" where
  "demo_hash s = ''h''"

definition demo_args :: create_args where
  "demo_args = \<lparr>q_workspace_id = Some ''ws'', q_run_id = ''run'', q_target_kind = ''tool'',
     q_target_ref = ''git'', q_action_hash = ''ah'', q_policy_hash = ''ph'', q_request_hash = ''rh'',
     q_snapshot_hash = ''sh'', q_snapshot = [(''executorPrincipalId'', PStr ''bob'')],
     q_ttl_seconds = 60, q_idempotency_key = ''ik''\<rparr>"

definition demo_pending :: approval_row where
  "demo_pending = insert_row (new_ticket 0 ''a1'' ''ws'' demo_args)"

definition demo_approved :: approval_row where
  "demo_approved = decide_effect 1 True ''alice'' None demo_pending"

definition demo_executing :: approval_row where
  "demo_executing = claim_execution_effect 2 ''t1'' ''bob'' demo_approved"

definition demo_executed :: approval_row where
  "demo_executed = mark_executed_effect 2 ''bob'' demo_approved"

definition demo_db :: "approval_row \<Rightarrow> approval_db" where
  "demo_db r = \<lparr>approvals = [r], schema_meta = None\<rparr>"

lemmas demo_defs = demo_db_def demo_executed_def demo_executing_def demo_approved_def demo_pending_def
  demo_args_def insert_row_def new_ticket_def canonical_dict_def

lemma demo_inv [simp]:
  "db_inv (demo_db demo_pending)" "db_inv (demo_db demo_approved)"
  "db_inv (demo_db demo_executing)" "db_inv (demo_db demo_executed)"
  by (simp_all add: db_inv_def demo_defs row_simps shape_defs keys_distinct_def)

text \<open>Calls on the concrete store, evaluated.\<close>

lemma demo_claim:
  "claim_execution demo_hash (\<lambda>_. 2) (\<lambda>_ d. d) ''a1'' ''ws'' ''t1'' ''bob'' (demo_db demo_approved) =
     (demo_db demo_executing, Some (row_to_ticket demo_hash demo_executing), None)"
  by code_simp

end
