(* ===== verification/Approval_Props.thy ===== *)
theory Approval_Props imports Approval_Facts begin

text \<open>
  What the approval store guarantees: its invariant, the history of a ticket, who may decide, claim,
  execute and consume it, and that each of these happens at most once, under every interleaving of
  the operations of other connections.
\<close>

section \<open>The invariant and the history of a ticket\<close>

text \<open>
  C1: In every state the store can reach from an empty database, by any sequence of statements, ticket
  insertions and re-openings, approval ids and idempotency keys are unique, the two status columns
  agree, and every status has the columns it implies (an executing ticket has an attempt and a
  decision, a consumed one a consumer and an execution time, a pending one none of them).
\<close>

theorem store_invariant: "store_step\<^sup>*\<^sup>* empty_db db \<Longrightarrow> db_inv db"
  using store.run_inv db_inv_empty by blast

theorem store_invariant_witness:
  "db_inv (fst (create_ticket demo_hash 0 ''a1'' demo_args (init_db empty_db)))"
proof -
  have "store_step\<^sup>*\<^sup>* empty_db (init_db empty_db)" by (auto intro: store_step.init)
  then have "store_step\<^sup>*\<^sup>* empty_db (fst (create_ticket demo_hash 0 ''a1'' demo_args (init_db empty_db)))"
    by (rule rtranclp_trans [OF _ create_ticket_run])
  then show ?thesis by (rule store_invariant)
qed

text \<open>
  C2: Under any interleaving, a ticket is never deleted, its status only moves along the life cycle
  (a rejected, expired, consumed or failed ticket keeps its status or becomes failed), its version
  never decreases, and what was approved (run, target, action, policy and request digests, creation
  and expiry times, idempotency key) never changes; the workspace changes only when it was unbound.
\<close>

theorem ticket_history:
  assumes "db_inv db" "store_step\<^sup>*\<^sup>* db db'" "row_of a db = Some r"
  shows "\<exists>r'. row_of a db' = Some r' \<and> lifecycle\<^sup>*\<^sup>* (r_status r) (r_status r') \<and>
    (r_status r \<in> {Rejected, Expired, Consumed, ExecutionFailed} \<longrightarrow>
       r_status r' = r_status r \<or> r_status r' = ExecutionFailed) \<and>
    r_version r \<le> r_version r' \<and> fixed_columns r' = fixed_columns r \<and>
    (r_workspace_id r \<noteq> legacy_unbound_workspace \<longrightarrow> r_workspace_id r' = r_workspace_id r)"
proof -
  obtain r' where "row_of a db' = Some r'" "row_later r r'" by (rule later_row [OF assms])
  then show ?thesis unfolding row_later_def using lifecycle_closed by metis
qed

theorem ticket_history_witness:
  "\<exists>r'. row_of ''a1'' (fst (decide demo_hash (\<lambda>_. 1) (\<lambda>_ d. d) ''a1'' (Some ''ws'') True ''alice'' None
      (demo_db demo_pending))) = Some r' \<and> fixed_columns r' = fixed_columns demo_pending"
  using ticket_history [OF demo_inv(1) decide_run [OF legal_env_id(2)], of "''a1''" demo_pending]
  by (fastforce simp: demo_defs)

section \<open>Claiming an execution\<close>

text \<open>
  C3: When \<open>claim_execution\<close> succeeds, it found the ticket in the caller's workspace, approved by a
  named decider, never executed or consumed before and not expired when it was called, and it
  changed exactly that row, to executing under the caller's attempt.
\<close>

theorem claim_execution_authorised:
  assumes "db_inv db" "legal_env env" "claim_execution H clk env a w t p db = (db', tk, None)"
  defines "db1 \<equiv> env 0 (expire_pending (clk 0) db)"
  shows "\<exists>r. row_of a db1 = Some r \<and> r_workspace_id r = w \<and> r_status r = Approved \<and>
    decided r \<and> untouched r \<and> unconsumed r \<and>
    (\<forall>r0. row_of a db = Some r0 \<longrightarrow> clk 0 < r_expires_at r0) \<and>
    db' = env 1 (db1\<lparr>approvals :=
      map (\<lambda>s. if r_approval_id s = a then claim_execution_effect (clk 1) t p s else s) (approvals db1)\<rparr>)"
proof -
  have inv: "db_inv db1" unfolding db1_def by (intro db_inv_env [OF assms(2)] db_inv_expire assms(1))
  obtain r where r: "row_of a db1 = Some r" "r_workspace_id r = w" "r_status r = Approved"
    "db' = env 1 (exec_stmt (SClaimExecution a w (r_version r) (clk 1) t p) db1)"
    unfolding db1_def by (rule claim_execution_ok [OF assms(1-3)])
  have shape: "decided r" "untouched r" "unconsumed r" using row_inv_of [OF inv r(1)] r(3) by (auto simp: row_inv_def)
  have only: "claim_execution_guard a w (r_version r) s \<longleftrightarrow> r_approval_id s = a" if "s \<in> set (approvals db1)" for s
    using row_of_member [OF inv that] r(1-3) that by (auto simp: row_simps)
  have "clk 0 < r_expires_at r0" if "row_of a db = Some r0" for r0
  proof (rule ccontr)
    assume late: "\<not> clk 0 < r_expires_at r0"
    have e: "row_of a (expire_pending (clk 0) db) =
        Some (if r_status r0 \<in> {Pending, Approved} then expire_effect r0 else r0)"
      using that late by (simp add: expire_pending_exec table_simps expire_guard_def)
    have gone: "\<not> claimable (r_status (if r_status r0 \<in> {Pending, Approved} then expire_effect r0 else r0))"
      by (auto simp: claimable_def row_simps)
    obtain r' where "row_of a db1 = Some r'" "\<not> claimable (r_status r')"
      unfolding db1_def
      by (rule unclaimable_row [OF db_inv_expire [OF assms(1)] legal_env_run [OF assms(2)] e gone])
    then show False using r(1,3) by (simp add: claimable_def)
  qed
  then have expiry: "\<forall>r0. row_of a db = Some r0 \<longrightarrow> clk 0 < r_expires_at r0" by blast
  have "exec_stmt (SClaimExecution a w (r_version r) (clk 1) t p) db1 = db1\<lparr>approvals :=
      map (\<lambda>s. if r_approval_id s = a then claim_execution_effect (clk 1) t p s else s) (approvals db1)\<rparr>"
    using only by (simp add: exec_stmt_def run_update_def sql_update_rows cong: map_cong)
  note upd = r(4) [unfolded this]
  show ?thesis using r(1-3) shape expiry upd by blast
qed

theorem claim_execution_authorised_witness:
  "row_of ''a1'' (demo_db demo_approved) \<noteq> None \<and> demo_db demo_executing = (demo_db demo_approved)\<lparr>approvals :=
     map (\<lambda>s. if r_approval_id s = ''a1'' then claim_execution_effect 2 ''t1'' ''bob'' s else s)
       (approvals (expire_pending 2 (demo_db demo_approved)))\<rparr>"
proof -
  have "expire_pending 2 (demo_db demo_approved) = demo_db demo_approved" by code_simp
  then show ?thesis
    using claim_execution_authorised [OF demo_inv(2) legal_env_id(2) demo_claim] by fastforce
qed

text \<open>
  C4: An approval is executed at most once: after a successful \<open>claim_execution\<close>, whatever any
  connection commits next, no later \<open>claim_execution\<close>, \<open>mark_executed\<close> or \<open>decide\<close> on that
  ticket succeeds.
\<close>

theorem claim_at_most_once:
  assumes "db_inv db" "legal_env env" "claim_execution H clk env a w t p db = (db1, tk, None)"
    and "store_step\<^sup>*\<^sup>* db1 db2" "legal_env env'"
  shows "snd (snd (claim_execution H clk' env' a w' t' p' db2)) \<noteq> None \<and>
    snd (snd (mark_executed H clk' env' a wo p' db2)) \<noteq> None \<and>
    snd (snd (decide H clk' env' a wo ok p' why db2)) \<noteq> None"
proof -
  obtain r where r: "row_of a db1 = Some r" "\<not> claimable (r_status r)" "db_inv db1"
    by (rule claim_execution_row [OF assms(1-3)])
  obtain r' where r': "row_of a db2 = Some r'" "\<not> claimable (r_status r')"
    by (rule unclaimable_row [OF r(3) assms(4) r(1,2)])
  have inv: "db_inv db2" by (rule db_inv_run [OF assms(4) r(3)])
  note unclaimable_fails [OF inv r' assms(5)]
  then show ?thesis by blast
qed

theorem claim_at_most_once_witness:
  "snd (snd (claim_execution demo_hash (\<lambda>_. 3) (\<lambda>_ d. d) ''a1'' ''ws'' ''t2'' ''eve''
     (demo_db demo_executing))) \<noteq> None"
  using claim_at_most_once [OF demo_inv(2) legal_env_id(2) demo_claim rtranclp.rtrancl_refl
        legal_env_id(2)] by blast

section \<open>Finishing an execution\<close>

text \<open>
  Only the attempt that claimed a ticket finishes it: \<open>finalize_execution_success\<close> reports no error
  exactly when the row is executing under this workspace and attempt, and then writes the result to
  that row only; otherwise it reports a mismatch and writes nothing.  In both cases nobody can finish
  the ticket a second time.
\<close>

theorem attempt_owns_execution:
  fixes H now a w t h db
  assumes "db_inv db"
  defines "res \<equiv> finalize_execution_success H now (\<lambda>_ d. d) a w t h db"
    and "owned \<equiv> \<exists>r. row_of a db = Some r \<and> r_workspace_id r = w \<and> r_status r = Executing \<and>
           r_execution_attempt_id r = Some t"
  shows "snd (snd res) = (if owned then None else Some ''APPROVAL_EXECUTION_ATTEMPT_MISMATCH'') \<and>
    (\<forall>k. row_of k (fst res) = (if k = a \<and> owned
       then map_option (finalize_effect now Executed ExecExecuted (Some h) None) (row_of a db)
       else row_of k db)) \<and>
    (owned \<longrightarrow> snd (snd (finalize_execution_success H now' (\<lambda>_ d. d) a w' t' h' (fst res))) =
       Some ''APPROVAL_EXECUTION_ATTEMPT_MISMATCH'')"
proof -
  let ?st = "SFinalizeSuccess a w t now h"
  have owned: "owned \<longleftrightarrow> (\<exists>r. row_of a db = Some r \<and> stmt_guard ?st r)"
    unfolding owned_def using lookup_key_Some by (fastforce simp: row_simps)
  have fst_res: "fst res = exec_stmt ?st db"
    by (simp add: res_def finalize_execution_success_def finalize_execution_def run_stmt Let_def)
  have cnt: "upd_count ?st db = (if owned then 1 else 0)"
    unfolding owned by (subst upd_count_target [OF assms(1)]) (auto split: option.splits)
  have code: "snd (snd res) = (if owned then None else Some ''APPROVAL_EXECUTION_ATTEMPT_MISMATCH'')"
    using cnt by (simp add: res_def finalize_execution_success_def finalize_execution_def run_stmt Let_def)
  have rows: "row_of k (fst res) = (if k = a \<and> owned
       then map_option (finalize_effect now Executed ExecExecuted (Some h) None) (row_of a db)
       else row_of k db)" for k
  proof (cases "row_of k db")
    case (Some r)
    then have "r_approval_id r = k" by (blast dest: lookup_key_Some)
    then have "stmt_guard ?st r \<longleftrightarrow> k = a \<and> owned"
      using Some by (cases "k = a") (simp_all add: owned finalize_guard_def at_row_def)
    then show ?thesis using Some by (auto simp: fst_res row_of_exec)
  next
    case None
    then show ?thesis using owned by (cases "k = a") (simp_all add: fst_res row_of_exec)
  qed
  have again: "snd (snd (finalize_execution_success H now' (\<lambda>_ d. d) a w' t' h' (fst res))) =
           Some ''APPROVAL_EXECUTION_ATTEMPT_MISMATCH''" if own: "owned"
  proof -
    obtain s where "row_of a db = Some s" using own unfolding owned by blast
    with rows [of a] own obtain r where r: "row_of a (fst res) = Some r" "r_status r = Executed"
      by (simp add: finalize_effect_def)
    have "db_inv (fst res)" unfolding fst_res by (rule db_inv_update [OF assms(1)])
    from upd_count_target [OF this, of "SFinalizeSuccess a w' t' now' h'" a w'] r
    have "upd_count (SFinalizeSuccess a w' t' now' h') (fst res) = 0" by (simp add: row_simps)
    then show ?thesis
      by (simp add: finalize_execution_success_def finalize_execution_def run_stmt Let_def)
  qed
  show ?thesis using code rows again by blast
qed

theorem attempt_owns_execution_witness:
  "snd (snd (finalize_execution_success demo_hash 3 (\<lambda>_ d. d) ''a1'' ''ws'' ''t2'' ''rh'' (demo_db demo_executing))) =
     Some ''APPROVAL_EXECUTION_ATTEMPT_MISMATCH''"
proof -
  have "row_of ''a1'' (demo_db demo_executing) = Some demo_executing" by code_simp
  moreover have "r_execution_attempt_id demo_executing = Some ''t1''" by code_simp
  ultimately show ?thesis
    using attempt_owns_execution [OF demo_inv(3), of demo_hash 3 "''a1''" "''ws''" "''t2''" "''rh''"] by simp
qed

section \<open>Deciding\<close>

text \<open>
  Two deciders race and nobody's decision is lost or overwritten: when B decides the ticket between
  A's read and A's update, A is told of the conflict and the row holds B's decision, actor and time.
\<close>

theorem concurrent_decisions:
  fixes H a okB actorB whyB
  assumes "db_inv db" "row_of a db = Some r" "r_workspace_id r = w" "py_strip w \<noteq> []"
    and "r_status r = Pending" "clkA 0 < r_expires_at r" "clkB 0 < r_expires_at r"
  defines "other \<equiv> \<lambda>i d. if i = 1 then fst (decide H clkB (\<lambda>_ d. d) a (Some w) okB actorB whyB d) else d"
  shows "snd (snd (decide H clkA other a (Some w) okA actorA whyA db)) = Some ''APPROVAL_CONFLICT'' \<and>
    row_of a (fst (decide H clkA other a (Some w) okA actorA whyA db)) =
      Some (decide_effect (clkB 1) okB actorB whyB r)"
proof -
  define db1 where "db1 = expire_pending (clkA 0) db"
  define db2 where "db2 = expire_pending (clkB 0) db1"
  define db3 where "db3 = exec_stmt (SDecide a w (r_version r) (clkB 1) okB actorB whyB) db2"
  have key: "r_approval_id r = a" using lookup_key_Some [OF assms(2)] by simp
  have inv: "db_inv db1" "db_inv db2" "db_inv db3"
    unfolding db3_def db2_def db1_def by (intro db_inv_update db_inv_expire assms(1))+
  have row1: "row_of a db1 = Some r"
    using assms(2,6) by (simp add: db1_def expire_pending_exec table_simps row_simps)
  have row2: "row_of a db2 = Some r"
    using row1 assms(7) by (simp add: db2_def expire_pending_exec table_simps row_simps)
  have row3: "row_of a db3 = Some (decide_effect (clkB 1) okB actorB whyB r)"
    using row2 assms(3,5) key by (simp add: db3_def table_simps row_simps)
  have readA: "get H db1 a (Some w) = Some (row_to_ticket H r)"
    using row1 assms(3,4) by (simp add: get_Some [OF inv(1)])
  have readB: "get H db2 a (Some w) = Some (row_to_ticket H r)"
    using row2 assms(3,4) by (simp add: get_Some [OF inv(2)])
  have runB: "fst (decide H clkB (\<lambda>_ d. d) a (Some w) okB actorB whyB db1) = db3"
    using readB assms(3,5) by (simp add: decide_def Let_def db2_def [symmetric] run_stmt db3_def)
  let ?mine = "SDecide a w (r_version r) (clkA 1) okA actorA whyA"
  have stale: "\<not> stmt_guard ?mine s" if "row_of a db3 = Some s" for s
    using that row3 by (auto simp: row_simps)
  have cnt: "upd_count ?mine db3 = 0"
    by (subst upd_count_target [OF inv(3)]) (use row3 stale in auto)
  have noop: "exec_stmt ?mine db3 = db3" by (rule exec_stmt_noop [OF inv(3)]) (use stale in auto)
  have all: "fst (decide H clkA other a (Some w) okA actorA whyA db) = db3 \<and>
      snd (snd (decide H clkA other a (Some w) okA actorA whyA db)) = Some ''APPROVAL_CONFLICT''"
    using readA assms(3,5) runB cnt noop
    by (simp add: decide_def [of H clkA] Let_def other_def db1_def [symmetric] run_stmt)
  then show ?thesis using row3 by simp
qed

theorem concurrent_decisions_witness:
  "row_of ''a1'' (fst (decide demo_hash (\<lambda>_. 1)
     (\<lambda>i d. if i = 1 then fst (decide demo_hash (\<lambda>_. 2) (\<lambda>_ d. d) ''a1'' (Some ''ws'') False ''bob'' None d) else d)
     ''a1'' (Some ''ws'') True ''alice'' None (demo_db demo_pending))) =
   Some (decide_effect 2 False ''bob'' None demo_pending)"
proof (rule concurrent_decisions [OF demo_inv(1), THEN conjunct2])
  show "row_of ''a1'' (demo_db demo_pending) = Some demo_pending" by code_simp
  show "r_workspace_id demo_pending = ''ws''" by code_simp
  show "py_strip ''ws'' \<noteq> []" by code_simp
  show "r_status demo_pending = Pending" by code_simp
  show "1 < r_expires_at demo_pending" "2 < r_expires_at demo_pending" by code_simp+
qed

end
