(* ===== verification/Approval_Workspace.thy ===== *)
theory Approval_Workspace imports Approval_Facts begin

text \<open>
  Workspaces: how a ticket is bound to one, that an operation under one workspace neither sees nor
  changes the tickets of another, that creating a ticket is idempotent in its key, and what the list
  of pending approvals holds.
\<close>

section \<open>What an operation sees and touches\<close>

text \<open>
  \<open>isolated w a k r res\<close>: the result concerns ticket \<open>a\<close> of workspace \<open>w\<close>, and the row \<open>r\<close> under
  \<open>k\<close> is as before, or expired.
\<close>

definition isolated ::
  "string \<Rightarrow> string \<Rightarrow> string \<Rightarrow> approval_row \<Rightarrow> approval_db \<times> decision_result \<Rightarrow> bool" where
  "isolated w a k r res \<longleftrightarrow> row_of k (fst res) \<in> {Some r, Some (expire_effect r)} \<and>
     (\<forall>tk. fst (snd res) = Some tk \<longrightarrow> t_approval_id tk = a \<and> t_workspace_id tk = w)"

definition foreign :: "string \<Rightarrow> string \<Rightarrow> approval_row \<Rightarrow> approval_db \<Rightarrow> bool" where
  "foreign w k r db \<longleftrightarrow> r_workspace_id r \<noteq> w \<and> row_of k db \<in> {Some r, Some (expire_effect r)}"

lemma foreign_exec: "stmt_target st = Some (a, w) \<Longrightarrow> foreign w k r db \<Longrightarrow> foreign w k r (exec_stmt st db)"
  unfolding foreign_def using stmt_target_row [of st a w]
  by (fastforce simp: row_of_exec expire_effect_def)

lemma foreign_stmt [simp]:
  "foreign w k r db \<Longrightarrow> foreign w k r (exec_stmt (SClaimAction a w v now p c) db)"
  "foreign w k r db \<Longrightarrow> foreign w k r (exec_stmt (SCompleteAction a w v c now) db)"
  "foreign w k r db \<Longrightarrow> foreign w k r (exec_stmt (SClaimExecution a w v now t p) db)"
  "foreign w k r db \<Longrightarrow> foreign w k r (exec_stmt (SFinalizeSuccess a w t now h) db)"
  "foreign w k r db \<Longrightarrow> foreign w k r (exec_stmt (SFinalizeFailure a w t now e) db)"
  "foreign w k r db \<Longrightarrow> foreign w k r (exec_stmt (SDecide a w v now ok p why) db)"
  "foreign w k r db \<Longrightarrow> foreign w k r (exec_stmt (SMarkExecuted a w v now p) db)"
  "foreign w k r db \<Longrightarrow> foreign w k r (exec_stmt (SMarkFailed a w now e) db)"
  "foreign w k r db \<Longrightarrow> foreign w k r (exec_stmt (SMarkConsumed a w v now c) db)"
  "foreign w k r db \<Longrightarrow> foreign w k r (exec_stmt (SAttach a w v sh snap ch) db)"
  "foreign w k r db \<Longrightarrow> foreign w k r (exec_stmt (SClaimResume a w v now c t) db)"
  by (rule foreign_exec; simp)+

lemma foreign_expire:
  assumes "row_of k db = Some r" "r_workspace_id r \<noteq> w"
  shows "foreign w k r (exec_stmt (SExpire now) db)" "foreign w k r db"
  using assms by (auto simp: foreign_def row_of_exec)

lemma isolatedI:
  assumes "foreign w k r (fst res)"
    and "\<And>tk. fst (snd res) = Some tk \<Longrightarrow> t_approval_id tk = a \<and> t_workspace_id tk = w"
  shows "isolated w a k r res"
  using assms by (auto simp: isolated_def foreign_def)

lemmas isolation_simps = run_stmt expire_pending_exec Let_def

lemmas op_defs = decide_def mark_executed_def mark_execution_failed_def claim_execution_def
  finalize_execution_success_def finalize_execution_failure_def finalize_execution_def
  claim_approved_action_def complete_claimed_action_def mark_consumed_def
  attach_execution_contract_def claim_resume_def

lemma isolated_ops:
  assumes "row_of k db = Some r" "r_workspace_id r \<noteq> w"
  shows "isolated w a k r (decide H clk (\<lambda>_ d. d) a (Some w) ok p why db)"
    and "isolated w a k r (mark_executed H clk (\<lambda>_ d. d) a (Some w) p db)"
    and "isolated w a k r (mark_execution_failed H now (\<lambda>_ d. d) a e (Some w) db)"
    and "isolated w a k r (claim_execution H clk (\<lambda>_ d. d) a w t p db)"
    and "isolated w a k r (finalize_execution_success H now (\<lambda>_ d. d) a w t h db)"
    and "isolated w a k r (finalize_execution_failure H now (\<lambda>_ d. d) a w t e db)"
    and "isolated w a k r (claim_approved_action H clk (\<lambda>_ d. d) a w c kind ref h p db)"
    and "isolated w a k r (complete_claimed_action H now (\<lambda>_ d. d) a w c db)"
    and "isolated w a k r (mark_consumed H now (\<lambda>_ d. d) a w c ch tok db)"
    and "isolated w a k r (attach_execution_contract H (\<lambda>_ d. d) a w cd h sh db)"
    and "isolated w a k r (claim_resume H now (\<lambda>_ d. d) a w c t h db)"
  by (rule isolatedI; insert foreign_expire [OF assms];
      auto simp: op_defs isolation_simps split: op_splits dest!: get_found select_row_found)+

text \<open>
  C5: Workspaces are isolated: whichever operation is called under workspace w, with any arguments, the
  ticket it returns has that id and lies in w, and a ticket of another workspace keeps its row
  unchanged, but for its own expiry.
\<close>

theorem workspace_isolation:
  assumes "row_of k db = Some r" "r_workspace_id r \<noteq> w"
  shows "\<forall>res \<in> {decide H clk (\<lambda>_ d. d) a (Some w) ok p why db,
       mark_executed H clk (\<lambda>_ d. d) a (Some w) p db,
       mark_execution_failed H now (\<lambda>_ d. d) a e (Some w) db,
       claim_execution H clk (\<lambda>_ d. d) a w t p db,
       finalize_execution_success H now (\<lambda>_ d. d) a w t h db,
       finalize_execution_failure H now (\<lambda>_ d. d) a w t e db,
       claim_approved_action H clk (\<lambda>_ d. d) a w c kind ref h p db,
       complete_claimed_action H now (\<lambda>_ d. d) a w c db,
       mark_consumed H now (\<lambda>_ d. d) a w c ch tok db,
       attach_execution_contract H (\<lambda>_ d. d) a w cd h sh db,
       claim_resume H now (\<lambda>_ d. d) a w c t h db}.
     row_of k (fst res) \<in> {Some r, Some (expire_effect r)} \<and>
     (\<forall>tk. fst (snd res) = Some tk \<longrightarrow> t_approval_id tk = a \<and> t_workspace_id tk = w)"
  unfolding isolated_def [symmetric] by (simp add: isolated_ops [OF assms])

theorem workspace_isolation_witness:
  "row_of ''a1'' (fst (claim_execution demo_hash (\<lambda>_. 2) (\<lambda>_ d. d) ''a1'' ''other'' ''t1'' ''bob''
     (demo_db demo_approved))) \<in> {Some demo_approved, Some (expire_effect demo_approved)}"
proof -
  have "row_of ''a1'' (demo_db demo_approved) = Some demo_approved" "r_workspace_id demo_approved \<noteq> ''other''"
    by code_simp+
  from workspace_isolation [OF this] show ?thesis by blast
qed

section \<open>Binding a ticket to a workspace\<close>

lemma binding_candidate_set:
  "b \<in> set (binding_candidate v) \<longleftrightarrow> (\<exists>s. v = PStr s \<and> py_strip s = b \<and> b \<noteq> [])"
  by (auto simp: binding_candidate_def split: pyval.splits)

text \<open>
  A ticket is bound to the one workspace its inputs agree on: the argument, the two snapshot keys
  and, for an artifact target, the part of the target reference before the colon all name the same
  non-blank workspace wherever they name one, an artifact reference has both parts, and the reserved
  marker of legacy rows is never accepted.  Everything else is rejected.
\<close>

theorem binding_sound:
  "canonical_workspace_binding wo kind ref snap = Inr b \<longleftrightarrow>
     b \<noteq> [] \<and> b \<noteq> legacy_unbound_workspace \<and>
     (\<forall>v \<in> {pv_of_opt wo, dict_get snap ''workspaceId'', dict_get snap ''workspace_id''}.
        \<forall>s. v = PStr s \<and> py_strip s \<noteq> [] \<longrightarrow> py_strip s = b) \<and>
     (if starts_with kind ''artifact''
      then \<exists>prefix remainder. py_partition CHR '':'' ref = (prefix, True, remainder) \<and>
             py_strip prefix = b \<and> py_strip remainder \<noteq> []
      else \<exists>v \<in> {pv_of_opt wo, dict_get snap ''workspaceId'', dict_get snap ''workspace_id''}.
             \<exists>s. v = PStr s \<and> py_strip s = b)"
proof -
  define vs where "vs = [pv_of_opt wo, dict_get snap ''workspaceId'', dict_get snap ''workspace_id'']"
  define cs where "cs = remdups (concat (map binding_candidate vs))"
  obtain prefix sep remainder where part: "py_partition CHR '':'' ref = (prefix, sep, remainder)"
    by (cases "py_partition CHR '':'' ref") auto
  have cs: "x \<in> set cs \<longleftrightarrow> (\<exists>v \<in> set vs. \<exists>s. v = PStr s \<and> py_strip s = x \<and> x \<noteq> [])" for x
    unfolding cs_def by (simp add: binding_candidate_set)
  have sub: "set cs \<subseteq> {b} \<longleftrightarrow> (\<forall>v \<in> set vs. \<forall>s. v = PStr s \<and> py_strip s \<noteq> [] \<longrightarrow> py_strip s = b)"
    unfolding subset_iff cs by auto
  have dist: "distinct cs" by (simp add: cs_def)
  have "cs = [b] \<longleftrightarrow> b \<in> set cs \<and> set cs \<subseteq> {b}"
    unfolding distinct_singleton [OF dist] by blast
  then have one: "cs = [b] \<longleftrightarrow> b \<noteq> [] \<and> (\<exists>v \<in> set vs. \<exists>s. v = PStr s \<and> py_strip s = b) \<and>
      (\<forall>v \<in> set vs. \<forall>s. v = PStr s \<and> py_strip s \<noteq> [] \<longrightarrow> py_strip s = b)"
    unfolding sub cs by blast
  have "distinct (List.insert (py_strip prefix) cs)" using dist by simp
  from distinct_singleton [OF this]
  have two: "List.insert (py_strip prefix) cs = [b] \<longleftrightarrow> py_strip prefix = b \<and> set cs \<subseteq> {b}"
    by auto
  have vset: "set vs = {pv_of_opt wo, dict_get snap ''workspaceId'', dict_get snap ''workspace_id''}"
    by (simp add: vs_def)
  show ?thesis
  proof (cases "starts_with kind ''artifact''")
    case True
    then show ?thesis unfolding vset [symmetric]
      by (simp add: canonical_workspace_binding_def part Let_def vs_def [symmetric] cs_def [symmetric]
          binding_case two sub) blast
  next
    case False
    then show ?thesis unfolding vset [symmetric]
      by (simp add: canonical_workspace_binding_def part Let_def vs_def [symmetric] cs_def [symmetric]
          binding_case one) blast
  qed
qed

theorem binding_sound_witness:
  "canonical_workspace_binding (Some '' ws '') ''artifact_write'' ''ws:a1'' [(''workspaceId'', PStr ''ws'')] = Inr ''ws''"
proof -
  have "py_strip '' ws '' = ''ws''" "py_strip ''ws'' = ''ws''" "py_strip ''a1'' = ''a1''"
    "py_partition CHR '':'' ''ws:a1'' = (''ws'', True, ''a1'')" "starts_with ''artifact_write'' ''artifact''"
    "''ws'' \<noteq> legacy_unbound_workspace"
    "dict_get [(''workspaceId'', PStr ''ws'')] ''workspaceId'' = PStr ''ws''"
    "dict_get [(''workspaceId'', PStr ''ws'')] ''workspace_id'' = PNone" by code_simp+
  then show ?thesis unfolding binding_sound by (simp add: pv_of_opt_def)
qed

text \<open>
  Creating a ticket is idempotent in its key: after a ticket was created, and whatever happens to
  the store since, creating again with the same key under the same workspace returns that same
  ticket (by id, under its current state) and writes nothing, and under another workspace is an
  integrity error that writes nothing.
\<close>

theorem create_idempotent:
  assumes "db_inv db" "create_ticket H now uuid q db = (db1, Inr tk)" "store_step\<^sup>*\<^sup>* db1 db2"
    and "q_idempotency_key q' = q_idempotency_key q"
    and "canonical_workspace_binding (q_workspace_id q') (q_target_kind q') (q_target_ref q') (q_snapshot q') = Inr b"
  shows "\<exists>tk'. create_ticket H now' uuid' q' db2 =
      (db2, if b = t_workspace_id tk then Inr tk' else Inl IntegrityError) \<and>
      t_approval_id tk' = t_approval_id tk \<and> t_workspace_id tk' = t_workspace_id tk"
proof -
  obtain r where r: "row_of (t_approval_id tk) db1 = Some r" "r_workspace_id r = t_workspace_id tk"
    "r_idempotency_key r = q_idempotency_key q" "t_workspace_id tk \<noteq> legacy_unbound_workspace" "db_inv db1"
    by (rule created_row [OF assms(1,2)])
  obtain r' where r': "row_of (t_approval_id tk) db2 = Some r'" "row_later r r'"
    by (rule later_row [OF r(5) assms(3) r(1)])
  have same: "r_idempotency_key r' = q_idempotency_key q" "r_workspace_id r' = t_workspace_id tk"
      "r_approval_id r' = t_approval_id tk"
    using r'(2) r(2-4) lookup_key_Some [OF r'(1)] by (auto simp: row_later_def fixed_columns_def)
  have inv: "db_inv db2" by (rule db_inv_run [OF assms(3) r(5)])
  have found: "r' \<in> set (approvals db2)" using lookup_key_Some [OF r'(1)] by blast
  have viol: "violates_unique (insert_row (new_ticket now' uuid' b q')) db2"
    unfolding violates_unique_def using found same(1) assms(4)
    by (intro bexI [of _ r']) (simp_all add: insert_row_def new_ticket_def)
  show ?thesis
    using idem_lookup [OF inv r'(1), of H b] viol same assms(4,5)
    by (intro exI [of _ "row_to_ticket H r'"]) (simp add: create_ticket_def Let_def)
qed

lemma demo_create:
  "create_ticket demo_hash 0 ''a1'' demo_args empty_db =
     (demo_db demo_pending, Inr (new_ticket 0 ''a1'' ''ws'' demo_args))"
  by code_simp

theorem create_idempotent_witness:
  "\<exists>tk'. create_ticket demo_hash 5 ''a2'' demo_args (demo_db demo_pending) = (demo_db demo_pending, Inr tk') \<and>
     t_approval_id tk' = ''a1''"
proof -
  have "canonical_workspace_binding (q_workspace_id demo_args) (q_target_kind demo_args)
      (q_target_ref demo_args) (q_snapshot demo_args) = Inr ''ws''" by code_simp
  from create_idempotent [OF db_inv_empty demo_create rtranclp.rtrancl_refl refl this, of 5 "''a2''"]
  show ?thesis by (auto simp: new_ticket_def)
qed

section \<open>Listing\<close>

text \<open>
  The list of pending approvals of a workspace holds exactly the tickets of that workspace that
  are pending and not yet expired, each once, oldest first; without a workspace it is empty.
\<close>

theorem list_pending_spec:
  fixes H now w
  assumes "db_inv db"
  defines "res \<equiv> \<lambda>wo. snd (list_pending H now (\<lambda>_ d. d) wo db)"
  shows "set (res (Some w)) = (if py_strip w = [] then {} else
      {row_to_ticket H r | r. r \<in> set (approvals db) \<and> r_workspace_id r = w \<and> r_status r = Pending \<and>
         now < r_expires_at r}) \<and>
    distinct (map t_approval_id (res (Some w))) \<and> sorted (map t_created_at (res (Some w))) \<and>
    res None = []"
proof (intro conjI)
  let ?now = "sql_fetchall (\<lambda>r. r_status r = Pending \<and> r_workspace_id r = w) (approvals (exec_stmt (SExpire now) db))"
  have res: "res (Some w) = (if py_strip w = [] then [] else map (row_to_ticket H) (sort_key r_created_at ?now))"
    by (simp add: res_def list_pending_def has_workspace_def expire_pending_exec Let_def)
  have live: "set ?now = {r \<in> set (approvals db). r_workspace_id r = w \<and> r_status r = Pending \<and> now < r_expires_at r}"
    by (auto simp: sql_fetchall_def exec_stmt_rows row_simps)
  show "set (res (Some w)) = (if py_strip w = [] then {} else
      {row_to_ticket H r | r. r \<in> set (approvals db) \<and> r_workspace_id r = w \<and> r_status r = Pending \<and>
         now < r_expires_at r})"
    using live by (auto simp: res)
  have "distinct (map r_approval_id (approvals (exec_stmt (SExpire now) db)))"
    using db_inv_update [OF assms(1)] by (simp add: db_inv_def keys_distinct_def)
  then have "distinct (map r_approval_id (sort_key r_created_at ?now))"
    by (simp add: sql_fetchall_def distinct_map distinct_map_filter inj_on_def)
  then show "distinct (map t_approval_id (res (Some w)))"
    by (simp add: res comp_def)
  show "sorted (map t_created_at (res (Some w)))"
    by (simp add: res comp_def)
  show "res None = []" by (simp add: res_def list_pending_def has_workspace_def Let_def)
qed

theorem list_pending_spec_witness:
  "set (snd (list_pending demo_hash 5 (\<lambda>_ d. d) (Some ''ws'') (demo_db demo_pending))) =
     {row_to_ticket demo_hash demo_pending}"
proof -
  have "demo_pending \<in> set (approvals (demo_db demo_pending)) \<and> r_workspace_id demo_pending = ''ws'' \<and>
      r_status demo_pending = Pending \<and> 5 < r_expires_at demo_pending \<and> py_strip ''ws'' \<noteq> []"
    by code_simp
  moreover have "approvals (demo_db demo_pending) = [demo_pending]" by (simp add: demo_db_def)
  ultimately show ?thesis
    using list_pending_spec [OF demo_inv(1), of demo_hash 5 "''ws''"] by auto
qed

end
