(* ===== verification/Approval_Resume.thy ===== *)
theory Approval_Resume imports Approval_Facts begin

text \<open>
  After the decision: taking an approved action under a claim id, resuming a paused run, consuming
  the ticket, attaching an execution contract, and recording a failure.
\<close>

section \<open>Taking an approved action\<close>

text \<open>The answer of \<open>claim_approved_action\<close> on a stored ticket, check by check.\<close>

lemma claim_action_answer:
  fixes H clk a w c kind ref h p db
  assumes "db_inv db" "c \<noteq> []" "row_of a (expire_pending (clk 0) db) = Some r"
  defines "db1 \<equiv> expire_pending (clk 0) db"
    and "st \<equiv> SClaimAction a w (r_version r) (clk 1) p c"
  shows "claim_approved_action H clk (\<lambda>_ d. d) a w c kind ref h p db =
    (if r_workspace_id r \<noteq> w then (db1, None, Some ''APPROVAL_NOT_FOUND'')
     else let tk = Some (row_to_ticket H r) in
       if r_target_kind r \<noteq> kind \<or> r_target_ref r \<noteq> ref \<or> r_action_hash r \<noteq> h
       then (db1, tk, Some ''STALE_APPROVAL_SNAPSHOT'')
       else if dict_get (r_snapshot_json r) ''executorPrincipalId'' \<noteq> PStr p
       then (db1, tk, Some ''APPROVAL_PRINCIPAL_MISMATCH'')
       else if r_status r = Consumed
       then (db1, tk, if r_consumed_by_job_id r = Some c then None else Some ''REPLAY_BLOCKED'')
       else if r_status r = Executed
       then (db1, tk, if r_resume_claimed_job_id r = Some c then None else Some ''REPLAY_BLOCKED'')
       else if r_status r \<noteq> Approved then (db1, tk, Some ''APPROVAL_CONFLICT'')
       else (exec_stmt st db1, get H (exec_stmt st db1) a (Some w), None))"
    and "row_of k (exec_stmt st db1) =
      (if k = a then Some (if r_workspace_id r = w \<and> r_status r = Approved then claim_action_effect (clk 1) p c r else r)
       else row_of k db1)"
proof -
  have inv: "db_inv db1" unfolding db1_def by (rule db_inv_expire [OF assms(1)])
  have row: "row_of a db1 = Some r" using assms(3) by (simp add: db1_def)
  then have key: "r_approval_id r = a" by (blast dest: lookup_key_Some)
  have guard: "stmt_guard st r \<longleftrightarrow> r_workspace_id r = w \<and> r_status r = Approved"
    using key by (auto simp: row_simps st_def)
  have "upd_count st db1 = (if stmt_guard st r then 1 else 0)"
    using row upd_count_target [OF inv, of st a w] by (simp add: st_def)
  then show "claim_approved_action H clk (\<lambda>_ d. d) a w c kind ref h p db =
    (if r_workspace_id r \<noteq> w then (db1, None, Some ''APPROVAL_NOT_FOUND'')
     else let tk = Some (row_to_ticket H r) in
       if r_target_kind r \<noteq> kind \<or> r_target_ref r \<noteq> ref \<or> r_action_hash r \<noteq> h
       then (db1, tk, Some ''STALE_APPROVAL_SNAPSHOT'')
       else if dict_get (r_snapshot_json r) ''executorPrincipalId'' \<noteq> PStr p
       then (db1, tk, Some ''APPROVAL_PRINCIPAL_MISMATCH'')
       else if r_status r = Consumed
       then (db1, tk, if r_consumed_by_job_id r = Some c then None else Some ''REPLAY_BLOCKED'')
       else if r_status r = Executed
       then (db1, tk, if r_resume_claimed_job_id r = Some c then None else Some ''REPLAY_BLOCKED'')
       else if r_status r \<noteq> Approved then (db1, tk, Some ''APPROVAL_CONFLICT'')
       else (exec_stmt st db1, get H (exec_stmt st db1) a (Some w), None))"
    unfolding claim_approved_action_def db1_def [symmetric] Let_def select_row_of [OF inv]
    using row assms(2) guard by (simp add: run_stmt st_def)
  show "row_of k (exec_stmt st db1) =
      (if k = a then Some (if r_workspace_id r = w \<and> r_status r = Approved then claim_action_effect (clk 1) p c r else r)
       else row_of k db1)"
    using row row_of_target [of st a w] guard by (simp add: st_def)
qed

text \<open>
  \<open>claim_approved_action\<close> answers without error exactly when the ticket lies in the workspace,
  names this very target, action digest and executing principal, and is either approved and not
  expired, or already held by the same claim id; only in the first case does it write, and it writes
  that row only.
\<close>

theorem claim_action_sound:
  fixes H clk a w c kind ref h p db
  assumes "db_inv db" "c \<noteq> []"
  defines "db1 \<equiv> expire_pending (clk 0) db"
    and "res \<equiv> claim_approved_action H clk (\<lambda>_ d. d) a w c kind ref h p db"
    and "bound \<equiv> \<lambda>r. r_workspace_id r = w \<and> r_target_kind r = kind \<and> r_target_ref r = ref \<and>
           r_action_hash r = h \<and> dict_get (r_snapshot_json r) ''executorPrincipalId'' = PStr p"
  shows "(snd (snd res) = None \<longleftrightarrow> (\<exists>r. row_of a db1 = Some r \<and> bound r \<and>
       (r_status r = Approved \<or>
        r_status r = Executed \<and> r_resume_claimed_job_id r = Some c \<or>
        r_status r = Consumed \<and> r_consumed_by_job_id r = Some c))) \<and>
    (\<forall>k. row_of k (fst res) =
       (case row_of k db1 of
          Some r \<Rightarrow> Some (if k = a \<and> bound r \<and> r_status r = Approved
                          then claim_action_effect (clk 1) p c r else r)
        | None \<Rightarrow> None))"
proof -
  have inv: "db_inv db1" unfolding db1_def by (rule db_inv_expire [OF assms(1)])
  show ?thesis
  proof (cases "row_of a db1")
    case None
    then have "select_row a w db1 = None" by (simp add: select_row_of [OF inv])
    then have "res = (db1, None, Some ''APPROVAL_NOT_FOUND'')"
      by (simp add: res_def claim_approved_action_def db1_def [symmetric] Let_def)
    then show ?thesis using None by (auto split: option.split)
  next
    case (Some r)
    let ?st = "SClaimAction a w (r_version r) (clk 1) p c"
    note answer = claim_action_answer [where clk = clk, OF assms(1,2) Some [unfolded db1_def], folded db1_def]
    note res = answer(1) [where w = w and kind = kind and ref = ref and h = h and p = p and H = H, folded res_def]
      and rows = answer(2) [where w = w and p = p]
    show ?thesis
    proof (cases "bound r \<and> r_status r = Approved")
      case True
      then have "snd (snd res) = None" "fst res = exec_stmt ?st db1"
        unfolding res bound_def by (simp_all add: Let_def)
      then show ?thesis using True Some rows
        by (auto simp: bound_def split: option.split)
    next
      case False
      then have "fst res = db1" "snd (snd res) = None \<longleftrightarrow> bound r \<and>
          (r_status r = Executed \<and> r_resume_claimed_job_id r = Some c \<or>
           r_status r = Consumed \<and> r_consumed_by_job_id r = Some c)"
        unfolding res bound_def by (auto simp: Let_def)
      then show ?thesis using False Some by (auto split: option.split)
    qed
  qed
qed

theorem claim_action_sound_witness:
  "snd (snd (claim_approved_action demo_hash (\<lambda>_. 2) (\<lambda>_ d. d) ''a1'' ''ws'' ''c1'' ''tool'' ''git'' ''ah'' ''bob''
     (demo_db demo_approved))) = None"
proof -
  have "expire_pending 2 (demo_db demo_approved) = demo_db demo_approved"
    "row_of ''a1'' (demo_db demo_approved) = Some demo_approved" by code_simp+
  moreover have "r_workspace_id demo_approved = ''ws'' \<and> r_target_kind demo_approved = ''tool'' \<and>
      r_target_ref demo_approved = ''git'' \<and> r_action_hash demo_approved = ''ah'' \<and>
      dict_get (r_snapshot_json demo_approved) ''executorPrincipalId'' = PStr ''bob'' \<and>
      r_status demo_approved = Approved" by code_simp
  ultimately show ?thesis
    using claim_action_sound [OF demo_inv(2), where c = "''c1''" and clk = "\<lambda>_. 2" and a = "''a1''"
        and w = "''ws''" and H = demo_hash] by auto
qed

section \<open>Consuming a ticket\<close>

lemma consumed_fails:
  assumes "db_inv db" "row_of a db = Some r" "r_status r = Consumed \<or> r_status r = ExecutionFailed" "legal_env env"
  shows "snd (snd (mark_consumed H now env a w j ch tok db)) \<noteq> None"
    and "snd (snd (claim_resume H now env a w j tk c db)) \<noteq> None"
  using assms(2,3) by (auto simp: mark_consumed_def claim_resume_def get_Some [OF assms(1)] Let_def split: option.split)

text \<open>What records a consumption is final: no statement writes it once the ticket has been consumed or failed.\<close>

definition spent :: "approval_row \<Rightarrow> bool" where
  "spent r \<longleftrightarrow> r_status r = Consumed \<or> r_status r = ExecutionFailed"

definition same_consumer :: "approval_row \<Rightarrow> approval_row \<Rightarrow> bool" where
  "same_consumer r r' \<longleftrightarrow> r_consumed_by_job_id r' = r_consumed_by_job_id r \<and> r_consumed_at r' = r_consumed_at r"

lemma stmt_spent: "stmt_guard st r \<Longrightarrow> spent r \<Longrightarrow> spent (stmt_effect st r) \<and> same_consumer r (stmt_effect st r)"
  by (cases st) (auto simp: row_simps spent_def same_consumer_def)

lemma backfill_spent: "spent (backfill_row r) = spent r" "same_consumer r (backfill_row r)"
  by (auto simp: spent_def same_consumer_def backfill_row_def split: list.splits)

lemma spent_step:
  assumes "store_step db db'" "row_of k db = Some r" "spent r"
  obtains r' where "row_of k db' = Some r'" "spent r'" "same_consumer r r'"
proof -
  have refl: "same_consumer r r" by (simp add: same_consumer_def)
  show ?thesis
    using assms(1)
  proof (cases rule: store_step.cases)
    case (update st)
    then show ?thesis using that assms(2,3) stmt_spent refl by (auto simp: table_simps split: if_splits)
  next
    case (insert row)
    then show ?thesis using that assms(2,3) refl by (simp add: lookup_key_append)
  next
    case init
    then show ?thesis using that assms(2,3) backfill_spent by (simp add: table_simps)
  qed
qed

lemma spent_run:
  assumes "store_step\<^sup>*\<^sup>* db db'" "row_of k db = Some r" "spent r"
  shows "\<exists>r'. row_of k db' = Some r' \<and> spent r' \<and> same_consumer r r'"
  using assms(1)
proof (induction rule: rtranclp_induct)
  case base
  then show ?case using assms(2,3) by (auto simp: same_consumer_def)
next
  case (step db1 db2)
  then obtain r1 where "row_of k db1 = Some r1" "spent r1" "same_consumer r r1" by blast
  with step(2) show ?case by (auto elim!: spent_step simp: same_consumer_def)
qed

text \<open>\<open>complete_claimed_action\<close> on a spent ticket writes nothing, and confirms the job that consumed it.\<close>

lemma complete_spent:
  assumes "db_inv db" "row_of a db = Some r" "spent r"
  shows "fst (complete_claimed_action H now env a w c db) = db"
    and "snd (snd (complete_claimed_action H now env a w c db)) = None \<Longrightarrow> r_consumed_by_job_id r = Some c"
  using assms(2,3) by (auto simp: complete_claimed_action_def select_row_of [OF assms(1)] Let_def spent_def split: if_splits)

text \<open>
  C6: When \<open>mark_consumed\<close> consumes a ticket it found it executed in its workspace, with the recomputed
  contract digest (if there is one) and the recorded resume token (if both are given) equal to the caller's.
  After that, whatever any connection commits, the ticket stays consumed by that job at that time: no
  \<open>mark_consumed\<close> and no \<open>claim_resume\<close> succeeds again, and \<open>complete_claimed_action\<close> writes nothing and
  answers without an error only to that job.  (\<open>complete_claimed_action\<close> is the other operation that
  consumes; it goes by the claim of the job and takes no digest.)
\<close>

theorem consume_once:
  assumes "db_inv db" "legal_env env" "mark_consumed H now env a w j ch tok db = (db1, tk, None)"
    and "store_step\<^sup>*\<^sup>* db1 db2" "legal_env env'"
  shows "(\<exists>r. row_of a db = Some r \<and> r_workspace_id r = w \<and> r_status r = Executed \<and>
      (opt_truthy (effective_execution_contract_hash H (row_to_ticket H r)) \<longrightarrow>
         ch = effective_execution_contract_hash H (row_to_ticket H r)) \<and>
      (opt_truthy (r_resume_token_ref r) \<and> opt_truthy tok \<longrightarrow> tok = r_resume_token_ref r)) \<and>
    (\<exists>r. row_of a db2 = Some r \<and> r_consumed_by_job_id r = Some j \<and> r_consumed_at r = Some now) \<and>
    snd (snd (mark_consumed H now' env' a w' j' ch' tok' db2)) \<noteq> None \<and>
    snd (snd (claim_resume H now' env' a w' j' rtok rch db2)) \<noteq> None \<and>
    fst (complete_claimed_action H now' env' a w' j' db2) = db2 \<and>
    (snd (snd (complete_claimed_action H now' env' a w' j' db2)) = None \<longrightarrow> j' = j)"
proof -
  obtain tk0 where "get H db a (Some w) = Some tk0"
    using assms(3) by (cases "get H db a (Some w)") (simp_all add: mark_consumed_def)
  then obtain r where r: "row_of a db = Some r" "r_workspace_id r = w" "get H db a (Some w) = Some (row_to_ticket H r)"
    by (auto simp: get_Some [OF assms(1)])
  let ?h = "effective_execution_contract_hash H (row_to_ticket H r)"
  let ?st = "SMarkConsumed a w (r_version r) now j"
  have pre: "r_status r = Executed" "opt_truthy ?h \<longrightarrow> ch = ?h"
      "opt_truthy (r_resume_token_ref r) \<and> opt_truthy tok \<longrightarrow> tok = r_resume_token_ref r"
    using assms(3) r(3) by (auto simp: mark_consumed_def text_or_none_def Let_def run_stmt split: if_splits)
  have upd: "upd_count ?st (env 0 db) \<noteq> 0" "db1 = env 1 (exec_stmt ?st (env 0 db))"
    using assms(3) r(3) by (auto simp: mark_consumed_def run_stmt Let_def split: if_splits)
  have inv: "db_inv (env 0 db)" "db_inv (exec_stmt ?st (env 0 db))" "db_inv db1"
    unfolding upd(2) by (intro db_inv_env [OF assms(2)] db_inv_update assms(1))+
  obtain s where s: "row_of a (env 0 db) = Some s" "stmt_guard ?st s"
    using upd(1) upd_count_target [OF inv(1), of ?st a w] by (auto split: option.splits if_splits)
  then have gone: "row_of a (exec_stmt ?st (env 0 db)) = Some (consume_effect now j s)"
    by (simp add: row_of_exec)
  have run: "store_step\<^sup>*\<^sup>* (exec_stmt ?st (env 0 db)) db2"
    using rtranclp_trans [OF legal_env_run [OF assms(2)] assms(4) [unfolded upd(2)]] .
  have "spent (consume_effect now j s)" by (simp add: spent_def consume_effect_def)
  then obtain r2 where r2: "row_of a db2 = Some r2" "spent r2" "r_consumed_by_job_id r2 = Some j" "r_consumed_at r2 = Some now"
    using spent_run [OF run gone] by (auto simp: same_consumer_def consume_effect_def)
  have "snd (snd (complete_claimed_action H now' env' a w' j' db2)) = None \<longrightarrow> j' = j"
    using complete_spent(2) [OF db_inv_run [OF assms(4) inv(3)] r2(1,2)] r2(3) by auto
  with consumed_fails [OF db_inv_run [OF assms(4) inv(3)] r2(1) r2(2) [unfolded spent_def] assms(5)]
    complete_spent(1) [OF db_inv_run [OF assms(4) inv(3)] r2(1,2)] r(1,2) pre r2
  show ?thesis by blast
qed

lemma demo_consume:
  "mark_consumed demo_hash 3 (\<lambda>_ d. d) ''a1'' ''ws'' ''j1'' None None (demo_db demo_executed) =
     (demo_db (consume_effect 3 ''j1'' demo_executed),
      Some (row_to_ticket demo_hash (consume_effect 3 ''j1'' demo_executed)), None)"
  by code_simp

theorem consume_once_witness:
  "snd (snd (mark_consumed demo_hash 4 (\<lambda>_ d. d) ''a1'' ''ws'' ''j2'' None None
     (demo_db (consume_effect 3 ''j1'' demo_executed)))) \<noteq> None"
  using consume_once [OF demo_inv(4) legal_env_id(2) demo_consume rtranclp.rtrancl_refl legal_env_id(2)]
  by blast

section \<open>Resuming\<close>

text \<open>
  A successful \<open>claim_resume\<close>: the row it found, and the row it leaves, which is the same one or that
  row with the claim in it.
\<close>

lemma claim_resume_ok:
  assumes "db_inv db" "claim_resume H now (\<lambda>_ d. d) a w j tok ch db = (db1, tk, None)" "j \<noteq> []" "tok \<noteq> []"
  obtains r r1 where "r_workspace_id r = w" "py_strip w \<noteq> []" "r_status r = Executed" "r_consumed_at r = None"
    "text_or_none (r_consumed_by_job_id r) = None"
    "opt_truthy (effective_execution_contract_hash H (row_to_ticket H r)) \<longrightarrow>
       effective_execution_contract_hash H (row_to_ticket H r) = Some ch"
    "row_of a db1 = Some r1" "r_resume_claimed_job_id r1 = Some j" "r_resume_token_ref r1 = Some tok"
    "tk = get H db1 a (Some w)" "db_inv db1" "r1 = r \<or> r1 = claim_resume_effect now j tok r"
proof -
  obtain tk0 where "get H db a (Some w) = Some tk0"
    using assms(2) by (cases "get H db a (Some w)") (simp_all add: claim_resume_def)
  then obtain r where r: "row_of a db = Some r" "r_workspace_id r = w" "py_strip w \<noteq> []"
      "get H db a (Some w) = Some (row_to_ticket H r)"
    by (auto simp: get_Some [OF assms(1)])
  let ?st = "SClaimResume a w (r_version r) now j tok"
  let ?h = "effective_execution_contract_hash H (row_to_ticket H r)"
  have pre: "r_status r = Executed" "r_consumed_at r = None" "opt_truthy ?h \<longrightarrow> ?h = Some ch"
      "text_or_none (r_consumed_by_job_id r) = None"
    using assms(2) r(4) by (auto simp: claim_resume_def Let_def run_stmt split: if_splits option.splits)
  define held where "held \<longleftrightarrow> r_resume_claimed_job_id r = Some j \<and> r_resume_token_ref r = Some tok"
  obtain r1 where r1: "row_of a db1 = Some r1" "r_resume_claimed_job_id r1 = Some j"
      "r_resume_token_ref r1 = Some tok" "tk = get H db1 a (Some w)" "db_inv db1"
      "r1 = r \<or> r1 = claim_resume_effect now j tok r"
  proof (cases held)
    case True
    then have "db1 = db" "tk = get H db a (Some w)"
      using assms(2-4) r(4) pre by (auto simp: claim_resume_def Let_def held_def)
    then show ?thesis using that r(1) True assms(1) by (simp add: held_def)
  next
    case False
    have cnt: "upd_count ?st db = (if stmt_guard ?st r then 1 else 0)"
      using upd_count_target [OF assms(1), of ?st a w] r(1) by simp
    have "stmt_guard ?st r \<and> db1 = exec_stmt ?st db \<and> tk = get H (exec_stmt ?st db) a (Some w)"
    proof (cases "stmt_guard ?st r")
      case True
      then show ?thesis using assms(2-4) r(4) pre False cnt
        by (auto simp: claim_resume_def Let_def run_stmt held_def split: if_splits)
    next
      case noguard: False
      have "exec_stmt ?st db = db" by (rule exec_stmt_noop [OF assms(1)]) (use noguard r(1) in auto)
      then show ?thesis using assms(2-4) r(4) pre False cnt noguard
        by (auto simp: claim_resume_def Let_def run_stmt held_def split: if_splits)
    qed
    then show ?thesis using that [of "claim_resume_effect now j tok r"] r(1) assms(1)
      by (simp add: row_of_exec db_inv_update claim_resume_effect_def)
  qed
  show thesis by (rule that [OF r(2,3) pre(1,2,4,3) r1])
qed

text \<open>
  A paused run is resumed by one job: when \<open>claim_resume\<close> succeeds, the ticket is executed, not
  consumed, names this job and token as its holder, and its recomputed contract digest, if any, is the
  caller's; another job is then turned away and writes nothing, and the same job with the same token is
  confirmed without a write.
\<close>

theorem resume_exclusive:
  assumes "db_inv db" "claim_resume H now (\<lambda>_ d. d) a w j tok ch db = (db1, tk, None)" "j \<noteq> []" "tok \<noteq> []"
  shows "(\<exists>r. row_of a db1 = Some r \<and> r_workspace_id r = w \<and> r_status r = Executed \<and> r_consumed_at r = None \<and>
      r_resume_claimed_job_id r = Some j \<and> r_resume_token_ref r = Some tok \<and>
      (opt_truthy (effective_execution_contract_hash H (row_to_ticket H r)) \<longrightarrow>
         effective_execution_contract_hash H (row_to_ticket H r) = Some ch)) \<and>
    claim_resume H now' (\<lambda>_ d. d) a w j tok ch db1 = (db1, tk, None) \<and>
    (j' \<noteq> j \<longrightarrow> (\<exists>e. claim_resume H now' (\<lambda>_ d. d) a w j' tok' ch' db1 = (db1, tk, Some e)))"
proof -
  obtain r r1 where r: "r_workspace_id r = w" "py_strip w \<noteq> []"
    and pre: "r_status r = Executed" "r_consumed_at r = None" "text_or_none (r_consumed_by_job_id r) = None"
      "opt_truthy (effective_execution_contract_hash H (row_to_ticket H r)) \<longrightarrow>
         effective_execution_contract_hash H (row_to_ticket H r) = Some ch"
    and r1: "row_of a db1 = Some r1" "r_resume_claimed_job_id r1 = Some j" "r_resume_token_ref r1 = Some tok"
      "tk = get H db1 a (Some w)" "db_inv db1" "r1 = r \<or> r1 = claim_resume_effect now j tok r"
    by (rule claim_resume_ok [OF assms])
  let ?h = "effective_execution_contract_hash H (row_to_ticket H r)"
  have "row_contract_hash H (claim_resume_effect now j tok r) = row_contract_hash H r"
    by (simp add: row_contract_hash_def claim_resume_effect_def split: pyval.split)
  then have hash: "effective_execution_contract_hash H (row_to_ticket H r1) = ?h"
    using r1(6) by (auto simp: ticket_contract_hash)
  have same: "r_status r1 = Executed"
      "r_consumed_at r1 = None" "r_workspace_id r1 = w" "text_or_none (r_consumed_by_job_id r1) = None"
    using r1(6) pre r(1)
    by (auto simp: claim_resume_effect_def)
  have tk: "get H db1 a (Some w) = Some (row_to_ticket H r1)"
    using r1(1) same(3) r(2) by (simp add: get_Some [OF r1(5)])
  have again: "claim_resume H now' (\<lambda>_ d. d) a w j tok ch db1 = (db1, tk, None)"
    using tk r1(2-4) same hash pre(4) assms(3,4) by (simp add: claim_resume_def Let_def)
  have other: "\<exists>e. claim_resume H now' (\<lambda>_ d. d) a w j' tok' ch' db1 = (db1, tk, Some e)" if "j' \<noteq> j"
    using tk r1(2-4) same hash assms(3,4) that by (simp add: claim_resume_def Let_def)
  have "opt_truthy (effective_execution_contract_hash H (row_to_ticket H r1)) \<longrightarrow>
      effective_execution_contract_hash H (row_to_ticket H r1) = Some ch"
    using pre(4) unfolding hash .
  then show ?thesis using r1(1-3) same(1-3) again
    by (intro conjI exI [of _ r1]) (assumption | (rule impI, erule other))+
qed

lemma demo_resume:
  "claim_resume demo_hash 3 (\<lambda>_ d. d) ''a1'' ''ws'' ''j1'' ''tok'' ''x'' (demo_db demo_executed) =
     (demo_db (claim_resume_effect 3 ''j1'' ''tok'' demo_executed),
      Some (row_to_ticket demo_hash (claim_resume_effect 3 ''j1'' ''tok'' demo_executed)), None)"
  by code_simp

theorem resume_exclusive_witness:
  "\<exists>e. snd (snd (claim_resume demo_hash 4 (\<lambda>_ d. d) ''a1'' ''ws'' ''j2'' ''tok'' ''x''
     (demo_db (claim_resume_effect 3 ''j1'' ''tok'' demo_executed)))) = Some e"
  using resume_exclusive [OF demo_inv(4) demo_resume, of 4 "''j2''" "''tok''" "''x''"] by auto

section \<open>Attaching a contract\<close>

lemma payload_hash_canonical [simp]: "payload_hash H (PDict (canonical_dict d)) = payload_hash H (PDict d)"
  unfolding payload_hash_def canonical_text_def
  by (metis canonicalize_PDict canonicalize_idem)

lemma canonical_contract_refs:
  assumes "wf_dict contract"
    and "\<forall>k \<in> {''task_run_id'', ''target_kind'', ''action_payload_hash''}.
           canonicalize_payload (dict_get contract k) = dict_get contract k"
  shows "derive_execution_contract_refs H src a sh kind ph (canonical_dict contract) fb =
    derive_execution_contract_refs H src a sh kind ph contract fb"
proof -
  have "dict_get (canonical_dict contract) k = canonicalize_payload (dict_get contract k)" for k
    by (simp add: dict_get_def map_of_canonical_dict [OF assms(1)] split: option.split)
  moreover have "canonicalize_payload (PDict (canonical_dict contract)) = canonicalize_payload (PDict contract)"
    unfolding canonicalize_PDict [symmetric] by (rule canonicalize_idem)
  ultimately show ?thesis
    using assms(2) unfolding derive_execution_contract_refs_def build_execution_contract_hash_def
    by (simp add: Let_def del: canonicalize_payload.simps)
qed

text \<open>
  Attaching an execution contract leaves a consistent ticket: read back, its snapshot digest is
  the digest of its snapshot, the snapshot holds the contract, the contract digest every later reader
  recomputes is the one computed when it was attached, an earlier resume claim is dropped, and the
  version has moved on.
\<close>

theorem attach_consistent:
  assumes "db_inv db" "attach_execution_contract H (\<lambda>_ d. d) a w contract given sh db = (db1, Some tk, None)"
    and "\<forall>r \<in> set (approvals db). wf_dict (r_snapshot_json r)" "wf_dict contract" "contract \<noteq> []"
    and "\<forall>k \<in> {''task_run_id'', ''target_kind'', ''action_payload_hash''}.
           canonicalize_payload (dict_get contract k) = dict_get contract k"
    and "snd (derive_execution_contract_refs H (t_run_id tk) a (t_snapshot_hash tk) (t_target_kind tk)
           (t_policy_hash tk) contract (Some (t_action_hash tk))) = Some h" "h \<noteq> []"
  shows "t_snapshot_hash tk = payload_hash H (PDict (t_snapshot tk)) \<and>
    dict_get (t_snapshot tk) ''execution_contract'' = PDict (canonical_dict contract) \<and>
    t_execution_contract_hash tk = Some h \<and>
    (\<exists>r r'. row_of a db = Some r \<and> row_of a db1 = Some r' \<and> tk = row_to_ticket H r' \<and>
       r_execution_contract_hash r' = Some h \<and> r_resume_token_ref r' = None \<and>
       r_resume_claimed_job_id r' = None \<and> r_version r' = Suc (r_version r))"
proof -
  obtain tk0 where "get H db a (Some w) = Some tk0"
    using assms(2) by (cases "get H db a (Some w)") (simp_all add: attach_execution_contract_def)
  then obtain r where r: "row_of a db = Some r" "r_workspace_id r = w" "py_strip w \<noteq> []"
      "get H db a (Some w) = Some (row_to_ticket H r)"
    by (auto simp: get_Some [OF assms(1)])
  have key: "r_approval_id r = a" and mem: "r \<in> set (approvals db)"
    using r(1) by (auto dest: lookup_key_Some)
  define snap where "snap = dict_set (r_snapshot_json r) ''execution_contract'' (PDict contract)"
  define sh1 where "sh1 = payload_hash H (PDict snap)"
  define ech where "ech = snd (derive_execution_contract_refs H (r_run_id r) (r_approval_id r) sh1
      (r_target_kind r) (r_policy_hash r) contract (Some (r_action_hash r)))"
  define col where "col = (if opt_truthy ech then the ech else given)"
  let ?st = "SAttach a w (r_version r) sh1 snap col"
  have cnt: "upd_count ?st db = 1"
    using upd_count_target [OF assms(1), of ?st a w] r(1,2) key by (simp add: row_simps)
  have db1: "db1 = exec_stmt ?st db" "get H (exec_stmt ?st db) a (Some w) = Some tk"
    using assms(2) r(4) cnt
    by (auto simp: attach_execution_contract_def Let_def run_stmt snap_def sh1_def ech_def col_def)
  define r' where "r' = attach_effect sh1 snap col r"
  have row': "row_of a db1 = Some r'"
    unfolding db1(1) r'_def using r(1,2) key by (simp add: row_of_exec at_version_def at_row_def)
  have tk: "tk = row_to_ticket H r'"
    using db1 row' by (simp add: get_Some [OF db_inv_update [OF assms(1)]])
  have ech: "ech = Some h" using assms(7) key by (simp add: tk r'_def attach_effect_def ech_def)
  have col: "col = h" using ech assms(8) by (simp add: col_def)
  have wf: "wf_dict snap" using assms(3) mem by (auto simp: snap_def)
  have contract': "map_of (canonical_dict snap) ''execution_contract'' = Some (PDict (canonical_dict contract))"
    using wf by (simp add: map_of_canonical_dict snap_def dict_set_def update_conv' canonicalize_PDict del: canonicalize_payload.simps(2))
  have nonempty: "canonical_dict contract \<noteq> []"
    using assms(5) by (metis canonical_dict_def length_0_conv length_map length_sort)
  have "row_contract_hash H r' = Some h"
    using ech assms(8) contract' nonempty canonical_contract_refs [OF assms(4,6)]
    by (simp add: row_contract_hash_def r'_def attach_effect_def dict_get_default_def opt_or_def ech_def col)
  then show ?thesis
    using r(1) row' contract' col unfolding tk
    by (auto simp: ticket_contract_hash r'_def attach_effect_def sh1_def dict_get_def)
qed

definition demo_contract :: pydict where
  "demo_contract = [(''task_run_id'', PStr ''t1'')]"

definition demo_attached :: approval_row where
  "demo_attached = attach_effect ''h''
     [(''executorPrincipalId'', PStr ''bob''), (''execution_contract'', PDict demo_contract)] ''h'' demo_executed"

lemma demo_attach:
  "attach_execution_contract demo_hash (\<lambda>_ d. d) ''a1'' ''ws'' demo_contract ''x'' ''y'' (demo_db demo_executed) =
     (demo_db demo_attached, Some (row_to_ticket demo_hash demo_attached), None)"
  by code_simp

theorem attach_consistent_witness:
  "t_snapshot_hash (row_to_ticket demo_hash demo_attached) =
     payload_hash demo_hash (PDict (t_snapshot (row_to_ticket demo_hash demo_attached)))"
proof -
  have "\<forall>r \<in> set (approvals (demo_db demo_executed)). wf_dict (r_snapshot_json r)" by code_simp
  moreover have "wf_dict demo_contract" "demo_contract \<noteq> []" by code_simp+
  moreover have "\<forall>k \<in> {''task_run_id'', ''target_kind'', ''action_payload_hash''}.
      canonicalize_payload (dict_get demo_contract k) = dict_get demo_contract k" by code_simp
  moreover have "snd (derive_execution_contract_refs demo_hash (t_run_id (row_to_ticket demo_hash demo_attached)) ''a1''
      (t_snapshot_hash (row_to_ticket demo_hash demo_attached)) (t_target_kind (row_to_ticket demo_hash demo_attached))
      (t_policy_hash (row_to_ticket demo_hash demo_attached)) demo_contract
      (Some (t_action_hash (row_to_ticket demo_hash demo_attached)))) = Some ''h''" by code_simp
  ultimately show ?thesis using attach_consistent [OF demo_inv(4) demo_attach] by simp
qed

section \<open>Recording a failure\<close>

text \<open>
  \<open>mark_execution_failed\<close> is unguarded: it needs neither the executing status nor the attempt,
  and turns a ticket of its workspace in any status, a consumed or rejected one included, into a
  failed one.
\<close>

theorem mark_failed_unguarded:
  fixes H now e
  assumes "db_inv db" "row_of a db = Some r" "py_strip (r_workspace_id r) \<noteq> []"
  defines "res \<equiv> mark_execution_failed H now (\<lambda>_ d. d) a e (Some (r_workspace_id r)) db"
  shows "snd (snd res) = None \<and> row_of a (fst res) = Some (mark_failed_effect now e r) \<and>
    r_status (mark_failed_effect now e r) = ExecutionFailed"
proof -
  have "r_approval_id r = a" using assms(2) by (blast dest: lookup_key_Some)
  moreover have "get H db a (Some (r_workspace_id r)) = Some (row_to_ticket H r)"
    using assms(2,3) by (simp add: get_Some [OF assms(1)])
  ultimately show ?thesis using assms(2)
    by (simp add: res_def mark_execution_failed_def run_stmt Let_def row_of_exec row_simps)
qed

theorem mark_failed_unguarded_witness:
  "r_status demo_executed = Executed \<and>
   row_of ''a1'' (fst (mark_execution_failed demo_hash 9 (\<lambda>_ d. d) ''a1'' ''E'' (Some ''ws'') (demo_db demo_executed))) =
     Some (mark_failed_effect 9 ''E'' demo_executed)"
proof -
  have "row_of ''a1'' (demo_db demo_executed) = Some demo_executed" "py_strip (r_workspace_id demo_executed) \<noteq> []"
    "r_workspace_id demo_executed = ''ws''" "r_status demo_executed = Executed" by code_simp+
  then show ?thesis using mark_failed_unguarded [OF demo_inv(4), of "''a1''" demo_executed demo_hash 9 "''E''"] by simp
qed

end
