(* ===== verification/Approval_Snapshots.thy ===== *)
theory Approval_Snapshots imports Json begin

text \<open>
  Approval snapshots of version 2, \<open>imperaos/governance/approval_snapshots.py\<close>: the four models,
  parsing a dictionary into one (strict string fields, no further keys), dumping it, and the digest of
  the dump that the ticket carries as its request digest.
\<close>

datatype approval_snapshot =
    TaskApprovalSnapshot (sn_run_id: string) (sn_policy_hash: string)
      (sn_task_type: string) (sn_user_input: string) (sn_workspace_id: string)
  | ControlPlaneActionSnapshot (sn_run_id: string) (sn_policy_hash: string)
      (sn_agent_id: string) (sn_action_id: string) (sn_proposal_ref: string) (sn_proposal_hash: string)
      (sn_input_hash: string) (sn_runtime_version: string)
  | ExternalAgentActionSnapshot (sn_run_id: string) (sn_policy_hash: string)
      (sn_agent_id: string) (sn_action_id: string) (sn_request_ref: string) (sn_request_hash: string)
      (sn_idempotency_key: string)
  | DeviceActionSnapshot (sn_run_id: string) (sn_policy_hash: string)
      (sn_action_id: string) (sn_observation_hash: string) (sn_action_hash: string)
      (sn_observed_at_utc: string) (sn_qualification_ref: string)

fun snapshot_kind :: "approval_snapshot \<Rightarrow> string" where
  "snapshot_kind (TaskApprovalSnapshot r p t u w) = ''task''"
| "snapshot_kind (ControlPlaneActionSnapshot r p a c pr ph i v) = ''control_plane_action''"
| "snapshot_kind (ExternalAgentActionSnapshot r p a c q qh k) = ''external_agent_action''"
| "snapshot_kind (DeviceActionSnapshot r p c ob ah t q) = ''device_action''"

definition snapshot_schema :: string where
  "snapshot_schema = ''approval.snapshot/v2''"

text \<open>\<open>model_dump(mode="json")\<close>: the fields of the base model, then those of the model.\<close>

definition base_fields :: "string \<Rightarrow> string \<Rightarrow> string \<Rightarrow> pydict" where
  "base_fields kind run_id policy_hash =
     [(''schema_version'', PStr snapshot_schema), (''kind'', PStr kind), (''run_id'', PStr run_id),
      (''policy_hash'', PStr policy_hash)]"

fun model_dump :: "approval_snapshot \<Rightarrow> pydict" where
  "model_dump (TaskApprovalSnapshot r p t u w) = base_fields ''task'' r p @
     [(''task_type'', PStr t), (''user_input'', PStr u), (''workspace_id'', PStr w)]"
| "model_dump (ControlPlaneActionSnapshot r p a c pr ph i v) = base_fields ''control_plane_action'' r p @
     [(''agent_id'', PStr a), (''action_id'', PStr c), (''proposal_ref'', PStr pr),
      (''proposal_hash'', PStr ph), (''input_hash'', PStr i), (''runtime_version'', PStr v)]"
| "model_dump (ExternalAgentActionSnapshot r p a c q qh k) = base_fields ''external_agent_action'' r p @
     [(''agent_id'', PStr a), (''action_id'', PStr c), (''request_ref'', PStr q),
      (''request_hash'', PStr qh), (''idempotency_key'', PStr k)]"
| "model_dump (DeviceActionSnapshot r p c ob ah t q) = base_fields ''device_action'' r p @
     [(''action_id'', PStr c), (''observation_hash'', PStr ob), (''action_hash'', PStr ah),
      (''observed_at_utc'', PStr t), (''qualification_ref'', PStr q)]"

section \<open>Parsing\<close>

definition base_keys :: "string list" where
  "base_keys = [''schema_version'', ''kind'', ''run_id'', ''policy_hash'']"

text \<open>A required string field, and one with a default.\<close>

definition str_field :: "pydict \<Rightarrow> string \<Rightarrow> string option" where
  "str_field d k = (case map_of d k of Some (PStr s) \<Rightarrow> Some s | _ \<Rightarrow> None)"

definition str_field_default :: "pydict \<Rightarrow> string \<Rightarrow> string \<Rightarrow> string option" where
  "str_field_default d k v = (case map_of d k of None \<Rightarrow> Some v | Some (PStr s) \<Rightarrow> Some s | _ \<Rightarrow> None)"

text \<open>The values of the required fields, when all are strings and no other key is present.\<close>

definition model_fields :: "pydict \<Rightarrow> string \<Rightarrow> string list \<Rightarrow> string list \<Rightarrow> string list option" where
  "model_fields d kind required optional =
     (if dict_get d ''kind'' = PStr kind \<and>
         set (map fst d) \<subseteq> set base_keys \<union> set required \<union> set optional
      then those (map (str_field d) ([''run_id'', ''policy_hash''] @ required)) else None)"

definition parse_approval_snapshot :: "pydict \<Rightarrow> approval_snapshot option" where
  "parse_approval_snapshot d =
   (if dict_get d ''schema_version'' \<noteq> PStr snapshot_schema then None
    else let kind = py_str (dict_get d ''kind'') in
      if kind = ''task'' then
        (case (model_fields d kind [''task_type'', ''user_input''] [''workspace_id''],
               str_field_default d ''workspace_id'' ''default'') of
           (Some [r, p, t, u], Some w) \<Rightarrow> Some (TaskApprovalSnapshot r p t u w)
         | _ \<Rightarrow> None)
      else if kind = ''control_plane_action'' then
        (case model_fields d kind [''agent_id'', ''action_id'', ''proposal_ref'', ''proposal_hash'',
                ''input_hash'', ''runtime_version''] [] of
           Some [r, p, a, c, pr, ph, i, v] \<Rightarrow> Some (ControlPlaneActionSnapshot r p a c pr ph i v)
         | _ \<Rightarrow> None)
      else if kind = ''external_agent_action'' then
        (case model_fields d kind [''agent_id'', ''action_id'', ''request_ref'', ''request_hash'',
                ''idempotency_key''] [] of
           Some [r, p, a, c, q, qh, k] \<Rightarrow> Some (ExternalAgentActionSnapshot r p a c q qh k)
         | _ \<Rightarrow> None)
      else if kind = ''device_action'' then
        (case model_fields d kind [''action_id'', ''observation_hash'', ''action_hash'',
                ''observed_at_utc'', ''qualification_ref''] [] of
           Some [r, p, c, ob, ah, t, q] \<Rightarrow> Some (DeviceActionSnapshot r p c ob ah t q)
         | _ \<Rightarrow> None)
      else None)"

definition compute_approval_request_hash :: "(string \<Rightarrow> string) \<Rightarrow> approval_snapshot \<Rightarrow> string" where
  "compute_approval_request_hash H s = payload_hash H (PDict (model_dump s))"

section \<open>Properties\<close>

lemma wf_model_dump: "wf_json (PDict (model_dump s))"
  by (cases s) (simp_all add: base_fields_def wf_dict_def)

text \<open>Fields of a dictionary only depend on its lookups and its set of keys.\<close>

lemma parse_cong:
  assumes "map_of d = map_of e" "set (map fst d) = set (map fst e)"
  shows "parse_approval_snapshot d = parse_approval_snapshot e"
proof -
  have g: "dict_get d = dict_get e" "str_field d = str_field e" "str_field_default d = str_field_default e"
    using assms(1) by (simp_all add: fun_eq_iff dict_get_def str_field_def str_field_default_def)
  have "model_fields d = model_fields e"
    by (intro ext) (simp only: model_fields_def g assms(2))
  then show ?thesis unfolding parse_approval_snapshot_def by (simp only: g)
qed

lemma canonical_strings:
  assumes "wf_dict d" "\<forall>kv \<in> set d. \<exists>s. snd kv = PStr s"
  shows "map_of (canonical_dict d) = map_of d"
proof
  fix k
  have "map_option canonicalize_payload (map_of d k) = map_of d k"
  proof (cases "map_of d k")
    case (Some v)
    then have "(k, v) \<in> set d" by (rule map_of_SomeD)
    then obtain s where "v = PStr s" using assms(2) by force
    then show ?thesis using Some by simp
  qed simp
  then show "map_of (canonical_dict d) k = map_of d k" using map_of_canonical_dict [OF assms(1)] by simp
qed

lemma parse_dump: "parse_approval_snapshot (model_dump s) = Some s"
  by (cases s) (simp_all add: parse_approval_snapshot_def base_fields_def dict_get_def model_fields_def
        base_keys_def str_field_def str_field_default_def)

lemma parse_canonical_dump: "parse_approval_snapshot (canonical_dict (model_dump s)) = Some s"
proof -
  have "\<forall>kv \<in> set (model_dump s). \<exists>t. snd kv = PStr t" by (cases s) (simp_all add: base_fields_def)
  then have "map_of (canonical_dict (model_dump s)) = map_of (model_dump s)"
    using wf_model_dump [of s] by (simp add: canonical_strings)
  from parse_cong [OF this keys_canonical_dict] show ?thesis by (simp add: parse_dump)
qed

text \<open>
  A snapshot survives the store: parsing what was dumped gives the snapshot back, also after the
  store has sorted the keys.
\<close>

theorem snapshot_roundtrip:
  "parse_approval_snapshot (model_dump s) = Some s \<and>
   parse_approval_snapshot (canonical_dict (model_dump s)) = Some s"
  by (simp add: parse_dump parse_canonical_dump)

text \<open>
  The request digest stands for the snapshot: two snapshots with the same request digest are the
  same snapshot, unless the digest collides on their dumps.
\<close>

theorem request_hash_binds:
  assumes "compute_approval_request_hash H s = compute_approval_request_hash H t"
    and "collision_free H (PDict (model_dump s)) (PDict (model_dump t))"
  shows "s = t"
proof -
  have "canonical_dict (model_dump s) = canonical_dict (model_dump t)"
    using payload_hash_inject [OF assms(1) [unfolded compute_approval_request_hash_def] assms(2) wf_model_dump wf_model_dump]
    by (simp only: canonicalize_PDict pyval.inject)
  then show ?thesis using parse_canonical_dump by (metis option.inject)
qed

theorem request_hash_binds_witness:
  "TaskApprovalSnapshot ''r'' ''p'' ''t'' ''u'' ''w'' \<noteq> TaskApprovalSnapshot ''r'' ''p'' ''t'' ''v'' ''w'' \<and>
   compute_approval_request_hash id (TaskApprovalSnapshot ''r'' ''p'' ''t'' ''u'' ''w'') \<noteq>
     compute_approval_request_hash id (TaskApprovalSnapshot ''r'' ''p'' ''t'' ''v'' ''w'')"
proof -
  have "collision_free id (PDict (model_dump (TaskApprovalSnapshot ''r'' ''p'' ''t'' ''u'' ''w'')))
      (PDict (model_dump (TaskApprovalSnapshot ''r'' ''p'' ''t'' ''v'' ''w'')))"
    by (simp add: collision_free_def)
  then show ?thesis using request_hash_binds [of id "TaskApprovalSnapshot ''r'' ''p'' ''t'' ''u'' ''w''"
      "TaskApprovalSnapshot ''r'' ''p'' ''t'' ''v'' ''w''"] by auto
qed

end
