(* ===== verification/Control_Storage.thy ===== *)
theory Control_Storage imports Json begin

text \<open>
  The directory of JSON documents of \<open>ControlPlaneStore\<close>, \<open>imperaos/control_plane/storage.py\<close>: a
  document is a value, or text that does not parse, which reading moves away.  \<open>inside\<close> tells whether
  a reference stays in the directory (\<open>ControlPlaneStore.path\<close>).  An operation that raises gives
  \<open>Inl\<close> with the exception's class.
\<close>

datatype document = Document pyval | Corrupted

type_synonym documents = "string \<rightharpoonup> document"

definition read_json :: "(string \<Rightarrow> bool) \<Rightarrow> documents \<Rightarrow> string \<Rightarrow> documents \<times> (string + pyval)" where
  "read_json inside docs ref =
     (if \<not> inside ref then (docs, Inl ''PathOutsideRoot'')
      else case docs ref of
             None \<Rightarrow> (docs, Inr PNone)
           | Some (Document v) \<Rightarrow> (docs, Inr v)
           | Some Corrupted \<Rightarrow> (docs(ref := None), Inl ''RegistryCorrupted''))"

text \<open>A document is written with sorted keys, which is what it reads back with.\<close>

definition write_json_atomic :: "(string \<Rightarrow> bool) \<Rightarrow> documents \<Rightarrow> string \<Rightarrow> pyval \<Rightarrow> documents \<times> (string + unit)" where
  "write_json_atomic inside docs ref payload =
     (if \<not> inside ref then (docs, Inl ''PathOutsideRoot'')
      else (docs(ref \<mapsto> Document (canonicalize_payload payload)), Inr ()))"

definition canonical_json_hash :: "(string \<Rightarrow> string) \<Rightarrow> pyval \<Rightarrow> string" where
  "canonical_json_hash H v = ''sha256:'' @ payload_hash H v"

lemma read_after_write:
  "inside ref \<Longrightarrow> snd (read_json inside (fst (write_json_atomic inside docs ref v)) ref) = Inr (canonicalize_payload v)"
  by (simp add: read_json_def write_json_atomic_def)

lemma canonical_json_hash_inject [simp]:
  "canonical_json_hash H v = canonical_json_hash H w \<longleftrightarrow> payload_hash H v = payload_hash H w"
  by (simp add: canonical_json_hash_def)

end
