(* ===== verification/Approval_Execution.thy ===== *)
theory Approval_Execution imports Approval_Facts Approval_Snapshots Control_Storage begin

text \<open>
  Executing an approved action, \<open>imperaos/governance/approval_execution.py\<close> and
  \<open>approval_executors/\<close>.  An executor works on a world of its own (\<open>'w\<close>), which its preflight
  reads and its execution changes; either may raise (\<open>Inl\<close> with the exception's name).  The service
  is the composition of \<open>admit\<close>, everything up to the claim, and \<open>perform\<close>, the execution and its
  finalisation.
\<close>

section \<open>Executors\<close>

record execution_outcome =
  oc_result :: pydict
  oc_result_hash :: string

record 'w executor =
  ex_kind :: string
  ex_preflight :: "'w \<Rightarrow> approval_ticket \<Rightarrow> approval_snapshot \<Rightarrow> 'w \<times> (string + bool \<times> string)"
  ex_execute :: "'w \<Rightarrow> approval_ticket \<Rightarrow> approval_snapshot \<Rightarrow> string \<Rightarrow> 'w \<times> (string + execution_outcome)"

definition device_executor :: "'w executor" where
  "device_executor = \<lparr>ex_kind = ''device_action'',
     ex_preflight = (\<lambda>w t s. (w, Inr (False, ''COMPUTER_USE_NOT_QUALIFIED''))),
     ex_execute = (\<lambda>w t s attempt_id. (w, Inl ''RuntimeError''))\<rparr>"

definition external_agent_executor :: "'w executor" where
  "external_agent_executor = \<lparr>ex_kind = ''external_agent_action'',
     ex_preflight = (\<lambda>w t s. (w, Inr (False, ''EXTERNAL_AGENT_IDEMPOTENT_GATEWAY_REQUIRED''))),
     ex_execute = (\<lambda>w t s attempt_id. (w, Inl ''RuntimeError''))\<rparr>"

subsection \<open>The control plane executor\<close>

text \<open>
  Its world is the directory of documents; \<open>permission\<close> is the answer of \<open>require_permission\<close> (the
  error code of a refusal).
\<close>

definition control_plane_preflight ::
  "(string \<Rightarrow> string) \<Rightarrow> (string \<Rightarrow> bool) \<Rightarrow> string option \<Rightarrow> documents \<Rightarrow> approval_ticket \<Rightarrow>
   approval_snapshot \<Rightarrow> documents \<times> (string + bool \<times> string)" where
  "control_plane_preflight H inside permission docs ticket snapshot =
   (case snapshot of
      ControlPlaneActionSnapshot run_id policy_hash agent_id action_id proposal_ref proposal_hash _ _ \<Rightarrow>
        (case read_json inside docs proposal_ref of
           (docs1, Inl e) \<Rightarrow> (docs1, Inl e)
         | (docs1, Inr (PDict proposal)) \<Rightarrow>
             if canonical_json_hash H (PDict proposal) \<noteq> proposal_hash
             then (docs1, Inr (False, ''CONTROL_PLANE_PROPOSAL_HASH_MISMATCH''))
             else if (dict_get proposal ''run_id'', dict_get proposal ''agent_id'', dict_get proposal ''action_id'')
                  \<noteq> (PStr run_id, PStr agent_id, PStr action_id)
             then (docs1, Inr (False, ''CONTROL_PLANE_PROPOSAL_BINDING_MISMATCH''))
             else if t_policy_hash ticket \<noteq> policy_hash
             then (docs1, Inr (False, ''CONTROL_PLANE_POLICY_HASH_MISMATCH''))
             else (case permission of
                     Some code \<Rightarrow> (docs1, Inr (False, code)) | None \<Rightarrow> (docs1, Inr (True, ''OK'')))
         | (docs1, Inr _) \<Rightarrow> (docs1, Inr (False, ''CONTROL_PLANE_PROPOSAL_HASH_MISMATCH'')))
    | _ \<Rightarrow> (docs, Inr (False, ''APPROVAL_SNAPSHOT_KIND_MISMATCH'')))"

definition execution_evidence ::
  "string \<Rightarrow> approval_ticket \<Rightarrow> approval_snapshot \<Rightarrow> string \<Rightarrow> pydict" where
  "execution_evidence now_text ticket s attempt_id =
     [(''schemaVersion'', PStr ''control-plane.execution-evidence/v1''),
      (''approvalId'', PStr (t_approval_id ticket)), (''executionAttemptId'', PStr attempt_id),
      (''runId'', PStr (sn_run_id s)), (''agentId'', PStr (sn_agent_id s)),
      (''actionId'', PStr (sn_action_id s)), (''proposalHash'', PStr (sn_proposal_hash s)),
      (''policyHash'', PStr (sn_policy_hash s)), (''outcome'', PStr ''executed''),
      (''generatedAtUtc'', PStr now_text)]"

definition control_plane_execute ::
  "(string \<Rightarrow> string) \<Rightarrow> string \<Rightarrow> documents \<Rightarrow> approval_ticket \<Rightarrow> approval_snapshot \<Rightarrow> string \<Rightarrow>
   documents \<times> (string + execution_outcome)" where
  "control_plane_execute H now_text docs ticket snapshot attempt_id =
   (if snapshot_kind snapshot \<noteq> ''control_plane_action'' then (docs, Inl ''AssertionError'')
    else let evidence = execution_evidence now_text ticket snapshot attempt_id;
             result_hash = canonical_json_hash H (PDict evidence);
             evidence_ref = ''evidence/executions/'' @ attempt_id @ ''.json''
         in (docs(evidence_ref \<mapsto> Document (PDict (canonical_dict (evidence @ [(''resultHash'', PStr result_hash)])))),
             Inr \<lparr>oc_result = [(''evidenceRef'', PStr evidence_ref), (''resultHash'', PStr result_hash)],
                  oc_result_hash = result_hash\<rparr>))"

definition control_plane_executor ::
  "(string \<Rightarrow> string) \<Rightarrow> (string \<Rightarrow> bool) \<Rightarrow> string option \<Rightarrow> string \<Rightarrow> documents executor" where
  "control_plane_executor H inside permission now_text =
     \<lparr>ex_kind = ''control_plane_action'',
      ex_preflight = control_plane_preflight H inside permission,
      ex_execute = control_plane_execute H now_text\<rparr>"

section \<open>The service\<close>

record execution_result =
  xr_ok :: bool
  xr_approval_id :: string
  xr_attempt_id :: "string option"
  xr_reason_code :: string
  xr_result :: "pydict option"

definition rejected :: "string \<Rightarrow> string option \<Rightarrow> string \<Rightarrow> execution_result" where
  "rejected approval_id attempt_id reason_code =
     \<lparr>xr_ok = False, xr_approval_id = approval_id, xr_attempt_id = attempt_id,
      xr_reason_code = reason_code, xr_result = None\<rparr>"

text \<open>\<open>{executor.kind: executor for executor in executors}\<close>: the last of a kind.\<close>

definition executor_for :: "'w executor list \<Rightarrow> string \<Rightarrow> 'w executor option" where
  "executor_for executors kind = map_of (rev (map (\<lambda>e. (ex_kind e, e)) executors)) kind"

datatype 'w admission = Raised string | Rejected execution_result
  | Admitted approval_ticket approval_snapshot "'w executor"

definition admit ::
  "(string \<Rightarrow> string) \<Rightarrow> (nat \<Rightarrow> time) \<Rightarrow> (nat \<Rightarrow> approval_db \<Rightarrow> approval_db) \<Rightarrow> string \<Rightarrow> 'w executor list \<Rightarrow>
   string \<Rightarrow> string \<Rightarrow> string \<Rightarrow> approval_db \<times> 'w \<Rightarrow> (approval_db \<times> 'w) \<times> 'w admission" where
  "admit H clk env attempt_id executors approval_id workspace_id actor s =
   (let (db, w) = s in
    case get H db approval_id (Some workspace_id) of
      None \<Rightarrow> (s, Rejected (rejected approval_id None ''APPROVAL_NOT_FOUND''))
    | Some ticket \<Rightarrow>
        (case parse_approval_snapshot (t_snapshot ticket) of
           None \<Rightarrow> (s, Rejected (rejected approval_id None ''APPROVAL_SNAPSHOT_SCHEMA_UNSUPPORTED''))
         | Some snapshot \<Rightarrow>
             if compute_approval_request_hash H snapshot \<noteq> t_request_hash ticket
             then (s, Rejected (rejected approval_id None ''APPROVAL_REQUEST_HASH_MISMATCH''))
             else (case executor_for executors (snapshot_kind snapshot) of
                     None \<Rightarrow> (s, Rejected (rejected approval_id None ''APPROVAL_EXECUTOR_UNSUPPORTED''))
                   | Some executor \<Rightarrow>
                       (case ex_preflight executor w ticket snapshot of
                          (w1, Inl e) \<Rightarrow> ((db, w1), Raised e)
                        | (w1, Inr (allowed, reason_code)) \<Rightarrow>
                            if \<not> allowed then ((db, w1), Rejected (rejected approval_id None reason_code))
                            else let (db1, claim) = claim_execution H clk (\<lambda>i. env (Suc i)) approval_id
                                       workspace_id attempt_id actor (env 0 db)
                                 in (if opt_truthy (snd claim)
                                     then ((db1, w1), Rejected (rejected approval_id (Some attempt_id) (the (snd claim))))
                                     else ((db1, w1), Admitted ticket snapshot executor))))))"

definition perform ::
  "(string \<Rightarrow> string) \<Rightarrow> time \<Rightarrow> (nat \<Rightarrow> approval_db \<Rightarrow> approval_db) \<Rightarrow> string \<Rightarrow> string \<Rightarrow> string \<Rightarrow>
   approval_ticket \<Rightarrow> approval_snapshot \<Rightarrow> 'w executor \<Rightarrow> approval_db \<times> 'w \<Rightarrow>
   (approval_db \<times> 'w) \<times> execution_result" where
  "perform H now env attempt_id approval_id workspace_id ticket snapshot executor s =
   (let (db, w) = s in
    case ex_execute executor w ticket snapshot attempt_id of
      (w1, Inl error_name) \<Rightarrow>
        let (db1, _) = finalize_execution_failure H now (\<lambda>i. env (i + 4)) approval_id workspace_id attempt_id
              error_name (env 3 db)
        in ((db1, w1), rejected approval_id (Some attempt_id) ''APPROVAL_EXECUTION_FAILED'')
    | (w1, Inr outcome) \<Rightarrow>
        let (db1, finalized) = finalize_execution_success H now (\<lambda>i. env (i + 4)) approval_id workspace_id
              attempt_id (oc_result_hash outcome) (env 3 db)
        in ((db1, w1), \<lparr>xr_ok = (snd finalized = None), xr_approval_id = approval_id,
              xr_attempt_id = Some attempt_id,
              xr_reason_code = (case snd finalized of None \<Rightarrow> ''OK'' | Some c \<Rightarrow> c),
              xr_result = Some (oc_result outcome)\<rparr>))"

definition service_execute ::
  "(string \<Rightarrow> string) \<Rightarrow> (nat \<Rightarrow> time) \<Rightarrow> (nat \<Rightarrow> approval_db \<Rightarrow> approval_db) \<Rightarrow> string \<Rightarrow> 'w executor list \<Rightarrow>
   string \<Rightarrow> string \<Rightarrow> string \<Rightarrow> approval_db \<times> 'w \<Rightarrow> (approval_db \<times> 'w) \<times> (string + execution_result)" where
  "service_execute H clk env attempt_id executors approval_id workspace_id actor s =
   (case admit H clk env attempt_id executors approval_id workspace_id actor s of
      (s1, Raised e) \<Rightarrow> (s1, Inl e)
    | (s1, Rejected r) \<Rightarrow> (s1, Inr r)
    | (s1, Admitted ticket snapshot executor) \<Rightarrow>
        let (s2, r) = perform H (clk 2) env attempt_id approval_id workspace_id ticket snapshot executor s1
        in (s2, Inr r))"

text \<open>The service as \<open>imperaos operator approval execute\<close> builds it.\<close>

definition command_executors ::
  "(string \<Rightarrow> string) \<Rightarrow> (string \<Rightarrow> bool) \<Rightarrow> string option \<Rightarrow> string \<Rightarrow> documents executor list" where
  "command_executors H inside permission now_text =
     [control_plane_executor H inside permission now_text, external_agent_executor, device_executor]"

section \<open>The executor protocol\<close>

text \<open>What the service relies on: an executor lets through only snapshots of its kind.\<close>

locale executor_protocol =
  fixes ex :: "'w executor"
  assumes kind_match: "ex_preflight ex w t s = (w', Inr (True, c)) \<Longrightarrow> snapshot_kind s = ex_kind ex"

text \<open>An executor that lets nothing through.\<close>

locale blocked_executor =
  fixes ex :: "'w executor" and reason :: string
  assumes blocked: "ex_preflight ex w t s = (w, Inr (False, reason))"
begin

lemma never_admitted:
  assumes "executor_for executors k = Some ex" "parse_approval_snapshot (t_snapshot tk) = Some sn"
    "snapshot_kind sn = k" "get H (fst s) a (Some w) = Some tk"
  shows "\<exists>r. service_execute H clk env att executors a w actor s = (s, Inr r) \<and> \<not> xr_ok r"
  using assms by (cases s) (auto simp: service_execute_def admit_def Let_def blocked rejected_def)

end

sublocale blocked_executor \<subseteq> executor_protocol ex
  by unfold_locales (simp add: blocked)

interpretation device: blocked_executor device_executor "''COMPUTER_USE_NOT_QUALIFIED''"
  by unfold_locales (simp add: device_executor_def)

interpretation external: blocked_executor external_agent_executor "''EXTERNAL_AGENT_IDEMPOTENT_GATEWAY_REQUIRED''"
  by unfold_locales (simp add: external_agent_executor_def)

interpretation control_plane: executor_protocol "control_plane_executor H inside permission now_text"
  for H inside permission now_text
  by unfold_locales
    (auto simp: control_plane_executor_def control_plane_preflight_def split: approval_snapshot.splits)

end
