(* ===== verification/Execution_Props.thy ===== *)
theory Execution_Props imports Approval_Execution begin

text \<open>
  What the execution service guarantees: what is executed was approved, nothing is executed twice, the
  outcome is recorded on the ticket, and the kinds that are not qualified are never executed.
\<close>

lemma claim_error_named:
  "snd (snd (claim_execution H clk env a w t p db)) \<noteq> Some []"
  by (auto simp: claim_execution_def Let_def split: option.splits prod.splits)

lemma claim_clean:
  "claim_execution H clk env a w t p db = (db', c) \<Longrightarrow> \<not> opt_truthy (snd c) \<Longrightarrow> snd c = None"
  using claim_error_named [of H clk env a w t p db] by (cases c) (auto simp: opt_truthy_def split: option.splits)

lemma legal_env_shift: "legal_env env \<Longrightarrow> legal_env (\<lambda>i. env (f i))"
  by (simp add: legal_env_def)

lemma executor_for_SomeD: "executor_for es k = Some e \<Longrightarrow> e \<in> set es \<and> ex_kind e = k"
  by (auto simp: executor_for_def dest!: map_of_SomeD)

text \<open>Everything an admission checked.\<close>

lemma admit_AdmittedD:
  assumes "admit H clk env att es a w actor (db, wd) = ((db1, wd1), Admitted tk sn ex)"
  shows "get H db a (Some w) = Some tk \<and> parse_approval_snapshot (t_snapshot tk) = Some sn \<and>
    compute_approval_request_hash H sn = t_request_hash tk \<and> ex \<in> set es \<and> ex_kind ex = snapshot_kind sn \<and>
    (\<exists>code. ex_preflight ex wd tk sn = (wd1, Inr (True, code))) \<and>
    (\<exists>ct. claim_execution H clk (\<lambda>i. env (Suc i)) a w att actor (env 0 db) = (db1, ct, None))"
  using assms
  by (auto simp: admit_def Let_def executor_for_SomeD dest: executor_for_SomeD claim_clean
      split: option.splits if_splits prod.splits sum.splits)

lemma admit_claim:
  assumes "admit H clk env att es a w actor (db, wd) = ((db1, wd1), Admitted tk sn ex)"
  obtains ct where "claim_execution H clk (\<lambda>i. env (Suc i)) a w att actor (env 0 db) = (db1, ct, None)"
  using admit_AdmittedD [OF assms] that by blast

lemma service_of_admitted:
  assumes "admit H clk env att es a w actor s = (s1, Admitted tk sn ex)"
  shows "service_execute H clk env att es a w actor s =
    (let (s2, r) = perform H (clk 2) env att a w tk sn ex s1 in (s2, Inr r))"
  using assms by (simp add: service_execute_def)

section \<open>A concrete execution\<close>

definition demo_proposal :: pydict where
  "demo_proposal = [(''run_id'', PStr ''run''), (''agent_id'', PStr ''ag''), (''action_id'', PStr ''ac'')]"

definition demo_snapshot :: approval_snapshot where
  "demo_snapshot = ControlPlaneActionSnapshot ''run'' ''ph'' ''ag'' ''ac'' ''pr'' ''sha256:h'' ''ih'' ''v1''"

definition demo_docs :: documents where
  "demo_docs = [''pr'' \<mapsto> Document (PDict demo_proposal)]"

definition demo_cp_row :: approval_row where
  "demo_cp_row = decide_effect 1 True ''alice'' None (insert_row (new_ticket 0 ''a1'' ''ws''
     \<lparr>q_workspace_id = Some ''ws'', q_run_id = ''run'', q_target_kind = ''control_plane_action'',
      q_target_ref = ''ac'', q_action_hash = ''ah'', q_policy_hash = ''ph'', q_request_hash = ''h'',
      q_snapshot_hash = ''h'', q_snapshot = model_dump demo_snapshot, q_ttl_seconds = 60,
      q_idempotency_key = ''ik''\<rparr>))"

abbreviation demo_executors :: "documents executor list" where
  "demo_executors \<equiv> command_executors demo_hash (\<lambda>_. True) None ''now''"

abbreviation demo_cp :: "documents executor" where
  "demo_cp \<equiv> control_plane_executor demo_hash (\<lambda>_. True) None ''now''"

lemma demo_cp_inv [simp]: "db_inv (demo_db demo_cp_row)"
  by (simp add: db_inv_def demo_defs demo_cp_row_def row_simps shape_defs keys_distinct_def)

lemma demo_cp_ticket:
  "get demo_hash (demo_db demo_cp_row) ''a1'' (Some ''ws'') = Some (row_to_ticket demo_hash demo_cp_row)"
  by code_simp

lemma demo_cp_columns:
  "r_request_hash demo_cp_row = ''h''" "r_policy_hash demo_cp_row = ''ph''"
  "parse_approval_snapshot (r_snapshot_json demo_cp_row) = Some demo_snapshot"
  by code_simp+

lemma demo_cp_claim:
  "claim_execution demo_hash (\<lambda>_. 2) (\<lambda>_ d. d) ''a1'' ''ws'' ''t1'' ''bob'' (demo_db demo_cp_row) =
     (demo_db (claim_execution_effect 2 ''t1'' ''bob'' demo_cp_row),
      Some (row_to_ticket demo_hash (claim_execution_effect 2 ''t1'' ''bob'' demo_cp_row)), None)"
  by code_simp

lemma demo_admit:
  "admit demo_hash (\<lambda>_. 2) (\<lambda>_ d. d) ''t1'' demo_executors ''a1'' ''ws'' ''bob'' (demo_db demo_cp_row, demo_docs) =
     ((demo_db (claim_execution_effect 2 ''t1'' ''bob'' demo_cp_row), demo_docs),
      Admitted (row_to_ticket demo_hash demo_cp_row) demo_snapshot demo_cp)"
  by (simp add: admit_def demo_cp_ticket demo_cp_columns demo_cp_claim executor_for_def command_executors_def
      demo_snapshot_def compute_approval_request_hash_def payload_hash_def canonical_json_hash_def
      control_plane_executor_def external_agent_executor_def device_executor_def control_plane_preflight_def
      read_json_def demo_docs_def demo_proposal_def demo_hash_def dict_get_def opt_truthy_def)

section \<open>Properties\<close>

text \<open>
  C7: What the service executes was approved: an admitted snapshot is the one stored with the ticket,
  its digest is the request digest of the row found approved (by a named decider, in this workspace,
  never executed) when it was claimed, the executor is the registered one of its kind and its preflight
  allowed the action.
\<close>

theorem executed_was_approved:
  assumes "db_inv db" "legal_env env"
    and "admit H clk env att es a w actor (db, wd) = ((db1, wd1), Admitted tk sn ex)"
  shows "\<exists>r0 r code. row_of a db = Some r0 \<and> r_workspace_id r0 = w \<and> tk = row_to_ticket H r0 \<and>
    parse_approval_snapshot (r_snapshot_json r0) = Some sn \<and>
    row_of a (env 1 (expire_pending (clk 0) (env 0 db))) = Some r \<and>
    r_workspace_id r = w \<and> r_status r = Approved \<and> decided r \<and> untouched r \<and>
    r_request_hash r = compute_approval_request_hash H sn \<and>
    ex \<in> set es \<and> ex_kind ex = snapshot_kind sn \<and> ex_preflight ex wd tk sn = (wd1, Inr (True, code))"
proof -
  let ?env = "\<lambda>i. env (Suc i)"
  obtain ct code where adm: "get H db a (Some w) = Some tk" "parse_approval_snapshot (t_snapshot tk) = Some sn"
      "compute_approval_request_hash H sn = t_request_hash tk" "ex \<in> set es" "ex_kind ex = snapshot_kind sn"
      "ex_preflight ex wd tk sn = (wd1, Inr (True, code))"
    and claim: "claim_execution H clk ?env a w att actor (env 0 db) = (db1, ct, None)"
    using admit_AdmittedD [OF assms(3)] by blast
  have legal: "legal_env ?env" by (rule legal_env_shift [OF assms(2)])
  have inv: "db_inv (env 0 db)" by (rule db_inv_env [OF assms(2,1)])
  define db2 where "db2 = env 1 (expire_pending (clk 0) (env 0 db))"
  have inv2: "db_inv db2" unfolding db2_def by (intro db_inv_env [OF assms(2)] db_inv_expire inv)
  obtain r0 where r0: "row_of a db = Some r0" "r_workspace_id r0 = w" "tk = row_to_ticket H r0"
    using adm(1) get_Some [OF assms(1)] by blast
  obtain r where r: "row_of a db2 = Some r" "r_workspace_id r = w" "r_status r = Approved"
    using claim_execution_ok [OF inv legal claim] unfolding db2_def One_nat_def by metis
  have run: "store_step\<^sup>*\<^sup>* db db2"
    unfolding db2_def using gap_run [OF assms(2)] legal_env_run [OF assms(2)] by (meson rtranclp_trans)
  obtain r' where "row_of a db2 = Some r'" "row_later r0 r'" by (rule later_row [OF assms(1) run r0(1)])
  then have "r_request_hash r = r_request_hash r0" using r(1) by (simp add: row_later_def fixed_columns_def)
  moreover have "t_request_hash tk = r_request_hash r0" "t_snapshot tk = r_snapshot_json r0"
    using r0(3) by (simp_all add: ticket_columns)
  moreover have "decided r" "untouched r" using row_inv_of [OF inv2 r(1)] r(3) by (auto simp: row_inv_def)
  ultimately show ?thesis using r0 r adm unfolding db2_def by metis
qed

theorem executed_was_approved_witness:
  "parse_approval_snapshot (r_snapshot_json demo_cp_row) = Some demo_snapshot \<and> decided demo_cp_row"
proof -
  have "row_of ''a1'' (demo_db demo_cp_row) = Some demo_cp_row"
    "row_of ''a1'' (expire_pending 2 (demo_db demo_cp_row)) = Some demo_cp_row" by code_simp+
  with executed_was_approved [OF demo_cp_inv legal_env_id(2) demo_admit] show ?thesis by auto
qed

text \<open>
  C8: An approved action is executed at most once: after one admission no later call of the service
  on that ticket, under any workspace, attempt, executors and interleaving, gets as far as executing.
\<close>

theorem executed_at_most_once:
  assumes "db_inv db" "legal_env env"
    and "admit H clk env att es a w actor (db, wd) = ((db1, wd1), Admitted tk sn ex)"
    and "store_step\<^sup>*\<^sup>* db1 db2" "legal_env env'"
  shows "snd (admit H clk' env' att' es' a w' actor' (db2, wd')) \<noteq> Admitted tk' sn' ex'"
proof
  assume again: "snd (admit H clk' env' att' es' a w' actor' (db2, wd')) = Admitted tk' sn' ex'"
  obtain db3 wd3 where "fst (admit H clk' env' att' es' a w' actor' (db2, wd')) = (db3, wd3)"
    by (rule prod.exhaust)
  with again have "admit H clk' env' att' es' a w' actor' (db2, wd') = ((db3, wd3), Admitted tk' sn' ex')"
    by (simp add: prod_eq_iff)
  then obtain ct' where claim': "claim_execution H clk' (\<lambda>i. env' (Suc i)) a w' att' actor' (env' 0 db2) = (db3, ct', None)"
    by (rule admit_claim)
  obtain ct where claim: "claim_execution H clk (\<lambda>i. env (Suc i)) a w att actor (env 0 db) = (db1, ct, None)"
    by (rule admit_claim [OF assms(3)])
  obtain r where r: "row_of a db1 = Some r" "\<not> claimable (r_status r)" "db_inv db1"
    by (rule claim_execution_row [OF db_inv_env [OF assms(2,1)] legal_env_shift [OF assms(2)] claim])
  have run: "store_step\<^sup>*\<^sup>* db1 (env' 0 db2)"
    using assms(4) legal_env_run [OF assms(5)] by (meson rtranclp_trans)
  obtain r' where r': "row_of a (env' 0 db2) = Some r'" "\<not> claimable (r_status r')"
    by (rule unclaimable_row [OF r(3) run r(1,2)])
  have "snd (snd (claim_execution H clk' (\<lambda>i. env' (Suc i)) a w' att' actor' (env' 0 db2))) \<noteq> None"
    by (rule unclaimable_fails(1) [OF db_inv_run [OF run r(3)] r' legal_env_shift [OF assms(5)]])
  with claim' show False by simp
qed

theorem executed_at_most_once_witness:
  "snd (admit demo_hash (\<lambda>_. 3) (\<lambda>_ d. d) ''t2'' demo_executors ''a1'' ''ws'' ''eve''
     (demo_db (claim_execution_effect 2 ''t1'' ''bob'' demo_cp_row), demo_docs)) \<noteq>
   Admitted (row_to_ticket demo_hash demo_cp_row) demo_snapshot demo_cp"
  by (rule executed_at_most_once [OF demo_cp_inv legal_env_id(2) demo_admit rtranclp.rtrancl_refl legal_env_id(2)])

text \<open>
  The outcome of an execution is recorded: when nothing else touches the store, an execution that
  raises leaves the ticket failed under the exception's name, one that returns leaves it executed
  under the outcome's digest, and the caller is told the same; every other row is as the claim left it.
\<close>

theorem outcome_recorded:
  fixes H clk att a w
  assumes "db_inv db"
    and "admit H clk (\<lambda>_ d. d) att es a w actor (db, wd) = ((db1, wd1), Admitted tk sn ex)"
  defines "out \<equiv> ex_execute ex wd1 tk sn att"
  shows "\<exists>db2 r res. service_execute H clk (\<lambda>_ d. d) att es a w actor (db, wd) = ((db2, fst out), Inr res) \<and>
    row_of a db2 = Some r \<and> r_execution_attempt_id r = Some att \<and> (\<forall>k. k \<noteq> a \<longrightarrow> row_of k db2 = row_of k db1) \<and>
    (case snd out of
       Inl e \<Rightarrow> r_status r = ExecutionFailed \<and> r_execution_error_code r = Some e \<and>
         res = rejected a (Some att) ''APPROVAL_EXECUTION_FAILED''
     | Inr oc \<Rightarrow> r_status r = Executed \<and> r_execution_result_hash r = Some (oc_result_hash oc) \<and>
         xr_ok res \<and> xr_reason_code res = ''OK'' \<and> xr_result res = Some (oc_result oc))"
proof -
  obtain ct where claim: "claim_execution H clk (\<lambda>_ d. d) a w att actor db = (db1, ct, None)"
    by (rule admit_claim [OF assms(2)])
  obtain r where r: "row_of a (expire_pending (clk 0) db) = Some r" "r_workspace_id r = w" "r_status r = Approved"
    "db1 = exec_stmt (SClaimExecution a w (r_version r) (clk 1) att actor) (expire_pending (clk 0) db)"
    by (rule claim_execution_ok [OF assms(1) legal_env_id(2) claim])
  have key: "r_approval_id r = a" using lookup_key_Some [OF r(1)] by simp
  have inv: "db_inv db1" unfolding r(4) by (intro db_inv_update db_inv_expire assms(1))
  let ?r1 = "claim_execution_effect (clk 1) att actor r"
  have row1: "row_of a db1 = Some ?r1" using r key by (simp add: table_simps row_simps)
  have own: "r_approval_id ?r1 = a" "r_workspace_id ?r1 = w" "r_status ?r1 = Executing"
    "r_execution_attempt_id ?r1 = Some att" using r key by (simp_all add: row_simps)
  show ?thesis
  proof (cases "snd out")
    case (Inl e)
    let ?st = "SFinalizeFailure a w att (clk 2) e"
    have cnt: "upd_count ?st db1 = 1"
      by (subst upd_count_target [OF inv]) (use row1 own in \<open>auto simp: row_simps\<close>)
    have row2: "row_of a (exec_stmt ?st db1) = Some (finalize_effect (clk 2) ExecutionFailed ExecFailed None (Some e) ?r1)"
      using row1 own by (simp add: table_simps row_simps)
    have others: "row_of k (exec_stmt ?st db1) = row_of k db1" if "k \<noteq> a" for k
      using that by (subst row_of_target) auto
    have out: "ex_execute ex wd1 tk sn att = (fst out, Inl e)" using Inl by (simp add: out_def prod_eq_iff)
    have "service_execute H clk (\<lambda>_ d. d) att es a w actor (db, wd) =
        ((exec_stmt ?st db1, fst out), Inr (rejected a (Some att) ''APPROVAL_EXECUTION_FAILED''))"
      by (simp add: service_of_admitted [OF assms(2)] perform_def out finalize_execution_failure_def
          finalize_execution_def run_stmt Let_def split: prod.split)
    then show ?thesis using row2 own(4) others Inl by (simp add: finalize_effect_def)
  next
    case (Inr oc)
    let ?st = "SFinalizeSuccess a w att (clk 2) (oc_result_hash oc)"
    have cnt: "upd_count ?st db1 = 1"
      by (subst upd_count_target [OF inv]) (use row1 own in \<open>auto simp: row_simps\<close>)
    have row2: "row_of a (exec_stmt ?st db1) =
        Some (finalize_effect (clk 2) Executed ExecExecuted (Some (oc_result_hash oc)) None ?r1)"
      using row1 own by (simp add: table_simps row_simps)
    have others: "row_of k (exec_stmt ?st db1) = row_of k db1" if "k \<noteq> a" for k
      using that by (subst row_of_target) auto
    have out: "ex_execute ex wd1 tk sn att = (fst out, Inr oc)" using Inr by (simp add: out_def prod_eq_iff)
    have "service_execute H clk (\<lambda>_ d. d) att es a w actor (db, wd) =
        ((exec_stmt ?st db1, fst out), Inr \<lparr>xr_ok = True, xr_approval_id = a, xr_attempt_id = Some att,
           xr_reason_code = ''OK'', xr_result = Some (oc_result oc)\<rparr>)"
      using cnt by (simp add: service_of_admitted [OF assms(2)] perform_def out finalize_execution_success_def
          finalize_execution_def run_stmt Let_def split: prod.split)
    then show ?thesis using row2 own(4) others Inr by (simp add: finalize_effect_def)
  qed
qed

theorem outcome_recorded_witness:
  "\<exists>db2 r res. service_execute demo_hash (\<lambda>_. 2) (\<lambda>_ d. d) ''t1'' demo_executors ''a1'' ''ws'' ''bob''
      (demo_db demo_cp_row, demo_docs) =
      ((db2, fst (ex_execute demo_cp demo_docs (row_to_ticket demo_hash demo_cp_row) demo_snapshot ''t1'')), Inr res) \<and>
    row_of ''a1'' db2 = Some r \<and> r_status r = Executed \<and> xr_ok res"
proof -
  have out: "\<exists>oc. snd (ex_execute demo_cp demo_docs (row_to_ticket demo_hash demo_cp_row) demo_snapshot ''t1'') = Inr oc"
    by (simp add: control_plane_executor_def control_plane_execute_def demo_snapshot_def Let_def)
  with outcome_recorded [OF demo_cp_inv demo_admit] show ?thesis by fastforce
qed

text \<open>
  Device actions and external agent actions are never executed by the command: whatever the
  ticket says, the service refuses them and changes neither the store nor the documents.
\<close>

theorem unqualified_kinds_blocked:
  assumes "get H db a (Some w) = Some tk" "parse_approval_snapshot (t_snapshot tk) = Some sn"
    and "snapshot_kind sn \<in> {''device_action'', ''external_agent_action''}"
  shows "\<exists>r. service_execute H clk env att (command_executors H inside permission now_text) a w actor (db, docs) =
    ((db, docs), Inr r) \<and> \<not> xr_ok r"
proof -
  let ?es = "command_executors H inside permission now_text"
  have "executor_for ?es ''device_action'' = Some device_executor"
    "executor_for ?es ''external_agent_action'' = Some external_agent_executor"
    by (simp_all add: executor_for_def command_executors_def device_executor_def external_agent_executor_def
        control_plane_executor_def)
  with assms show ?thesis
    using device.never_admitted [of ?es "snapshot_kind sn" tk sn H "(db, docs)" a w]
      external.never_admitted [of ?es "snapshot_kind sn" tk sn H "(db, docs)" a w] by auto
qed

theorem unqualified_kinds_blocked_witness:
  "\<exists>r. service_execute demo_hash (\<lambda>_. 2) (\<lambda>_ d. d) ''t1'' demo_executors ''a1'' ''ws'' ''bob''
     (demo_db (demo_cp_row\<lparr>r_snapshot_json := model_dump (DeviceActionSnapshot ''r'' ''p'' ''c'' ''o'' ''a'' ''t'' ''q'')\<rparr>),
      demo_docs) =
   ((demo_db (demo_cp_row\<lparr>r_snapshot_json := model_dump (DeviceActionSnapshot ''r'' ''p'' ''c'' ''o'' ''a'' ''t'' ''q'')\<rparr>),
      demo_docs), Inr r) \<and> \<not> xr_ok r"
proof (rule unqualified_kinds_blocked)
  let ?r = "demo_cp_row\<lparr>r_snapshot_json := model_dump (DeviceActionSnapshot ''r'' ''p'' ''c'' ''o'' ''a'' ''t'' ''q'')\<rparr>"
  show "get demo_hash (demo_db ?r) ''a1'' (Some ''ws'') = Some (row_to_ticket demo_hash ?r)" by code_simp
  show "parse_approval_snapshot (t_snapshot (row_to_ticket demo_hash ?r)) =
      Some (DeviceActionSnapshot ''r'' ''p'' ''c'' ''o'' ''a'' ''t'' ''q'')" by code_simp
qed simp

end
