(* ===== verification/Policy.thy ===== *)
theory Policy imports Governance_Models begin

text \<open>
  The policy engine, \<open>imperaos/governance/policy.py\<close>: the rules of a policy file and the four
  evaluations, each a loop over the rules of its kind that returns at the first rule that applies.

  \<^item> \<open>re_search pattern text\<close> is \<open>re.search\<close> with \<open>IGNORECASE\<close>; \<open>None\<close> stands for the
    \<open>re.error\<close> of a pattern that does not compile.
  \<^item> \<open>nfkc\<close> is \<open>unicodedata.normalize("NFKC", .)\<close>; \<open>resolve root value\<close> is the file system's
    answer to expanding and resolving a path against a directory, as the list of its parts.
  \<^item> What a loop of this shape promises is stated once, in the locale \<open>first_match\<close>, and each
    evaluation is an instance of it.
\<close>

section \<open>The policy file\<close>

record task_rule =
  tr_id :: string
  tr_task_types :: "string list"
  tr_action :: governance_action
  tr_explain :: "string option"

record tool_rule =
  or_id :: string
  or_command_roots :: "string list"
  or_action :: governance_action
  or_arg_deny_regex :: "string list"
  or_explain :: "string option"

record approval_rule =
  ar_id :: string
  ar_task_types :: "string list"
  ar_command_roots :: "string list"
  ar_explain :: "string option"

record handoff_rule =
  hr_id :: string
  hr_from_roles :: "string list"
  hr_to_roles :: "string list"
  hr_action :: governance_action
  hr_explain :: "string option"

record memory_scope_rule =
  mr_id :: string
  mr_scopes :: "string list"
  mr_producer_roles :: "string list"
  mr_visibilities :: "string list"
  mr_action :: governance_action
  mr_explain :: "string option"

record policy_file =
  p_schema_version :: string
  p_version :: string
  p_web_egress :: governance_action
  p_task_rules :: "task_rule list"
  p_tool_rules :: "tool_rule list"
  p_pii_patterns :: "string list"
  p_approval_rules :: "approval_rule list"
  p_handoff_rules :: "handoff_rule list"
  p_memory_scope_rules :: "memory_scope_rule list"

record policy_match =
  pm_action :: governance_action
  pm_matched_rule_path :: "string option"
  pm_explain :: "string option"
  pm_reason_code :: string

record policy_bundle =
  pb_path :: string
  pb_policy :: policy_file
  pb_policy_hash :: string

section \<open>Evaluation\<close>

fun reason_for_action :: "governance_action \<Rightarrow> string" where
  "reason_for_action Deny = ''POLICY_DENY''"
| "reason_for_action RequireApproval = ''POLICY_REQUIRE_APPROVAL''"
| "reason_for_action Allow = ''RULE_ROUTE''"

definition rule_path :: "string \<Rightarrow> nat \<Rightarrow> string" where
  "rule_path kind idx = kind @ ''['' @ nat_str idx @ '']''"

definition default_allow :: policy_match where
  "default_allow = \<lparr>pm_action = Allow, pm_matched_rule_path = None, pm_explain = Some ''default allow'',
     pm_reason_code = reason_for_action Allow\<rparr>"

definition task_verdict :: "nat \<Rightarrow> task_rule \<Rightarrow> policy_match" where
  "task_verdict idx rule = \<lparr>pm_action = tr_action rule,
     pm_matched_rule_path = Some (rule_path ''task_rules'' idx), pm_explain = tr_explain rule,
     pm_reason_code = reason_for_action (tr_action rule)\<rparr>"

fun task_loop :: "string \<Rightarrow> nat \<Rightarrow> task_rule list \<Rightarrow> policy_match" where
  "task_loop task_type idx [] = default_allow"
| "task_loop task_type idx (rule # rules) =
     (if task_type \<notin> set (tr_task_types rule) then task_loop task_type (Suc idx) rules
      else task_verdict idx rule)"

definition evaluate_task :: "policy_file \<Rightarrow> string \<Rightarrow> policy_match" where
  "evaluate_task policy task_type = task_loop task_type 0 (p_task_rules policy)"

text \<open>The first pattern of a rule that the arguments match; \<open>None\<close> when a pattern is malformed.\<close>

fun deny_pattern ::
  "(string \<Rightarrow> string \<Rightarrow> bool option) \<Rightarrow> string \<Rightarrow> string list \<Rightarrow> string option option" where
  "deny_pattern re_search args_blob [] = Some None"
| "deny_pattern re_search args_blob (pattern # patterns) =
     (case re_search pattern args_blob of
        None \<Rightarrow> None
      | Some True \<Rightarrow> Some (Some pattern)
      | Some False \<Rightarrow> deny_pattern re_search args_blob patterns)"

definition tool_verdict ::
  "(string \<Rightarrow> string \<Rightarrow> bool option) \<Rightarrow> string \<Rightarrow> nat \<Rightarrow> tool_rule \<Rightarrow> policy_match option" where
  "tool_verdict re_search args_blob idx rule =
   (case deny_pattern re_search args_blob (or_arg_deny_regex rule) of
      None \<Rightarrow> None
    | Some (Some pattern) \<Rightarrow>
        Some \<lparr>pm_action = Deny,
          pm_matched_rule_path = Some (rule_path ''tool_rules'' idx @ ''.arg_deny_regex''),
          pm_explain = opt_or (or_explain rule) (Some (''arg matched deny regex: '' @ pattern)),
          pm_reason_code = ''POLICY_DENY''\<rparr>
    | Some None \<Rightarrow>
        Some \<lparr>pm_action = or_action rule, pm_matched_rule_path = Some (rule_path ''tool_rules'' idx),
          pm_explain = or_explain rule, pm_reason_code = reason_for_action (or_action rule)\<rparr>)"

fun tool_loop ::
  "(string \<Rightarrow> string \<Rightarrow> bool option) \<Rightarrow> string \<Rightarrow> string \<Rightarrow> nat \<Rightarrow> tool_rule list \<Rightarrow>
   policy_match option" where
  "tool_loop re_search command_root args_blob idx [] = Some default_allow"
| "tool_loop re_search command_root args_blob idx (rule # rules) =
     (if command_root \<notin> set (map py_lower (or_command_roots rule))
      then tool_loop re_search command_root args_blob (Suc idx) rules
      else tool_verdict re_search args_blob idx rule)"

definition evaluate_tool ::
  "(string \<Rightarrow> string \<Rightarrow> bool option) \<Rightarrow> policy_file \<Rightarrow> string \<Rightarrow> string list \<Rightarrow> policy_match option" where
  "evaluate_tool re_search policy command_root args =
     tool_loop re_search command_root (py_join '' '' args) 0 (p_tool_rules policy)"

definition normalize_name :: "string \<Rightarrow> string" where
  "normalize_name s = py_lower (py_strip s)"

text \<open>An empty list of candidates constrains nothing.\<close>

definition candidate_ok :: "string \<Rightarrow> string list \<Rightarrow> bool" where
  "candidate_ok name candidates \<longleftrightarrow> candidates = [] \<or> name \<in> set (map normalize_name candidates)"

definition scoped_reason :: "string \<Rightarrow> governance_action \<Rightarrow> string" where
  "scoped_reason deny_code action =
     (if action = Deny then deny_code
      else if action = RequireApproval then ''POLICY_REQUIRE_APPROVAL'' else ''RULE_ROUTE'')"

definition handoff_verdict :: "nat \<Rightarrow> handoff_rule \<Rightarrow> policy_match" where
  "handoff_verdict idx rule = \<lparr>pm_action = hr_action rule,
     pm_matched_rule_path = Some (rule_path ''handoff_rules'' idx), pm_explain = hr_explain rule,
     pm_reason_code = scoped_reason ''HANDOFF_DENY'' (hr_action rule)\<rparr>"

definition default_deny_handoff :: policy_match where
  "default_deny_handoff = \<lparr>pm_action = Deny, pm_matched_rule_path = None,
     pm_explain = Some ''default deny for handoff'', pm_reason_code = ''HANDOFF_DENY''\<rparr>"

fun handoff_loop :: "string \<Rightarrow> string \<Rightarrow> nat \<Rightarrow> handoff_rule list \<Rightarrow> policy_match" where
  "handoff_loop from_norm to_norm idx [] = default_deny_handoff"
| "handoff_loop from_norm to_norm idx (rule # rules) =
     (if \<not> candidate_ok from_norm (hr_from_roles rule) then handoff_loop from_norm to_norm (Suc idx) rules
      else if \<not> candidate_ok to_norm (hr_to_roles rule) then handoff_loop from_norm to_norm (Suc idx) rules
      else handoff_verdict idx rule)"

definition evaluate_handoff :: "policy_file \<Rightarrow> string \<Rightarrow> string \<Rightarrow> policy_match" where
  "evaluate_handoff policy from_role to_role =
     handoff_loop (normalize_name from_role) (normalize_name to_role) 0 (p_handoff_rules policy)"

definition memory_verdict :: "nat \<Rightarrow> memory_scope_rule \<Rightarrow> policy_match" where
  "memory_verdict idx rule = \<lparr>pm_action = mr_action rule,
     pm_matched_rule_path = Some (rule_path ''memory_scope_rules'' idx), pm_explain = mr_explain rule,
     pm_reason_code = scoped_reason ''MEMORY_SCOPE_DENY'' (mr_action rule)\<rparr>"

definition default_deny_memory :: policy_match where
  "default_deny_memory = \<lparr>pm_action = Deny, pm_matched_rule_path = None,
     pm_explain = Some ''default deny for memory scope writes'', pm_reason_code = ''MEMORY_SCOPE_DENY''\<rparr>"

fun memory_loop :: "string \<Rightarrow> string \<Rightarrow> string \<Rightarrow> nat \<Rightarrow> memory_scope_rule list \<Rightarrow> policy_match" where
  "memory_loop scope role visibility idx [] = default_deny_memory"
| "memory_loop scope role visibility idx (rule # rules) =
     (if \<not> candidate_ok scope (mr_scopes rule) then memory_loop scope role visibility (Suc idx) rules
      else if \<not> candidate_ok role (mr_producer_roles rule) then memory_loop scope role visibility (Suc idx) rules
      else if \<not> candidate_ok visibility (mr_visibilities rule) then memory_loop scope role visibility (Suc idx) rules
      else memory_verdict idx rule)"

definition evaluate_memory_scope_write :: "policy_file \<Rightarrow> string \<Rightarrow> string \<Rightarrow> string \<Rightarrow> policy_match" where
  "evaluate_memory_scope_write policy scope producer_role visibility =
     memory_loop (normalize_name scope) (normalize_name producer_role) (normalize_name visibility) 0
       (p_memory_scope_rules policy)"

section \<open>Normalising a command\<close>

definition looks_like_path :: "string \<Rightarrow> bool" where
  "looks_like_path value \<longleftrightarrow> (\<exists>ch \<in> set value. ch \<in> set ''/.~'' \<or> ch = CHR 0x5C)"

text \<open>\<open>PurePosixPath.relative_to\<close> on the parts below the root directory, and \<open>as_posix\<close>.\<close>

fun relative_to :: "string list \<Rightarrow> string list \<Rightarrow> string list option" where
  "relative_to [] parts = Some parts"
| "relative_to (r # root) (p # parts) = (if r = p then relative_to root parts else None)"
| "relative_to (r # root) [] = None"

definition relative_posix :: "string list \<Rightarrow> string" where
  "relative_posix parts = (if parts = [] then ''.'' else py_join ''/'' parts)"

definition absolute_posix :: "string list \<Rightarrow> string" where
  "absolute_posix parts = ''/'' @ py_join ''/'' parts"

definition normalize_path_argument ::
  "(string list \<Rightarrow> string \<Rightarrow> string list) \<Rightarrow> string \<Rightarrow> string list \<Rightarrow> string" where
  "normalize_path_argument resolve value root_dir =
   (let resolved = resolve root_dir value
    in case relative_to root_dir resolved of
         Some rel \<Rightarrow> ''./'' @ relative_posix rel
       | None \<Rightarrow> absolute_posix resolved)"

definition normalize_command ::
  "(string \<Rightarrow> string) \<Rightarrow> (string list \<Rightarrow> string \<Rightarrow> string list) \<Rightarrow> string list \<Rightarrow> string list \<Rightarrow>
   string \<times> string list" where
  "normalize_command nfkc resolve command root_dir =
   ((case command of [] \<Rightarrow> [] | c # _ \<Rightarrow> py_lower (py_strip (nfkc c))),
    map (\<lambda>raw. let arg = py_strip (nfkc raw)
               in if looks_like_path arg then normalize_path_argument resolve arg root_dir else arg)
      (drop 1 command))"

section \<open>First match wins\<close>

text \<open>
  \<open>eval\<close> answers with the verdict of the first rule that applies, or with the default.
\<close>

locale first_match =
  fixes rules :: "'r list"
    and applies :: "'r \<Rightarrow> bool"
    and verdict :: "nat \<Rightarrow> 'r \<Rightarrow> 'm"
    and default :: 'm
    and eval :: 'm
  assumes eval: "eval = (case find_from 0 applies rules of None \<Rightarrow> default | Some (i, r) \<Rightarrow> verdict i r)"
begin

lemma no_rule: "\<forall>r \<in> set rules. \<not> applies r \<Longrightarrow> eval = default"
  using find_from_None [of 0 applies rules] by (simp add: eval)

lemma first_rule:
  assumes "i < length rules" "applies (rules ! i)" "\<forall>k < i. \<not> applies (rules ! k)"
  shows "eval = verdict i (rules ! i)"
proof -
  have "find_from 0 applies rules = Some (i, rules ! i)"
    using assms by (simp add: find_from_Some)
  then show ?thesis by (simp add: eval)
qed

lemma decided_by:
  "eval = default \<and> (\<forall>r \<in> set rules. \<not> applies r) \<or>
   (\<exists>i < length rules. applies (rules ! i) \<and> (\<forall>k < i. \<not> applies (rules ! k)) \<and> eval = verdict i (rules ! i))"
proof (cases "find_from 0 applies rules")
  case None
  then show ?thesis using find_from_None [of 0 applies rules] by (simp add: eval)
next
  case (Some ir)
  then obtain i r where "find_from 0 applies rules = Some (i, r)" by (cases ir) auto
  then show ?thesis using find_from_Some [of 0 applies rules i r] by (auto simp: eval)
qed

end

lemma task_loop_eq:
  "task_loop ty i rules = (case find_from i (\<lambda>r. ty \<in> set (tr_task_types r)) rules of
     None \<Rightarrow> default_allow | Some (j, r) \<Rightarrow> task_verdict j r)"
  by (induction rules arbitrary: i) auto

lemma tool_loop_eq:
  "tool_loop re root blob i rules = (case find_from i (\<lambda>r. root \<in> set (map py_lower (or_command_roots r))) rules of
     None \<Rightarrow> Some default_allow | Some (j, r) \<Rightarrow> tool_verdict re blob j r)"
  by (induction rules arbitrary: i) auto

definition handoff_applies :: "string \<Rightarrow> string \<Rightarrow> handoff_rule \<Rightarrow> bool" where
  "handoff_applies from_role to_role r \<longleftrightarrow>
     candidate_ok (normalize_name from_role) (hr_from_roles r) \<and>
     candidate_ok (normalize_name to_role) (hr_to_roles r)"

definition memory_applies :: "string \<Rightarrow> string \<Rightarrow> string \<Rightarrow> memory_scope_rule \<Rightarrow> bool" where
  "memory_applies scope role visibility r \<longleftrightarrow>
     candidate_ok (normalize_name scope) (mr_scopes r) \<and>
     candidate_ok (normalize_name role) (mr_producer_roles r) \<and>
     candidate_ok (normalize_name visibility) (mr_visibilities r)"

lemma handoff_loop_eq:
  "handoff_loop (normalize_name f) (normalize_name t) i rules = (case find_from i (handoff_applies f t) rules of
     None \<Rightarrow> default_deny_handoff | Some (j, r) \<Rightarrow> handoff_verdict j r)"
  by (induction rules arbitrary: i) (auto simp: handoff_applies_def)

lemma memory_loop_eq:
  "memory_loop (normalize_name s) (normalize_name p) (normalize_name v) i rules =
     (case find_from i (memory_applies s p v) rules of
        None \<Rightarrow> default_deny_memory | Some (j, r) \<Rightarrow> memory_verdict j r)"
  by (induction rules arbitrary: i) (auto simp: memory_applies_def)

interpretation task: first_match "p_task_rules policy" "\<lambda>r. ty \<in> set (tr_task_types r)" task_verdict
  default_allow "evaluate_task policy ty" for policy ty
  by unfold_locales (simp add: evaluate_task_def task_loop_eq)

interpretation tool: first_match "p_tool_rules policy" "\<lambda>r. root \<in> set (map py_lower (or_command_roots r))"
  "tool_verdict re (py_join '' '' args)" "Some default_allow" "evaluate_tool re policy root args"
  for policy re root args
  by unfold_locales (simp add: evaluate_tool_def tool_loop_eq)

interpretation handoff: first_match "p_handoff_rules policy" "handoff_applies f t" handoff_verdict
  default_deny_handoff "evaluate_handoff policy f t" for policy f t
  by unfold_locales (simp add: evaluate_handoff_def handoff_loop_eq)

interpretation memory: first_match "p_memory_scope_rules policy" "memory_applies s p v" memory_verdict
  default_deny_memory "evaluate_memory_scope_write policy s p v" for policy s p v
  by unfold_locales (simp add: evaluate_memory_scope_write_def memory_loop_eq)

section \<open>Properties\<close>

text \<open>
  Handoffs and memory writes fail closed: such an evaluation allows (or asks for approval) only
  because the first rule whose candidates admit the normalised names says so, and it names that rule;
  with no such rule the answer is to deny.
\<close>

theorem policy_fail_closed:
  "(pm_action (evaluate_handoff policy f t) \<noteq> Deny \<longrightarrow>
     (\<exists>i < length (p_handoff_rules policy). let r = p_handoff_rules policy ! i in
        handoff_applies f t r \<and> (\<forall>k < i. \<not> handoff_applies f t (p_handoff_rules policy ! k)) \<and>
        pm_action (evaluate_handoff policy f t) = hr_action r \<and>
        pm_matched_rule_path (evaluate_handoff policy f t) = Some (rule_path ''handoff_rules'' i))) \<and>
   (pm_action (evaluate_memory_scope_write policy s p v) \<noteq> Deny \<longrightarrow>
     (\<exists>i < length (p_memory_scope_rules policy). let r = p_memory_scope_rules policy ! i in
        memory_applies s p v r \<and> (\<forall>k < i. \<not> memory_applies s p v (p_memory_scope_rules policy ! k)) \<and>
        pm_action (evaluate_memory_scope_write policy s p v) = mr_action r \<and>
        pm_matched_rule_path (evaluate_memory_scope_write policy s p v) =
          Some (rule_path ''memory_scope_rules'' i)))"
  using handoff.decided_by [of policy f t] memory.decided_by [of policy s p v]
  by (auto simp: Let_def default_deny_handoff_def default_deny_memory_def handoff_verdict_def memory_verdict_def)

definition demo_policy :: policy_file where
  "demo_policy = \<lparr>p_schema_version = ''1.0'', p_version = ''demo'', p_web_egress = Deny,
     p_task_rules = [\<lparr>tr_id = ''t'', tr_task_types = [''research''], tr_action = RequireApproval, tr_explain = None\<rparr>],
     p_tool_rules = [\<lparr>or_id = ''p'', or_command_roots = [''Python''], or_action = Allow,
        or_arg_deny_regex = [''rmtree''], or_explain = None\<rparr>],
     p_pii_patterns = [], p_approval_rules = [],
     p_handoff_rules = [\<lparr>hr_id = ''h'', hr_from_roles = [''Planner''], hr_to_roles = [], hr_action = Allow,
        hr_explain = None\<rparr>],
     p_memory_scope_rules = []\<rparr>"

theorem policy_fail_closed_witness:
  "\<exists>i < length (p_handoff_rules demo_policy).
     pm_matched_rule_path (evaluate_handoff demo_policy '' planner '' ''x'') = Some (rule_path ''handoff_rules'' i)"
proof -
  have "pm_action (evaluate_handoff demo_policy '' planner '' ''x'') \<noteq> Deny" by code_simp
  then show ?thesis using policy_fail_closed [of demo_policy "'' planner ''" "''x''", THEN conjunct1]
    unfolding Let_def by blast
qed

lemma deny_pattern_None:
  "deny_pattern re blob ps = Some None \<longleftrightarrow> (\<forall>p \<in> set ps. re p blob = Some False)"
  by (induction ps) (auto split: option.splits bool.splits)

lemma deny_pattern_Some:
  "deny_pattern re blob ps = Some (Some p) \<Longrightarrow> p \<in> set ps \<and> re p blob = Some True"
  by (induction ps) (auto split: option.splits bool.splits)

text \<open>
  A forbidden argument wins over its rule: whatever action a tool rule states, \<open>evaluate_tool\<close>
  answers other than deny only if no deny pattern of the first rule for that command matches the
  joined arguments (and every one of them compiles), and a match always denies.
\<close>

theorem tool_deny_regex:
  assumes "i < length (p_tool_rules policy)" "root \<in> set (map py_lower (or_command_roots (p_tool_rules policy ! i)))"
    and "\<forall>k < i. root \<notin> set (map py_lower (or_command_roots (p_tool_rules policy ! k)))"
    and "evaluate_tool re policy root args = Some m"
  shows "(pm_action m \<noteq> Deny \<longrightarrow>
      (\<forall>p \<in> set (or_arg_deny_regex (p_tool_rules policy ! i)). re p (py_join '' '' args) = Some False) \<and>
      pm_action m = or_action (p_tool_rules policy ! i)) \<and>
    ((\<exists>p \<in> set (or_arg_deny_regex (p_tool_rules policy ! i)). re p (py_join '' '' args) = Some True) \<longrightarrow>
      pm_action m = Deny \<and> pm_reason_code m = ''POLICY_DENY'')"
proof -
  let ?r = "p_tool_rules policy ! i" and ?blob = "py_join '' '' args"
  have m: "tool_verdict re ?blob i ?r = Some m"
    using tool.first_rule [where policy = policy and root = root and re = re and args = args and i = i] assms by simp
  show ?thesis
  proof (cases "deny_pattern re ?blob (or_arg_deny_regex ?r)")
    case None
    then show ?thesis using m by (simp add: tool_verdict_def)
  next
    case (Some hit)
    show ?thesis
    proof (cases hit)
      case None
      then show ?thesis using Some m deny_pattern_None [of re ?blob "or_arg_deny_regex ?r"]
        by (auto simp: tool_verdict_def)
    next
      case (Some p)
      then show ?thesis using \<open>deny_pattern re ?blob (or_arg_deny_regex ?r) = Some hit\<close> m
        by (auto simp: tool_verdict_def)
    qed
  qed
qed

theorem tool_deny_regex_witness:
  "pm_action (the (evaluate_tool (\<lambda>p s. Some (substring p s)) demo_policy ''python'' [''-c'', ''shutil.rmtree'']))
     = Deny"
proof -
  have "evaluate_tool (\<lambda>p s. Some (substring p s)) demo_policy ''python'' [''-c'', ''shutil.rmtree''] \<noteq> None"
    by code_simp
  then obtain m where m: "evaluate_tool (\<lambda>p s. Some (substring p s)) demo_policy ''python''
      [''-c'', ''shutil.rmtree''] = Some m" by blast
  have hit: "0 < length (p_tool_rules demo_policy)"
    "''python'' \<in> set (map py_lower (or_command_roots (p_tool_rules demo_policy ! 0)))"
    "\<exists>p \<in> set (or_arg_deny_regex (p_tool_rules demo_policy ! 0)).
       Some (substring p (py_join '' '' [''-c'', ''shutil.rmtree''])) = Some True" by code_simp+
  then show ?thesis using tool_deny_regex [OF hit(1,2) _ m] m by simp
qed

definition coherent :: "policy_match \<Rightarrow> bool" where
  "coherent m \<longleftrightarrow> (pm_reason_code m = ''RULE_ROUTE'' \<longleftrightarrow> pm_action m = Allow) \<and>
     (pm_reason_code m = ''POLICY_REQUIRE_APPROVAL'' \<longleftrightarrow> pm_action m = RequireApproval)"

lemma reason_codes [simp]:
  "reason_for_action a = ''RULE_ROUTE'' \<longleftrightarrow> a = Allow"
  "reason_for_action a = ''POLICY_REQUIRE_APPROVAL'' \<longleftrightarrow> a = RequireApproval"
  "d \<noteq> ''RULE_ROUTE'' \<Longrightarrow> scoped_reason d a = ''RULE_ROUTE'' \<longleftrightarrow> a = Allow"
  "d \<noteq> ''POLICY_REQUIRE_APPROVAL'' \<Longrightarrow> scoped_reason d a = ''POLICY_REQUIRE_APPROVAL'' \<longleftrightarrow> a = RequireApproval"
  by (cases a; simp add: scoped_reason_def)+

text \<open>
  The reason code tells the decision: in all four evaluations RULE_ROUTE is reported exactly when
  the action is to allow, and POLICY_REQUIRE_APPROVAL exactly when it is to require approval.
\<close>

theorem reason_code_tells_action:
  "\<forall>m \<in> {evaluate_task policy ty, evaluate_handoff policy f t, evaluate_memory_scope_write policy s p v} \<union>
        set_option (evaluate_tool re policy root args).
     (pm_reason_code m = ''RULE_ROUTE'' \<longleftrightarrow> pm_action m = Allow) \<and>
     (pm_reason_code m = ''POLICY_REQUIRE_APPROVAL'' \<longleftrightarrow> pm_action m = RequireApproval)"
proof -
  have "coherent (evaluate_task policy ty)"
    using task.decided_by [of policy ty] by (auto simp: coherent_def task_verdict_def default_allow_def)
  moreover have "coherent (evaluate_handoff policy f t)"
    using handoff.decided_by [of policy f t]
    by (auto simp: coherent_def handoff_verdict_def default_deny_handoff_def)
  moreover have "coherent (evaluate_memory_scope_write policy s p v)"
    using memory.decided_by [of policy s p v]
    by (auto simp: coherent_def memory_verdict_def default_deny_memory_def)
  moreover have "coherent m" if "evaluate_tool re policy root args = Some m" for m
    using tool.decided_by [where policy = policy and root = root and re = re and args = args] that
    by (auto simp: coherent_def tool_verdict_def default_allow_def split: option.splits)
  ultimately show ?thesis by (auto simp: coherent_def)
qed

theorem reason_code_tells_action_witness:
  "pm_reason_code (evaluate_handoff demo_policy ''eve'' ''x'') \<noteq> ''RULE_ROUTE''"
proof -
  have "pm_action (evaluate_handoff demo_policy ''eve'' ''x'') = Deny" by code_simp
  then show ?thesis
    using reason_code_tells_action [of demo_policy "''chat''" "''eve''" "''x''" "''s''" "''p''" "''v''" "\<lambda>_ _. None" "''r''" "[]"]
    by simp
qed

lemma lower_char_code:
  "(of_char (lower_char c) :: nat) = (let n = of_char c in
     if (65 \<le> n \<and> n \<le> 90) \<or> (192 \<le> n \<and> n \<le> 222 \<and> n \<noteq> 215) then n + 32 else n)"
  by (auto simp: lower_char_def Let_def take_bit_nat_def)

lemma is_space_lower [simp]: "is_space (lower_char c) = is_space c"
  unfolding is_space_def lower_char_code Let_def by auto

lemma lower_lower [simp]: "lower_char (lower_char c) = lower_char c"
proof -
  have "(of_char (lower_char (lower_char c)) :: nat) = of_char (lower_char c)"
    unfolding lower_char_code Let_def by auto
  then show ?thesis by (metis char_of_char)
qed

lemma dropWhile_map_lower: "dropWhile is_space (map lower_char s) = map lower_char (dropWhile is_space s)"
  by (simp add: dropWhile_map comp_def)

lemma strip_lower: "py_strip (py_lower s) = py_lower (py_strip s)"
  by (simp add: py_strip_def py_lower_def dropWhile_map_lower rev_map)

lemma normalize_name_idem [simp]: "normalize_name (normalize_name s) = normalize_name s"
  unfolding normalize_name_def strip_lower by (simp add: py_lower_def)

text \<open>
  Names are compared without regard to case and surrounding blanks: evaluating a handoff or a
  memory write on the normalised names gives the same answer as on the raw ones.
\<close>

theorem names_normalised:
  "evaluate_handoff policy (normalize_name f) (normalize_name t) = evaluate_handoff policy f t \<and>
   evaluate_memory_scope_write policy (normalize_name s) (normalize_name p) (normalize_name v) =
     evaluate_memory_scope_write policy s p v"
  by (simp add: evaluate_handoff_def evaluate_memory_scope_write_def)

lemma relative_to_take:
  "relative_to root parts =
     (if take (length root) parts = root then Some (drop (length root) parts) else None)"
  by (induction root parts rule: relative_to.induct) auto

text \<open>
  A path argument cannot pretend to lie in the working directory: after \<open>normalize_command\<close> a
  path-like argument starts with a dot exactly when the resolved path lies in the working directory,
  and is otherwise the absolute path; every other argument is only normalised and stripped.
\<close>

theorem normalize_command_confined:
  fixes nfkc resolve command root
  assumes "Suc i < length command"
  defines "arg \<equiv> py_strip (nfkc (command ! Suc i))"
    and "out \<equiv> snd (normalize_command nfkc resolve command root) ! i"
  shows "if looks_like_path arg
    then (if take (length root) (resolve root arg) = root
          then out = ''./'' @ relative_posix (drop (length root) (resolve root arg)) \<and> hd out = CHR ''.''
          else out = absolute_posix (resolve root arg) \<and> hd out = CHR ''/'')
    else out = arg"
proof -
  have "out = (if looks_like_path arg then normalize_path_argument resolve arg root else arg)"
    using assms(1) by (simp add: out_def arg_def normalize_command_def Let_def)
  then show ?thesis
    by (auto simp: normalize_path_argument_def relative_to_take absolute_posix_def Let_def)
qed

theorem normalize_command_confined_witness:
  "snd (normalize_command id (\<lambda>root v. [''srv'', ''other'']) [''cat'', ''../other''] [''srv'', ''ws'']) ! 0 = ''/srv/other''"
proof -
  have "looks_like_path (py_strip (id ([''cat'', ''../other''] ! Suc 0)))" "absolute_posix [''srv'', ''other''] = ''/srv/other''"
    by code_simp+
  then show ?thesis
    using normalize_command_confined [where i = 0 and command = "[''cat'', ''../other'']" and nfkc = id
        and resolve = "\<lambda>root v. [''srv'', ''other'']" and root = "[''srv'', ''ws'']"]
    by simp
qed

end
