(* ===== verification/Redaction.thy ===== *)
theory Redaction imports Json begin

text \<open>
  Redaction of traces and audit records, \<open>imperaos/governance/redaction.py\<close>.

  \<^item> \<open>search text\<close> is the answer of one compiled pattern; the compiled patterns are a list of them.
  \<^item> \<open>H\<close> is SHA-256 in hexadecimal, \<open>hmac key text\<close> HMAC-SHA-256; \<open>salt\<close> is the fresh
    \<open>uuid4().hex\<close> of a trace or the audit secret of the environment.
\<close>

datatype redact_mode = TraceMode | AuditMode

definition sensitive_key_markers :: "string list" where
  "sensitive_key_markers = [''input'', ''user_input'', ''assistant_output'', ''prompt'', ''content'', ''text'',
     ''snippet'', ''raw_payload'', ''stdout'', ''stderr'', ''secret'', ''token'', ''password'', ''api_key'', ''key'']"

definition is_sensitive_key :: "string list \<Rightarrow> bool" where
  "is_sensitive_key key_path =
     (if key_path = [] then False
      else let last_key = py_lower (last key_path)
           in \<exists>marker \<in> set sensitive_key_markers. substring marker last_key)"

definition hash_text ::
  "(string \<Rightarrow> string) \<Rightarrow> (string \<Rightarrow> string \<Rightarrow> string) \<Rightarrow> string \<Rightarrow> redact_mode \<Rightarrow> string \<Rightarrow> string" where
  "hash_text H hmac salt mode text = (if mode = AuditMode then hmac salt text else H (salt @ text))"

definition redact_text ::
  "(string \<Rightarrow> string) \<Rightarrow> (string \<Rightarrow> string \<Rightarrow> string) \<Rightarrow> string \<Rightarrow> (string \<Rightarrow> bool) list \<Rightarrow> redact_mode \<Rightarrow>
   string list \<Rightarrow> string \<Rightarrow> pyval" where
  "redact_text H hmac salt patterns mode key_path text =
   (if text = [] then PStr []
    else let matched = (\<exists>search \<in> set patterns. search text); forced = is_sensitive_key key_path
         in if \<not> matched \<and> \<not> forced then PStr text
            else PDict [(''type'', PStr ''redacted_text''), (''len'', PInt (int (length text))),
                        (''hash'', PStr (hash_text H hmac salt mode text)), (''matched_pii'', PBool matched)])"

fun redact_obj ::
  "(string \<Rightarrow> string) \<Rightarrow> (string \<Rightarrow> string \<Rightarrow> string) \<Rightarrow> string \<Rightarrow> (string \<Rightarrow> bool) list \<Rightarrow> redact_mode \<Rightarrow>
   string list \<Rightarrow> pyval \<Rightarrow> pyval" where
  "redact_obj H hmac salt patterns mode key_path (PDict d) =
     PDict (map (\<lambda>kv. (fst kv, redact_obj H hmac salt patterns mode (key_path @ [fst kv]) (snd kv))) d)"
| "redact_obj H hmac salt patterns mode key_path (PList xs) =
     PList (map (redact_obj H hmac salt patterns mode (key_path @ [''[]''])) xs)"
| "redact_obj H hmac salt patterns mode key_path (PStr s) =
     redact_text H hmac salt patterns mode key_path s"
| "redact_obj H hmac salt patterns mode key_path v = v"

definition redact_trace_payload ::
  "(string \<Rightarrow> string) \<Rightarrow> string \<Rightarrow> (string \<Rightarrow> bool) list \<Rightarrow> pydict \<Rightarrow> pyval" where
  "redact_trace_payload H salt patterns data =
     redact_obj H (\<lambda>_ _. []) salt patterns TraceMode [] (PDict data)"

definition redact_audit_payload ::
  "(string \<Rightarrow> string \<Rightarrow> string) \<Rightarrow> string option \<Rightarrow> (string \<Rightarrow> bool) list \<Rightarrow> pydict \<Rightarrow> pyval" where
  "redact_audit_payload hmac env_secret patterns data =
     redact_obj (\<lambda>s. s) hmac (case env_secret of None \<Rightarrow> ''imperaos-dev-secret'' | Some s \<Rightarrow> s)
       patterns AuditMode [] (PDict data)"

definition fingerprint_args ::
  "(string \<Rightarrow> string) \<Rightarrow> (string \<Rightarrow> string \<Rightarrow> string) \<Rightarrow> string option \<Rightarrow> (string \<Rightarrow> bool) list \<Rightarrow>
   string list \<Rightarrow> string" where
  "fingerprint_args H hmac env_secret patterns args =
     H (json_text '', '' '': '' (canonicalize_payload
          (redact_audit_payload hmac env_secret patterns [(''args'', PList (map PStr args))])))"

section \<open>What redaction reveals\<close>

definition hidden :: "(string \<Rightarrow> bool) list \<Rightarrow> string list \<Rightarrow> string \<Rightarrow> bool" where
  "hidden patterns key_path s \<longleftrightarrow>
     s \<noteq> [] \<and> ((\<exists>search \<in> set patterns. search s) \<or> is_sensitive_key key_path)"

lemma redact_kept [simp]: "\<not> hidden patterns p s \<Longrightarrow> redact_text H hmac salt patterns mode p s = PStr s"
  by (auto simp: redact_text_def hidden_def)

text \<open>The strings of a value, each with the keys that lead to it.\<close>

fun leaves :: "string list \<Rightarrow> pyval \<Rightarrow> (string list \<times> string) list" where
  "leaves p (PDict d) = concat (map (\<lambda>kv. leaves (p @ [fst kv]) (snd kv)) d)"
| "leaves p (PList xs) = concat (map (leaves (p @ [''[]''])) xs)"
| "leaves p (PStr s) = [(p, s)]"
| "leaves p v = []"

fun texts :: "pyval \<Rightarrow> string list" where
  "texts (PDict d) = concat (map (\<lambda>kv. texts (snd kv)) d)"
| "texts (PList xs) = concat (map texts xs)"
| "texts (PStr s) = [s]"
| "texts v = []"

text \<open>
  \<open>alike\<close>: two payloads of one shape that differ at most in hidden strings, and there agree on the
  length, the digest and whether a pattern matched.
\<close>

inductive alike :: "(string \<Rightarrow> string) \<Rightarrow> (string \<Rightarrow> bool) list \<Rightarrow> string list \<Rightarrow> pyval \<Rightarrow> pyval \<Rightarrow> bool"
  for digest :: "string \<Rightarrow> string" and patterns :: "(string \<Rightarrow> bool) list" where
  same: "alike digest patterns p v v"
| dicts: "list_all2 (\<lambda>kv lw. fst kv = fst lw \<and> alike digest patterns (p @ [fst kv]) (snd kv) (snd lw)) d e \<Longrightarrow>
    alike digest patterns p (PDict d) (PDict e)"
| lists: "list_all2 (alike digest patterns (p @ [''[]''])) xs ys \<Longrightarrow> alike digest patterns p (PList xs) (PList ys)"
| masked: "hidden patterns p s \<Longrightarrow> hidden patterns p t \<Longrightarrow> length s = length t \<Longrightarrow> digest s = digest t \<Longrightarrow>
    (\<exists>search \<in> set patterns. search s) = (\<exists>search \<in> set patterns. search t) \<Longrightarrow>
    alike digest patterns p (PStr s) (PStr t)"
  monos list.rel_mono

definition revealed ::
  "(string \<Rightarrow> string) \<Rightarrow> (string \<Rightarrow> string \<Rightarrow> string) \<Rightarrow> string \<Rightarrow> (string \<Rightarrow> bool) list \<Rightarrow> redact_mode \<Rightarrow>
   (string list \<times> string) set \<Rightarrow> string \<Rightarrow> bool" where
  "revealed H hmac salt patterns mode L s \<longleftrightarrow>
     s = [] \<or> s = ''redacted_text'' \<or> (\<exists>q t. (q, t) \<in> L \<and> s = hash_text H hmac salt mode t) \<or>
     (\<exists>q. (q, s) \<in> L \<and> \<not> is_sensitive_key q \<and> (\<forall>search \<in> set patterns. \<not> search s))"

lemma revealed_mono: "revealed H hmac salt patterns mode L s \<Longrightarrow> L \<subseteq> M \<Longrightarrow> revealed H hmac salt patterns mode M s"
  unfolding revealed_def by blast

text \<open>
  No protected text survives redaction: every string of the result is a string of the input that
  no pattern matches and whose key is not sensitive (or is empty), or the constant tag, or a digest.
\<close>

theorem redact_hides:
  "s \<in> set (texts (redact_obj H hmac salt patterns mode p v)) \<Longrightarrow>
     s = [] \<or> s = ''redacted_text'' \<or> (\<exists>q t. (q, t) \<in> set (leaves p v) \<and> s = hash_text H hmac salt mode t) \<or>
     (\<exists>q. (q, s) \<in> set (leaves p v) \<and> \<not> is_sensitive_key q \<and> (\<forall>search \<in> set patterns. \<not> search s))"
proof (induction v arbitrary: p)
  case (PDict d)
  then obtain kv where kv: "kv \<in> set d"
    "s \<in> set (texts (redact_obj H hmac salt patterns mode (p @ [fst kv]) (snd kv)))" by auto
  have "snd kv \<in> Basic_BNFs.snds kv" by (simp add: snds.simps)
  from PDict.IH [OF kv(1) this kv(2)]
  have "revealed H hmac salt patterns mode (set (leaves (p @ [fst kv]) (snd kv))) s"
    unfolding revealed_def .
  moreover have "set (leaves (p @ [fst kv]) (snd kv)) \<subseteq> set (leaves p (PDict d))"
    using kv(1) by auto
  ultimately have "revealed H hmac salt patterns mode (set (leaves p (PDict d))) s" by (rule revealed_mono)
  then show ?case unfolding revealed_def .
next
  case (PList xs)
  then obtain x where x: "x \<in> set xs" "s \<in> set (texts (redact_obj H hmac salt patterns mode (p @ [''[]'']) x))"
    by auto
  from PList.IH [OF x]
  have "revealed H hmac salt patterns mode (set (leaves (p @ [''[]'']) x)) s" unfolding revealed_def .
  moreover have "set (leaves (p @ [''[]'']) x) \<subseteq> set (leaves p (PList xs))" using x(1) by auto
  ultimately have "revealed H hmac salt patterns mode (set (leaves p (PList xs))) s" by (rule revealed_mono)
  then show ?case unfolding revealed_def .
next
  case (PStr t)
  then show ?case by (auto simp: redact_text_def Let_def split: if_splits)
qed auto

theorem redact_hides_witness:
  "''bob@x.io'' \<notin> set (texts (redact_obj (\<lambda>s. ''h'') (\<lambda>k s. ''h'') ''salt'' [\<lambda>s. CHR ''@'' \<in> set s] AuditMode []
     (PDict [(''note'', PStr ''bob@x.io'')])))"
proof
  assume "''bob@x.io'' \<in> set (texts (redact_obj (\<lambda>s. ''h'') (\<lambda>k s. ''h'') ''salt'' [\<lambda>s. CHR ''@'' \<in> set s] AuditMode []
     (PDict [(''note'', PStr ''bob@x.io'')])))"
  from redact_hides [OF this] show False by (simp add: hash_text_def)
qed

text \<open>
  C21: Of a protected text redaction reveals only its length, its digest and whether a pattern matched:
  two payloads that differ in nothing else have the same redacted form.
\<close>

theorem redact_noninterference:
  "alike (hash_text H hmac salt mode) patterns p v w \<Longrightarrow>
     redact_obj H hmac salt patterns mode p v = redact_obj H hmac salt patterns mode p w"
proof (induction rule: alike.induct)
  case (dicts p d e)
  then have "list_all2 (\<lambda>kv lw. (fst kv, redact_obj H hmac salt patterns mode (p @ [fst kv]) (snd kv)) =
      (fst lw, redact_obj H hmac salt patterns mode (p @ [fst lw]) (snd lw))) d e"
    by (auto elim: list_all2_mono)
  then show ?case by (simp add: list_all2_map1 list_all2_map2 list.rel_eq [symmetric])
next
  case (lists p xs ys)
  then have "list_all2 (\<lambda>x y. redact_obj H hmac salt patterns mode (p @ [''[]'']) x =
      redact_obj H hmac salt patterns mode (p @ [''[]'']) y) xs ys"
    by (auto elim: list_all2_mono)
  then show ?case by (simp add: list_all2_map1 list_all2_map2 list.rel_eq [symmetric])
next
  case (masked p s t)
  then show ?case by (auto simp: redact_text_def hidden_def Let_def)
qed simp

theorem redact_noninterference_witness:
  "redact_trace_payload (\<lambda>s. ''h'') ''salt'' [] [(''password'', PStr ''abc'')] =
   redact_trace_payload (\<lambda>s. ''h'') ''salt'' [] [(''password'', PStr ''xyz'')]"
  unfolding redact_trace_payload_def
proof (rule redact_noninterference)
  show "alike (hash_text (\<lambda>s. ''h'') (\<lambda>_ _. []) ''salt'' TraceMode) [] []
      (PDict [(''password'', PStr ''abc'')]) (PDict [(''password'', PStr ''xyz'')])"
  proof (rule alike.dicts)
    have "hidden [] [''password''] ''abc'' \<and> hidden [] [''password''] ''xyz''" by code_simp
    then show "list_all2 (\<lambda>kv lw. fst kv = fst lw \<and> alike (hash_text (\<lambda>s. ''h'') (\<lambda>_ _. []) ''salt'' TraceMode) []
        ([] @ [fst kv]) (snd kv) (snd lw)) [(''password'', PStr ''abc'')] [(''password'', PStr ''xyz'')]"
      by (auto simp: hash_text_def intro: alike.masked)
  qed
qed

text \<open>
  A list shields its strings from the key above it: under any key, a sensitive one included, a
  string in a list is kept unless a pattern matches it, because the path of the element ends in the
  list marker.
\<close>

theorem list_under_sensitive_key:
  "redact_obj H hmac salt patterns mode p (PDict [(k, PList (map PStr ss))]) =
     PDict [(k, PList (map (\<lambda>s. if s \<noteq> [] \<and> (\<exists>search \<in> set patterns. search s)
       then redact_text H hmac salt patterns mode (p @ [k, ''[]'']) s else PStr s) ss))]"
proof -
  have "\<not> is_sensitive_key (q @ [''[]''])" for q
  proof -
    have "\<not> (\<exists>marker \<in> set sensitive_key_markers. substring marker (py_lower ''[]''))" by code_simp
    then show ?thesis by (simp add: is_sensitive_key_def)
  qed
  from this [of "p @ [k]"] show ?thesis by (auto simp: hidden_def)
qed

end
