(* ===== verification/Governance_Runtime.thy ===== *)
theory Governance_Runtime imports Approval_Ops Policy Redaction begin

text \<open>
  The governance runtime, \<open>imperaos/governance/runtime.py\<close>: the decisions a run asks for before it
  acts, the overrides by an executed approval, and what is recorded of them.

  \<^item> \<open>world\<close> holds what the runtime gets from outside: the digest, the regular expressions, the
    normalisation of texts and paths, the HMAC and its secret, a fresh uuid, the clock (\<open>w_clk i\<close>
    is the \<open>i\<close>-th reading) and what other connections commit to the store in the \<open>i\<close>-th gap.
  \<^item> A method that may raise returns a sum; the state it leaves behind is returned with it.
\<close>

section \<open>State\<close>

record governance_run_state =
  rs_decisions :: "governance_decision list"
  rs_tool_calls :: "tool_call_record list"
  rs_handoffs :: "handoff_call_record list"
  rs_memory_writes :: "memory_write_record list"
  rs_device_actions :: "device_action_record list"
  rs_approval_status :: string

definition new_run_state :: governance_run_state where
  "new_run_state = \<lparr>rs_decisions = [], rs_tool_calls = [], rs_handoffs = [], rs_memory_writes = [],
     rs_device_actions = [], rs_approval_status = ''none''\<rparr>"

record gov_config =
  gc_enabled :: bool
  gc_policy_path :: string
  gc_policy_fail_mode :: string
  gc_approval_ttl_seconds :: int
  gc_decision_engine_version :: string
  gc_default_workspace_id :: string

record runtime =
  rt_policy_bundle :: "policy_bundle option"
  rt_policy_error :: "string option"
  rt_runs :: "string \<rightharpoonup> governance_run_state"
  rt_run_workspaces :: "string \<rightharpoonup> string"
  rt_db :: approval_db

record world =
  w_hash :: "string \<Rightarrow> string"
  w_re :: "string \<Rightarrow> (string \<Rightarrow> bool) option"
  w_nfkc :: "string \<Rightarrow> string"
  w_resolve :: "string list \<Rightarrow> string \<Rightarrow> string list"
  w_hmac :: "string \<Rightarrow> string \<Rightarrow> string"
  w_secret :: "string option"
  w_uuid :: string
  w_clk :: "nat \<Rightarrow> time"
  w_env :: "nat \<Rightarrow> approval_db \<Rightarrow> approval_db"

datatype runtime_error = StoreError create_error | RegexError | AttributeError

text \<open>The commits of other connections before the next transaction.\<close>

definition gap :: "world \<Rightarrow> nat \<Rightarrow> runtime \<Rightarrow> runtime" where
  "gap W i rt = rt\<lparr>rt_db := w_env W i (rt_db rt)\<rparr>"

definition load_policy_into ::
  "(string \<Rightarrow> string + policy_bundle) \<Rightarrow> gov_config \<Rightarrow> runtime \<Rightarrow> runtime" where
  "load_policy_into load cfg rt =
     (if \<not> gc_enabled cfg then rt
      else case load (gc_policy_path cfg) of
             Inr bundle \<Rightarrow> rt\<lparr>rt_policy_bundle := Some bundle, rt_policy_error := None\<rparr>
           | Inl message \<Rightarrow> rt\<lparr>rt_policy_bundle := None, rt_policy_error := Some message\<rparr>)"

definition init_runtime :: "(string \<Rightarrow> string + policy_bundle) \<Rightarrow> gov_config \<Rightarrow> approval_db \<Rightarrow> runtime" where
  "init_runtime load cfg db = load_policy_into load cfg
     \<lparr>rt_policy_bundle = None, rt_policy_error = None, rt_runs = Map.empty, rt_run_workspaces = Map.empty,
      rt_db = init_db db\<rparr>"

definition execution_startup_error :: "gov_config \<Rightarrow> runtime \<Rightarrow> string option" where
  "execution_startup_error cfg rt =
     (if \<not> gc_enabled cfg then None
      else if rt_policy_bundle rt \<noteq> None then None
      else if gc_policy_fail_mode cfg = ''fail_closed''
      then opt_or (rt_policy_error rt) (Some ''POLICY_UNAVAILABLE'')
      else None)"

definition build_governance_runtime ::
  "(string \<Rightarrow> string + policy_bundle) \<Rightarrow> gov_config \<Rightarrow> approval_db \<Rightarrow> runtime option" where
  "build_governance_runtime load cfg db =
     (if \<not> gc_enabled cfg then None else Some (init_runtime load cfg db))"

definition governance_startup_abort :: "gov_config \<Rightarrow> runtime option \<Rightarrow> string option" where
  "governance_startup_abort cfg ro =
     (case ro of
        None \<Rightarrow> None
      | Some rt \<Rightarrow>
          (case execution_startup_error cfg rt of
             None \<Rightarrow> None
           | Some err \<Rightarrow> if gc_policy_fail_mode cfg = ''fail_closed'' then Some err else None))"

definition policy_hash_of :: "runtime \<Rightarrow> string" where
  "policy_hash_of rt = (case rt_policy_bundle rt of None \<Rightarrow> ''disabled'' | Some b \<Rightarrow> pb_policy_hash b)"

section \<open>Recording\<close>

definition on_run :: "string \<Rightarrow> (governance_run_state \<Rightarrow> governance_run_state) \<Rightarrow> runtime \<Rightarrow> runtime" where
  "on_run run_id f rt = rt\<lparr>rt_runs := (rt_runs rt)(run_id \<mapsto>
     f (case rt_runs rt run_id of None \<Rightarrow> new_run_state | Some s \<Rightarrow> s))\<rparr>"

definition record_decision :: "string \<Rightarrow> governance_decision \<Rightarrow> runtime \<Rightarrow> runtime" where
  "record_decision run_id d = on_run run_id (\<lambda>s. s\<lparr>rs_decisions := rs_decisions s @ [d]\<rparr>)"

definition record_tool_call :: "string \<Rightarrow> tool_call_record \<Rightarrow> runtime \<Rightarrow> runtime" where
  "record_tool_call run_id c = on_run run_id (\<lambda>s. s\<lparr>rs_tool_calls := rs_tool_calls s @ [c]\<rparr>)"

definition record_handoff :: "string \<Rightarrow> handoff_call_record \<Rightarrow> runtime \<Rightarrow> runtime" where
  "record_handoff run_id c = on_run run_id (\<lambda>s. s\<lparr>rs_handoffs := rs_handoffs s @ [c]\<rparr>)"

definition record_memory_write :: "string \<Rightarrow> memory_write_record \<Rightarrow> runtime \<Rightarrow> runtime" where
  "record_memory_write run_id c = on_run run_id (\<lambda>s. s\<lparr>rs_memory_writes := rs_memory_writes s @ [c]\<rparr>)"

definition record_device_action :: "string \<Rightarrow> device_action_record \<Rightarrow> runtime \<Rightarrow> runtime" where
  "record_device_action run_id c = on_run run_id (\<lambda>s. s\<lparr>rs_device_actions := rs_device_actions s @ [c]\<rparr>)"

definition set_approval_status :: "string \<Rightarrow> string \<Rightarrow> runtime \<Rightarrow> runtime" where
  "set_approval_status run_id status = on_run run_id (\<lambda>s. s\<lparr>rs_approval_status := status\<rparr>)"

section \<open>Decisions\<close>

definition default_allow_decision :: "gov_config \<Rightarrow> governance_phase \<Rightarrow> string \<Rightarrow> governance_decision" where
  "default_allow_decision cfg phase target =
     \<lparr>gd_phase = phase, gd_target = target, gd_action = Allow, gd_reason_code = ''RULE_ROUTE'',
      gd_matched_rule_path = None, gd_policy_schema_version = ''disabled'', gd_policy_version = ''disabled'',
      gd_policy_hash = ''disabled'', gd_decision_engine_version = gc_decision_engine_version cfg,
      gd_approval_required = False, gd_approval_id = None, gd_explain = Some ''governance disabled''\<rparr>"

definition unavailable_decision ::
  "gov_config \<Rightarrow> string option \<Rightarrow> governance_phase \<Rightarrow> string \<Rightarrow> governance_decision" where
  "unavailable_decision cfg err phase target =
     \<lparr>gd_phase = phase, gd_target = target, gd_action = Deny, gd_reason_code = ''POLICY_UNAVAILABLE'',
      gd_matched_rule_path = None, gd_policy_schema_version = ''unavailable'',
      gd_policy_version = ''unavailable'', gd_policy_hash = ''unavailable'',
      gd_decision_engine_version = gc_decision_engine_version cfg, gd_approval_required = False,
      gd_approval_id = None, gd_explain = err\<rparr>"

definition bundle_decision ::
  "gov_config \<Rightarrow> policy_bundle \<Rightarrow> governance_phase \<Rightarrow> string \<Rightarrow> governance_action \<Rightarrow> string \<Rightarrow>
   string option \<Rightarrow> bool \<Rightarrow> string option \<Rightarrow> string option \<Rightarrow> governance_decision" where
  "bundle_decision cfg b phase target action reason path approval_required approval_id explain =
     \<lparr>gd_phase = phase, gd_target = target, gd_action = action, gd_reason_code = reason,
      gd_matched_rule_path = path, gd_policy_schema_version = p_schema_version (pb_policy b),
      gd_policy_version = p_version (pb_policy b), gd_policy_hash = pb_policy_hash b,
      gd_decision_engine_version = gc_decision_engine_version cfg,
      gd_approval_required = approval_required, gd_approval_id = approval_id, gd_explain = explain\<rparr>"

definition override_decision ::
  "gov_config \<Rightarrow> policy_bundle \<Rightarrow> governance_phase \<Rightarrow> string \<Rightarrow> approval_ticket \<Rightarrow> governance_decision" where
  "override_decision cfg b phase target tk =
     bundle_decision cfg b phase target Allow ''APPROVAL_OVERRIDE'' (Some ''approval_override'') False
       (Some (t_approval_id tk)) (Some ''executed approval override validated'')"

definition override_denial ::
  "gov_config \<Rightarrow> policy_bundle \<Rightarrow> governance_phase \<Rightarrow> string \<Rightarrow> string \<Rightarrow> governance_decision" where
  "override_denial cfg b phase target code =
     bundle_decision cfg b phase target Deny code (Some ''approval_override'') False None
       (Some ''approval override validation failed'')"

definition match_decision ::
  "gov_config \<Rightarrow> policy_bundle \<Rightarrow> governance_phase \<Rightarrow> string \<Rightarrow> policy_match \<Rightarrow> governance_decision" where
  "match_decision cfg b phase target m =
     bundle_decision cfg b phase target (pm_action m) (pm_reason_code m) (pm_matched_rule_path m)
       (pm_action m = RequireApproval) None (pm_explain m)"

section \<open>Digests of actions\<close>

definition pv_of_int_opt :: "int option \<Rightarrow> pyval" where
  "pv_of_int_opt v = (case v of None \<Rightarrow> PNone | Some i \<Rightarrow> PInt i)"

definition task_payload :: "string \<Rightarrow> string \<Rightarrow> string \<Rightarrow> pydict" where
  "task_payload task_type user_input policy_hash =
     [(''kind'', PStr ''task''), (''task_type'', PStr task_type), (''user_input'', PStr user_input),
      (''policy_hash'', PStr policy_hash)]"

definition task_action_hash :: "(string \<Rightarrow> string) \<Rightarrow> runtime \<Rightarrow> string \<Rightarrow> string \<Rightarrow> string" where
  "task_action_hash H rt task_type user_input =
     payload_hash H (PDict (task_payload task_type user_input (policy_hash_of rt)))"

definition handoff_action_hash :: "(string \<Rightarrow> string) \<Rightarrow> string \<Rightarrow> string \<Rightarrow> string \<Rightarrow> string \<Rightarrow> string" where
  "handoff_action_hash H from_role to_role pay_hash policy_hash = payload_hash H (PDict
     [(''kind'', PStr ''handoff''), (''from_role'', PStr from_role), (''to_role'', PStr to_role),
      (''payload_hash'', PStr pay_hash), (''policy_hash'', PStr policy_hash)])"

definition memory_action_hash ::
  "(string \<Rightarrow> string) \<Rightarrow> string \<Rightarrow> string \<Rightarrow> string \<Rightarrow> string option \<Rightarrow> int option \<Rightarrow> string \<Rightarrow> string" where
  "memory_action_hash H scope producer_role visibility memory_target expected_state_version policy_hash =
     payload_hash H (PDict
       [(''kind'', PStr ''memory_write''), (''scope'', PStr scope), (''producer_role'', PStr producer_role),
        (''visibility'', PStr visibility), (''memory_target'', pv_of_opt memory_target),
        (''expected_state_version'', pv_of_int_opt expected_state_version),
        (''policy_hash'', PStr policy_hash)])"

definition tool_action_hash :: "(string \<Rightarrow> string) \<Rightarrow> string \<Rightarrow> string list \<Rightarrow> string \<Rightarrow> string" where
  "tool_action_hash H command_root normalized_args policy_hash = payload_hash H (PDict
     [(''kind'', PStr ''tool''), (''command_root'', PStr command_root),
      (''normalized_args'', PList (map PStr normalized_args)), (''policy_hash'', PStr policy_hash)])"

section \<open>Workspaces and tickets\<close>

definition workspace_for_run ::
  "gov_config \<Rightarrow> string option \<Rightarrow> string option \<Rightarrow> runtime \<Rightarrow> runtime \<times> string" where
  "workspace_for_run cfg run_id workspace_id rt =
   (let explicit = py_strip (case workspace_id of None \<Rightarrow> [] | Some w \<Rightarrow> w)
    in if explicit \<noteq> []
       then ((if opt_truthy run_id
              then rt\<lparr>rt_run_workspaces := (rt_run_workspaces rt)(the run_id \<mapsto> explicit)\<rparr> else rt), explicit)
       else case (if opt_truthy run_id then rt_run_workspaces rt (the run_id) else None) of
              Some w \<Rightarrow> (rt, w)
            | None \<Rightarrow> (rt, py_strip (gc_default_workspace_id cfg)))"

definition get_approval ::
  "world \<Rightarrow> gov_config \<Rightarrow> string \<Rightarrow> string option \<Rightarrow> string option \<Rightarrow> runtime \<Rightarrow>
   runtime \<times> approval_ticket option" where
  "get_approval W cfg approval_id workspace_id run_id rt =
   (let (rt1, effective) = workspace_for_run cfg run_id workspace_id rt
    in if effective = [] then (rt1, None)
       else (rt1, get (w_hash W) (rt_db rt1) approval_id (Some effective)))"

definition expire_in :: "world \<Rightarrow> nat \<Rightarrow> runtime \<Rightarrow> runtime" where
  "expire_in W i rt = rt\<lparr>rt_db := expire_pending (w_clk W i) (rt_db rt)\<rparr>"

text \<open>\<open>snapshot.get("execution_contract", {}).get("task_run_id")\<close>, which raises on a value that is no dictionary.\<close>

definition contract_task_run_id :: "pydict \<Rightarrow> pyval option" where
  "contract_task_run_id snapshot =
     (case dict_get_default snapshot ''execution_contract'' (PDict []) of
        PDict contract \<Rightarrow> Some (dict_get contract ''task_run_id'') | _ \<Rightarrow> None)"

definition prepare_resume_approval ::
  "world \<Rightarrow> gov_config \<Rightarrow> string \<Rightarrow> string \<Rightarrow> string \<Rightarrow> string \<Rightarrow> string \<Rightarrow> string option \<Rightarrow> runtime \<Rightarrow>
   runtime \<times> (runtime_error + decision_result)" where
  "prepare_resume_approval W cfg approval_id run_id task_run_id target_kind execution_contract_hash
     workspace_id rt =
   (let (rt1, effective) = workspace_for_run cfg (Some run_id) workspace_id (expire_in W 1 rt);
        rt2 = gap W 2 rt1
    in case get (w_hash W) (rt_db rt2) approval_id (Some effective) of
         None \<Rightarrow> (rt2, Inr (None, Some ''APPROVAL_NOT_FOUND''))
       | Some ticket \<Rightarrow>
           (case contract_task_run_id (t_snapshot ticket) of
              None \<Rightarrow> (rt2, Inl AttributeError)
            | Some v \<Rightarrow>
                let token = payload_hash (w_hash W) (PDict
                      [(''source_job_id'', PStr (t_run_id ticket)),
                       (''task_run_id'', PStr (py_str (py_or v (PStr task_run_id)))),
                       (''approval_id'', PStr approval_id),
                       (''snapshot_hash'', PStr (t_snapshot_hash ticket)),
                       (''target_kind'', PStr target_kind)]);
                    (db, result) = claim_resume (w_hash W) (w_clk W 2) (\<lambda>i. w_env W (i + 3)) approval_id
                      effective run_id token execution_contract_hash (rt_db rt2)
                in (rt2\<lparr>rt_db := db\<rparr>, Inr result)))"

section \<open>Overrides\<close>

text \<open>The checks an executed ticket passes before it overrides a decision, in the order of the code.\<close>

definition override_usable ::
  "string \<Rightarrow> string \<Rightarrow> string \<Rightarrow> string \<Rightarrow> string \<Rightarrow> string option \<Rightarrow> string option \<Rightarrow> approval_ticket \<Rightarrow> bool" where
  "override_usable run_id target_kind target_ref action_hash policy_hash contract_hash token ticket \<longleftrightarrow>
     (if t_status ticket \<noteq> Executed then False
      else if t_execution_status ticket \<noteq> ExecExecuted then False
      else if t_consumed_at ticket \<noteq> None \<or> t_consumed_by_job_id ticket \<noteq> None then False
      else if t_target_kind ticket \<noteq> target_kind then False
      else if t_target_ref ticket \<noteq> target_ref then False
      else if t_action_hash ticket \<noteq> action_hash then False
      else if t_policy_hash ticket \<noteq> policy_hash then False
      else if opt_truthy (t_execution_contract_hash ticket) \<and> opt_truthy contract_hash \<and>
              t_execution_contract_hash ticket \<noteq> contract_hash then False
      else if opt_truthy (t_execution_contract_hash ticket) \<and> \<not> opt_truthy contract_hash then False
      else if t_resume_claimed_job_id ticket \<notin> {None, Some run_id} then False
      else if opt_truthy (t_resume_token_ref ticket) \<and> opt_truthy token \<and>
              t_resume_token_ref ticket \<noteq> token then False
      else True)"

definition consume_override_ticket ::
  "world \<Rightarrow> gov_config \<Rightarrow> string option \<Rightarrow> string \<Rightarrow> string \<Rightarrow> string \<Rightarrow> string \<Rightarrow> string \<Rightarrow> string option \<Rightarrow>
   string option \<Rightarrow> string option \<Rightarrow> runtime \<Rightarrow> runtime \<times> (runtime_error + approval_ticket option)" where
  "consume_override_ticket W cfg approval_id run_id target_kind target_ref action_hash policy_hash
     contract_hash token workspace_id rt =
   (if \<not> opt_truthy approval_id then (rt, Inr None)
    else let (rt1, found) = get_approval W cfg (the approval_id) workspace_id (Some run_id)
                              (gap W 0 (expire_in W 0 rt))
    in case found of
         None \<Rightarrow> (rt1, Inr None)
       | Some ticket \<Rightarrow>
           if \<not> override_usable run_id target_kind target_ref action_hash policy_hash contract_hash token ticket
           then (rt1, Inr None)
           else if t_resume_claimed_job_id ticket = None \<and> opt_truthy contract_hash
           then (case contract_task_run_id (t_snapshot ticket) of
                   None \<Rightarrow> (rt1, Inl AttributeError)
                 | Some v \<Rightarrow>
                     let (rt2, claim) = prepare_resume_approval W cfg (the approval_id) run_id
                           (py_str (py_or v (PStr target_ref))) target_kind (the contract_hash)
                           workspace_id (gap W 1 rt1)
                     in (case claim of
                           Inl e \<Rightarrow> (rt2, Inl e)
                         | Inr (claimed, error_code) \<Rightarrow>
                             if opt_truthy error_code then (rt2, Inr None) else (rt2, Inr claimed)))
           else (rt1, Inr (Some ticket)))"

definition override_error_of ::
  "string \<Rightarrow> string \<Rightarrow> string \<Rightarrow> string \<Rightarrow> string \<Rightarrow> string option \<Rightarrow> string option \<Rightarrow> approval_ticket option \<Rightarrow>
   string option" where
  "override_error_of run_id target_kind target_ref action_hash policy_hash contract_hash token found =
   (case found of
      None \<Rightarrow> Some ''APPROVAL_NOT_FOUND''
    | Some ticket \<Rightarrow>
        if t_status ticket \<in> {Pending, Approved} then None
        else if t_execution_status ticket = NotExecuted then None
        else if t_status ticket \<noteq> Executed
        then (if t_status ticket = Consumed then Some ''REPLAY_BLOCKED'' else Some ''APPROVAL_CONFLICT'')
        else if t_execution_status ticket \<noteq> ExecExecuted then Some ''APPROVAL_CONFLICT''
        else if t_consumed_at ticket \<noteq> None \<or> t_consumed_by_job_id ticket \<noteq> None
        then Some ''REPLAY_BLOCKED''
        else if t_target_kind ticket \<noteq> target_kind then Some ''STALE_APPROVAL_SNAPSHOT''
        else if t_target_ref ticket \<noteq> target_ref then Some ''STALE_APPROVAL_SNAPSHOT''
        else if t_action_hash ticket \<noteq> action_hash then Some ''STALE_APPROVAL_SNAPSHOT''
        else if t_policy_hash ticket \<noteq> policy_hash then Some ''STALE_POLICY_INPUT''
        else if opt_truthy (t_execution_contract_hash ticket) \<and> opt_truthy contract_hash \<and>
                t_execution_contract_hash ticket \<noteq> contract_hash then Some ''STALE_APPROVAL_SNAPSHOT''
        else if opt_truthy (t_execution_contract_hash ticket) \<and> \<not> opt_truthy contract_hash
        then Some ''STALE_APPROVAL_SNAPSHOT''
        else if t_resume_claimed_job_id ticket \<notin> {None, Some run_id}
        then Some ''RESUME_DUPLICATE_SUPPRESSED''
        else if opt_truthy (t_resume_token_ref ticket) \<and> opt_truthy token \<and>
                t_resume_token_ref ticket \<noteq> token then Some ''STALE_RESUME_TOKEN''
        else None)"

definition override_error_code ::
  "world \<Rightarrow> gov_config \<Rightarrow> string \<Rightarrow> string \<Rightarrow> string \<Rightarrow> string \<Rightarrow> string \<Rightarrow> string \<Rightarrow> string option \<Rightarrow>
   string option \<Rightarrow> string option \<Rightarrow> runtime \<Rightarrow> runtime \<times> string option" where
  "override_error_code W cfg approval_id run_id target_kind target_ref action_hash policy_hash
     contract_hash token workspace_id rt =
   (let (rt1, found) = get_approval W cfg approval_id workspace_id (Some run_id) rt
    in (rt1, override_error_of run_id target_kind target_ref action_hash policy_hash contract_hash token found))"

text \<open>
  The three ways the override block of an evaluation ends: the ticket overrides, it is refused with a
  code, or the policy decides.
\<close>

datatype override_outcome = Overridden approval_ticket | Refused string | PolicyDecides

definition check_override ::
  "world \<Rightarrow> gov_config \<Rightarrow> string option \<Rightarrow> string \<Rightarrow> string \<Rightarrow> string \<Rightarrow> string \<Rightarrow> string \<Rightarrow> string option \<Rightarrow>
   string option \<Rightarrow> string option \<Rightarrow> runtime \<Rightarrow> runtime \<times> (runtime_error + override_outcome)" where
  "check_override W cfg approval_id run_id target_kind target_ref action_hash policy_hash contract_hash
     token workspace_id rt =
   (let (rt1, res) = consume_override_ticket W cfg approval_id run_id target_kind target_ref action_hash
          policy_hash contract_hash token workspace_id rt
    in case res of
         Inl e \<Rightarrow> (rt1, Inl e)
       | Inr (Some ticket) \<Rightarrow> (rt1, Inr (Overridden ticket))
       | Inr None \<Rightarrow>
           if opt_truthy approval_id
           then let (rt2, code) = override_error_code W cfg (the approval_id) run_id target_kind target_ref
                      action_hash policy_hash contract_hash token workspace_id (gap W 5 rt1)
                in (case code of Some c \<Rightarrow> (rt2, Inr (Refused c)) | None \<Rightarrow> (rt2, Inr PolicyDecides))
           else (rt1, Inr PolicyDecides))"

section \<open>The evaluations\<close>

definition open_ticket ::
  "world \<Rightarrow> create_args \<Rightarrow> runtime \<Rightarrow> runtime \<times> (runtime_error + approval_ticket)" where
  "open_ticket W q rt =
   (let (db, res) = create_ticket (w_hash W) (w_clk W 3) (w_uuid W) q (w_env W 6 (rt_db rt))
    in case res of Inl e \<Rightarrow> (rt\<lparr>rt_db := db\<rparr>, Inl (StoreError e)) | Inr tk \<Rightarrow> (rt\<lparr>rt_db := db\<rparr>, Inr tk))"

text \<open>The arguments of \<open>create_ticket\<close> for a snapshot: its digest, and the key built from it.\<close>

definition ticket_args ::
  "world \<Rightarrow> gov_config \<Rightarrow> policy_bundle \<Rightarrow> string \<Rightarrow> string \<Rightarrow> string \<Rightarrow> string \<Rightarrow> string \<Rightarrow> string \<Rightarrow> string \<Rightarrow>
   pydict \<Rightarrow> create_args" where
  "ticket_args W cfg b workspace_id run_id prefix target_kind target_ref action_hash request_hash snapshot =
   (let snapshot_hash = payload_hash (w_hash W) (PDict snapshot)
    in \<lparr>q_workspace_id = Some workspace_id, q_run_id = run_id, q_target_kind = target_kind,
        q_target_ref = target_ref, q_action_hash = action_hash, q_policy_hash = pb_policy_hash b,
        q_request_hash = request_hash, q_snapshot_hash = snapshot_hash, q_snapshot = snapshot,
        q_ttl_seconds = gc_approval_ttl_seconds cfg,
        q_idempotency_key = prefix @ '':'' @ run_id @ '':'' @ snapshot_hash\<rparr>)"

text \<open>
  The end of an evaluation that requires approval: the ticket is opened, its id goes into the decision
  and the run is pending; an error of the store leaves without a record.
\<close>

definition pend ::
  "world \<Rightarrow> string \<Rightarrow> create_args \<Rightarrow> governance_decision \<Rightarrow> runtime \<Rightarrow>
   runtime \<times> (runtime_error + governance_decision \<times> approval_ticket option)" where
  "pend W run_id q decision rt =
   (let (rt1, res) = open_ticket W q rt
    in case res of
         Inl e \<Rightarrow> (rt1, Inl e)
       | Inr tk \<Rightarrow> (set_approval_status run_id ''pending'' rt1,
                    Inr (decision\<lparr>gd_approval_id := Some (t_approval_id tk)\<rparr>, Some tk)))"

type_synonym evaluation = "runtime \<times> (runtime_error + governance_decision \<times> approval_ticket option)"

definition task_snapshot :: "string \<Rightarrow> string \<Rightarrow> string \<Rightarrow> string \<Rightarrow> pydict" where
  "task_snapshot task_type user_input action_hash policy_hash =
     [(''kind'', PStr ''task''), (''target_kind'', PStr ''task''), (''target_ref'', PStr task_type),
      (''action_hash'', PStr action_hash), (''task_type'', PStr task_type), (''user_input'', PStr user_input),
      (''policy_hash'', PStr policy_hash)]"

definition task_request_hash :: "(string \<Rightarrow> string) \<Rightarrow> string \<Rightarrow> string \<Rightarrow> string" where
  "task_request_hash H task_type user_input =
     payload_hash H (PDict [(''task_type'', PStr task_type), (''user_input'', PStr user_input)])"

definition runtime_evaluate_task ::
  "world \<Rightarrow> gov_config \<Rightarrow> string \<Rightarrow> string \<Rightarrow> string \<Rightarrow> string option \<Rightarrow> string option \<Rightarrow> string option \<Rightarrow>
   string option \<Rightarrow> runtime \<Rightarrow> evaluation" where
  "runtime_evaluate_task W cfg run_id task_type user_input override_id contract_hash token workspace_id rt =
   (let (rt0, effective) = workspace_for_run cfg (Some run_id) workspace_id rt
    in if \<not> gc_enabled cfg then (rt0, Inr (default_allow_decision cfg TaskPhase task_type, None))
    else case rt_policy_bundle rt0 of
      None \<Rightarrow>
        let d = unavailable_decision cfg (rt_policy_error rt0) TaskPhase task_type
        in (record_decision run_id d rt0, Inr (d, None))
    | Some b \<Rightarrow>
        let action_hash = task_action_hash (w_hash W) rt0 task_type user_input;
            (rt1, outcome) = check_override W cfg override_id run_id ''task'' task_type action_hash
              (pb_policy_hash b) contract_hash token (Some effective) rt0
        in case outcome of
             Inl e \<Rightarrow> (rt1, Inl e)
           | Inr (Overridden tk) \<Rightarrow>
               let d = override_decision cfg b TaskPhase task_type tk
               in (record_decision run_id d (set_approval_status run_id ''validated'' rt1), Inr (d, None))
           | Inr (Refused code) \<Rightarrow>
               let d = override_denial cfg b TaskPhase task_type code
               in (record_decision run_id d rt1, Inr (d, None))
           | Inr PolicyDecides \<Rightarrow>
               let d = match_decision cfg b TaskPhase task_type (evaluate_task (pb_policy b) task_type)
               in if gd_action d = RequireApproval
                  then let (rt2, res) = pend W run_id
                             (ticket_args W cfg b effective run_id ''task'' ''task'' task_type action_hash
                                (task_request_hash (w_hash W) task_type user_input)
                                (task_snapshot task_type user_input action_hash (pb_policy_hash b))) d rt1
                       in (case res of
                             Inl e \<Rightarrow> (rt2, Inl e)
                           | Inr (d', tk) \<Rightarrow> (record_decision run_id d' rt2, Inr (d', tk)))
                  else (record_decision run_id d rt1, Inr (d, None)))"

definition tool_record ::
  "world \<Rightarrow> policy_bundle \<Rightarrow> string \<Rightarrow> string list \<Rightarrow> governance_decision \<Rightarrow> tool_call_record option" where
  "tool_record W b command_root args d =
     map_option (\<lambda>patterns.
        \<lparr>tc_command_root = command_root,
         tc_args_fingerprint = fingerprint_args (w_hash W) (w_hmac W) (w_secret W) patterns args,
         tc_decision_action = gd_action d, tc_reason_code = gd_reason_code d\<rparr>)
       (those (map (w_re W) (p_pii_patterns (pb_policy b))))"

definition tool_snapshot :: "string list \<Rightarrow> string \<Rightarrow> string list \<Rightarrow> string \<Rightarrow> string \<Rightarrow> pydict" where
  "tool_snapshot command command_root args action_hash policy_hash =
     [(''kind'', PStr ''tool''), (''target_kind'', PStr ''tool''), (''target_ref'', PStr command_root),
      (''action_hash'', PStr action_hash), (''command'', PList (map PStr command)),
      (''normalized'', PList (map PStr (command_root # args))), (''policy_hash'', PStr policy_hash)]"

definition runtime_evaluate_tool_command ::
  "world \<Rightarrow> gov_config \<Rightarrow> string \<Rightarrow> string list \<Rightarrow> string list \<Rightarrow> runtime \<Rightarrow>
   runtime \<times> (runtime_error + governance_decision \<times> approval_ticket option \<times> string list)" where
  "runtime_evaluate_tool_command W cfg run_id command workdir rt =
   (if \<not> gc_enabled cfg then (rt, Inr (default_allow_decision cfg ToolPhase [], None, drop 1 command))
    else case rt_policy_bundle rt of
      None \<Rightarrow>
        let d = unavailable_decision cfg (rt_policy_error rt) ToolPhase
              (case command of [] \<Rightarrow> [] | c # _ \<Rightarrow> c)
        in (record_decision run_id d rt, Inr (d, None, drop 1 command))
    | Some b \<Rightarrow>
        let (command_root, args) = normalize_command (w_nfkc W) (w_resolve W) command workdir
        in case evaluate_tool (\<lambda>p s. map_option (\<lambda>f. f s) (w_re W p)) (pb_policy b) command_root args of
             None \<Rightarrow> (rt, Inl RegexError)
           | Some m \<Rightarrow>
               let d = match_decision cfg b ToolPhase command_root m;
                   (rt1, effective) = (if pm_action m = RequireApproval
                                       then workspace_for_run cfg (Some run_id) None rt else (rt, []));
                   action_hash = tool_action_hash (w_hash W) command_root args (pb_policy_hash b);
                   (rt2, res) =
                     (if pm_action m = RequireApproval
                      then pend W run_id
                        (ticket_args W cfg b effective run_id ''tool'' ''tool'' command_root action_hash
                           (payload_hash (w_hash W) (PList (map PStr (command_root # args))))
                           (tool_snapshot command command_root args action_hash (pb_policy_hash b))) d rt1
                      else (rt1, Inr (d, None)))
               in case res of
                    Inl e \<Rightarrow> (rt2, Inl e)
                  | Inr (d', tk) \<Rightarrow>
                      (case tool_record W b command_root args d' of
                         None \<Rightarrow> (rt2, Inl RegexError)
                       | Some r \<Rightarrow> (record_decision run_id d' (record_tool_call run_id r rt2),
                                   Inr (d', tk, args))))"

definition handoff_record ::
  "string \<Rightarrow> string \<Rightarrow> string \<Rightarrow> governance_decision \<Rightarrow> handoff_call_record" where
  "handoff_record from_role to_role pay_hash d =
     \<lparr>hc_from_role = from_role, hc_to_role = to_role, hc_payload_hash = pay_hash,
      hc_decision_action = gd_action d, hc_reason_code = gd_reason_code d\<rparr>"

definition handoff_snapshot :: "string \<Rightarrow> string \<Rightarrow> string \<Rightarrow> string \<Rightarrow> string \<Rightarrow> string \<Rightarrow> pydict" where
  "handoff_snapshot from_role to_role target_ref pay_hash action_hash policy_hash =
     [(''kind'', PStr ''handoff''), (''target_kind'', PStr ''handoff''), (''target_ref'', PStr target_ref),
      (''action_hash'', PStr action_hash), (''from_role'', PStr from_role), (''to_role'', PStr to_role),
      (''payload_hash'', PStr pay_hash), (''policy_hash'', PStr policy_hash)]"

definition runtime_evaluate_handoff ::
  "world \<Rightarrow> gov_config \<Rightarrow> string \<Rightarrow> string \<Rightarrow> string \<Rightarrow> pydict \<Rightarrow> string option \<Rightarrow> string option \<Rightarrow>
   string option \<Rightarrow> runtime \<Rightarrow> evaluation" where
  "runtime_evaluate_handoff W cfg run_id from_role to_role payload override_id contract_hash token rt =
   (let target_ref = from_role @ ''->'' @ to_role
    in if \<not> gc_enabled cfg then (rt, Inr (default_allow_decision cfg HandoffPhase target_ref, None))
    else case rt_policy_bundle rt of
      None \<Rightarrow>
        let d = unavailable_decision cfg (rt_policy_error rt) HandoffPhase target_ref
        in (record_decision run_id d rt, Inr (d, None))
    | Some b \<Rightarrow>
        let pay_hash = payload_hash (w_hash W) (PDict payload);
            action_hash = handoff_action_hash (w_hash W) from_role to_role pay_hash (pb_policy_hash b);
            (rt1, outcome) = check_override W cfg override_id run_id ''handoff'' target_ref action_hash
              (pb_policy_hash b) contract_hash token None rt
        in case outcome of
             Inl e \<Rightarrow> (rt1, Inl e)
           | Inr (Overridden tk) \<Rightarrow>
               let d = override_decision cfg b HandoffPhase target_ref tk
               in (record_decision run_id d (set_approval_status run_id ''validated''
                     (record_handoff run_id (handoff_record from_role to_role pay_hash d) rt1)),
                   Inr (d, None))
           | Inr (Refused code) \<Rightarrow>
               let d = override_denial cfg b HandoffPhase target_ref code
               in (record_decision run_id d rt1, Inr (d, None))
           | Inr PolicyDecides \<Rightarrow>
               let d = match_decision cfg b HandoffPhase target_ref
                     (evaluate_handoff (pb_policy b) from_role to_role);
                   (rt2, effective) = (if gd_action d = RequireApproval
                                       then workspace_for_run cfg (Some run_id) None rt1 else (rt1, []));
                   (rt3, res) =
                     (if gd_action d = RequireApproval
                      then pend W run_id
                        (ticket_args W cfg b effective run_id ''handoff'' ''handoff'' target_ref action_hash
                           (payload_hash (w_hash W) (PList [PStr from_role, PStr to_role, PStr pay_hash]))
                           (handoff_snapshot from_role to_role target_ref pay_hash action_hash
                              (pb_policy_hash b))) d rt2
                      else (rt2, Inr (d, None)))
               in case res of
                    Inl e \<Rightarrow> (rt3, Inl e)
                  | Inr (d', tk) \<Rightarrow>
                      (record_decision run_id d'
                         (record_handoff run_id (handoff_record from_role to_role pay_hash d') rt3),
                       Inr (d', tk)))"

definition memory_record :: "string \<Rightarrow> string \<Rightarrow> string \<Rightarrow> governance_decision \<Rightarrow> memory_write_record" where
  "memory_record scope producer_role visibility d =
     \<lparr>mw_scope = scope, mw_producer_role = producer_role, mw_visibility = visibility,
      mw_decision_action = gd_action d, mw_reason_code = gd_reason_code d\<rparr>"

definition memory_snapshot ::
  "string \<Rightarrow> string \<Rightarrow> string \<Rightarrow> string option \<Rightarrow> int option \<Rightarrow> string \<Rightarrow> string \<Rightarrow> string \<Rightarrow> pydict" where
  "memory_snapshot scope producer_role visibility memory_target expected_state_version target_ref
     action_hash policy_hash =
     [(''kind'', PStr ''memory_write''), (''target_kind'', PStr ''memory_write''),
      (''target_ref'', PStr target_ref), (''action_hash'', PStr action_hash), (''scope'', PStr scope),
      (''producer_role'', PStr producer_role), (''visibility'', PStr visibility),
      (''memory_target'', pv_of_opt memory_target),
      (''expected_state_version'', pv_of_int_opt expected_state_version), (''policy_hash'', PStr policy_hash)]"

definition runtime_evaluate_memory_write ::
  "world \<Rightarrow> gov_config \<Rightarrow> string \<Rightarrow> string \<Rightarrow> string \<Rightarrow> string \<Rightarrow> string option \<Rightarrow> string option \<Rightarrow> int option \<Rightarrow>
   string option \<Rightarrow> string option \<Rightarrow> runtime \<Rightarrow> evaluation" where
  "runtime_evaluate_memory_write W cfg run_id scope producer_role visibility override_id memory_target
     expected_state_version contract_hash token rt =
   (let target = scope @ '':'' @ producer_role @ '':'' @ visibility
    in if \<not> gc_enabled cfg then (rt, Inr (default_allow_decision cfg MemoryWritePhase target, None))
    else case rt_policy_bundle rt of
      None \<Rightarrow>
        let d = unavailable_decision cfg (rt_policy_error rt) MemoryWritePhase target
        in (record_decision run_id d rt, Inr (d, None))
    | Some b \<Rightarrow>
        let target_ref = target @ '':'' @ (case memory_target of None \<Rightarrow> [] | Some t \<Rightarrow> t);
            action_hash = memory_action_hash (w_hash W) scope producer_role visibility memory_target
              expected_state_version (pb_policy_hash b);
            (rt1, outcome) = check_override W cfg override_id run_id ''memory_write'' target_ref action_hash
              (pb_policy_hash b) contract_hash token None rt
        in case outcome of
             Inl e \<Rightarrow> (rt1, Inl e)
           | Inr (Overridden tk) \<Rightarrow>
               let d = override_decision cfg b MemoryWritePhase target_ref tk
               in (record_decision run_id d (set_approval_status run_id ''validated''
                     (record_memory_write run_id (memory_record scope producer_role visibility d) rt1)),
                   Inr (d, None))
           | Inr (Refused code) \<Rightarrow>
               let d = override_denial cfg b MemoryWritePhase target_ref code
               in (record_decision run_id d rt1, Inr (d, None))
           | Inr PolicyDecides \<Rightarrow>
               let d = match_decision cfg b MemoryWritePhase target
                     (evaluate_memory_scope_write (pb_policy b) scope producer_role visibility);
                   (rt2, effective) = (if gd_action d = RequireApproval
                                       then workspace_for_run cfg (Some run_id) None rt1 else (rt1, []));
                   (rt3, res) =
                     (if gd_action d = RequireApproval
                      then pend W run_id
                        (ticket_args W cfg b effective run_id ''memory'' ''memory_write'' target_ref action_hash
                           (payload_hash (w_hash W) (PList [PStr scope, PStr producer_role, PStr visibility]))
                           (memory_snapshot scope producer_role visibility memory_target
                              expected_state_version target_ref action_hash (pb_policy_hash b))) d rt2
                      else (rt2, Inr (d, None)))
               in case res of
                    Inl e \<Rightarrow> (rt3, Inl e)
                  | Inr (d', tk) \<Rightarrow>
                      (record_decision run_id d'
                         (record_memory_write run_id (memory_record scope producer_role visibility d') rt3),
                       Inr (d', tk)))"

section \<open>Manual and device approvals\<close>

definition runtime_request_manual_task_approval ::
  "world \<Rightarrow> gov_config \<Rightarrow> string \<Rightarrow> string \<Rightarrow> string \<Rightarrow> string \<Rightarrow> string \<Rightarrow> runtime \<Rightarrow> evaluation" where
  "runtime_request_manual_task_approval W cfg run_id task_type user_input reason_code explain rt =
   (if \<not> gc_enabled cfg then (rt, Inr (default_allow_decision cfg TaskPhase task_type, None))
    else case rt_policy_bundle rt of
      None \<Rightarrow>
        let d = unavailable_decision cfg (rt_policy_error rt) TaskPhase task_type
        in (record_decision run_id d rt, Inr (d, None))
    | Some b \<Rightarrow>
        let action_hash = task_action_hash (w_hash W) rt task_type user_input;
            snapshot = task_snapshot task_type user_input action_hash (pb_policy_hash b) @
              [(''manual_reason_code'', PStr reason_code)];
            (rt1, effective) = workspace_for_run cfg (Some run_id) None rt;
            d = bundle_decision cfg b TaskPhase task_type RequireApproval reason_code
              (Some ''manual_approval'') True None (Some explain);
            (rt2, res) = pend W run_id
              (ticket_args W cfg b effective run_id ''task-manual'' ''task'' task_type action_hash
                 (task_request_hash (w_hash W) task_type user_input) snapshot) d rt1
        in case res of
             Inl e \<Rightarrow> (rt2, Inl e)
           | Inr (d', tk) \<Rightarrow> (record_decision run_id d' rt2, Inr (d', tk)))"

text \<open>\<open>{**d, **e}\<close>.\<close>

definition dict_merge :: "pydict \<Rightarrow> pydict \<Rightarrow> pydict" where
  "dict_merge d e = foldl (\<lambda>acc kv. dict_set acc (fst kv) (snd kv)) d e"

text \<open>\<open>str(d.get(k) or "")\<close>.\<close>

definition text_field :: "pydict \<Rightarrow> string \<Rightarrow> string" where
  "text_field d k = py_str (py_or (dict_get d k) (PStr []))"

definition device_action_hash :: "(string \<Rightarrow> string) \<Rightarrow> string \<Rightarrow> pydict \<Rightarrow> string \<Rightarrow> string" where
  "device_action_hash H target_ref action_payload policy_hash = payload_hash H (PDict
     [(''kind'', PStr ''device_action''), (''target_ref'', PStr target_ref),
      (''action'', PDict action_payload), (''policy_hash'', PStr policy_hash)])"

definition device_snapshot :: "string \<Rightarrow> string \<Rightarrow> string \<Rightarrow> pydict \<Rightarrow> pydict" where
  "device_snapshot target_ref action_hash policy_hash action_payload = dict_merge
     [(''kind'', PStr ''device_action''), (''target_kind'', PStr ''device_action''),
      (''target_ref'', PStr target_ref), (''action_hash'', PStr action_hash),
      (''policy_hash'', PStr policy_hash)] action_payload"

definition device_record :: "string \<Rightarrow> pydict \<Rightarrow> governance_decision \<Rightarrow> device_action_record" where
  "device_record target_ref action_payload d =
     \<lparr>da_action_id = text_field action_payload ''action_id'',
      da_category = text_field action_payload ''category'',
      da_risk_class = text_field action_payload ''risk_class'', da_target_ref = target_ref,
      da_app_identity = text_field action_payload ''app_identity'',
      da_window_identity = text_field action_payload ''window_identity'',
      da_selector_source = text_field action_payload ''selector_source'',
      da_decision_action = gd_action d, da_reason_code = gd_reason_code d\<rparr>"

definition runtime_request_device_action_approval ::
  "world \<Rightarrow> gov_config \<Rightarrow> string \<Rightarrow> string \<Rightarrow> pydict \<Rightarrow> string \<Rightarrow> string \<Rightarrow> runtime \<Rightarrow> evaluation" where
  "runtime_request_device_action_approval W cfg run_id target_ref action_payload reason_code explain rt =
   (if \<not> gc_enabled cfg then (rt, Inr (default_allow_decision cfg DeviceActionPhase target_ref, None))
    else case rt_policy_bundle rt of
      None \<Rightarrow>
        let d = unavailable_decision cfg (rt_policy_error rt) DeviceActionPhase target_ref
        in (record_decision run_id d rt, Inr (d, None))
    | Some b \<Rightarrow>
        let action_hash = device_action_hash (w_hash W) target_ref action_payload (pb_policy_hash b);
            snapshot = device_snapshot target_ref action_hash (pb_policy_hash b) action_payload;
            request_hash = payload_hash (w_hash W) (PDict
              [(''target_ref'', PStr target_ref), (''action_id'', dict_get action_payload ''action_id''),
               (''category'', dict_get action_payload ''category''),
               (''risk_class'', dict_get action_payload ''risk_class'')]);
            (rt1, effective) = workspace_for_run cfg (Some run_id) None rt;
            (rt2, res) = open_ticket W
              (ticket_args W cfg b effective run_id ''device_action'' ''device_action'' target_ref action_hash
                 request_hash snapshot) rt1
        in case res of
             Inl e \<Rightarrow> (rt2, Inl e)
           | Inr tk \<Rightarrow>
               let d = bundle_decision cfg b DeviceActionPhase target_ref RequireApproval reason_code
                     (Some ''manual_device_action'') True (Some (t_approval_id tk)) (Some explain)
               in (record_decision run_id d (set_approval_status run_id ''pending''
                     (record_device_action run_id (device_record target_ref action_payload d) rt2)),
                   Inr (d, Some tk)))"

section \<open>Operations on approvals\<close>

definition decide_approval ::
  "world \<Rightarrow> gov_config \<Rightarrow> string \<Rightarrow> string option \<Rightarrow> bool \<Rightarrow> string \<Rightarrow> string option \<Rightarrow> runtime \<Rightarrow>
   runtime \<times> decision_result" where
  "decide_approval W cfg approval_id workspace_id approve actor reason rt =
   (let (db, res) = decide (w_hash W) (w_clk W) (w_env W) approval_id
          (opt_or workspace_id (Some (gc_default_workspace_id cfg))) approve actor reason (rt_db rt)
    in (rt\<lparr>rt_db := db\<rparr>, res))"

definition execute_approval ::
  "world \<Rightarrow> gov_config \<Rightarrow> string \<Rightarrow> string option \<Rightarrow> string \<Rightarrow> runtime \<Rightarrow> runtime \<times> decision_result" where
  "execute_approval W cfg approval_id workspace_id executed_by rt =
   (let (db, res) = mark_executed (w_hash W) (w_clk W) (w_env W) approval_id
          (opt_or workspace_id (Some (gc_default_workspace_id cfg))) executed_by (rt_db rt)
    in (rt\<lparr>rt_db := db\<rparr>, res))"

definition consume_approval ::
  "world \<Rightarrow> gov_config \<Rightarrow> string \<Rightarrow> string \<Rightarrow> string option \<Rightarrow> string option \<Rightarrow> string option \<Rightarrow> runtime \<Rightarrow>
   runtime \<times> decision_result" where
  "consume_approval W cfg approval_id consumed_by_job_id contract_hash token workspace_id rt =
   (let (rt1, effective) = workspace_for_run cfg (Some consumed_by_job_id) workspace_id rt;
        (db, res) = mark_consumed (w_hash W) (w_clk W 0) (w_env W) approval_id effective
          consumed_by_job_id contract_hash token (rt_db rt1)
    in (rt1\<lparr>rt_db := db\<rparr>, res))"

definition runtime_attach_execution_contract ::
  "world \<Rightarrow> gov_config \<Rightarrow> string \<Rightarrow> pydict \<Rightarrow> string \<Rightarrow> runtime \<Rightarrow> runtime \<times> decision_result" where
  "runtime_attach_execution_contract W cfg approval_id execution_contract execution_contract_hash rt =
   (let workspace_id = gc_default_workspace_id cfg;
        ticket = get (w_hash W) (rt_db rt) approval_id (Some workspace_id);
        snapshot_hash = payload_hash (w_hash W) (PDict
          (dict_set (case ticket of None \<Rightarrow> [] | Some t \<Rightarrow> t_snapshot t) ''execution_contract''
             (PDict execution_contract)));
        (db, res) = attach_execution_contract (w_hash W) (\<lambda>i. w_env W (Suc i)) approval_id workspace_id
          execution_contract execution_contract_hash snapshot_hash (w_env W 0 (rt_db rt))
    in (rt\<lparr>rt_db := db\<rparr>, res))"

end
