(* ===== verification/Governance_Facts.thy ===== *)
theory Governance_Facts imports Governance_Runtime Approval_Facts begin

text \<open>
  The facts the properties of the governance runtime share: what each helper of the runtime leaves
  alone (\<open>settled\<close>), and what an evaluation adds to the records (\<open>adds\<close>, \<open>logged\<close>).
\<close>

section \<open>What the helpers leave alone\<close>

text \<open>
  \<open>settled rt rt'\<close>: the store made a legal run and everything else but the workspaces is as before.
\<close>

definition settled :: "runtime \<Rightarrow> runtime \<Rightarrow> bool" where
  "settled rt rt' \<longleftrightarrow> store_step\<^sup>*\<^sup>* (rt_db rt) (rt_db rt') \<and> rt_runs rt' = rt_runs rt \<and>
     rt_policy_bundle rt' = rt_policy_bundle rt \<and> rt_policy_error rt' = rt_policy_error rt"

definition legal_world :: "world \<Rightarrow> bool" where
  "legal_world W \<longleftrightarrow> legal_env (w_env W)"

lemma settled_refl [simp]: "settled rt rt"
  by (simp add: settled_def)

lemma settled_trans [trans]: "settled a b \<Longrightarrow> settled b c \<Longrightarrow> settled a c"
  by (auto simp: settled_def)

lemma settled_gap: "legal_world W \<Longrightarrow> settled rt (gap W i rt)"
  by (simp add: settled_def gap_def legal_world_def legal_env_def)

lemma settled_expire: "settled rt (expire_in W i rt)"
  by (simp add: settled_def expire_in_def expire_run)

lemma settled_workspace: "workspace_for_run cfg r w rt = (rt1, e) \<Longrightarrow> settled rt rt1 \<and> rt_db rt1 = rt_db rt"
  by (auto simp: workspace_for_run_def Let_def settled_def split: if_splits option.splits)

lemma settled_get_approval: "get_approval W cfg a w r rt = (rt1, t) \<Longrightarrow> settled rt rt1 \<and> rt_db rt1 = rt_db rt"
  by (auto simp: get_approval_def Let_def split: prod.splits if_splits dest: settled_workspace)

lemma legal_shift: "legal_env env \<Longrightarrow> legal_env (\<lambda>i. env (i + k))"
  by (simp add: legal_env_def)

lemma settled_prepare:
  assumes "legal_world W" "prepare_resume_approval W cfg a r t k ch w rt = (rt', res)"
  shows "settled rt rt'"
proof -
  obtain rt1 e where ws: "workspace_for_run cfg (Some r) w (expire_in W 1 rt) = (rt1, e)"
    by (cases "workspace_for_run cfg (Some r) w (expire_in W 1 rt)")
  have s2: "settled rt (gap W 2 rt1)"
    using settled_trans [OF settled_trans [OF settled_expire conjunct1 [OF settled_workspace [OF ws]]]
      settled_gap [OF assms(1)]] .
  have legal: "legal_env (\<lambda>i. w_env W (i + 3))" using assms(1) by (simp add: legal_world_def legal_shift)
  have run: "settled rt (gap W 2 rt1\<lparr>rt_db := d\<rparr>)"
    if "claim_resume H now (\<lambda>i. w_env W (i + 3)) a e r tok ch (rt_db (gap W 2 rt1)) = (d, x)" for H now tok d x
    using s2 claim_resume_run [OF legal, of "rt_db (gap W 2 rt1)" H now a e r tok ch] that
    by (auto simp: settled_def intro: rtranclp_trans)
  show ?thesis
    using assms(2) ws s2
    by (auto simp: prepare_resume_approval_def Let_def split: option.splits prod.splits dest: run)
qed

lemma settled_consume:
  assumes "legal_world W" "consume_override_ticket W cfg ao r k ref ah ph ch tok w rt = (rt', res)"
  shows "settled rt rt'"
proof (cases "opt_truthy ao")
  case True
  obtain rt1 found where g: "get_approval W cfg (the ao) w (Some r) (gap W 0 (expire_in W 0 rt)) = (rt1, found)"
    by (cases "get_approval W cfg (the ao) w (Some r) (gap W 0 (expire_in W 0 rt))")
  have s1: "settled rt rt1"
    using settled_trans [OF settled_trans [OF settled_expire settled_gap [OF assms(1)]]
      conjunct1 [OF settled_get_approval [OF g]]] .
  note s2 = settled_trans [OF settled_trans [OF s1 settled_gap [OF assms(1)]] settled_prepare [OF assms(1)]]
  show ?thesis using assms(2) True g s1 s2
    by (fastforce simp: consume_override_ticket_def Let_def split: option.splits if_splits prod.splits sum.splits)
next
  case False
  then show ?thesis using assms(2) by (simp add: consume_override_ticket_def)
qed

lemma settled_check:
  assumes "legal_world W" "check_override W cfg ao r k ref ah ph ch tok w rt = (rt', res)"
  shows "settled rt rt'"
proof -
  obtain rt1 c where c: "consume_override_ticket W cfg ao r k ref ah ph ch tok w rt = (rt1, c)"
    by (cases "consume_override_ticket W cfg ao r k ref ah ph ch tok w rt")
  note s1 = settled_consume [OF assms(1) c]
  obtain rt2 t where g: "get_approval W cfg (the ao) w (Some r) (gap W 5 rt1) = (rt2, t)"
    by (cases "get_approval W cfg (the ao) w (Some r) (gap W 5 rt1)")
  have s2: "settled rt rt2"
    using settled_trans [OF settled_trans [OF s1 settled_gap [OF assms(1)]] conjunct1 [OF settled_get_approval [OF g]]] .
  show ?thesis using assms(2) c g s1 s2
    by (auto simp: check_override_def override_error_code_def Let_def split: sum.splits option.splits if_splits)
qed

lemma settled_open:
  assumes "legal_world W" "open_ticket W q rt = (rt', res)"
  shows "settled rt rt'"
proof -
  have "store_step\<^sup>*\<^sup>* (rt_db rt) (fst (create_ticket H now u q (w_env W 6 (rt_db rt))))" for H now u
    using assms(1) create_ticket_run by (metis legal_env_run legal_world_def rtranclp_trans)
  then show ?thesis using assms(2)
    by (auto simp: open_ticket_def Let_def settled_def split: prod.splits sum.splits) (metis fst_conv)+
qed

section \<open>Recording\<close>

definition decisions_of :: "string \<Rightarrow> runtime \<Rightarrow> governance_decision list" where
  "decisions_of run_id rt = (case rt_runs rt run_id of None \<Rightarrow> [] | Some s \<Rightarrow> rs_decisions s)"

text \<open>
  \<open>adds run ds rt rt'\<close>: the store made a legal run, the decisions \<open>ds\<close> were appended to those of the
  run, and the other runs and the policy are as before.
\<close>

definition adds :: "string \<Rightarrow> governance_decision list \<Rightarrow> runtime \<Rightarrow> runtime \<Rightarrow> bool" where
  "adds run_id ds rt rt' \<longleftrightarrow> store_step\<^sup>*\<^sup>* (rt_db rt) (rt_db rt') \<and>
     decisions_of run_id rt' = decisions_of run_id rt @ ds \<and>
     (\<forall>other. other \<noteq> run_id \<longrightarrow> rt_runs rt' other = rt_runs rt other) \<and>
     rt_policy_bundle rt' = rt_policy_bundle rt"

lemma adds_settled: "settled rt rt' \<Longrightarrow> adds run_id [] rt rt'"
  by (simp add: adds_def settled_def decisions_of_def)

lemma adds_refl [simp]: "adds run_id [] rt rt"
  by (simp add: adds_settled)

lemma adds_then: "adds run_id [] rt rt1 \<Longrightarrow> settled rt1 rt2 \<Longrightarrow> adds run_id [] rt rt2"
  by (auto simp: adds_def settled_def decisions_of_def)

lemma adds_decision: "adds run_id [] rt rt1 \<Longrightarrow> adds run_id [d] rt (record_decision run_id d rt1)"
  by (simp add: adds_def record_decision_def on_run_def decisions_of_def new_run_state_def split: option.splits)

lemma adds_other:
  assumes "adds run_id [] rt rt1" "\<And>s. rs_decisions (f s) = rs_decisions s"
  shows "adds run_id [] rt (on_run run_id f rt1)"
  using assms by (simp add: adds_def on_run_def decisions_of_def new_run_state_def split: option.splits)

lemma adds_records [intro]:
  "adds run_id [] rt rt1 \<Longrightarrow> adds run_id [] rt (set_approval_status run_id v rt1)"
  "adds run_id [] rt rt1 \<Longrightarrow> adds run_id [] rt (record_tool_call run_id c rt1)"
  "adds run_id [] rt rt1 \<Longrightarrow> adds run_id [] rt (record_handoff run_id hc rt1)"
  "adds run_id [] rt rt1 \<Longrightarrow> adds run_id [] rt (record_memory_write run_id mc rt1)"
  "adds run_id [] rt rt1 \<Longrightarrow> adds run_id [] rt (record_device_action run_id dc rt1)"
  by (simp_all add: adds_other set_approval_status_def record_tool_call_def record_handoff_def
      record_memory_write_def record_device_action_def)

lemma adds_open: "legal_world W \<Longrightarrow> adds run_id [] rt0 rt \<Longrightarrow> open_ticket W q rt = (rt', res) \<Longrightarrow> adds run_id [] rt0 rt'"
  by (rule adds_then [OF _ settled_open])

lemma adds_pend: "legal_world W \<Longrightarrow> adds run_id [] rt0 rt \<Longrightarrow> pend W run_id q d rt = (rt', res) \<Longrightarrow> adds run_id [] rt0 rt'"
  by (auto simp: pend_def Let_def split: prod.splits sum.splits dest: adds_open)

lemma adds_workspace: "adds run_id [] rt0 rt \<Longrightarrow> workspace_for_run cfg r w rt = (rt', e) \<Longrightarrow> adds run_id [] rt0 rt'"
  by (rule adds_then) (auto dest: settled_workspace)

lemma adds_check:
  "legal_world W \<Longrightarrow> adds run_id [] rt0 rt \<Longrightarrow> check_override W cfg ao r k ref ah ph ch tok w rt = (rt', res) \<Longrightarrow>
     adds run_id [] rt0 rt'"
  by (rule adds_then [OF _ settled_check])

definition logged :: "string \<Rightarrow> runtime \<Rightarrow> runtime \<times> (runtime_error + governance_decision \<times> 'a) \<Rightarrow> bool" where
  "logged run_id rt res = (case snd res of Inl e \<Rightarrow> adds run_id [] rt (fst res)
     | Inr (d, x) \<Rightarrow> adds run_id [d] rt (fst res))"

lemma logged_adds:
  "logged run_id rt res \<Longrightarrow> adds run_id (case snd res of Inl e \<Rightarrow> [] | Inr dt \<Rightarrow> [fst dt]) rt (fst res)"
  by (auto simp: logged_def split: sum.splits)

lemma task_logged:
  assumes "legal_world W" "gc_enabled cfg"
  shows "logged run_id rt (runtime_evaluate_task W cfg run_id ty inp ao ch tok w rt)"
proof -
  obtain rt0 e where ws: "workspace_for_run cfg (Some run_id) w rt = (rt0, e)" by fastforce
  note a0 = adds_workspace [OF adds_refl ws]
  note chk = adds_check [OF assms(1) a0]
  show ?thesis using assms(2)
    by (auto simp: logged_def runtime_evaluate_task_def ws Let_def a0
        split: option.splits sum.splits prod.splits override_outcome.splits
        intro!: adds_decision adds_records dest: chk adds_pend [OF assms(1) chk])
qed

lemma handoff_logged:
  assumes "legal_world W" "gc_enabled cfg"
  shows "logged run_id rt (runtime_evaluate_handoff W cfg run_id f t payload ao ch tok rt)"
proof -
  note chk = adds_check [OF assms(1) adds_refl]
  note ws = adds_workspace [OF chk]
  show ?thesis using assms(2)
    by (auto simp: logged_def runtime_evaluate_handoff_def Let_def
        split: option.splits sum.splits prod.splits override_outcome.splits if_splits
        intro!: adds_decision adds_records dest: chk ws adds_pend [OF assms(1) ws])
qed

lemma memory_logged:
  assumes "legal_world W" "gc_enabled cfg"
  shows "logged run_id rt (runtime_evaluate_memory_write W cfg run_id sc pr vi ao mt esv ch tok rt)"
proof -
  note chk = adds_check [OF assms(1) adds_refl]
  note ws = adds_workspace [OF chk]
  show ?thesis using assms(2)
    by (auto simp: logged_def runtime_evaluate_memory_write_def Let_def
        split: option.splits sum.splits prod.splits override_outcome.splits if_splits
        intro!: adds_decision adds_records dest: chk ws adds_pend [OF assms(1) ws])
qed

lemma tool_logged:
  assumes "legal_world W" "gc_enabled cfg"
  shows "logged run_id rt (runtime_evaluate_tool_command W cfg run_id command dir rt)"
proof -
  note ws = adds_workspace [OF adds_refl]
  show ?thesis using assms(2)
    by (auto simp: logged_def runtime_evaluate_tool_command_def Let_def
        split: option.splits sum.splits prod.splits if_splits
        intro!: adds_decision adds_records dest: ws adds_pend [OF assms(1) ws])
qed

lemma manual_logged:
  assumes "legal_world W" "gc_enabled cfg"
  shows "logged run_id rt (runtime_request_manual_task_approval W cfg run_id ty inp code explain rt)"
proof -
  note ws = adds_workspace [OF adds_refl]
  show ?thesis using assms(2)
    by (auto simp: logged_def runtime_request_manual_task_approval_def Let_def
        split: option.splits sum.splits prod.splits
        intro!: adds_decision adds_records dest: ws adds_pend [OF assms(1) ws])
qed

lemma device_logged:
  assumes "legal_world W" "gc_enabled cfg"
  shows "logged run_id rt (runtime_request_device_action_approval W cfg run_id ref payload code explain rt)"
proof -
  note ws = adds_workspace [OF adds_refl]
  show ?thesis using assms(2)
    by (auto simp: logged_def runtime_request_device_action_approval_def Let_def
        split: option.splits sum.splits prod.splits
        intro!: adds_decision adds_records dest: ws adds_open [OF assms(1) ws])
qed

section \<open>A small runtime, at which the properties are applied\<close>

definition demo_world :: world where
  "demo_world = \<lparr>w_hash = demo_hash, w_re = (\<lambda>p. Some (substring p)), w_nfkc = (\<lambda>s. s),
     w_resolve = (\<lambda>root v. root @ [v]), w_hmac = (\<lambda>k s. ''m''), w_secret = None, w_uuid = ''a1'',
     w_clk = (\<lambda>_. 0), w_env = (\<lambda>_ db. db)\<rparr>"

definition demo_config :: gov_config where
  "demo_config = \<lparr>gc_enabled = True, gc_policy_path = ''p'', gc_policy_fail_mode = ''fail_open'',
     gc_approval_ttl_seconds = 60, gc_decision_engine_version = ''v0.3'', gc_default_workspace_id = ''ws''\<rparr>"

definition demo_runtime :: "approval_db \<Rightarrow> runtime" where
  "demo_runtime db = \<lparr>rt_policy_bundle = Some \<lparr>pb_path = ''p'', pb_policy = demo_policy, pb_policy_hash = ''ph''\<rparr>,
     rt_policy_error = None, rt_runs = Map.empty, rt_run_workspaces = Map.empty, rt_db = db\<rparr>"

lemma demo_legal [simp]: "legal_world demo_world" "gc_enabled demo_config"
  by (simp_all add: legal_world_def demo_world_def demo_config_def)

end
