(* ===== verification/Governance_Props.thy ===== *)
theory Governance_Props imports Governance_Facts begin

text \<open>
  What the governance runtime guarantees: that every decision is recorded, that an override stands for
  exactly the action that was approved, that it fails closed without a policy, and that an approval is
  asked for with a ticket.
\<close>

section \<open>Recording\<close>

text \<open>
  C16: Nothing a run is told goes unrecorded: in an enabled runtime every evaluation or approval request
  that answers appends exactly the decision it answers with to the decisions of that run, one that
  raises appends nothing, the records of other runs and the policy stay as they are, and the approval
  store only makes legal steps.
\<close>

theorem every_decision_recorded:
  assumes "legal_world W" "gc_enabled cfg"
  shows "(\<forall>res \<in> {runtime_evaluate_task W cfg run_id ty inp ao ch tok w rt,
       runtime_evaluate_handoff W cfg run_id f t payload ao ch tok rt,
       runtime_evaluate_memory_write W cfg run_id sc pr vi ao mt esv ch tok rt,
       runtime_request_manual_task_approval W cfg run_id ty inp code explain rt,
       runtime_request_device_action_approval W cfg run_id ref payload code explain rt}.
     adds run_id (case snd res of Inl e \<Rightarrow> [] | Inr dt \<Rightarrow> [fst dt]) rt (fst res)) \<and>
   (let res = runtime_evaluate_tool_command W cfg run_id command dir rt
    in adds run_id (case snd res of Inl e \<Rightarrow> [] | Inr dt \<Rightarrow> [fst dt]) rt (fst res))"
  by (simp only: Let_def ball_simps simp_thms logged_adds [OF task_logged [OF assms]]
      logged_adds [OF handoff_logged [OF assms]] logged_adds [OF memory_logged [OF assms]]
      logged_adds [OF manual_logged [OF assms]] logged_adds [OF device_logged [OF assms]]
      logged_adds [OF tool_logged [OF assms]])

theorem every_decision_recorded_witness:
  "adds ''r1'' [fst (projr (snd (runtime_evaluate_task demo_world demo_config ''r1'' ''chat'' ''hi'' None None None None
       (demo_runtime empty_db))))] (demo_runtime empty_db)
     (fst (runtime_evaluate_task demo_world demo_config ''r1'' ''chat'' ''hi'' None None None None (demo_runtime empty_db)))"
proof -
  let ?res = "runtime_evaluate_task demo_world demo_config ''r1'' ''chat'' ''hi'' None None None None (demo_runtime empty_db)"
  have "isl (snd ?res) = False" by code_simp
  then obtain dt where "snd ?res = Inr dt" by (cases "snd ?res") simp_all
  then show ?thesis
    using every_decision_recorded [OF demo_legal, where run_id = "''r1''" and ty = "''chat''" and inp = "''hi''"
        and ao = None and ch = None and tok = None and w = None and rt = "demo_runtime empty_db"] by simp
qed

section \<open>Overrides\<close>

text \<open>The workspaces a runtime remembers are stripped and not blank.\<close>

definition workspaces_ok :: "runtime \<Rightarrow> bool" where
  "workspaces_ok rt \<longleftrightarrow> (\<forall>r w. rt_run_workspaces rt r = Some w \<longrightarrow> py_strip w = w)"

lemma workspace_again:
  assumes "workspaces_ok rt" "workspace_for_run cfg (Some run_id) w rt = (rt1, e)"
  shows "snd (workspace_for_run cfg (Some run_id) (Some e) (gap W i (expire_in W j rt1))) = e" "py_strip e = e"
proof -
  show e: "py_strip e = e"
    using assms by (auto simp: workspace_for_run_def workspaces_ok_def Let_def split: if_splits option.splits)
  show "snd (workspace_for_run cfg (Some run_id) (Some e) (gap W i (expire_in W j rt1))) = e"
    using assms e by (auto simp: workspace_for_run_def gap_def expire_in_def Let_def split: if_splits option.splits)
qed

lemma claim_resume_ticket:
  "claim_resume H now env a w j tok ch db = (db', Some t, x) \<Longrightarrow> t_approval_id t = a"
  by (auto simp: claim_resume_def Let_def split: option.splits if_splits prod.splits dest: get_found)

lemma prepare_ticket:
  "prepare_resume_approval W cfg a r t k ch w rt = (rt', Inr (Some tk, x)) \<Longrightarrow> t_approval_id tk = a"
  by (auto simp: prepare_resume_approval_def Let_def split: option.splits prod.splits dest: claim_resume_ticket)

text \<open>What a ticket that overrides was when it was read.\<close>

lemma check_override_Overridden:
  assumes "check_override W cfg ao r k ref ah ph ch tok w rt = (rt', Inr (Overridden tk))"
  defines "rt1 \<equiv> gap W 0 (expire_in W 0 rt)"
  obtains a tk0 where "ao = Some a" "t_approval_id tk = a"
    "get (w_hash W) (rt_db rt1) a (Some (snd (workspace_for_run cfg (Some r) w rt1))) = Some tk0"
    "override_usable r k ref ah ph ch tok tk0"
proof -
  obtain rt2 where c: "consume_override_ticket W cfg ao r k ref ah ph ch tok w rt = (rt2, Inr (Some tk))"
    using assms(1) by (auto simp: check_override_def override_error_code_def Let_def
        split: prod.splits sum.splits option.splits if_splits)
  then obtain a where a: "ao = Some a" "a \<noteq> []" by (cases ao) (auto simp: consume_override_ticket_def split: if_splits)
  obtain rt3 found where g: "get_approval W cfg a w (Some r) rt1 = (rt3, found)" by fastforce
  with c a obtain tk0 where tk0: "found = Some tk0"
    by (cases found) (auto simp: consume_override_ticket_def rt1_def)
  have usable: "override_usable r k ref ah ph ch tok tk0"
    using c a g tk0 by (auto simp: consume_override_ticket_def rt1_def split: if_splits)
  have get: "get (w_hash W) (rt_db rt1) a (Some (snd (workspace_for_run cfg (Some r) w rt1))) = Some tk0"
    using g tk0 settled_workspace by (fastforce simp: get_approval_def Let_def split: prod.splits if_splits)
  have "t_approval_id tk = a"
    using c a g tk0 usable get_found [OF get]
    by (auto simp: consume_override_ticket_def rt1_def [symmetric] Let_def split: if_splits option.splits
        prod.splits sum.splits dest: prepare_ticket)
  with a get usable show ?thesis using that by blast
qed

text \<open>The row behind an override, in a store whose invariant holds.\<close>

lemma override_row:
  assumes "db_inv (rt_db rt)" "legal_world W"
    and "check_override W cfg ao r k ref ah ph ch tok w rt = (rt', Inr (Overridden tk))"
  defines "db1 \<equiv> w_env W 0 (expire_pending (w_clk W 0) (rt_db rt))"
  obtains a row where "ao = Some a" "t_approval_id tk = a" "row_of a db1 = Some row"
    "r_workspace_id row = snd (workspace_for_run cfg (Some r) w (gap W 0 (expire_in W 0 rt)))"
    "r_status row = Executed" "decided row" "unconsumed row" "r_target_kind row = k" "r_target_ref row = ref"
    "r_action_hash row = ah" "r_policy_hash row = ph"
    "opt_truthy (row_contract_hash (w_hash W) row) \<longrightarrow> ch = row_contract_hash (w_hash W) row"
    "text_or_none (r_resume_claimed_job_id row) \<in> {None, Some r}"
proof -
  have db1: "rt_db (gap W 0 (expire_in W 0 rt)) = db1" by (simp add: gap_def expire_in_def db1_def)
  have legal: "legal_env (w_env W)" using assms(2) by (simp add: legal_world_def)
  have inv: "db_inv db1" unfolding db1_def by (intro db_inv_env [OF legal] db_inv_expire assms(1))
  obtain a tk0 where ov: "ao = Some a" "t_approval_id tk = a"
    "get (w_hash W) db1 a (Some (snd (workspace_for_run cfg (Some r) w (gap W 0 (expire_in W 0 rt))))) = Some tk0"
    "override_usable r k ref ah ph ch tok tk0"
    using check_override_Overridden [OF assms(3)] unfolding db1 by metis
  then obtain row where row: "row_of a db1 = Some row" "tk0 = row_to_ticket (w_hash W) row"
    "r_workspace_id row = snd (workspace_for_run cfg (Some r) w (gap W 0 (expire_in W 0 rt)))"
    by (auto simp: get_Some [OF inv])
  have st: "r_status row = Executed" using ov(4) row(2) by (simp add: override_usable_def split: if_splits)
  have "decided row" "unconsumed row" using row_inv_of [OF inv row(1)] st by (simp_all add: row_inv_def)
  moreover have "r_target_kind row = k" "r_target_ref row = ref" "r_action_hash row = ah" "r_policy_hash row = ph"
    "text_or_none (r_resume_claimed_job_id row) \<in> {None, Some r}"
    using ov(4) by (simp_all add: row(2) override_usable_def split: if_splits)
  moreover have "opt_truthy (row_contract_hash (w_hash W) row) \<longrightarrow> ch = row_contract_hash (w_hash W) row"
    using ov(4) by (auto simp: row(2) override_usable_def ticket_contract_hash split: if_splits)
  ultimately show ?thesis using that [OF ov(1,2) row(1,3) st] by blast
qed

lemma policy_codes:
  "pm_reason_code (evaluate_task policy ty) \<noteq> ''APPROVAL_OVERRIDE''"
  "pm_reason_code (evaluate_handoff policy f t) \<noteq> ''APPROVAL_OVERRIDE''"
  "pm_reason_code (evaluate_memory_scope_write policy s p v) \<noteq> ''APPROVAL_OVERRIDE''"
proof -
  have r: "reason_for_action a \<noteq> ''APPROVAL_OVERRIDE''" for a by (cases a) simp_all
  have sc: "d \<noteq> ''APPROVAL_OVERRIDE'' \<Longrightarrow> scoped_reason d a \<noteq> ''APPROVAL_OVERRIDE''" for d a
    by (cases a) (simp_all add: scoped_reason_def)
  show "pm_reason_code (evaluate_task policy ty) \<noteq> ''APPROVAL_OVERRIDE''"
    using task.decided_by [of policy ty] r by (auto simp: task_verdict_def default_allow_def)
  show "pm_reason_code (evaluate_handoff policy f t) \<noteq> ''APPROVAL_OVERRIDE''"
    using handoff.decided_by [of policy f t]
    by (auto simp: handoff_verdict_def default_deny_handoff_def sc)
  show "pm_reason_code (evaluate_memory_scope_write policy s p v) \<noteq> ''APPROVAL_OVERRIDE''"
    using memory.decided_by [of policy s p v]
    by (auto simp: memory_verdict_def default_deny_memory_def sc)
qed

lemma refusal_codes:
  "override_error_of r k ref ah ph ch tok found = Some c \<Longrightarrow>
     c \<in> {''APPROVAL_NOT_FOUND'', ''REPLAY_BLOCKED'', ''APPROVAL_CONFLICT'', ''STALE_APPROVAL_SNAPSHOT'',
          ''STALE_POLICY_INPUT'', ''RESUME_DUPLICATE_SUPPRESSED'', ''STALE_RESUME_TOKEN''}"
  by (auto simp: override_error_of_def split: option.splits if_splits)

lemma check_override_Refused:
  "check_override W cfg ao r k ref ah ph ch tok w rt = (rt', Inr (Refused c)) \<Longrightarrow> c \<noteq> ''APPROVAL_OVERRIDE''"
  by (auto simp: check_override_def override_error_code_def Let_def
      split: prod.splits sum.splits option.splits if_splits dest!: refusal_codes)

lemma pend_reason: "pend W run_id q d rt = (rt', Inr (d', tk)) \<Longrightarrow> gd_reason_code d' = gd_reason_code d"
  by (auto simp: pend_def Let_def split: prod.splits sum.splits)

lemmas decision_defs = override_decision_def override_denial_def match_decision_def bundle_decision_def
  default_allow_decision_def unavailable_decision_def

text \<open>
  C17: An override lets through exactly what was approved: a task allowed as an approval override names
  a ticket that somebody approved, that was executed and not consumed, in the workspace of the run, for
  this task type and under the policy in force, with the contract digest the caller presents if the
  ticket has one; and if that ticket was opened for some task, input and policy, these are the present
  ones, unless the digest collides.
\<close>

theorem override_sound:
  assumes "db_inv (rt_db rt)" "legal_world W" "workspaces_ok rt" "gc_enabled cfg" "rt_policy_bundle rt = Some b"
    and "runtime_evaluate_task W cfg run_id ty inp ao ch tok w rt = (rt', Inr (d, tk))"
    and "gd_reason_code d = ''APPROVAL_OVERRIDE''"
  shows "\<exists>a r. ao = Some a \<and> gd_approval_id d = Some a \<and>
    row_of a (w_env W 0 (expire_pending (w_clk W 0) (rt_db rt))) = Some r \<and>
    r_workspace_id r = snd (workspace_for_run cfg (Some run_id) w rt) \<and>
    r_status r = Executed \<and> decided r \<and> unconsumed r \<and> r_target_kind r = ''task'' \<and> r_target_ref r = ty \<and>
    r_policy_hash r = pb_policy_hash b \<and>
    (opt_truthy (row_contract_hash (w_hash W) r) \<longrightarrow> ch = row_contract_hash (w_hash W) r) \<and>
    (\<forall>ty' inp' ph'. r_action_hash r = payload_hash (w_hash W) (PDict (task_payload ty' inp' ph')) \<and>
       collision_free (w_hash W) (PDict (task_payload ty' inp' ph')) (PDict (task_payload ty inp (pb_policy_hash b)))
       \<longrightarrow> ty' = ty \<and> inp' = inp \<and> ph' = pb_policy_hash b)"
proof -
  obtain rt0 e where ws: "workspace_for_run cfg (Some run_id) w rt = (rt0, e)" by fastforce
  have rt0: "rt_db rt0 = rt_db rt" "rt_policy_bundle rt0 = Some b"
    using settled_workspace [OF ws] assms(5) by (auto simp: settled_def)
  let ?ah = "task_action_hash (w_hash W) rt0 ty inp"
  obtain rt1 outc where c: "check_override W cfg ao run_id ''task'' ty ?ah (pb_policy_hash b) ch tok (Some e) rt0 = (rt1, outc)"
    by fastforce
  note ev = assms(6) [unfolded runtime_evaluate_task_def ws Let_def prod.case rt0(2) option.case c]
  have "\<exists>t. outc = Inr (Overridden t) \<and> d = override_decision cfg b TaskPhase ty t"
    using ev assms(4,7) check_override_Refused [of W cfg ao run_id "''task''" ty ?ah "pb_policy_hash b" ch tok "Some e" rt0 rt1]
      policy_codes(1) c
    by (auto simp: decision_defs split: sum.splits override_outcome.splits if_splits prod.splits dest: pend_reason)
  then obtain t where outc: "outc = Inr (Overridden t)" "gd_approval_id d = Some (t_approval_id t)"
    by (auto simp: decision_defs)
  note ov = override_row [of rt0 W cfg ao run_id "''task''" ty ?ah "pb_policy_hash b" ch tok "Some e" rt1 t]
  obtain a r where r: "ao = Some a" "t_approval_id t = a"
    "row_of a (w_env W 0 (expire_pending (w_clk W 0) (rt_db rt))) = Some r"
    "r_workspace_id r = e" "r_status r = Executed" "decided r" "unconsumed r" "r_target_kind r = ''task''"
    "r_target_ref r = ty" "r_action_hash r = ?ah" "r_policy_hash r = pb_policy_hash b"
    "opt_truthy (row_contract_hash (w_hash W) r) \<longrightarrow> ch = row_contract_hash (w_hash W) r"
    by (rule ov [unfolded rt0 workspace_again(1) [OF assms(3) ws] c outc, OF assms(1,2) refl]) (rule that)
  have "ty' = ty \<and> inp' = inp \<and> ph' = pb_policy_hash b"
    if "r_action_hash r = payload_hash (w_hash W) (PDict (task_payload ty' inp' ph'))"
      "collision_free (w_hash W) (PDict (task_payload ty' inp' ph')) (PDict (task_payload ty inp (pb_policy_hash b)))"
    for ty' inp' ph'
  proof -
    have eq: "payload_hash (w_hash W) (PDict (task_payload ty' inp' ph')) =
        payload_hash (w_hash W) (PDict (task_payload ty inp (pb_policy_hash b)))"
      using that(1) r(10) rt0(2) by (simp add: task_action_hash_def policy_hash_of_def)
    note s = payload_hash_strings [OF eq that(2)]
    show ?thesis
      using s [of "''task_type''" ty' ty] s [of "''user_input''" inp' inp] s [of "''policy_hash''" ph' "pb_policy_hash b"]
      by (simp add: task_payload_def wf_dict_def)
  qed
  then show ?thesis using r outc(2) ws by (intro exI [of _ a] exI [of _ r]) simp
qed

text \<open>A concrete override: the approval of ''run'', executed, overrides the same tool question again.\<close>

definition demo_task_row :: approval_row where
  "demo_task_row = demo_executed\<lparr>r_target_kind := ''task'', r_target_ref := ''research'', r_action_hash := ''h''\<rparr>"

lemma demo_task_row_inv: "db_inv (demo_db demo_task_row)"
  by (simp add: db_inv_def demo_task_row_def demo_defs row_simps shape_defs keys_distinct_def)

theorem override_sound_witness:
  "\<exists>r. row_of ''a1'' (demo_db demo_task_row) = Some r \<and> r_status r = Executed \<and> decided r"
proof -
  let ?res = "runtime_evaluate_task demo_world demo_config ''r1'' ''research'' ''hi'' (Some ''a1'') None None None
     (demo_runtime (demo_db demo_task_row))"
  have reason: "map_sum id (\<lambda>dt. gd_reason_code (fst dt)) (snd ?res) = Inr ''APPROVAL_OVERRIDE''" by code_simp
  obtain rt' x where p: "?res = (rt', x)" by fastforce
  with reason obtain d tk where res: "?res = (rt', Inr (d, tk))" "gd_reason_code d = ''APPROVAL_OVERRIDE''"
    by (cases x) auto
  have inv: "db_inv (rt_db (demo_runtime (demo_db demo_task_row)))" by (simp add: demo_runtime_def demo_task_row_inv)
  have ok: "workspaces_ok (demo_runtime (demo_db demo_task_row))" by (simp add: demo_runtime_def workspaces_ok_def)
  have quiet: "w_env demo_world 0 (expire_pending (w_clk demo_world 0) (rt_db (demo_runtime (demo_db demo_task_row)))) =
      demo_db demo_task_row" by code_simp
  have pol: "rt_policy_bundle (demo_runtime (demo_db demo_task_row)) =
      Some \<lparr>pb_path = ''p'', pb_policy = demo_policy, pb_policy_hash = ''ph''\<rparr>" by (simp add: demo_runtime_def)
  have "Some ''a1'' = Some a \<Longrightarrow> a = ''a1''" for a by simp
  then show ?thesis using override_sound [OF inv demo_legal(1) ok demo_legal(2) pol res] unfolding quiet by blast
qed

section \<open>Failing closed\<close>

text \<open>
  Without a policy nothing is allowed: while the policy could not be loaded every question of an
  enabled runtime is answered with a denial for that reason, whatever the configured failure mode is
  and whatever override is presented, and the store is not touched.
\<close>

theorem policy_unavailable_denies:
  assumes "gc_enabled cfg" "rt_policy_bundle rt = None"
  shows "\<forall>res \<in> {runtime_evaluate_task W cfg run_id ty inp ao ch tok w rt,
       runtime_evaluate_handoff W cfg run_id f t payload ao ch tok rt,
       runtime_evaluate_memory_write W cfg run_id sc pr vi ao mt esv ch tok rt,
       runtime_request_manual_task_approval W cfg run_id ty inp code explain rt,
       runtime_request_device_action_approval W cfg run_id ref payload code explain rt}.
     \<exists>d. snd res = Inr (d, None) \<and> gd_action d = Deny \<and> gd_reason_code d = ''POLICY_UNAVAILABLE'' \<and>
       rt_db (fst res) = rt_db rt"
proof -
  obtain rt0 e where ws: "workspace_for_run cfg (Some run_id) w rt = (rt0, e)" by fastforce
  have rt0: "rt_db rt0 = rt_db rt" "rt_policy_bundle rt0 = None"
    using settled_workspace [OF ws] assms(2) by (auto simp: settled_def)
  show ?thesis using assms rt0 ws
    by (simp add: runtime_evaluate_task_def runtime_evaluate_handoff_def runtime_evaluate_memory_write_def
        runtime_request_manual_task_approval_def runtime_request_device_action_approval_def Let_def
        unavailable_decision_def record_decision_def on_run_def)
qed

theorem policy_unavailable_denies_witness:
  "gc_policy_fail_mode demo_config = ''fail_open'' \<and>
   (\<exists>d. snd (runtime_evaluate_handoff demo_world demo_config ''r1'' ''a'' ''b'' [] None None None
      ((demo_runtime empty_db)\<lparr>rt_policy_bundle := None\<rparr>)) = Inr (d, None) \<and> gd_action d = Deny)"
proof -
  have "rt_policy_bundle ((demo_runtime empty_db)\<lparr>rt_policy_bundle := None\<rparr>) = None" by simp
  note denies = policy_unavailable_denies [OF demo_legal(2) this, THEN bspec, OF insertI2, OF insertI1]
  have "\<exists>d. snd (runtime_evaluate_handoff demo_world demo_config ''r1'' ''a'' ''b'' [] None None None
      ((demo_runtime empty_db)\<lparr>rt_policy_bundle := None\<rparr>)) = Inr (d, None) \<and> gd_action d = Deny \<and>
      gd_reason_code d = ''POLICY_UNAVAILABLE'' \<and>
      rt_db (fst (runtime_evaluate_handoff demo_world demo_config ''r1'' ''a'' ''b'' [] None None None
        ((demo_runtime empty_db)\<lparr>rt_policy_bundle := None\<rparr>))) = rt_db ((demo_runtime empty_db)\<lparr>rt_policy_bundle := None\<rparr>)"
    by (rule denies)
  moreover have "gc_policy_fail_mode demo_config = ''fail_open''" by (simp add: demo_config_def)
  ultimately show ?thesis by blast
qed

section \<open>Asking for approval\<close>

lemma open_ticket_row:
  assumes "db_inv (rt_db rt)" "legal_world W" "open_ticket W q rt = (rt', Inr tk)"
  obtains r where "row_of (t_approval_id tk) (rt_db rt') = Some r" "r_workspace_id r = t_workspace_id tk"
    "r_idempotency_key r = q_idempotency_key q"
proof -
  obtain db where c: "create_ticket (w_hash W) (w_clk W 3) (w_uuid W) q (w_env W 6 (rt_db rt)) = (db, Inr tk)" "rt_db rt' = db"
    using assms(3) by (auto simp: open_ticket_def Let_def split: prod.splits sum.splits)
  have legal: "legal_env (w_env W)" using assms(2) by (simp add: legal_world_def)
  show ?thesis by (rule created_row [OF db_inv_env [OF legal assms(1)] c(1)]) (use that c(2) in blast)
qed

definition approval_status_of :: "string \<Rightarrow> runtime \<Rightarrow> string" where
  "approval_status_of run_id rt = (case rt_runs rt run_id of None \<Rightarrow> ''none'' | Some s \<Rightarrow> rs_approval_status s)"

lemma records_keep [simp]:
  "rt_db (on_run run_id f rt) = rt_db rt" "rt_db (record_decision run_id d rt) = rt_db rt"
  "rt_db (record_handoff run_id hc rt) = rt_db rt" "rt_db (record_memory_write run_id mc rt) = rt_db rt"
  "rt_db (record_device_action run_id dc rt) = rt_db rt" "rt_db (record_tool_call run_id c rt) = rt_db rt"
  "rt_db (set_approval_status run_id v rt) = rt_db rt"
  by (simp_all add: on_run_def record_decision_def record_handoff_def record_memory_write_def
      record_device_action_def record_tool_call_def set_approval_status_def)

lemma status_kept [simp]:
  "approval_status_of run_id (record_decision run_id d rt) = approval_status_of run_id rt"
  "approval_status_of run_id (record_handoff run_id hc rt) = approval_status_of run_id rt"
  "approval_status_of run_id (record_memory_write run_id mc rt) = approval_status_of run_id rt"
  "approval_status_of run_id (record_tool_call run_id c rt) = approval_status_of run_id rt"
  "approval_status_of run_id (record_device_action run_id dc rt) = approval_status_of run_id rt"
  "approval_status_of run_id (set_approval_status run_id v rt) = v"
  by (simp_all add: approval_status_of_def on_run_def record_decision_def record_handoff_def
      record_memory_write_def record_tool_call_def record_device_action_def set_approval_status_def
      new_run_state_def split: option.splits)

text \<open>
  \<open>awaits run rt' (d, tk)\<close>: the decision requires approval exactly when there is a ticket; it then
  names the ticket, whose row is in the store, and the run is pending.
\<close>

definition awaits :: "string \<Rightarrow> runtime \<Rightarrow> governance_decision \<times> approval_ticket option \<Rightarrow> bool" where
  "awaits run_id rt' dt \<longleftrightarrow> (gd_action (fst dt) = RequireApproval \<longleftrightarrow> snd dt \<noteq> None) \<and>
     (\<forall>t. snd dt = Some t \<longrightarrow> gd_approval_id (fst dt) = Some (t_approval_id t) \<and>
        (\<exists>r. row_of (t_approval_id t) (rt_db rt') = Some r \<and> r_workspace_id r = t_workspace_id t) \<and>
        approval_status_of run_id rt' = ''pending'')"

lemma awaits_pend:
  assumes "db_inv (rt_db rt)" "legal_world W" "pend W run_id q d rt = (rt', Inr (d', tk))" "gd_action d = RequireApproval"
  shows "awaits run_id rt' (d', tk) \<and> tk \<noteq> None"
proof -
  obtain rt1 t where o: "open_ticket W q rt = (rt1, Inr t)" "tk = Some t"
      "d' = d\<lparr>gd_approval_id := Some (t_approval_id t)\<rparr>" "rt' = set_approval_status run_id ''pending'' rt1"
    using assms(3) by (auto simp: pend_def Let_def split: prod.splits sum.splits)
  obtain r where "row_of (t_approval_id t) (rt_db rt1) = Some r" "r_workspace_id r = t_workspace_id t"
    by (rule open_ticket_row [OF assms(1,2) o(1)])
  with o(2-4) assms(4) show ?thesis by (simp add: awaits_def)
qed

lemma awaits_record [simp]:
  "awaits run_id (record_decision run_id d rt) dt = awaits run_id rt dt"
  "awaits run_id (record_handoff run_id hc rt) dt = awaits run_id rt dt"
  "awaits run_id (record_memory_write run_id mc rt) dt = awaits run_id rt dt"
  by (simp_all add: awaits_def)

lemma awaits_none [simp]: "awaits run_id rt (d, None) \<longleftrightarrow> gd_action d \<noteq> RequireApproval"
  by (simp add: awaits_def)

lemma settled_inv: "settled rt rt' \<Longrightarrow> db_inv (rt_db rt) \<Longrightarrow> db_inv (rt_db rt')"
  by (auto simp: settled_def intro: db_inv_run)

text \<open>
  Approval is never required without a ticket to approve: a task, handoff or memory evaluation
  answers that approval is required exactly when it also returns a ticket; the decision carries the
  ticket's id, the store holds its row, and the run is marked pending.
\<close>

theorem approval_has_ticket:
  assumes "db_inv (rt_db rt)" "legal_world W"
  shows "\<forall>res \<in> {runtime_evaluate_task W cfg run_id ty inp ao ch tok w rt,
       runtime_evaluate_handoff W cfg run_id f t payload ao ch tok rt,
       runtime_evaluate_memory_write W cfg run_id sc pr vi ao mt esv ch tok rt}.
     \<forall>dt. snd res = Inr dt \<longrightarrow> awaits run_id (fst res) dt"
proof -
  have inv_ws: "db_inv (rt_db rt1)" if "workspace_for_run cfg r v rt0 = (rt1, e)" "db_inv (rt_db rt0)" for r v rt0 rt1 e
    using settled_workspace [OF that(1)] that(2) by simp
  have inv_chk: "db_inv (rt_db rt1)"
    if "check_override W cfg ao r k ref ah ph ch tok v rt0 = (rt1, x)" "db_inv (rt_db rt0)" for r k ref ah ph v rt0 rt1 x
    using settled_inv [OF settled_check [OF assms(2) that(1)] that(2)] .
  have aw: "awaits run_id rt' (d', tk)" if "pend W run_id q d rt0 = (rt', Inr (d', tk))" "db_inv (rt_db rt0)"
      "gd_action d = RequireApproval" for q d rt0 rt' d' tk
    using awaits_pend [OF that(2) assms(2) that(1,3)] by simp
  obtain rt0 e where ws: "workspace_for_run cfg (Some run_id) w rt = (rt0, e)" by fastforce
  note chk = inv_chk [OF _ inv_ws [OF ws assms(1)]] and both = inv_ws [OF _ inv_chk [OF _ assms(1)]]
  have "\<forall>dt. snd res = Inr dt \<longrightarrow> awaits run_id (fst res) dt"
    if "res = runtime_evaluate_task W cfg run_id ty inp ao ch tok w rt" for res
    unfolding that
    by (auto simp: runtime_evaluate_task_def ws Let_def decision_defs
        split: option.splits sum.splits prod.splits override_outcome.splits if_splits
        intro!: aw intro: chk)
  moreover have "\<forall>dt. snd res = Inr dt \<longrightarrow> awaits run_id (fst res) dt"
    if "res = runtime_evaluate_handoff W cfg run_id f t payload ao ch tok rt" for res
    unfolding that
    by (auto simp: runtime_evaluate_handoff_def Let_def decision_defs
        split: option.splits sum.splits prod.splits override_outcome.splits if_splits
        intro!: aw intro: both)
  moreover have "\<forall>dt. snd res = Inr dt \<longrightarrow> awaits run_id (fst res) dt"
    if "res = runtime_evaluate_memory_write W cfg run_id sc pr vi ao mt esv ch tok rt" for res
    unfolding that
    by (auto simp: runtime_evaluate_memory_write_def Let_def decision_defs
        split: option.splits sum.splits prod.splits override_outcome.splits if_splits
        intro!: aw intro: both)
  ultimately show ?thesis by simp
qed

theorem approval_has_ticket_witness:
  "awaits ''r1'' (fst (runtime_evaluate_task demo_world demo_config ''r1'' ''research'' ''hi'' None None None None
      (demo_runtime empty_db)))
    (projr (snd (runtime_evaluate_task demo_world demo_config ''r1'' ''research'' ''hi'' None None None None
      (demo_runtime empty_db))))"
proof -
  let ?res = "runtime_evaluate_task demo_world demo_config ''r1'' ''research'' ''hi'' None None None None (demo_runtime empty_db)"
  have inv: "db_inv (rt_db (demo_runtime empty_db))" by (simp add: demo_runtime_def db_inv_empty)
  have "isl (snd ?res) = False" by code_simp
  then obtain dt where dt: "snd ?res = Inr dt" by (cases "snd ?res") simp_all
  have "\<forall>dt. snd ?res = Inr dt \<longrightarrow> awaits ''r1'' (fst ?res) dt"
    by (rule approval_has_ticket [OF inv demo_legal(1), THEN bspec, OF insertI1])
  with dt show ?thesis by simp
qed

section \<open>Replays\<close>

lemma get_approval_explicit:
  assumes "py_strip e = e" "e \<noteq> []"
  shows "\<exists>ws. get_approval W cfg a (Some e) (Some run_id) rt =
    (rt\<lparr>rt_run_workspaces := ws\<rparr>, get (w_hash W) (rt_db rt) a (Some e))"
  using assms by (cases rt) (auto simp: get_approval_def workspace_for_run_def Let_def)

lemma spent_check:
  assumes "py_strip e = e" "e \<noteq> []" "a \<noteq> []" "\<forall>i db. w_env W i db = db"
    and "get (w_hash W) (expire_pending (w_clk W 0) (rt_db rt)) a (Some e) = Some tk"
    and "\<not> override_usable run_id k ref ah ph ch tok tk"
    and "override_error_of run_id k ref ah ph ch tok (Some tk) = Some code"
  shows "\<exists>ws. check_override W cfg (Some a) run_id k ref ah ph ch tok (Some e) rt =
    (rt\<lparr>rt_db := expire_pending (w_clk W 0) (rt_db rt), rt_run_workspaces := ws\<rparr>, Inr (Refused code))"
proof -
  let ?rt1 = "gap W 0 (expire_in W 0 rt)"
  have db1: "rt_db ?rt1 = expire_pending (w_clk W 0) (rt_db rt)" using assms(4) by (simp add: gap_def expire_in_def)
  obtain ws where g: "get_approval W cfg a (Some e) (Some run_id) ?rt1 = (?rt1\<lparr>rt_run_workspaces := ws\<rparr>, Some tk)"
    using get_approval_explicit [OF assms(1,2), of W cfg a run_id ?rt1] assms(5) db1 by auto
  have c: "consume_override_ticket W cfg (Some a) run_id k ref ah ph ch tok (Some e) rt =
      (?rt1\<lparr>rt_run_workspaces := ws\<rparr>, Inr None)"
    using g assms(3,6) by (simp add: consume_override_ticket_def Let_def)
  let ?rt2 = "gap W 5 (?rt1\<lparr>rt_run_workspaces := ws\<rparr>)"
  have db2: "rt_db ?rt2 = expire_pending (w_clk W 0) (rt_db rt)" using assms(4) db1 by (simp add: gap_def)
  obtain ws' where g2: "get_approval W cfg a (Some e) (Some run_id) ?rt2 = (?rt2\<lparr>rt_run_workspaces := ws'\<rparr>, Some tk)"
    using get_approval_explicit [OF assms(1,2), of W cfg a run_id ?rt2] assms(5) db2 by auto
  show ?thesis using c g2 assms(3,4,7)
    by (intro exI [of _ ws']) (simp add: check_override_def override_error_code_def Let_def gap_def expire_in_def)
qed

text \<open>
  A consumed approval overrides nothing: presenting the id of a ticket that was consumed denies the
  task with REPLAY_BLOCKED, and presenting one that was executed for another action denies it as stale;
  in both cases nothing but expiry happens to the store.
\<close>

theorem spent_override_denied:
  assumes "db_inv (rt_db rt)" "workspaces_ok rt" "gc_enabled cfg" "rt_policy_bundle rt = Some b"
    and "row_of a (rt_db rt) = Some r" "a \<noteq> []" "py_strip (r_workspace_id r) \<noteq> []"
    and "r_workspace_id r = snd (workspace_for_run cfg (Some run_id) w rt)"
    and "r_status r = Consumed \<or> r_status r = Executed \<and> r_target_kind r = ''task'' \<and> r_target_ref r = ty \<and>
      r_action_hash r \<noteq> payload_hash (w_hash W) (PDict (task_payload ty inp (pb_policy_hash b)))"
    and "\<forall>i db. w_env W i db = db"
  shows "\<exists>d rt'. runtime_evaluate_task W cfg run_id ty inp (Some a) ch tok w rt = (rt', Inr (d, None)) \<and>
    gd_action d = Deny \<and>
    gd_reason_code d = (if r_status r = Consumed then ''REPLAY_BLOCKED'' else ''STALE_APPROVAL_SNAPSHOT'') \<and>
    rt_db rt' = expire_pending (w_clk W 0) (rt_db rt)"
proof -
  obtain rt0 e where ws: "workspace_for_run cfg (Some run_id) w rt = (rt0, e)" by fastforce
  have rt0: "rt_db rt0 = rt_db rt" "rt_policy_bundle rt0 = Some b"
    using settled_workspace [OF ws] assms(4) by (auto simp: settled_def)
  have e: "py_strip e = e" "e \<noteq> []" "r_workspace_id r = e"
    using workspace_again(2) [OF assms(2) ws] assms(7,8) ws by auto
  let ?db1 = "expire_pending (w_clk W 0) (rt_db rt)" and ?tk = "row_to_ticket (w_hash W) r"
  let ?ah = "task_action_hash (w_hash W) rt0 ty inp"
  have ah: "?ah = payload_hash (w_hash W) (PDict (task_payload ty inp (pb_policy_hash b)))"
    using rt0(2) by (simp add: task_action_hash_def policy_hash_of_def)
  have "row_of a ?db1 = Some r"
    using assms(5,9) by (auto simp: expire_pending_exec table_simps row_simps)
  then have read: "get (w_hash W) (expire_pending (w_clk W 0) (rt_db rt0)) a (Some e) = Some ?tk"
    using e assms(7) rt0(1) by (simp add: get_Some [OF db_inv_expire [OF assms(1)]])
  have row: "r_execution_status r = ExecExecuted" "r_status r = Executed \<Longrightarrow> unconsumed r"
    using row_inv_of [OF assms(1,5)] assms(9) by (auto simp: row_inv_def)
  define code where "code = (if r_status r = Consumed then ''REPLAY_BLOCKED'' else ''STALE_APPROVAL_SNAPSHOT'')"
  have no: "\<not> override_usable run_id ''task'' ty ?ah (pb_policy_hash b) ch tok ?tk"
    using assms(9) ah by (auto simp: override_usable_def)
  have err: "override_error_of run_id ''task'' ty ?ah (pb_policy_hash b) ch tok (Some ?tk) = Some code"
    using assms(9) ah row by (auto simp: override_error_of_def code_def unconsumed_def)
  from spent_check [OF e(1,2) assms(6,10) read no err, of cfg] obtain m where
    c: "check_override W cfg (Some a) run_id ''task'' ty ?ah (pb_policy_hash b) ch tok (Some e) rt0 =
      (rt0\<lparr>rt_db := expire_pending (w_clk W 0) (rt_db rt0), rt_run_workspaces := m\<rparr>, Inr (Refused code))" by blast
  show ?thesis using ws rt0 assms(3) c
    by (simp add: runtime_evaluate_task_def Let_def override_denial_def bundle_decision_def code_def)
qed

theorem spent_override_denied_witness:
  "\<exists>d rt'. runtime_evaluate_task demo_world demo_config ''r1'' ''research'' ''other'' (Some ''a1'') None None None
      (demo_runtime (demo_db (consume_effect 3 ''j1'' demo_task_row))) = (rt', Inr (d, None)) \<and> gd_action d = Deny"
proof -
  let ?row = "consume_effect 3 ''j1'' demo_task_row"
  let ?rt = "demo_runtime (demo_db ?row)"
  have inv: "db_inv (rt_db ?rt)"
    by (simp add: demo_runtime_def db_inv_def demo_task_row_def demo_defs row_simps shape_defs keys_distinct_def)
  have ok: "workspaces_ok ?rt" by (simp add: demo_runtime_def workspaces_ok_def)
  have pol: "rt_policy_bundle ?rt = Some \<lparr>pb_path = ''p'', pb_policy = demo_policy, pb_policy_hash = ''ph''\<rparr>"
    by (simp add: demo_runtime_def)
  have row: "row_of ''a1'' (rt_db ?rt) = Some ?row" "''a1'' \<noteq> []" "py_strip (r_workspace_id ?row) \<noteq> []"
    "r_workspace_id ?row = snd (workspace_for_run demo_config (Some ''r1'') None ?rt)" "r_status ?row = Consumed"
    by code_simp+
  have quiet: "\<forall>i db. w_env demo_world i db = db" by (simp add: demo_world_def)
  from spent_override_denied [OF inv ok demo_legal(2) pol row(1-4) disjI1 [OF row(5)] quiet] show ?thesis by blast
qed

text \<open>
  An override does not use the ticket up: an executed ticket without an execution contract
  overrides the same task for any run that presents it, and the row stays executed and unconsumed, so
  that it overrides again.
\<close>

theorem override_not_consumed:
  assumes "db_inv (rt_db rt)" "workspaces_ok rt" "gc_enabled cfg" "rt_policy_bundle rt = Some b"
    and "row_of a (rt_db rt) = Some r" "a \<noteq> []" "py_strip (r_workspace_id r) \<noteq> []"
    and "r_workspace_id r = snd (workspace_for_run cfg (Some run_id) w rt)"
    and "r_status r = Executed" "r_target_kind r = ''task''" "r_target_ref r = ty" "r_policy_hash r = pb_policy_hash b"
    and "r_action_hash r = payload_hash (w_hash W) (PDict (task_payload ty inp (pb_policy_hash b)))"
    and "\<not> opt_truthy (row_contract_hash (w_hash W) r)" "r_resume_claimed_job_id r = None"
    and "\<forall>i db. w_env W i db = db"
  shows "\<exists>rt' d. runtime_evaluate_task W cfg run_id ty inp (Some a) None None w rt = (rt', Inr (d, None)) \<and>
    gd_action d = Allow \<and> row_of a (rt_db rt') = Some r"
proof -
  obtain rt0 e where ws: "workspace_for_run cfg (Some run_id) w rt = (rt0, e)" by fastforce
  have rt0: "rt_db rt0 = rt_db rt" "rt_policy_bundle rt0 = Some b"
    using settled_workspace [OF ws] assms(4) by (auto simp: settled_def)
  have e: "py_strip e = e" "e \<noteq> []" "r_workspace_id r = e"
    using workspace_again(2) [OF assms(2) ws] assms(7,8) ws by auto
  let ?rt1 = "gap W 0 (expire_in W 0 rt0)" and ?tk = "row_to_ticket (w_hash W) r"
  let ?ah = "task_action_hash (w_hash W) rt0 ty inp"
  have ah: "?ah = r_action_hash r"
    using rt0(2) assms(13) by (simp add: task_action_hash_def policy_hash_of_def)
  have row: "row_of a (rt_db ?rt1) = Some r"
    using assms(5,9,16) rt0(1) by (auto simp: gap_def expire_in_def expire_pending_exec table_simps row_simps)
  have inv: "db_inv (rt_db ?rt1)"
    using assms(1,16) rt0(1) by (simp add: gap_def expire_in_def db_inv_expire)
  have "get (w_hash W) (rt_db ?rt1) a (Some e) = Some ?tk"
    using row e assms(7) by (simp add: get_Some [OF inv])
  then obtain m where g: "get_approval W cfg a (Some e) (Some run_id) ?rt1 = (?rt1\<lparr>rt_run_workspaces := m\<rparr>, Some ?tk)"
    using get_approval_explicit [OF e(1,2), of W cfg a run_id ?rt1] by auto
  have shape: "r_execution_status r = ExecExecuted" "unconsumed r"
    using row_inv_of [OF assms(1,5)] assms(9) by (auto simp: row_inv_def)
  have "override_usable run_id ''task'' ty ?ah (pb_policy_hash b) None None ?tk"
    using assms(9-12,14,15) ah shape by (simp add: override_usable_def ticket_contract_hash unconsumed_def)
  then have "consume_override_ticket W cfg (Some a) run_id ''task'' ty ?ah (pb_policy_hash b) None None (Some e) rt0 =
      (?rt1\<lparr>rt_run_workspaces := m\<rparr>, Inr (Some ?tk))"
    using g assms(6) by (simp add: consume_override_ticket_def Let_def)
  then show ?thesis using ws rt0 assms(3) row
    by (simp add: runtime_evaluate_task_def check_override_def Let_def override_decision_def bundle_decision_def)
qed

theorem override_not_consumed_witness:
  "\<exists>rt' d. runtime_evaluate_task demo_world demo_config ''r2'' ''research'' ''hi'' (Some ''a1'') None None None
      (demo_runtime (demo_db demo_task_row)) = (rt', Inr (d, None)) \<and> gd_action d = Allow \<and>
      row_of ''a1'' (rt_db rt') = Some demo_task_row"
proof -
  let ?rt = "demo_runtime (demo_db demo_task_row)"
  have inv: "db_inv (rt_db ?rt)" by (simp add: demo_runtime_def demo_task_row_inv)
  have ok: "workspaces_ok ?rt" by (simp add: demo_runtime_def workspaces_ok_def)
  have pol: "rt_policy_bundle ?rt = Some \<lparr>pb_path = ''p'', pb_policy = demo_policy, pb_policy_hash = ''ph''\<rparr>"
    by (simp add: demo_runtime_def)
  have row: "row_of ''a1'' (rt_db ?rt) = Some demo_task_row" "''a1'' \<noteq> []" "py_strip (r_workspace_id demo_task_row) \<noteq> []"
    "r_workspace_id demo_task_row = snd (workspace_for_run demo_config (Some ''r2'') None ?rt)"
    "r_status demo_task_row = Executed" "r_target_kind demo_task_row = ''task''"
    "r_target_ref demo_task_row = ''research''"
    "r_policy_hash demo_task_row = pb_policy_hash \<lparr>pb_path = ''p'', pb_policy = demo_policy, pb_policy_hash = ''ph''\<rparr>"
    "r_action_hash demo_task_row = payload_hash (w_hash demo_world) (PDict (task_payload ''research'' ''hi''
       (pb_policy_hash \<lparr>pb_path = ''p'', pb_policy = demo_policy, pb_policy_hash = ''ph''\<rparr>)))"
    "\<not> opt_truthy (row_contract_hash (w_hash demo_world) demo_task_row)" "r_resume_claimed_job_id demo_task_row = None"
    by code_simp+
  have quiet: "\<forall>i db. w_env demo_world i db = db" by (simp add: demo_world_def)
  from override_not_consumed [OF inv ok demo_legal(2) pol row quiet] show ?thesis .
qed

section \<open>Device actions\<close>

text \<open>
  The snapshot of a device action is at the mercy of its payload: under every key the payload
  defines the snapshot shows the payload's value, the digest of the action, the policy digest and the
  target included; only the other keys are the runtime's.
\<close>

lemma dict_merge_get:
  "wf_dict e \<Longrightarrow> dict_get_default (dict_merge d e) k v =
     (case map_of e k of Some x \<Rightarrow> x | None \<Rightarrow> dict_get_default d k v)"
proof (induction e arbitrary: d)
  case (Cons kv e)
  then have "wf_dict e" "map_of e (fst kv) = None"
    by (auto simp: wf_dict_def map_of_eq_None_iff)
  then show ?case using Cons.IH [of "dict_set d (fst kv) (snd kv)"]
    by (auto simp: dict_merge_def split: option.split)
qed (simp add: dict_merge_def)

theorem device_snapshot_shadowed:
  assumes "wf_dict payload"
  shows "dict_get_default (device_snapshot ref ah ph payload) k PNone =
    (case map_of payload k of
       Some v \<Rightarrow> v
     | None \<Rightarrow> if k = ''action_hash'' then PStr ah else if k = ''policy_hash'' then PStr ph
               else if k = ''target_ref'' then PStr ref
               else if k = ''kind'' \<or> k = ''target_kind'' then PStr ''device_action'' else PNone)"
  unfolding device_snapshot_def dict_merge_get [OF assms]
  by (auto simp: dict_get_default_def split: option.split)

theorem device_snapshot_shadowed_witness:
  "dict_get_default (device_snapshot ''app'' ''real'' ''ph'' [(''action_hash'', PStr ''forged'')]) ''action_hash'' PNone =
     PStr ''forged''"
proof -
  have "wf_dict [(''action_hash'', PStr ''forged'')]" by (simp add: wf_dict_def)
  from device_snapshot_shadowed [OF this, of "''app''" "''real''" "''ph''" "''action_hash''"] show ?thesis by simp
qed

end
