(* ===== verification/Team_Models.thy ===== *)
theory Team_Models imports Prelude begin

text \<open>
  The data of \<open>imperaos/team/models.py\<close> that the scheduler and the validation of a team use.  A
  memory scope is its literal; the bounds of the numeric fields (\<open>ge=1\<close>, \<open>ge=0\<close>) are hypotheses where
  a property needs them.
\<close>

type_synonym time_stamp = int

datatype job_status = JobPending | JobRunning | JobCompleted | JobFailed | JobBlocked

datatype task_status = TaskPending | TaskRunning | TaskCompleted | TaskFailed | TaskBlocked | TaskEscalated

datatype approval_mode = Auto | Always | Never

record agent_definition =
  ag_agent_id :: string
  ag_role :: string
  ag_allowed_task_types :: "string list"
  ag_profile_name :: "string option"
  ag_model_overrides :: "(string \<times> string) list"
  ag_memory_scope_access :: "string list"
  ag_tool_policy_profile :: "string option"
  ag_approval_mode :: approval_mode

record team_handoff_rule =
  hr_from_role :: string
  hr_to_role :: string
  hr_required :: bool

record team_termination_rules =
  tr_max_tasks :: int
  tr_max_retries :: int
  tr_max_handoff_depth :: int

record team_definition =
  tm_team_id :: string
  tm_agents :: "agent_definition list"
  tm_supervisor_policy :: string
  tm_handoff_rules :: "team_handoff_rule list"
  tm_termination_rules :: team_termination_rules

record task_definition =
  td_task_id :: string
  td_title :: string
  td_task_type :: string
  td_role :: string
  td_depends_on :: "string list"
  td_input_template :: "string option"
  td_memory_target :: "string option"

record team_spec =
  ts_version :: string
  ts_team :: team_definition
  ts_tasks :: "task_definition list"

record task_run =
  tk_task_id :: string
  tk_task_run_id :: string
  tk_parent_task_id :: "string option"
  tk_assigned_agent_id :: string
  tk_role :: string
  tk_task_attempt :: nat
  tk_requested_scope :: "string option"
  tk_requested_visibility :: "string option"
  tk_memory_target :: "string option"
  tk_input_payload :: pydict
  tk_status :: task_status
  tk_attempt_count :: nat
  tk_approval_state :: string
  tk_result_payload :: pydict
  tk_reason_code :: "string option"
  tk_started_at :: "time_stamp option"
  tk_finished_at :: "time_stamp option"

text \<open>A run of a task nobody was assigned to, with the defaults of the other fields.\<close>

definition unassigned_run :: "string \<Rightarrow> task_definition \<Rightarrow> task_status \<Rightarrow> string \<Rightarrow> task_run" where
  "unassigned_run fresh_id t status reason =
     \<lparr>tk_task_id = td_task_id t, tk_task_run_id = fresh_id, tk_parent_task_id = None,
      tk_assigned_agent_id = ''unassigned'', tk_role = td_role t, tk_task_attempt = 1,
      tk_requested_scope = None, tk_requested_visibility = None, tk_memory_target = None,
      tk_input_payload = [], tk_status = status, tk_attempt_count = 0, tk_approval_state = ''none'',
      tk_result_payload = [], tk_reason_code = Some reason, tk_started_at = None, tk_finished_at = None\<rparr>"

text \<open>\<open>{item.task_id: item for item in tasks}\<close>: the last definition of an id.\<close>

definition tasks_by_id :: "task_definition list \<Rightarrow> string \<Rightarrow> task_definition option" where
  "tasks_by_id tasks = map_of (rev (map (\<lambda>t. (td_task_id t, t)) tasks))"

lemma tasks_by_id_distinct:
  "distinct (map td_task_id tasks) \<Longrightarrow> t \<in> set tasks \<Longrightarrow> tasks_by_id tasks (td_task_id t) = Some t"
  unfolding tasks_by_id_def by (rule map_of_is_SomeI) (auto simp: comp_def simp flip: rev_map)

lemma tasks_by_id_SomeD: "tasks_by_id tasks i = Some t \<Longrightarrow> t \<in> set tasks \<and> td_task_id t = i"
  by (auto simp: tasks_by_id_def dest!: map_of_SomeD)

end
