(* ===== verification/Team_Validation.thy ===== *)
theory Team_Validation imports Team_Models begin

text \<open>
  The validation of a team, \<open>imperaos/team/validation.py\<close>, and the handoff check the supervisor repeats
  when a task runs (\<open>imperaos/team/supervisor.py\<close>).

  \<^item> \<open>limit\<close> is the number of nested calls Python still allows; a walk that needs more is \<open>None\<close>, the
    \<open>RecursionError\<close> nobody catches.
  \<^item> \<open>profile_exists\<close> tells whether the policy file of a profile exists.
\<close>

type_synonym graph = "(string \<times> string list) list"

section \<open>The dependency graph\<close>

definition graph_of :: "task_definition list \<Rightarrow> graph" where
  "graph_of tasks = foldl (\<lambda>g t. AList.update (td_task_id t) (td_depends_on t) g) [] tasks"

definition deps_of :: "graph \<Rightarrow> string \<Rightarrow> string list" where
  "deps_of g node = (case map_of g node of None \<Rightarrow> [] | Some deps \<Rightarrow> deps)"

fun visit :: "nat \<Rightarrow> graph \<Rightarrow> string \<Rightarrow> string set \<Rightarrow> string set \<Rightarrow> (bool \<times> string set \<times> string set) option"
  and visit_deps ::
    "nat \<Rightarrow> graph \<Rightarrow> string list \<Rightarrow> string set \<Rightarrow> string set \<Rightarrow> (bool \<times> string set \<times> string set) option" where
  "visit 0 g node visiting visited = None"
| "visit (Suc limit) g node visiting visited =
     (if node \<in> visiting then Some (True, visiting, visited)
      else if node \<in> visited then Some (False, visiting, visited)
      else case visit_deps limit g (deps_of g node) (insert node visiting) visited of
             None \<Rightarrow> None
           | Some (cycle, visiting1, visited1) \<Rightarrow>
               if cycle then Some (True, visiting1, visited1)
               else Some (False, visiting1 - {node}, insert node visited1))"
| "visit_deps limit g [] visiting visited = Some (False, visiting, visited)"
| "visit_deps limit g (dep # deps) visiting visited =
     (if map_of g dep = None then visit_deps limit g deps visiting visited
      else case visit limit g dep visiting visited of
             None \<Rightarrow> None
           | Some (cycle, visiting1, visited1) \<Rightarrow>
               if cycle then Some (True, visiting1, visited1)
               else visit_deps limit g deps visiting1 visited1)"

definition has_cycle :: "nat \<Rightarrow> graph \<Rightarrow> bool option" where
  "has_cycle limit g = map_option fst (visit_deps limit g (map fst g) {} {})"

text \<open>\<open>max(values) if values else 0\<close>.\<close>

definition max_or_zero :: "nat list \<Rightarrow> nat" where
  "max_or_zero vs = foldr max vs 0"

fun depth :: "nat \<Rightarrow> graph \<Rightarrow> string \<Rightarrow> (string \<rightharpoonup> nat) \<Rightarrow> (nat \<times> (string \<rightharpoonup> nat)) option"
  and depths :: "nat \<Rightarrow> graph \<Rightarrow> string list \<Rightarrow> (string \<rightharpoonup> nat) \<Rightarrow> (nat list \<times> (string \<rightharpoonup> nat)) option" where
  "depth 0 g node memo = None"
| "depth (Suc limit) g node memo =
     (case memo node of
        Some v \<Rightarrow> Some (v, memo)
      | None \<Rightarrow>
          if deps_of g node = [] then Some (1, memo(node \<mapsto> 1))
          else case depths limit g (deps_of g node) memo of
                 None \<Rightarrow> None
               | Some (vs, memo1) \<Rightarrow> Some (1 + max_or_zero vs, memo1(node \<mapsto> 1 + max_or_zero vs)))"
| "depths limit g [] memo = Some ([], memo)"
| "depths limit g (dep # deps) memo =
     (if map_of g dep = None then depths limit g deps memo
      else case depth limit g dep memo of
             None \<Rightarrow> None
           | Some (v, memo1) \<Rightarrow>
               (case depths limit g deps memo1 of None \<Rightarrow> None | Some (vs, memo2) \<Rightarrow> Some (v # vs, memo2)))"

definition graph_depth :: "nat \<Rightarrow> graph \<Rightarrow> nat option" where
  "graph_depth limit g =
     (if g = [] then Some 0
      else map_option (\<lambda>(vs, _). max_or_zero vs) (depths limit g (map fst g) Map.empty))"

section \<open>Handoff rules\<close>

fun handoff_allowed :: "team_handoff_rule list \<Rightarrow> string \<Rightarrow> string \<Rightarrow> bool" where
  "handoff_allowed [] from_role to_role = False"
| "handoff_allowed (r # rules) from_role to_role =
     (let from_norm = py_lower (py_strip from_role); to_norm = py_lower (py_strip to_role);
          rule_from = py_lower (py_strip (hr_from_role r)); rule_to = py_lower (py_strip (hr_to_role r))
      in if rule_from \<noteq> [] \<and> from_norm \<noteq> rule_from then handoff_allowed rules from_role to_role
         else if rule_to \<noteq> [] \<and> to_norm \<noteq> rule_to then handoff_allowed rules from_role to_role
         else hr_required r)"

text \<open>The supervisor's own check.\<close>

fun runtime_handoff_allowed :: "team_handoff_rule list \<Rightarrow> string \<Rightarrow> string \<Rightarrow> bool" where
  "runtime_handoff_allowed [] from_role to_role = False"
| "runtime_handoff_allowed (r # rules) from_role to_role =
     (let from_norm = py_lower (py_strip from_role); to_norm = py_lower (py_strip to_role)
      in if py_lower (py_strip (hr_from_role r)) \<noteq> from_norm then runtime_handoff_allowed rules from_role to_role
         else if py_lower (py_strip (hr_to_role r)) \<noteq> to_norm then runtime_handoff_allowed rules from_role to_role
         else hr_required r)"

section \<open>The messages\<close>

definition quoted :: "string \<Rightarrow> string" where
  "quoted s = CHR 0x27 # s @ [CHR 0x27]"

fun task_errors :: "string set \<Rightarrow> string set \<Rightarrow> task_definition list \<Rightarrow> string list" where
  "task_errors roles seen [] = []"
| "task_errors roles seen (t # tasks) =
     (if py_lower (py_strip (td_role t)) \<notin> roles
      then [''task '' @ quoted (td_task_id t) @ '' references undefined role '' @ quoted (td_role t)] else []) @
     (if td_task_id t \<in> seen then [''duplicate task id '' @ quoted (td_task_id t)] else []) @
     task_errors roles (insert (td_task_id t) seen) tasks"

definition dependency_errors :: "task_definition list \<Rightarrow> string list" where
  "dependency_errors tasks = concat (map (\<lambda>t. concat (map (\<lambda>dep.
     if tasks_by_id tasks dep = None
     then [''task '' @ quoted (td_task_id t) @ '' depends on unknown task '' @ quoted dep] else [])
     (td_depends_on t))) tasks)"

definition depth_error :: "nat \<Rightarrow> int \<Rightarrow> string" where
  "depth_error d bound =
     ''team task graph depth exceeds termination_rules.max_handoff_depth ('' @ nat_str d @ '' > '' @
     int_str bound @ '')''"

definition handoff_errors :: "team_spec \<Rightarrow> string list" where
  "handoff_errors spec =
   (let rules = tm_handoff_rules (ts_team spec)
    in if rules = [] then []
       else concat (map (\<lambda>t. concat (map (\<lambda>dep.
         case tasks_by_id (ts_tasks spec) dep of
           None \<Rightarrow> []
         | Some dep_task \<Rightarrow>
             if \<not> handoff_allowed rules (td_role dep_task) (td_role t)
             then [''dependency edge '' @ quoted (td_task_id dep_task @ '':'' @ td_role dep_task @ '' -> '' @
                    td_task_id t @ '':'' @ td_role t) @ '' is not covered by team.handoff_rules'']
             else []) (td_depends_on t))) (ts_tasks spec)))"

definition requested_profile :: "agent_definition \<Rightarrow> string" where
  "requested_profile a = py_lower (py_strip (case ag_tool_policy_profile a of None \<Rightarrow> [] | Some p \<Rightarrow> p))"

definition agent_errors :: "(string \<Rightarrow> bool) \<Rightarrow> string option \<Rightarrow> agent_definition \<Rightarrow> string list" where
  "agent_errors profile_exists active_policy_profile a =
   (let profile = requested_profile a
    in (if ag_memory_scope_access a = []
        then [''agent '' @ quoted (ag_agent_id a) @ '' must declare at least one memory scope''] else []) @
       (if profile = [] then []
        else if profile \<noteq> ''default'' \<and> \<not> profile_exists profile
        then [''agent '' @ quoted (ag_agent_id a) @ '' references unknown tool_policy_profile '' @ quoted profile]
        else (case active_policy_profile of
                None \<Rightarrow> []
              | Some active \<Rightarrow>
                  if profile \<notin> {[], ''default'', active}
                  then [''agent '' @ quoted (ag_agent_id a) @ '' requires tool_policy_profile '' @ quoted profile @
                        '' but active runtime policy profile is '' @ quoted active]
                  else [])))"

definition validate_team_spec ::
  "nat \<Rightarrow> (string \<Rightarrow> bool) \<Rightarrow> string option \<Rightarrow> team_spec \<Rightarrow> string list option" where
  "validate_team_spec limit profile_exists active_policy_profile spec =
   (let tasks = ts_tasks spec;
        roles = set (map (\<lambda>a. py_lower (py_strip (ag_role a))) (tm_agents (ts_team spec)));
        g = graph_of tasks;
        bound = tr_max_handoff_depth (tm_termination_rules (ts_team spec))
    in case has_cycle limit g of
         None \<Rightarrow> None
       | Some cycle \<Rightarrow>
           (case graph_depth limit g of
              None \<Rightarrow> None
            | Some max_depth \<Rightarrow> Some (
                task_errors roles {} tasks @
                dependency_errors tasks @
                (if cycle then [''team task graph contains a dependency cycle''] else []) @
                (if int max_depth > bound then [depth_error max_depth bound] else []) @
                handoff_errors spec @
                concat (map (agent_errors profile_exists active_policy_profile) (tm_agents (ts_team spec))))))"

end
