(* ===== verification/Team_Scheduler.thy ===== *)
theory Team_Scheduler imports Team_Models begin

text \<open>
  The scheduler of a team job, \<open>imperaos/team/scheduler.py\<close>.

  \<^item> A worker thread runs \<open>execute_task\<close> once per submitted task; \<open>work\<close> gives what it returns or the
    exception it raises, by task id.
  \<^item> \<open>waits i s\<close> is the set of tasks, as a list in the order of the \<open>for\<close> loop, that
    \<open>wait(running, FIRST_COMPLETED)\<close> reports in the \<open>i\<close>-th round; \<open>legal_waits\<close> states what the
    library documents of it.
  \<^item> \<open>uid\<close> are the ids drawn for the runs the scheduler itself makes.
  \<^item> The loop is a partial function: that it ends is a theorem.
\<close>

section \<open>State\<close>

datatype outcome = Returned task_run | Raised string string

record sched_state =
  ss_pending :: "string list"
  ss_completed :: "string set"
  ss_done_or_failed :: "string set"
  ss_task_runs :: "string \<rightharpoonup> task_run"
  ss_running :: "string list"

record scheduler_result =
  sr_tasks :: "task_run list"
  sr_reason_code :: "string option"

fun run_of :: "task_definition \<Rightarrow> outcome \<Rightarrow> task_run" where
  "run_of t (Returned r) = r"
| "run_of t (Raised name fresh_id) = unassigned_run fresh_id t TaskFailed (''TASK_EXEC_EXCEPTION:'' @ name)"

section \<open>One round\<close>

definition runnable :: "(string \<rightharpoonup> task_definition) \<Rightarrow> sched_state \<Rightarrow> string list" where
  "runnable by_id s = sort (filter (\<lambda>i. \<forall>dep \<in> set (td_depends_on (the (by_id i))). dep \<in> ss_completed s)
     (ss_pending s))"

fun launch :: "nat \<Rightarrow> string list \<Rightarrow> sched_state \<Rightarrow> sched_state" where
  "launch m [] s = s"
| "launch m (i # ready) s =
     (if length (ss_running s) < m
      then launch m ready (s\<lparr>ss_pending := remove1 i (ss_pending s), ss_running := ss_running s @ [i]\<rparr>)
      else s)"

definition settle ::
  "(string \<rightharpoonup> task_definition) \<Rightarrow> (string \<Rightarrow> outcome) \<Rightarrow> string \<Rightarrow> sched_state \<Rightarrow> sched_state" where
  "settle by_id work i s =
     (let run = run_of (the (by_id i)) (work i)
      in s\<lparr>ss_running := remove1 i (ss_running s), ss_task_runs := (ss_task_runs s)(i \<mapsto> run),
           ss_done_or_failed := insert i (ss_done_or_failed s),
           ss_completed := (if tk_status run = TaskCompleted then insert i (ss_completed s) else ss_completed s)\<rparr>)"

section \<open>The loop\<close>

text \<open>The state at the end of the loop, and whether it stopped with tasks it cannot start.\<close>

partial_function (option) sched_loop ::
  "nat \<Rightarrow> (string \<rightharpoonup> task_definition) \<Rightarrow> (string \<Rightarrow> outcome) \<Rightarrow> (nat \<Rightarrow> sched_state \<Rightarrow> string list) \<Rightarrow> nat \<Rightarrow>
   sched_state \<Rightarrow> (sched_state \<times> bool) option" where
  [code]: "sched_loop m by_id work waits i s =
     (if ss_pending s = [] \<and> ss_running s = [] then Some (s, False)
      else let s1 = launch m (runnable by_id s) s
           in if ss_running s1 = [] then Some (s1, True)
              else sched_loop m by_id work waits (Suc i) (fold (settle by_id work) (waits i s1) s1))"

fun duplicate_ids_from :: "string set \<Rightarrow> string list \<Rightarrow> string list \<Rightarrow> string list" where
  "duplicate_ids_from seen dup [] = dup"
| "duplicate_ids_from seen dup (x # xs) =
     duplicate_ids_from (insert x seen) (if x \<in> seen \<and> x \<notin> set dup then dup @ [x] else dup) xs"

definition duplicate_ids :: "string list \<Rightarrow> string list" where
  "duplicate_ids values = duplicate_ids_from {} [] values"

definition all_blocked :: "(nat \<Rightarrow> string) \<Rightarrow> string \<Rightarrow> task_definition list \<Rightarrow> task_run list" where
  "all_blocked uid reason tasks =
     map (\<lambda>(k, t). unassigned_run (uid k) t TaskBlocked reason) (enumerate 0 tasks)"

text \<open>The runs of the tasks left pending, in the order of their ids.\<close>

definition block_pending ::
  "(nat \<Rightarrow> string) \<Rightarrow> (string \<rightharpoonup> task_definition) \<Rightarrow> sched_state \<Rightarrow> (string \<rightharpoonup> task_run)" where
  "block_pending uid by_id s =
     fold (\<lambda>(k, i) runs. runs(i \<mapsto> unassigned_run (uid k) (the (by_id i)) TaskBlocked ''TEAM_DEADLOCK''))
       (enumerate 0 (sort (ss_pending s))) (ss_task_runs s)"

text \<open>After the loop: the tasks without a run, should there be any.\<close>

definition block_missing ::
  "(nat \<Rightarrow> string) \<Rightarrow> task_definition list \<Rightarrow> (string \<rightharpoonup> task_run) \<Rightarrow> (string \<rightharpoonup> task_run)" where
  "block_missing uid tasks runs =
     fold (\<lambda>(k, t) runs. if runs (td_task_id t) \<noteq> None then runs
        else runs(td_task_id t \<mapsto> unassigned_run (uid k) t TaskBlocked ''TASK_ESCALATED''))
       (enumerate 0 tasks) runs"

text \<open>\<open>[task_runs[item.task_id] for item in tasks]\<close>, which raises \<open>KeyError\<close> on a task without a run.\<close>

definition ordered_runs :: "task_definition list \<Rightarrow> (string \<rightharpoonup> task_run) \<Rightarrow> task_run list option" where
  "ordered_runs tasks runs = those (map (\<lambda>t. runs (td_task_id t)) tasks)"

definition initial_state :: "task_definition list \<Rightarrow> string set \<Rightarrow> sched_state" where
  "initial_state tasks initially_completed =
     \<lparr>ss_pending = map td_task_id tasks, ss_completed = initially_completed, ss_done_or_failed = {},
      ss_task_runs = Map.empty, ss_running = []\<rparr>"

definition at_least_one :: "int \<Rightarrow> nat" where
  "at_least_one n = nat (max 1 n)"

text \<open>\<open>None\<close>: the call does not return a result.\<close>

definition scheduler_run ::
  "int \<Rightarrow> int \<Rightarrow> (nat \<Rightarrow> string) \<Rightarrow> (string \<Rightarrow> outcome) \<Rightarrow> (nat \<Rightarrow> sched_state \<Rightarrow> string list) \<Rightarrow>
   task_definition list \<Rightarrow> string set \<Rightarrow> scheduler_result option" where
  "scheduler_run max_parallel_tasks max_total_tasks uid work waits tasks initially_completed =
   (if at_least_one max_total_tasks < length tasks
    then Some \<lparr>sr_tasks = all_blocked uid ''TEAM_BUDGET_EXCEEDED'' tasks,
               sr_reason_code = Some ''TEAM_BUDGET_EXCEEDED''\<rparr>
    else let ids = map td_task_id tasks; by_id = tasks_by_id tasks
      in if card (set ids) \<noteq> length tasks
         then Some \<lparr>sr_tasks = all_blocked uid (''TASK_ID_DUPLICATE:'' @ hd (duplicate_ids ids)) tasks,
                    sr_reason_code = Some ''TEAM_DEADLOCK''\<rparr>
         else case sched_loop (at_least_one max_parallel_tasks) by_id work waits 0
                     (initial_state tasks initially_completed) of
                None \<Rightarrow> None
              | Some (s, True) \<Rightarrow>
                  map_option (\<lambda>rs. \<lparr>sr_tasks = rs, sr_reason_code = Some ''TEAM_DEADLOCK''\<rparr>)
                    (ordered_runs tasks (block_pending uid by_id s))
              | Some (s, False) \<Rightarrow>
                  let runs = block_missing uid tasks (ss_task_runs s);
                      reason_code = (if \<exists>t \<in> set tasks. \<exists>r. runs (td_task_id t) = Some r \<and>
                                          tk_status r \<in> {TaskFailed, TaskBlocked, TaskEscalated}
                                     then Some ''TASK_ESCALATED'' else None)
                  in map_option (\<lambda>rs. \<lparr>sr_tasks = rs, sr_reason_code = reason_code\<rparr>) (ordered_runs tasks runs))"

end
