(* ===== verification/Team_Schedule_Props.thy ===== *)
theory Team_Schedule_Props imports Team_Scheduler Machine begin

text \<open>
  What the scheduler guarantees: a fine-grained machine of starts and finishes with its invariant, the
  rounds of the loop as runs of that machine, and the result of a call against an abstract schedule
  that knows nothing of threads.
\<close>

section \<open>The abstract schedule\<close>

definition finishes :: "task_definition list \<Rightarrow> (string \<Rightarrow> outcome) \<Rightarrow> string \<Rightarrow> bool" where
  "finishes tasks work i \<longleftrightarrow> tk_status (run_of (the (tasks_by_id tasks i)) (work i)) = TaskCompleted"

text \<open>A task can run when everything it depends on was completed before or can run and completes.\<close>

inductive can_run :: "task_definition list \<Rightarrow> (string \<Rightarrow> outcome) \<Rightarrow> string set \<Rightarrow> string \<Rightarrow> bool"
  for tasks :: "task_definition list" and work :: "string \<Rightarrow> outcome" and init :: "string set" where
  ready: "tasks_by_id tasks i = Some t \<Longrightarrow>
    \<forall>d \<in> set (td_depends_on t). d \<in> init \<or> (can_run tasks work init d \<and> finishes tasks work d) \<Longrightarrow>
    can_run tasks work init i"

inductive_cases can_runE: "can_run tasks work init i"

section \<open>The machine\<close>

inductive sched_step ::
  "nat \<Rightarrow> task_definition list \<Rightarrow> (string \<Rightarrow> outcome) \<Rightarrow> sched_state \<Rightarrow> sched_state \<Rightarrow> bool"
  for m :: nat and tasks :: "task_definition list" and work :: "string \<Rightarrow> outcome" where
  start: "i \<in> set (runnable (tasks_by_id tasks) s) \<Longrightarrow> length (ss_running s) < m \<Longrightarrow>
    sched_step m tasks work s (s\<lparr>ss_pending := remove1 i (ss_pending s), ss_running := ss_running s @ [i]\<rparr>)"
| finish: "i \<in> set (ss_running s) \<Longrightarrow> sched_step m tasks work s (settle (tasks_by_id tasks) work i s)"

text \<open>The tasks that were started: they run or have a result.\<close>

definition started :: "sched_state \<Rightarrow> string set" where
  "started s = set (ss_running s) \<union> ss_done_or_failed s"

definition sched_inv ::
  "nat \<Rightarrow> task_definition list \<Rightarrow> (string \<Rightarrow> outcome) \<Rightarrow> string set \<Rightarrow> sched_state \<Rightarrow> bool" where
  "sched_inv m tasks work init s \<longleftrightarrow>
     distinct (ss_pending s @ ss_running s) \<and>
     (set (ss_pending s) \<union> set (ss_running s)) \<inter> ss_done_or_failed s = {} \<and>
     set (ss_pending s) \<union> started s = set (map td_task_id tasks) \<and>
     ss_task_runs s = (\<lambda>i. if i \<in> ss_done_or_failed s then Some (run_of (the (tasks_by_id tasks i)) (work i)) else None) \<and>
     ss_completed s = init \<union> {i \<in> ss_done_or_failed s. finishes tasks work i} \<and>
     (\<forall>i \<in> started s. \<forall>d \<in> set (td_depends_on (the (tasks_by_id tasks i))). d \<in> ss_completed s) \<and>
     (\<forall>i \<in> started s. can_run tasks work init i) \<and>
     length (ss_running s) \<le> m"

lemma tasks_by_id_None: "tasks_by_id tasks i = None \<longleftrightarrow> i \<notin> set (map td_task_id tasks)"
  by (force simp: tasks_by_id_def map_of_eq_None_iff)

lemma runnable_iff:
  "i \<in> set (runnable by_id s) \<longleftrightarrow>
     i \<in> set (ss_pending s) \<and> (\<forall>d \<in> set (td_depends_on (the (by_id i))). d \<in> ss_completed s)"
  by (simp add: runnable_def)

lemma sched_invD:
  assumes "sched_inv m tasks work init s"
  shows "distinct (ss_pending s)" "distinct (ss_running s)" "set (ss_pending s) \<inter> set (ss_running s) = {}"
    "set (ss_pending s) \<inter> ss_done_or_failed s = {}" "set (ss_running s) \<inter> ss_done_or_failed s = {}"
    "set (ss_pending s) \<union> started s = set (map td_task_id tasks)"
    "ss_task_runs s = (\<lambda>i. if i \<in> ss_done_or_failed s then Some (run_of (the (tasks_by_id tasks i)) (work i)) else None)"
    "ss_completed s = init \<union> {i \<in> ss_done_or_failed s. finishes tasks work i}"
    "\<And>i d. i \<in> started s \<Longrightarrow> d \<in> set (td_depends_on (the (tasks_by_id tasks i))) \<Longrightarrow> d \<in> ss_completed s"
    "\<And>i. i \<in> started s \<Longrightarrow> can_run tasks work init i"
    "length (ss_running s) \<le> m"
  using assms unfolding sched_inv_def by auto

lemma sched_inv_start:
  assumes inv: "sched_inv m tasks work init s" and i: "i \<in> set (runnable (tasks_by_id tasks) s)"
    and room: "length (ss_running s) < m"
  shows "sched_inv m tasks work init (s\<lparr>ss_pending := remove1 i (ss_pending s), ss_running := ss_running s @ [i]\<rparr>)"
proof -
  note inv = sched_invD [OF inv]
  have pend: "i \<in> set (ss_pending s)"
    and deps: "\<And>d. d \<in> set (td_depends_on (the (tasks_by_id tasks i))) \<Longrightarrow> d \<in> ss_completed s"
    using i by (simp_all add: runnable_iff)
  then have "tasks_by_id tasks i \<noteq> None" using inv(6) tasks_by_id_None [of tasks i] by blast
  then obtain t0 where t0: "tasks_by_id tasks i = Some t0" by blast
  have can: "can_run tasks work init i"
  proof (rule ready [OF t0], rule ballI)
    fix d assume "d \<in> set (td_depends_on t0)"
    then have "d \<in> ss_completed s" using deps t0 by simp
    then show "d \<in> init \<or> can_run tasks work init d \<and> finishes tasks work d"
      using inv(8,10) by (auto simp: started_def)
  qed
  let ?t = "s\<lparr>ss_pending := remove1 i (ss_pending s), ss_running := ss_running s @ [i]\<rparr>"
  have st: "started ?t = insert i (started s)" by (auto simp: started_def)
  have rem: "set (remove1 i (ss_pending s)) = set (ss_pending s) - {i}" using inv(1) by simp
  show ?thesis unfolding sched_inv_def st
    using inv pend deps can room rem by (auto simp: started_def)
qed

lemma sched_inv_finish:
  assumes inv: "sched_inv m tasks work init s" and i: "i \<in> set (ss_running s)"
  shows "sched_inv m tasks work init (settle (tasks_by_id tasks) work i s)"
proof -
  note inv = sched_invD [OF inv]
  let ?t = "settle (tasks_by_id tasks) work i s"
  have rem: "set (remove1 i (ss_running s)) = set (ss_running s) - {i}" using inv(2) by simp
  have sel: "ss_pending ?t = ss_pending s" "ss_running ?t = remove1 i (ss_running s)"
    "ss_done_or_failed ?t = insert i (ss_done_or_failed s)"
    "ss_task_runs ?t = (ss_task_runs s)(i \<mapsto> run_of (the (tasks_by_id tasks i)) (work i))"
    "ss_completed ?t = (if finishes tasks work i then insert i (ss_completed s) else ss_completed s)"
    by (simp_all add: settle_def Let_def finishes_def)
  have st: "started ?t = started s" using i rem by (auto simp: started_def sel)
  have "distinct (ss_pending s @ remove1 i (ss_running s))" using inv(1-3) rem by auto
  moreover have "(set (ss_pending s) \<union> set (remove1 i (ss_running s))) \<inter> insert i (ss_done_or_failed s) = {}"
    using inv(3-5) i rem by auto
  moreover have "(ss_task_runs s)(i \<mapsto> run_of (the (tasks_by_id tasks i)) (work i)) =
      (\<lambda>j. if j \<in> insert i (ss_done_or_failed s) then Some (run_of (the (tasks_by_id tasks j)) (work j)) else None)"
    using inv(7) by auto
  moreover have "ss_completed ?t = init \<union> {j \<in> insert i (ss_done_or_failed s). finishes tasks work j}"
    using inv(8) by (auto simp: sel)
  moreover have "d \<in> ss_completed ?t" if "j \<in> started s" "d \<in> set (td_depends_on (the (tasks_by_id tasks j)))" for j d
    using inv(9) [OF that] by (simp add: sel)
  moreover have "length (remove1 i (ss_running s)) \<le> m" using inv(11) by (auto simp: length_remove1)
  ultimately show ?thesis unfolding sched_inv_def st sel using inv(6,10) by (simp add: sel)
qed

lemma sched_inv_step:
  "sched_step m tasks work s t \<Longrightarrow> sched_inv m tasks work init s \<Longrightarrow> sched_inv m tasks work init t"
  by (erule sched_step.cases) (auto intro: sched_inv_start sched_inv_finish)

interpretation sched: invariant_machine "sched_step m tasks work" "sched_inv m tasks work init"
  for m tasks work init
  by unfold_locales (rule sched_inv_step)

lemma sched_inv_initial:
  "distinct (map td_task_id tasks) \<Longrightarrow> sched_inv m tasks work init (initial_state tasks init)"
  by (simp add: sched_inv_def initial_state_def started_def)

section \<open>The rounds of the loop\<close>

lemma keep_remove1: "set xs \<subseteq> set ys \<Longrightarrow> i \<notin> set xs \<Longrightarrow> set xs \<subseteq> set (remove1 i ys)"
  by (metis in_set_remove1 subset_iff)

lemma launch_run:
  assumes "set ready \<subseteq> set (runnable (tasks_by_id tasks) s)" "distinct ready" "distinct (ss_pending s)"
  shows "(sched_step m tasks work)\<^sup>*\<^sup>* s (launch m ready s)"
  using assms
proof (induction ready arbitrary: s)
  case (Cons i ready)
  let ?t = "s\<lparr>ss_pending := remove1 i (ss_pending s), ss_running := ss_running s @ [i]\<rparr>"
  have "set ready \<subseteq> set (runnable (tasks_by_id tasks) ?t)"
    using Cons.prems by (auto simp: runnable_iff)
  then have "(sched_step m tasks work)\<^sup>*\<^sup>* ?t (launch m ready ?t)" by (rule Cons.IH) (use Cons.prems in simp_all)
  moreover have "sched_step m tasks work s ?t" if "length (ss_running s) < m"
    using that Cons.prems(1) by (auto intro: sched_step.start)
  ultimately show ?case by (auto intro: converse_rtranclp_into_rtranclp)
qed simp

lemma launch_same:
  "ss_completed (launch m ready s) = ss_completed s" "ss_done_or_failed (launch m ready s) = ss_done_or_failed s"
  by (induction m ready s rule: launch.induct) simp_all

lemma launch_count:
  assumes "distinct ready" "set ready \<subseteq> set (ss_pending s)"
  shows "length (ss_pending (launch m ready s)) + length (ss_running (launch m ready s)) =
    length (ss_pending s) + length (ss_running s)"
  using assms
proof (induction m ready s rule: launch.induct)
  case (2 m i ready s)
  have "0 < length (ss_pending s)" using 2(3) by (cases "ss_pending s") auto
  moreover have "set ready \<subseteq> set (remove1 i (ss_pending s))" using 2 by (simp add: keep_remove1)
  ultimately show ?case using 2 by (simp add: length_remove1)
qed simp

lemma launch_idle: "ss_running (launch m ready s) = [] \<Longrightarrow> 0 < m \<Longrightarrow> ready = [] \<and> launch m ready s = s"
proof (cases ready)
  case (Cons i rest)
  have grow: "length (ss_running t) \<le> length (ss_running (launch m xs t))" for xs t
    by (induction m xs t rule: launch.induct) (auto intro: order_trans [rotated])
  assume "ss_running (launch m ready s) = []" "0 < m"
  with Cons grow [of "s\<lparr>ss_pending := remove1 i (ss_pending s), ss_running := ss_running s @ [i]\<rparr>" rest]
    grow [of s ready] show ?thesis by auto
qed simp

lemma settle_run:
  assumes "set xs \<subseteq> set (ss_running s)" "distinct xs"
  shows "(sched_step m tasks work)\<^sup>*\<^sup>* s (fold (settle (tasks_by_id tasks) work) xs s) \<and>
    ss_pending (fold (settle (tasks_by_id tasks) work) xs s) = ss_pending s \<and>
    length (ss_running (fold (settle (tasks_by_id tasks) work) xs s)) = length (ss_running s) - length xs"
  using assms
proof (induction xs arbitrary: s)
  case (Cons i xs)
  let ?t = "settle (tasks_by_id tasks) work i s"
  have run: "ss_running ?t = remove1 i (ss_running s)" "ss_pending ?t = ss_pending s"
    by (simp_all add: settle_def Let_def)
  have "set xs \<subseteq> set (ss_running ?t)" using Cons.prems by (simp add: run keep_remove1)
  note IH = Cons.IH [OF this]
  have "sched_step m tasks work s ?t" using Cons.prems(1) by (auto intro: sched_step.finish)
  then show ?case using IH Cons.prems run
    by (auto simp: length_remove1 intro: converse_rtranclp_into_rtranclp)
qed simp

text \<open>What \<open>concurrent.futures.wait\<close> documents: some of the tasks that run are done, each reported once.\<close>

definition legal_waits :: "(nat \<Rightarrow> sched_state \<Rightarrow> string list) \<Rightarrow> bool" where
  "legal_waits waits \<longleftrightarrow> (\<forall>i s. ss_running s \<noteq> [] \<longrightarrow>
     waits i s \<noteq> [] \<and> distinct (waits i s) \<and> set (waits i s) \<subseteq> set (ss_running s))"

lemma runnable_ok:
  assumes "distinct (ss_pending s)"
  shows "distinct (runnable by_id s)" "set (runnable by_id s) \<subseteq> set (ss_pending s)"
  using assms by (auto simp: runnable_def)

text \<open>A state the loop ends in: nothing runs, and nothing that is left could be started.\<close>

definition final :: "task_definition list \<Rightarrow> sched_state \<Rightarrow> bool \<Rightarrow> bool" where
  "final tasks s stuck \<longleftrightarrow> ss_running s = [] \<and> runnable (tasks_by_id tasks) s = [] \<and> stuck = (ss_pending s \<noteq> [])"

lemma sched_loop_ends:
  assumes "legal_waits waits" "0 < m" "sched_inv m tasks work init s"
  shows "\<exists>s' stuck. sched_loop m (tasks_by_id tasks) work waits i s = Some (s', stuck) \<and>
    (sched_step m tasks work)\<^sup>*\<^sup>* s s' \<and> final tasks s' stuck"
  using assms(3)
proof (induction "length (ss_pending s) + length (ss_running s)" arbitrary: s i rule: less_induct)
  case less
  note inv = sched_invD [OF less.prems]
  let ?by = "tasks_by_id tasks" and ?s1 = "launch m (runnable (tasks_by_id tasks) s) s"
  show ?case
  proof (cases "ss_pending s = [] \<and> ss_running s = []")
    case True
    then show ?thesis by (subst sched_loop.simps) (simp add: final_def runnable_def)
  next
    case busy: False
    have run1: "(sched_step m tasks work)\<^sup>*\<^sup>* s ?s1"
      by (rule launch_run) (use runnable_ok [OF inv(1)] inv(1) in simp_all)
    have cnt1: "length (ss_pending ?s1) + length (ss_running ?s1) = length (ss_pending s) + length (ss_running s)"
      by (rule launch_count) (use runnable_ok [OF inv(1)] in simp_all)
    show ?thesis
    proof (cases "ss_running ?s1 = []")
      case True
      note idle = launch_idle [OF True assms(2)]
      then have "ss_running s = []" using True by simp
      with busy idle show ?thesis
        by (subst sched_loop.simps) (auto simp: final_def)
    next
      case False
      let ?w = "waits i ?s1" and ?s2 = "fold (settle (tasks_by_id tasks) work) (waits i ?s1) ?s1"
      have w: "?w \<noteq> []" "distinct ?w" "set ?w \<subseteq> set (ss_running ?s1)"
        using assms(1) False unfolding legal_waits_def by blast+
      note st = settle_run [OF w(3,2), of m tasks work]
      then have run: "(sched_step m tasks work)\<^sup>*\<^sup>* s ?s2"
        by (intro rtranclp_trans [OF run1] conjunct1 [OF st])
      have "length (ss_pending ?s2) + length (ss_running ?s2) < length (ss_pending s) + length (ss_running s)"
        using st cnt1 w(1) False by (cases ?w; cases "ss_running ?s1") auto
      from less.hyps [OF this sched.run_inv [OF run less.prems], of "Suc i"]
      obtain s' stuck where "sched_loop m ?by work waits (Suc i) ?s2 = Some (s', stuck)"
        "(sched_step m tasks work)\<^sup>*\<^sup>* ?s2 s'" "final tasks s' stuck" by blast
      then show ?thesis using busy False run
        by (subst sched_loop.simps) (auto simp: Let_def)
    qed
  qed
qed

section \<open>A watched scheduler\<close>

text \<open>
  To say something of the states in between, the calls of \<open>wait\<close> are watched: \<open>watched ok waits\<close> answers as
  \<open>waits\<close> does while the state satisfies \<open>ok\<close>, and reports nothing, for ever, in a state that does not.
  The loop reaches a call of \<open>wait\<close> after every start and before every settlement.  A scheduler that
  gives the same result when it is watched, and gives one, was never seen in a state that is not \<open>ok\<close>.
\<close>

definition watched ::
  "(sched_state \<Rightarrow> bool) \<Rightarrow> (nat \<Rightarrow> sched_state \<Rightarrow> string list) \<Rightarrow> nat \<Rightarrow> sched_state \<Rightarrow> string list" where
  "watched ok waits i s = (if ok s then waits i s else [])"

text \<open>
  What a state in between must satisfy: no more tasks run than may, no task is in two places, a started
  task has every dependency completed (before the call, or by a run that completed), and a finished
  task has the run its worker produced.
\<close>

definition safe_state ::
  "nat \<Rightarrow> task_definition list \<Rightarrow> (string \<Rightarrow> outcome) \<Rightarrow> string set \<Rightarrow> sched_state \<Rightarrow> bool" where
  "safe_state m tasks work init s \<longleftrightarrow>
     length (ss_running s) \<le> m \<and> distinct (ss_pending s @ ss_running s) \<and>
     (set (ss_pending s) \<union> set (ss_running s)) \<inter> ss_done_or_failed s = {} \<and>
     (\<forall>i t d. i \<in> started s \<and> tasks_by_id tasks i = Some t \<and> d \<in> set (td_depends_on t) \<longrightarrow>
        d \<in> init \<or> (\<exists>r. ss_task_runs s d = Some r \<and> tk_status r = TaskCompleted)) \<and>
     (\<forall>i t. i \<in> ss_done_or_failed s \<and> tasks_by_id tasks i = Some t \<longrightarrow>
        ss_task_runs s i = Some (run_of t (work i)))"

lemma sched_inv_safe:
  assumes "sched_inv m tasks work init s"
  shows "safe_state m tasks work init s"
proof -
  note inv = sched_invD [OF assms]
  have "d \<in> init \<or> (\<exists>r. ss_task_runs s d = Some r \<and> tk_status r = TaskCompleted)"
    if "i \<in> started s" "tasks_by_id tasks i = Some t" "d \<in> set (td_depends_on t)" for i t d
  proof -
    have "d \<in> ss_completed s" using inv(9) [OF that(1)] that(2,3) by simp
    then show ?thesis using inv(7,8) by (auto simp: finishes_def)
  qed
  moreover have "ss_task_runs s i = Some (run_of t (work i))"
    if "i \<in> ss_done_or_failed s" "tasks_by_id tasks i = Some t" for i t
    using that inv(7) by simp
  ultimately show ?thesis unfolding safe_state_def using inv(1-5,11) by auto
qed

lemma sched_loop_watched:
  assumes "legal_waits waits" "0 < m" "sched_inv m tasks work init s"
    and ok: "\<And>t. sched_inv m tasks work init t \<Longrightarrow> ok t"
  shows "sched_loop m (tasks_by_id tasks) work (watched ok waits) i s = sched_loop m (tasks_by_id tasks) work waits i s"
  using assms(3)
proof (induction "length (ss_pending s) + length (ss_running s)" arbitrary: s i rule: less_induct)
  case less
  note inv = sched_invD [OF less.prems]
  let ?by = "tasks_by_id tasks" and ?s1 = "launch m (runnable (tasks_by_id tasks) s) s"
  have run1: "(sched_step m tasks work)\<^sup>*\<^sup>* s ?s1"
    by (rule launch_run) (use runnable_ok [OF inv(1)] inv(1) in simp_all)
  have cnt1: "length (ss_pending ?s1) + length (ss_running ?s1) = length (ss_pending s) + length (ss_running s)"
    by (rule launch_count) (use runnable_ok [OF inv(1)] in simp_all)
  have "ok ?s1" by (rule ok [OF sched.run_inv [OF run1 less.prems]])
  then have same: "watched ok waits i ?s1 = waits i ?s1" by (simp add: watched_def)
  show ?case
  proof (cases "ss_running ?s1 = []")
    case True
    then show ?thesis by (subst (1 2) sched_loop.simps) (simp add: Let_def)
  next
    case False
    let ?s2 = "fold (settle ?by work) (waits i ?s1) ?s1"
    have w: "waits i ?s1 \<noteq> []" "distinct (waits i ?s1)" "set (waits i ?s1) \<subseteq> set (ss_running ?s1)"
      using assms(1) False unfolding legal_waits_def by blast+
    note st = settle_run [OF w(3,2), of m tasks work]
    have run: "(sched_step m tasks work)\<^sup>*\<^sup>* s ?s2" by (rule rtranclp_trans [OF run1 conjunct1 [OF st]])
    have "length (ss_pending ?s2) + length (ss_running ?s2) < length (ss_pending s) + length (ss_running s)"
      using st cnt1 w(1) False by (cases "waits i ?s1"; cases "ss_running ?s1") auto
    from less.hyps [OF this sched.run_inv [OF run less.prems], of "Suc i"] False
    show ?thesis by (subst (1 2) sched_loop.simps) (simp add: Let_def same)
  qed
qed

text \<open>
  The watch is a real one: where the loop comes to wait in a state that is not \<open>ok\<close>, it hangs.  (Nothing
  is settled, the next round starts nothing more, and the state is the same again.)
\<close>

lemma launch_again:
  assumes "distinct (ss_pending s)"
  shows "launch m (runnable by_id (launch m (runnable by_id s) s)) (launch m (runnable by_id s) s) =
    launch m (runnable by_id s) s"
proof -
  have stop: "length (ss_running t) < m \<Longrightarrow> runnable by_id t = [] \<Longrightarrow> launch m (runnable by_id t) t = t"
    "\<not> length (ss_running t) < m \<Longrightarrow> launch m xs t = t" for t xs
    by simp (cases xs; simp)
  have "\<not> length (ss_running (launch m ready t)) < m \<or>
      set (ss_pending (launch m ready t)) = set (ss_pending t) - set ready" if "distinct (ss_pending t)" for ready t
    using that by (induction m ready t rule: launch.induct) auto
  from this [OF assms, of "runnable by_id s"] show ?thesis
  proof
    assume "set (ss_pending (launch m (runnable by_id s) s)) = set (ss_pending s) - set (runnable by_id s)"
    then have "runnable by_id (launch m (runnable by_id s) s) = []"
      unfolding runnable_def by (auto simp: filter_empty_conv launch_same)
    then show ?thesis by simp
  qed (rule stop(2))
qed

lemma watched_never:
  "sched_loop m by_id work w i t = Some r \<Longrightarrow> w = watched ok waits \<Longrightarrow> launch m (runnable by_id t) t = s1 \<Longrightarrow>
     launch m (runnable by_id s1) s1 = s1 \<Longrightarrow> ss_running s1 \<noteq> [] \<Longrightarrow> \<not> ok s1 \<Longrightarrow> False"
proof (induction rule: sched_loop.raw_induct [rotated, consumes 1, case_names round])
  case (round loop m by_id work w i t r)
  have "ss_running (launch m xs t) = []" if "ss_pending t = []" "ss_running t = []" "xs = []" for xs
    using that by simp
  then have "\<not> (ss_pending t = [] \<and> ss_running t = [])" using round(4,6) by (auto simp: runnable_def)
  then have "loop m by_id work w (Suc i) s1 = Some r" using round(2-4,6,7) by (auto simp: Let_def watched_def split: if_splits)
  from round(1) [OF this round(3,5,5-7)] show ?case .
qed

lemma watched_hangs:
  assumes "distinct (ss_pending s)" "s1 = launch m (runnable by_id s) s" "ss_running s1 \<noteq> []" "\<not> ok s1"
  shows "sched_loop m by_id work (watched ok waits) i s = None"
proof (rule ccontr)
  assume "sched_loop m by_id work (watched ok waits) i s \<noteq> None"
  then obtain r where "sched_loop m by_id work (watched ok waits) i s = Some r" by blast
  from watched_never [OF this refl assms(2) [symmetric] _ assms(3,4)] launch_again [OF assms(1)] show False
    using assms(2) by blast
qed

section \<open>The result\<close>

definition abstract_run ::
  "(nat \<Rightarrow> string) \<Rightarrow> (string \<Rightarrow> outcome) \<Rightarrow> task_definition list \<Rightarrow> string set \<Rightarrow> task_definition \<Rightarrow> task_run" where
  "abstract_run uid work tasks init t =
     (let i = td_task_id t; blocked = sort (filter (\<lambda>i. \<not> can_run tasks work init i) (map td_task_id tasks))
      in if can_run tasks work init i then run_of t (work i)
         else unassigned_run (uid (length (takeWhile (\<lambda>j. j \<noteq> i) blocked))) t TaskBlocked ''TEAM_DEADLOCK'')"

definition abstract_schedule ::
  "(nat \<Rightarrow> string) \<Rightarrow> (string \<Rightarrow> outcome) \<Rightarrow> task_definition list \<Rightarrow> string set \<Rightarrow> scheduler_result" where
  "abstract_schedule uid work tasks init =
     \<lparr>sr_tasks = map (abstract_run uid work tasks init) tasks,
      sr_reason_code =
        (if \<exists>t \<in> set tasks. \<not> can_run tasks work init (td_task_id t) then Some ''TEAM_DEADLOCK''
         else if \<exists>t \<in> set tasks. tk_status (run_of t (work (td_task_id t))) \<in> {TaskFailed, TaskBlocked, TaskEscalated}
         then Some ''TASK_ESCALATED'' else None)\<rparr>"

lemma final_done:
  assumes "sched_inv m tasks work init s" "final tasks s stuck"
  shows "i \<in> ss_done_or_failed s \<longleftrightarrow> can_run tasks work init i"
proof
  note inv = sched_invD [OF assms(1)]
  show "i \<in> ss_done_or_failed s \<Longrightarrow> can_run tasks work init i" using inv(10) by (simp add: started_def)
  have idle: "ss_running s = []" "runnable (tasks_by_id tasks) s = []" using assms(2) by (simp_all add: final_def)
  show "i \<in> ss_done_or_failed s" if "can_run tasks work init i"
    using that
  proof induction
    case (ready i t)
    have "d \<in> ss_completed s" if "d \<in> set (td_depends_on t)" for d
      using ready(2) that inv(8) by auto
    then have "i \<notin> set (ss_pending s)"
      using idle(2) ready(1) runnable_iff [of i "tasks_by_id tasks" s] by auto
    moreover have "i \<in> set (map td_task_id tasks)"
      using ready(1) tasks_by_id_None [of tasks i] by auto
    ultimately show ?case using inv(6) idle(1) by (auto simp: started_def)
  qed
qed

lemma fold_upd_enumerate:
  "distinct xs \<Longrightarrow> fold (\<lambda>(k, i) r. r(i \<mapsto> g k i)) (enumerate n xs) r0 j =
     (if j \<in> set xs then Some (g (n + length (takeWhile (\<lambda>x. x \<noteq> j) xs)) j) else r0 j)"
  by (induction xs arbitrary: n r0) auto

lemma block_missing_none:
  "\<forall>t \<in> set tasks. runs (td_task_id t) \<noteq> None \<Longrightarrow> block_missing uid tasks runs = runs"
proof -
  have "fold (\<lambda>(k, t) r. if r (td_task_id t) \<noteq> None then r
        else r(td_task_id t \<mapsto> unassigned_run (uid k) t TaskBlocked ''TASK_ESCALATED'')) (enumerate n ts) runs = runs"
    if "\<forall>t \<in> set ts. runs (td_task_id t) \<noteq> None" for n ts
    using that by (induction ts arbitrary: n) auto
  then show "\<forall>t \<in> set tasks. runs (td_task_id t) \<noteq> None \<Longrightarrow> block_missing uid tasks runs = runs"
    unfolding block_missing_def by blast
qed

lemma ordered_runs_Some:
  "(\<And>t. t \<in> set tasks \<Longrightarrow> runs (td_task_id t) = Some (f t)) \<Longrightarrow> ordered_runs tasks runs = Some (map f tasks)"
  unfolding ordered_runs_def by (induction tasks) simp_all

lemma scheduler_refines:
  assumes "legal_waits waits" "distinct (map td_task_id tasks)" "length tasks \<le> at_least_one max_total"
  shows "scheduler_run max_parallel max_total uid work waits tasks init = Some (abstract_schedule uid work tasks init)"
proof -
  let ?m = "at_least_one max_parallel" and ?by = "tasks_by_id tasks" and ?s0 = "initial_state tasks init"
  have inv0: "sched_inv ?m tasks work init ?s0" by (rule sched_inv_initial [OF assms(2)])
  have "0 < ?m" by (simp add: at_least_one_def)
  from sched_loop_ends [OF assms(1) this inv0, of 0] obtain s stuck where
    loop: "sched_loop ?m ?by work waits 0 ?s0 = Some (s, stuck)"
    and run: "(sched_step ?m tasks work)\<^sup>*\<^sup>* ?s0 s" and fin: "final tasks s stuck" by blast
  have inv: "sched_inv ?m tasks work init s" by (rule sched.run_inv [OF run inv0])
  note invD = sched_invD [OF inv]
  have ran: "\<And>i. i \<in> ss_done_or_failed s \<longleftrightarrow> can_run tasks work init i" by (rule final_done [OF inv fin])
  have idle: "ss_running s = []" "stuck = (ss_pending s \<noteq> [])" using fin by (simp_all add: final_def)
  have pend: "set (ss_pending s) = {i \<in> set (map td_task_id tasks). \<not> can_run tasks work init i}"
    using invD(4,6) idle(1) ran by (auto simp: started_def)
  have known: "?by (td_task_id t) = Some t" if "t \<in> set tasks" for t
    by (rule tasks_by_id_distinct [OF assms(2) that])
  have runs: "ss_task_runs s = (\<lambda>i. if can_run tasks work init i then Some (run_of (the (?by i)) (work i)) else None)"
    using invD(7) ran by auto
  have sorted: "sort (ss_pending s) = sort (filter (\<lambda>i. \<not> can_run tasks work init i) (map td_task_id tasks))"
    by (rule sorted_distinct_set_unique) (use invD(1) assms(2) pend in auto)
  have stuck: "stuck \<longleftrightarrow> (\<exists>t \<in> set tasks. \<not> can_run tasks work init (td_task_id t))"
  proof -
    have "stuck \<longleftrightarrow> set (ss_pending s) \<noteq> {}" using idle(2) by simp
    then show ?thesis unfolding pend by auto
  qed
  have blocked: "block_pending uid ?by s (td_task_id t) = Some (abstract_run uid work tasks init t)" if "t \<in> set tasks" for t
  proof -
    have "distinct (sort (ss_pending s))" using invD(1) by simp
    note fold_upd_enumerate [OF this, of "\<lambda>k i. unassigned_run (uid k) (the (?by i)) TaskBlocked ''TEAM_DEADLOCK''"
        0 "ss_task_runs s" "td_task_id t"]
    then show ?thesis using that pend runs known [OF that]
      by (auto simp: block_pending_def abstract_run_def Let_def sorted)
  qed
  have card: "card (set (map td_task_id tasks)) = length tasks" using assms(2) distinct_card by fastforce
  show ?thesis
  proof (cases stuck)
    case True
    have "ordered_runs tasks (block_pending uid ?by s) = Some (map (abstract_run uid work tasks init) tasks)"
      by (rule ordered_runs_Some) (rule blocked)
    then show ?thesis using True assms(3) card loop stuck
      by (simp add: scheduler_run_def Let_def abstract_schedule_def)
  next
    case False
    then have all: "\<And>t. t \<in> set tasks \<Longrightarrow> ss_task_runs s (td_task_id t) = Some (run_of t (work (td_task_id t)))"
      using stuck runs known by auto
    then have "block_missing uid tasks (ss_task_runs s) = ss_task_runs s" by (intro block_missing_none) simp
    moreover have "map (abstract_run uid work tasks init) tasks = map (\<lambda>t. run_of t (work (td_task_id t))) tasks"
      using False stuck by (simp add: abstract_run_def Let_def)
    moreover have "ordered_runs tasks (ss_task_runs s) = Some (map (\<lambda>t. run_of t (work (td_task_id t))) tasks)"
      by (rule ordered_runs_Some) (rule all)
    ultimately show ?thesis using False assms(3) card loop stuck all
      by (simp add: scheduler_run_def Let_def abstract_schedule_def)
  qed
qed

end
