(* ===== verification/Team_Props.thy ===== *)
theory Team_Props imports Team_Validation Team_Schedule_Props begin

text \<open>
  What validating a team buys: the shape of a validated dependency graph, what happens on a cyclic one,
  how the two handoff checks differ, and that a validated team is scheduled to the end.
\<close>

section \<open>The dependency graph\<close>

definition edges :: "graph \<Rightarrow> (string \<times> string) set" where
  "edges g = {(x, d). d \<in> set (deps_of g x) \<and> map_of g d \<noteq> None}"

definition inner_deps :: "graph \<Rightarrow> string \<Rightarrow> string list" where
  "inner_deps g x = filter (\<lambda>d. map_of g d \<noteq> None) (deps_of g x)"

lemma edges_iff: "(x, d) \<in> edges g \<longleftrightarrow> d \<in> set (inner_deps g x)"
  by (simp add: edges_def inner_deps_def)

lemma tasks_by_id_append: "tasks_by_id (tasks @ [t]) = (tasks_by_id tasks)(td_task_id t \<mapsto> t)"
  by (simp add: tasks_by_id_def)

lemma graph_of_append: "graph_of (tasks @ [t]) = AList.update (td_task_id t) (td_depends_on t) (graph_of tasks)"
  by (simp add: graph_of_def)

lemma map_of_graph: "map_of (graph_of tasks) i = map_option td_depends_on (tasks_by_id tasks i)"
proof (induction tasks rule: rev_induct)
  case (snoc t tasks)
  then show ?case by (simp only: graph_of_append tasks_by_id_append update_conv' fun_upd_apply) simp
qed (simp add: graph_of_def tasks_by_id_def)

section \<open>The search for a cycle\<close>

lemma visit_sound:
  "visit limit g x visiting visited = Some (c, visiting1, visited1) \<Longrightarrow>
     \<forall>y \<in> visiting. (y, x) \<in> (edges g)\<^sup>+ \<Longrightarrow>
     (c \<longrightarrow> (\<exists>z. (z, z) \<in> (edges g)\<^sup>+)) \<and> (\<not> c \<longrightarrow> visiting1 = visiting)"
  "visit_deps limit g ds visiting visited = Some (c, visiting1, visited1) \<Longrightarrow>
     \<forall>d \<in> set ds. \<forall>y \<in> visiting. map_of g d \<noteq> None \<longrightarrow> (y, d) \<in> (edges g)\<^sup>+ \<Longrightarrow>
     (c \<longrightarrow> (\<exists>z. (z, z) \<in> (edges g)\<^sup>+)) \<and> (\<not> c \<longrightarrow> visiting1 = visiting)"
proof (induction limit g x visiting visited and limit g ds visiting visited
    arbitrary: c visiting1 visited1 and c visiting1 visited1 rule: visit_visit_deps.induct)
  case (2 limit g x visiting visited)
  show ?case
  proof (cases "x \<in> visiting \<or> x \<in> visited")
    case True
    then show ?thesis using 2(2,3) by (auto split: if_splits)
  next
    case False
    then obtain c2 v2 w2 where sub: "visit_deps limit g (deps_of g x) (insert x visiting) visited = Some (c2, v2, w2)"
      and res: "c = c2" "\<not> c2 \<Longrightarrow> visiting1 = v2 - {x}"
      using 2(2) by (auto split: option.splits if_splits)
    have "\<forall>d \<in> set (deps_of g x). \<forall>y \<in> insert x visiting. map_of g d \<noteq> None \<longrightarrow> (y, d) \<in> (edges g)\<^sup>+"
      using 2(3) by (auto simp: edges_def intro: trancl_into_trancl)
    from 2(1) [OF _ _ sub this] False res show ?thesis by auto
  qed
next
  case (4 limit g d ds visiting visited)
  show ?case
  proof (cases "map_of g d = None")
    case True
    then have "visit_deps limit g ds visiting visited = Some (c, visiting1, visited1)" using 4(4) by simp
    from 4(1) [OF True this] 4(5) show ?thesis by simp
  next
    case False
    then obtain c2 v2 w2 where sub: "visit limit g d visiting visited = Some (c2, v2, w2)"
      using 4(4) by (auto split: option.splits)
    have "\<forall>y \<in> visiting. (y, d) \<in> (edges g)\<^sup>+" using 4(5) False by auto
    note IH = 4(2) [OF False sub this]
    show ?thesis
    proof (cases c2)
      case True
      then show ?thesis using IH 4(4) sub False by auto
    next
      case nc: False
      then have "visit_deps limit g ds visiting w2 = Some (c, visiting1, visited1)"
        using 4(4) sub False IH by simp
      with 4(3) [OF False sub refl refl] nc IH 4(5) show ?thesis by simp
    qed
  qed
qed simp_all

lemma has_cycle_sound: "has_cycle limit g = Some True \<Longrightarrow> \<exists>z. (z, z) \<in> (edges g)\<^sup>+"
  using visit_sound(2) [of limit g "map fst g" "{}" "{}"] by (fastforce simp: has_cycle_def)

section \<open>The depth\<close>

text \<open>The memo holds the depth of a task only with those of its dependencies.\<close>

definition memo_ok :: "graph \<Rightarrow> (string \<rightharpoonup> nat) \<Rightarrow> bool" where
  "memo_ok g m \<longleftrightarrow> (\<forall>x v. m x = Some v \<longrightarrow>
     set (inner_deps g x) \<subseteq> dom m \<and> v = 1 + max_or_zero (map (\<lambda>d. the (m d)) (inner_deps g x)))"

lemma map_upd_skip: "x \<notin> set ds \<Longrightarrow> map (\<lambda>d. the ((m(x \<mapsto> v)) d)) ds = map (\<lambda>d. the (m d)) ds"
  by (induction ds) auto

lemma memo_okD:
  "memo_ok g m \<Longrightarrow> m x = Some v \<Longrightarrow>
     set (inner_deps g x) \<subseteq> dom m \<and> v = 1 + max_or_zero (map (\<lambda>d. the (m d)) (inner_deps g x))"
  unfolding memo_ok_def by blast

lemma memo_ok_update:
  assumes "memo_ok g m" "set (inner_deps g x) \<subseteq> dom m"
    and v: "v = 1 + max_or_zero (map (\<lambda>d. the (m d)) (inner_deps g x))"
  shows "memo_ok g (m(x \<mapsto> v))"
proof (cases "m x")
  case None
  then have x: "x \<notin> set (inner_deps g x)" using assms(2) by auto
  show ?thesis unfolding memo_ok_def
  proof (intro allI impI)
    fix y w assume y: "(m(x \<mapsto> v)) y = Some w"
    show "set (inner_deps g y) \<subseteq> dom (m(x \<mapsto> v)) \<and>
        w = 1 + max_or_zero (map (\<lambda>d. the ((m(x \<mapsto> v)) d)) (inner_deps g y))"
    proof (cases "y = x")
      case True
      have "set (inner_deps g x) \<subseteq> dom (m(x \<mapsto> v))" using assms(2) by auto
      then show ?thesis using True y v by (simp only: map_upd_skip [OF x] fun_upd_same option.inject simp_thms)
    next
      case False
      then have "m y = Some w" using y by simp
      note ok = memo_okD [OF assms(1) this]
      then have "x \<notin> set (inner_deps g y)" using None by auto
      then have "map (\<lambda>d. the ((m(x \<mapsto> v)) d)) (inner_deps g y) = map (\<lambda>d. the (m d)) (inner_deps g y)"
        by (rule map_upd_skip)
      moreover have "set (inner_deps g y) \<subseteq> dom (m(x \<mapsto> v))" using ok by auto
      ultimately show ?thesis using ok by (simp only: simp_thms)
    qed
  qed
next
  case (Some w)
  then have "m(x \<mapsto> v) = m" using memo_okD [OF assms(1) Some] v by auto
  then show ?thesis using assms(1) by simp
qed

lemma depth_memo:
  "depth limit g x m = Some (v, m1) \<Longrightarrow> memo_ok g m \<Longrightarrow> memo_ok g m1 \<and> m \<subseteq>\<^sub>m m1 \<and> m1 x = Some v"
  "depths limit g ds m = Some (vs, m1) \<Longrightarrow> memo_ok g m \<Longrightarrow>
     memo_ok g m1 \<and> m \<subseteq>\<^sub>m m1 \<and> set (filter (\<lambda>d. map_of g d \<noteq> None) ds) \<subseteq> dom m1 \<and>
     vs = map (\<lambda>d. the (m1 d)) (filter (\<lambda>d. map_of g d \<noteq> None) ds)"
proof (induction limit g x m and limit g ds m arbitrary: v m1 and vs m1 rule: depth_depths.induct)
  case (2 limit g x m)
  show ?case
  proof (cases "m x")
    case (Some w)
    then show ?thesis using 2(2,3) by simp
  next
    case None
    show ?thesis
    proof (cases "deps_of g x = []")
      case True
      then have "v = 1" "m1 = m(x \<mapsto> 1)" using 2(2) None by auto
      moreover have "memo_ok g (m(x \<mapsto> 1))"
        by (rule memo_ok_update [OF 2(3)]) (simp_all add: True inner_deps_def max_or_zero_def)
      ultimately show ?thesis using None
        by (simp only: map_le_def) auto
    next
      case False
      then obtain vs m2 where sub: "depths limit g (deps_of g x) m = Some (vs, m2)"
        and res: "v = 1 + max_or_zero vs" "m1 = m2(x \<mapsto> v)"
        using 2(2) None by (auto split: option.splits)
      from 2(1) [OF None False sub 2(3)]
      have m2: "memo_ok g m2" "m \<subseteq>\<^sub>m m2" "set (inner_deps g x) \<subseteq> dom m2"
        "vs = map (\<lambda>d. the (m2 d)) (inner_deps g x)" by (simp_all add: inner_deps_def)
      have "memo_ok g m1" unfolding res(2) by (rule memo_ok_update [OF m2(1,3)]) (simp add: res(1) m2(4))
      moreover have "m \<subseteq>\<^sub>m m1" using m2(2) None unfolding res(2) by (auto simp: map_le_def dom_def)
      ultimately show ?thesis by (simp only: res(2) fun_upd_same simp_thms)
    qed
  qed
next
  case (4 limit g d ds m)
  show ?case
  proof (cases "map_of g d = None")
    case True
    then have "depths limit g ds m = Some (vs, m1)" using 4(4) by simp
    from 4(1) [OF True this 4(5)] True show ?thesis by simp
  next
    case False
    then obtain v m2 vs2 where sub: "depth limit g d m = Some (v, m2)" "depths limit g ds m2 = Some (vs2, m1)"
      and vs: "vs = v # vs2"
      using 4(4) by (auto split: option.splits)
    from 4(2) [OF False sub(1) 4(5)] have m2: "memo_ok g m2" "m \<subseteq>\<^sub>m m2" "m2 d = Some v" by simp_all
    from 4(3) [OF False sub(1) refl sub(2) m2(1)] have m1: "memo_ok g m1" "m2 \<subseteq>\<^sub>m m1"
      "set (filter (\<lambda>d. map_of g d \<noteq> None) ds) \<subseteq> dom m1"
      "vs2 = map (\<lambda>d. the (m1 d)) (filter (\<lambda>d. map_of g d \<noteq> None) ds)" by simp_all
    have "m1 d = Some v" using m1(2) m2(3) by (metis domI map_le_def)
    then show ?thesis using False m1 m2 vs map_le_trans by auto
  qed
qed simp_all

lemma max_or_zero_ge: "v \<in> set vs \<Longrightarrow> v \<le> max_or_zero vs"
  by (induction vs) (auto simp: max_or_zero_def)

lemma graph_depth_rank:
  assumes "graph_depth limit g = Some D"
  obtains rank where "\<And>x. map_of g x \<noteq> None \<Longrightarrow> 1 \<le> rank x \<and> rank x \<le> D"
    "\<And>x d. map_of g x \<noteq> None \<Longrightarrow> (x, d) \<in> edges g \<Longrightarrow> rank d < rank x"
proof (cases "g = []")
  case True
  then show ?thesis using that [of "\<lambda>_. 1"] by simp
next
  case False
  then obtain vs m where sub: "depths limit g (map fst g) Map.empty = Some (vs, m)" and D: "D = max_or_zero vs"
    using assms by (auto simp: graph_depth_def)
  have "memo_ok g Map.empty" by (simp add: memo_ok_def)
  note all = depth_memo(2) [OF sub this]
  have keys: "filter (\<lambda>d. map_of g d \<noteq> None) (map fst g) = map fst g"
    by (rule filter_True) (auto simp: map_of_eq_None_iff)
  have some: "\<exists>v. m x = Some v \<and> v \<in> set vs" if "map_of g x \<noteq> None" for x
  proof -
    have "x \<in> set (map fst g)" using that by (auto simp: map_of_eq_None_iff)
    then show ?thesis using all unfolding keys by force
  qed
  show ?thesis
  proof (rule that [of "\<lambda>x. the (m x)"])
    fix x assume x: "map_of g x \<noteq> None"
    then obtain v where v: "m x = Some v" "v \<in> set vs" using some by blast
    then have ex: "v = 1 + max_or_zero (map (\<lambda>d. the (m d)) (inner_deps g x))"
      using all by (auto simp: memo_ok_def)
    show "1 \<le> the (m x) \<and> the (m x) \<le> D" using v ex max_or_zero_ge [OF v(2)] D by simp
    fix d assume "(x, d) \<in> edges g"
    then have "the (m d) \<in> set (map (\<lambda>d. the (m d)) (inner_deps g x))" by (auto simp: edges_iff)
    from max_or_zero_ge [OF this] show "the (m d) < the (m x)" using v ex by simp
  qed
qed

lemma ranked_acyclic:
  assumes "\<And>x d. map_of g x \<noteq> None \<Longrightarrow> (x, d) \<in> edges g \<Longrightarrow> rank d < (rank x :: nat)"
  shows "(x, z) \<in> (edges g)\<^sup>+ \<Longrightarrow> rank z < rank x"
proof (induction rule: trancl_induct)
  have src: "(x, d) \<in> edges g \<Longrightarrow> map_of g x \<noteq> None" for x d
    by (cases "map_of g x") (auto simp: edges_def deps_of_def)
  case (base y)
  then show ?case using assms src by blast
next
  case (step y z)
  have "map_of g y \<noteq> None" using step(2) by (cases "map_of g y") (auto simp: edges_def deps_of_def)
  then show ?case using assms step by force
qed

lemma cyclic_no_depth: "(z, z) \<in> (edges g)\<^sup>+ \<Longrightarrow> graph_depth limit g = None"
  using graph_depth_rank ranked_acyclic by (metis less_irrefl not_None_eq)

section \<open>A concrete team\<close>

definition demo_agent :: agent_definition where
  "demo_agent = \<lparr>ag_agent_id = ''a'', ag_role = ''Analyst'', ag_allowed_task_types = [], ag_profile_name = None,
     ag_model_overrides = [], ag_memory_scope_access = [''session''], ag_tool_policy_profile = None,
     ag_approval_mode = Auto\<rparr>"

definition demo_task :: "string \<Rightarrow> string list \<Rightarrow> task_definition" where
  "demo_task i deps = \<lparr>td_task_id = i, td_title = ''t'', td_task_type = ''chat'', td_role = ''analyst'',
     td_depends_on = deps, td_input_template = None, td_memory_target = None\<rparr>"

definition demo_team :: "task_definition list \<Rightarrow> team_spec" where
  "demo_team tasks = \<lparr>ts_version = ''1'',
     ts_team = \<lparr>tm_team_id = ''team'', tm_agents = [demo_agent], tm_supervisor_policy = ''p'', tm_handoff_rules = [],
       tm_termination_rules = \<lparr>tr_max_tasks = 64, tr_max_retries = 1, tr_max_handoff_depth = 8\<rparr>\<rparr>,
     ts_tasks = tasks\<rparr>"

definition demo_tasks :: "task_definition list" where
  "demo_tasks = [demo_task ''b'' [''a''], demo_task ''a'' []]"

definition demo_work :: "string \<Rightarrow> outcome" where
  "demo_work i = Returned (unassigned_run ''r'' (demo_task i []) TaskCompleted ''ok'')"

definition one_by_one :: "nat \<Rightarrow> sched_state \<Rightarrow> string list" where
  "one_by_one i s = take 1 (ss_running s)"

lemma one_by_one_legal: "legal_waits one_by_one"
  unfolding legal_waits_def one_by_one_def
proof (intro allI impI)
  fix s :: sched_state
  assume "ss_running s \<noteq> []"
  then show "take 1 (ss_running s) \<noteq> [] \<and> distinct (take 1 (ss_running s)) \<and>
      set (take 1 (ss_running s)) \<subseteq> set (ss_running s)"
    by (cases "ss_running s") auto
qed

lemma demo_valid: "validate_team_spec 100 (\<lambda>_. False) None (demo_team demo_tasks) = Some []"
  by code_simp

lemma demo_distinct: "distinct (map td_task_id demo_tasks)"
  by (simp add: demo_tasks_def demo_task_def)

section \<open>The scheduler\<close>

text \<open>
  C12: Whatever threads do, the scheduler is never seen in an unsafe state.  Whenever its loop waits for
  tasks to finish, no more of them run than \<open>max_parallel_tasks\<close>, no task is pending, running or
  finished twice, a task was started only when every task it depends on was completed before the call
  or has itself finished as completed, and a finished task keeps exactly the run its worker produced.
  It is stated of \<open>scheduler_run\<close> itself: a call that would hang for ever in the first unsafe state
  (\<open>watched\<close>, \<open>watched_hangs\<close>) returns, and the same result.  (For tasks with distinct ids and no more
  than \<open>max_total_tasks\<close> of them; the other calls start nothing.)
\<close>

theorem scheduler_safe:
  assumes "legal_waits waits" "distinct (map td_task_id tasks)" "length tasks \<le> at_least_one max_total"
  shows "scheduler_run max_parallel max_total uid work
      (watched (safe_state (at_least_one max_parallel) tasks work init) waits) tasks init =
    scheduler_run max_parallel max_total uid work waits tasks init \<and>
    scheduler_run max_parallel max_total uid work waits tasks init \<noteq> None"
proof
  have "0 < at_least_one max_parallel" by (simp add: at_least_one_def)
  then have same: "sched_loop (at_least_one max_parallel) (tasks_by_id tasks) work
      (watched (safe_state (at_least_one max_parallel) tasks work init) waits) 0 (initial_state tasks init) =
    sched_loop (at_least_one max_parallel) (tasks_by_id tasks) work waits 0 (initial_state tasks init)"
    by (rule sched_loop_watched [OF assms(1) _ sched_inv_initial [OF assms(2)]]) (rule sched_inv_safe)
  show "scheduler_run max_parallel max_total uid work
      (watched (safe_state (at_least_one max_parallel) tasks work init) waits) tasks init =
    scheduler_run max_parallel max_total uid work waits tasks init"
    unfolding scheduler_run_def Let_def same ..
  show "scheduler_run max_parallel max_total uid work waits tasks init \<noteq> None"
    using scheduler_refines [OF assms] by simp
qed

theorem scheduler_safe_witness:
  "scheduler_run 1 64 (\<lambda>_. ''u'') demo_work (watched (safe_state 1 demo_tasks demo_work {}) one_by_one) demo_tasks {} =
     scheduler_run 1 64 (\<lambda>_. ''u'') demo_work one_by_one demo_tasks {}"
proof -
  have "length demo_tasks \<le> at_least_one 64" by (simp add: demo_tasks_def at_least_one_def)
  from scheduler_safe [OF one_by_one_legal demo_distinct this, of 1] show ?thesis by (simp add: at_least_one_def)
qed

text \<open>
  C13: For tasks with distinct ids, no more of them than \<open>max_total_tasks\<close> (the two checks before the
  schedule), the scheduler always returns, and what it returns does not depend on the threads: for every
  order in which the library may report finished tasks and every degree of parallelism, the result is
  the abstract schedule, which executes exactly the tasks whose dependencies are met, blocks the
  others as a deadlock, and otherwise reports an escalation when a run did not complete.
\<close>

theorem schedule_refines:
  assumes "legal_waits waits" "distinct (map td_task_id tasks)" "length tasks \<le> at_least_one max_total"
  shows "scheduler_run max_parallel max_total uid work waits tasks init = Some (abstract_schedule uid work tasks init)"
  by (rule scheduler_refines [OF assms])

theorem schedule_refines_witness:
  "scheduler_run 2 64 (\<lambda>_. ''u'') demo_work one_by_one demo_tasks {} =
     Some (abstract_schedule (\<lambda>_. ''u'') demo_work demo_tasks {})"
  by (rule schedule_refines [OF one_by_one_legal demo_distinct]) (simp add: demo_tasks_def at_least_one_def)

section \<open>Validation\<close>

lemma concat_map_Nil: "concat (map f xs) = [] \<longleftrightarrow> (\<forall>x \<in> set xs. f x = [])"
  by auto

lemma task_errors_Nil:
  "task_errors roles seen tasks = [] \<longleftrightarrow> distinct (map td_task_id tasks) \<and>
     set (map td_task_id tasks) \<inter> seen = {} \<and> (\<forall>t \<in> set tasks. py_lower (py_strip (td_role t)) \<in> roles)"
  by (induction roles seen tasks rule: task_errors.induct) auto

lemma dependency_errors_Nil:
  "dependency_errors tasks = [] \<longleftrightarrow>
     (\<forall>t \<in> set tasks. \<forall>d \<in> set (td_depends_on t). tasks_by_id tasks d \<noteq> None)"
  by (simp only: dependency_errors_def concat_map_Nil) simp

lemma dependency_known:
  assumes "dependency_errors tasks = []" "t \<in> set tasks" "d \<in> set (td_depends_on t)"
  obtains u where "tasks_by_id tasks d = Some u"
  using assms unfolding dependency_errors_Nil by blast

lemma validated:
  assumes "validate_team_spec limit profile_exists active spec = Some []"
  defines "tasks \<equiv> ts_tasks spec"
  obtains D where "has_cycle limit (graph_of tasks) = Some False" "graph_depth limit (graph_of tasks) = Some D"
    "int D \<le> tr_max_handoff_depth (tm_termination_rules (ts_team spec))"
    "task_errors (set (map (\<lambda>a. py_lower (py_strip (ag_role a))) (tm_agents (ts_team spec)))) {} tasks = []"
    "dependency_errors tasks = []" "handoff_errors spec = []"
    "\<forall>a \<in> set (tm_agents (ts_team spec)). agent_errors profile_exists active a = []"
  using assms by (auto simp: validate_team_spec_def Let_def split: option.splits if_splits)

lemma validated_rank:
  assumes "validate_team_spec limit profile_exists active spec = Some []"
  obtains rank where "\<And>t. t \<in> set (ts_tasks spec) \<Longrightarrow>
      1 \<le> rank (td_task_id t) \<and> int (rank (td_task_id t)) \<le> tr_max_handoff_depth (tm_termination_rules (ts_team spec))"
    "\<And>t d. t \<in> set (ts_tasks spec) \<Longrightarrow> d \<in> set (td_depends_on t) \<Longrightarrow> rank d < (rank (td_task_id t) :: nat)"
proof -
  obtain D where D: "graph_depth limit (graph_of (ts_tasks spec)) = Some D"
    "int D \<le> tr_max_handoff_depth (tm_termination_rules (ts_team spec))"
    and errs: "task_errors (set (map (\<lambda>a. py_lower (py_strip (ag_role a))) (tm_agents (ts_team spec)))) {} (ts_tasks spec) = []"
      "dependency_errors (ts_tasks spec) = []"
    by (rule validated [OF assms])
  have dist: "distinct (map td_task_id (ts_tasks spec))" using errs(1) by (simp add: task_errors_Nil)
  have known: "map_of (graph_of (ts_tasks spec)) (td_task_id t) = Some (td_depends_on t)" if "t \<in> set (ts_tasks spec)" for t
    using tasks_by_id_distinct [OF dist that] by (simp add: map_of_graph)
  obtain rank where rank: "\<And>x. map_of (graph_of (ts_tasks spec)) x \<noteq> None \<Longrightarrow> 1 \<le> rank x \<and> rank x \<le> D"
    "\<And>x d. map_of (graph_of (ts_tasks spec)) x \<noteq> None \<Longrightarrow> (x, d) \<in> edges (graph_of (ts_tasks spec)) \<Longrightarrow> rank d < rank x"
    by (rule graph_depth_rank [OF D(1)]) blast
  show ?thesis
  proof (rule that [of rank])
    fix t assume t: "t \<in> set (ts_tasks spec)"
    show "1 \<le> rank (td_task_id t) \<and> int (rank (td_task_id t)) \<le> tr_max_handoff_depth (tm_termination_rules (ts_team spec))"
      using rank(1) [of "td_task_id t"] known [OF t] D(2) by simp
    fix d assume d: "d \<in> set (td_depends_on t)"
    have "map_of (graph_of (ts_tasks spec)) d \<noteq> None"
      using errs(2) t d by (auto simp: dependency_errors_Nil map_of_graph)
    then have "(td_task_id t, d) \<in> edges (graph_of (ts_tasks spec))"
      using known [OF t] d by (simp add: edges_def deps_of_def)
    then show "rank d < rank (td_task_id t)" using rank(2) known [OF t] by simp
  qed
qed

text \<open>
  A team that validates without an error is well formed: task ids are unique, roles and
  dependencies are defined, the dependencies can be ranked from 1 to the allowed depth (so there is no
  cycle and no longer chain), every dependency edge is covered by the handoff rules if there are any,
  and every agent has a memory scope and a profile that exists and is the active one.
\<close>

theorem validation_sound:
  assumes "validate_team_spec limit profile_exists active spec = Some []"
  shows "distinct (map td_task_id (ts_tasks spec)) \<and>
    (\<forall>t \<in> set (ts_tasks spec). (\<exists>a \<in> set (tm_agents (ts_team spec)).
       py_lower (py_strip (ag_role a)) = py_lower (py_strip (td_role t)))) \<and>
    (\<exists>rank. \<forall>t \<in> set (ts_tasks spec). 1 \<le> rank (td_task_id t) \<and>
       int (rank (td_task_id t)) \<le> tr_max_handoff_depth (tm_termination_rules (ts_team spec)) \<and>
       (\<forall>d \<in> set (td_depends_on t). (\<exists>u. tasks_by_id (ts_tasks spec) d = Some u \<and>
          (tm_handoff_rules (ts_team spec) \<noteq> [] \<longrightarrow>
             handoff_allowed (tm_handoff_rules (ts_team spec)) (td_role u) (td_role t))) \<and>
          rank d < (rank (td_task_id t) :: nat))) \<and>
    (\<forall>a \<in> set (tm_agents (ts_team spec)). ag_memory_scope_access a \<noteq> [] \<and>
       (requested_profile a \<notin> {[], ''default''} \<longrightarrow>
          profile_exists (requested_profile a) \<and> (active = None \<or> active = Some (requested_profile a))))"
proof -
  obtain D where "has_cycle limit (graph_of (ts_tasks spec)) = Some False" and D: "graph_depth limit (graph_of (ts_tasks spec)) = Some D"
    "int D \<le> tr_max_handoff_depth (tm_termination_rules (ts_team spec))"
    and errs: "task_errors (set (map (\<lambda>a. py_lower (py_strip (ag_role a))) (tm_agents (ts_team spec)))) {} (ts_tasks spec) = []"
      "dependency_errors (ts_tasks spec) = []" "handoff_errors spec = []"
      "\<forall>a \<in> set (tm_agents (ts_team spec)). agent_errors profile_exists active a = []"
    by (rule validated [OF assms])
  obtain rank where rank: "\<And>t. t \<in> set (ts_tasks spec) \<Longrightarrow>
      1 \<le> rank (td_task_id t) \<and> int (rank (td_task_id t)) \<le> tr_max_handoff_depth (tm_termination_rules (ts_team spec))"
    "\<And>t d. t \<in> set (ts_tasks spec) \<Longrightarrow> d \<in> set (td_depends_on t) \<Longrightarrow> rank d < (rank (td_task_id t) :: nat)"
    by (rule validated_rank [OF assms]) blast
  have roles: "\<forall>t \<in> set (ts_tasks spec). (\<exists>a \<in> set (tm_agents (ts_team spec)).
       py_lower (py_strip (ag_role a)) = py_lower (py_strip (td_role t)))"
    using errs(1) by (force simp: task_errors_Nil)
  have handoff: "\<exists>u. tasks_by_id (ts_tasks spec) d = Some u \<and>
      (tm_handoff_rules (ts_team spec) \<noteq> [] \<longrightarrow>
         handoff_allowed (tm_handoff_rules (ts_team spec)) (td_role u) (td_role t))"
    if t: "t \<in> set (ts_tasks spec)" and d: "d \<in> set (td_depends_on t)" for t d
  proof -
    obtain u where "tasks_by_id (ts_tasks spec) d = Some u" by (rule dependency_known [OF errs(2) t d])
    then show ?thesis using errs(3) t d
      by (fastforce simp: handoff_errors_def Let_def concat_map_Nil split: if_splits)
  qed
  have agents: "\<forall>a \<in> set (tm_agents (ts_team spec)). ag_memory_scope_access a \<noteq> [] \<and>
       (requested_profile a \<notin> {[], ''default''} \<longrightarrow>
          profile_exists (requested_profile a) \<and> (active = None \<or> active = Some (requested_profile a)))"
  proof
    fix a assume "a \<in> set (tm_agents (ts_team spec))"
    then have "agent_errors profile_exists active a = []" using errs(4) by blast
    then show "ag_memory_scope_access a \<noteq> [] \<and> (requested_profile a \<notin> {[], ''default''} \<longrightarrow>
          profile_exists (requested_profile a) \<and> (active = None \<or> active = Some (requested_profile a)))"
      by (auto simp: agent_errors_def Let_def split: if_splits option.splits)
  qed
  show ?thesis
    using errs(1) roles agents rank handoff by (auto simp: task_errors_Nil intro!: exI [of _ rank])
qed

theorem validation_sound_witness:
  "\<exists>rank. 1 \<le> rank ''a'' \<and> rank ''a'' < (rank ''b'' :: nat) \<and> int (rank ''b'') \<le> 8"
proof -
  have tasks: "ts_tasks (demo_team demo_tasks) = [demo_task ''b'' [''a''], demo_task ''a'' []]"
    and bound: "tr_max_handoff_depth (tm_termination_rules (ts_team (demo_team demo_tasks))) = 8"
    by (simp_all add: demo_team_def demo_tasks_def)
  obtain rank where "\<forall>t \<in> set (ts_tasks (demo_team demo_tasks)). 1 \<le> rank (td_task_id t) \<and>
      int (rank (td_task_id t)) \<le> 8 \<and> (\<forall>d \<in> set (td_depends_on t). rank d < (rank (td_task_id t) :: nat))"
    using validation_sound [OF demo_valid] unfolding bound by blast
  then have "1 \<le> rank ''a'' \<and> rank ''a'' < rank ''b'' \<and> int (rank ''b'') \<le> 8"
    unfolding tasks by (simp add: demo_task_def)
  then show ?thesis by blast
qed

text \<open>
  C15: A dependency cycle is never reported: validating a team whose task graph has a cycle raises
  \<open>RecursionError\<close> at whatever depth Python allows, because the depth of the graph is computed even
  after the cycle was found, and the message about a cycle is never returned.
\<close>

theorem cyclic_spec_raises:
  "((z, z) \<in> (edges (graph_of (ts_tasks spec)))\<^sup>+ \<longrightarrow> validate_team_spec limit profile_exists active spec = None) \<and>
   (has_cycle limit (graph_of (ts_tasks spec)) = Some True \<longrightarrow>
      validate_team_spec limit profile_exists active spec = None)"
proof -
  have none: "validate_team_spec limit profile_exists active spec = None"
    if "(y, y) \<in> (edges (graph_of (ts_tasks spec)))\<^sup>+" for y
    using cyclic_no_depth [OF that, of limit] by (simp add: validate_team_spec_def Let_def split: option.split)
  then show ?thesis using has_cycle_sound by blast
qed

theorem cyclic_spec_raises_witness:
  "validate_team_spec 900 (\<lambda>_. True) None (demo_team [demo_task ''a'' [''b''], demo_task ''b'' [''a'']]) = None"
proof -
  have "has_cycle 900 (graph_of (ts_tasks (demo_team [demo_task ''a'' [''b''], demo_task ''b'' [''a'']]))) = Some True"
    by code_simp
  then show ?thesis using cyclic_spec_raises [of _ "demo_team [demo_task ''a'' [''b''], demo_task ''b'' [''a'']]" 900] by blast
qed

text \<open>
  The two handoff checks agree on rules that name both roles: what validation accepts for a
  dependency edge the supervisor accepts when the task runs.
\<close>

theorem handoff_checks_agree:
  assumes "\<forall>r \<in> set rules. py_strip (hr_from_role r) \<noteq> [] \<and> py_strip (hr_to_role r) \<noteq> []"
  shows "runtime_handoff_allowed rules f t = handoff_allowed rules f t"
  using assms
proof (induction rules)
  case (Cons r rules)
  have lower: "py_lower s = [] \<longleftrightarrow> s = []" for s by (simp add: py_lower_def)
  from Cons show ?case by (auto simp: Let_def lower)
qed simp

theorem handoff_checks_agree_witness:
  "runtime_handoff_allowed [\<lparr>hr_from_role = ''a'', hr_to_role = ''b'', hr_required = True\<rparr>] ''A '' ''b'' =
   handoff_allowed [\<lparr>hr_from_role = ''a'', hr_to_role = ''b'', hr_required = True\<rparr>] ''A '' ''b''"
  by (rule handoff_checks_agree) code_simp

text \<open>They differ on a rule with a blank role, which validation takes to match every role.\<close>

lemma wildcard_rule_differs:
  "handoff_allowed [\<lparr>hr_from_role = [], hr_to_role = [], hr_required = True\<rparr>] ''a'' ''b'' \<and>
   \<not> runtime_handoff_allowed [\<lparr>hr_from_role = [], hr_to_role = [], hr_required = True\<rparr>] ''a'' ''b''"
  by code_simp

section \<open>Validated teams\<close>

lemma over_budget_blocks_all:
  "at_least_one max_total < length tasks \<Longrightarrow>
     scheduler_run max_parallel max_total uid work waits tasks init =
       Some \<lparr>sr_tasks = all_blocked uid ''TEAM_BUDGET_EXCEEDED'' tasks, sr_reason_code = Some ''TEAM_BUDGET_EXCEEDED''\<rparr>"
  by (simp add: scheduler_run_def)

text \<open>
  C14: A validated team with no more tasks than the scheduler's \<open>max_total_tasks\<close> runs to the end: when no
  worker fails, the scheduler returns a completed run for every task, in the order of the specification,
  and no reason code, whatever the parallelism and the order in which tasks finish.  (Validation does not
  imply the bound: a validated team over it is blocked as a whole, \<open>over_budget_blocks_all\<close>.)
\<close>

theorem validated_team_completes:
  assumes "validate_team_spec limit profile_exists active spec = Some []" "legal_waits waits"
    and "length (ts_tasks spec) \<le> at_least_one max_total"
    and "\<forall>t \<in> set (ts_tasks spec). tk_status (run_of t (work (td_task_id t))) = TaskCompleted"
  shows "scheduler_run max_parallel max_total uid work waits (ts_tasks spec) {} =
    Some \<lparr>sr_tasks = map (\<lambda>t. run_of t (work (td_task_id t))) (ts_tasks spec), sr_reason_code = None\<rparr>"
proof -
  let ?tasks = "ts_tasks spec"
  obtain D where "has_cycle limit (graph_of ?tasks) = Some False" "graph_depth limit (graph_of ?tasks) = Some D"
    "int D \<le> tr_max_handoff_depth (tm_termination_rules (ts_team spec))"
    and errs: "task_errors (set (map (\<lambda>a. py_lower (py_strip (ag_role a))) (tm_agents (ts_team spec)))) {} ?tasks = []"
      "dependency_errors ?tasks = []"
    by (rule validated [OF assms(1)])
  have dist: "distinct (map td_task_id ?tasks)" using errs(1) by (simp add: task_errors_Nil)
  obtain rank where rank: "\<And>t d. t \<in> set ?tasks \<Longrightarrow> d \<in> set (td_depends_on t) \<Longrightarrow> rank d < (rank (td_task_id t) :: nat)"
    by (rule validated_rank [OF assms(1)]) blast
  have can: "can_run ?tasks work {} (td_task_id t)" if "t \<in> set ?tasks" for t
    using that
  proof (induction "rank (td_task_id t)" arbitrary: t rule: less_induct)
    case less
    have "can_run ?tasks work {} d \<and> finishes ?tasks work d" if d: "d \<in> set (td_depends_on t)" for d
    proof -
      obtain u where u: "tasks_by_id ?tasks d = Some u" by (rule dependency_known [OF errs(2) less.prems d])
      then have "u \<in> set ?tasks" "td_task_id u = d" by (auto dest: tasks_by_id_SomeD)
      then show ?thesis using less.hyps [of u] rank [OF less.prems d] assms(4) u by (auto simp: finishes_def)
    qed
    then show ?case using can_run.ready [OF tasks_by_id_distinct [OF dist less.prems]] by blast
  qed
  have "abstract_schedule uid work ?tasks {} =
      \<lparr>sr_tasks = map (\<lambda>t. run_of t (work (td_task_id t))) ?tasks, sr_reason_code = None\<rparr>"
    using can assms(4) by (auto simp: abstract_schedule_def abstract_run_def Let_def)
  then show ?thesis using scheduler_refines [OF assms(2) dist assms(3)] by simp
qed

theorem validated_team_completes_witness:
  "scheduler_run 1 64 (\<lambda>_. ''u'') demo_work one_by_one (ts_tasks (demo_team demo_tasks)) {} =
     Some \<lparr>sr_tasks = map (\<lambda>t. run_of t (demo_work (td_task_id t))) (ts_tasks (demo_team demo_tasks)),
           sr_reason_code = None\<rparr>"
  by (rule validated_team_completes [OF demo_valid one_by_one_legal])
    (simp_all add: demo_team_def demo_tasks_def demo_task_def demo_work_def unassigned_run_def at_least_one_def)

end
