(* ===== verification/Signing.thy ===== *)
theory Signing imports Json begin

text \<open>
  Signed artifacts, \<open>imperaos/enterprise/signing.py\<close>: the digest and signature a document carries under
  the key \<open>integrity\<close>, and their verification.

  \<^item> \<open>keyring\<close> holds what the functions read from the configuration, the environment and the key
    files: \<open>k_private\<close> is the private key file (\<open>None\<close> when it does not load), \<open>k_manager\<close> the answer
    of the managed signer to a digest and a purpose (\<open>Inl\<close> when the command fails), \<open>k_trusted\<close> the
    trusted key files in the order of their names.
  \<^item> Ed25519 is a parameter: \<open>k_sign\<close> takes the private key and the message, \<open>k_verify\<close> the public key,
    the signature and the message; \<open>k_base64\<close> decodes a text, or fails.
  \<^item> A document is the value its JSON text stands for.  A function that raises returns \<open>Inl\<close> or \<open>None\<close>.
\<close>

section \<open>Keys\<close>

record trusted_key =
  tkey_key_id :: string
  tkey_public_key :: string
  tkey_state :: string

record private_key_material =
  pkey_key_id :: string
  pkey_private_key :: string
  pkey_public_key :: string

record keyring =
  k_hash :: "string \<Rightarrow> string"
  k_provider :: string
  k_private :: "private_key_material option"
  k_manager :: "(string \<Rightarrow> string \<Rightarrow> string + pydict) option"
  k_current_key_id :: "string option"
  k_allow_env_hmac :: bool
  k_env_key :: string
  k_trusted :: "trusted_key list"
  k_revoked :: "string list"
  k_sign :: "string \<Rightarrow> string \<Rightarrow> string"
  k_verify :: "string \<Rightarrow> string \<Rightarrow> string \<Rightarrow> bool"
  k_base64 :: "string \<Rightarrow> string option"

definition fingerprint_public_key :: "keyring \<Rightarrow> string \<Rightarrow> string" where
  "fingerprint_public_key K key =
     k_hash K (case k_base64 K key of None \<Rightarrow> key | Some raw \<Rightarrow> raw)"

text \<open>The last of the files of a key id that is neither revoked by the manifest nor by its state.\<close>

definition load_trusted_keys :: "keyring \<Rightarrow> string \<Rightarrow> trusted_key option" where
  "load_trusted_keys K = foldl (\<lambda>keys t.
     if tkey_key_id t \<in> set (k_revoked K) \<or> tkey_state t = ''revoked'' then keys
     else keys(tkey_key_id t \<mapsto> t)) Map.empty (k_trusted K)"

section \<open>The integrity record\<close>

record integrity_record =
  in_prev_hash :: "string option"
  in_hash :: string
  in_hash_algorithm :: string
  in_signature :: "string option"
  in_signature_mode :: string
  in_key_id :: "string option"
  in_public_key_fingerprint :: "string option"

definition integrity_dump :: "integrity_record \<Rightarrow> pydict" where
  "integrity_dump i =
     [(''prev_hash'', pv_of_opt (in_prev_hash i)), (''hash'', PStr (in_hash i)),
      (''hash_algorithm'', PStr (in_hash_algorithm i)), (''signature'', pv_of_opt (in_signature i)),
      (''signature_mode'', PStr (in_signature_mode i)), (''key_id'', pv_of_opt (in_key_id i)),
      (''public_key_fingerprint'', pv_of_opt (in_public_key_fingerprint i))]"

text \<open>Strict fields: a string, or a string or none with a default.\<close>

definition text_of :: "pydict \<Rightarrow> string \<Rightarrow> string option \<Rightarrow> string option" where
  "text_of d k fallback = (case map_of d k of None \<Rightarrow> fallback | Some (PStr s) \<Rightarrow> Some s | Some _ \<Rightarrow> None)"

definition opt_text_of :: "pydict \<Rightarrow> string \<Rightarrow> string option option" where
  "opt_text_of d k = (case map_of d k of
     None \<Rightarrow> Some None | Some PNone \<Rightarrow> Some None | Some (PStr s) \<Rightarrow> Some (Some s) | Some _ \<Rightarrow> None)"

definition integrity_validate :: "pydict \<Rightarrow> integrity_record option" where
  "integrity_validate d =
     (case (opt_text_of d ''prev_hash'', text_of d ''hash'' None, text_of d ''hash_algorithm'' (Some ''sha256''),
            opt_text_of d ''signature'', text_of d ''signature_mode'' (Some ''unsigned''),
            opt_text_of d ''key_id'', opt_text_of d ''public_key_fingerprint'') of
        (Some prev, Some h, Some alg, Some sig, Some mode, Some kid, Some fp) \<Rightarrow>
          Some \<lparr>in_prev_hash = prev, in_hash = h, in_hash_algorithm = alg, in_signature = sig,
                in_signature_mode = mode, in_key_id = kid, in_public_key_fingerprint = fp\<rparr>
      | _ \<Rightarrow> None)"

definition hash_body :: "pydict \<Rightarrow> string option \<Rightarrow> pyval" where
  "hash_body payload prev_hash = PDict [(''prev_hash'', pv_of_opt prev_hash), (''payload'', PDict payload)]"

definition canonical_payload_hash :: "(string \<Rightarrow> string) \<Rightarrow> pydict \<Rightarrow> string option \<Rightarrow> string" where
  "canonical_payload_hash H payload prev_hash = payload_hash H (hash_body payload prev_hash)"

section \<open>Signing\<close>

record signature_payload =
  sp_signature :: string
  sp_signature_mode :: string
  sp_key_id :: string
  sp_public_key_fingerprint :: string

definition env_hmac :: "keyring \<Rightarrow> string \<Rightarrow> string" where
  "env_hmac K hash_value = k_hash K (py_strip (k_env_key K) @ hash_value)"

definition sign_hash :: "keyring \<Rightarrow> string \<Rightarrow> string \<Rightarrow> string + signature_payload option" where
  "sign_hash K purpose hash_value =
   (if k_provider K = ''local_file'' then
      (case k_private K of
         None \<Rightarrow> Inl ''private key not loaded''
       | Some key \<Rightarrow> Inr (Some
           \<lparr>sp_signature = k_sign K (pkey_private_key key) hash_value, sp_signature_mode = ''ed25519_local_file'',
            sp_key_id = pkey_key_id key, sp_public_key_fingerprint = fingerprint_public_key K (pkey_public_key key)\<rparr>))
    else if k_provider K = ''managed_kms'' then
      (case k_manager K of
         None \<Rightarrow> Inl ''managed_kms provider configured without managed_signer_command''
       | Some command \<Rightarrow>
           (case command hash_value purpose of
              Inl err \<Rightarrow> Inl (''managed_kms signer failed: '' @ err)
            | Inr answer \<Rightarrow>
                let signature = py_str (py_or (dict_get answer ''signature'') (PStr []));
                    key_id = py_str (py_or (py_or (dict_get answer ''key_id'') (pv_of_opt (k_current_key_id K))) (PStr []));
                    public_key = py_str (py_or (dict_get answer ''public_key'') (PStr []))
                in if signature = [] then Inl ''managed_kms signer returned no signature''
                   else Inr (Some
                     \<lparr>sp_signature = signature, sp_signature_mode = ''managed_kms'', sp_key_id = key_id,
                      sp_public_key_fingerprint =
                        (if public_key \<noteq> [] then fingerprint_public_key K public_key else [])\<rparr>)))
    else if k_provider K = ''env_hmac'' \<or>
            (k_provider K = ''disabled'' \<and> k_allow_env_hmac K \<and> py_strip (k_env_key K) \<noteq> []) then
      (if py_strip (k_env_key K) = [] then Inr None
       else Inr (Some
         \<lparr>sp_signature = env_hmac K hash_value, sp_signature_mode = ''env_hmac_compat'', sp_key_id = ''env-hmac'',
          sp_public_key_fingerprint = k_hash K (py_strip (k_env_key K))\<rparr>))
    else Inr None)"

definition unsigned_integrity :: "string option \<Rightarrow> string \<Rightarrow> integrity_record" where
  "unsigned_integrity prev_hash h =
     \<lparr>in_prev_hash = prev_hash, in_hash = h, in_hash_algorithm = ''sha256'', in_signature = None,
      in_signature_mode = ''unsigned'', in_key_id = None, in_public_key_fingerprint = None\<rparr>"

text \<open>\<open>configured\<close>: a configuration is given.\<close>

definition build_integrity ::
  "keyring \<Rightarrow> bool \<Rightarrow> pydict \<Rightarrow> string \<Rightarrow> string option \<Rightarrow> string + pydict" where
  "build_integrity K configured payload purpose prev_hash =
   (let current_hash = canonical_payload_hash (k_hash K) payload prev_hash;
        integrity = unsigned_integrity prev_hash current_hash
    in if \<not> configured then Inr (integrity_dump integrity)
       else case sign_hash K purpose current_hash of
              Inl e \<Rightarrow> Inl e
            | Inr None \<Rightarrow> Inr (integrity_dump integrity)
            | Inr (Some sp) \<Rightarrow> Inr (integrity_dump (integrity\<lparr>
                in_signature := Some (sp_signature sp), in_signature_mode := sp_signature_mode sp,
                in_key_id := Some (sp_key_id sp),
                in_public_key_fingerprint := Some (sp_public_key_fingerprint sp)\<rparr>)))"

text \<open>The document \<open>write_signed_json\<close> writes.\<close>

definition write_signed_json ::
  "keyring \<Rightarrow> bool \<Rightarrow> string \<Rightarrow> pydict \<Rightarrow> string \<Rightarrow> string \<Rightarrow> string \<Rightarrow> string + pydict" where
  "write_signed_json K configured artifact data purpose status now_text =
   (let body = [(''artifact'', PStr artifact), (''generated_at'', PStr now_text), (''status'', PStr status),
                (''data'', PDict data)]
    in case build_integrity K configured body purpose None of
         Inl e \<Rightarrow> Inl e
       | Inr integrity \<Rightarrow> Inr (dict_set body ''integrity'' (PDict integrity)))"

section \<open>Verifying\<close>

text \<open>\<open>payload.pop("integrity", None)\<close>: the value and the rest.\<close>

definition pop_key :: "pydict \<Rightarrow> string \<Rightarrow> pyval \<times> pydict" where
  "pop_key d k = (dict_get d k, filter (\<lambda>kv. fst kv \<noteq> k) d)"

definition verdict :: "string \<Rightarrow> bool \<Rightarrow> (string \<times> pyval) list \<Rightarrow> pydict" where
  "verdict path verified rest = (''path'', PStr path) # (''verified'', PBool verified) # rest"

text \<open>\<open>None\<close>: the integrity record does not validate, which raises.\<close>

definition verify_document :: "keyring \<Rightarrow> string \<Rightarrow> pydict \<Rightarrow> pydict option" where
  "verify_document K path document =
   (let (integrity_raw, payload) = pop_key document ''integrity''
    in case integrity_raw of
         PDict raw \<Rightarrow>
           (case integrity_validate raw of
              None \<Rightarrow> None
            | Some i \<Rightarrow>
                let expected_hash = canonical_payload_hash (k_hash K) payload (in_prev_hash i)
                in if expected_hash \<noteq> in_hash i
                   then Some (verdict path False [(''error_code'', PStr ''HASH_MISMATCH''),
                          (''expected_hash'', PStr expected_hash), (''actual_hash'', PStr (in_hash i))])
                   else if \<not> opt_truthy (in_signature i)
                   then Some (verdict path True [(''signature_verified'', PBool False),
                          (''signature_mode'', PStr (in_signature_mode i)), (''key_id'', pv_of_opt (in_key_id i))])
                   else if in_signature_mode i = ''env_hmac_compat''
                   then (if py_strip (k_env_key K) = []
                         then Some (verdict path False [(''error_code'', PStr ''ENV_HMAC_KEY_MISSING''),
                                (''key_id'', pv_of_opt (in_key_id i))])
                         else let ok = (Some (env_hmac K (in_hash i)) = in_signature i)
                              in Some (verdict path ok [(''signature_verified'', PBool ok),
                                   (''signature_mode'', PStr (in_signature_mode i)),
                                   (''key_id'', pv_of_opt (in_key_id i)),
                                   (''public_key_fingerprint'', PStr (k_hash K (py_strip (k_env_key K)))),
                                   (''error_code'', if ok then PNone else PStr ''SIGNATURE_INVALID'')]))
                   else case load_trusted_keys K (case in_key_id i of None \<Rightarrow> [] | Some kid \<Rightarrow> kid) of
                          None \<Rightarrow> Some (verdict path False [(''error_code'', PStr ''TRUSTED_KEY_NOT_FOUND''),
                                    (''key_id'', pv_of_opt (in_key_id i))])
                        | Some key \<Rightarrow>
                            let ok = k_verify K (tkey_public_key key) (the (in_signature i)) (in_hash i)
                            in Some (verdict path ok [(''signature_verified'', PBool ok),
                                 (''signature_mode'', PStr (in_signature_mode i)),
                                 (''key_id'', pv_of_opt (in_key_id i)),
                                 (''public_key_fingerprint'', PStr (fingerprint_public_key K (tkey_public_key key))),
                                 (''error_code'', if ok then PNone else PStr ''SIGNATURE_INVALID'')]))
       | _ \<Rightarrow> Some (verdict path False [(''error_code'', PStr ''INTEGRITY_MISSING'')]))"

text \<open>A file: absent, text that is no JSON (with the parser's message), or a document.\<close>

datatype artifact_file = Absent | BadJson string | Parsed pydict

definition load_signed_artifact :: "keyring \<Rightarrow> string \<Rightarrow> artifact_file \<Rightarrow> pydict option" where
  "load_signed_artifact K path file =
   (case file of
      Absent \<Rightarrow> Some [(''path'', PStr path), (''present'', PBool False), (''verified'', PBool False),
                  (''error_code'', PStr ''ARTIFACT_NOT_FOUND'')]
    | BadJson message \<Rightarrow> Some [(''path'', PStr path), (''present'', PBool True), (''verified'', PBool False),
                  (''error_code'', PStr ''INVALID_JSON''), (''error'', PStr message)]
    | Parsed document \<Rightarrow> map_option (\<lambda>verification. verification @
        [(''present'', PBool True), (''artifact'', dict_get document ''artifact''),
         (''status'', dict_get document ''status''), (''generated_at'', dict_get document ''generated_at''),
         (''data'', dict_get document ''data'')]) (verify_document K path document))"

end
