(* ===== verification/Governance_Audit.thy ===== *)
theory Governance_Audit imports Governance_Runtime Signing begin

text \<open>
  The audit file of a run: \<open>AuditRecord\<close> of \<open>imperaos/governance/models.py\<close> and \<open>trace_redact\<close>,
  \<open>audit_redact\<close>, \<open>finalize_run\<close> and the defaults of \<open>imperaos/governance/runtime.py\<close>.  The files are a
  map from paths to documents; \<open>now_text\<close> is the time of the record as JSON prints it.
\<close>

section \<open>The record\<close>

record audit_settings =
  as_profile_name :: string
  as_llm_provider :: string
  as_model_name :: string
  as_fallback_provider :: string
  as_hf_model_id :: string
  as_privacy_mode :: bool
  as_runtime_version :: string
  as_audit_dir :: string

record audit_record =
  ar_run_id :: string
  ar_runtime_version :: string
  ar_git_commit :: "string option"
  ar_profile :: string
  ar_model_provider :: string
  ar_model_name :: string
  ar_requested_provider :: "string option"
  ar_requested_fallback_provider :: "string option"
  ar_requested_model_name :: "string option"
  ar_requested_hf_model_id :: "string option"
  ar_selected_provider :: "string option"
  ar_selected_model_name :: "string option"
  ar_selected_hf_model_id :: "string option"
  ar_fallback_used :: bool
  ar_config_source_model_name :: "string option"
  ar_config_source_hf_model_id :: "string option"
  ar_router_reason_code :: "string option"
  ar_policy_schema_version :: string
  ar_policy_version :: string
  ar_policy_hash :: string
  ar_decision_engine_version :: string
  ar_governance_decisions :: "governance_decision list"
  ar_tool_calls :: "tool_call_record list"
  ar_handoffs :: "handoff_call_record list"
  ar_memory_writes :: "memory_write_record list"
  ar_device_actions :: "device_action_record list"
  ar_approval_status :: string
  ar_redaction_mode :: string
  ar_privacy_mode :: bool
  ar_created_at :: string

section \<open>The JSON of the records\<close>

fun phase_value :: "governance_phase \<Rightarrow> string" where
  "phase_value TaskPhase = ''task''"
| "phase_value ToolPhase = ''tool''"
| "phase_value HandoffPhase = ''handoff''"
| "phase_value MemoryWritePhase = ''memory_write''"
| "phase_value DeviceActionPhase = ''device_action''"

definition decision_dump :: "governance_decision \<Rightarrow> pyval" where
  "decision_dump d = PDict
     [(''phase'', PStr (phase_value (gd_phase d))), (''target'', PStr (gd_target d)),
      (''action'', PStr (governance_action_value (gd_action d))), (''reason_code'', PStr (gd_reason_code d)),
      (''matched_rule_path'', pv_of_opt (gd_matched_rule_path d)),
      (''policy_schema_version'', PStr (gd_policy_schema_version d)),
      (''policy_version'', PStr (gd_policy_version d)), (''policy_hash'', PStr (gd_policy_hash d)),
      (''decision_engine_version'', PStr (gd_decision_engine_version d)),
      (''approval_required'', PBool (gd_approval_required d)), (''approval_id'', pv_of_opt (gd_approval_id d)),
      (''explain'', pv_of_opt (gd_explain d))]"

definition tool_call_dump :: "tool_call_record \<Rightarrow> pyval" where
  "tool_call_dump c = PDict
     [(''command_root'', PStr (tc_command_root c)), (''args_fingerprint'', PStr (tc_args_fingerprint c)),
      (''decision_action'', PStr (governance_action_value (tc_decision_action c))),
      (''reason_code'', PStr (tc_reason_code c))]"

definition handoff_call_dump :: "handoff_call_record \<Rightarrow> pyval" where
  "handoff_call_dump c = PDict
     [(''from_role'', PStr (hc_from_role c)), (''to_role'', PStr (hc_to_role c)),
      (''payload_hash'', PStr (hc_payload_hash c)),
      (''decision_action'', PStr (governance_action_value (hc_decision_action c))),
      (''reason_code'', PStr (hc_reason_code c))]"

definition memory_write_dump :: "memory_write_record \<Rightarrow> pyval" where
  "memory_write_dump c = PDict
     [(''scope'', PStr (mw_scope c)), (''producer_role'', PStr (mw_producer_role c)),
      (''visibility'', PStr (mw_visibility c)),
      (''decision_action'', PStr (governance_action_value (mw_decision_action c))),
      (''reason_code'', PStr (mw_reason_code c))]"

definition device_action_dump :: "device_action_record \<Rightarrow> pyval" where
  "device_action_dump c = PDict
     [(''action_id'', PStr (da_action_id c)), (''category'', PStr (da_category c)),
      (''risk_class'', PStr (da_risk_class c)), (''target_ref'', PStr (da_target_ref c)),
      (''app_identity'', PStr (da_app_identity c)), (''window_identity'', PStr (da_window_identity c)),
      (''selector_source'', PStr (da_selector_source c)),
      (''decision_action'', PStr (governance_action_value (da_decision_action c))),
      (''reason_code'', PStr (da_reason_code c))]"

definition audit_dump :: "audit_record \<Rightarrow> pydict" where
  "audit_dump r =
     [(''schema_version'', PStr ''1.0''), (''run_id'', PStr (ar_run_id r)),
      (''runtime_version'', PStr (ar_runtime_version r)), (''git_commit'', pv_of_opt (ar_git_commit r)),
      (''profile'', PStr (ar_profile r)), (''model_provider'', PStr (ar_model_provider r)),
      (''model_name'', PStr (ar_model_name r)), (''requested_provider'', pv_of_opt (ar_requested_provider r)),
      (''requested_fallback_provider'', pv_of_opt (ar_requested_fallback_provider r)),
      (''requested_model_name'', pv_of_opt (ar_requested_model_name r)),
      (''requested_hf_model_id'', pv_of_opt (ar_requested_hf_model_id r)),
      (''selected_provider'', pv_of_opt (ar_selected_provider r)),
      (''selected_model_name'', pv_of_opt (ar_selected_model_name r)),
      (''selected_hf_model_id'', pv_of_opt (ar_selected_hf_model_id r)),
      (''fallback_used'', PBool (ar_fallback_used r)),
      (''config_source_model_name'', pv_of_opt (ar_config_source_model_name r)),
      (''config_source_hf_model_id'', pv_of_opt (ar_config_source_hf_model_id r)),
      (''router_reason_code'', pv_of_opt (ar_router_reason_code r)),
      (''policy_schema_version'', PStr (ar_policy_schema_version r)),
      (''policy_version'', PStr (ar_policy_version r)), (''policy_hash'', PStr (ar_policy_hash r)),
      (''decision_engine_version'', PStr (ar_decision_engine_version r)),
      (''governance_decisions'', PList (map decision_dump (ar_governance_decisions r))),
      (''tool_calls'', PList (map tool_call_dump (ar_tool_calls r))),
      (''handoffs'', PList (map handoff_call_dump (ar_handoffs r))),
      (''memory_writes'', PList (map memory_write_dump (ar_memory_writes r))),
      (''device_actions'', PList (map device_action_dump (ar_device_actions r))),
      (''approval_status'', PStr (ar_approval_status r)), (''redaction_mode'', PStr (ar_redaction_mode r)),
      (''privacy_mode'', PBool (ar_privacy_mode r)), (''integrity'', PDict []),
      (''created_at'', PStr (ar_created_at r))]"

section \<open>Finishing a run\<close>

text \<open>\<open>str(metadata.get(k) or default)\<close>, and \<open>str(metadata[k]) if metadata.get(k) is not None else default\<close>.\<close>

definition metadata_or :: "pydict \<Rightarrow> string \<Rightarrow> string \<Rightarrow> string" where
  "metadata_or m k fallback = py_str (py_or (dict_get m k) (PStr fallback))"

definition metadata_if_set :: "pydict \<Rightarrow> string \<Rightarrow> string option \<Rightarrow> string option" where
  "metadata_if_set m k fallback = (if dict_get m k \<noteq> PNone then Some (py_str (dict_get m k)) else fallback)"

definition run_state :: "string \<Rightarrow> runtime \<Rightarrow> governance_run_state" where
  "run_state run_id rt = (case rt_runs rt run_id of None \<Rightarrow> new_run_state | Some s \<Rightarrow> s)"

definition audit_record_of ::
  "audit_settings \<Rightarrow> gov_config \<Rightarrow> policy_bundle \<Rightarrow> string \<Rightarrow> string option \<Rightarrow> pydict \<Rightarrow> string \<Rightarrow>
   governance_run_state \<Rightarrow> audit_record" where
  "audit_record_of st cfg b run_id router_reason_code m now_text s =
   (let requested_provider = metadata_or m ''requested_provider'' (as_llm_provider st);
        requested_model_name = metadata_or m ''requested_model_name'' (as_model_name st)
    in \<lparr>ar_run_id = run_id, ar_runtime_version = as_runtime_version st, ar_git_commit = None,
        ar_profile = as_profile_name st, ar_model_provider = requested_provider,
        ar_model_name = requested_model_name, ar_requested_provider = Some requested_provider,
        ar_requested_fallback_provider =
          Some (metadata_or m ''requested_fallback_provider'' (as_fallback_provider st)),
        ar_requested_model_name = Some requested_model_name,
        ar_requested_hf_model_id = Some (metadata_or m ''requested_hf_model_id'' (as_hf_model_id st)),
        ar_selected_provider = metadata_if_set m ''selected_provider'' None,
        ar_selected_model_name = metadata_if_set m ''selected_model_name'' None,
        ar_selected_hf_model_id = metadata_if_set m ''selected_hf_model_id'' None,
        ar_fallback_used = truthy (dict_get_default m ''fallback_used'' (PBool False)),
        ar_config_source_model_name = metadata_if_set m ''config_source_model_name'' (Some ''profile''),
        ar_config_source_hf_model_id = metadata_if_set m ''config_source_hf_model_id'' (Some ''profile''),
        ar_router_reason_code = router_reason_code,
        ar_policy_schema_version = p_schema_version (pb_policy b), ar_policy_version = p_version (pb_policy b),
        ar_policy_hash = pb_policy_hash b, ar_decision_engine_version = gc_decision_engine_version cfg,
        ar_governance_decisions = rs_decisions s, ar_tool_calls = rs_tool_calls s,
        ar_handoffs = rs_handoffs s, ar_memory_writes = rs_memory_writes s,
        ar_device_actions = rs_device_actions s, ar_approval_status = rs_approval_status s,
        ar_redaction_mode = ''audit'', ar_privacy_mode = as_privacy_mode st, ar_created_at = now_text\<rparr>)"

text \<open>The patterns of the policy, compiled; \<open>None\<close> when one does not compile.\<close>

definition pii_patterns :: "world \<Rightarrow> runtime \<Rightarrow> (string \<Rightarrow> bool) list option" where
  "pii_patterns W rt =
     those (map (w_re W) (case rt_policy_bundle rt of None \<Rightarrow> [] | Some b \<Rightarrow> p_pii_patterns (pb_policy b)))"

definition trace_redact :: "world \<Rightarrow> string \<Rightarrow> runtime \<Rightarrow> pydict \<Rightarrow> pyval option" where
  "trace_redact W salt rt data =
     map_option (\<lambda>patterns. redact_trace_payload (w_hash W) salt patterns data) (pii_patterns W rt)"

definition audit_redact :: "world \<Rightarrow> runtime \<Rightarrow> pydict \<Rightarrow> pydict option" where
  "audit_redact W rt data =
     (case pii_patterns W rt of
        None \<Rightarrow> None
      | Some patterns \<Rightarrow>
          (case redact_audit_payload (w_hmac W) (w_secret W) patterns data of PDict d \<Rightarrow> Some d | _ \<Rightarrow> None))"

datatype audit_error = PatternError | SignerError string

definition finalize_run ::
  "world \<Rightarrow> keyring \<Rightarrow> gov_config \<Rightarrow> audit_settings \<Rightarrow> string \<Rightarrow> string \<Rightarrow> string option \<Rightarrow> pydict option \<Rightarrow>
   runtime \<Rightarrow> (string \<rightharpoonup> pydict) \<Rightarrow> (string \<rightharpoonup> pydict) \<times> (audit_error + string option)" where
  "finalize_run W K cfg st now_text run_id router_reason_code model_metadata rt files =
   (if \<not> gc_enabled cfg then (files, Inr None)
    else case rt_policy_bundle rt of
      None \<Rightarrow> (files, Inr None)
    | Some b \<Rightarrow>
        let m = (case model_metadata of None \<Rightarrow> [] | Some m \<Rightarrow> m);
            r = audit_record_of st cfg b run_id router_reason_code m now_text (run_state run_id rt)
        in case audit_redact W rt (audit_dump r) of
             None \<Rightarrow> (files, Inl PatternError)
           | Some payload \<Rightarrow>
               (case build_integrity K True payload ''governance-audit'' None of
                  Inl e \<Rightarrow> (files, Inl (SignerError e))
                | Inr integrity \<Rightarrow>
                    let path = as_audit_dir st @ ''/'' @ run_id @ ''.json''
                    in (files(path \<mapsto> dict_set payload ''integrity'' (PDict integrity)), Inr (Some path))))"

section \<open>Defaults\<close>

definition default_governance_policy_path :: "string \<Rightarrow> string" where
  "default_governance_policy_path profile_name = ''config/policies/'' @ profile_name @ ''.toml''"

definition ensure_governance_defaults :: "gov_config \<Rightarrow> string \<Rightarrow> gov_config" where
  "ensure_governance_defaults cfg profile_name =
     (if gc_policy_path cfg \<noteq> [] then cfg
      else cfg\<lparr>gc_policy_path := default_governance_policy_path profile_name\<rparr>)"

end
