(* ===== verification/Signing_Props.thy ===== *)
theory Signing_Props imports Signing begin

text \<open>
  What a verified artifact stands for: signing and verifying are inverse, a verified document is the one
  that was hashed unless the digest collides, and a document without a signature verifies too.
\<close>

section \<open>Documents and their integrity\<close>

lemma filter_update: "filter (\<lambda>kv. fst kv \<noteq> k) (AList.update k v d) = filter (\<lambda>kv. fst kv \<noteq> k) d"
  by (induction d) auto

lemma pop_set [simp]: "pop_key (dict_set d k v) k = (v, filter (\<lambda>kv. fst kv \<noteq> k) d)"
  by (simp add: pop_key_def filter_update) (simp add: dict_set_def filter_update)

lemma pop_absent: "map_of d k = None \<Longrightarrow> filter (\<lambda>kv. fst kv \<noteq> k) d = d"
  by (rule filter_True) (auto simp: map_of_eq_None_iff)

lemma integrity_roundtrip [simp]: "integrity_validate (integrity_dump i) = Some i"
  by (cases "in_prev_hash i"; cases "in_signature i"; cases "in_key_id i"; cases "in_public_key_fingerprint i")
    (simp_all add: integrity_validate_def integrity_dump_def opt_text_of_def text_of_def pv_of_opt_def)

text \<open>The integrity record of a document that was signed.\<close>

lemma build_integrity_Inr:
  assumes "build_integrity K configured payload purpose prev = Inr integrity"
  obtains "\<not> configured" "integrity = integrity_dump (unsigned_integrity prev (canonical_payload_hash (k_hash K) payload prev))"
  | "configured" "sign_hash K purpose (canonical_payload_hash (k_hash K) payload prev) = Inr None"
    "integrity = integrity_dump (unsigned_integrity prev (canonical_payload_hash (k_hash K) payload prev))"
  | sp where "configured" "sign_hash K purpose (canonical_payload_hash (k_hash K) payload prev) = Inr (Some sp)"
    "integrity = integrity_dump ((unsigned_integrity prev (canonical_payload_hash (k_hash K) payload prev))
       \<lparr>in_signature := Some (sp_signature sp), in_signature_mode := sp_signature_mode sp,
        in_key_id := Some (sp_key_id sp), in_public_key_fingerprint := Some (sp_public_key_fingerprint sp)\<rparr>)"
  using assms by (auto simp: build_integrity_def Let_def split: if_splits sum.splits option.splits)

lemma build_integrity_hash:
  assumes "build_integrity K configured payload purpose prev = Inr integrity"
  obtains i where "integrity = integrity_dump i" "in_prev_hash i = prev"
    "in_hash i = canonical_payload_hash (k_hash K) payload prev"
  using assms by (cases rule: build_integrity_Inr) (auto simp: unsigned_integrity_def)

lemma verdict_get [simp]:
  "dict_get (verdict p ok rest) ''verified'' = PBool ok"
  "k \<noteq> ''path'' \<Longrightarrow> k \<noteq> ''verified'' \<Longrightarrow> dict_get (verdict p ok rest) k = dict_get rest k"
  by (simp_all add: verdict_def dict_get_def)

lemma verify_unsigned:
  assumes "map_of payload ''integrity'' = None"
  shows "verify_document K path (dict_set payload ''integrity'' (PDict (integrity_dump
      (unsigned_integrity prev (canonical_payload_hash (k_hash K) payload prev))))) =
    Some (verdict path True [(''signature_verified'', PBool False), (''signature_mode'', PStr ''unsigned''),
      (''key_id'', PNone)])"
  by (simp add: verify_document_def pop_absent [OF assms] unsigned_integrity_def pv_of_opt_def)

text \<open>Only a document whose digest is the recorded one is verified.\<close>

lemma verified_hash:
  assumes "verify_document K path doc = Some v" "dict_get v ''verified'' = PBool True"
    and "dict_get doc ''integrity'' = PDict raw"
  obtains i where "integrity_validate raw = Some i"
    "canonical_payload_hash (k_hash K) (filter (\<lambda>kv. fst kv \<noteq> ''integrity'') doc) (in_prev_hash i) = in_hash i"
  using assms by (auto simp: verify_document_def pop_key_def Let_def split: option.splits if_splits)

text \<open>Equal digests: equal payloads up to the order of keys, unless the digest collides.\<close>

lemma canonical_payload_hash_inject:
  assumes "canonical_payload_hash H p prev = canonical_payload_hash H q prev"
    and "collision_free H (hash_body p prev) (hash_body q prev)" "wf_json (PDict p)" "wf_json (PDict q)"
  shows "canonical_dict p = canonical_dict q"
proof -
  have wf: "wf_json (hash_body p prev)" "wf_json (hash_body q prev)"
    using assms(3,4) by (cases prev; simp add: hash_body_def pv_of_opt_def wf_dict_def)+
  from payload_hash_dict_inject [of H "[(''prev_hash'', pv_of_opt prev), (''payload'', PDict p)]"
      "[(''prev_hash'', pv_of_opt prev), (''payload'', PDict q)]" "''payload''"] assms(1,2) wf
  have "canonicalize_payload (PDict p) = canonicalize_payload (PDict q)"
    by (simp add: canonical_payload_hash_def hash_body_def)
  then show ?thesis by (simp only: canonicalize_PDict pyval.inject)
qed

lemma wf_without [simp]: "wf_json (PDict d) \<Longrightarrow> wf_json (PDict (filter P d))"
  by (auto simp: wf_dict_def distinct_map_filter)

section \<open>Properties\<close>

lemma signed_document_verifies:
  assumes "build_integrity K True payload purpose prev = Inr integrity" "map_of payload ''integrity'' = None"
    and "k_provider K \<noteq> ''managed_kms''" "\<forall>s. k_hash K s \<noteq> []"
    and "k_provider K = ''local_file'' \<longrightarrow> (\<exists>key t. k_private K = Some key \<and>
       load_trusted_keys K (pkey_key_id key) = Some t \<and>
       (\<forall>m. k_sign K (pkey_private_key key) m \<noteq> [] \<and>
          k_verify K (tkey_public_key t) (k_sign K (pkey_private_key key) m) m))"
  shows "\<exists>v. verify_document K path (dict_set payload ''integrity'' (PDict integrity)) = Some v \<and>
    dict_get v ''verified'' = PBool True \<and>
    dict_get v ''signature_verified'' = PBool (k_provider K = ''local_file'' \<or>
      (py_strip (k_env_key K) \<noteq> [] \<and>
       (k_provider K = ''env_hmac'' \<or> (k_provider K = ''disabled'' \<and> k_allow_env_hmac K))))"
proof -
  let ?h = "canonical_payload_hash (k_hash K) payload prev"
  note absent = pop_absent [OF assms(2)]
  have env: "env_hmac K m \<noteq> []" for m using assms(4) by (simp add: env_hmac_def)
  show ?thesis using assms(1)
  proof (cases rule: build_integrity_Inr)
    case 2
    then have "k_provider K \<noteq> ''local_file''"
      "\<not> (py_strip (k_env_key K) \<noteq> [] \<and> (k_provider K = ''env_hmac'' \<or> (k_provider K = ''disabled'' \<and> k_allow_env_hmac K)))"
      using assms(3) by (auto simp: sign_hash_def split: if_splits option.splits)
    then show ?thesis using 2(3) verify_unsigned [OF assms(2), of K path prev]
      by (simp add: dict_get_def verdict_def)
  next
    case (3 sp)
    show ?thesis
    proof (cases "k_provider K = ''local_file''")
      case True
      then obtain key t where key: "k_private K = Some key" "load_trusted_keys K (pkey_key_id key) = Some t"
        "\<And>m. k_sign K (pkey_private_key key) m \<noteq> []"
        "\<And>m. k_verify K (tkey_public_key t) (k_sign K (pkey_private_key key) m) m" using assms(5) by blast
      then have "sp_signature sp = k_sign K (pkey_private_key key) ?h" "sp_signature_mode sp = ''ed25519_local_file''"
        "sp_key_id sp = pkey_key_id key" using 3(2) True by (auto simp: sign_hash_def)
      then show ?thesis using 3(3) key True
        by (simp add: verify_document_def absent unsigned_integrity_def dict_get_def verdict_def)
    next
      case False
      then have "sp_signature sp = env_hmac K ?h" "sp_signature_mode sp = ''env_hmac_compat''" "sp_key_id sp = ''env-hmac''"
        and signer: "py_strip (k_env_key K) \<noteq> []"
          "k_provider K = ''env_hmac'' \<or> (k_provider K = ''disabled'' \<and> k_allow_env_hmac K)"
        using 3(2) assms(3) by (auto simp: sign_hash_def split: if_splits)
      then show ?thesis using 3(3) env [of ?h]
        by (simp add: verify_document_def absent unsigned_integrity_def dict_get_def verdict_def)
    qed
  qed simp
qed

text \<open>
  C19: What was signed verifies: an artifact whose integrity was built with the local key file, the
  shared key of the environment or without a signer is verified by the same key ring, and its
  signature is reported as verified exactly when there is a signer; the public key of the local key
  must be trusted, not revoked, and belong to the private key.
\<close>

theorem signed_verifies:
  assumes "build_integrity K True payload purpose prev = Inr integrity" "map_of payload ''integrity'' = None"
    and "k_provider K \<noteq> ''managed_kms''" "\<forall>s. k_hash K s \<noteq> []"
    and "k_provider K = ''local_file'' \<longrightarrow> (\<exists>key t. k_private K = Some key \<and>
       load_trusted_keys K (pkey_key_id key) = Some t \<and>
       (\<forall>m. k_sign K (pkey_private_key key) m \<noteq> [] \<and>
          k_verify K (tkey_public_key t) (k_sign K (pkey_private_key key) m) m))"
  shows "\<exists>v. verify_document K path (dict_set payload ''integrity'' (PDict integrity)) = Some v \<and>
    dict_get v ''verified'' = PBool True \<and>
    dict_get v ''signature_verified'' = PBool (k_provider K = ''local_file'' \<or>
      (py_strip (k_env_key K) \<noteq> [] \<and>
       (k_provider K = ''env_hmac'' \<or> (k_provider K = ''disabled'' \<and> k_allow_env_hmac K))))"
  by (rule signed_document_verifies [OF assms])

definition demo_ring :: keyring where
  "demo_ring = \<lparr>k_hash = (\<lambda>s. CHR ''h'' # s), k_provider = ''local_file'',
     k_private = Some \<lparr>pkey_key_id = ''k1'', pkey_private_key = ''priv'', pkey_public_key = ''pub''\<rparr>,
     k_manager = None, k_current_key_id = None, k_allow_env_hmac = False, k_env_key = [],
     k_trusted = [\<lparr>tkey_key_id = ''k1'', tkey_public_key = ''pub'', tkey_state = ''active''\<rparr>], k_revoked = [],
     k_sign = (\<lambda>key m. CHR ''s'' # m), k_verify = (\<lambda>key sig m. sig = CHR ''s'' # m), k_base64 = (\<lambda>s. Some s)\<rparr>"

definition demo_payload :: pydict where
  "demo_payload = [(''artifact'', PStr ''report'')]"

definition demo_integrity :: pydict where
  "demo_integrity = (case build_integrity demo_ring True demo_payload ''p'' None of Inr i \<Rightarrow> i | Inl e \<Rightarrow> [])"

lemma demo_integrity: "build_integrity demo_ring True demo_payload ''p'' None = Inr demo_integrity"
  by (simp add: demo_integrity_def build_integrity_def sign_hash_def demo_ring_def Let_def)

lemma demo_absent: "map_of demo_payload ''integrity'' = None"
  by (simp add: demo_payload_def)

theorem signed_verifies_witness:
  "\<exists>v. verify_document demo_ring ''f'' (dict_set demo_payload ''integrity'' (PDict demo_integrity)) = Some v \<and>
     dict_get v ''verified'' = PBool True \<and> dict_get v ''signature_verified'' = PBool True"
  using signed_verifies [OF demo_integrity demo_absent, of "''f''"]
  by (simp add: demo_ring_def load_trusted_keys_def)

text \<open>
  C20: A verified artifact was not altered: two documents that carry the same integrity record and both
  verify agree under every other key, up to the order of keys, unless the digest collides on them.
\<close>

theorem tampering_detected:
  assumes "verify_document K path d = Some v" "dict_get v ''verified'' = PBool True"
    and "verify_document K path e = Some w" "dict_get w ''verified'' = PBool True"
    and "dict_get d ''integrity'' = PDict raw" "dict_get e ''integrity'' = PDict raw"
    and "wf_json (PDict d)" "wf_json (PDict e)" "k \<noteq> ''integrity''"
    and "\<forall>prev. collision_free (k_hash K) (hash_body (filter (\<lambda>kv. fst kv \<noteq> ''integrity'') d) prev)
           (hash_body (filter (\<lambda>kv. fst kv \<noteq> ''integrity'') e) prev)"
  shows "map_option canonicalize_payload (map_of d k) = map_option canonicalize_payload (map_of e k)"
proof -
  let ?d = "filter (\<lambda>kv. fst kv \<noteq> ''integrity'') d" and ?e = "filter (\<lambda>kv. fst kv \<noteq> ''integrity'') e"
  obtain i where i: "integrity_validate raw = Some i"
    "canonical_payload_hash (k_hash K) ?d (in_prev_hash i) = in_hash i"
    by (rule verified_hash [OF assms(1,2,5)])
  obtain j where j: "integrity_validate raw = Some j"
    "canonical_payload_hash (k_hash K) ?e (in_prev_hash j) = in_hash j"
    by (rule verified_hash [OF assms(3,4,6)])
  have wf: "wf_json (PDict ?d)" "wf_json (PDict ?e)" by (rule wf_without [OF assms(7)], rule wf_without [OF assms(8)])
  have "canonical_payload_hash (k_hash K) ?d (in_prev_hash i) = canonical_payload_hash (k_hash K) ?e (in_prev_hash i)"
    using i j by simp
  then have "canonical_dict ?d = canonical_dict ?e"
    by (rule canonical_payload_hash_inject [OF _ spec [OF assms(10)] wf])
  then have "map_option canonicalize_payload (map_of ?d k) = map_option canonicalize_payload (map_of ?e k)"
    using wf by (metis map_of_canonical_dict wf_json.simps(3))
  moreover have "map_of (filter (\<lambda>kv. fst kv \<noteq> ''integrity'') f) k = map_of f k" for f :: pydict
    using assms(9) by (induction f) auto
  ultimately show ?thesis by simp
qed

theorem tampering_detected_witness:
  "map_option canonicalize_payload (map_of (dict_set demo_payload ''integrity'' (PDict demo_integrity)) ''artifact'') =
   map_option canonicalize_payload (map_of ((''integrity'', PDict demo_integrity) # demo_payload) ''artifact'')"
proof -
  let ?d = "dict_set demo_payload ''integrity'' (PDict demo_integrity)"
    and ?e = "(''integrity'', PDict demo_integrity) # demo_payload"
  obtain i where i: "demo_integrity = integrity_dump i"
    using demo_integrity by (rule build_integrity_hash)
  have wf: "wf_json (PDict demo_integrity)"
    by (cases "in_prev_hash i"; cases "in_signature i"; cases "in_key_id i"; cases "in_public_key_fingerprint i")
      (simp_all add: i integrity_dump_def wf_dict_def pv_of_opt_def)
  have d: "?d = demo_payload @ [(''integrity'', PDict demo_integrity)]"
    by (simp add: dict_set_def demo_payload_def)
  have same: "pop_key ?e ''integrity'' = pop_key ?d ''integrity''"
    unfolding pop_set by (simp add: pop_key_def dict_get_def)
  obtain v where v: "verify_document demo_ring ''f'' ?d = Some v" "dict_get v ''verified'' = PBool True"
    using signed_document_verifies [OF demo_integrity demo_absent, of "''f''"]
    by (auto simp: demo_ring_def load_trusted_keys_def)
  have ve: "verify_document demo_ring ''f'' ?e = Some v"
    using v(1) by (simp add: verify_document_def same)
  show ?thesis
  proof (rule tampering_detected [OF v ve v(2)])
    show "dict_get ?d ''integrity'' = PDict demo_integrity" by simp
    show "dict_get ?e ''integrity'' = PDict demo_integrity" by (simp add: dict_get_def)
    show "wf_json (PDict ?d)" unfolding d using wf by (simp add: wf_dict_def demo_payload_def)
    show "wf_json (PDict ?e)" using wf by (simp add: wf_dict_def demo_payload_def)
    show "\<forall>prev. collision_free (k_hash demo_ring) (hash_body (filter (\<lambda>kv. fst kv \<noteq> ''integrity'') ?d) prev)
           (hash_body (filter (\<lambda>kv. fst kv \<noteq> ''integrity'') ?e) prev)"
      unfolding d by (simp add: collision_free_def demo_payload_def)
  qed simp
qed

text \<open>A signature can be left out: any payload verifies under any key ring with an unsigned record.\<close>

lemma unsigned_verifies:
  assumes "map_of payload ''integrity'' = None"
  shows "\<exists>integrity v. verify_document K path (dict_set payload ''integrity'' (PDict integrity)) = Some v \<and>
    dict_get v ''verified'' = PBool True \<and> dict_get v ''signature_verified'' = PBool False"
  by (intro exI conjI, rule verify_unsigned [OF assms, of K path None]) (simp_all add: dict_get_def verdict_def)

end
