(* ===== verification/Audit_Props.thy ===== *)
theory Audit_Props imports Governance_Facts Governance_Audit Signing_Props begin

text \<open>
  What the audit file of a run holds, and that it cannot be verified.
\<close>

section \<open>Redaction leaves an audit record as it is\<close>

lemma redact_unhidden:
  "\<forall>(q, s) \<in> set (leaves p v). \<not> hidden patterns q s \<Longrightarrow> redact_obj H hmac salt patterns mode p v = v"
proof (induction H hmac salt patterns mode p v rule: redact_obj.induct)
  case (1 H hmac salt patterns mode p d)
  have "redact_obj H hmac salt patterns mode (p @ [fst kv]) (snd kv) = snd kv" if "kv \<in> set d" for kv
    using 1 that by fastforce
  then have "map (\<lambda>kv. (fst kv, redact_obj H hmac salt patterns mode (p @ [fst kv]) (snd kv))) d = d"
    by (intro map_idI) simp
  then show ?case by simp
next
  case (2 H hmac salt patterns mode p xs)
  have "redact_obj H hmac salt patterns mode (p @ [''[]'']) x = x" if "x \<in> set xs" for x
    using 2 that by fastforce
  then show ?case by (simp add: map_idI)
qed simp_all

lemma redact_wf: "wf_json v \<Longrightarrow> wf_json (redact_obj H hmac salt patterns mode p v)"
proof (induction H hmac salt patterns mode p v rule: redact_obj.induct)
  case (1 H hmac salt patterns mode p d)
  then show ?case by (simp add: wf_dict_def comp_def)
next
  case (3 H hmac salt patterns mode p s)
  then show ?case by (simp add: redact_text_def Let_def wf_dict_def)
qed simp_all

text \<open>The keys directly above the texts of a value; none of those of an audit record is sensitive.\<close>

fun leaf_keys :: "string \<Rightarrow> pyval \<Rightarrow> string list" where
  "leaf_keys k (PDict d) = concat (map (\<lambda>kv. leaf_keys (fst kv) (snd kv)) d)"
| "leaf_keys k (PList xs) = concat (map (leaf_keys ''[]'') xs)"
| "leaf_keys k (PStr s) = [k]"
| "leaf_keys k v = []"

lemma sensitive_last: "is_sensitive_key (p @ [k]) = is_sensitive_key [k]"
  by (simp add: is_sensitive_key_def)

lemma leaves_above: "(q, s) \<in> set (leaves (p @ [k]) v) \<Longrightarrow> \<exists>p' k'. q = p' @ [k'] \<and> k' \<in> set (leaf_keys k v)"
proof (induction v arbitrary: p k)
  case (PDict d)
  then obtain kv where kv: "kv \<in> set d" "(q, s) \<in> set (leaves ((p @ [k]) @ [fst kv]) (snd kv))" by auto
  have "snd kv \<in> Basic_BNFs.snds kv" by (cases kv) simp
  from PDict.IH [OF kv(1) this kv(2)] show ?case using kv(1) by auto
next
  case (PList xs)
  then obtain x where x: "x \<in> set xs" "(q, s) \<in> set (leaves ((p @ [k]) @ [''[]'']) x)" by auto
  from PList.IH [OF this] show ?case using x(1) by auto
qed auto

definition audit_keys :: "string list" where
  "audit_keys = [''schema_version'', ''run_id'', ''runtime_version'', ''git_commit'', ''profile'', ''model_provider'',
     ''model_name'', ''requested_provider'', ''requested_fallback_provider'', ''requested_model_name'',
     ''requested_hf_model_id'', ''selected_provider'', ''selected_model_name'', ''selected_hf_model_id'',
     ''config_source_model_name'', ''config_source_hf_model_id'', ''router_reason_code'',
     ''policy_schema_version'', ''policy_version'', ''policy_hash'', ''decision_engine_version'',
     ''approval_status'', ''redaction_mode'', ''created_at'', ''phase'', ''target'', ''action'', ''reason_code'',
     ''matched_rule_path'', ''approval_id'', ''explain'', ''command_root'', ''args_fingerprint'', ''decision_action'',
     ''from_role'', ''to_role'', ''payload_hash'', ''scope'', ''producer_role'', ''visibility'', ''action_id'',
     ''category'', ''risk_class'', ''target_ref'', ''app_identity'', ''window_identity'', ''selector_source'']"

lemma audit_keys_plain: "list_all (\<lambda>k. \<not> is_sensitive_key [k]) audit_keys"
  by code_simp

lemmas plain_keys = audit_keys_plain [unfolded audit_keys_def list.pred_inject]

lemma leaf_keys_opt: "(\<forall>k \<in> set (leaf_keys j (pv_of_opt x)). P k) \<longleftrightarrow> x = None \<or> P j"
  by (cases x) (simp_all add: pv_of_opt_def)

lemma record_keys_plain:
  "\<forall>k \<in> set (leaf_keys j (decision_dump d)). \<not> is_sensitive_key [k]"
  "\<forall>k \<in> set (leaf_keys j (tool_call_dump tc)). \<not> is_sensitive_key [k]"
  "\<forall>k \<in> set (leaf_keys j (handoff_call_dump hc)). \<not> is_sensitive_key [k]"
  "\<forall>k \<in> set (leaf_keys j (memory_write_dump mw)). \<not> is_sensitive_key [k]"
  "\<forall>k \<in> set (leaf_keys j (device_action_dump da)). \<not> is_sensitive_key [k]"
  by (simp_all add: decision_dump_def tool_call_dump_def handoff_call_dump_def memory_write_dump_def
      device_action_dump_def plain_keys leaf_keys_opt ball_Un)

lemma audit_keys_of_record: "\<forall>k \<in> set (leaf_keys j (PDict (audit_dump r))). \<not> is_sensitive_key [k]"
  using record_keys_plain by (simp add: audit_dump_def plain_keys leaf_keys_opt ball_Un)


section \<open>Properties\<close>

lemma texts_leaves: "texts v = map snd (leaves p v)"
proof (induction v arbitrary: p)
  case (PDict d)
  have "texts (snd kv) = map snd (leaves (p @ [fst kv]) (snd kv))" if "kv \<in> set d" for kv
    using PDict that by (cases kv) fastforce
  then show ?case by (simp add: map_concat comp_def cong: map_cong)
next
  case (PList xs)
  then show ?case by (simp add: map_concat comp_def cong: map_cong)
qed simp_all

text \<open>So a text of a dictionary stands under a key of \<open>leaf_keys\<close>.\<close>

lemma dict_leaf_key:
  assumes "(q, s) \<in> set (leaves [] (PDict d))"
  obtains p k where "q = p @ [k]" "k \<in> set (leaf_keys j (PDict d))"
proof -
  from assms obtain kv where kv: "kv \<in> set d" "(q, s) \<in> set (leaves ([] @ [fst kv]) (snd kv))" by auto
  from leaves_above [OF kv(2)] obtain p k where "q = p @ [k]" "k \<in> set (leaf_keys (fst kv) (snd kv))" by blast
  with kv(1) that show thesis by auto
qed

lemma redact_audit_dump:
  assumes "\<forall>s \<in> set (texts (PDict (audit_dump r))). \<forall>search \<in> set patterns. \<not> search s"
  shows "redact_obj H hmac salt patterns mode [] (PDict (audit_dump r)) = PDict (audit_dump r)"
proof (rule redact_unhidden, safe)
  fix q s assume leaf: "(q, s) \<in> set (leaves [] (PDict (audit_dump r)))" and "hidden patterns q s"
  from leaf have "s \<in> set (texts (PDict (audit_dump r)))" unfolding texts_leaves [of _ "[]"] by force
  moreover from leaf obtain p k where q: "q = p @ [k]" "k \<in> set (leaf_keys [] (PDict (audit_dump r)))"
    by (rule dict_leaf_key)
  moreover have "\<not> is_sensitive_key q"
    unfolding q(1) sensitive_last using q(2) audit_keys_of_record by blast
  ultimately show False using assms \<open>hidden patterns q s\<close> by (auto simp only: hidden_def)
qed

lemma audit_redact_Some:
  assumes "audit_redact W rt d = Some payload"
  obtains patterns where "pii_patterns W rt = Some patterns"
    "redact_audit_payload (w_hmac W) (w_secret W) patterns d = PDict payload"
  using assms by (auto simp: audit_redact_def split: option.splits pyval.splits)

text \<open>The payload that is hashed still holds the key \<open>integrity\<close>, and is well formed.\<close>

lemma audit_payload:
  assumes "audit_redact W rt (audit_dump r) = Some payload"
  shows "wf_json (PDict payload)" "map_of payload ''integrity'' = Some (PDict [])"
proof -
  from assms obtain patterns where payload: "redact_audit_payload (w_hmac W) (w_secret W) patterns (audit_dump r) = PDict payload"
    by (rule audit_redact_Some)
  have opt: "wf_json (pv_of_opt x)" for x by (cases x) (simp_all add: pv_of_opt_def)
  have "wf_json (decision_dump d)" "wf_json (tool_call_dump tc)" "wf_json (handoff_call_dump hc)"
    "wf_json (memory_write_dump mw)" "wf_json (device_action_dump da)" for d tc hc mw da
    by (simp_all add: decision_dump_def tool_call_dump_def handoff_call_dump_def memory_write_dump_def
        device_action_dump_def wf_dict_def opt)
  then have "wf_json (PDict (audit_dump r))" by (simp add: audit_dump_def wf_dict_def opt)
  from redact_wf [OF this] payload show "wf_json (PDict payload)"
    unfolding redact_audit_payload_def by metis
  from payload have "payload = map (\<lambda>kv. (fst kv, redact_obj (\<lambda>s. s) (w_hmac W)
      (case w_secret W of None \<Rightarrow> ''imperaos-dev-secret'' | Some s \<Rightarrow> s) patterns AuditMode ([] @ [fst kv]) (snd kv)))
      (audit_dump r)"
    unfolding redact_audit_payload_def by (simp only: redact_obj.simps pyval.inject)
  then show "map_of payload ''integrity'' = Some (PDict [])" by (simp add: audit_dump_def)
qed

text \<open>
  C18: The audit file of a run is complete: when the patterns of the policy match none of its texts,
  \<open>finalize_run\<close> writes exactly one file, whose lists of decisions, tool calls, handoffs, memory writes
  and device actions are those the run recorded, in order, under the hash of the policy that decided,
  and no key of the record is masked.
\<close>

theorem audit_complete:
  assumes "gc_enabled cfg" "rt_policy_bundle rt = Some b" "pii_patterns W rt = Some patterns"
    and "r = audit_record_of st cfg b run_id reason (case metadata of None \<Rightarrow> [] | Some m \<Rightarrow> m) now_text (run_state run_id rt)"
    and "\<forall>s \<in> set (texts (PDict (audit_dump r))). \<forall>search \<in> set patterns. \<not> search s"
    and "build_integrity K True (audit_dump r) ''governance-audit'' None = Inr integrity"
  shows "\<exists>doc. finalize_run W K cfg st now_text run_id reason metadata rt files =
      (files(as_audit_dir st @ ''/'' @ run_id @ ''.json'' \<mapsto> doc),
       Inr (Some (as_audit_dir st @ ''/'' @ run_id @ ''.json''))) \<and>
    doc = dict_set (audit_dump r) ''integrity'' (PDict integrity) \<and>
    dict_get doc ''governance_decisions'' = PList (map decision_dump (rs_decisions (run_state run_id rt))) \<and>
    dict_get doc ''tool_calls'' = PList (map tool_call_dump (rs_tool_calls (run_state run_id rt))) \<and>
    dict_get doc ''handoffs'' = PList (map handoff_call_dump (rs_handoffs (run_state run_id rt))) \<and>
    dict_get doc ''memory_writes'' = PList (map memory_write_dump (rs_memory_writes (run_state run_id rt))) \<and>
    dict_get doc ''device_actions'' = PList (map device_action_dump (rs_device_actions (run_state run_id rt))) \<and>
    dict_get doc ''policy_hash'' = PStr (pb_policy_hash b)"
proof -
  have "audit_redact W rt (audit_dump r) = Some (audit_dump r)"
    unfolding audit_redact_def assms(3) redact_audit_payload_def option.case redact_audit_dump [OF assms(5)] by simp
  then have "finalize_run W K cfg st now_text run_id reason metadata rt files =
      (files(as_audit_dir st @ ''/'' @ run_id @ ''.json'' \<mapsto> dict_set (audit_dump r) ''integrity'' (PDict integrity)),
       Inr (Some (as_audit_dir st @ ''/'' @ run_id @ ''.json'')))"
    by (simp add: finalize_run_def assms(1,2,6) assms(4) [symmetric] Let_def)
  moreover have "dict_get (dict_set (audit_dump r) ''integrity'' (PDict integrity)) k = dict_get (audit_dump r) k"
    if "k \<noteq> ''integrity''" for k
    using that by simp
  ultimately show ?thesis
    by (simp add: assms(4)) (simp add: dict_get_def audit_dump_def audit_record_of_def Let_def)
qed


definition demo_settings :: audit_settings where
  "demo_settings = \<lparr>as_profile_name = ''default'', as_llm_provider = ''auto'', as_model_name = ''m'',
     as_fallback_provider = [], as_hf_model_id = [], as_privacy_mode = True, as_runtime_version = ''1'',
     as_audit_dir = ''audit''\<rparr>"

text \<open>A run in which a task was decided.\<close>

definition demo_run :: governance_run_state where
  "demo_run = new_run_state\<lparr>rs_decisions :=
     [\<lparr>gd_phase = TaskPhase, gd_target = ''mail'', gd_action = Allow, gd_reason_code = ''ok'', gd_matched_rule_path = None,
       gd_policy_schema_version = ''1'', gd_policy_version = ''1'', gd_policy_hash = ''ph'',
       gd_decision_engine_version = ''v0.3'', gd_approval_required = False, gd_approval_id = None, gd_explain = None\<rparr>]\<rparr>"

definition demo_ran :: runtime where
  "demo_ran = (demo_runtime empty_db)\<lparr>rt_runs := [''r1'' \<mapsto> demo_run]\<rparr>"

definition demo_audit :: audit_record where
  "demo_audit = audit_record_of demo_settings demo_config (the (rt_policy_bundle demo_ran)) ''r1''
     None [] ''now'' demo_run"

lemma demo_audit:
  "rt_policy_bundle demo_ran = Some (the (rt_policy_bundle demo_ran))"
  "run_state ''r1'' demo_ran = demo_run"
  "\<exists>patterns. pii_patterns demo_world demo_ran = Some patterns \<and>
     (\<forall>s \<in> set (texts (PDict (audit_dump demo_audit))). \<forall>search \<in> set patterns. \<not> search s)"
  "\<exists>integrity. build_integrity demo_ring True (audit_dump demo_audit) ''governance-audit'' None = Inr integrity"
  subgoal by (simp add: demo_ran_def demo_runtime_def)
  subgoal by (simp add: demo_ran_def run_state_def)
  subgoal
  proof -
    have "case pii_patterns demo_world demo_ran of None \<Rightarrow> False
      | Some patterns \<Rightarrow> \<forall>s \<in> set (texts (PDict (audit_dump demo_audit))). \<forall>search \<in> set patterns. \<not> search s"
      by code_simp
    then show ?thesis by (simp split: option.splits)
  qed
  subgoal by (simp add: build_integrity_def sign_hash_def demo_ring_def Let_def)
  done

theorem audit_complete_witness:
  "\<exists>path doc. fst (finalize_run demo_world demo_ring demo_config demo_settings ''now'' ''r1'' None None
     demo_ran Map.empty) = [path \<mapsto> doc] \<and> dict_get doc ''governance_decisions'' = PList (map decision_dump (rs_decisions demo_run))"
proof -
  obtain patterns integrity where p: "pii_patterns demo_world demo_ran = Some patterns"
    "\<forall>s \<in> set (texts (PDict (audit_dump demo_audit))). \<forall>search \<in> set patterns. \<not> search s"
    and i: "build_integrity demo_ring True (audit_dump demo_audit) ''governance-audit'' None = Inr integrity"
    using demo_audit(3,4) by blast
  have a: "demo_audit = audit_record_of demo_settings demo_config (the (rt_policy_bundle demo_ran)) ''r1''
     None (case None of None \<Rightarrow> [] | Some m \<Rightarrow> m) ''now'' (run_state ''r1'' demo_ran)"
    by (simp add: demo_audit_def demo_audit(2))
  show ?thesis
    using audit_complete [OF demo_legal(2) demo_audit(1) p(1) a p(2) i, where files = Map.empty]
    by (fastforce simp: demo_audit(2))
qed

text \<open>
  The audit file the runtime writes never verifies: the digest is taken over the payload with its
  empty \<open>integrity\<close> entry still in it, and verification takes the entry out, so every audit file is
  reported as altered, whatever signed it, unless the digest collides on the two.
\<close>

theorem audit_never_verifies:
  assumes "finalize_run W K cfg st now_text run_id reason metadata rt files = (files', Inr (Some path))"
    and "\<forall>payload. collision_free (k_hash K) (hash_body payload None)
           (hash_body (filter (\<lambda>kv. fst kv \<noteq> ''integrity'') payload) None)"
  shows "\<exists>doc v. files' path = Some doc \<and> verify_document K path doc = Some v \<and>
    dict_get v ''verified'' = PBool False \<and> dict_get v ''error_code'' = PStr ''HASH_MISMATCH''"
proof -
  from assms(1) obtain r payload integrity where
    payload: "audit_redact W rt (audit_dump r) = Some payload"
    and integrity: "build_integrity K True payload ''governance-audit'' None = Inr integrity"
    and written: "files' path = Some (dict_set payload ''integrity'' (PDict integrity))"
    by (auto simp: finalize_run_def Let_def split: if_splits option.splits sum.splits)
  note wf = audit_payload [OF payload]
  obtain i where i: "integrity = integrity_dump i" "in_prev_hash i = None"
    "in_hash i = canonical_payload_hash (k_hash K) payload None"
    using integrity by (rule build_integrity_hash)
  let ?rest = "filter (\<lambda>kv. fst kv \<noteq> ''integrity'') payload"
  have "canonical_payload_hash (k_hash K) ?rest None \<noteq> canonical_payload_hash (k_hash K) payload None"
  proof
    assume "canonical_payload_hash (k_hash K) ?rest None = canonical_payload_hash (k_hash K) payload None"
    from canonical_payload_hash_inject [OF this [symmetric] spec [OF assms(2)] wf(1) wf_without [OF wf(1)]]
    have "map_of (canonical_dict payload) ''integrity'' = map_of (canonical_dict ?rest) ''integrity''" by simp
    moreover have "map_of ?rest ''integrity'' = None" by (auto simp: map_of_eq_None_iff)
    ultimately show False using wf wf_without [OF wf(1), of "\<lambda>kv. fst kv \<noteq> ''integrity''"] by (simp add: map_of_canonical_dict)
  qed
  then have "\<exists>v. verify_document K path (dict_set payload ''integrity'' (PDict integrity)) = Some v \<and>
      dict_get v ''verified'' = PBool False \<and> dict_get v ''error_code'' = PStr ''HASH_MISMATCH''"
    by (simp add: verify_document_def i) (simp add: dict_get_def)
  with written show ?thesis by blast
qed

lemma demo_ring_injective: "k_hash demo_ring s = k_hash demo_ring t \<longleftrightarrow> s = t"
  by (simp add: demo_ring_def)

theorem audit_never_verifies_witness:
  "\<exists>doc v. fst (finalize_run demo_world demo_ring demo_config demo_settings ''now'' ''r1'' None None
       (demo_runtime empty_db) Map.empty) ''audit/r1.json'' = Some doc \<and>
     verify_document demo_ring ''audit/r1.json'' doc = Some v \<and> dict_get v ''verified'' = PBool False"
proof -
  let ?res = "finalize_run demo_world demo_ring demo_config demo_settings ''now'' ''r1'' None None
       (demo_runtime empty_db) Map.empty"
  have "snd ?res = Inr (Some ''audit/r1.json'')" by code_simp
  then have "?res = (fst ?res, Inr (Some ''audit/r1.json''))" by (metis prod.collapse)
  from audit_never_verifies [OF this] show ?thesis
    by (auto simp: collision_free_def demo_ring_injective)
qed

end
