(* ===== verification/Memory_Models.thy ===== *)
theory Memory_Models imports Governance_Models Complex_Main begin

text \<open>
  The data of \<open>imperaos/memory/models.py\<close> and its validators.

  \<^item> A number between 0 and 1 (\<open>salience\<close>, \<open>confidence\<close>, \<open>score\<close>) is a rational: the code compares
    such numbers and never computes with them.
  \<^item> A time stamp is the ISO text it has in a document and in a column; the store compares these texts.
  \<^item> \<open>H\<close> is SHA-256 in hexadecimal.
\<close>

section \<open>Enumerations\<close>

datatype memory_scope = ScopePersonal | ScopeAgent | ScopeTeam | ScopeCase | ScopeProject
  | ScopeOrganization | ScopeGlobalReadonly

datatype memory_visibility = VisPrivate | VisAgent | VisTeam | VisProject | VisOrganization | VisPublicReadonly

datatype memory_owner_type = OwnerUser | OwnerAgent | OwnerTeam | OwnerProject | OwnerCase | OwnerOrg

datatype memory_source_type = SourceRun | SourceOperator | SourceSystem | SourceMigration | SourceEval

datatype retention_class = Ephemeral | Standard | Regulated

datatype memory_record_status = MemActive | MemExpired | MemTombstoned | MemDenied

datatype memory_policy_action = MemAllow | MemDeny | MemRequireApproval | MemProposalOnly

fun scope_value :: "memory_scope \<Rightarrow> string" where
  "scope_value ScopePersonal = ''personal''"
| "scope_value ScopeAgent = ''agent''"
| "scope_value ScopeTeam = ''team''"
| "scope_value ScopeCase = ''case''"
| "scope_value ScopeProject = ''project''"
| "scope_value ScopeOrganization = ''organization''"
| "scope_value ScopeGlobalReadonly = ''global_readonly''"

fun visibility_value :: "memory_visibility \<Rightarrow> string" where
  "visibility_value VisPrivate = ''private''"
| "visibility_value VisAgent = ''agent''"
| "visibility_value VisTeam = ''team''"
| "visibility_value VisProject = ''project''"
| "visibility_value VisOrganization = ''organization''"
| "visibility_value VisPublicReadonly = ''public_readonly''"

fun owner_value :: "memory_owner_type \<Rightarrow> string" where
  "owner_value OwnerUser = ''user''"
| "owner_value OwnerAgent = ''agent''"
| "owner_value OwnerTeam = ''team''"
| "owner_value OwnerProject = ''project''"
| "owner_value OwnerCase = ''case''"
| "owner_value OwnerOrg = ''org''"

fun retention_value :: "retention_class \<Rightarrow> string" where
  "retention_value Ephemeral = ''ephemeral''"
| "retention_value Standard = ''standard''"
| "retention_value Regulated = ''regulated''"

fun memory_action_value :: "memory_policy_action \<Rightarrow> string" where
  "memory_action_value MemAllow = ''allow''"
| "memory_action_value MemDeny = ''deny''"
| "memory_action_value MemRequireApproval = ''require_approval''"
| "memory_action_value MemProposalOnly = ''proposal_only''"

lemma scope_value_inject [simp]: "scope_value s = scope_value t \<longleftrightarrow> s = t"
  by (cases s; cases t; simp)

lemma visibility_value_inject [simp]: "visibility_value s = visibility_value t \<longleftrightarrow> s = t"
  by (cases s; cases t; simp)

lemma owner_value_inject [simp]: "owner_value s = owner_value t \<longleftrightarrow> s = t"
  by (cases s; cases t; simp)

text \<open>\<open>ORDER BY scope, visibility\<close> compares the texts.\<close>

instantiation memory_scope :: linorder
begin

definition less_eq_memory_scope :: "memory_scope \<Rightarrow> memory_scope \<Rightarrow> bool" where
  "less_eq_memory_scope s t = (scope_value s \<le> scope_value t)"

definition less_memory_scope :: "memory_scope \<Rightarrow> memory_scope \<Rightarrow> bool" where
  "less_memory_scope s t = (scope_value s < scope_value t)"

instance
  by standard (auto simp: less_eq_memory_scope_def less_memory_scope_def less_le)

end

instantiation memory_visibility :: linorder
begin

definition less_eq_memory_visibility :: "memory_visibility \<Rightarrow> memory_visibility \<Rightarrow> bool" where
  "less_eq_memory_visibility s t = (visibility_value s \<le> visibility_value t)"

definition less_memory_visibility :: "memory_visibility \<Rightarrow> memory_visibility \<Rightarrow> bool" where
  "less_memory_visibility s t = (visibility_value s < visibility_value t)"

instance
  by standard (auto simp: less_eq_memory_visibility_def less_memory_visibility_def less_le)

end

section \<open>Identifiers\<close>

definition is_hex64 :: "string \<Rightarrow> bool" where
  "is_hex64 s \<longleftrightarrow> length s = 64 \<and> list_all (\<lambda>c. c \<in> set ''0123456789abcdef'') s"

definition is_alnum :: "char \<Rightarrow> bool" where
  "is_alnum c = (let n = (of_char c :: nat) in
     (48 \<le> n \<and> n \<le> 57) \<or> (65 \<le> n \<and> n \<le> 90) \<or> (97 \<le> n \<and> n \<le> 122))"

text \<open>A letter or digit, followed by at most \<open>n\<close> letters, digits and characters of \<open>extra\<close>.\<close>

definition safe_text :: "string \<Rightarrow> nat \<Rightarrow> string \<Rightarrow> bool" where
  "safe_text extra n s = (case s of [] \<Rightarrow> False
     | c # rest \<Rightarrow> is_alnum c \<and> length rest \<le> n \<and> list_all (\<lambda>c. is_alnum c \<or> c \<in> set extra) rest)"

definition is_safe_ref :: "string \<Rightarrow> bool" where
  "is_safe_ref = safe_text ''_.:/@ -'' 159"

definition is_safe_namespace :: "string \<Rightarrow> bool" where
  "is_safe_namespace = safe_text ''_.:-'' 79"

text \<open>The pattern \<open>prefix[A-Za-z0-9_-]{8,80}\<close>.\<close>

definition is_prefixed_id :: "string \<Rightarrow> string \<Rightarrow> bool" where
  "is_prefixed_id prefix s = (starts_with s prefix \<and>
     (let rest = drop (length prefix) s
      in 8 \<le> length rest \<and> length rest \<le> 80 \<and> list_all (\<lambda>c. is_alnum c \<or> c \<in> set ''_-'') rest))"

definition stable_id :: "(string \<Rightarrow> string) \<Rightarrow> string \<Rightarrow> string list \<Rightarrow> string" where
  "stable_id H prefix parts = prefix @ ''_'' @ take 24 (H (py_join ''|'' parts))"

definition hash_identity :: "(string \<Rightarrow> string) \<Rightarrow> string \<Rightarrow> string" where
  "hash_identity H value = (if is_hex64 (py_strip value) then py_strip value else H (py_strip value))"

section \<open>Records\<close>

record memory_scope_filter =
  mf_scope :: memory_scope
  mf_owner_type :: memory_owner_type
  mf_owner_id_hash :: string
  mf_namespace :: string

record memory_policy_decision =
  md_decision :: memory_policy_action
  md_reason_code :: string
  md_matched_rule_path :: "string option"
  md_approval_id :: "string option"
  md_redaction_required :: bool
  md_index_write_allowed :: bool
  md_evidence_required :: bool
  md_retention_override :: "retention_class option"
  md_blocking_reasons :: "string list"

record memory_write_proposal =
  mp_proposal_id :: string
  mp_actor_id_hash :: string
  mp_agent_id :: "string option"
  mp_producer_role :: string
  mp_scope :: memory_scope
  mp_owner_type :: memory_owner_type
  mp_owner_id_hash :: string
  mp_visibility :: memory_visibility
  mp_namespace :: string
  mp_memory_target :: "string option"
  mp_expected_state_version :: "int option"
  mp_candidate_text :: string
  mp_candidate_summary :: "string option"
  mp_source_run_id :: "string option"
  mp_reason :: string
  mp_idempotency_key :: string

record memory_record_v3 =
  mr_memory_id :: string
  mr_schema_version :: string
  mr_scope :: memory_scope
  mr_owner_type :: memory_owner_type
  mr_owner_id_hash :: string
  mr_visibility :: memory_visibility
  mr_namespace :: string
  mr_memory_target :: "string option"
  mr_state_version :: int
  mr_content_summary :: string
  mr_content_hash :: string
  mr_embedding_ref :: "string option"
  mr_salience :: rat
  mr_confidence :: rat
  mr_source_type :: memory_source_type
  mr_source_run_id :: "string option"
  mr_source_agent_id :: "string option"
  mr_source_user_hash :: "string option"
  mr_policy_tags :: "string list"
  mr_retention_class :: retention_class
  mr_ttl_days :: "int option"
  mr_expires_at :: "string option"
  mr_status :: memory_record_status
  mr_provenance :: pydict
  mr_created_at :: string
  mr_updated_at :: string

record memory_hit =
  mh_memory_id :: string
  mh_scope :: memory_scope
  mh_visibility :: memory_visibility
  mh_owner_id_hash :: string
  mh_content_summary :: "string option"
  mh_content_hash :: string
  mh_score :: rat
  mh_created_at :: string
  mh_policy_tags :: "string list"

record memory_retrieval_request =
  mq_actor_id_hash :: string
  mq_agent_id :: "string option"
  mq_requester_role :: string
  mq_query :: string
  mq_allowed_scopes :: "memory_scope list"
  mq_scope_filters :: "memory_scope_filter list"
  mq_visibility_filters :: "memory_visibility list"
  mq_limit :: nat
  mq_include_content :: bool
  mq_include_hashes :: bool
  mq_purpose :: string

record memory_retrieval_result =
  rr_status :: string
  rr_query_hash :: string
  rr_hits :: "memory_hit list"
  rr_denied_scopes :: "string list"
  rr_policy_decision :: memory_policy_decision
  rr_retrieval_fingerprint :: "string option"
  rr_evidence_ref :: "string option"
  rr_index_backend :: string

record memory_write_result =
  wr_status :: string
  wr_proposal_id :: string
  wr_memory_id :: "string option"
  wr_policy_decision :: memory_policy_decision
  wr_evidence_ref :: "string option"
  wr_content_hash :: "string option"
  wr_state_version :: "int option"
  wr_conflict_detected :: bool
  wr_blocking_reasons :: "string list"

record memory_evidence_event =
  ev_event_id :: string
  ev_event_type :: string
  ev_memory_id :: "string option"
  ev_proposal_id :: "string option"
  ev_actor_hash :: "string option"
  ev_content_hash :: "string option"
  ev_policy_decision :: memory_policy_decision
  ev_scope :: "memory_scope option"
  ev_visibility :: "memory_visibility option"
  ev_event_hash :: string
  ev_created_at_utc :: string

section \<open>Validators\<close>

text \<open>
  What constructing a proposal or a record checks; \<open>None\<close> is a \<open>ValidationError\<close>.  The target of a
  proposal is stripped, and a blank one is no target.
\<close>

definition between :: "nat \<Rightarrow> nat \<Rightarrow> string \<Rightarrow> bool" where
  "between lo hi s \<longleftrightarrow> lo \<le> length s \<and> length s \<le> hi"

definition opt_at_most :: "nat \<Rightarrow> string option \<Rightarrow> bool" where
  "opt_at_most hi x = (case x of None \<Rightarrow> True | Some s \<Rightarrow> length s \<le> hi)"

definition validate_target :: "string option \<Rightarrow> string option option" where
  "validate_target target = (case target of
     None \<Rightarrow> Some None
   | Some s \<Rightarrow> let normalized = py_strip s
       in if normalized = [] then Some None else if is_safe_ref normalized then Some (Some normalized) else None)"

definition validate_proposal :: "memory_write_proposal \<Rightarrow> memory_write_proposal option" where
  "validate_proposal p =
   (if between 1 120 (mp_producer_role p) \<and> between 1 80 (mp_namespace p) \<and>
       opt_at_most 160 (mp_memory_target p) \<and>
       (case mp_expected_state_version p of None \<Rightarrow> True | Some v \<Rightarrow> 0 \<le> v) \<and>
       between 1 8000 (mp_candidate_text p) \<and> opt_at_most 4000 (mp_candidate_summary p) \<and>
       opt_at_most 160 (mp_source_run_id p) \<and> between 1 500 (mp_reason p) \<and>
       between 8 160 (mp_idempotency_key p) \<and> is_hex64 (mp_actor_id_hash p) \<and>
       is_hex64 (mp_owner_id_hash p) \<and> is_prefixed_id ''mem_prop_'' (mp_proposal_id p)
    then case validate_target (mp_memory_target p) of
           None \<Rightarrow> None
         | Some target \<Rightarrow>
             if opt_truthy target \<and> mp_expected_state_version p = None then None
             else Some (p\<lparr>mp_memory_target := target\<rparr>)
    else None)"

definition record_valid :: "(string \<Rightarrow> string) \<Rightarrow> 'a memory_record_v3_scheme \<Rightarrow> bool" where
  "record_valid H r \<longleftrightarrow>
     1 \<le> mr_state_version r \<and> between 1 4000 (mr_content_summary r) \<and>
     0 \<le> mr_salience r \<and> mr_salience r \<le> 1 \<and> 0 \<le> mr_confidence r \<and> mr_confidence r \<le> 1 \<and>
     (case mr_ttl_days r of None \<Rightarrow> True | Some d \<Rightarrow> 1 \<le> d) \<and>
     is_prefixed_id ''mem_'' (mr_memory_id r) \<and> is_hex64 (mr_owner_id_hash r) \<and>
     is_hex64 (mr_content_hash r) \<and>
     (case mr_source_user_hash r of None \<Rightarrow> True | Some h \<Rightarrow> is_hex64 h) \<and>
     is_safe_namespace (mr_namespace r) \<and> mr_content_hash r = H (mr_content_summary r)"

end
