(* ===== verification/Memory_Store.thy ===== *)
theory Memory_Store imports Memory_Models Sql_Table begin

text \<open>
  The memory store, \<open>imperaos/memory/store_v3.py\<close>: three tables of one SQLite file.

  The lock of the store orders the threads of one process; other processes may commit between two of
  its statements.  \<open>env i\<close> is what they committed before the \<open>i\<close>-th statement of an operation; the
  \<open>INSERT\<close> opens the write transaction, in which no one else commits.  \<open>now\<close> is the text of
  \<open>_iso_now\<close>.
\<close>

section \<open>Tables\<close>

record memory_row = memory_record_v3 +
  mr_idempotency_key :: "string option"

record target_row =
  tg_target_key :: string
  tg_scope :: memory_scope
  tg_owner_type :: memory_owner_type
  tg_owner_id_hash :: string
  tg_visibility :: memory_visibility
  tg_namespace :: string
  tg_memory_target :: string
  tg_current_version :: int
  tg_current_memory_id :: "string option"
  tg_updated_at :: string

record event_row =
  er_event_id :: string
  er_event_type :: string
  er_memory_id :: "string option"
  er_proposal_id :: "string option"
  er_actor_id_hash :: "string option"
  er_agent_id :: "string option"
  er_policy_decision :: pydict
  er_event_hash :: string
  er_evidence_ref :: "string option"
  er_created_at :: string

record memory_db =
  mdb_records :: "memory_row list"
  mdb_targets :: "target_row list"
  mdb_events :: "event_row list"
  mdb_metadata :: pydict

record memory_write_status =
  ws_status :: string
  ws_memory_id :: "string option"
  ws_dedup_hit :: bool
  ws_conflict_detected :: bool
  ws_expected_state_version :: "int option"
  ws_committed_state_version :: "int option"
  ws_memory_target :: "string option"
  ws_blocking_reasons :: "string list option"

definition empty_memory_db :: memory_db where
  "empty_memory_db = \<lparr>mdb_records = [], mdb_targets = [], mdb_events = [], mdb_metadata = []\<rparr>"

definition ensure_schema :: "memory_db \<Rightarrow> memory_db" where
  "ensure_schema db =
     db\<lparr>mdb_metadata := dict_set (mdb_metadata db) ''memory_v3_schema_version'' (PStr ''memory.v3'')\<rparr>"

definition target_key ::
  "memory_scope \<Rightarrow> memory_owner_type \<Rightarrow> string \<Rightarrow> memory_visibility \<Rightarrow> string \<Rightarrow> string \<Rightarrow> string" where
  "target_key scope owner_type owner_id_hash visibility namespace memory_target =
     py_join ''|'' [scope_value scope, owner_value owner_type, owner_id_hash, visibility_value visibility,
       namespace, memory_target]"

definition record_target_key :: "'a memory_record_v3_scheme \<Rightarrow> string option" where
  "record_target_key r = (case mr_memory_target r of
     None \<Rightarrow> None
   | Some target \<Rightarrow>
       if target = [] then None
       else Some (target_key (mr_scope r) (mr_owner_type r) (mr_owner_id_hash r) (mr_visibility r)
         (mr_namespace r) target))"

section \<open>Writing\<close>

definition row_of_record :: "memory_record_v3 \<Rightarrow> string \<Rightarrow> memory_row" where
  "row_of_record r key = memory_record_v3.extend r \<lparr>mr_idempotency_key = Some key\<rparr>"

definition violates_memory_unique :: "memory_row \<Rightarrow> memory_db \<Rightarrow> bool" where
  "violates_memory_unique row db = (\<exists>r \<in> set (mdb_records db).
     mr_memory_id r = mr_memory_id row \<or>
     (mr_idempotency_key r \<noteq> None \<and> mr_idempotency_key r = mr_idempotency_key row))"

definition fetch_idempotent :: "string \<Rightarrow> memory_db \<Rightarrow> memory_row option" where
  "fetch_idempotent key db = sql_fetchone (\<lambda>r. mr_idempotency_key r = Some key) (mdb_records db)"

definition fetch_target :: "string \<Rightarrow> memory_db \<Rightarrow> target_row option" where
  "fetch_target key db = sql_fetchone (\<lambda>t. tg_target_key t = key) (mdb_targets db)"

definition version_at :: "string \<Rightarrow> memory_db \<Rightarrow> int" where
  "version_at key db = (case fetch_target key db of None \<Rightarrow> 0 | Some t \<Rightarrow> tg_current_version t)"

definition target_row_of :: "string \<Rightarrow> memory_record_v3 \<Rightarrow> string \<Rightarrow> string \<Rightarrow> target_row" where
  "target_row_of key r target now =
     \<lparr>tg_target_key = key, tg_scope = mr_scope r, tg_owner_type = mr_owner_type r,
      tg_owner_id_hash = mr_owner_id_hash r, tg_visibility = mr_visibility r, tg_namespace = mr_namespace r,
      tg_memory_target = target, tg_current_version = mr_state_version r,
      tg_current_memory_id = Some (mr_memory_id r), tg_updated_at = now\<rparr>"

text \<open>\<open>INSERT .. ON CONFLICT(target_key) DO UPDATE\<close>: the three columns that are overwritten.\<close>

definition upsert_target :: "target_row \<Rightarrow> target_row list \<Rightarrow> target_row list" where
  "upsert_target row ts =
     (if \<exists>t \<in> set ts. tg_target_key t = tg_target_key row
      then fst (sql_update (\<lambda>t. tg_target_key t = tg_target_key row)
        (\<lambda>t. t\<lparr>tg_current_version := tg_current_version row, tg_current_memory_id := tg_current_memory_id row,
              tg_updated_at := tg_updated_at row\<rparr>) ts)
      else ts @ [row])"

text \<open>The write transaction: the record, and the target it moves.  \<open>None\<close>: \<open>IntegrityError\<close>.\<close>

definition insert_memory :: "memory_record_v3 \<Rightarrow> string \<Rightarrow> string option \<Rightarrow> string \<Rightarrow> memory_db \<Rightarrow> memory_db option" where
  "insert_memory r key tkey now db =
   (if violates_memory_unique (row_of_record r key) db then None
    else Some (db\<lparr>mdb_records := mdb_records db @ [row_of_record r key],
      mdb_targets := (case (tkey, mr_memory_target r) of
         (Some k, Some target) \<Rightarrow> upsert_target (target_row_of k r target now) (mdb_targets db)
       | _ \<Rightarrow> mdb_targets db)\<rparr>))"

definition conflict_status :: "memory_record_v3 \<Rightarrow> int option \<Rightarrow> int \<Rightarrow> string \<Rightarrow> memory_write_status" where
  "conflict_status r expected current reason =
     \<lparr>ws_status = ''conflict'', ws_memory_id = None, ws_dedup_hit = False, ws_conflict_detected = True,
      ws_expected_state_version = expected, ws_committed_state_version = Some current,
      ws_memory_target = mr_memory_target r, ws_blocking_reasons = Some [reason]\<rparr>"

definition written_status :: "memory_record_v3 \<Rightarrow> int option \<Rightarrow> memory_write_status" where
  "written_status r expected =
     \<lparr>ws_status = ''written'', ws_memory_id = Some (mr_memory_id r), ws_dedup_hit = False,
      ws_conflict_detected = False, ws_expected_state_version = expected,
      ws_committed_state_version = Some (mr_state_version r), ws_memory_target = mr_memory_target r,
      ws_blocking_reasons = None\<rparr>"

definition dedup_status :: "memory_record_v3 \<Rightarrow> memory_row \<Rightarrow> memory_write_status" where
  "dedup_status r existing =
     \<lparr>ws_status = ''dedup'', ws_memory_id = Some (mr_memory_id existing), ws_dedup_hit = True,
      ws_conflict_detected = False, ws_expected_state_version = None,
      ws_committed_state_version = Some (mr_state_version existing), ws_memory_target = mr_memory_target r,
      ws_blocking_reasons = None\<rparr>"

definition commit_record ::
  "(nat \<Rightarrow> memory_db \<Rightarrow> memory_db) \<Rightarrow> string \<Rightarrow> memory_record_v3 \<Rightarrow> string \<Rightarrow> string option \<Rightarrow> int option \<Rightarrow>
   memory_db \<Rightarrow> memory_db \<times> memory_write_status option" where
  "commit_record env now r key tkey expected db =
   (let db1 = env 2 db
    in case insert_memory r key tkey now db1 of
         None \<Rightarrow> (db1, None)
       | Some db2 \<Rightarrow> (db2, Some (written_status r expected)))"

definition write_record ::
  "(nat \<Rightarrow> memory_db \<Rightarrow> memory_db) \<Rightarrow> string \<Rightarrow> memory_record_v3 \<Rightarrow> string \<Rightarrow> int option \<Rightarrow> memory_db \<Rightarrow>
   memory_db \<times> memory_write_status option" where
  "write_record env now r idempotency_key expected db =
   (let db0 = env 0 db
    in case fetch_idempotent idempotency_key db0 of
         Some existing \<Rightarrow> (db0, Some (dedup_status r existing))
       | None \<Rightarrow>
           (case record_target_key r of
              None \<Rightarrow> commit_record env now r idempotency_key None expected db0
            | Some tkey \<Rightarrow>
                let db1 = env 1 db0; current = version_at tkey db1
                in (case expected of
                      None \<Rightarrow> (db1, Some (conflict_status r None current ''MEMORY_TARGET_VERSION_REQUIRED''))
                    | Some v \<Rightarrow>
                        if current \<noteq> v
                        then (db1, Some (conflict_status r expected current ''MEMORY_TARGET_VERSION_MISMATCH''))
                        else commit_record env now (r\<lparr>mr_state_version := current + 1\<rparr>) idempotency_key
                               (Some tkey) expected db1)))"

section \<open>Reading\<close>

definition get_record :: "string \<Rightarrow> memory_db \<Rightarrow> memory_row option" where
  "get_record memory_id db = lookup_key mr_memory_id memory_id (mdb_records db)"

definition target_version ::
  "memory_scope \<Rightarrow> memory_owner_type \<Rightarrow> string \<Rightarrow> memory_visibility \<Rightarrow> string \<Rightarrow> string \<Rightarrow> memory_db \<Rightarrow> int" where
  "target_version scope owner_type owner_id_hash visibility namespace memory_target db =
     version_at (target_key scope owner_type owner_id_hash visibility namespace memory_target) db"

definition filter_matches :: "memory_row \<Rightarrow> memory_scope_filter \<Rightarrow> bool" where
  "filter_matches r f = (mr_scope r = mf_scope f \<and> mr_owner_type r = mf_owner_type f \<and>
     mr_owner_id_hash r = mf_owner_id_hash f \<and> mr_namespace r = mf_namespace f)"

text \<open>The clauses shared by \<open>search_records\<close> and \<open>list_records\<close>.\<close>

definition record_clauses ::
  "string \<Rightarrow> bool \<Rightarrow> memory_scope_filter list \<Rightarrow> memory_visibility list \<Rightarrow> memory_row \<Rightarrow> bool" where
  "record_clauses now include_expired scope_filters visibility_filters r =
     (mr_status r = MemActive \<and>
      (include_expired \<or> (case mr_expires_at r of None \<Rightarrow> True | Some e \<Rightarrow> now < e)) \<and>
      (visibility_filters = [] \<or> mr_visibility r \<in> set visibility_filters) \<and>
      (scope_filters = [] \<or> (\<exists>f \<in> set scope_filters. filter_matches r f)))"

text \<open>\<open>LIKE\<close>: a percent sign stands for any text, an underscore for one character, ASCII letters for both cases.\<close>

definition ascii_lower :: "char \<Rightarrow> char" where
  "ascii_lower c = (let n = (of_char c :: nat) in if 65 \<le> n \<and> n \<le> 90 then char_of (n + 32) else c)"

fun like :: "string \<Rightarrow> string \<Rightarrow> bool" where
  "like [] s = (s = [])"
| "like (p # ps) [] = (p = CHR ''%'' \<and> like ps [])"
| "like (p # ps) (c # s) =
     (if p = CHR ''%'' then like ps (c # s) \<or> like (p # ps) s
      else (p = CHR ''_'' \<or> ascii_lower p = ascii_lower c) \<and> like ps s)"

text \<open>\<open>str.split()\<close>.\<close>

fun split_from :: "string \<Rightarrow> string \<Rightarrow> string list" where
  "split_from w [] = (if w = [] then [] else [w])"
| "split_from w (c # s) =
     (if is_space c then (if w = [] then [] else [w]) @ split_from [] s else split_from (w @ [c]) s)"

definition py_split :: "string \<Rightarrow> string list" where
  "py_split s = split_from [] s"

definition search_terms :: "string \<Rightarrow> string list" where
  "search_terms query = take 8 (map py_lower (filter (\<lambda>t. 1 < length t) (py_split query)))"

definition term_matches :: "string list \<Rightarrow> memory_row \<Rightarrow> bool" where
  "term_matches terms r = (terms = [] \<or>
     (\<exists>t \<in> set terms. like (''%'' @ t @ ''%'') (map ascii_lower (mr_content_summary r))))"

definition search_records ::
  "string \<Rightarrow> string \<Rightarrow> memory_scope_filter list \<Rightarrow> memory_visibility list \<Rightarrow> bool \<Rightarrow> nat \<Rightarrow> memory_db \<Rightarrow>
   memory_row list" where
  "search_records now query scope_filters visibility_filters include_expired limit db =
     take limit (sort_key (\<lambda>r. - mr_salience r) (rev (sort_key mr_created_at (rev
       (sql_fetchall (\<lambda>r. record_clauses now include_expired scope_filters visibility_filters r \<and>
          term_matches (search_terms query) r) (mdb_records db))))))"

definition list_records ::
  "string \<Rightarrow> memory_scope_filter list \<Rightarrow> memory_visibility list \<Rightarrow> bool \<Rightarrow> nat \<Rightarrow> memory_db \<Rightarrow> memory_row list" where
  "list_records now scope_filters visibility_filters include_expired limit db =
     take limit (rev (sort_key mr_updated_at (sort_key mr_created_at (rev
       (sql_fetchall (record_clauses now include_expired scope_filters visibility_filters) (mdb_records db))))))"

section \<open>Tombstones, events, counts\<close>

definition tombstone_guard :: "string \<Rightarrow> memory_row \<Rightarrow> bool" where
  "tombstone_guard memory_id r = (mr_memory_id r = memory_id \<and> mr_status r \<noteq> MemTombstoned)"

definition tombstone_effect :: "string \<Rightarrow> memory_row \<Rightarrow> memory_row" where
  "tombstone_effect now r = r\<lparr>mr_status := MemTombstoned, mr_updated_at := now\<rparr>"

definition tombstone :: "string \<Rightarrow> string \<Rightarrow> memory_db \<Rightarrow> memory_db \<times> bool" where
  "tombstone now memory_id db =
     (let (rows, n) = sql_update (tombstone_guard memory_id) (tombstone_effect now) (mdb_records db)
      in (db\<lparr>mdb_records := rows\<rparr>, 0 < n))"

text \<open>\<open>INSERT OR REPLACE\<close>.\<close>

definition record_event :: "event_row \<Rightarrow> memory_db \<Rightarrow> memory_db" where
  "record_event e db =
     db\<lparr>mdb_events := filter (\<lambda>x. er_event_id x \<noteq> er_event_id e) (mdb_events db) @ [e]\<rparr>"

record memory_stats =
  mst_active :: nat
  mst_expired :: nat
  mst_tombstoned :: nat
  mst_denied_writes :: nat
  mst_pending_proposals :: nat
  mst_scopes :: "(memory_scope \<times> memory_visibility \<times> nat) list"

definition count_status :: "memory_record_status \<Rightarrow> memory_db \<Rightarrow> nat" where
  "count_status st db = length (filter (\<lambda>r. mr_status r = st) (mdb_records db))"

definition memory_store_stats :: "memory_db \<Rightarrow> memory_stats" where
  "memory_store_stats db =
   (let active = filter (\<lambda>r. mr_status r = MemActive) (mdb_records db);
        groups = concat (map (\<lambda>s. map (Pair s) (sort (remdups (map mr_visibility (filter (\<lambda>r. mr_scope r = s) active)))))
                  (sort (remdups (map mr_scope active))))
    in \<lparr>mst_active = count_status MemActive db, mst_expired = count_status MemExpired db,
        mst_tombstoned = count_status MemTombstoned db,
        mst_denied_writes = length (filter (\<lambda>e. er_event_type e = ''memory.write.denied'') (mdb_events db)),
        mst_pending_proposals = length (filter (\<lambda>e. er_event_type e \<in>
          {''memory.write.approval_required'', ''memory.write.proposal_only''}) (mdb_events db)),
        mst_scopes = map (\<lambda>(s, v). (s, v, length (filter (\<lambda>r. mr_scope r = s \<and> mr_visibility r = v) active))) groups\<rparr>)"

end
