(* ===== verification/Memory_Authority.thy ===== *)
theory Memory_Authority imports Memory_Store Policy begin

text \<open>
  The memory authority: the redaction of a candidate (\<open>imperaos/memory/redaction.py\<close>), the policy
  (\<open>policy.py\<close>), the evidence of every step (\<open>evidence.py\<close>) and the operations over the store
  (\<open>authority.py\<close>), with the text index of \<open>indexes/sqlite_text.py\<close>, which keeps nothing itself and
  searches the store.

  \<^item> A compiled pattern answers \<open>search\<close> and \<open>sub\<close>; the two lists of patterns are parameters.
  \<^item> \<open>mx_clk\<close> and \<open>mx_iso\<close> are the texts of the clock readings in their two formats, \<open>mx_after\<close> the text
    of a time some days later, \<open>mx_env\<close> the commits of other processes (see \<open>Memory_Store\<close>).
  \<^item> \<open>cf_policy\<close> is what \<open>load_policy\<close> gives for the configured path, \<open>None\<close> when it raises.
  \<^item> An operation that raises answers \<open>Inl\<close> and leaves what it did before in place.
\<close>

section \<open>Redaction\<close>

record text_pattern =
  pt_search :: "string \<Rightarrow> bool"
  pt_sub :: "string \<Rightarrow> string \<Rightarrow> string"

record memory_redaction =
  mrd_redacted_summary :: string
  mrd_content_hash :: string
  mrd_policy_tags :: "string list"
  mrd_secret_detected :: bool
  mrd_pii_detected :: bool

definition redact_candidate ::
  "(string \<Rightarrow> string) \<Rightarrow> text_pattern list \<Rightarrow> text_pattern list \<Rightarrow> bool \<Rightarrow> string \<Rightarrow> memory_redaction" where
  "redact_candidate H secrets piis privacy_mode candidate_text =
   (let text = py_join '' '' (py_split (py_strip candidate_text));
        secret_detected = (\<exists>p \<in> set secrets. pt_search p text);
        pii_detected = (\<exists>p \<in> set piis. pt_search p text);
        redacted = (if privacy_mode
          then foldl (\<lambda>t p. pt_sub p ''[REDACTED_PII]'' t)
                 (foldl (\<lambda>t p. pt_sub p ''[REDACTED_SECRET]'' t) text secrets) piis
          else text);
        summary = take 4000 redacted
    in \<lparr>mrd_redacted_summary = summary, mrd_content_hash = H summary,
        mrd_policy_tags = (if secret_detected then [''secret_suspected''] else []) @
          (if pii_detected then [''pii_redacted''] else []) @ (if privacy_mode then [''privacy_mode''] else []),
        mrd_secret_detected = secret_detected, mrd_pii_detected = pii_detected\<rparr>)"

section \<open>Policy\<close>

definition memory_decision ::
  "memory_policy_action \<Rightarrow> string \<Rightarrow> string option \<Rightarrow> string list \<Rightarrow> memory_policy_decision" where
  "memory_decision action reason matched blocking =
     \<lparr>md_decision = action, md_reason_code = reason, md_matched_rule_path = matched, md_approval_id = None,
      md_redaction_required = True, md_index_write_allowed = True, md_evidence_required = True,
      md_retention_override = None, md_blocking_reasons = blocking\<rparr>"

definition evaluate_write ::
  "policy_file option \<Rightarrow> memory_write_proposal \<Rightarrow> memory_redaction \<Rightarrow> memory_policy_decision" where
  "evaluate_write policy p redaction =
   (if mrd_secret_detected redaction
    then memory_decision MemDeny ''MEMORY_SECRET_DETECTED'' None [''MEMORY_SECRET_DETECTED'']
    else if mp_scope p = ScopeGlobalReadonly
    then (if py_lower (py_strip (mp_producer_role p)) \<in> {''system'', ''migration''}
          then memory_decision MemAllow ''MEMORY_GLOBAL_READONLY_SYSTEM_WRITE'' None []
          else memory_decision MemDeny ''MEMORY_SCOPE_DENIED'' None [''MEMORY_SCOPE_DENIED''])
    else if mp_scope p = ScopeOrganization
    then memory_decision MemRequireApproval ''MEMORY_APPROVAL_REQUIRED'' None []
    else if mp_scope p = ScopePersonal \<and> mp_visibility p = VisPrivate
    then memory_decision MemAllow ''MEMORY_PERSONAL_PRIVATE_ALLOWED'' None []
    else if mp_scope p = ScopeAgent \<and> mp_visibility p \<in> {VisPrivate, VisAgent}
    then memory_decision MemAllow ''MEMORY_AGENT_SCOPE_ALLOWED'' None []
    else case policy of
      None \<Rightarrow> memory_decision MemDeny ''MEMORY_POLICY_UNAVAILABLE'' None [''MEMORY_POLICY_UNAVAILABLE'']
    | Some pol \<Rightarrow>
        let m = evaluate_memory_scope_write pol (scope_value (mp_scope p)) (mp_producer_role p)
                  (visibility_value (mp_visibility p))
        in (case pm_action m of
              Allow \<Rightarrow> memory_decision MemAllow (pm_reason_code m) (pm_matched_rule_path m) []
            | RequireApproval \<Rightarrow>
                memory_decision MemRequireApproval ''MEMORY_APPROVAL_REQUIRED'' (pm_matched_rule_path m) []
            | Deny \<Rightarrow>
                memory_decision MemDeny ''MEMORY_POLICY_DENY'' (pm_matched_rule_path m) [''MEMORY_POLICY_DENY'']))"

definition denied_scopes :: "memory_retrieval_request \<Rightarrow> string list" where
  "denied_scopes q =
   (let requested = (if mq_scope_filters q = [] then mq_allowed_scopes q else map mf_scope (mq_scope_filters q))
    in sort (remdups (map scope_value (filter (\<lambda>s. s \<notin> set (mq_allowed_scopes q)) requested))))"

definition evaluate_retrieval :: "memory_retrieval_request \<Rightarrow> memory_policy_decision" where
  "evaluate_retrieval q =
   (if denied_scopes q \<noteq> []
    then memory_decision MemDeny ''MEMORY_SCOPE_DENIED'' None (''MEMORY_SCOPE_DENIED'' # denied_scopes q)
    else if VisOrganization \<in> set (mq_visibility_filters q) \<and> \<not> substring ''admin'' (py_lower (mq_requester_role q))
    then memory_decision MemDeny ''MEMORY_SCOPE_VISIBILITY_DENIED'' None [''MEMORY_SCOPE_VISIBILITY_DENIED'']
    else memory_decision MemAllow ''MEMORY_RETRIEVAL_ALLOWED'' None [])"

section \<open>Evidence\<close>

record memory_world =
  mx_hash :: "string \<Rightarrow> string"
  mx_secret_patterns :: "text_pattern list"
  mx_pii_patterns :: "text_pattern list"
  mx_clk :: "nat \<Rightarrow> string"
  mx_iso :: "nat \<Rightarrow> string"
  mx_after :: "string \<Rightarrow> int \<Rightarrow> string"
  mx_env :: "nat \<Rightarrow> memory_db \<Rightarrow> memory_db"
  mx_output_root :: string

record memory_config =
  cf_privacy_mode :: bool
  cf_memory_ttl_days :: int
  cf_policy :: "policy_file option"

record authority_state =
  au_db :: memory_db
  au_files :: "string \<rightharpoonup> pydict"

definition memory_decision_dump :: "memory_policy_decision \<Rightarrow> pydict" where
  "memory_decision_dump d =
     [(''decision'', PStr (memory_action_value (md_decision d))), (''reasonCode'', PStr (md_reason_code d)),
      (''matchedRulePath'', pv_of_opt (md_matched_rule_path d)), (''approvalId'', pv_of_opt (md_approval_id d)),
      (''redactionRequired'', PBool (md_redaction_required d)),
      (''indexWriteAllowed'', PBool (md_index_write_allowed d)),
      (''evidenceRequired'', PBool (md_evidence_required d)),
      (''retentionOverride'', pv_of_opt (map_option retention_value (md_retention_override d))),
      (''blockingReasons'', PList (map PStr (md_blocking_reasons d)))]"

definition event_dump :: "memory_evidence_event \<Rightarrow> pydict" where
  "event_dump e =
     [(''eventId'', PStr (ev_event_id e)), (''eventType'', PStr (ev_event_type e)),
      (''memoryId'', pv_of_opt (ev_memory_id e)), (''proposalId'', pv_of_opt (ev_proposal_id e)),
      (''actorHash'', pv_of_opt (ev_actor_hash e)), (''contentHash'', pv_of_opt (ev_content_hash e)),
      (''policyDecision'', PDict (memory_decision_dump (ev_policy_decision e))),
      (''rawContentIncluded'', PBool False), (''rawPromptIncluded'', PBool False),
      (''rawResponseIncluded'', PBool False), (''scope'', pv_of_opt (map_option scope_value (ev_scope e))),
      (''visibility'', pv_of_opt (map_option visibility_value (ev_visibility e))),
      (''eventHash'', PStr (ev_event_hash e)), (''createdAtUtc'', PStr (ev_created_at_utc e))]"

definition forbidden_markers :: "string list" where
  "forbidden_markers = [json_str ''candidateText'', json_str ''candidate_text'',
     json_str ''rawPrompt'' @ '': true'', json_str ''rawResponse'' @ '': true'', ''sk-'']"

definition raw_leak :: "pydict \<Rightarrow> bool" where
  "raw_leak payload =
     (\<exists>marker \<in> set forbidden_markers.
        substring marker (json_text '', '' '': '' (canonicalize_payload (PDict payload))))"

definition opt_text :: "string option \<Rightarrow> string \<Rightarrow> string" where
  "opt_text x fallback = (case x of None \<Rightarrow> fallback | Some s \<Rightarrow> s)"

text \<open>\<open>None\<close>: the \<open>ValueError\<close> of the leak check, before any file is written.\<close>

definition write_event ::
  "memory_world \<Rightarrow> nat \<Rightarrow> string \<Rightarrow> memory_policy_decision \<Rightarrow> string option \<Rightarrow> string option \<Rightarrow> string option \<Rightarrow>
   string option \<Rightarrow> memory_scope option \<Rightarrow> memory_visibility option \<Rightarrow> (string \<rightharpoonup> pydict) \<Rightarrow>
   ((string \<rightharpoonup> pydict) \<times> memory_evidence_event \<times> string) option" where
  "write_event X i etype decision memory_id proposal_id actor_hash content_hash scope visibility files =
   (let H = mx_hash X;
        event_id = stable_id H ''mem_evt''
          [etype, opt_text memory_id ''None'', opt_text proposal_id ''None'', mx_iso X i];
        e = \<lparr>ev_event_id = event_id, ev_event_type = etype, ev_memory_id = memory_id, ev_proposal_id = proposal_id,
             ev_actor_hash = actor_hash, ev_content_hash = content_hash, ev_policy_decision = decision,
             ev_scope = scope, ev_visibility = visibility,
             ev_event_hash = take 24 (H (py_join ''|'' [etype, opt_text memory_id [], opt_text proposal_id [],
               opt_text content_hash [], md_reason_code decision])),
             ev_created_at_utc = mx_clk X i\<rparr>;
        path = mx_output_root X @ ''/events/'' @ event_id @ ''.json'';
        payload = event_dump e
    in if raw_leak payload then None
       else Some (files(path \<mapsto> payload, mx_output_root X @ ''/latest.json'' \<mapsto> payload), e, path))"

text \<open>The event of a step, as a file and as a row.\<close>

definition log_event ::
  "memory_world \<Rightarrow> nat \<Rightarrow> string \<Rightarrow> memory_policy_decision \<Rightarrow> string option \<Rightarrow> memory_write_proposal \<Rightarrow> string \<Rightarrow>
   authority_state \<Rightarrow> authority_state \<times> string option" where
  "log_event X i etype decision memory_id p content_hash s =
   (case write_event X i etype decision memory_id (Some (mp_proposal_id p)) (Some (mp_actor_id_hash p))
           (Some content_hash) (Some (mp_scope p)) (Some (mp_visibility p)) (au_files s) of
      None \<Rightarrow> (s, None)
    | Some (files, e, path) \<Rightarrow>
        (s\<lparr>au_files := files, au_db := record_event
           \<lparr>er_event_id = ev_event_id e, er_event_type = ev_event_type e, er_memory_id = memory_id,
            er_proposal_id = Some (mp_proposal_id p), er_actor_id_hash = Some (mp_actor_id_hash p),
            er_agent_id = mp_agent_id p, er_policy_decision = memory_decision_dump decision,
            er_event_hash = ev_event_hash e, er_evidence_ref = Some path, er_created_at = mx_clk X (Suc i)\<rparr>
           (mx_env X (3 + i) (au_db s))\<rparr>, Some path))"

section \<open>Writing\<close>

datatype authority_error = InvalidValue | StoreIntegrityError | EvidenceLeak

definition write_result ::
  "string \<Rightarrow> memory_write_proposal \<Rightarrow> string option \<Rightarrow> memory_policy_decision \<Rightarrow> string \<Rightarrow> string \<Rightarrow> int option \<Rightarrow>
   bool \<Rightarrow> string list \<Rightarrow> memory_write_result" where
  "write_result status p memory_id decision path content_hash version conflict reasons =
     \<lparr>wr_status = status, wr_proposal_id = mp_proposal_id p, wr_memory_id = memory_id,
      wr_policy_decision = decision, wr_evidence_ref = Some path, wr_content_hash = Some content_hash,
      wr_state_version = version, wr_conflict_detected = conflict, wr_blocking_reasons = reasons\<rparr>"

definition candidate_record ::
  "memory_world \<Rightarrow> memory_config \<Rightarrow> memory_write_proposal \<Rightarrow> memory_redaction \<Rightarrow> memory_policy_decision \<Rightarrow>
   memory_record_v3" where
  "candidate_record X cfg p redaction decision =
   (let H = mx_hash X; now = mx_clk X 0;
        ttl_days = (if cf_memory_ttl_days cfg = 0 then 30 else cf_memory_ttl_days cfg)
    in \<lparr>mr_memory_id = stable_id H ''mem'' [mp_idempotency_key p, scope_value (mp_scope p), mp_owner_id_hash p,
          mrd_content_hash redaction],
        mr_schema_version = ''memory.v3'', mr_scope = mp_scope p, mr_owner_type = mp_owner_type p,
        mr_owner_id_hash = mp_owner_id_hash p, mr_visibility = mp_visibility p, mr_namespace = mp_namespace p,
        mr_memory_target = mp_memory_target p,
        mr_state_version = max 1 ((case mp_expected_state_version p of None \<Rightarrow> 0 | Some v \<Rightarrow> v) + 1),
        mr_content_summary = mrd_redacted_summary redaction, mr_content_hash = mrd_content_hash redaction,
        mr_embedding_ref = None, mr_salience = 72 / 100, mr_confidence = 76 / 100, mr_source_type = SourceRun,
        mr_source_run_id = mp_source_run_id p, mr_source_agent_id = mp_agent_id p,
        mr_source_user_hash = Some (mp_actor_id_hash p), mr_policy_tags = mrd_policy_tags redaction,
        mr_retention_class = (case md_retention_override decision of None \<Rightarrow> Standard | Some c \<Rightarrow> c),
        mr_ttl_days = Some ttl_days, mr_expires_at = Some (mx_after X now ttl_days), mr_status = MemActive,
        mr_provenance = [(''proposalId'', PStr (mp_proposal_id p)), (''reasonHash'', PStr (H (mp_reason p))),
          (''rawContentIncluded'', PBool False)],
        mr_created_at = now, mr_updated_at = now\<rparr>)"

definition redaction_of :: "memory_world \<Rightarrow> memory_config \<Rightarrow> memory_write_proposal \<Rightarrow> memory_redaction" where
  "redaction_of X cfg p = redact_candidate (mx_hash X) (mx_secret_patterns X) (mx_pii_patterns X) (cf_privacy_mode cfg)
     (if opt_truthy (mp_candidate_summary p) then the (mp_candidate_summary p) else mp_candidate_text p)"

text \<open>Log the event and answer; an event that leaks is an exception.\<close>

definition conclude ::
  "memory_world \<Rightarrow> string \<Rightarrow> memory_policy_decision \<Rightarrow> memory_write_proposal \<Rightarrow> string \<Rightarrow> string option \<Rightarrow>
   (string \<Rightarrow> memory_write_result) \<Rightarrow> authority_state \<Rightarrow> authority_state \<times> (authority_error + memory_write_result)" where
  "conclude X etype decision p content_hash memory_id result s =
   (case log_event X 1 etype decision memory_id p content_hash s of
      (s', None) \<Rightarrow> (s', Inl EvidenceLeak)
    | (s', Some path) \<Rightarrow> (s', Inr (result path)))"

definition propose_write ::
  "memory_world \<Rightarrow> memory_config \<Rightarrow> memory_write_proposal \<Rightarrow> authority_state \<Rightarrow>
   authority_state \<times> (authority_error + memory_write_result)" where
  "propose_write X cfg p s =
   (let redaction = redaction_of X cfg p; ch = mrd_content_hash redaction;
        decision = evaluate_write (cf_policy cfg) p redaction
    in if md_decision decision = MemDeny
       then conclude X ''memory.write.denied'' decision p ch None
              (\<lambda>path. write_result ''denied'' p None decision path ch None False (md_blocking_reasons decision)) s
       else if md_decision decision = MemRequireApproval
       then conclude X ''memory.write.approval_required'' decision p ch None
              (\<lambda>path. write_result ''approval_required'' p None decision path ch None False []) s
       else if md_decision decision = MemProposalOnly
       then conclude X ''memory.write.proposal_only'' decision p ch None
              (\<lambda>path. write_result ''proposal_only'' p None decision path ch None False []) s
       else let r = candidate_record X cfg p redaction decision
         in if \<not> record_valid (mx_hash X) r then (s, Inl InvalidValue)
            else case write_record (mx_env X) (mx_clk X 0) r (mp_idempotency_key p) (mp_expected_state_version p)
                        (au_db s) of
                   (db, None) \<Rightarrow> (s\<lparr>au_db := db\<rparr>, Inl StoreIntegrityError)
                 | (db, Some w) \<Rightarrow>
                     if ws_conflict_detected w
                     then conclude X ''memory.write.conflict'' decision p ch None
                            (\<lambda>path. write_result ''conflict'' p None decision path ch None True
                               (case ws_blocking_reasons w of None \<Rightarrow> [''MEMORY_CONFLICT''] | Some rs \<Rightarrow> rs))
                            (s\<lparr>au_db := db\<rparr>)
                     else let memory_id = (case ws_memory_id w of None \<Rightarrow> mr_memory_id r | Some m \<Rightarrow> m)
                       in conclude X ''memory.write.allowed'' decision p ch (Some memory_id)
                            (\<lambda>path. write_result ''written'' p (Some memory_id) decision path ch
                               (ws_committed_state_version w) False [])
                            (s\<lparr>au_db := db\<rparr>))"

section \<open>Retrieving\<close>

definition hit_of :: "memory_row \<Rightarrow> memory_hit" where
  "hit_of r = \<lparr>mh_memory_id = mr_memory_id r, mh_scope = mr_scope r, mh_visibility = mr_visibility r,
     mh_owner_id_hash = mr_owner_id_hash r, mh_content_summary = Some (mr_content_summary r),
     mh_content_hash = mr_content_hash r, mh_score = max (1 / 100) (mr_salience r),
     mh_created_at = mr_created_at r, mh_policy_tags = mr_policy_tags r\<rparr>"

definition index_search ::
  "string \<Rightarrow> string \<Rightarrow> memory_scope_filter list \<Rightarrow> memory_visibility list \<Rightarrow> nat \<Rightarrow> memory_db \<Rightarrow> memory_hit list" where
  "index_search now query scope_filters visibility_filters limit db =
     map hit_of (search_records now query scope_filters visibility_filters False limit db)"

definition retrieval_result ::
  "memory_world \<Rightarrow> memory_retrieval_request \<Rightarrow> string \<Rightarrow> memory_hit list \<Rightarrow> string list \<Rightarrow> memory_policy_decision \<Rightarrow>
   string option \<Rightarrow> string \<Rightarrow> memory_retrieval_result" where
  "retrieval_result X q status hits denied decision fingerprint path =
     \<lparr>rr_status = status, rr_query_hash = mx_hash X (mq_query q), rr_hits = hits, rr_denied_scopes = denied,
      rr_policy_decision = decision, rr_retrieval_fingerprint = fingerprint, rr_evidence_ref = Some path,
      rr_index_backend = ''sqlite_text''\<rparr>"

definition retrieve ::
  "memory_world \<Rightarrow> memory_retrieval_request \<Rightarrow> authority_state \<Rightarrow>
   authority_state \<times> (authority_error + memory_retrieval_result)" where
  "retrieve X q s =
   (let decision = evaluate_retrieval q; query_hash = mx_hash X (mq_query q)
    in if md_decision decision = MemDeny
       then (case write_event X 1 ''memory.retrieve.denied'' decision None None (Some (mq_actor_id_hash q))
                    (Some query_hash) None None (au_files s) of
               None \<Rightarrow> (s, Inl EvidenceLeak)
             | Some (files, e, path) \<Rightarrow> (s\<lparr>au_files := files\<rparr>,
                 Inr (retrieval_result X q ''denied'' [] (md_blocking_reasons decision) decision None path)))
       else let found = index_search (mx_clk X 0) (mq_query q) (mq_scope_filters q) (mq_visibility_filters q)
                          (mq_limit q) (au_db s);
                hits = (if mq_include_content q then found else map (\<lambda>h. h\<lparr>mh_content_summary := None\<rparr>) found);
                fingerprint = mx_hash X (json_text '', '' '': '' (PList (map (\<lambda>h. PStr (mh_memory_id h)) hits)))
         in (case write_event X 1 ''memory.retrieve.allowed'' decision None None (Some (mq_actor_id_hash q))
                    (Some query_hash) None None (au_files s) of
               None \<Rightarrow> (s, Inl EvidenceLeak)
             | Some (files, e, path) \<Rightarrow> (s\<lparr>au_files := files\<rparr>,
                 Inr (retrieval_result X q (if hits \<noteq> [] then ''pass'' else ''empty'') hits [] decision
                   (Some fingerprint) path))))"

section \<open>Tombstones\<close>

definition tombstone_request :: "string \<Rightarrow> string \<Rightarrow> memory_retrieval_request" where
  "tombstone_request memory_id actor_id_hash =
     \<lparr>mq_actor_id_hash = actor_id_hash, mq_agent_id = None, mq_requester_role = ''operator'', mq_query = memory_id,
      mq_allowed_scopes = [ScopePersonal, ScopeAgent, ScopeTeam, ScopeCase, ScopeProject, ScopeOrganization],
      mq_scope_filters = [], mq_visibility_filters = [], mq_limit = 8, mq_include_content = False,
      mq_include_hashes = True, mq_purpose = ''audit''\<rparr>"

text \<open>The status and the evidence.\<close>

definition authority_tombstone ::
  "memory_world \<Rightarrow> string \<Rightarrow> string \<Rightarrow> authority_state \<Rightarrow> authority_state \<times> (authority_error + (string \<times> string))" where
  "authority_tombstone X memory_id actor_id_hash s =
   (if \<not> is_hex64 actor_id_hash \<or> \<not> between 1 4000 memory_id then (s, Inl InvalidValue)
    else let decision = evaluate_retrieval (tombstone_request memory_id actor_id_hash);
             (db, ok) = tombstone (mx_clk X 0) memory_id (mx_env X 0 (au_db s));
             s1 = s\<lparr>au_db := db\<rparr>
      in (case write_event X 1 ''memory.lifecycle.tombstoned'' decision (Some memory_id) None (Some actor_id_hash)
                 None None None (au_files s1) of
            None \<Rightarrow> (s1, Inl EvidenceLeak)
          | Some (files, e, path) \<Rightarrow>
              (s1\<lparr>au_files := files, au_db := record_event
                 \<lparr>er_event_id = ev_event_id e, er_event_type = ev_event_type e, er_memory_id = Some memory_id,
                  er_proposal_id = None, er_actor_id_hash = Some actor_id_hash, er_agent_id = None,
                  er_policy_decision = memory_decision_dump decision, er_event_hash = ev_event_hash e,
                  er_evidence_ref = Some path, er_created_at = mx_clk X 2\<rparr> (mx_env X 4 (au_db s1))\<rparr>,
               Inr (if ok then ''tombstoned'' else ''missing'', path))))"

section \<open>Proposals of the command line\<close>

definition proposal_from_cli ::
  "(string \<Rightarrow> string) \<Rightarrow> string \<Rightarrow> memory_scope \<Rightarrow> memory_owner_type \<Rightarrow> string \<Rightarrow> memory_visibility \<Rightarrow> string \<Rightarrow>
   string \<Rightarrow> string \<Rightarrow> string option \<Rightarrow> int option \<Rightarrow> string option \<Rightarrow> string option \<Rightarrow> memory_write_proposal option" where
  "proposal_from_cli H actor scope owner_type owner visibility text role reason memory_target expected agent_id
     source_run_id =
   (let owner_hash = hash_identity H owner; actor_hash = hash_identity H actor
    in validate_proposal
      \<lparr>mp_proposal_id = stable_id H ''mem_prop'' [actor_hash, scope_value scope, owner_hash, text],
       mp_actor_id_hash = actor_hash, mp_agent_id = agent_id, mp_producer_role = role, mp_scope = scope,
       mp_owner_type = owner_type, mp_owner_id_hash = owner_hash, mp_visibility = visibility,
       mp_namespace = ''default'', mp_memory_target = memory_target, mp_expected_state_version = expected,
       mp_candidate_text = text, mp_candidate_summary = None, mp_source_run_id = source_run_id,
       mp_reason = reason,
       mp_idempotency_key = stable_id H ''mem_idem'' [actor_hash, scope_value scope, owner_hash, text]\<rparr>)"

end
