(* ===== verification/Memory_Machine.thy ===== *)
theory Memory_Machine imports Memory_Authority Machine begin

text \<open>
  The memory store as a machine: every commit of any process is one of four steps.  The invariant, what
  a run can change of a record (\<open>memory_later\<close>), and that the operations of the authority are runs.
\<close>

section \<open>Steps\<close>

inductive memory_step :: "(string \<Rightarrow> string) \<Rightarrow> memory_db \<Rightarrow> memory_db \<Rightarrow> bool" for H where
  insert: "record_valid H r \<Longrightarrow> mr_status r = MemActive \<Longrightarrow>
    insert_memory r key (record_target_key r) now db = Some db' \<Longrightarrow> memory_step H db db'"
| tombstone: "memory_step H db (fst (tombstone now memory_id db))"
| event: "memory_step H db (record_event e db)"
| schema: "memory_step H db (ensure_schema db)"

inductive_cases memory_stepE: "memory_step H db db'"

text \<open>A target points to the record that moved it last.\<close>

definition target_ok :: "memory_db \<Rightarrow> target_row \<Rightarrow> bool" where
  "target_ok db t = (\<exists>r \<in> set (mdb_records db). tg_current_memory_id t = Some (mr_memory_id r) \<and>
     record_target_key r = Some (tg_target_key t) \<and> mr_state_version r = tg_current_version t)"

definition memory_inv :: "(string \<Rightarrow> string) \<Rightarrow> memory_db \<Rightarrow> bool" where
  "memory_inv H db \<longleftrightarrow>
     keys_distinct mr_memory_id (mdb_records db) \<and> keys_distinct mr_idempotency_key (mdb_records db) \<and>
     (\<forall>r \<in> set (mdb_records db). record_valid H r \<and> mr_idempotency_key r \<noteq> None \<and>
        mr_status r \<in> {MemActive, MemTombstoned}) \<and>
     keys_distinct tg_target_key (mdb_targets db) \<and> (\<forall>t \<in> set (mdb_targets db). target_ok db t) \<and>
     keys_distinct er_event_id (mdb_events db)"

section \<open>Rows\<close>

lemma row_of_record_simps [simp]:
  "mr_memory_id (row_of_record r key) = mr_memory_id r" "mr_scope (row_of_record r key) = mr_scope r"
  "mr_owner_type (row_of_record r key) = mr_owner_type r"
  "mr_owner_id_hash (row_of_record r key) = mr_owner_id_hash r"
  "mr_visibility (row_of_record r key) = mr_visibility r" "mr_namespace (row_of_record r key) = mr_namespace r"
  "mr_memory_target (row_of_record r key) = mr_memory_target r"
  "mr_state_version (row_of_record r key) = mr_state_version r"
  "mr_content_summary (row_of_record r key) = mr_content_summary r"
  "mr_content_hash (row_of_record r key) = mr_content_hash r" "mr_status (row_of_record r key) = mr_status r"
  "mr_idempotency_key (row_of_record r key) = Some key" "mr_policy_tags (row_of_record r key) = mr_policy_tags r"
  by (simp_all add: row_of_record_def memory_record_v3.defs)

lemma record_valid_row [simp]: "record_valid H (row_of_record r key) = record_valid H r"
  by (simp add: record_valid_def row_of_record_def memory_record_v3.defs)

lemma record_target_key_row [simp]: "record_target_key (row_of_record r key) = record_target_key r"
  by (simp add: record_target_key_def split: option.split)

lemma record_target_key_version [simp]: "record_target_key (r\<lparr>mr_state_version := v\<rparr>) = record_target_key r"
  by (simp add: record_target_key_def split: option.split)

lemma tombstone_effect_simps [simp]:
  "mr_memory_id (tombstone_effect now r) = mr_memory_id r"
  "mr_idempotency_key (tombstone_effect now r) = mr_idempotency_key r"
  "mr_state_version (tombstone_effect now r) = mr_state_version r"
  "mr_status (tombstone_effect now r) = MemTombstoned"
  "record_valid H (tombstone_effect now r) = record_valid H r"
  "record_target_key (tombstone_effect now r) = record_target_key r"
  by (simp_all add: tombstone_effect_def record_valid_def record_target_key_def split: option.split)

interpretation tomb: keyed_update mr_memory_id "tombstone_guard memory_id" "tombstone_effect now" for memory_id now
  by unfold_locales simp

interpretation tomb_idem: keyed_update mr_idempotency_key "tombstone_guard memory_id" "tombstone_effect now"
  for memory_id now
  by unfold_locales simp

interpretation upsert: keyed_update tg_target_key "\<lambda>t. tg_target_key t = k"
    "\<lambda>t. t\<lparr>tg_current_version := v, tg_current_memory_id := m, tg_updated_at := now\<rparr>" for k v m now
  by unfold_locales simp

lemma tombstone_db:
  "fst (tombstone now memory_id db) =
     db\<lparr>mdb_records := fst (sql_update (tombstone_guard memory_id) (tombstone_effect now) (mdb_records db))\<rparr>"
  by (simp add: tombstone_def split: prod.split)

lemma insert_memory_SomeD:
  assumes "insert_memory r key tkey now db = Some db'"
  shows "\<not> violates_memory_unique (row_of_record r key) db"
    and "mdb_records db' = mdb_records db @ [row_of_record r key]"
    and "mdb_targets db' = (case (tkey, mr_memory_target r) of
       (Some k, Some target) \<Rightarrow> upsert_target (target_row_of k r target now) (mdb_targets db) | _ \<Rightarrow> mdb_targets db)"
    and "mdb_events db' = mdb_events db"
  using assms by (auto simp: insert_memory_def split: if_splits)

lemma record_target_key_Some:
  "record_target_key r = Some k \<Longrightarrow> \<exists>target. mr_memory_target r = Some target"
  by (auto simp: record_target_key_def split: option.splits)

lemma upsert_keys: "keys_distinct tg_target_key ts \<Longrightarrow> keys_distinct tg_target_key (upsert_target row ts)"
  unfolding upsert_target_def by (auto simp: upsert.distinct_kept) (auto simp: keys_distinct_def)

lemma upsert_set:
  assumes "t \<in> set (upsert_target row ts)"
  shows "(tg_target_key t \<noteq> tg_target_key row \<and> t \<in> set ts) \<or>
    (tg_target_key t = tg_target_key row \<and> tg_current_version t = tg_current_version row \<and>
     tg_current_memory_id t = tg_current_memory_id row)"
  using assms by (auto simp: upsert_target_def sql_update_rows split: if_splits)

lemma upsert_lookup:
  "lookup_key tg_target_key k (upsert_target row ts) =
     (if k = tg_target_key row
      then Some (case lookup_key tg_target_key k ts of None \<Rightarrow> row
         | Some t \<Rightarrow> t\<lparr>tg_current_version := tg_current_version row,
             tg_current_memory_id := tg_current_memory_id row, tg_updated_at := tg_updated_at row\<rparr>)
      else lookup_key tg_target_key k ts)"
proof (cases "\<exists>t \<in> set ts. tg_target_key t = tg_target_key row")
  case True
  then obtain t where "lookup_key tg_target_key (tg_target_key row) ts = Some t"
    by (metis image_eqI lookup_key_None not_None_eq)
  with True show ?thesis
    by (cases "lookup_key tg_target_key k ts")
      (auto simp: upsert_target_def upsert.lookup_after dest: lookup_key_Some split: option.split)
next
  case False
  then have "lookup_key tg_target_key (tg_target_key row) ts = None" by (auto simp: lookup_key_None)
  with False show ?thesis by (auto simp: upsert_target_def lookup_key_append split: option.split)
qed

lemma fetch_target_lookup: "fetch_target k db = lookup_key tg_target_key k (mdb_targets db)"
  by (simp add: fetch_target_def sql_fetchone_def lookup_key_def)

section \<open>The invariant\<close>

lemma memory_invD:
  assumes "memory_inv H db"
  shows "keys_distinct mr_memory_id (mdb_records db)" "keys_distinct mr_idempotency_key (mdb_records db)"
    "\<And>r. r \<in> set (mdb_records db) \<Longrightarrow>
       record_valid H r \<and> mr_idempotency_key r \<noteq> None \<and> mr_status r \<in> {MemActive, MemTombstoned}"
    "keys_distinct tg_target_key (mdb_targets db)" "\<And>t. t \<in> set (mdb_targets db) \<Longrightarrow> target_ok db t"
    "keys_distinct er_event_id (mdb_events db)"
  using assms unfolding memory_inv_def by blast+

lemma memory_inv_schema: "memory_inv H (ensure_schema db) = memory_inv H db"
  by (simp add: memory_inv_def ensure_schema_def target_ok_def)

lemma memory_inv_initial: "memory_inv H (ensure_schema empty_memory_db)"
  unfolding memory_inv_schema by (simp add: memory_inv_def empty_memory_db_def keys_distinct_def)

lemma memory_inv_event: "memory_inv H db \<Longrightarrow> memory_inv H (record_event e db)"
  by (auto simp: memory_inv_def record_event_def target_ok_def keys_distinct_def distinct_map_filter)

lemma memory_inv_tombstone:
  assumes "memory_inv H db"
  shows "memory_inv H (fst (tombstone now memory_id db))"
proof -
  let ?rows = "fst (sql_update (tombstone_guard memory_id) (tombstone_effect now) (mdb_records db))"
  have rows: "\<exists>r \<in> set (mdb_records db). x = (if tombstone_guard memory_id r then tombstone_effect now r else r)"
    if "x \<in> set ?rows" for x
    using that by (rule sql_update_set)
  have valid: "record_valid H x \<and> mr_idempotency_key x \<noteq> None \<and> mr_status x \<in> {MemActive, MemTombstoned}"
    if "x \<in> set ?rows" for x
    using rows [OF that] memory_invD(3) [OF assms] by (auto split: if_splits)
  have target: "target_ok (db\<lparr>mdb_records := ?rows\<rparr>) t" if t: "t \<in> set (mdb_targets db)" for t
  proof -
    obtain r where r: "r \<in> set (mdb_records db)" "tg_current_memory_id t = Some (mr_memory_id r)"
      "record_target_key r = Some (tg_target_key t)" "mr_state_version r = tg_current_version t"
      using memory_invD(5) [OF assms t] by (auto simp: target_ok_def)
    let ?r = "if tombstone_guard memory_id r then tombstone_effect now r else r"
    have "?r \<in> set ?rows" using r(1) by (simp add: sql_update_rows)
    moreover have "mr_memory_id ?r = mr_memory_id r" "record_target_key ?r = record_target_key r"
      "mr_state_version ?r = mr_state_version r" by simp_all
    ultimately show ?thesis using r(2-) unfolding target_ok_def by (intro bexI [of _ ?r]) auto
  qed
  show ?thesis
    using memory_invD(1,2,4,6) [OF assms] valid target
    by (simp add: memory_inv_def tombstone_db tomb.distinct_kept tomb_idem.distinct_kept)
qed

lemma memory_inv_insert:
  assumes "memory_inv H db" "record_valid H r" "mr_status r = MemActive"
    and ins: "insert_memory r key (record_target_key r) now db = Some db'"
  shows "memory_inv H db'"
proof -
  note new = insert_memory_SomeD [OF ins] and old = memory_invD [OF assms(1)]
  have ids: "mr_memory_id r \<notin> mr_memory_id ` set (mdb_records db)"
    "Some key \<notin> mr_idempotency_key ` set (mdb_records db)"
    using new(1) by (auto simp: violates_memory_unique_def)
  have kept: "target_ok db' t" if "target_ok db t" for t
    using that by (auto simp: target_ok_def new(2))
  have "keys_distinct tg_target_key (mdb_targets db') \<and> (\<forall>t \<in> set (mdb_targets db'). target_ok db' t)"
  proof (cases "record_target_key r")
    case None
    then show ?thesis using old(4,5) kept by (simp add: new(3))
  next
    case (Some k)
    then obtain target where target: "mr_memory_target r = Some target" using record_target_key_Some by blast
    let ?row = "target_row_of k r target now"
    have "target_ok db' t" if "t \<in> set (upsert_target ?row (mdb_targets db))" for t
      using upsert_set [OF that] kept [OF old(5)] Some
      by (auto simp: target_row_of_def target_ok_def new(2))
    then show ?thesis using upsert_keys [OF old(4)] by (simp add: new(3) Some target)
  qed
  moreover have "keys_distinct mr_memory_id (mdb_records db')" "keys_distinct mr_idempotency_key (mdb_records db')"
    using old(1,2) ids by (simp_all add: keys_distinct_def new(2))
  moreover have "\<forall>x \<in> set (mdb_records db'). record_valid H x \<and> mr_idempotency_key x \<noteq> None \<and>
      mr_status x \<in> {MemActive, MemTombstoned}"
    using old(3) assms(2,3) by (auto simp: new(2))
  ultimately show ?thesis using old(6) unfolding memory_inv_def by (simp add: new(4))
qed

lemma memory_inv_step: "memory_step H db db' \<Longrightarrow> memory_inv H db \<Longrightarrow> memory_inv H db'"
  by (erule memory_step.cases) (simp_all add: memory_inv_insert memory_inv_tombstone memory_inv_event memory_inv_schema)


section \<open>Histories\<close>

definition memory_kept :: "memory_row \<Rightarrow> memory_row \<Rightarrow> bool" where
  "memory_kept r r' \<longleftrightarrow> r' = r \<or> (mr_status r \<noteq> MemTombstoned \<and> (\<exists>now. r' = tombstone_effect now r))"

definition memory_later :: "memory_db \<Rightarrow> memory_db \<Rightarrow> bool" where
  "memory_later db db' \<longleftrightarrow>
     (\<forall>i r. get_record i db = Some r \<longrightarrow> (\<exists>r'. get_record i db' = Some r' \<and> memory_kept r r'))"

lemma memory_later_same: "mdb_records db' = mdb_records db \<Longrightarrow> memory_later db db'"
  by (simp add: memory_later_def get_record_def memory_kept_def)

lemma memory_later_trans: "memory_later a b \<Longrightarrow> memory_later b c \<Longrightarrow> memory_later a c"
  unfolding memory_later_def memory_kept_def by (metis tombstone_effect_simps(4))

lemma memory_later_step:
  assumes "memory_step H db db'"
  shows "memory_later db db'"
  using assms
proof (cases rule: memory_step.cases)
  case (insert r key now)
  from insert_memory_SomeD(2) [OF insert(3)] show ?thesis
    by (simp add: memory_later_def get_record_def lookup_key_append memory_kept_def)
next
  case (tombstone now i)
  then have "mdb_records db' = fst (sql_update (tombstone_guard i) (tombstone_effect now) (mdb_records db))"
    by (simp add: tombstone_db)
  then show ?thesis
    by (auto simp: memory_later_def get_record_def tomb.lookup_after memory_kept_def tombstone_guard_def)
qed (auto intro: memory_later_same simp: record_event_def ensure_schema_def)

interpretation memory: history_machine "memory_step H" "memory_inv H" memory_later for H
  by unfold_locales (auto intro: memory_inv_step memory_later_same memory_later_trans memory_later_step)

section \<open>The operations are runs\<close>

definition legal_memory_env :: "(string \<Rightarrow> string) \<Rightarrow> (nat \<Rightarrow> memory_db \<Rightarrow> memory_db) \<Rightarrow> bool" where
  "legal_memory_env H env \<longleftrightarrow> (\<forall>i db. (memory_step H)\<^sup>*\<^sup>* db (env i db))"

lemma legal_memory_env_id: "legal_memory_env H (\<lambda>_ db. db)"
  by (simp add: legal_memory_env_def)

lemma memory_env_run: "legal_memory_env H env \<Longrightarrow> (memory_step H)\<^sup>*\<^sup>* db (env i db)"
  by (simp add: legal_memory_env_def)

lemma version_at_pos: "memory_inv H db \<Longrightarrow> 0 \<le> version_at k db"
proof -
  assume inv: "memory_inv H db"
  have "0 \<le> tg_current_version t" if t: "t \<in> set (mdb_targets db)" for t
  proof -
    obtain r where "r \<in> set (mdb_records db)" "mr_state_version r = tg_current_version t"
      using memory_invD(5) [OF inv t] by (auto simp: target_ok_def)
    moreover from this(1) have "record_valid H r" using memory_invD(3) [OF inv] by blast
    ultimately show ?thesis by (simp add: record_valid_def)
  qed
  then show ?thesis
    by (auto simp: version_at_def fetch_target_lookup dest: lookup_key_Some split: option.split)
qed

lemma record_valid_version: "record_valid H r \<Longrightarrow> 1 \<le> v \<Longrightarrow> record_valid H (r\<lparr>mr_state_version := v\<rparr>)"
  unfolding record_valid_def by auto

lemma commit_record_run:
  assumes "legal_memory_env H env" "record_valid H r" "mr_status r = MemActive"
    "tkey = record_target_key r"
  shows "(memory_step H)\<^sup>*\<^sup>* db (fst (commit_record env now r key tkey expected db))"
proof -
  have "(memory_step H)\<^sup>*\<^sup>* (env 2 db) (fst (commit_record env now r key tkey expected db))"
    using assms(2-) by (auto simp: commit_record_def Let_def intro: memory_step.insert split: option.split)
  with memory_env_run [OF assms(1)] show ?thesis by (rule rtranclp_trans)
qed

lemma write_record_run:
  assumes "legal_memory_env H env" "memory_inv H db" "record_valid H r" "mr_status r = MemActive"
  shows "(memory_step H)\<^sup>*\<^sup>* db (fst (write_record env now r key expected db))"
proof -
  let ?db0 = "env 0 db"
  let ?db1 = "env 1 ?db0"
  have run0: "(memory_step H)\<^sup>*\<^sup>* db ?db0" and run1: "(memory_step H)\<^sup>*\<^sup>* ?db0 ?db1"
    using memory_env_run [OF assms(1)] by blast+
  have "memory_inv H ?db1" using memory.run_inv run0 run1 assms(2) by blast
  then have version: "record_valid H (r\<lparr>mr_state_version := version_at k ?db1 + 1\<rparr>)" for k
    using record_valid_version [OF assms(3)] version_at_pos [of H ?db1 k] by simp
  have "(memory_step H)\<^sup>*\<^sup>* ?db0 (fst (write_record env now r key expected db))"
    using run1 commit_record_run [OF assms(1) assms(3,4) refl, of ?db0]
      rtranclp_trans [OF run1 commit_record_run [OF assms(1) version]] assms(4)
    by (auto simp: write_record_def Let_def split: option.split)
  with run0 show ?thesis by (rule rtranclp_trans)
qed

lemma record_event_run: "(memory_step H)\<^sup>*\<^sup>* db (record_event e db)"
  by (rule r_into_rtranclp) (rule memory_step.event)

lemma conclude_run:
  assumes "legal_memory_env H (mx_env X)"
  shows "(memory_step H)\<^sup>*\<^sup>* (au_db s) (au_db (fst (conclude X etype decision p ch m result s)))"
  using rtranclp_trans [OF memory_env_run [OF assms] record_event_run]
  by (auto simp: conclude_def log_event_def split: option.split prod.split)

lemma candidate_active: "mr_status (candidate_record X cfg p redaction decision) = MemActive"
  by (simp add: candidate_record_def Let_def)

lemma propose_write_run:
  assumes "legal_memory_env (mx_hash X) (mx_env X)" "memory_inv (mx_hash X) (au_db s)"
  shows "(memory_step (mx_hash X))\<^sup>*\<^sup>* (au_db s) (au_db (fst (propose_write X cfg p s)))"
proof -
  define redaction where "redaction = redaction_of X cfg p"
  define decision where "decision = evaluate_write (cf_policy cfg) p redaction"
  let ?r = "candidate_record X cfg p redaction decision"
  let ?w = "write_record (mx_env X) (mx_clk X 0) ?r (mp_idempotency_key p) (mp_expected_state_version p) (au_db s)"
  note run = conclude_run [OF assms(1)]
  show ?thesis
  proof (cases "md_decision decision = MemAllow \<and> record_valid (mx_hash X) ?r")
    case True
    then have stored: "(memory_step (mx_hash X))\<^sup>*\<^sup>* (au_db s) (fst ?w)"
      using write_record_run [OF assms] candidate_active by blast
    have after: "(memory_step (mx_hash X))\<^sup>*\<^sup>* (au_db s)
        (au_db (fst (conclude X etype decision p ch m result (s\<lparr>au_db := fst ?w\<rparr>))))" for etype ch m result
      using rtranclp_trans [OF stored] run [of "s\<lparr>au_db := fst ?w\<rparr>"] by simp
    show ?thesis
      using True stored after by (cases ?w)
        (auto simp: propose_write_def Let_def redaction_def [symmetric] decision_def [symmetric] split: option.split)
  next
    case False
    then show ?thesis
      using run by (cases "md_decision decision")
        (auto simp: propose_write_def Let_def redaction_def [symmetric] decision_def [symmetric])
  qed
qed

lemma authority_tombstone_run:
  assumes "legal_memory_env H (mx_env X)"
  shows "(memory_step H)\<^sup>*\<^sup>* (au_db s) (au_db (fst (authority_tombstone X i actor s)))"
proof -
  let ?t = "tombstone (mx_clk X 0) i (mx_env X 0 (au_db s))"
  have "(memory_step H)\<^sup>*\<^sup>* (mx_env X 0 (au_db s)) (fst ?t)" by (rule r_into_rtranclp) (rule memory_step.tombstone)
  with memory_env_run [OF assms] have run: "(memory_step H)\<^sup>*\<^sup>* (au_db s) (fst ?t)" by (rule rtranclp_trans)
  then have "(memory_step H)\<^sup>*\<^sup>* (au_db s) (record_event e (mx_env X 4 (fst ?t)))" for e
    using memory_env_run [OF assms] record_event_run by (meson rtranclp_trans)
  with run show ?thesis
    by (cases ?t) (auto simp: authority_tombstone_def Let_def split: option.split)
qed

end
