(* ===== verification/Memory_Props.thy ===== *)
theory Memory_Props imports Memory_Machine begin

text \<open>
  What the memory authority guarantees: the shape of the store, that nothing is remembered unless the
  policy allowed it, that a proposal is remembered once, that a stale version writes nothing within one
  process (and does between two), what a retrieval can show, and that a tombstone is final.
\<close>

section \<open>One write\<close>

lemma write_record_quiet:
  assumes "write_record (\<lambda>_ db. db) now r key expected db = (db', Some w)"
  obtains existing where "fetch_idempotent key db = Some existing" "db' = db" "w = dedup_status r existing"
  | current reason where "fetch_idempotent key db = None" "db' = db" "w = conflict_status r expected current reason"
  | r' where "fetch_idempotent key db = None" "w = written_status r' expected"
    "insert_memory r' key (record_target_key r') now db = Some db'"
    "record_target_key r = None \<and> r' = r \<or>
     (\<exists>k. record_target_key r = Some k \<and> expected = Some (version_at k db) \<and>
        r' = r\<lparr>mr_state_version := version_at k db + 1\<rparr>)"
proof (cases "fetch_idempotent key db")
  case (Some existing)
  have "db' = db" "w = dedup_status r existing" using assms by (simp_all add: write_record_def Some)
  then show thesis by (rule that(1) [OF Some])
next
  case None
  note new = this
  show thesis
  proof (cases "record_target_key r")
    case None
    then have "commit_record (\<lambda>_ db. db) now r key None expected db = (db', Some w)"
      using assms new by (simp add: write_record_def)
    then have "insert_memory r key None now db = Some db'" "w = written_status r expected"
      by (auto simp: commit_record_def split: option.splits)
    then show thesis using None by (intro that(3) [OF new]) simp_all
  next
    case (Some k)
    show thesis
    proof (cases "expected = Some (version_at k db)")
      case True
      let ?r = "r\<lparr>mr_state_version := version_at k db + 1\<rparr>"
      have "commit_record (\<lambda>_ db. db) now ?r key (Some k) expected db = (db', Some w)"
        using assms new Some True by (simp add: write_record_def Let_def)
      then have "insert_memory ?r key (Some k) now db = Some db'" "w = written_status ?r expected"
        by (auto simp: commit_record_def split: option.splits)
      then show thesis using Some True by (intro that(3) [OF new]) simp_all
    next
      case False
      then have "db' = db \<and> (\<exists>current reason. w = conflict_status r expected current reason)"
        using assms by (cases expected) (auto simp: write_record_def Let_def new Some)
      then show thesis using that(2) [OF new] by blast
    qed
  qed
qed

lemma statuses [simp]:
  "ws_conflict_detected (dedup_status r e) = False" "ws_conflict_detected (written_status r x) = False"
  "ws_conflict_detected (conflict_status r x c why) = True"
  "ws_status (dedup_status r e) = ''dedup''" "ws_status (written_status r x) = ''written''"
  "ws_status (conflict_status r x c why) = ''conflict''"
  "ws_memory_id (dedup_status r e) = Some (mr_memory_id e)" "ws_memory_id (written_status r x) = Some (mr_memory_id r)"
  by (simp_all add: dedup_status_def written_status_def conflict_status_def)

text \<open>The version of a target after an insertion.\<close>

lemma version_after:
  assumes "insert_memory r key (record_target_key r) now db = Some db'"
  shows "version_at k db' = (if record_target_key r = Some k then mr_state_version r else version_at k db)"
proof (cases "record_target_key r")
  case None
  then show ?thesis using insert_memory_SomeD(3) [OF assms] by (simp add: version_at_def fetch_target_lookup)
next
  case (Some j)
  then obtain target where "mr_memory_target r = Some target" using record_target_key_Some by blast
  with insert_memory_SomeD(3) [OF assms] Some
  have "mdb_targets db' = upsert_target (target_row_of j r target now) (mdb_targets db)" by simp
  then show ?thesis
    by (auto simp: version_at_def fetch_target_lookup upsert_lookup target_row_of_def Some split: option.split)
qed

section \<open>A small memory, at which the properties are applied\<close>

definition demo_mx :: memory_world where
  "demo_mx = \<lparr>mx_hash = (\<lambda>_. replicate 64 (CHR ''a'')), mx_secret_patterns = [], mx_pii_patterns = [],
     mx_clk = (\<lambda>_. ''2024''), mx_iso = (\<lambda>_. ''2024''), mx_after = (\<lambda>_ _. ''2025''), mx_env = (\<lambda>_ db. db),
     mx_output_root = ''out''\<rparr>"

definition demo_cf :: memory_config where
  "demo_cf = \<lparr>cf_privacy_mode = True, cf_memory_ttl_days = 30, cf_policy = None\<rparr>"

definition demo_mp :: memory_write_proposal where
  "demo_mp = \<lparr>mp_proposal_id = ''mem_prop_00000001'', mp_actor_id_hash = replicate 64 (CHR ''b''), mp_agent_id = None,
     mp_producer_role = ''operator'', mp_scope = ScopePersonal, mp_owner_type = OwnerUser,
     mp_owner_id_hash = replicate 64 (CHR ''c''), mp_visibility = VisPrivate, mp_namespace = ''default'',
     mp_memory_target = Some ''plan'', mp_expected_state_version = Some 0, mp_candidate_text = ''tea'',
     mp_candidate_summary = None, mp_source_run_id = None, mp_reason = ''r'', mp_idempotency_key = ''idem-0001''\<rparr>"

definition demo_memory :: memory_record_v3 where
  "demo_memory = candidate_record demo_mx demo_cf demo_mp (redaction_of demo_mx demo_cf demo_mp)
     (memory_decision MemAllow ''ok'' None [])"

definition demo_memory_db :: memory_db where
  "demo_memory_db = fst (write_record (\<lambda>_ db. db) ''2024'' demo_memory ''idem-0001'' (Some 0) (ensure_schema empty_memory_db))"

definition demo_state :: "memory_db \<Rightarrow> authority_state" where
  "demo_state db = \<lparr>au_db = db, au_files = Map.empty\<rparr>"

lemma demo_quiet: "\<forall>i db. mx_env demo_mx i db = db" "legal_memory_env H (mx_env demo_mx)"
  by (simp_all add: demo_mx_def legal_memory_env_id)

lemma demo_memory:
  "record_valid (mx_hash demo_mx) demo_memory" "mr_status demo_memory = MemActive"
  "record_target_key demo_memory \<noteq> None"
  "mr_scope demo_memory = ScopePersonal" "mr_memory_id demo_memory = ''mem_'' @ replicate 24 (CHR ''a'')"
proof -
  have red: "redaction_of demo_mx demo_cf demo_mp = \<lparr>mrd_redacted_summary = ''tea'',
      mrd_content_hash = replicate 64 (CHR ''a''), mrd_policy_tags = [''privacy_mode''], mrd_secret_detected = False,
      mrd_pii_detected = False\<rparr>"
    by code_simp
  note rec = demo_memory_def candidate_record_def Let_def red memory_decision_def
  note vals = demo_mx_def demo_cf_def demo_mp_def
  have key: "mr_memory_target demo_memory = Some ''plan''" by (simp add: rec) (simp add: vals)
  show "mr_status demo_memory = MemActive" by (simp add: rec)
  show "record_target_key demo_memory \<noteq> None" by (simp add: record_target_key_def key)
  show "mr_scope demo_memory = ScopePersonal" by (simp add: rec) (simp add: vals)
  show id: "mr_memory_id demo_memory = ''mem_'' @ replicate 24 (CHR ''a'')"
    by (simp add: rec stable_id_def) (simp add: vals)
  have "is_prefixed_id ''mem_'' (''mem_'' @ replicate 24 (CHR ''a''))" "is_hex64 (replicate 64 (CHR ''a''))"
    "is_hex64 (replicate 64 (CHR ''b''))" "is_hex64 (replicate 64 (CHR ''c''))" "is_safe_namespace ''default''"
    by code_simp+
  then show "record_valid (mx_hash demo_mx) demo_memory"
    unfolding record_valid_def id by (simp add: rec between_def) (simp add: vals)
qed

lemma demo_write:
  "\<exists>w. write_record (\<lambda>_ db. db) ''2024'' demo_memory ''idem-0001'' (Some 0) (ensure_schema empty_memory_db) =
     (demo_memory_db, Some w) \<and> ws_status w = ''written''"
  "\<exists>row. mdb_records demo_memory_db = [row] \<and> mr_idempotency_key row = Some ''idem-0001'' \<and>
     mr_memory_id row = mr_memory_id demo_memory"
  using demo_memory(3)
  by (auto simp: demo_memory_db_def write_record_def commit_record_def insert_memory_def fetch_idempotent_def
      sql_fetchone_def version_at_def fetch_target_def violates_memory_unique_def empty_memory_db_def ensure_schema_def
      Let_def split: option.split)

lemma demo_memory_run: "(memory_step (mx_hash demo_mx))\<^sup>*\<^sup>* (ensure_schema empty_memory_db) demo_memory_db"
  unfolding demo_memory_db_def
  by (rule write_record_run [OF legal_memory_env_id memory_inv_initial demo_memory(1,2)])

lemma demo_memory_inv: "memory_inv (mx_hash demo_mx) demo_memory_db"
  by (rule memory.run_inv [OF demo_memory_run memory_inv_initial])

section \<open>The store\<close>

text \<open>
  Every reachable memory store is consistent: memory ids, idempotency keys and target keys are
  unique, every record carries the digest of its text, a text within bounds and a version of at least
  one, and every target points to a stored record of that target with exactly the target's version.
\<close>

theorem memory_invariant:
  assumes "(memory_step H)\<^sup>*\<^sup>* (ensure_schema empty_memory_db) db"
  shows "distinct (map mr_memory_id (mdb_records db)) \<and> distinct (map mr_idempotency_key (mdb_records db)) \<and>
    distinct (map tg_target_key (mdb_targets db)) \<and>
    (\<forall>r \<in> set (mdb_records db). mr_content_hash r = H (mr_content_summary r) \<and>
       mr_content_summary r \<noteq> [] \<and> length (mr_content_summary r) \<le> 4000 \<and> 1 \<le> mr_state_version r) \<and>
    (\<forall>t \<in> set (mdb_targets db). \<exists>r \<in> set (mdb_records db). tg_current_memory_id t = Some (mr_memory_id r) \<and>
       record_target_key r = Some (tg_target_key t) \<and> mr_state_version r = tg_current_version t)"
proof -
  have "memory_inv H db" by (rule memory.run_inv [OF assms memory_inv_initial])
  note inv = memory_invD [OF this]
  have "mr_content_hash r = H (mr_content_summary r) \<and> mr_content_summary r \<noteq> [] \<and>
      length (mr_content_summary r) \<le> 4000 \<and> 1 \<le> mr_state_version r" if "r \<in> set (mdb_records db)" for r
    using inv(3) [OF that] unfolding record_valid_def between_def by auto
  with inv show ?thesis unfolding keys_distinct_def target_ok_def by blast
qed

theorem memory_invariant_witness:
  "distinct (map mr_memory_id (mdb_records demo_memory_db)) \<and> distinct (map tg_target_key (mdb_targets demo_memory_db))"
  using memory_invariant [OF demo_memory_run] by blast

section \<open>Versions\<close>

text \<open>The commits of one process: no one else writes between its statements.\<close>

inductive serial_step :: "(string \<Rightarrow> string) \<Rightarrow> memory_db \<Rightarrow> memory_db \<Rightarrow> bool" for H where
  written: "record_valid H r \<Longrightarrow> mr_status r = MemActive \<Longrightarrow>
    serial_step H db (fst (write_record (\<lambda>_ db. db) now r key expected db))"
| tombstoned: "serial_step H db (fst (tombstone now i db))"
| logged: "serial_step H db (record_event e db)"

lemma serial_run: "serial_step H db db' \<Longrightarrow> memory_inv H db \<Longrightarrow> (memory_step H)\<^sup>*\<^sup>* db db'"
  by (erule serial_step.cases)
    (auto intro: write_record_run [OF legal_memory_env_id] memory_step.tombstone memory_step.event)

lemma serial_version:
  assumes "serial_step H db db'"
  shows "version_at k db \<le> version_at k db'"
  using assms
proof (cases rule: serial_step.cases)
  case (written r now key expected)
  show ?thesis
  proof (cases "snd (write_record (\<lambda>_ db. db) now r key expected db)")
    case None
    then show ?thesis using written
      by (auto simp: write_record_def commit_record_def Let_def split: option.splits if_splits)
  next
    case (Some w)
    then have "write_record (\<lambda>_ db. db) now r key expected db = (db', Some w)"
      using written(1) by (metis prod.collapse)
    then show ?thesis
      by (cases rule: write_record_quiet) (auto simp: version_after)
  qed
next
  case tombstoned
  then show ?thesis by (simp add: tombstone_db version_at_def fetch_target_def)
next
  case logged
  then show ?thesis by (simp add: record_event_def version_at_def fetch_target_def)
qed

interpretation serial: history_machine "serial_step H" "memory_inv H" "\<lambda>db db'. \<forall>k. version_at k db \<le> version_at k db'"
  for H
proof unfold_locales
  show "memory_inv H t" if "serial_step H s t" "memory_inv H s" for s t
    using memory.run_inv [OF serial_run] that by blast
qed (auto intro: serial_version order_trans)

text \<open>
  C10: No update is lost within a process: the write of a valid active record to a target succeeds only
  under the target's current version and moves it on by one, and from then on, whatever the process
  commits, a write to that target that still expects the old version is told of the conflict and the
  version, and changes nothing, provided it comes under an idempotency key the store has no record for.
  (A retry under a key that is stored never reaches the check of the version: it gets the stored answer.)
\<close>

theorem stale_write_rejected:
  assumes "memory_inv H db" "write_record (\<lambda>_ db. db) now r key (Some v) db = (db1, Some w)"
    and "ws_status w = ''written''" "record_target_key r = Some k" "(serial_step H)\<^sup>*\<^sup>* db1 db2"
    and "record_valid H r" "mr_status r = MemActive"
    and "record_target_key r' = Some k" "fetch_idempotent key' db2 = None"
  shows "version_at k db = v \<and> version_at k db1 = v + 1 \<and>
    (\<exists>current > v. write_record (\<lambda>_ db. db) now' r' key' (Some v) db2 =
       (db2, Some (conflict_status r' (Some v) current ''MEMORY_TARGET_VERSION_MISMATCH'')))"
proof -
  from assms(2) have first: "version_at k db = v \<and> version_at k db1 = v + 1"
  proof (cases rule: write_record_quiet)
    case (3 r2)
    then show ?thesis using assms(4) version_after [OF 3(3)] by auto
  qed (use assms(3) in auto)
  have "serial_step H db db1" using serial_step.written [OF assms(6,7), of db now key "Some v"] assms(2) by simp
  then have "memory_inv H db1" by (rule serial.step_inv) (rule assms(1))
  with assms(5) have "version_at k db1 \<le> version_at k db2" by (simp add: serial.run_rel)
  with first have "v < version_at k db2" by simp
  then show ?thesis using first assms(8,9) by (auto simp: write_record_def Let_def)
qed

theorem stale_write_rejected_witness:
  "\<exists>w. snd (write_record (\<lambda>_ db. db) ''2024'' demo_memory ''idem-0002'' (Some 0) demo_memory_db) = Some w \<and>
     ws_conflict_detected w"
proof -
  obtain w where w: "write_record (\<lambda>_ db. db) ''2024'' demo_memory ''idem-0001'' (Some 0) (ensure_schema empty_memory_db) =
     (demo_memory_db, Some w)" "ws_status w = ''written''" using demo_write(1) by blast
  obtain k where k: "record_target_key demo_memory = Some k" using demo_memory(3) by blast
  have "fetch_idempotent ''idem-0002'' demo_memory_db = None"
    using demo_write(2) by (auto simp: fetch_idempotent_def sql_fetchone_def)
  from stale_write_rejected [OF memory_inv_initial w k rtranclp.rtrancl_refl demo_memory(1,2) k this, of "''2024''"]
  show ?thesis by auto
qed

text \<open>
  Between processes it is not so: the version is read before the write transaction opens, so two
  writers that expect the same version can both be told they wrote it.
\<close>

lemma version_race:
  fixes now :: string
  assumes "record_target_key r1 = Some k" "record_target_key r2 = Some k" "version_at k db = v"
    and "fetch_idempotent key1 db = None" "fetch_idempotent key2 db = None" "key1 \<noteq> key2"
    and "mr_memory_id r1 \<notin> mr_memory_id ` set (mdb_records db)" "mr_memory_id r2 \<notin> mr_memory_id ` set (mdb_records db)"
    and "mr_memory_id r1 \<noteq> mr_memory_id r2"
  defines "env \<equiv> (\<lambda>i :: nat. \<lambda>d. if i = 2 then fst (write_record (\<lambda>_ d. d) now r2 key2 (Some v) d) else d)"
  shows "\<exists>db' w1 w2. write_record env now r1 key1 (Some v) db = (db', Some w1) \<and>
    snd (write_record (\<lambda>_ d. d) now r2 key2 (Some v) db) = Some w2 \<and>
    ws_status w1 = ''written'' \<and> ws_status w2 = ''written'' \<and>
    ws_committed_state_version w1 = Some (v + 1) \<and> ws_committed_state_version w2 = Some (v + 1) \<and>
    version_at k db' = v + 1"
proof -
  have free: "Some key1 \<notin> mr_idempotency_key ` set (mdb_records db)" "Some key2 \<notin> mr_idempotency_key ` set (mdb_records db)"
    using assms(4,5) by (auto simp: fetch_idempotent_def sql_fetchone_def find_None_iff)
  let ?r1 = "r1\<lparr>mr_state_version := v + 1\<rparr>" and ?r2 = "r2\<lparr>mr_state_version := v + 1\<rparr>"
  have "\<not> violates_memory_unique (row_of_record ?r2 key2) db"
    using assms(8) free(2) by (auto simp: violates_memory_unique_def image_iff)
  then obtain db2 where db2: "insert_memory ?r2 key2 (Some k) now db = Some db2" by (simp add: insert_memory_def)
  have other: "write_record (\<lambda>_ d. d) now r2 key2 (Some v) db = (db2, Some (written_status ?r2 (Some v)))"
    using assms(2,3,5) db2 by (simp add: write_record_def commit_record_def Let_def)
  have "\<not> violates_memory_unique (row_of_record ?r1 key1) db2"
    using assms(6,7,9) free(1) insert_memory_SomeD(2) [OF db2] by (auto simp: violates_memory_unique_def image_iff)
  then obtain db' where db': "insert_memory ?r1 key1 (Some k) now db2 = Some db'" by (simp add: insert_memory_def)
  have "write_record env now r1 key1 (Some v) db = (db', Some (written_status ?r1 (Some v)))"
    using assms(1,3,4) db' other by (simp add: write_record_def commit_record_def Let_def env_def)
  moreover have "version_at k db' = v + 1" using version_after [of ?r1 key1 now db2 db' k] db' assms(1) by simp
  ultimately show ?thesis using other by (simp add: written_status_def)
qed


section \<open>Proposals\<close>

lemma conclude_tables:
  assumes "conclude X etype decision p ch m result s = (s', res)" "\<forall>i db. mx_env X i db = db"
  shows "mdb_records (au_db s') = mdb_records (au_db s) \<and> mdb_targets (au_db s') = mdb_targets (au_db s)"
  using assms by (auto simp: conclude_def log_event_def record_event_def split: option.splits prod.splits)

lemma conclude_answer: "conclude X etype decision p ch m result s = (s', Inr w) \<Longrightarrow> \<exists>path. w = result path"
  by (auto simp: conclude_def split: option.splits prod.splits)

lemma write_result_simps [simp]:
  "wr_status (write_result st p m d path ch v c rs) = st"
  "wr_memory_id (write_result st p m d path ch v c rs) = m"
  by (simp_all add: write_result_def)

text \<open>What a proposal can do: nothing, or the one write of the candidate the policy allowed.\<close>

lemma propose_write_cases:
  assumes "propose_write X cfg p s = (s', res)" "\<forall>i db. mx_env X i db = db"
  defines "red \<equiv> redaction_of X cfg p"
  defines "decision \<equiv> evaluate_write (cf_policy cfg) p red"
  obtains "mdb_records (au_db s') = mdb_records (au_db s)" "mdb_targets (au_db s') = mdb_targets (au_db s)"
    "\<And>w. res = Inr w \<Longrightarrow> wr_status w \<noteq> ''written''"
  | db w where "md_decision decision = MemAllow"
    "record_valid (mx_hash X) (candidate_record X cfg p red decision)"
    "write_record (\<lambda>_ db. db) (mx_clk X 0) (candidate_record X cfg p red decision) (mp_idempotency_key p)
       (mp_expected_state_version p) (au_db s) = (db, Some w)" "\<not> ws_conflict_detected w"
    "mdb_records (au_db s') = mdb_records db" "mdb_targets (au_db s') = mdb_targets db"
    "\<And>r. res = Inr r \<Longrightarrow> wr_status r = ''written'' \<and>
       wr_memory_id r = Some (case ws_memory_id w of None \<Rightarrow> mr_memory_id (candidate_record X cfg p red decision) | Some m \<Rightarrow> m)"
proof -
  have env: "mx_env X = (\<lambda>_ db. db)" using assms(2) by (intro ext) simp
  let ?r = "candidate_record X cfg p red decision"
  let ?w = "write_record (\<lambda>_ db. db) (mx_clk X 0) ?r (mp_idempotency_key p) (mp_expected_state_version p) (au_db s)"
  note def = assms(1) [unfolded propose_write_def Let_def red_def [symmetric] decision_def [symmetric] env]
  show thesis
  proof (cases "md_decision decision = MemAllow \<and> record_valid (mx_hash X) ?r")
    case False
    then have "res = Inl InvalidValue \<and> s' = s \<or> (\<exists>etype result. conclude X etype decision p (mrd_content_hash red) None
        result s = (s', res) \<and> (\<forall>path. wr_status (result path) \<noteq> ''written''))"
      using def by (cases "md_decision decision") (fastforce split: if_splits)+
    then show thesis
      by (elim disjE exE conjE; intro that(1)) (auto dest: conclude_tables [OF _ assms(2)] conclude_answer)
  next
    case allowed: True
    obtain db w where w: "?w = (db, w)" by (cases ?w)
    show thesis
    proof (cases "\<exists>x. w = Some x \<and> \<not> ws_conflict_detected x")
      case True
      then obtain x where x: "w = Some x" "\<not> ws_conflict_detected x" by blast
      then obtain m where m: "m = (case ws_memory_id x of None \<Rightarrow> mr_memory_id ?r | Some m \<Rightarrow> m)"
        "conclude X ''memory.write.allowed'' decision p (mrd_content_hash red) (Some m) (\<lambda>path. write_result ''written'' p
           (Some m) decision path (mrd_content_hash red) (ws_committed_state_version x) False []) (s\<lparr>au_db := db\<rparr>) = (s', res)"
        using def allowed w by (simp add: Let_def)
      show thesis
        using conclude_tables [OF m(2) assms(2)] conclude_answer m allowed w x
        by (intro that(2) [of db x]) (auto dest: conclude_answer)
    next
      case no: False
      have same: "mdb_records db = mdb_records (au_db s) \<and> mdb_targets db = mdb_targets (au_db s)"
      proof (cases w)
        case None
        then show ?thesis using w
          by (auto simp: write_record_def commit_record_def Let_def split: option.splits if_splits)
      next
        case (Some x)
        then have "?w = (db, Some x)" "ws_conflict_detected x" using w no by auto
        then show ?thesis by (cases rule: write_record_quiet) auto
      qed
      have "res = Inl StoreIntegrityError \<and> s' = s\<lparr>au_db := db\<rparr> \<or> (\<exists>etype result. conclude X etype decision p
          (mrd_content_hash red) None result (s\<lparr>au_db := db\<rparr>) = (s', res) \<and>
          (\<forall>path. wr_status (result path) \<noteq> ''written''))"
        using def allowed w no by (cases w) (fastforce split: if_splits)+
      then show thesis using same
        by (elim disjE exE conjE; intro that(1)) (auto dest: conclude_tables [OF _ assms(2)] conclude_answer)
    qed
  qed
qed

text \<open>
  C9: Nothing is remembered unless the policy allowed it: a proposal leaves the records and the targets
  as they are, or it adds exactly one record, in which case no secret was found in the text, the policy
  allowed the write, and the record holds the redacted text under the scope, owner, visibility and
  idempotency key of the proposal.
\<close>

theorem memory_write_gated:
  assumes "propose_write X cfg p s = (s', res)" "\<forall>i db. mx_env X i db = db"
  shows "(mdb_records (au_db s') = mdb_records (au_db s) \<and> mdb_targets (au_db s') = mdb_targets (au_db s)) \<or>
    (\<exists>row. mdb_records (au_db s') = mdb_records (au_db s) @ [row] \<and>
       md_decision (evaluate_write (cf_policy cfg) p (redaction_of X cfg p)) = MemAllow \<and>
       \<not> mrd_secret_detected (redaction_of X cfg p) \<and>
       mr_content_summary row = mrd_redacted_summary (redaction_of X cfg p) \<and>
       mr_scope row = mp_scope p \<and> mr_owner_type row = mp_owner_type p \<and>
       mr_owner_id_hash row = mp_owner_id_hash p \<and> mr_visibility row = mp_visibility p \<and>
       mr_namespace row = mp_namespace p \<and> mr_idempotency_key row = Some (mp_idempotency_key p) \<and>
       (\<forall>r \<in> set (mdb_records (au_db s)). mr_idempotency_key r \<noteq> Some (mp_idempotency_key p)))"
  using assms
proof (cases rule: propose_write_cases)
  case (2 db w)
  let ?red = "redaction_of X cfg p"
  let ?d = "evaluate_write (cf_policy cfg) p ?red"
  have secret: "\<not> mrd_secret_detected ?red"
  proof
    assume "mrd_secret_detected ?red"
    then have "md_decision ?d = MemDeny" by (simp add: evaluate_write_def memory_decision_def)
    with 2(1) show False by simp
  qed
  from 2(3) show ?thesis
  proof (cases rule: write_record_quiet)
    case (3 r')
    have "\<forall>r \<in> set (mdb_records (au_db s)). mr_idempotency_key r \<noteq> Some (mp_idempotency_key p)"
      using 3(1) by (auto simp: fetch_idempotent_def sql_fetchone_def find_None_iff)
    moreover have "mr_content_summary r' = mrd_redacted_summary ?red" "mr_scope r' = mp_scope p"
      "mr_owner_type r' = mp_owner_type p" "mr_owner_id_hash r' = mp_owner_id_hash p"
      "mr_visibility r' = mp_visibility p" "mr_namespace r' = mp_namespace p"
      using 3(4) by (auto simp: candidate_record_def Let_def)
    moreover have "mdb_records (au_db s') = mdb_records (au_db s) @ [row_of_record r' (mp_idempotency_key p)]"
      using insert_memory_SomeD(2) [OF 3(3)] 2(5) by simp
    ultimately show ?thesis using 2(1) secret by (intro disjI2 exI [of _ "row_of_record r' (mp_idempotency_key p)"]) simp
  qed (use 2(4-6) in auto)
qed simp

theorem memory_write_gated_witness:
  "mdb_records (au_db (fst (propose_write demo_mx demo_cf demo_mp (demo_state empty_memory_db)))) = [] \<or>
   (\<exists>row. mdb_records (au_db (fst (propose_write demo_mx demo_cf demo_mp (demo_state empty_memory_db)))) = [row] \<and>
      mr_scope row = ScopePersonal)"
proof -
  let ?res = "propose_write demo_mx demo_cf demo_mp (demo_state empty_memory_db)"
  have "?res = (fst ?res, snd ?res)" by simp
  from memory_write_gated [OF this demo_quiet(1)] show ?thesis
    by (auto simp: demo_state_def empty_memory_db_def demo_mp_def)
qed


lemma fetch_idempotent_lookup: "fetch_idempotent key db = lookup_key mr_idempotency_key (Some key) (mdb_records db)"
  by (simp add: fetch_idempotent_def sql_fetchone_def lookup_key_def)

text \<open>
  A proposal is remembered once: while the store holds a record under the idempotency key of a
  proposal, whatever was committed since that record was written, the proposal adds no record and moves
  no target, and if it is answered as written it names the memory of that record.
\<close>

theorem proposal_idempotent:
  assumes "memory_inv H db" "row \<in> set (mdb_records db)" "mr_idempotency_key row = Some (mp_idempotency_key p)"
    and "(memory_step H)\<^sup>*\<^sup>* db (au_db s)" "\<forall>i db. mx_env X i db = db"
    and "propose_write X cfg p s = (s', res)"
  shows "mdb_records (au_db s') = mdb_records (au_db s) \<and> mdb_targets (au_db s') = mdb_targets (au_db s) \<and>
    (\<forall>w. res = Inr w \<and> wr_status w = ''written'' \<longrightarrow> wr_memory_id w = Some (mr_memory_id row))"
proof -
  have inv: "memory_inv H (au_db s)" and later: "memory_later db (au_db s)"
    using memory.run_inv [OF assms(4,1)] memory.run_rel [OF assms(4,1)] .
  have "get_record (mr_memory_id row) db = Some row"
    unfolding get_record_def by (rule lookup_key_member [OF memory_invD(1) [OF assms(1)] assms(2)])
  then obtain row' where row': "get_record (mr_memory_id row) (au_db s) = Some row'" "memory_kept row row'"
    using later unfolding memory_later_def by blast
  then have "row' \<in> set (mdb_records (au_db s))" and m: "mr_memory_id row' = mr_memory_id row"
    and key: "mr_idempotency_key row' = Some (mp_idempotency_key p)"
    using lookup_key_Some assms(3) by (fastforce simp: get_record_def memory_kept_def)+
  then have fetch: "fetch_idempotent (mp_idempotency_key p) (au_db s) = Some row'"
    using lookup_key_member [OF memory_invD(2) [OF inv]] by (fastforce simp: fetch_idempotent_lookup)
  from assms(6,5) show ?thesis
  proof (cases rule: propose_write_cases)
    case (2 db x)
    from 2(3) show ?thesis
      by (cases rule: write_record_quiet) (use fetch 2(5-7) m in auto)
  qed auto
qed

theorem proposal_idempotent_witness:
  "mdb_records (au_db (fst (propose_write demo_mx demo_cf demo_mp (demo_state demo_memory_db)))) = mdb_records demo_memory_db"
proof -
  let ?res = "propose_write demo_mx demo_cf demo_mp (demo_state demo_memory_db)"
  obtain row where row: "row \<in> set (mdb_records demo_memory_db)" "mr_idempotency_key row = Some (mp_idempotency_key demo_mp)"
    using demo_write(2) by (auto simp: demo_mp_def)
  have run: "(memory_step (mx_hash demo_mx))\<^sup>*\<^sup>* demo_memory_db (au_db (demo_state demo_memory_db))"
    by (simp add: demo_state_def)
  have "?res = (fst ?res, snd ?res)" by simp
  from proposal_idempotent [OF demo_memory_inv row run demo_quiet(1) this] show ?thesis by (simp add: demo_state_def)
qed

section \<open>Retrieval\<close>

lemma denied_scopes_Nil:
  "denied_scopes q = [] \<longleftrightarrow>
     mq_scope_filters q = [] \<or> (\<forall>f \<in> set (mq_scope_filters q). mf_scope f \<in> set (mq_allowed_scopes q))"
proof -
  have "sort xs = [] \<longleftrightarrow> xs = []" for xs :: "string list" by (metis set_empty set_sort)
  then show ?thesis by (auto simp: denied_scopes_def Let_def filter_empty_conv)
qed

lemma search_recordsD:
  assumes "r \<in> set (search_records now query fs vs expired limit db)"
  shows "r \<in> set (mdb_records db) \<and> record_clauses now expired fs vs r"
  using in_set_takeD [OF assms [unfolded search_records_def]] by (auto simp: sql_fetchall_def)

lemma retrieve_answer:
  "snd (retrieve X q s) = Inl EvidenceLeak \<or> (\<exists>res. snd (retrieve X q s) = Inr res \<and>
     rr_hits res = (if md_decision (evaluate_retrieval q) = MemDeny then []
       else map (\<lambda>r. if mq_include_content q then hit_of r else (hit_of r)\<lparr>mh_content_summary := None\<rparr>)
         (search_records (mx_clk X 0) (mq_query q) (mq_scope_filters q) (mq_visibility_filters q) False (mq_limit q)
            (au_db s))))"
  by (cases "mq_include_content q")
    (auto simp: retrieve_def retrieval_result_def index_search_def comp_def Let_def split: option.split)

lemma retrieve_cases:
  obtains "snd (retrieve X q s) = Inl EvidenceLeak"
  | res where "snd (retrieve X q s) = Inr res" "rr_hits res = []"
  | res where "snd (retrieve X q s) = Inr res" "denied_scopes q = []"
    "rr_hits res = map (\<lambda>r. if mq_include_content q then hit_of r else (hit_of r)\<lparr>mh_content_summary := None\<rparr>)
       (search_records (mx_clk X 0) (mq_query q) (mq_scope_filters q) (mq_visibility_filters q) False (mq_limit q) (au_db s))"
proof (cases "md_decision (evaluate_retrieval q) = MemDeny")
  case True
  then show thesis using retrieve_answer [of X q s] that(1,2) by auto
next
  case False
  then have "denied_scopes q = []" by (auto simp: evaluate_retrieval_def memory_decision_def split: if_splits)
  then show thesis using False retrieve_answer [of X q s] that(1,3) by auto
qed

text \<open>
  C11: A retrieval with at least one scope filter shows only what it asked for and may ask for: it
  answers, unless its evidence is refused, with hits of which every one is an active record that has not
  expired, of one of the visibilities requested (when some are) and under one of the scope filters
  requested, whose scope is among the allowed ones; the text is withheld unless content was requested,
  and there are at most as many hits as the limit.  Without a scope filter the claim fails: such a
  request is allowed and is not confined to any scope (\<open>unfiltered_retrieval_ignores_scopes\<close>).
\<close>

theorem retrieval_confined:
  assumes "mq_scope_filters q \<noteq> []"
  shows "case snd (retrieve X q s) of Inl e \<Rightarrow> e = EvidenceLeak | Inr res \<Rightarrow>
    length (rr_hits res) \<le> mq_limit q \<and>
    (\<forall>h \<in> set (rr_hits res). \<exists>r \<in> set (mdb_records (au_db s)).
       mh_memory_id h = mr_memory_id r \<and> mh_content_hash h = mr_content_hash r \<and>
       mh_content_summary h = (if mq_include_content q then Some (mr_content_summary r) else None) \<and>
       mr_status r = MemActive \<and> (\<forall>e. mr_expires_at r = Some e \<longrightarrow> mx_clk X 0 < e) \<and>
       (mq_visibility_filters q \<noteq> [] \<longrightarrow> mr_visibility r \<in> set (mq_visibility_filters q)) \<and>
       mr_scope r \<in> set (mq_allowed_scopes q) \<and>
       (\<exists>f \<in> set (mq_scope_filters q). mr_scope r = mf_scope f \<and> mr_owner_type r = mf_owner_type f \<and>
          mr_owner_id_hash r = mf_owner_id_hash f \<and> mr_namespace r = mf_namespace f))"
proof (cases rule: retrieve_cases [of X q s])
  case (3 res)
  have "length (rr_hits res) \<le> mq_limit q" by (simp add: 3(3) search_records_def)
  moreover have "\<forall>f \<in> set (mq_scope_filters q). mf_scope f \<in> set (mq_allowed_scopes q)"
    using 3(2) assms by (simp add: denied_scopes_Nil)
  ultimately show ?thesis using assms
    by (fastforce simp: 3(1,3) hit_of_def record_clauses_def filter_matches_def split: option.splits
        dest!: search_recordsD)
qed simp_all

definition demo_query :: memory_retrieval_request where
  "demo_query = (tombstone_request ''tea'' (replicate 64 (CHR ''b'')))\<lparr>mq_allowed_scopes := [ScopePersonal],
     mq_scope_filters := [\<lparr>mf_scope = ScopePersonal, mf_owner_type = OwnerUser,
       mf_owner_id_hash = replicate 64 (CHR ''c''), mf_namespace = ''default''\<rparr>]\<rparr>"

theorem retrieval_confined_witness:
  "case snd (retrieve demo_mx demo_query (demo_state demo_memory_db)) of Inl e \<Rightarrow> e = EvidenceLeak | Inr res \<Rightarrow>
     length (rr_hits res) \<le> 8"
proof -
  have filters: "mq_scope_filters demo_query \<noteq> []" by (simp add: demo_query_def)
  show ?thesis
    using retrieval_confined [OF filters, where X = demo_mx and s = "demo_state demo_memory_db"]
    by (auto simp: demo_query_def tombstone_request_def split: sum.splits)
qed

text \<open>
  Without a scope filter nothing is confined: the allowed scopes play no part in the answer, the search
  has no clause on scope or owner.  And the caller never plays a part, whatever the filters.
\<close>

lemma unfiltered_retrieval_ignores_scopes:
  "mq_scope_filters q = [] \<Longrightarrow> retrieve X (q\<lparr>mq_allowed_scopes := scopes\<rparr>) s = retrieve X q s"
proof -
  assume "mq_scope_filters q = []"
  then have "denied_scopes q = []" "denied_scopes (q\<lparr>mq_allowed_scopes := scopes\<rparr>) = []"
    by (simp_all add: denied_scopes_Nil)
  then show ?thesis
    by (simp add: retrieve_def evaluate_retrieval_def retrieval_result_def Let_def split: option.split)
qed

lemma retrieval_ignores_caller:
  "evaluate_retrieval (q\<lparr>mq_actor_id_hash := actor\<rparr>) = evaluate_retrieval q"
  by (simp add: evaluate_retrieval_def denied_scopes_def Let_def)

section \<open>Tombstones\<close>

text \<open>
  A tombstone is final: once a stored memory is tombstoned, no retrieval ever shows it again,
  whatever any process commits to the store afterwards, and even when the evidence of the tombstone is
  refused.
\<close>

theorem tombstone_final:
  assumes "memory_inv H (au_db s)" "legal_memory_env H (mx_env X)"
    and "get_record i (mx_env X 0 (au_db s)) = Some r" "is_hex64 actor" "between 1 4000 i"
    and "(memory_step H)\<^sup>*\<^sup>* (au_db (fst (authority_tombstone X i actor s))) (au_db s2)"
  shows "case snd (retrieve Y q s2) of Inl e \<Rightarrow> e = EvidenceLeak | Inr res \<Rightarrow> i \<notin> mh_memory_id ` set (rr_hits res)"
proof -
  let ?db = "mx_env X 0 (au_db s)"
  let ?gone = "fst (tombstone (mx_clk X 0) i ?db)"
  have inv0: "memory_inv H ?db" using memory.run_inv [OF memory_env_run [OF assms(2)] assms(1)] .
  then have inv1: "memory_inv H ?gone" by (rule memory_inv_tombstone)
  have gone: "\<exists>r'. get_record i ?gone = Some r' \<and> mr_status r' = MemTombstoned"
    using assms(3) lookup_key_Some
    by (fastforce simp: get_record_def tombstone_db tomb.lookup_after tombstone_guard_def)
  have "(memory_step H)\<^sup>*\<^sup>* ?gone (record_event e (mx_env X 4 ?gone))" for e
    using rtranclp_trans [OF memory_env_run [OF assms(2)] record_event_run] .
  then have "(memory_step H)\<^sup>*\<^sup>* ?gone (au_db (fst (authority_tombstone X i actor s)))"
    using assms(4,5) by (auto simp: authority_tombstone_def Let_def split: option.split prod.split)
  from rtranclp_trans [OF this assms(6)] have run: "(memory_step H)\<^sup>*\<^sup>* ?gone (au_db s2)" .
  note inv2 = memory.run_inv [OF run inv1] and later = memory.run_rel [OF run inv1]
  from gone later obtain r' where r': "get_record i (au_db s2) = Some r'" "mr_status r' = MemTombstoned"
    unfolding memory_later_def memory_kept_def by fastforce
  have hidden: "mr_memory_id x \<noteq> i" if "x \<in> set (mdb_records (au_db s2))" "mr_status x = MemActive" for x
    using lookup_key_member [OF memory_invD(1) [OF inv2] that(1)] that(2) r' by (auto simp: get_record_def)
  show ?thesis
    by (cases rule: retrieve_cases [of Y q s2])
      (auto simp: hit_of_def record_clauses_def dest!: search_recordsD hidden split: if_splits)
qed

theorem tombstone_final_witness:
  "case snd (retrieve demo_mx demo_query
      (fst (authority_tombstone demo_mx (mr_memory_id demo_memory) (replicate 64 (CHR ''b'')) (demo_state demo_memory_db)))) of
     Inl e \<Rightarrow> e = EvidenceLeak | Inr res \<Rightarrow> mr_memory_id demo_memory \<notin> mh_memory_id ` set (rr_hits res)"
proof -
  obtain row where row: "get_record (mr_memory_id demo_memory) (mx_env demo_mx 0 (au_db (demo_state demo_memory_db))) = Some row"
    using demo_write(2) by (auto simp: demo_mx_def demo_state_def get_record_def)
  have "memory_inv (mx_hash demo_mx) (au_db (demo_state demo_memory_db))" by (simp add: demo_state_def demo_memory_inv)
  moreover have "is_hex64 (replicate 64 (CHR ''b''))" by code_simp
  moreover have "between 1 4000 (mr_memory_id demo_memory)" by (simp add: demo_memory(5) between_def)
  ultimately show ?thesis
    using tombstone_final [OF _ demo_quiet(2) row _ _ rtranclp.rtrancl_refl] by blast
qed

end
