(* ===== verification/Workspace_Models.thy ===== *)
theory Workspace_Models imports Memory_Authority begin

text \<open>
  The data of \<open>imperaos/memory/workspace_models.py\<close>: workspaces, principals, memberships, access rules,
  records and requests, with the validators that the operations rely on.

  \<^item> \<open>WorkspaceScopeType\<close> has the same values as \<open>MemoryScope\<close>, so \<open>memory_scope\<close> stands for both.
  \<^item> A time is the text \<open>isoformat()\<close> gives; \<open>json_time\<close> is the text it has in a JSON document.
  \<^item> \<open>salience\<close> and \<open>confidence\<close> are only copied, and are the text JSON prints for them.
\<close>

section \<open>Enumerations\<close>

datatype workspace_status = WorkspaceActive | WorkspaceArchived | WorkspaceBlocked

datatype principal_type = PrincipalUser | PrincipalAgent | PrincipalService | PrincipalOperator

datatype principal_status = PrincipalActive | PrincipalDisabled | PrincipalRevoked

datatype workspace_role = RoleOwner | RoleAdmin | RoleOperator | RoleAgent | RoleViewer | RoleAuditor

datatype membership_status = MembershipActive | MembershipSuspended

datatype memory_classification = ClassPublic | ClassInternal | ClassRestricted | ClassSecretLike

datatype access_action = ActRead | ActWrite | ActAdmin | ActSyncExport | ActSyncImport | ActAuditRead

datatype access_verdict = AccAllow | AccDeny | AccProposalOnly | AccRequiresApproval

datatype acl_effect = EffectAllow | EffectDeny

datatype conflict_type = StateVersionMismatch | SameTargetDifferentHash | TombstoneVsUpdate | AclDenied
  | ClassificationUpgradeRequired

fun role_value :: "workspace_role \<Rightarrow> string" where
  "role_value RoleOwner = ''owner''"
| "role_value RoleAdmin = ''admin''"
| "role_value RoleOperator = ''operator''"
| "role_value RoleAgent = ''agent''"
| "role_value RoleViewer = ''viewer''"
| "role_value RoleAuditor = ''auditor''"

fun classification_value :: "memory_classification \<Rightarrow> string" where
  "classification_value ClassPublic = ''public''"
| "classification_value ClassInternal = ''internal''"
| "classification_value ClassRestricted = ''restricted''"
| "classification_value ClassSecretLike = ''secret_like''"

fun verdict_value :: "access_verdict \<Rightarrow> string" where
  "verdict_value AccAllow = ''allow''"
| "verdict_value AccDeny = ''deny''"
| "verdict_value AccProposalOnly = ''proposal_only''"
| "verdict_value AccRequiresApproval = ''requires_approval''"

fun effect_value :: "acl_effect \<Rightarrow> string" where
  "effect_value EffectAllow = ''allow''"
| "effect_value EffectDeny = ''deny''"

section \<open>Records\<close>

record memory_workspace =
  wp_workspace_id :: string
  wp_display_name :: string
  wp_owner_principal_id :: string
  wp_status :: workspace_status
  wp_policy_pack_id :: "string option"
  wp_created_at_utc :: string
  wp_updated_at_utc :: string

record memory_principal =
  pr_principal_id :: string
  pr_principal_type :: principal_type
  pr_display_name :: string
  pr_status :: principal_status
  pr_external_subject_ref_hash :: "string option"
  pr_created_at_utc :: string

record workspace_membership =
  ms_membership_id :: string
  ms_workspace_id :: string
  ms_principal_id :: string
  ms_roles :: "workspace_role list"
  ms_status :: membership_status
  ms_granted_by :: string
  ms_granted_at_utc :: string

record acl_rule =
  al_acl_id :: string
  al_workspace_id :: string
  al_scope_type :: memory_scope
  al_scope_id :: string
  al_principal_id :: "string option"
  al_role :: "workspace_role option"
  al_permissions :: "string list"
  al_effect :: acl_effect
  al_reason :: string
  al_created_at_utc :: string

record workspace_record =
  wk_id :: string
  wk_workspace_id :: string
  wk_scope_type :: memory_scope
  wk_scope_id :: string
  wk_owner_principal_id :: string
  wk_source_agent_id :: "string option"
  wk_source_run_id :: "string option"
  wk_source_user_id :: "string option"
  wk_target :: "string option"
  wk_version :: int
  wk_hash :: string
  wk_summary :: string
  wk_redacted_preview :: "string option"
  wk_embedding_ref :: "string option"
  wk_salience :: string
  wk_confidence :: string
  wk_classification :: memory_classification
  wk_policy_tags :: "string list"
  wk_ttl_days :: "int option"
  wk_expires_at_utc :: "string option"
  wk_created_at_utc :: string
  wk_updated_at_utc :: string
  wk_tombstoned_at_utc :: "string option"

record workspace_conflict =
  wc_conflict_id :: string
  wc_workspace_id :: string
  wc_memory_id :: "string option"
  wc_memory_target :: "string option"
  wc_local_state_version :: "int option"
  wc_incoming_state_version :: "int option"
  wc_conflict_type :: conflict_type
  wc_decision :: string
  wc_requires_approval :: bool
  wc_created_at_utc :: string

record access_request =
  aq_workspace_id :: string
  aq_principal_id :: string
  aq_action :: access_action
  aq_scope_type :: memory_scope
  aq_scope_id :: string
  aq_permission :: string
  aq_purpose :: string
  aq_classification :: "memory_classification option"

record access_decision =
  ad_action :: access_verdict
  ad_reason_code :: string
  ad_matched_rules :: "string list"
  ad_requires_approval :: bool
  ad_redaction_required :: bool
  ad_evidence_ref :: "string option"

record workspace_query =
  wq_workspace_id :: string
  wq_principal_id :: string
  wq_scope_type :: memory_scope
  wq_scope_id :: string
  wq_query :: string
  wq_purpose :: string
  wq_limit :: nat
  wq_classification :: "memory_classification option"

record workspace_query_result =
  qr_status :: string
  qr_decision :: access_decision
  qr_records :: "workspace_record list"
  qr_query_hash :: string
  qr_evidence_ref :: "string option"

record workspace_write =
  ww_workspace_id :: string
  ww_principal_id :: string
  ww_scope_type :: memory_scope
  ww_scope_id :: string
  ww_summary :: string
  ww_memory_target :: "string option"
  ww_expected_state_version :: "int option"
  ww_source_agent_id :: "string option"
  ww_source_run_id :: "string option"
  ww_classification :: memory_classification
  ww_reason :: string

record workspace_write_decision =
  wd_status :: string
  wd_decision :: access_decision
  wd_memory_id :: "string option"
  wd_proposal_id :: "string option"
  wd_conflict_id :: "string option"
  wd_state_version :: "int option"
  wd_content_hash :: "string option"
  wd_evidence_ref :: "string option"
  wd_blocking_reasons :: "string list"

record workspace_tombstone =
  wt_workspace_id :: string
  wt_principal_id :: string
  wt_memory_id :: string
  wt_reason :: string

record tombstone_result =
  tb_status :: string
  tb_memory_id :: string
  tb_evidence_ref :: "string option"

record workspace_health =
  wh_status :: string
  wh_workspace_count :: nat
  wh_principal_count :: nat
  wh_active_scope_count :: nat
  wh_pending_proposal_count :: nat
  wh_pending_conflict_count :: nat
  wh_blocking_reasons :: "string list"

section \<open>Validators\<close>

definition is_safe_id :: "string \<Rightarrow> bool" where
  "is_safe_id s = (safe_text ''._:-'' 127 s \<and> 2 \<le> length s)"

definition opt_safe_id :: "string option \<Rightarrow> bool" where
  "opt_safe_id x = (case x of None \<Rightarrow> True | Some s \<Rightarrow> is_safe_id s)"

definition make_memory_id :: "(string \<Rightarrow> string) \<Rightarrow> string list \<Rightarrow> string" where
  "make_memory_id H parts = stable_id H ''wm'' parts"

text \<open>
  What constructing a record checks; otherwise \<open>ValidationError\<close>.  That \<open>salience\<close> and \<open>confidence\<close>
  are floats is that their text is the text of one.
\<close>

definition workspace_record_valid :: "workspace_record \<Rightarrow> bool" where
  "workspace_record_valid r \<longleftrightarrow>
     is_safe_id (wk_id r) \<and> is_safe_id (wk_workspace_id r) \<and> is_safe_id (wk_scope_id r) \<and>
     is_safe_id (wk_owner_principal_id r) \<and> opt_safe_id (wk_source_agent_id r) \<and>
     opt_safe_id (wk_source_run_id r) \<and> opt_safe_id (wk_source_user_id r) \<and>
     opt_at_most 160 (wk_target r) \<and> 1 \<le> wk_version r \<and> is_hex64 (wk_hash r) \<and>
     between 1 2000 (wk_summary r) \<and> wf_float (wk_salience r) \<and> wf_float (wk_confidence r) \<and> opt_at_most 500 (wk_redacted_preview r) \<and>
     (case wk_ttl_days r of None \<Rightarrow> True | Some d \<Rightarrow> 1 \<le> d)"

definition is_lower_word :: "string \<Rightarrow> bool" where
  "is_lower_word s \<longleftrightarrow> s \<noteq> [] \<and>
     list_all (\<lambda>c. let n = (of_char c :: nat) in (97 \<le> n \<and> n \<le> 122) \<or> n = 95) s"

text \<open>The pattern \<open>memory.word.word\<close> of a permission.\<close>

definition is_permission :: "string \<Rightarrow> bool" where
  "is_permission s = (starts_with s ''memory.'' \<and>
     (case py_partition CHR ''.'' (drop 7 s) of (verb, found, scope) \<Rightarrow> found \<and> is_lower_word verb \<and> is_lower_word scope))"

text \<open>Constructing an access rule: permissions are sorted and without duplicates.\<close>

definition validate_acl_rule :: "acl_rule \<Rightarrow> acl_rule option" where
  "validate_acl_rule rule =
   (if is_safe_id (al_acl_id rule) \<and> is_safe_id (al_workspace_id rule) \<and> is_safe_id (al_scope_id rule) \<and>
       opt_safe_id (al_principal_id rule) \<and> between 1 400 (al_reason rule) \<and>
       al_permissions rule \<noteq> [] \<and> list_all is_permission (al_permissions rule) \<and>
       \<not> (al_principal_id rule = None \<and> al_role rule = None)
    then Some (rule\<lparr>al_permissions := sort (remdups (al_permissions rule))\<rparr>) else None)"

text \<open>Constructing a membership: roles sorted by name and without duplicates.\<close>

definition validate_membership :: "workspace_membership \<Rightarrow> workspace_membership option" where
  "validate_membership m =
   (if is_safe_id (ms_membership_id m) \<and> is_safe_id (ms_workspace_id m) \<and> is_safe_id (ms_principal_id m) \<and>
       is_safe_id (ms_granted_by m) \<and> ms_roles m \<noteq> []
    then Some (m\<lparr>ms_roles := sort_key role_value (remdups (ms_roles m))\<rparr>) else None)"

text \<open>Constructing a principal: a subject that is not a digest is replaced by its digest.\<close>

definition validate_principal :: "(string \<Rightarrow> string) \<Rightarrow> memory_principal \<Rightarrow> memory_principal option" where
  "validate_principal H p =
   (if is_safe_id (pr_principal_id p) \<and> between 1 160 (pr_display_name p)
    then Some (p\<lparr>pr_external_subject_ref_hash := map_option (\<lambda>v. if is_hex64 v then v else H v)
           (pr_external_subject_ref_hash p)\<rparr>) else None)"

definition validate_workspace :: "memory_workspace \<Rightarrow> memory_workspace option" where
  "validate_workspace w =
   (if is_safe_id (wp_workspace_id w) \<and> is_safe_id (wp_owner_principal_id w) \<and>
       opt_safe_id (wp_policy_pack_id w) \<and> between 1 160 (wp_display_name w)
    then Some w else None)"

section \<open>Documents\<close>

definition json_time :: "string \<Rightarrow> string" where
  "json_time t = (if drop (length t - 6) t = ''+00:00'' then take (length t - 6) t @ ''Z'' else t)"

definition pv_time :: "string option \<Rightarrow> pyval" where
  "pv_time x = pv_of_opt (map_option json_time x)"

definition pv_int_opt :: "int option \<Rightarrow> pyval" where
  "pv_int_opt x = (case x of None \<Rightarrow> PNone | Some i \<Rightarrow> PInt i)"

text \<open>\<open>record.model_dump(mode="json", by_alias=True)\<close>.\<close>

definition record_dump :: "workspace_record \<Rightarrow> pydict" where
  "record_dump r =
     [(''schemaVersion'', PStr ''workspace-memory-record/v1''), (''memoryId'', PStr (wk_id r)),
      (''workspaceId'', PStr (wk_workspace_id r)), (''scopeType'', PStr (scope_value (wk_scope_type r))),
      (''scopeId'', PStr (wk_scope_id r)), (''ownerPrincipalId'', PStr (wk_owner_principal_id r)),
      (''sourceAgentId'', pv_of_opt (wk_source_agent_id r)), (''sourceRunId'', pv_of_opt (wk_source_run_id r)),
      (''sourceUserId'', pv_of_opt (wk_source_user_id r)), (''memoryTarget'', pv_of_opt (wk_target r)),
      (''stateVersion'', PInt (wk_version r)), (''contentHash'', PStr (wk_hash r)),
      (''summary'', PStr (wk_summary r)), (''redactedPreview'', pv_of_opt (wk_redacted_preview r)),
      (''embeddingRef'', pv_of_opt (wk_embedding_ref r)), (''salience'', PFloat (wk_salience r)),
      (''confidence'', PFloat (wk_confidence r)),
      (''classification'', PStr (classification_value (wk_classification r))),
      (''policyTags'', PList (map PStr (wk_policy_tags r))), (''ttlDays'', pv_int_opt (wk_ttl_days r)),
      (''expiresAtUtc'', pv_time (wk_expires_at_utc r)), (''createdAtUtc'', PStr (json_time (wk_created_at_utc r))),
      (''updatedAtUtc'', PStr (json_time (wk_updated_at_utc r))),
      (''tombstonedAtUtc'', pv_time (wk_tombstoned_at_utc r))]"

definition access_decision_dump :: "access_decision \<Rightarrow> pydict" where
  "access_decision_dump d =
     [(''action'', PStr (verdict_value (ad_action d))), (''reasonCode'', PStr (ad_reason_code d)),
      (''matchedRules'', PList (map PStr (ad_matched_rules d))), (''requiresApproval'', PBool (ad_requires_approval d)),
      (''redactionRequired'', PBool (ad_redaction_required d)), (''evidenceRef'', pv_of_opt (ad_evidence_ref d))]"

end
