(* ===== verification/Workspace_Store.thy ===== *)
theory Workspace_Store imports Workspace_Models begin

text \<open>
  The store of the workspace memory, \<open>imperaos/memory/workspace_store.py\<close>: nine tables of one SQLite file.

  Every statement writes the columns of a row and its \<open>payload_json\<close> from the same value, so a row of the
  first five tables is that value.  The lock of the store is held from the first to the last statement of
  an operation, so an operation of the process is one function of the database; \<open>clk i\<close> is its \<open>i\<close>-th
  reading of the clock.  An \<open>INSERT OR REPLACE\<close> first removes every row that clashes with the new one
  under the primary key or another unique index.
\<close>

section \<open>Tables\<close>

record version_row =
  vr_version_id :: string
  vr_memory_id :: string
  vr_state_version :: int
  vr_content_hash :: string
  vr_summary_hash :: string
  vr_changed_by_principal_id :: string
  vr_change_reason :: string
  vr_created_at_utc :: string

record proposal_row =
  pp_proposal_id :: string
  pp_workspace_id :: string
  pp_principal_id :: string
  pp_status :: string
  pp_payload :: pydict
  pp_created_at_utc :: string

record tombstone_row =
  ts_tombstone_id :: string
  ts_workspace_id :: string
  ts_memory_id :: string
  ts_principal_id :: string
  ts_reason :: string
  ts_created_at_utc :: string

record workspace_db =
  wdb_workspaces :: "memory_workspace list"
  wdb_principals :: "memory_principal list"
  wdb_memberships :: "workspace_membership list"
  wdb_acl_rules :: "acl_rule list"
  wdb_records :: "workspace_record list"
  wdb_versions :: "version_row list"
  wdb_conflicts :: "workspace_conflict list"
  wdb_proposals :: "proposal_row list"
  wdb_tombstones :: "tombstone_row list"

definition empty_workspace_db :: workspace_db where
  "empty_workspace_db = \<lparr>wdb_workspaces = [], wdb_principals = [], wdb_memberships = [], wdb_acl_rules = [],
     wdb_records = [], wdb_versions = [], wdb_conflicts = [], wdb_proposals = [], wdb_tombstones = []\<rparr>"

datatype store_write = StoreCreated string | StoreUpdated string

section \<open>Workspaces, principals, memberships, rules\<close>

definition create_workspace :: "memory_workspace \<Rightarrow> workspace_db \<Rightarrow> workspace_db \<times> store_write" where
  "create_workspace w db =
   (let same = (\<lambda>x. wp_workspace_id x = wp_workspace_id w)
    in (db\<lparr>wdb_workspaces := sql_replace same w (wdb_workspaces db)\<rparr>,
        (if \<exists>x \<in> set (wdb_workspaces db). same x then StoreUpdated else StoreCreated) (wp_workspace_id w)))"

definition upsert_principal :: "memory_principal \<Rightarrow> workspace_db \<Rightarrow> workspace_db \<times> store_write" where
  "upsert_principal p db =
   (let same = (\<lambda>x. pr_principal_id x = pr_principal_id p)
    in (db\<lparr>wdb_principals := sql_replace same p (wdb_principals db)\<rparr>,
        (if \<exists>x \<in> set (wdb_principals db). same x then StoreUpdated else StoreCreated) (pr_principal_id p)))"

text \<open>The clash also covers \<open>UNIQUE(workspace_id, principal_id)\<close>.\<close>

definition membership_key :: "workspace_membership \<Rightarrow> string \<times> string" where
  "membership_key m = (ms_workspace_id m, ms_principal_id m)"

definition grant_membership :: "workspace_membership \<Rightarrow> workspace_db \<Rightarrow> workspace_db \<times> store_write" where
  "grant_membership m db =
     (db\<lparr>wdb_memberships := sql_replace
           (\<lambda>x. ms_membership_id x = ms_membership_id m \<or> membership_key x = membership_key m) m (wdb_memberships db)\<rparr>,
      (if \<exists>x \<in> set (wdb_memberships db). membership_key x = membership_key m then StoreUpdated else StoreCreated)
        (ms_membership_id m))"

definition upsert_acl_rule :: "acl_rule \<Rightarrow> workspace_db \<Rightarrow> workspace_db \<times> store_write" where
  "upsert_acl_rule rule db =
   (let same = (\<lambda>x. al_acl_id x = al_acl_id rule)
    in (db\<lparr>wdb_acl_rules := sql_replace same rule (wdb_acl_rules db)\<rparr>,
        (if \<exists>x \<in> set (wdb_acl_rules db). same x then StoreUpdated else StoreCreated) (al_acl_id rule)))"

definition get_workspace :: "string \<Rightarrow> workspace_db \<Rightarrow> memory_workspace option" where
  "get_workspace workspace_id db = lookup_key wp_workspace_id workspace_id (wdb_workspaces db)"

definition get_principal :: "string \<Rightarrow> workspace_db \<Rightarrow> memory_principal option" where
  "get_principal principal_id db = lookup_key pr_principal_id principal_id (wdb_principals db)"

definition get_membership :: "string \<Rightarrow> string \<Rightarrow> workspace_db \<Rightarrow> workspace_membership option" where
  "get_membership workspace_id principal_id db =
     lookup_key membership_key (workspace_id, principal_id) (wdb_memberships db)"

text \<open>\<open>ORDER BY effect DESC, acl_id ASC\<close>.\<close>

definition acl_rules :: "string \<Rightarrow> memory_scope \<Rightarrow> string \<Rightarrow> workspace_db \<Rightarrow> acl_rule list" where
  "acl_rules workspace_id scope_type scope_id db =
     rev (sort_key (\<lambda>r. effect_value (al_effect r)) (rev (sort_key al_acl_id
       (sql_fetchall (\<lambda>r. al_workspace_id r = workspace_id \<and> al_scope_type r = scope_type \<and>
          al_scope_id r = scope_id) (wdb_acl_rules db)))))"

section \<open>Records\<close>

definition live :: "workspace_record \<Rightarrow> bool" where
  "live r = (wk_tombstoned_at_utc r = None)"

text \<open>The scope of a record and the key of the partial unique index \<open>idx_workspace_memory_target\<close>.\<close>

definition record_scope :: "workspace_record \<Rightarrow> string \<times> memory_scope \<times> string" where
  "record_scope r = (wk_workspace_id r, wk_scope_type r, wk_scope_id r)"

definition clashes :: "workspace_record \<Rightarrow> workspace_record \<Rightarrow> bool" where
  "clashes row r = (wk_id r = wk_id row \<or>
     (live row \<and> live r \<and> wk_target row \<noteq> None \<and> wk_target r = wk_target row \<and>
      record_scope r = record_scope row))"

definition find_record_by_target ::
  "string \<Rightarrow> memory_scope \<Rightarrow> string \<Rightarrow> string \<Rightarrow> workspace_db \<Rightarrow> workspace_record option" where
  "find_record_by_target workspace_id scope_type scope_id memory_target db =
     sql_fetchone (\<lambda>r. record_scope r = (workspace_id, scope_type, scope_id) \<and>
       wk_target r = Some memory_target \<and> live r) (wdb_records db)"

definition live_target :: "workspace_record \<Rightarrow> workspace_db \<Rightarrow> workspace_record option" where
  "live_target r db = (case wk_target r of
     None \<Rightarrow> None
   | Some target \<Rightarrow> find_record_by_target (wk_workspace_id r) (wk_scope_type r) (wk_scope_id r) target db)"

definition opt_int_str :: "int option \<Rightarrow> string" where
  "opt_int_str x = (case x of None \<Rightarrow> ''None'' | Some i \<Rightarrow> int_str i)"

definition new_conflict ::
  "(string \<Rightarrow> string) \<Rightarrow> string \<Rightarrow> workspace_record \<Rightarrow> int option \<Rightarrow> conflict_type \<Rightarrow> workspace_conflict" where
  "new_conflict H now r local_version ctype =
     \<lparr>wc_conflict_id = stable_id H ''wm_conflict'' [wk_workspace_id r,
        (if opt_truthy (wk_target r) then the (wk_target r) else wk_id r), wk_hash r, opt_int_str local_version],
      wc_workspace_id = wk_workspace_id r, wc_memory_id = Some (wk_id r), wc_memory_target = wk_target r,
      wc_local_state_version = local_version, wc_incoming_state_version = Some (wk_version r),
      wc_conflict_type = ctype, wc_decision = ''pending'', wc_requires_approval = True, wc_created_at_utc = now\<rparr>"

definition create_conflict :: "workspace_conflict \<Rightarrow> workspace_db \<Rightarrow> workspace_db" where
  "create_conflict c db =
     db\<lparr>wdb_conflicts := sql_replace (\<lambda>x. wc_conflict_id x = wc_conflict_id c) c (wdb_conflicts db)\<rparr>"

definition version_of :: "(string \<Rightarrow> string) \<Rightarrow> string \<Rightarrow> string \<Rightarrow> string \<Rightarrow> workspace_record \<Rightarrow> version_row" where
  "version_of H now changed_by reason r =
     \<lparr>vr_version_id = stable_id H ''wm_ver'' [wk_id r, int_str (wk_version r)], vr_memory_id = wk_id r,
      vr_state_version = wk_version r, vr_content_hash = wk_hash r, vr_summary_hash = H (wk_summary r),
      vr_changed_by_principal_id = changed_by, vr_change_reason = reason, vr_created_at_utc = now\<rparr>"

text \<open>The two statements of a commit.\<close>

definition put_record :: "workspace_record \<Rightarrow> version_row \<Rightarrow> workspace_db \<Rightarrow> workspace_db" where
  "put_record r v db =
     db\<lparr>wdb_records := sql_replace (clashes r) r (wdb_records db),
        wdb_versions := sql_replace (\<lambda>x. vr_version_id x = vr_version_id v) v (wdb_versions db)\<rparr>"

datatype commit_result = WsCommitted string int | WsConflict workspace_conflict

definition commit_workspace_record ::
  "(string \<Rightarrow> string) \<Rightarrow> (nat \<Rightarrow> string) \<Rightarrow> string option \<Rightarrow> string \<Rightarrow> workspace_record \<Rightarrow> string \<Rightarrow> int \<Rightarrow>
   workspace_db \<Rightarrow> workspace_db \<times> commit_result" where
  "commit_workspace_record H clk changed_by reason r committed_id committed_version db =
   (let committed = r\<lparr>wk_id := committed_id, wk_version := committed_version, wk_updated_at_utc := clk 0\<rparr>;
        author = (if opt_truthy changed_by then the changed_by else wk_owner_principal_id committed)
    in (put_record committed (version_of H (clk 1) author reason committed) db,
        WsCommitted committed_id committed_version))"

definition workspace_write_record ::
  "(string \<Rightarrow> string) \<Rightarrow> (nat \<Rightarrow> string) \<Rightarrow> workspace_record \<Rightarrow> int option \<Rightarrow> string option \<Rightarrow> string \<Rightarrow>
   workspace_db \<Rightarrow> workspace_db \<times> commit_result" where
  "workspace_write_record H clk r expected changed_by reason db =
   (case live_target r db of
      Some existing \<Rightarrow>
        let local_version = wk_version existing;
            conflict = (\<lambda>ctype. let c = new_conflict H (clk 0) r (Some local_version) ctype
                          in (create_conflict c db, WsConflict c))
        in if wk_hash existing = wk_hash r then (db, WsCommitted (wk_id existing) local_version)
           else (case expected of
                   None \<Rightarrow> conflict SameTargetDifferentHash
                 | Some v \<Rightarrow>
                     if v \<noteq> local_version then conflict StateVersionMismatch
                     else commit_workspace_record H clk changed_by reason r (wk_id existing) (local_version + 1) db)
    | None \<Rightarrow>
        commit_workspace_record H clk changed_by reason r (wk_id r)
          (max 1 ((case expected of None \<Rightarrow> 0 | Some v \<Rightarrow> v) + 1)) db)"

text \<open>\<open>lower(summary) LIKE ?\<close> for some term, or no term at all.\<close>

definition summary_matches :: "string list \<Rightarrow> string \<Rightarrow> bool" where
  "summary_matches terms summary = (terms = [] \<or>
     (\<exists>t \<in> set terms. like (''%'' @ t @ ''%'') (map ascii_lower summary)))"

text \<open>\<open>max(1, min(limit, bound))\<close>.\<close>

definition clamp :: "nat \<Rightarrow> nat \<Rightarrow> nat" where
  "clamp bound limit = max 1 (min limit bound)"

definition query_clauses :: "string \<Rightarrow> memory_scope \<Rightarrow> string \<Rightarrow> string \<Rightarrow> bool \<Rightarrow> workspace_record \<Rightarrow> bool" where
  "query_clauses workspace_id scope_type scope_id query include_secret_like r =
     (wk_workspace_id r = workspace_id \<and> wk_scope_type r = scope_type \<and> wk_scope_id r = scope_id \<and> live r \<and>
      (include_secret_like \<or> wk_classification r \<noteq> ClassSecretLike) \<and>
      summary_matches (search_terms query) (wk_summary r))"

definition query_records ::
  "string \<Rightarrow> memory_scope \<Rightarrow> string \<Rightarrow> string \<Rightarrow> nat \<Rightarrow> bool \<Rightarrow> workspace_db \<Rightarrow> workspace_record list" where
  "query_records workspace_id scope_type scope_id query limit include_secret_like db =
     take (clamp 50 limit) (rev (sort_key wk_version (sort_key wk_updated_at_utc (rev
       (sql_fetchall (query_clauses workspace_id scope_type scope_id query include_secret_like) (wdb_records db))))))"

definition records_for_sync :: "string \<Rightarrow> nat \<Rightarrow> workspace_db \<Rightarrow> workspace_record list" where
  "records_for_sync workspace_id limit db =
     take (clamp 10000 limit) (sort_key wk_updated_at_utc
       (sql_fetchall (\<lambda>r. wk_workspace_id r = workspace_id \<and> live r) (wdb_records db)))"

section \<open>Tombstones, proposals, conflicts, counts\<close>

definition tombstone_record ::
  "(string \<Rightarrow> string) \<Rightarrow> string \<Rightarrow> workspace_tombstone \<Rightarrow> workspace_db \<Rightarrow> workspace_db \<times> tombstone_result" where
  "tombstone_record H now q db =
   (case sql_fetchone (\<lambda>r. wk_workspace_id r = wt_workspace_id q \<and> wk_id r = wt_memory_id q \<and> live r)
           (wdb_records db) of
      None \<Rightarrow> (db, \<lparr>tb_status = ''missing'', tb_memory_id = wt_memory_id q, tb_evidence_ref = None\<rparr>)
    | Some r \<Rightarrow>
        let updated = r\<lparr>wk_tombstoned_at_utc := Some now, wk_updated_at_utc := now\<rparr>;
            row = \<lparr>ts_tombstone_id = stable_id H ''wm_tomb'' [wt_workspace_id q, wt_memory_id q, now],
              ts_workspace_id = wt_workspace_id q, ts_memory_id = wt_memory_id q,
              ts_principal_id = wt_principal_id q, ts_reason = wt_reason q, ts_created_at_utc = now\<rparr>
        in (db\<lparr>wdb_records := fst (sql_update (\<lambda>x. wk_id x = wt_memory_id q) (\<lambda>x. updated) (wdb_records db)),
               wdb_tombstones := sql_replace (\<lambda>x. ts_tombstone_id x = ts_tombstone_id row) row (wdb_tombstones db)\<rparr>,
            \<lparr>tb_status = ''tombstoned'', tb_memory_id = wt_memory_id q, tb_evidence_ref = None\<rparr>))"

definition record_proposal :: "string \<Rightarrow> string \<Rightarrow> string \<Rightarrow> string \<Rightarrow> pydict \<Rightarrow> workspace_db \<Rightarrow> workspace_db" where
  "record_proposal now proposal_id workspace_id principal_id payload db =
     db\<lparr>wdb_proposals := sql_replace (\<lambda>x. pp_proposal_id x = proposal_id)
       \<lparr>pp_proposal_id = proposal_id, pp_workspace_id = workspace_id, pp_principal_id = principal_id,
        pp_status = ''pending'', pp_payload = payload, pp_created_at_utc = now\<rparr> (wdb_proposals db)\<rparr>"

definition list_conflicts :: "string \<Rightarrow> workspace_db \<Rightarrow> workspace_conflict list" where
  "list_conflicts workspace_id db = rev (sort_key wc_created_at_utc (rev
     (sql_fetchall (\<lambda>c. wc_workspace_id c = workspace_id \<and> wc_decision c = ''pending'') (wdb_conflicts db))))"

record workspace_stats =
  st_workspace_count :: nat
  st_principal_count :: nat
  st_active_scope_count :: nat
  st_pending_proposal_count :: nat
  st_pending_conflict_count :: nat

text \<open>No workspace, or an empty name, counts over all of them.\<close>

definition workspace_stats_of :: "string option \<Rightarrow> workspace_db \<Rightarrow> workspace_stats" where
  "workspace_stats_of workspace_id db =
   (let here = (\<lambda>w. opt_truthy workspace_id \<longrightarrow> workspace_id = Some w)
    in \<lparr>st_workspace_count = length (wdb_workspaces db), st_principal_count = length (wdb_principals db),
        st_active_scope_count = length (filter (\<lambda>r. here (wk_workspace_id r) \<and> live r) (wdb_records db)),
        st_pending_proposal_count =
          length (filter (\<lambda>p. here (pp_workspace_id p) \<and> pp_status p = ''pending'') (wdb_proposals db)),
        st_pending_conflict_count =
          length (filter (\<lambda>c. here (wc_workspace_id c) \<and> wc_decision c = ''pending'') (wdb_conflicts db))\<rparr>)"

end
