(* ===== verification/Workspace_Authority.thy ===== *)
theory Workspace_Authority imports Workspace_Store begin

text \<open>
  Who may do what in a workspace (\<open>imperaos/memory/access_evaluator.py\<close>) and the operations of the
  workspace authority (\<open>imperaos/memory/workspace_authority.py\<close>): query, write or propose, tombstone, health.

  The clock, the patterns and the hash are those of \<open>memory_world\<close>; evidence files are written by
  \<open>write_event\<close> of the memory authority.  An operation that raises answers \<open>Inl\<close>.
\<close>

section \<open>Access\<close>

fun role_permissions :: "workspace_role \<Rightarrow> string list" where
  "role_permissions RoleOwner =
     [''memory.read.personal'', ''memory.write.personal'', ''memory.read.agent'', ''memory.write.agent'',
      ''memory.read.team'', ''memory.write.team'', ''memory.read.project'', ''memory.write.project'',
      ''memory.read.case'', ''memory.write.case'', ''memory.read.organization'', ''memory.write.organization'',
      ''memory.admin.acl'', ''memory.admin.sync'', ''memory.admin.retention'', ''memory.audit.read'']"
| "role_permissions RoleAdmin =
     [''memory.read.team'', ''memory.write.team'', ''memory.read.project'', ''memory.write.project'',
      ''memory.read.case'', ''memory.write.case'', ''memory.admin.acl'', ''memory.admin.sync'',
      ''memory.admin.retention'', ''memory.audit.read'']"
| "role_permissions RoleOperator =
     [''memory.read.team'', ''memory.read.project'', ''memory.read.case'', ''memory.admin.sync'', ''memory.audit.read'']"
| "role_permissions RoleAgent = [''memory.read.agent'', ''memory.write.agent'']"
| "role_permissions RoleViewer = [''memory.read.team'', ''memory.read.project'', ''memory.read.case'']"
| "role_permissions RoleAuditor = [''memory.audit.read'']"

definition permissions_of_roles :: "workspace_role list \<Rightarrow> string set" where
  "permissions_of_roles roles = (\<Union>role \<in> set roles. set (role_permissions role))"

definition access_decision_of :: "access_verdict \<Rightarrow> string \<Rightarrow> string list \<Rightarrow> bool \<Rightarrow> access_decision" where
  "access_decision_of action reason matched approval =
     \<lparr>ad_action = action, ad_reason_code = reason, ad_matched_rules = matched, ad_requires_approval = approval,
      ad_redaction_required = True, ad_evidence_ref = None\<rparr>"

definition access_allow :: "string \<Rightarrow> string list \<Rightarrow> access_decision" where
  "access_allow reason matched = access_decision_of AccAllow reason matched False"

definition access_deny :: "string \<Rightarrow> string list \<Rightarrow> access_decision" where
  "access_deny reason matched = access_decision_of AccDeny reason matched False"

definition acl_rule_matches :: "acl_rule \<Rightarrow> access_request \<Rightarrow> workspace_role list \<Rightarrow> bool" where
  "acl_rule_matches rule q roles =
   (if aq_permission q \<notin> set (al_permissions rule) then False
    else if al_principal_id rule = Some (aq_principal_id q) then True
    else (case al_role rule of None \<Rightarrow> False | Some role \<Rightarrow> role \<in> set roles))"

definition personal_owner_shortcut :: "access_request \<Rightarrow> bool" where
  "personal_owner_shortcut q =
     (aq_scope_type q = ScopePersonal \<and> aq_scope_id q = aq_principal_id q \<and>
      aq_permission q \<in> {''memory.read.personal'', ''memory.write.personal''})"

definition shared_scope_decision :: "access_request \<Rightarrow> string \<Rightarrow> access_decision" where
  "shared_scope_decision q rule =
   (if aq_action q = ActWrite \<and> aq_scope_type q = ScopeOrganization
    then access_decision_of AccRequiresApproval ''MEMORY_ORGANIZATION_WRITE_APPROVAL_REQUIRED'' [rule] True
    else if aq_action q = ActWrite \<and> aq_scope_type q \<in> {ScopeTeam, ScopeProject, ScopeCase}
    then access_decision_of AccProposalOnly ''MEMORY_SHARED_WRITE_PROPOSAL_ONLY'' [rule] False
    else access_allow ''MEMORY_ACCESS_ALLOWED'' [rule])"

text \<open>The rules of the scope: the first that denies, else the first that allows, else the roles.\<close>

definition evaluate_rules :: "acl_rule list \<Rightarrow> workspace_role list \<Rightarrow> access_request \<Rightarrow> access_decision" where
  "evaluate_rules rules roles q =
   (let matching = filter (\<lambda>rule. acl_rule_matches rule q roles) rules
    in case List.find (\<lambda>rule. al_effect rule = EffectDeny) matching of
         Some rule \<Rightarrow> access_deny ''MEMORY_SCOPE_ACL_DENY'' [al_acl_id rule]
       | None \<Rightarrow>
           (case List.find (\<lambda>rule. al_effect rule = EffectAllow) matching of
              Some rule \<Rightarrow> shared_scope_decision q (al_acl_id rule)
            | None \<Rightarrow>
                if aq_permission q \<in> permissions_of_roles roles then shared_scope_decision q ''role_default''
                else access_deny ''MEMORY_SCOPE_ACL_MISSING'' []))"

text \<open>\<open>membership is None or membership.status != "active"\<close> is \<open>None\<close> here.\<close>

definition active_membership :: "access_request \<Rightarrow> workspace_db \<Rightarrow> workspace_membership option" where
  "active_membership q db = (case get_membership (aq_workspace_id q) (aq_principal_id q) db of
     None \<Rightarrow> None
   | Some m \<Rightarrow> if ms_status m = MembershipActive then Some m else None)"

definition evaluate_access :: "workspace_db \<Rightarrow> access_request \<Rightarrow> access_decision" where
  "evaluate_access db q =
   (case get_workspace (aq_workspace_id q) db of
      None \<Rightarrow> access_deny ''MEMORY_WORKSPACE_UNKNOWN'' []
    | Some workspace \<Rightarrow>
        if wp_status workspace \<noteq> WorkspaceActive then access_deny ''MEMORY_WORKSPACE_NOT_ACTIVE'' []
        else case get_principal (aq_principal_id q) db of
               None \<Rightarrow> access_deny ''MEMORY_PRINCIPAL_UNKNOWN'' []
             | Some who \<Rightarrow>
                 if pr_status who \<noteq> PrincipalActive then access_deny ''MEMORY_PRINCIPAL_DISABLED'' []
                 else if aq_classification q = Some ClassSecretLike
                 then access_deny ''MEMORY_CLASSIFICATION_SECRET_LIKE_DENIED'' []
                 else (case active_membership q db of
                         None \<Rightarrow>
                           if personal_owner_shortcut q
                           then access_allow ''MEMORY_PERSONAL_OWNER_ALLOWED'' [''personal_owner'']
                           else access_deny ''MEMORY_MEMBERSHIP_MISSING'' []
                       | Some m \<Rightarrow>
                           if personal_owner_shortcut q
                           then access_allow ''MEMORY_PERSONAL_OWNER_ALLOWED'' [''personal_owner'']
                           else evaluate_rules (acl_rules (aq_workspace_id q) (aq_scope_type q) (aq_scope_id q) db)
                                  (ms_roles m) q))"

section \<open>Evidence\<close>

record workspace_state =
  wst_db :: workspace_db
  wst_files :: "string \<rightharpoonup> pydict"

fun policy_action_of :: "access_verdict \<Rightarrow> memory_policy_action" where
  "policy_action_of AccAllow = MemAllow"
| "policy_action_of AccDeny = MemDeny"
| "policy_action_of AccProposalOnly = MemProposalOnly"
| "policy_action_of AccRequiresApproval = MemRequireApproval"

definition policy_decision_of :: "access_decision \<Rightarrow> memory_policy_decision" where
  "policy_decision_of d =
   (let path = py_join '','' (ad_matched_rules d)
    in \<lparr>md_decision = policy_action_of (ad_action d), md_reason_code = ad_reason_code d,
        md_matched_rule_path = (if path = [] then None else Some path), md_approval_id = None,
        md_redaction_required = ad_redaction_required d, md_index_write_allowed = (ad_action d = AccAllow),
        md_evidence_required = True, md_retention_override = None,
        md_blocking_reasons = (if ad_action d = AccAllow then [] else [ad_reason_code d])\<rparr>)"

fun evidence_visibility :: "string \<Rightarrow> memory_visibility option" where
  "evidence_visibility scope =
   (if scope = ''personal'' then Some VisPrivate else if scope = ''agent'' then Some VisAgent
    else if scope = ''team'' \<or> scope = ''case'' then Some VisTeam
    else if scope = ''project'' then Some VisProject
    else if scope = ''organization'' then Some VisOrganization else None)"

declare evidence_visibility.simps [simp del]

text \<open>Validating the field \<open>scope\<close> of an event: one of the seven values of \<open>MemoryScope\<close>.\<close>

definition scope_of_text :: "string \<Rightarrow> memory_scope option" where
  "scope_of_text t = List.find (\<lambda>s. scope_value s = t)
     [ScopePersonal, ScopeAgent, ScopeTeam, ScopeCase, ScopeProject, ScopeOrganization, ScopeGlobalReadonly]"

definition write_access_evidence ::
  "memory_world \<Rightarrow> string \<Rightarrow> access_decision \<Rightarrow> string \<Rightarrow> string option \<Rightarrow> string option \<Rightarrow> string \<Rightarrow>
   workspace_state \<Rightarrow> authority_error + (workspace_state \<times> string)" where
  "write_access_evidence X etype d actor_id memory_id content_hash scope s =
   (case scope_of_text scope of
      None \<Rightarrow> Inl InvalidValue
    | Some sc \<Rightarrow>
        (case write_event X 0 etype (policy_decision_of d) memory_id None (Some (mx_hash X actor_id)) content_hash
                (Some sc) (evidence_visibility scope) (wst_files s) of
           None \<Rightarrow> Inl EvidenceLeak
         | Some (files, e, path) \<Rightarrow> Inr (s\<lparr>wst_files := files\<rparr>, path)))"

section \<open>Queries\<close>

definition read_request :: "workspace_query \<Rightarrow> access_request" where
  "read_request q =
     \<lparr>aq_workspace_id = wq_workspace_id q, aq_principal_id = wq_principal_id q, aq_action = ActRead,
      aq_scope_type = wq_scope_type q, aq_scope_id = wq_scope_id q,
      aq_permission = ''memory.read.'' @ scope_value (wq_scope_type q), aq_purpose = wq_purpose q,
      aq_classification = wq_classification q\<rparr>"

definition workspace_query_op ::
  "memory_world \<Rightarrow> workspace_query \<Rightarrow> workspace_state \<Rightarrow>
   workspace_state \<times> (authority_error + workspace_query_result)" where
  "workspace_query_op X q s =
   (let query_hash = mx_hash X (wq_query q); decision = evaluate_access (wst_db s) (read_request q)
    in case write_access_evidence X ''workspace_memory_query'' decision (wq_principal_id q) None (Some query_hash)
              (scope_value (wq_scope_type q)) s of
         Inl err \<Rightarrow> (s, Inl err)
       | Inr (s1, path) \<Rightarrow>
           let noted = decision\<lparr>ad_evidence_ref := Some path\<rparr>;
               answer = (\<lambda>status records. \<lparr>qr_status = status, qr_decision = noted, qr_records = records,
                  qr_query_hash = query_hash, qr_evidence_ref = Some path\<rparr>)
           in if ad_action decision \<noteq> AccAllow then (s1, Inr (answer ''denied'' []))
              else let records = query_records (wq_workspace_id q) (wq_scope_type q) (wq_scope_id q) (wq_query q)
                         (wq_limit q) False (wst_db s1)
                in (s1, Inr (answer (if records \<noteq> [] then ''pass'' else ''empty'') records)))"

section \<open>Writes\<close>

definition workspace_redaction :: "memory_world \<Rightarrow> workspace_write \<Rightarrow> memory_redaction" where
  "workspace_redaction X w =
     redact_candidate (mx_hash X) (mx_secret_patterns X) (mx_pii_patterns X) True (ww_summary w)"

definition write_classification :: "memory_world \<Rightarrow> workspace_write \<Rightarrow> memory_classification" where
  "write_classification X w =
     (if mrd_secret_detected (workspace_redaction X w) then ClassSecretLike else ww_classification w)"

definition write_request :: "memory_world \<Rightarrow> workspace_write \<Rightarrow> access_request" where
  "write_request X w =
     \<lparr>aq_workspace_id = ww_workspace_id w, aq_principal_id = ww_principal_id w, aq_action = ActWrite,
      aq_scope_type = ww_scope_type w, aq_scope_id = ww_scope_id w,
      aq_permission = ''memory.write.'' @ scope_value (ww_scope_type w), aq_purpose = ww_reason w,
      aq_classification = Some (write_classification X w)\<rparr>"

definition write_decision :: "memory_world \<Rightarrow> workspace_write \<Rightarrow> workspace_db \<Rightarrow> access_decision" where
  "write_decision X w db =
   (let decision = evaluate_access db (write_request X w)
    in if mrd_secret_detected (workspace_redaction X w) \<and> ad_action decision \<noteq> AccDeny
       then access_deny ''MEMORY_CLASSIFICATION_SECRET_LIKE_DENIED'' (ad_matched_rules decision)
       else decision)"

definition write_memory_id :: "memory_world \<Rightarrow> workspace_write \<Rightarrow> string" where
  "write_memory_id X w = make_memory_id (mx_hash X)
     [ww_workspace_id w, scope_value (ww_scope_type w), ww_scope_id w,
      (if opt_truthy (ww_memory_target w) then the (ww_memory_target w)
       else mrd_content_hash (workspace_redaction X w))]"

definition candidate_workspace_record :: "memory_world \<Rightarrow> workspace_write \<Rightarrow> workspace_record" where
  "candidate_workspace_record X w =
   (let redaction = workspace_redaction X w; classification = write_classification X w
    in \<lparr>wk_id = write_memory_id X w, wk_workspace_id = ww_workspace_id w, wk_scope_type = ww_scope_type w,
        wk_scope_id = ww_scope_id w, wk_owner_principal_id = ww_principal_id w,
        wk_source_agent_id = ww_source_agent_id w, wk_source_run_id = ww_source_run_id w,
        wk_source_user_id = None, wk_target = ww_memory_target w, wk_version = 1,
        wk_hash = mrd_content_hash redaction, wk_summary = mrd_redacted_summary redaction,
        wk_redacted_preview = Some (take 500 (mrd_redacted_summary redaction)), wk_embedding_ref = None,
        wk_salience = ''0.5'', wk_confidence = ''0.5'',
        wk_classification = (if classification \<noteq> ClassSecretLike then classification else ClassRestricted),
        wk_policy_tags = mrd_policy_tags redaction, wk_ttl_days = None, wk_expires_at_utc = None,
        wk_created_at_utc = mx_iso X 1, wk_updated_at_utc = mx_iso X 2, wk_tombstoned_at_utc = None\<rparr>)"

definition workspace_proposal_payload ::
  "memory_world \<Rightarrow> workspace_write \<Rightarrow> string \<Rightarrow> access_decision \<Rightarrow> pydict" where
  "workspace_proposal_payload X w proposal_id decision =
   (let redaction = workspace_redaction X w
    in [(''schemaVersion'', PStr ''workspace-memory-proposal/v1''), (''proposalId'', PStr proposal_id),
        (''workspaceId'', PStr (ww_workspace_id w)), (''principalId'', PStr (ww_principal_id w)),
        (''scopeType'', PStr (scope_value (ww_scope_type w))), (''scopeId'', PStr (ww_scope_id w)),
        (''memoryTarget'', pv_of_opt (ww_memory_target w)), (''contentHash'', PStr (mrd_content_hash redaction)),
        (''summaryHash'', PStr (mx_hash X (mrd_redacted_summary redaction))),
        (''decision'', PDict (access_decision_dump decision)), (''rawContentIncluded'', PBool False)])"

definition propose_or_write ::
  "memory_world \<Rightarrow> workspace_write \<Rightarrow> workspace_state \<Rightarrow>
   workspace_state \<times> (authority_error + workspace_write_decision)" where
  "propose_or_write X w s =
   (let redaction = workspace_redaction X w; ch = mrd_content_hash redaction;
        decision = write_decision X w (wst_db s)
    in case write_access_evidence X ''workspace_memory_write'' decision (ww_principal_id w)
              (Some (write_memory_id X w)) (Some ch) (scope_value (ww_scope_type w)) s of
         Inl err \<Rightarrow> (s, Inl err)
       | Inr (s1, path) \<Rightarrow>
           let noted = decision\<lparr>ad_evidence_ref := Some path\<rparr>;
               answer = (\<lambda>status memory_id proposal_id conflict_id version reasons.
                 \<lparr>wd_status = status, wd_decision = noted, wd_memory_id = memory_id, wd_proposal_id = proposal_id,
                  wd_conflict_id = conflict_id, wd_state_version = version, wd_content_hash = Some ch,
                  wd_evidence_ref = Some path, wd_blocking_reasons = reasons\<rparr>);
               r = candidate_workspace_record X w
           in if ad_action decision = AccDeny
              then (s1, Inr (answer ''denied'' None None None None [ad_reason_code decision]))
              else if \<not> workspace_record_valid r then (s1, Inl InvalidValue)
              else if ad_action decision \<in> {AccProposalOnly, AccRequiresApproval}
              then let proposal_id = stable_id (mx_hash X) ''wm_prop''
                         [ww_workspace_id w, ww_principal_id w, scope_value (ww_scope_type w), ww_scope_id w, ch]
                in (s1\<lparr>wst_db := record_proposal (mx_iso X 3) proposal_id (ww_workspace_id w) (ww_principal_id w)
                       (workspace_proposal_payload X w proposal_id noted) (wst_db s1)\<rparr>,
                    Inr (answer (verdict_value (ad_action decision)) None (Some proposal_id) None None
                      (if ad_requires_approval decision then [ad_reason_code decision] else [])))
              else (case workspace_write_record (mx_hash X) (\<lambda>i. mx_iso X (3 + i)) r (ww_expected_state_version w)
                           (Some (ww_principal_id w)) (ww_reason w) (wst_db s1) of
                      (db, WsConflict c) \<Rightarrow> (s1\<lparr>wst_db := db\<rparr>,
                        Inr (answer ''conflict'' None None (Some (wc_conflict_id c)) None [''MEMORY_WRITE_CONFLICT'']))
                    | (db, WsCommitted memory_id version) \<Rightarrow> (s1\<lparr>wst_db := db\<rparr>,
                        Inr (answer ''committed'' (Some memory_id) None None (Some version) []))))"

section \<open>Tombstones and health\<close>

definition retention_request :: "workspace_tombstone \<Rightarrow> access_request" where
  "retention_request q =
     \<lparr>aq_workspace_id = wt_workspace_id q, aq_principal_id = wt_principal_id q, aq_action = ActAdmin,
      aq_scope_type = ScopePersonal, aq_scope_id = wt_principal_id q, aq_permission = ''memory.admin.retention'',
      aq_purpose = wt_reason q, aq_classification = None\<rparr>"

definition workspace_tombstone_op ::
  "memory_world \<Rightarrow> workspace_tombstone \<Rightarrow> workspace_state \<Rightarrow>
   workspace_state \<times> (authority_error + tombstone_result)" where
  "workspace_tombstone_op X q s =
   (let decision = evaluate_access (wst_db s) (retention_request q)
    in case write_access_evidence X ''workspace_memory_tombstone'' decision (wt_principal_id q)
              (Some (wt_memory_id q)) None ''retention'' s of
         Inl err \<Rightarrow> (s, Inl err)
       | Inr (s1, path) \<Rightarrow>
           if ad_action decision \<noteq> AccAllow
           then (s1, Inr \<lparr>tb_status = ''denied'', tb_memory_id = wt_memory_id q, tb_evidence_ref = Some path\<rparr>)
           else let (db, result) = tombstone_record (mx_hash X) (mx_iso X 1) q (wst_db s1)
             in (s1\<lparr>wst_db := db\<rparr>, Inr (result\<lparr>tb_evidence_ref := Some path\<rparr>)))"

definition workspace_authority_health :: "bool \<Rightarrow> string option \<Rightarrow> workspace_db \<Rightarrow> workspace_health" where
  "workspace_authority_health enabled workspace_id db =
   (if \<not> enabled
    then \<lparr>wh_status = ''disabled'', wh_workspace_count = 0, wh_principal_count = 0, wh_active_scope_count = 0,
       wh_pending_proposal_count = 0, wh_pending_conflict_count = 0, wh_blocking_reasons = []\<rparr>
    else let st = workspace_stats_of workspace_id db;
             setup = (st_workspace_count st = 0 \<or> st_principal_count st = 0)
      in \<lparr>wh_status = (if setup then ''setup_required'' else ''available''),
          wh_workspace_count = st_workspace_count st, wh_principal_count = st_principal_count st,
          wh_active_scope_count = st_active_scope_count st,
          wh_pending_proposal_count = st_pending_proposal_count st,
          wh_pending_conflict_count = st_pending_conflict_count st,
          wh_blocking_reasons = (if setup then [''MEMORY_WORKSPACE_AUTHORITY_SETUP_REQUIRED''] else [])\<rparr>)"

end
