(* ===== verification/Workspace_Sync.thy ===== *)
theory Workspace_Sync imports Workspace_Authority begin

text \<open>
  Sync packs of a workspace, \<open>imperaos/memory/workspace_sync.py\<close>: export, verify, import.

  A file holds the pack it was written from, or something that reading, parsing or validating it refuses
  with an exception of some name: what \<open>json.loads\<close> and the validators make of foreign bytes is a
  parameter in this form.  \<open>clk i\<close> is the \<open>i\<close>-th reading of the clock.
\<close>

section \<open>Packs\<close>

record sync_manifest =
  sm_pack_id :: string
  sm_workspace_id :: string
  sm_source_client_id :: string
  sm_generated_at_utc :: string
  sm_cursor_from :: "string option"
  sm_cursor_to :: string
  sm_record_count :: int
  sm_tombstone_count :: int
  sm_conflict_count :: int
  sm_item_hashes :: pydict
  sm_manifest_hash :: string

record sync_pack =
  sp_manifest :: sync_manifest
  sp_records :: "workspace_record list"
  sp_tombstones :: "tombstone_result list"

datatype pack_file = PackFile sync_pack | PackBroken string

text \<open>\<open>manifest.model_dump(mode="json", by_alias=True)\<close> without \<open>manifestHash\<close>.\<close>

definition manifest_payload :: "sync_manifest \<Rightarrow> pydict" where
  "manifest_payload m =
     [(''schemaVersion'', PStr ''workspace-memory-sync-pack/v2''), (''packId'', PStr (sm_pack_id m)),
      (''workspaceId'', PStr (sm_workspace_id m)), (''sourceClientId'', PStr (sm_source_client_id m)),
      (''generatedAtUtc'', PStr (json_time (sm_generated_at_utc m))), (''cursorFrom'', pv_of_opt (sm_cursor_from m)),
      (''cursorTo'', PStr (sm_cursor_to m)), (''recordCount'', PInt (sm_record_count m)),
      (''tombstoneCount'', PInt (sm_tombstone_count m)), (''conflictCount'', PInt (sm_conflict_count m)),
      (''evidenceMode'', PStr ''hash_only''), (''rawContentIncluded'', PBool False),
      (''itemHashes'', PDict (sm_item_hashes m))]"

definition manifest_hash :: "(string \<Rightarrow> string) \<Rightarrow> sync_manifest \<Rightarrow> string" where
  "manifest_hash H m = sorted_hash H (PDict (manifest_payload m))"

definition record_hash_key :: "workspace_record \<Rightarrow> string" where
  "record_hash_key r = wk_id r @ '':'' @ int_str (wk_version r)"

definition record_hash :: "(string \<Rightarrow> string) \<Rightarrow> workspace_record \<Rightarrow> string" where
  "record_hash H r = sorted_hash H (PDict (record_dump r))"

definition item_hashes :: "(string \<Rightarrow> string) \<Rightarrow> workspace_record list \<Rightarrow> pydict" where
  "item_hashes H rs = foldl (\<lambda>d r. dict_set d (record_hash_key r) (PStr (record_hash H r))) [] rs"

section \<open>Export\<close>

definition export_pack ::
  "(string \<Rightarrow> string) \<Rightarrow> string \<Rightarrow> string \<Rightarrow> string \<Rightarrow> nat \<Rightarrow> workspace_db \<Rightarrow> sync_pack" where
  "export_pack H now workspace_id source_client_id limit db =
   (let records = records_for_sync workspace_id limit db;
        m = \<lparr>sm_pack_id = stable_id H ''wm_pack'' [workspace_id, source_client_id, now],
          sm_workspace_id = workspace_id, sm_source_client_id = source_client_id, sm_generated_at_utc = now,
          sm_cursor_from = None, sm_cursor_to = now, sm_record_count = int (length records),
          sm_tombstone_count = 0, sm_conflict_count = 0, sm_item_hashes = item_hashes H records,
          sm_manifest_hash = replicate 64 CHR ''0''\<rparr>
    in \<lparr>sp_manifest = m\<lparr>sm_manifest_hash := manifest_hash H m\<rparr>, sp_records = records, sp_tombstones = []\<rparr>)"

section \<open>Verification\<close>

definition item_reasons :: "(string \<Rightarrow> string) \<Rightarrow> sync_pack \<Rightarrow> string list" where
  "item_reasons H pack = concat (map (\<lambda>r.
     if dict_get (sm_item_hashes (sp_manifest pack)) (record_hash_key r) \<noteq> PStr (record_hash H r)
     then [''MEMORY_SYNC_ITEM_HASH_MISMATCH:'' @ record_hash_key r] else []) (sp_records pack))"

definition verify_pack_integrity :: "(string \<Rightarrow> string) \<Rightarrow> sync_pack \<Rightarrow> string list" where
  "verify_pack_integrity H pack =
     (if sm_record_count (sp_manifest pack) \<noteq> int (length (sp_records pack))
      then [''MEMORY_SYNC_RECORD_COUNT_MISMATCH''] else []) @
     item_reasons H pack @
     (if manifest_hash H (sp_manifest pack) \<noteq> sm_manifest_hash (sp_manifest pack)
      then [''MEMORY_SYNC_MANIFEST_HASH_MISMATCH''] else [])"

record sync_verification =
  sv_status :: string
  sv_pack_id :: "string option"
  sv_blocking_reasons :: "string list"

definition verify_pack :: "(string \<Rightarrow> string) \<Rightarrow> pack_file \<Rightarrow> sync_verification" where
  "verify_pack H loaded = (case loaded of
     PackBroken exc \<Rightarrow> \<lparr>sv_status = ''fail'', sv_pack_id = None,
       sv_blocking_reasons = [''MEMORY_SYNC_PACK_INVALID:'' @ exc]\<rparr>
   | PackFile pack \<Rightarrow>
       let reasons = verify_pack_integrity H pack
       in \<lparr>sv_status = (if reasons = [] then ''pass'' else ''fail''),
           sv_pack_id = Some (sm_pack_id (sp_manifest pack)), sv_blocking_reasons = reasons\<rparr>)"

section \<open>Import\<close>

definition import_conflict ::
  "(string \<Rightarrow> string) \<Rightarrow> string \<Rightarrow> workspace_record \<Rightarrow> workspace_record \<Rightarrow> string \<Rightarrow> workspace_conflict" where
  "import_conflict H now r local target =
     \<lparr>wc_conflict_id = stable_id H ''wm_conflict'' [wk_workspace_id r, target, wk_hash local, wk_hash r],
      wc_workspace_id = wk_workspace_id r, wc_memory_id = Some (wk_id r), wc_memory_target = wk_target r,
      wc_local_state_version = Some (wk_version local), wc_incoming_state_version = Some (wk_version r),
      wc_conflict_type = SameTargetDifferentHash, wc_decision = ''pending'', wc_requires_approval = True,
      wc_created_at_utc = now\<rparr>"

definition conflict_of :: "(string \<Rightarrow> string) \<Rightarrow> string \<Rightarrow> workspace_db \<Rightarrow> workspace_record \<Rightarrow> workspace_conflict list" where
  "conflict_of H now db r = (case wk_target r of
     None \<Rightarrow> []
   | Some target \<Rightarrow>
       (case find_record_by_target (wk_workspace_id r) (wk_scope_type r) (wk_scope_id r) target db of
          None \<Rightarrow> []
        | Some local \<Rightarrow> if wk_hash local = wk_hash r then [] else [import_conflict H now r local target]))"

definition detect_conflicts ::
  "(string \<Rightarrow> string) \<Rightarrow> string \<Rightarrow> workspace_db \<Rightarrow> workspace_record list \<Rightarrow> workspace_conflict list" where
  "detect_conflicts H now db rs = concat (map (conflict_of H now db) rs)"

text \<open>The loop over the records; \<open>clk i\<close> serves the \<open>i\<close>-th record.\<close>

fun apply_records ::
  "(string \<Rightarrow> string) \<Rightarrow> (nat \<Rightarrow> nat \<Rightarrow> string) \<Rightarrow> string \<Rightarrow> nat \<Rightarrow> workspace_record list \<Rightarrow> nat \<Rightarrow> workspace_db \<Rightarrow>
   workspace_db \<times> nat" where
  "apply_records H clk reason i [] applied db = (db, applied)"
| "apply_records H clk reason i (r # rs) applied db =
     (case workspace_write_record H (clk i) r None (Some (wk_owner_principal_id r)) reason db of
        (db', WsCommitted _ _) \<Rightarrow> apply_records H clk reason (Suc i) rs (Suc applied) db'
      | (db', WsConflict _) \<Rightarrow> apply_records H clk reason (Suc i) rs applied db')"

record sync_import_report =
  si_status :: string
  si_pack_id :: "string option"
  si_dry_run :: bool
  si_records_seen :: nat
  si_records_applied :: nat
  si_conflicts :: "workspace_conflict list"
  si_blocking_reasons :: "string list"
  si_approval_id :: "string option"

definition import_report ::
  "string \<Rightarrow> string option \<Rightarrow> bool \<Rightarrow> nat \<Rightarrow> workspace_conflict list \<Rightarrow> string list \<Rightarrow> string option \<Rightarrow>
   sync_import_report" where
  "import_report status pack_id dry_run seen conflicts reasons approval_id =
     \<lparr>si_status = status, si_pack_id = pack_id, si_dry_run = dry_run, si_records_seen = seen,
      si_records_applied = 0, si_conflicts = conflicts, si_blocking_reasons = reasons,
      si_approval_id = approval_id\<rparr>"

definition import_pack ::
  "(string \<Rightarrow> string) \<Rightarrow> string \<Rightarrow> (nat \<Rightarrow> nat \<Rightarrow> string) \<Rightarrow> pack_file \<Rightarrow> bool \<Rightarrow> string option \<Rightarrow> workspace_db \<Rightarrow>
   workspace_db \<times> sync_import_report" where
  "import_pack H now clk loaded dry_run approval_id db = (case loaded of
     PackBroken exc \<Rightarrow>
       (db, import_report ''blocked'' None dry_run 0 [] [''MEMORY_SYNC_PACK_INVALID:'' @ exc] None)
   | PackFile pack \<Rightarrow>
       let pack_id = Some (sm_pack_id (sp_manifest pack)); seen = length (sp_records pack);
           integrity_reasons = verify_pack_integrity H pack;
           conflicts = detect_conflicts H now db (sp_records pack);
           pending = [''MEMORY_SYNC_IMPORT_CONFLICTS_PENDING'']
       in if integrity_reasons \<noteq> []
          then (db, import_report ''blocked'' pack_id dry_run seen [] integrity_reasons None)
          else if dry_run
          then (db, import_report (if conflicts = [] then ''pass'' else ''blocked'') pack_id True seen conflicts
                 (if conflicts \<noteq> [] then pending else []) None)
          else (case approval_id of
                  None \<Rightarrow> (db, import_report ''blocked'' pack_id False seen conflicts
                            [''MEMORY_SYNC_IMPORT_APPROVAL_REQUIRED''] None)
                | Some approval \<Rightarrow>
                    if conflicts \<noteq> []
                    then (db, import_report ''blocked'' pack_id False seen conflicts pending approval_id)
                    else let (db', applied) =
                               apply_records H clk (''workspace sync import '' @ approval) 0 (sp_records pack) 0 db
                      in (db', (import_report ''applied'' pack_id False seen [] [] approval_id)
                            \<lparr>si_records_applied := applied\<rparr>)))"

end
