(* ===== verification/Workspace_Machine.thy ===== *)
theory Workspace_Machine imports Workspace_Sync Machine begin

text \<open>
  The workspace store as a machine: each operation of the store is a step.  The invariant of every
  reachable store, and that what the authority and the import do are runs of the machine.
\<close>

section \<open>A write to the store\<close>

definition committed_record :: "(nat \<Rightarrow> string) \<Rightarrow> workspace_record \<Rightarrow> string \<Rightarrow> int \<Rightarrow> workspace_record" where
  "committed_record clk r i v = r\<lparr>wk_id := i, wk_version := v, wk_updated_at_utc := clk 0\<rparr>"

lemma committed_record_simps [simp]:
  "wk_id (committed_record clk r i v) = i" "wk_version (committed_record clk r i v) = v"
  "wk_hash (committed_record clk r i v) = wk_hash r" "wk_target (committed_record clk r i v) = wk_target r"
  "wk_summary (committed_record clk r i v) = wk_summary r" "wk_scope_id (committed_record clk r i v) = wk_scope_id r"
  "wk_scope_type (committed_record clk r i v) = wk_scope_type r"
  "wk_workspace_id (committed_record clk r i v) = wk_workspace_id r"
  "wk_classification (committed_record clk r i v) = wk_classification r"
  "record_scope (committed_record clk r i v) = record_scope r" "live (committed_record clk r i v) = live r"
  by (simp_all add: committed_record_def record_scope_def live_def)

lemma put_record_simps [simp]:
  "wdb_records (put_record r v db) = sql_replace (clashes r) r (wdb_records db)"
  "wdb_workspaces (put_record r v db) = wdb_workspaces db" "wdb_principals (put_record r v db) = wdb_principals db"
  "wdb_memberships (put_record r v db) = wdb_memberships db" "wdb_acl_rules (put_record r v db) = wdb_acl_rules db"
  "wdb_proposals (put_record r v db) = wdb_proposals db" "wdb_conflicts (put_record r v db) = wdb_conflicts db"
  "wdb_tombstones (put_record r v db) = wdb_tombstones db"
  by (simp_all add: put_record_def)

lemma create_conflict_simps [simp]:
  "wdb_records (create_conflict c db) = wdb_records db" "wdb_versions (create_conflict c db) = wdb_versions db"
  "wdb_workspaces (create_conflict c db) = wdb_workspaces db" "wdb_principals (create_conflict c db) = wdb_principals db"
  "wdb_memberships (create_conflict c db) = wdb_memberships db" "wdb_acl_rules (create_conflict c db) = wdb_acl_rules db"
  "wdb_proposals (create_conflict c db) = wdb_proposals db" "wdb_tombstones (create_conflict c db) = wdb_tombstones db"
  by (simp_all add: create_conflict_def)

lemma live_target_Some:
  assumes "live_target r db = Some s"
  shows "s \<in> set (wdb_records db)" "record_scope s = record_scope r" "wk_target s = wk_target r" "live s"
    "wk_target r \<noteq> None"
  using assms find_eq_SomeD unfolding live_target_def find_record_by_target_def sql_fetchone_def record_scope_def
  by (fastforce split: option.splits)+

lemma live_target_None:
  assumes "live_target r db = None" "wk_target r \<noteq> None" "s \<in> set (wdb_records db)" "live s"
    "record_scope s = record_scope r"
  shows "wk_target s \<noteq> wk_target r"
  using assms unfolding live_target_def find_record_by_target_def sql_fetchone_def record_scope_def
  by (auto simp: find_None_iff split: option.splits)

text \<open>The four ways a write ends.\<close>

lemma workspace_write_cases:
  assumes "workspace_write_record H clk r e by_whom reason db = (db', res)"
  obtains
    (same) s where "live_target r db = Some s" "wk_hash s = wk_hash r" "db' = db"
      "res = WsCommitted (wk_id s) (wk_version s)"
  | (conflict) s c where "live_target r db = Some s" "wk_hash s \<noteq> wk_hash r" "e \<noteq> Some (wk_version s)"
      "db' = create_conflict c db" "res = WsConflict c"
  | (update) s v where "live_target r db = Some s" "wk_hash s \<noteq> wk_hash r" "e = Some (wk_version s)"
      "db' = put_record (committed_record clk r (wk_id s) (wk_version s + 1)) v db"
      "res = WsCommitted (wk_id s) (wk_version s + 1)"
  | (new) v where "live_target r db = None"
      "db' = put_record (committed_record clk r (wk_id r) (max 1 ((case e of None \<Rightarrow> 0 | Some v \<Rightarrow> v) + 1))) v db"
      "res = WsCommitted (wk_id r) (max 1 ((case e of None \<Rightarrow> 0 | Some v \<Rightarrow> v) + 1))"
proof (cases "live_target r db")
  case None
  with assms show thesis
    by (intro new) (auto simp: workspace_write_record_def commit_workspace_record_def Let_def committed_record_def)
next
  case (Some s)
  show thesis
  proof (cases "wk_hash s = wk_hash r \<or> e \<noteq> Some (wk_version s)")
    case True
    with Some assms show thesis
      by (auto simp: workspace_write_record_def Let_def split: option.splits if_splits intro: same conflict)
  next
    case False
    with Some assms show thesis
      by (intro update [OF Some])
        (auto simp: workspace_write_record_def commit_workspace_record_def Let_def committed_record_def)
  qed
qed

section \<open>Steps\<close>

inductive workspace_step :: "(string \<Rightarrow> string) \<Rightarrow> workspace_db \<Rightarrow> workspace_db \<Rightarrow> bool" for H where
  workspace: "validate_workspace w = Some w' \<Longrightarrow> workspace_step H db (fst (create_workspace w' db))"
| principal: "validate_principal H p = Some p' \<Longrightarrow> workspace_step H db (fst (upsert_principal p' db))"
| membership: "validate_membership m = Some m' \<Longrightarrow> workspace_step H db (fst (grant_membership m' db))"
| rule: "validate_acl_rule a = Some a' \<Longrightarrow> workspace_step H db (fst (upsert_acl_rule a' db))"
| commit: "workspace_record_valid r \<Longrightarrow>
    workspace_step H db (fst (workspace_write_record H clk r expected by_whom reason db))"
| tombstone: "workspace_step H db (fst (tombstone_record H now q db))"
| proposal: "workspace_step H db (record_proposal now proposal_id workspace_id principal_id payload db)"

inductive_cases workspace_stepE: "workspace_step H db db'"

definition targets_unique :: "workspace_record list \<Rightarrow> bool" where
  "targets_unique rs \<longleftrightarrow> (\<forall>r \<in> set rs. \<forall>s \<in> set rs. live r \<longrightarrow> live s \<longrightarrow> wk_target r \<noteq> None \<longrightarrow>
     wk_target s = wk_target r \<longrightarrow> record_scope s = record_scope r \<longrightarrow> s = r)"

definition workspace_inv :: "workspace_db \<Rightarrow> bool" where
  "workspace_inv db \<longleftrightarrow>
     keys_distinct wp_workspace_id (wdb_workspaces db) \<and> keys_distinct pr_principal_id (wdb_principals db) \<and>
     keys_distinct ms_membership_id (wdb_memberships db) \<and> keys_distinct membership_key (wdb_memberships db) \<and>
     keys_distinct al_acl_id (wdb_acl_rules db) \<and>
     keys_distinct wk_id (wdb_records db) \<and> targets_unique (wdb_records db) \<and>
     (\<forall>r \<in> set (wdb_records db). workspace_record_valid r) \<and>
     keys_distinct vr_version_id (wdb_versions db) \<and> keys_distinct pp_proposal_id (wdb_proposals db) \<and>
     keys_distinct wc_conflict_id (wdb_conflicts db) \<and> keys_distinct ts_tombstone_id (wdb_tombstones db) \<and>
     (\<forall>a \<in> set (wdb_acl_rules db). al_principal_id a \<noteq> None \<or> al_role a \<noteq> None) \<and>
     (\<forall>m \<in> set (wdb_memberships db). ms_roles m \<noteq> [])"

lemma workspace_invD:
  assumes "workspace_inv db"
  shows "keys_distinct wk_id (wdb_records db)" "targets_unique (wdb_records db)"
    "\<And>r. r \<in> set (wdb_records db) \<Longrightarrow> workspace_record_valid r"
    "keys_distinct wp_workspace_id (wdb_workspaces db)" "keys_distinct pr_principal_id (wdb_principals db)"
    "keys_distinct membership_key (wdb_memberships db)" "keys_distinct al_acl_id (wdb_acl_rules db)"
    "keys_distinct vr_version_id (wdb_versions db)" "keys_distinct wc_conflict_id (wdb_conflicts db)"
  using assms unfolding workspace_inv_def by blast+

lemma workspace_inv_empty: "workspace_inv empty_workspace_db"
  by (simp add: workspace_inv_def empty_workspace_db_def keys_distinct_def targets_unique_def)

lemma targets_unique_replace:
  assumes "targets_unique rs"
  shows "targets_unique (sql_replace (clashes row) row rs)"
  unfolding targets_unique_def
proof (intro ballI impI)
  fix r s
  assume rs: "r \<in> set (sql_replace (clashes row) row rs)" "s \<in> set (sql_replace (clashes row) row rs)"
    and eq: "live r" "live s" "wk_target r \<noteq> None" "wk_target s = wk_target r" "record_scope s = record_scope r"
  show "s = r"
  proof (cases "r = row \<or> s = row")
    case True
    then show ?thesis using rs eq by (auto simp: sql_replace_set clashes_def)
  next
    case False
    then show ?thesis using rs eq assms unfolding targets_unique_def by (auto simp: sql_replace_set)
  qed
qed

lemma workspace_inv_put:
  assumes "workspace_inv db" "workspace_record_valid r"
  shows "workspace_inv (put_record r v db)"
proof -
  have "keys_distinct wk_id (sql_replace (clashes r) r (wdb_records db))"
    by (rule replace_distinct) (use workspace_invD(1) [OF assms(1)] in \<open>auto simp: clashes_def\<close>)
  moreover have "keys_distinct vr_version_id (wdb_versions (put_record r v db))"
    unfolding put_record_def by simp (rule replace_distinct, use workspace_invD(8) [OF assms(1)] in auto)
  moreover note targets_unique_replace [OF workspace_invD(2) [OF assms(1)], of r]
  ultimately show ?thesis using assms unfolding workspace_inv_def by (auto simp: sql_replace_set)
qed

lemma valid_committed:
  assumes "workspace_record_valid r" "is_safe_id i" "1 \<le> v"
  shows "workspace_record_valid (committed_record clk r i v)"
  using assms by (simp add: workspace_record_valid_def committed_record_def)

lemma workspace_inv_conflict: "workspace_inv db \<Longrightarrow> workspace_inv (create_conflict c db)"
  unfolding workspace_inv_def create_conflict_def by (auto intro: replace_distinct)

lemma workspace_inv_write:
  assumes "workspace_inv db" "workspace_record_valid r"
    and w: "workspace_write_record H clk r e by_whom reason db = (db', res)"
  shows "workspace_inv db'"
  using w
proof (cases rule: workspace_write_cases)
  case (conflict s c)
  then show ?thesis using workspace_inv_conflict [OF assms(1)] by simp
next
  case (update s v)
  have "workspace_record_valid s" using workspace_invD(3) [OF assms(1)] live_target_Some(1) [OF update(1)] .
  then have "is_safe_id (wk_id s)" "1 \<le> wk_version s" by (auto simp: workspace_record_valid_def)
  then show ?thesis using workspace_inv_put [OF assms(1) valid_committed [OF assms(2)]] by (simp add: update)
next
  case (new v)
  have "is_safe_id (wk_id r)" using assms(2) by (simp add: workspace_record_valid_def)
  then show ?thesis using workspace_inv_put [OF assms(1) valid_committed [OF assms(2)]] by (simp add: new)
qed (use assms in simp)

text \<open>A tombstone replaces one row by a row of the same id that is no longer live.\<close>

lemma tombstone_record_cases:
  assumes "tombstone_record H now q db = (db', res)"
  obtains (missing) "db' = db" "tb_status res = ''missing''"
  | (gone) r where "r \<in> set (wdb_records db)" "wk_id r = wt_memory_id q" "wk_workspace_id r = wt_workspace_id q"
      "live r" "tb_status res = ''tombstoned''"
      "wdb_records db' = map (\<lambda>x. if wk_id x = wk_id r
         then r\<lparr>wk_tombstoned_at_utc := Some now, wk_updated_at_utc := now\<rparr> else x) (wdb_records db)"
      "db' = db\<lparr>wdb_records := wdb_records db', wdb_tombstones := wdb_tombstones db'\<rparr>"
      "keys_distinct ts_tombstone_id (wdb_tombstones db) \<Longrightarrow> keys_distinct ts_tombstone_id (wdb_tombstones db')"
proof (cases "sql_fetchone (\<lambda>r. wk_workspace_id r = wt_workspace_id q \<and> wk_id r = wt_memory_id q \<and> live r) (wdb_records db)")
  case None
  with assms show thesis by (intro missing) (auto simp: tombstone_record_def)
next
  case (Some r)
  have r: "r \<in> set (wdb_records db)" "wk_id r = wt_memory_id q" "wk_workspace_id r = wt_workspace_id q" "live r"
    using find_eq_SomeD [OF Some [unfolded sql_fetchone_def]] by auto
  have "keys_distinct ts_tombstone_id (wdb_tombstones db')" if "keys_distinct ts_tombstone_id (wdb_tombstones db)"
    using assms Some that by (auto simp: tombstone_record_def Let_def intro!: replace_distinct)
  moreover have "db' = fst (tombstone_record H now q db)" "res = snd (tombstone_record H now q db)"
    using assms by simp_all
  ultimately show thesis using Some r
    by (intro gone [OF r]) (simp_all add: tombstone_record_def Let_def sql_update_def)
qed

lemma workspace_inv_tombstone:
  assumes "workspace_inv db"
  shows "workspace_inv (fst (tombstone_record H now q db))"
proof -
  obtain db' res where t: "tombstone_record H now q db = (db', res)" by fastforce
  from t have "workspace_inv db'"
  proof (cases rule: tombstone_record_cases)
    case missing
    then show ?thesis using assms by simp
  next
    case (gone r)
    let ?u = "r\<lparr>wk_tombstoned_at_utc := Some now, wk_updated_at_utc := now\<rparr>"
    let ?rs = "map (\<lambda>x. if wk_id x = wk_id r then ?u else x) (wdb_records db)"
    have "map wk_id ?rs = map wk_id (wdb_records db)" by simp
    then have ids: "keys_distinct wk_id ?rs" using workspace_invD(1) [OF assms] unfolding keys_distinct_def by metis
    have "\<not> live ?u" by (simp add: live_def)
    then have live: "x \<in> set (wdb_records db)" if "x \<in> set ?rs" "live x" for x
      using that by (auto split: if_splits)
    have targets: "targets_unique ?rs"
      using workspace_invD(2) [OF assms] live unfolding targets_unique_def by blast
    have "workspace_record_valid r" using workspace_invD(3) [OF assms] gone(1) .
    then have "workspace_record_valid ?u" by (simp add: workspace_record_valid_def)
    then have valid: "\<forall>x \<in> set ?rs. workspace_record_valid x" using workspace_invD(3) [OF assms] by auto
    have "keys_distinct ts_tombstone_id (wdb_tombstones db')"
      using gone(8) assms unfolding workspace_inv_def by blast
    with ids targets valid assms show ?thesis
      unfolding workspace_inv_def by (subst (1 2 3 4 5 9 10 11 13 14) gone(7)) (simp add: gone(6))
  qed
  with t show ?thesis by simp
qed

lemma sort_key_Nil: "sort_key f xs = [] \<longleftrightarrow> xs = []"
  by (metis set_empty set_sort)

lemma workspace_inv_step: "workspace_step H db db' \<Longrightarrow> workspace_inv db \<Longrightarrow> workspace_inv db'"
proof (induction rule: workspace_step.induct)
  case (membership m m' db)
  have "ms_roles m' \<noteq> []"
    using membership by (auto simp: validate_membership_def sort_key_Nil split: if_splits)
  then show ?case using membership unfolding workspace_inv_def grant_membership_def
    by (auto simp: sql_replace_set intro: replace_distinct)
next
  case (rule a a' db)
  then show ?case unfolding workspace_inv_def upsert_acl_rule_def Let_def
    by (auto simp: sql_replace_set validate_acl_rule_def split: if_splits intro: replace_distinct)
next
  case (commit r db clk expected by_whom reason)
  then show ?case
    by (cases "workspace_write_record H clk r expected by_whom reason db") (auto intro: workspace_inv_write)
next
  case (tombstone db now q)
  then show ?case by (simp add: workspace_inv_tombstone)
qed (auto simp: workspace_inv_def create_workspace_def upsert_principal_def record_proposal_def Let_def
      intro: replace_distinct)

interpretation workspace: invariant_machine "workspace_step H" workspace_inv for H
  by unfold_locales (rule workspace_inv_step)

end
