(* ===== verification/Workspace_Props.thy ===== *)
theory Workspace_Props imports Workspace_Machine begin

text \<open>
  What the workspace memory guarantees: who is granted access, that shared scopes are only proposed to,
  that writes are compare and swap on the targets, what a query shows, that the tombstone operation
  always raises, and what sync packs detect and restore.
\<close>

section \<open>Access\<close>

text \<open>The rules of the scope that name the permission and the principal or one of the roles.\<close>

definition rule_applies :: "access_request \<Rightarrow> workspace_role list \<Rightarrow> acl_rule \<Rightarrow> bool" where
  "rule_applies q roles a \<longleftrightarrow>
     al_workspace_id a = aq_workspace_id q \<and> al_scope_type a = aq_scope_type q \<and> al_scope_id a = aq_scope_id q \<and>
     aq_permission q \<in> set (al_permissions a) \<and>
     (al_principal_id a = Some (aq_principal_id q) \<or> (\<exists>role \<in> set roles. al_role a = Some role))"

text \<open>The specification of access: own personal memory, or a membership no applicable rule denies.\<close>

definition entitled :: "workspace_db \<Rightarrow> access_request \<Rightarrow> bool" where
  "entitled db q \<longleftrightarrow>
     (\<exists>w. get_workspace (aq_workspace_id q) db = Some w \<and> wp_status w = WorkspaceActive) \<and>
     (\<exists>p. get_principal (aq_principal_id q) db = Some p \<and> pr_status p = PrincipalActive) \<and>
     aq_classification q \<noteq> Some ClassSecretLike \<and>
     (personal_owner_shortcut q \<or>
      (\<exists>m. get_membership (aq_workspace_id q) (aq_principal_id q) db = Some m \<and> ms_status m = MembershipActive \<and>
         \<not> (\<exists>a \<in> set (wdb_acl_rules db). rule_applies q (ms_roles m) a \<and> al_effect a = EffectDeny) \<and>
         ((\<exists>a \<in> set (wdb_acl_rules db). rule_applies q (ms_roles m) a \<and> al_effect a = EffectAllow) \<or>
          (\<exists>role \<in> set (ms_roles m). aq_permission q \<in> set (role_permissions role)))))"

definition granted_verdict :: "access_request \<Rightarrow> access_verdict" where
  "granted_verdict q =
   (if personal_owner_shortcut q \<or> aq_action q \<noteq> ActWrite then AccAllow
    else if aq_scope_type q = ScopeOrganization then AccRequiresApproval
    else if aq_scope_type q \<in> {ScopeTeam, ScopeProject, ScopeCase} then AccProposalOnly
    else AccAllow)"

lemma acl_rules_set:
  "set (acl_rules w t i db) =
     {a \<in> set (wdb_acl_rules db). al_workspace_id a = w \<and> al_scope_type a = t \<and> al_scope_id a = i}"
  by (auto simp: acl_rules_def sql_fetchall_def)

lemma acl_rule_matches_iff:
  assumes "a \<in> set (acl_rules (aq_workspace_id q) (aq_scope_type q) (aq_scope_id q) db)"
  shows "acl_rule_matches a q roles \<longleftrightarrow> rule_applies q roles a"
  using assms by (auto simp: acl_rules_set acl_rule_matches_def rule_applies_def split: option.splits)

lemma access_simps [simp]:
  "ad_action (access_deny reason matched) = AccDeny" "ad_action (access_allow reason matched) = AccAllow"
  "ad_action (access_decision_of action reason matched approval) = action"
  by (simp_all add: access_deny_def access_allow_def access_decision_of_def)

lemma shared_scope_verdict:
  "\<not> personal_owner_shortcut q \<Longrightarrow> ad_action (shared_scope_decision q rule) = granted_verdict q"
  by (simp add: shared_scope_decision_def granted_verdict_def)

lemma granted_not_deny: "granted_verdict q \<noteq> AccDeny"
  by (simp add: granted_verdict_def)

lemma evaluate_rules_verdict:
  assumes "\<not> personal_owner_shortcut q"
    and rules: "rules = acl_rules (aq_workspace_id q) (aq_scope_type q) (aq_scope_id q) db"
  shows "ad_action (evaluate_rules rules roles q) =
    (if \<not> (\<exists>a \<in> set (wdb_acl_rules db). rule_applies q roles a \<and> al_effect a = EffectDeny) \<and>
        ((\<exists>a \<in> set (wdb_acl_rules db). rule_applies q roles a \<and> al_effect a = EffectAllow) \<or>
         aq_permission q \<in> permissions_of_roles roles)
     then granted_verdict q else AccDeny)"
proof -
  have hit: "(\<exists>a \<in> set (filter (\<lambda>a. acl_rule_matches a q roles) rules). al_effect a = e) \<longleftrightarrow>
      (\<exists>a \<in> set (wdb_acl_rules db). rule_applies q roles a \<and> al_effect a = e)" for e
    using acl_rule_matches_iff [of _ q db roles] by (auto simp: rules acl_rules_set rule_applies_def)
  let ?m = "filter (\<lambda>a. acl_rule_matches a q roles) rules"
  have found: "List.find (\<lambda>a. al_effect a = e) ?m = None \<longleftrightarrow>
      \<not> (\<exists>a \<in> set (wdb_acl_rules db). rule_applies q roles a \<and> al_effect a = e)" for e
    unfolding find_None_iff hit [symmetric] by blast
  show ?thesis
  proof (cases "List.find (\<lambda>a. al_effect a = EffectDeny) ?m")
    case (Some a)
    then show ?thesis using found [of EffectDeny] by (simp add: evaluate_rules_def Let_def)
  next
    case None
    then show ?thesis
      using found [of EffectDeny] found [of EffectAllow] assms(1)
      by (cases "List.find (\<lambda>a. al_effect a = EffectAllow) ?m")
        (auto simp: evaluate_rules_def Let_def shared_scope_verdict)
  qed
qed

lemma active_membership_Some:
  "active_membership q db = Some m \<longleftrightarrow>
     get_membership (aq_workspace_id q) (aq_principal_id q) db = Some m \<and> ms_status m = MembershipActive"
  by (auto simp: active_membership_def split: option.splits if_splits)

lemma access_decision:
  "ad_action (evaluate_access db q) = (if entitled db q then granted_verdict q else AccDeny)"
proof -
  define ok where "ok \<longleftrightarrow> (\<exists>w. get_workspace (aq_workspace_id q) db = Some w \<and> wp_status w = WorkspaceActive) \<and>
     (\<exists>p. get_principal (aq_principal_id q) db = Some p \<and> pr_status p = PrincipalActive) \<and>
     aq_classification q \<noteq> Some ClassSecretLike"
  show ?thesis
  proof (cases ok)
    case False
    then have "\<not> entitled db q" unfolding ok_def entitled_def by blast
    then show ?thesis using False
      by (auto simp: ok_def evaluate_access_def split: option.split)
  next
    case True
    then have eval: "evaluate_access db q = (if personal_owner_shortcut q
        then access_allow ''MEMORY_PERSONAL_OWNER_ALLOWED'' [''personal_owner'']
        else case active_membership q db of None \<Rightarrow> access_deny ''MEMORY_MEMBERSHIP_MISSING'' []
          | Some m \<Rightarrow> evaluate_rules (acl_rules (aq_workspace_id q) (aq_scope_type q) (aq_scope_id q) db) (ms_roles m) q)"
      by (auto simp: ok_def evaluate_access_def split: option.split)
    show ?thesis
    proof (cases "personal_owner_shortcut q")
      case personal: True
      then have "entitled db q" "granted_verdict q = AccAllow"
        using True by (auto simp: ok_def entitled_def granted_verdict_def)
      then show ?thesis using personal by (simp add: eval)
    next
      case other: False
      show ?thesis
      proof (cases "active_membership q db")
        case None
        then have "ms_status m \<noteq> MembershipActive"
          if "get_membership (aq_workspace_id q) (aq_principal_id q) db = Some m" for m
          using that by (auto simp: active_membership_def split: if_splits)
        then have "\<not> entitled db q" using other unfolding entitled_def by blast
        then show ?thesis using None other by (simp add: eval)
      next
        case (Some m)
        note found = Some [unfolded active_membership_Some]
        show ?thesis
          using True other found evaluate_rules_verdict [OF other refl, of db "ms_roles m"]
          by (simp add: eval Some ok_def entitled_def permissions_of_roles_def)
      qed
    qed
  qed
qed

text \<open>
  C22: The access decision on workspace memory is the specification \<open>entitled\<close>: an active workspace and
  principal, no secret, and either the caller's own personal memory or an active membership that an
  applicable rule or a role permits and no applicable rule denies.  A granted write to the organization
  needs approval, one to a team, project or case is a proposal, everything else is allowed.
\<close>

theorem access_decision_spec:
  "ad_action (evaluate_access db q) = (if entitled db q then granted_verdict q else AccDeny)"
  by (rule access_decision)

section \<open>Writes\<close>

text \<open>What a call of \<open>propose_or_write\<close> does to the store.\<close>

lemma write_access_evidence_db:
  "write_access_evidence X etype d actor i ch scope s = Inr (s', path) \<Longrightarrow> wst_db s' = wst_db s"
  by (auto simp: write_access_evidence_def split: option.splits prod.splits)

lemma propose_or_write_cases:
  assumes "propose_or_write X w s = (s', res)"
  obtains
    (nothing) "wst_db s' = wst_db s" "\<forall>d. res = Inr d \<longrightarrow> wd_status d = ''denied''"
  | (proposed) payload where "ad_action (write_decision X w (wst_db s)) \<in> {AccProposalOnly, AccRequiresApproval}"
      "wst_db s' = record_proposal (mx_iso X 3) (stable_id (mx_hash X) ''wm_prop''
         [ww_workspace_id w, ww_principal_id w, scope_value (ww_scope_type w), ww_scope_id w,
          mrd_content_hash (workspace_redaction X w)]) (ww_workspace_id w) (ww_principal_id w) payload (wst_db s)"
      "\<forall>d. res = Inr d \<longrightarrow> wd_status d \<in> {''proposal_only'', ''requires_approval''}"
  | (stored) out d where "ad_action (write_decision X w (wst_db s)) = AccAllow"
      "workspace_record_valid (candidate_workspace_record X w)"
      "workspace_write_record (mx_hash X) (\<lambda>i. mx_iso X (3 + i)) (candidate_workspace_record X w)
         (ww_expected_state_version w) (Some (ww_principal_id w)) (ww_reason w) (wst_db s) = (wst_db s', out)"
      "res = Inr d" "(case out of WsCommitted i v \<Rightarrow> wd_status d = ''committed'' \<and> wd_memory_id d = Some i \<and> wd_state_version d = Some v
         | WsConflict c \<Rightarrow> wd_status d = ''conflict'')"
proof -
  let ?d = "write_decision X w (wst_db s)"
  let ?r = "candidate_workspace_record X w"
  let ?e = "write_access_evidence X ''workspace_memory_write'' ?d (ww_principal_id w) (Some (write_memory_id X w))
    (Some (mrd_content_hash (workspace_redaction X w))) (scope_value (ww_scope_type w)) s"
  show thesis
  proof (cases ?e)
    case (Inl err)
    show thesis by (rule nothing) (use assms Inl in \<open>auto simp: propose_or_write_def Let_def\<close>)
  next
    case (Inr sp)
    obtain s1 path where ev: "?e = Inr (s1, path)" using Inr by (cases sp) auto
    then have db: "wst_db s1 = wst_db s" by (rule write_access_evidence_db)
    show thesis
    proof (cases "ad_action ?d = AccDeny \<or> \<not> workspace_record_valid ?r")
      case True
      show thesis
        by (rule nothing) (use True assms ev db in \<open>auto simp: propose_or_write_def Let_def split: if_splits\<close>)
    next
      case ok: False
      show thesis
      proof (cases "ad_action ?d \<in> {AccProposalOnly, AccRequiresApproval}")
        case True
        show thesis
          by (rule proposed [OF True]) (use True assms ev db ok in \<open>auto simp: propose_or_write_def Let_def\<close>)
      next
        case False
        then have allow: "ad_action ?d = AccAllow" using ok by (cases "ad_action ?d") auto
        let ?w = "workspace_write_record (mx_hash X) (\<lambda>i. mx_iso X (3 + i)) ?r (ww_expected_state_version w)
          (Some (ww_principal_id w)) (ww_reason w) (wst_db s)"
        have valid: "workspace_record_valid ?r" using ok by simp
        obtain db' out where out: "?w = (db', out)" by fastforce
        have "propose_or_write X w s = (s1\<lparr>wst_db := db'\<rparr>, res)" "wst_db (fst (propose_or_write X w s)) = db'"
          using assms ev db allow valid out by (auto simp: propose_or_write_def Let_def split: commit_result.splits)
        then have "wst_db s' = db'" using assms by simp
        moreover have "\<exists>d. res = Inr d \<and> (case out of WsCommitted i v \<Rightarrow> wd_status d = ''committed'' \<and>
            wd_memory_id d = Some i \<and> wd_state_version d = Some v | WsConflict c \<Rightarrow> wd_status d = ''conflict'')"
          using assms ev db allow valid out by (auto simp: propose_or_write_def Let_def split: commit_result.splits)
        ultimately show thesis using stored [OF allow valid] out by metis
      qed
    qed
  qed
qed

lemma write_decision_allow:
  assumes "ad_action (write_decision X w db) \<noteq> AccDeny"
  shows "entitled db (write_request X w)" "\<not> mrd_secret_detected (workspace_redaction X w)"
    "ad_action (write_decision X w db) = granted_verdict (write_request X w)"
  using assms access_decision [of db "write_request X w"]
  by (auto simp: write_decision_def Let_def split: if_splits)

lemma granted_write_scope:
  "granted_verdict (write_request X w) = AccAllow \<Longrightarrow>
     ww_scope_type w \<notin> {ScopeTeam, ScopeProject, ScopeCase, ScopeOrganization}"
  by (auto simp: granted_verdict_def write_request_def personal_owner_shortcut_def split: if_splits)

lemma candidate_simps [simp]:
  "wk_id (candidate_workspace_record X w) = write_memory_id X w"
  "record_scope (candidate_workspace_record X w) = (ww_workspace_id w, ww_scope_type w, ww_scope_id w)"
  "wk_target (candidate_workspace_record X w) = ww_memory_target w"
  "wk_summary (candidate_workspace_record X w) = mrd_redacted_summary (workspace_redaction X w)"
  "wk_hash (candidate_workspace_record X w) = mrd_content_hash (workspace_redaction X w)"
  "wk_owner_principal_id (candidate_workspace_record X w) = ww_principal_id w"
  "live (candidate_workspace_record X w)"
  by (simp_all add: candidate_workspace_record_def record_scope_def live_def Let_def)

text \<open>
  C23: What \<open>propose_or_write\<close> may do to the stored records: it leaves them as they are, unless the writer
  is entitled to write in that scope, no secret was found in the text and the scope is not a shared one;
  then exactly one record is put, holding the redacted text under the workspace, scope and target that
  were asked for, owned by the principal who asked, and it takes the place only of records with its id
  or its target.  (It is about this operation alone: \<open>import_pack\<close> puts the records of a pack, of any
  scope, without an access decision, and tombstones are written by another operation.)
\<close>

theorem workspace_write_gated:
  assumes "propose_or_write X w s = (s', res)"
  shows "wdb_records (wst_db s') = wdb_records (wst_db s) \<or>
    (entitled (wst_db s) (write_request X w) \<and> \<not> mrd_secret_detected (workspace_redaction X w) \<and>
     ww_scope_type w \<notin> {ScopeTeam, ScopeProject, ScopeCase, ScopeOrganization} \<and>
     (\<exists>row. wdb_records (wst_db s') = sql_replace (clashes row) row (wdb_records (wst_db s)) \<and>
        record_scope row = (ww_workspace_id w, ww_scope_type w, ww_scope_id w) \<and> wk_target row = ww_memory_target w \<and>
        wk_summary row = mrd_redacted_summary (workspace_redaction X w) \<and>
        wk_owner_principal_id row = ww_principal_id w))"
  using assms
proof (cases rule: propose_or_write_cases)
  case (stored out d)
  have ok: "ad_action (write_decision X w (wst_db s)) \<noteq> AccDeny" using stored(1) by simp
  note facts = write_decision_allow [OF ok]
  have scope: "ww_scope_type w \<notin> {ScopeTeam, ScopeProject, ScopeCase, ScopeOrganization}"
    using facts(3) stored(1) granted_write_scope [of X w] by metis
  have owner: "wk_owner_principal_id (committed_record clk r i v) = wk_owner_principal_id r" for clk r i v
    by (simp add: committed_record_def)
  from stored(3) show ?thesis
    by (cases rule: workspace_write_cases) (use facts(1,2) scope owner in auto)
qed (simp_all add: record_proposal_def)

text \<open>
  A write to the memory of a team, a project, a case or the organization never touches the records:
  it is answered as a proposal, as needing approval, as denied, or it raises.
\<close>

theorem shared_write_deferred:
  assumes "ww_scope_type w \<in> {ScopeTeam, ScopeProject, ScopeCase, ScopeOrganization}"
    and "propose_or_write X w s = (s', res)"
  shows "wdb_records (wst_db s') = wdb_records (wst_db s) \<and> wdb_versions (wst_db s') = wdb_versions (wst_db s) \<and>
    (case res of Inl err \<Rightarrow> True
     | Inr d \<Rightarrow> wd_status d \<in> {''denied'', ''proposal_only'', ''requires_approval''} \<and> wd_memory_id d = None)"
proof -
  have id: "wd_memory_id d = None" if "res = Inr d" "wd_status d \<noteq> ''committed''" for d
    using assms(2) that by (auto simp: propose_or_write_def Let_def split: sum.splits if_splits commit_result.splits prod.splits)
  from assms(2) show ?thesis
  proof (cases rule: propose_or_write_cases)
    case nothing
    then show ?thesis using id by (auto split: sum.split)
  next
    case (proposed payload)
    then show ?thesis using id by (auto simp: record_proposal_def split: sum.split)
  next
    case (stored out d)
    have "ad_action (write_decision X w (wst_db s)) \<noteq> AccDeny" using stored(1) by simp
    then have "granted_verdict (write_request X w) = AccAllow" using write_decision_allow(3) stored(1) by metis
    then show ?thesis using granted_write_scope assms(1) by blast
  qed
qed

section \<open>Queries\<close>

lemma query_records_set:
  "r \<in> set (query_records w t i q n sec db) \<Longrightarrow> r \<in> set (wdb_records db) \<and> query_clauses w t i q sec r"
  unfolding query_records_def sql_fetchall_def by (drule in_set_takeD) auto

lemma query_records_length: "length (query_records w t i q n sec db) \<le> clamp 50 n"
  by (simp add: query_records_def)

text \<open>
  C25: A query returns records only to a principal entitled to read that scope, and then only live records
  of exactly that workspace and scope that are not classified as secret-like and match a term of the
  query, at most fifty of them; it changes nothing in the store.
\<close>

theorem workspace_query_confined:
  "wst_db (fst (workspace_query_op X q s)) = wst_db s \<and>
   (case snd (workspace_query_op X q s) of
      Inl err \<Rightarrow> True
    | Inr result \<Rightarrow>
        (qr_records result = [] \<or> entitled (wst_db s) (read_request q)) \<and>
        length (qr_records result) \<le> 50 \<and>
        list_all (\<lambda>r. r \<in> set (wdb_records (wst_db s)) \<and> live r \<and> wk_classification r \<noteq> ClassSecretLike \<and>
          record_scope r = (wq_workspace_id q, wq_scope_type q, wq_scope_id q) \<and>
          summary_matches (search_terms (wq_query q)) (wk_summary r)) (qr_records result))"
proof -
  let ?d = "evaluate_access (wst_db s) (read_request q)"
  let ?e = "write_access_evidence X ''workspace_memory_query'' ?d (wq_principal_id q) None
    (Some (mx_hash X (wq_query q))) (scope_value (wq_scope_type q)) s"
  let ?rs = "query_records (wq_workspace_id q) (wq_scope_type q) (wq_scope_id q) (wq_query q) (wq_limit q) False (wst_db s)"
  have rs: "list_all (\<lambda>r. r \<in> set (wdb_records (wst_db s)) \<and> live r \<and> wk_classification r \<noteq> ClassSecretLike \<and>
      record_scope r = (wq_workspace_id q, wq_scope_type q, wq_scope_id q) \<and>
      summary_matches (search_terms (wq_query q)) (wk_summary r)) ?rs"
    using query_records_set unfolding list_all_iff by (fastforce simp: query_clauses_def record_scope_def)
  have len: "length ?rs \<le> 50" by (rule order_trans [OF query_records_length]) (simp add: clamp_def)
  show ?thesis
  proof (cases ?e)
    case (Inl err)
    then show ?thesis by (simp add: workspace_query_op_def Let_def)
  next
    case (Inr sp)
    obtain s1 path where ev: "?e = Inr (s1, path)" using Inr by (cases sp) auto
    then have db: "wst_db s1 = wst_db s" by (rule write_access_evidence_db)
    show ?thesis
    proof (cases "ad_action ?d = AccAllow")
      case True
      then have "entitled (wst_db s) (read_request q)"
        using access_decision [of "wst_db s" "read_request q"] by (metis access_verdict.distinct(1))
      then show ?thesis using ev db True rs len by (simp add: workspace_query_op_def Let_def)
    next
      case False
      then show ?thesis using ev db by (simp add: workspace_query_op_def Let_def)
    qed
  qed
qed

section \<open>Compare and swap\<close>

text \<open>
  The abstract store: each target of a scope has a version and the digest of its text.  A write names the
  version it replaces; writing the text that is there changes nothing.
\<close>

type_synonym cells = "(string \<times> memory_scope \<times> string) \<times> string \<rightharpoonup> int \<times> string"

definition cas_write ::
  "cells \<Rightarrow> (string \<times> memory_scope \<times> string) \<times> string \<Rightarrow> int option \<Rightarrow> string \<Rightarrow> cells \<times> int option" where
  "cas_write m key expected h = (case m key of
     None \<Rightarrow> let v = max 1 ((case expected of None \<Rightarrow> 0 | Some v \<Rightarrow> v) + 1) in (m(key \<mapsto> (v, h)), Some v)
   | Some (v, h') \<Rightarrow>
       if h' = h then (m, Some v)
       else if expected = Some v then (m(key \<mapsto> (v + 1, h)), Some (v + 1)) else (m, None))"

definition at_target :: "(string \<times> memory_scope \<times> string) \<times> string \<Rightarrow> workspace_record \<Rightarrow> bool" where
  "at_target key r \<longleftrightarrow> record_scope r = fst key \<and> wk_target r = Some (snd key) \<and> live r"

definition target_cells :: "workspace_db \<Rightarrow> cells" where
  "target_cells db key = map_option (\<lambda>r. (wk_version r, wk_hash r)) (List.find (at_target key) (wdb_records db))"

definition committed_version :: "commit_result \<Rightarrow> int option" where
  "committed_version res = (case res of WsCommitted i v \<Rightarrow> Some v | WsConflict c \<Rightarrow> None)"

lemma live_target_cells:
  assumes "wk_target r = Some t"
  shows "live_target r db = List.find (at_target (record_scope r, t)) (wdb_records db)"
proof -
  have "(\<lambda>s. record_scope s = (wk_workspace_id r, wk_scope_type r, wk_scope_id r) \<and> wk_target s = Some t \<and> live s) =
      at_target (record_scope r, t)"
    by (auto simp: at_target_def record_scope_def)
  then show ?thesis by (simp add: live_target_def assms find_record_by_target_def sql_fetchone_def)
qed

text \<open>Putting a record at a target changes its cell and no other.\<close>

lemma target_cells_put:
  assumes "wk_target r = Some t" "live r"
    and own: "\<And>s. s \<in> set (wdb_records db) \<Longrightarrow> wk_id s = wk_id r \<Longrightarrow> live s \<Longrightarrow> wk_target s \<noteq> None \<Longrightarrow>
      record_scope s = record_scope r \<and> wk_target s = wk_target r"
  shows "target_cells (put_record r v db) = (target_cells db)((record_scope r, t) \<mapsto> (wk_version r, wk_hash r))"
proof
  fix key
  show "target_cells (put_record r v db) key =
    ((target_cells db)((record_scope r, t) \<mapsto> (wk_version r, wk_hash r))) key"
  proof (cases "key = (record_scope r, t)")
    case True
    have "List.find (at_target key) (sql_replace (clashes r) r (wdb_records db)) = Some r"
      by (rule find_replace) (use assms(1,2) True in \<open>auto simp: at_target_def clashes_def\<close>)
    then show ?thesis using True by (simp add: target_cells_def)
  next
    case False
    have "List.find (at_target key) (sql_replace (clashes r) r (wdb_records db)) = List.find (at_target key) (wdb_records db)"
    proof (rule find_replace_other)
      show "\<not> at_target key r" using False assms(1) by (auto simp: at_target_def prod_eq_iff)
      show "\<not> clashes r s" if s: "s \<in> set (wdb_records db)" "at_target key s" for s
      proof
        assume "clashes r s"
        then have "record_scope s = record_scope r \<and> wk_target s = wk_target r"
          using own [OF s(1)] s(2) by (auto simp: clashes_def at_target_def)
        then show False using False s(2) assms(1) by (auto simp: at_target_def prod_eq_iff)
      qed
    qed
    then show ?thesis using False by (simp add: target_cells_def)
  qed
qed

text \<open>
  C24: Writing a record with a target is compare and swap on the abstract store of versions and digests:
  the same text answers the version that is there, another text is committed only under the version the
  writer expects and moves it by one, and a conflict changes no target.  The hypothesis is that no other
  target uses the id of the record.
\<close>

theorem workspace_write_refines:
  assumes "workspace_inv db" "wk_target r = Some t" "live r"
    and "\<forall>s \<in> set (wdb_records db). wk_id s = wk_id r \<and> live s \<and> wk_target s \<noteq> None \<longrightarrow>
      record_scope s = record_scope r \<and> wk_target s = wk_target r"
    and w: "workspace_write_record H clk r expected by_whom reason db = (db', res)"
  shows "(target_cells db', committed_version res) = cas_write (target_cells db) (record_scope r, t) expected (wk_hash r)"
proof -
  note found = live_target_cells [OF assms(2), of db]
  from w show ?thesis
  proof (cases rule: workspace_write_cases)
    case (same s)
    then show ?thesis using found by (simp add: cas_write_def target_cells_def committed_version_def)
  next
    case (conflict s c)
    moreover have "target_cells (create_conflict c db) = target_cells db" by (simp add: target_cells_def fun_eq_iff)
    ultimately show ?thesis using found by (simp add: cas_write_def target_cells_def committed_version_def)
  next
    case (update s v)
    note s = live_target_Some [OF update(1)]
    have "record_scope x = record_scope r \<and> wk_target x = wk_target r"
      if "x \<in> set (wdb_records db)" "wk_id x = wk_id s" for x
      using lookup_key_member [OF workspace_invD(1) [OF assms(1)]] that s by (metis option.inject)
    then have "target_cells db' = (target_cells db)((record_scope r, t) \<mapsto> (wk_version s + 1, wk_hash r))"
      using target_cells_put [of "committed_record clk r (wk_id s) (wk_version s + 1)" t db v] assms(2,3) update(4)
      by simp
    moreover have "target_cells db (record_scope r, t) = Some (wk_version s, wk_hash s)"
      by (simp add: target_cells_def found [symmetric] update(1))
    ultimately show ?thesis using update by (simp add: cas_write_def committed_version_def)
  next
    case (new v)
    let ?n = "max 1 ((case expected of None \<Rightarrow> 0 | Some v \<Rightarrow> v) + 1)"
    have "target_cells db' = (target_cells db)((record_scope r, t) \<mapsto> (?n, wk_hash r))"
      using target_cells_put [of "committed_record clk r (wk_id r) ?n" t db v] assms(2-4) new(2) by auto
    moreover have "target_cells db (record_scope r, t) = None" using found new(1) by (simp add: target_cells_def)
    ultimately show ?thesis using new by (simp add: cas_write_def committed_version_def Let_def)
  qed
qed

section \<open>Tombstones\<close>

text \<open>
  The tombstone operation of the workspace authority never succeeds: whoever asks, for whatever record,
  it raises because the evidence it has to write first carries the scope \<open>retention\<close>, which is not one of
  the scopes an event may have, and the store is left as it was.
\<close>

theorem workspace_tombstone_raises:
  "workspace_tombstone_op X q s = (s, Inl InvalidValue)"
proof -
  have "scope_of_text ''retention'' = None"
    by (simp add: scope_of_text_def)
  then show ?thesis by (simp add: workspace_tombstone_op_def write_access_evidence_def Let_def)
qed

text \<open>
  The store itself can tombstone a record, but writing to the target again brings the record back: under
  its old id, with version one.
\<close>

lemma tombstoned_target_returns:
  assumes "live_target r db = None" "workspace_write_record H clk r None by_whom reason db = (db', res)"
  shows "res = WsCommitted (wk_id r) 1 \<and> lookup_key wk_id (wk_id r) (wdb_records db') = Some (committed_record clk r (wk_id r) 1)"
  using assms(2)
proof (cases rule: workspace_write_cases)
  case (new v)
  have "lookup_key wk_id (wk_id (committed_record clk r (wk_id r) 1))
      (sql_replace (clashes (committed_record clk r (wk_id r) 1)) (committed_record clk r (wk_id r) 1) (wdb_records db)) =
      Some (committed_record clk r (wk_id r) 1)"
    unfolding lookup_key_def by (rule find_replace) (auto simp: clashes_def)
  then show ?thesis using new by simp
qed (use assms(1) in auto)

section \<open>Sync packs\<close>

lemma colon_inject:
  assumes "a @ CHR '':'' # x = b @ CHR '':'' # y" "CHR '':'' \<notin> set x" "CHR '':'' \<notin> set y"
  shows "a = b \<and> x = y"
proof -
  have token: "takeWhile (\<lambda>c. c \<noteq> CHR '':'') (rev z @ CHR '':'' # u) = rev z" if "CHR '':'' \<notin> set z" for z u
  proof -
    have "takeWhile (\<lambda>c. c \<noteq> CHR '':'') (rev z @ CHR '':'' # u) =
        rev z @ takeWhile (\<lambda>c. c \<noteq> CHR '':'') (CHR '':'' # u)"
      by (rule takeWhile_append2) (use that in auto)
    then show ?thesis by simp
  qed
  have "rev x @ CHR '':'' # rev a = rev y @ CHR '':'' # rev b"
    using arg_cong [OF assms(1), of rev] by simp
  moreover from this have "rev x = rev y" using token [OF assms(2)] token [OF assms(3)] by metis
  ultimately show ?thesis by simp
qed

lemma int_str_no_colon: "CHR '':'' \<notin> set (int_str i)"
proof
  assume "CHR '':'' \<in> set (int_str i)"
  then have "digit_char CHR '':''" using int_str_chars [of i] unfolding list_all_iff by blast
  then show False by (simp add: digit_char_def)
qed

lemma record_hash_key_inject:
  "record_hash_key r = record_hash_key s \<longleftrightarrow> wk_id r = wk_id s \<and> wk_version r = wk_version s"
proof
  assume "record_hash_key r = record_hash_key s"
  then have "wk_id r @ CHR '':'' # int_str (wk_version r) = wk_id s @ CHR '':'' # int_str (wk_version s)"
    by (simp add: record_hash_key_def)
  from colon_inject [OF this int_str_no_colon int_str_no_colon]
  show "wk_id r = wk_id s \<and> wk_version r = wk_version s" by simp
qed (simp add: record_hash_key_def)

lemma item_hashes_snoc:
  "item_hashes H (rs @ [r]) = dict_set (item_hashes H rs) (record_hash_key r) (PStr (record_hash H r))"
  by (simp add: item_hashes_def)

lemma item_hashes_get:
  assumes "distinct (map record_hash_key rs)" "r \<in> set rs"
  shows "dict_get (item_hashes H rs) (record_hash_key r) = PStr (record_hash H r)"
  using assms
proof (induction rs rule: rev_induct)
  case (snoc s rs)
  have "record_hash_key r \<noteq> record_hash_key s" if "r \<in> set rs"
  proof -
    have "record_hash_key s \<notin> record_hash_key ` set rs" using snoc.prems(1) by simp
    then show ?thesis using that by (metis image_eqI)
  qed
  then show ?case using snoc by (auto simp: item_hashes_snoc)
qed simp

lemma item_hashes_from:
  "map_of (item_hashes H rs) k = Some v \<Longrightarrow> \<exists>r \<in> set rs. k = record_hash_key r \<and> v = PStr (record_hash H r)"
proof (induction rs rule: rev_induct)
  case (snoc r rs)
  then show ?case by (cases "k = record_hash_key r") (auto simp: item_hashes_snoc dict_set_def update_conv')
qed (simp add: item_hashes_def)

lemma wf_item_hashes: "wf_json (PDict (item_hashes H rs))"
proof -
  have wf: "wf_dict (item_hashes H rs)"
    by (induction rs rule: rev_induct) (simp_all add: item_hashes_snoc, simp add: item_hashes_def wf_dict_def)
  have "wf_json (snd kv)" if "kv \<in> set (item_hashes H rs)" for kv
  proof -
    have "map_of (item_hashes H rs) (fst kv) = Some (snd kv)"
      using wf that by (simp add: wf_dict_def)
    then show ?thesis using item_hashes_from by fastforce
  qed
  with wf show ?thesis by simp
qed

lemma distinct_map_sorted: "distinct (map f (sort_key g xs)) = distinct (map f xs)"
  by (metis mset_eq_imp_distinct_iff mset_map mset_sort)

lemma synced_ids:
  assumes "workspace_inv db"
  shows "distinct (map wk_id (records_for_sync w n db))"
proof -
  have "distinct (map wk_id (wdb_records db))" using workspace_invD(1) [OF assms] by (simp add: keys_distinct_def)
  then have "distinct (map wk_id (sort_key wk_updated_at_utc (filter (\<lambda>r. wk_workspace_id r = w \<and> live r) (wdb_records db))))"
    unfolding distinct_map_sorted by (rule distinct_map_filter)
  then show ?thesis unfolding records_for_sync_def sql_fetchall_def take_map [symmetric] by (rule distinct_take)
qed

lemma synced_keys: "workspace_inv db \<Longrightarrow> distinct (map record_hash_key (records_for_sync w n db))"
  using synced_ids [of db w n] by (auto simp: distinct_map inj_on_def record_hash_key_inject)

lemma synced_subset:
  "set (records_for_sync w n db) \<subseteq> {r \<in> set (wdb_records db). wk_workspace_id r = w \<and> live r}"
  unfolding records_for_sync_def sql_fetchall_def by (auto dest!: in_set_takeD)

lemma exported_records:
  "r \<in> set (sp_records (export_pack H now w client n db)) \<Longrightarrow>
     r \<in> set (wdb_records db) \<and> wk_workspace_id r = w \<and> live r"
  using synced_subset by (auto simp: export_pack_def Let_def)

lemma exported_pack_ok:
  assumes "workspace_inv db"
  shows "verify_pack_integrity H (export_pack H now w client n db) = []"
proof -
  have "item_reasons H (export_pack H now w client n db) = []"
    using item_hashes_get [OF synced_keys [OF assms]] by (auto simp: item_reasons_def export_pack_def Let_def)
  then show ?thesis
    by (simp add: verify_pack_integrity_def export_pack_def Let_def manifest_hash_def manifest_payload_def)
qed

text \<open>\<open>sorted_free H v w\<close>: the digest separates the sorted texts of these two payloads.\<close>

definition sorted_free :: "(string \<Rightarrow> string) \<Rightarrow> pyval \<Rightarrow> pyval \<Rightarrow> bool" where
  "sorted_free H v w \<longleftrightarrow> (H (sorted_text v) = H (sorted_text w) \<longrightarrow> sorted_text v = sorted_text w)"

lemma sorted_hash_inject:
  assumes "sorted_hash H v = sorted_hash H w" "sorted_free H v w" "wf_json v" "wf_json w"
  shows "canonicalize_payload v = canonicalize_payload w"
proof -
  have "sorted_text v = sorted_text w" using assms(1,2) by (simp add: sorted_hash_def sorted_free_def)
  then show ?thesis by (rule sorted_text_inject [OF assms(3,4)])
qed

lemma dict_canonical_get:
  assumes "canonicalize_payload (PDict d) = canonicalize_payload (PDict e)" "wf_dict d" "wf_dict e"
  shows "map_option canonicalize_payload (map_of d k) = map_option canonicalize_payload (map_of e k)"
  using assms map_of_canonical_dict by (metis canonicalize_PDict pyval.inject(6))

lemma wf_pv: "wf_json (pv_of_opt x)" "wf_json (pv_time x)" "wf_json (pv_int_opt i)"
  by (simp_all add: pv_of_opt_def pv_time_def pv_int_opt_def split: option.split)

lemma wf_record_dump: "workspace_record_valid r \<Longrightarrow> wf_json (PDict (record_dump r))"
  by (simp add: record_dump_def workspace_record_valid_def wf_pv wf_dict_def)

lemma wf_manifest_payload: "wf_json (PDict (sm_item_hashes m)) \<Longrightarrow> wf_json (PDict (manifest_payload m))"
  by (simp add: manifest_payload_def wf_pv wf_dict_def)

lemma verify_items:
  assumes "verify_pack_integrity H pack = []" "r \<in> set (sp_records pack)"
  shows "dict_get (sm_item_hashes (sp_manifest pack)) (record_hash_key r) = PStr (record_hash H r)"
  using assms by (auto simp: verify_pack_integrity_def item_reasons_def split: if_splits)

lemma verify_manifest:
  "verify_pack_integrity H pack = [] \<Longrightarrow> manifest_hash H (sp_manifest pack) = sm_manifest_hash (sp_manifest pack)"
  by (auto simp: verify_pack_integrity_def split: if_splits)

lemma export_manifest:
  "sm_item_hashes (sp_manifest (export_pack H now w client n db)) = item_hashes H (records_for_sync w n db)"
  "sp_records (export_pack H now w client n db) = records_for_sync w n db"
  by (simp_all add: export_pack_def Let_def)

lemma verified_item_exported:
  assumes canon: "canonicalize_payload (PDict (manifest_payload m)) = canonicalize_payload (PDict (manifest_payload m'))"
    and m: "sm_item_hashes m = item_hashes H rs" and wf: "wf_json (PDict (sm_item_hashes m'))"
    and item: "dict_get (sm_item_hashes m') k = PStr h"
  shows "\<exists>r \<in> set rs. k = record_hash_key r \<and> h = record_hash H r"
proof -
  have "map_option canonicalize_payload (map_of (manifest_payload m) ''itemHashes'') =
      map_option canonicalize_payload (map_of (manifest_payload m') ''itemHashes'')"
    by (rule dict_canonical_get [OF canon]) (simp_all add: manifest_payload_def wf_dict_def)
  then have "canonicalize_payload (PDict (sm_item_hashes m)) = canonicalize_payload (PDict (sm_item_hashes m'))"
    by (simp add: manifest_payload_def del: canonicalize_payload.simps)
  then have same: "map_option canonicalize_payload (map_of (sm_item_hashes m) k) =
      map_option canonicalize_payload (map_of (sm_item_hashes m') k)"
    by (rule dict_canonical_get) (use wf_item_hashes [of H rs] wf m in simp_all)
  have "map_of (sm_item_hashes m') k = Some (PStr h)"
    using item by (auto simp: dict_get_def split: option.splits)
  with same have "map_option canonicalize_payload (map_of (item_hashes H rs) k) = Some (PStr h)"
    by (simp add: m)
  then obtain v where "map_of (item_hashes H rs) k = Some v" "canonicalize_payload v = PStr h" by auto
  then show ?thesis using item_hashes_from by (metis canonicalize_simps(1) pyval.inject(4))
qed

text \<open>
  A pack that passes the verification under the manifest digest of an exported pack holds only records
  that were exported: each of its records prints as an exported record does, unless SHA-256 collides on
  the two manifests or on two records.
\<close>

theorem pack_tampering_detected:
  assumes "pack = export_pack H now w client n db" "workspace_inv db" "verify_pack_integrity H pack' = []"
    and "sm_manifest_hash (sp_manifest pack') = sm_manifest_hash (sp_manifest pack)"
    and "wf_json (PDict (sm_item_hashes (sp_manifest pack')))"
    and "\<forall>r' \<in> set (sp_records pack'). workspace_record_valid r'"
    and "sorted_free H (PDict (manifest_payload (sp_manifest pack))) (PDict (manifest_payload (sp_manifest pack')))"
    and "\<forall>r \<in> set (sp_records pack). \<forall>r' \<in> set (sp_records pack').
      sorted_free H (PDict (record_dump r)) (PDict (record_dump r'))"
  shows "\<forall>r' \<in> set (sp_records pack'). \<exists>r \<in> set (sp_records pack). record_hash_key r' = record_hash_key r \<and>
    canonicalize_payload (PDict (record_dump r')) = canonicalize_payload (PDict (record_dump r))"
proof
  fix r' assume r': "r' \<in> set (sp_records pack')"
  have ok: "verify_pack_integrity H pack = []" using exported_pack_ok [OF assms(2)] by (simp add: assms(1))
  have "manifest_hash H (sp_manifest pack) = manifest_hash H (sp_manifest pack')"
    using verify_manifest [OF ok] verify_manifest [OF assms(3)] assms(4) by simp
  moreover have "wf_json (PDict (manifest_payload (sp_manifest pack)))"
    using wf_manifest_payload wf_item_hashes by (metis export_manifest(1) assms(1))
  ultimately have canon: "canonicalize_payload (PDict (manifest_payload (sp_manifest pack))) =
      canonicalize_payload (PDict (manifest_payload (sp_manifest pack')))"
    unfolding manifest_hash_def using sorted_hash_inject [OF _ assms(7)] wf_manifest_payload [OF assms(5)] by blast
  from verified_item_exported [OF canon _ assms(5) verify_items [OF assms(3) r']]
  obtain r where r: "r \<in> set (sp_records pack)" "record_hash_key r' = record_hash_key r" "record_hash H r' = record_hash H r"
    unfolding assms(1) export_manifest by blast
  have "workspace_record_valid r"
    using exported_records [OF r(1) [unfolded assms(1)]] workspace_invD(3) [OF assms(2)] by simp
  then have "canonicalize_payload (PDict (record_dump r)) = canonicalize_payload (PDict (record_dump r'))"
    using sorted_hash_inject r(3) assms(8) r(1) r' wf_record_dump assms(6) unfolding record_hash_def by metis
  with r show "\<exists>r \<in> set (sp_records pack). record_hash_key r' = record_hash_key r \<and>
    canonicalize_payload (PDict (record_dump r')) = canonicalize_payload (PDict (record_dump r))" by metis
qed

text \<open>A record may be left out if another is given twice: the count and the digests still agree.\<close>

lemma duplicate_record_passes:
  assumes "verify_pack_integrity H pack = []" "sp_records pack = [r, s]"
  shows "verify_pack_integrity H (pack\<lparr>sp_records := [r, r]\<rparr>) = []"
  using assms by (auto simp: verify_pack_integrity_def item_reasons_def split: if_splits)

section \<open>Import\<close>

lemma clashes_committed [simp]:
  "clashes (committed_record clk r (wk_id r) v) s = clashes r s"
  "clashes s (committed_record clk r (wk_id r) v) = clashes s r"
  by (simp_all add: clashes_def)

lemma write_without_clash:
  assumes "live r" "\<forall>s \<in> set (wdb_records db). \<not> clashes r s"
    and w: "workspace_write_record H clk r None by_whom reason db = (db', res)"
  shows "wdb_records db' = wdb_records db @ [committed_record clk r (wk_id r) 1] \<and> res = WsCommitted (wk_id r) 1"
proof -
  have "live_target r db = None"
  proof (cases "live_target r db")
    case (Some s)
    note s = live_target_Some [OF Some]
    then have "clashes r s" using assms(1) by (simp add: clashes_def)
    with assms(2) s(1) show ?thesis by blast
  qed
  from w show ?thesis
    by (cases rule: workspace_write_cases) (use \<open>live_target r db = None\<close> assms(2) in \<open>simp_all add: replace_no_clash\<close>)
qed

text \<open>The records an import appends: each with its id, version one and the time of its write.\<close>

fun imported :: "(nat \<Rightarrow> nat \<Rightarrow> string) \<Rightarrow> nat \<Rightarrow> workspace_record list \<Rightarrow> workspace_record list" where
  "imported clk i [] = []"
| "imported clk i (r # rs) = committed_record (clk i) r (wk_id r) 1 # imported clk (Suc i) rs"

lemma apply_records_append:
  assumes "\<forall>r \<in> set rs. live r" "distinct (map wk_id rs)" "targets_unique rs"
    and "\<forall>r \<in> set rs. \<forall>s \<in> set (wdb_records db). \<not> clashes r s"
  shows "\<exists>db'. apply_records H clk reason i rs n db = (db', n + length rs) \<and>
    wdb_records db' = wdb_records db @ imported clk i rs"
  using assms
proof (induction rs arbitrary: i n db)
  case (Cons r rs)
  obtain db1 res where w: "workspace_write_record H (clk i) r None (Some (wk_owner_principal_id r)) reason db = (db1, res)"
    by fastforce
  have "\<forall>s \<in> set (wdb_records db). \<not> clashes r s" using Cons.prems(4) by simp
  with Cons.prems(1) w have db1: "wdb_records db1 = wdb_records db @ [committed_record (clk i) r (wk_id r) 1]"
    and res: "res = WsCommitted (wk_id r) 1"
    using write_without_clash by (metis list.set_intros(1))+
  have later: "\<not> clashes x r" if "x \<in> set rs" for x
  proof
    assume "clashes x r"
    moreover have "wk_id r \<noteq> wk_id x" using Cons.prems(2) that by auto
    ultimately have "live r" "live x" "wk_target x \<noteq> None" "wk_target r = wk_target x" "record_scope r = record_scope x"
      by (auto simp: clashes_def)
    then have "r = x" using Cons.prems(3) that unfolding targets_unique_def by auto
    with \<open>wk_id r \<noteq> wk_id x\<close> show False by simp
  qed
  have prems: "\<forall>x \<in> set rs. live x" "distinct (map wk_id rs)" "targets_unique rs"
    "\<forall>x \<in> set rs. \<forall>s \<in> set (wdb_records db1). \<not> clashes x s"
    using Cons.prems later by (auto simp: db1 targets_unique_def)
  from Cons.IH [OF prems, of "Suc i" "Suc n"] show ?case
    by (auto simp: w res db1)
qed simp

lemma imported_content:
  "map (\<lambda>r. (wk_id r, record_scope r, wk_target r, wk_summary r, wk_hash r, live r)) (imported clk i rs) =
   map (\<lambda>r. (wk_id r, record_scope r, wk_target r, wk_summary r, wk_hash r, live r)) rs"
  "list_all (\<lambda>r. wk_version r = 1) (imported clk i rs)"
  by (induction rs arbitrary: i) simp_all

lemma no_conflicts_without_clash:
  assumes "\<forall>r \<in> set rs. live r" "\<forall>r \<in> set rs. \<forall>s \<in> set (wdb_records db). \<not> clashes r s"
  shows "detect_conflicts H now db rs = []"
proof -
  have "conflict_of H now db r = []" if r: "r \<in> set rs" for r
  proof (cases "wk_target r")
    case (Some t)
    have "find_record_by_target (wk_workspace_id r) (wk_scope_type r) (wk_scope_id r) t db = None"
      using assms r Some unfolding find_record_by_target_def sql_fetchone_def find_None_iff
      by (auto simp: clashes_def record_scope_def)
    then show ?thesis by (simp add: conflict_of_def Some)
  qed (simp add: conflict_of_def)
  then show ?thesis by (simp add: detect_conflicts_def)
qed

lemma import_applies:
  assumes "workspace_inv db" "pack = export_pack H now w client n db"
    and "\<forall>r \<in> set (sp_records pack). \<forall>s \<in> set (wdb_records db2). \<not> clashes r s"
  shows "\<exists>db3. import_pack H now2 clk (PackFile pack) False (Some approval) db2 =
      (db3, (import_report ''applied'' (Some (sm_pack_id (sp_manifest pack))) False (length (sp_records pack)) [] []
        (Some approval))\<lparr>si_records_applied := length (sp_records pack)\<rparr>) \<and>
    wdb_records db3 = wdb_records db2 @ imported clk 0 (sp_records pack)"
proof -
  let ?rs = "sp_records pack"
  have ok: "verify_pack_integrity H pack = []" using exported_pack_ok assms(1,2) by simp
  have rs: "?rs = records_for_sync w n db" by (simp add: assms(2) export_manifest)
  have live: "\<forall>r \<in> set ?rs. live r" and sub: "set ?rs \<subseteq> set (wdb_records db)"
    using synced_subset unfolding rs by blast+
  have ids: "distinct (map wk_id ?rs)" unfolding rs by (rule synced_ids [OF assms(1)])
  have targets: "targets_unique ?rs"
    using workspace_invD(2) [OF assms(1)] sub unfolding targets_unique_def by blast
  from apply_records_append [OF live ids targets assms(3), of H clk _ 0 0]
  obtain db' where "apply_records H clk (''workspace sync import '' @ approval) 0 ?rs 0 db2 = (db', length ?rs)"
    "wdb_records db' = wdb_records db2 @ imported clk 0 ?rs" by (metis add_0)
  then show ?thesis
    by (simp add: import_pack_def Let_def ok no_conflicts_without_clash [OF live assms(3)])
qed

text \<open>
  C27: Export and import are inverse on content: a pack exported from a reachable store, imported with an
  approval into a store none of whose records has the id or the target of an exported one, is applied
  completely, and appends exactly the exported records with their ids, scopes, targets, texts and digests.
  Their versions start again at one.
\<close>

theorem export_import_restores:
  assumes "workspace_inv db" "pack = export_pack H now w client n db"
    and "\<forall>r \<in> set (sp_records pack). \<forall>s \<in> set (wdb_records db2). \<not> clashes r s"
    and "import_pack H now2 clk (PackFile pack) False (Some approval) db2 = (db3, report)"
  shows "si_status report = ''applied'' \<and> si_records_applied report = length (sp_records pack) \<and>
    (\<exists>new. wdb_records db3 = wdb_records db2 @ new \<and> list_all (\<lambda>r. wk_version r = 1) new \<and>
      map (\<lambda>r. (wk_id r, record_scope r, wk_target r, wk_summary r, wk_hash r, live r)) new =
      map (\<lambda>r. (wk_id r, record_scope r, wk_target r, wk_summary r, wk_hash r, live r)) (sp_records pack))"
proof -
  from import_applies [OF assms(1-3), of now2 clk approval] assms(4)
  have "si_status report = ''applied''" "si_records_applied report = length (sp_records pack)"
    and new: "wdb_records db3 = wdb_records db2 @ imported clk 0 (sp_records pack)"
    by (auto simp: import_report_def)
  then show ?thesis
    by (intro conjI exI [of _ "imported clk 0 (sp_records pack)"] new imported_content)
qed

text \<open>
  An import writes nothing unless the pack verifies, an approval is named, it is not a dry run and no
  record of the pack meets a live record of its target with another text; and the report then says why.
\<close>

theorem import_gated:
  assumes "import_pack H now clk loaded dry_run approval_id db = (db', report)" "db' \<noteq> db"
  shows "\<exists>pack approval. loaded = PackFile pack \<and> verify_pack_integrity H pack = [] \<and> \<not> dry_run \<and>
    approval_id = Some approval \<and> detect_conflicts H now db (sp_records pack) = [] \<and> si_status report = ''applied''"
  using assms by (auto simp: import_pack_def import_report_def Let_def split: pack_file.splits if_splits option.splits prod.splits)

section \<open>Runs\<close>

lemma apply_records_run:
  "\<forall>r \<in> set rs. workspace_record_valid r \<Longrightarrow>
     (workspace_step H)\<^sup>*\<^sup>* db (fst (apply_records H clk reason i rs n db))"
proof (induction rs arbitrary: i n db)
  case (Cons r rs)
  obtain db1 res where w: "workspace_write_record H (clk i) r None (Some (wk_owner_principal_id r)) reason db = (db1, res)"
    by fastforce
  have "workspace_step H db db1"
    using workspace_step.commit [of r H db "clk i" None "Some (wk_owner_principal_id r)" reason] Cons.prems w by simp
  moreover have "(workspace_step H)\<^sup>*\<^sup>* db1 (fst (apply_records H clk reason (Suc i) rs m db1))" for m
    using Cons by simp
  ultimately show ?case
    by (simp add: w split: commit_result.split) (meson converse_rtranclp_into_rtranclp)
qed simp

lemma import_run:
  assumes "\<And>pack r. loaded = PackFile pack \<Longrightarrow> r \<in> set (sp_records pack) \<Longrightarrow> workspace_record_valid r"
  shows "(workspace_step H)\<^sup>*\<^sup>* db (fst (import_pack H now clk loaded dry_run approval_id db))"
  using assms apply_records_run [of _ H db clk]
  by (auto simp: import_pack_def Let_def split: pack_file.split option.split prod.split) (metis fst_conv)

lemma propose_or_write_run:
  "(workspace_step (mx_hash X))\<^sup>*\<^sup>* (wst_db s) (wst_db (fst (propose_or_write X w s)))"
proof -
  obtain s' res where p: "propose_or_write X w s = (s', res)" by fastforce
  then have "(workspace_step (mx_hash X))\<^sup>*\<^sup>* (wst_db s) (wst_db s')"
  proof (cases rule: propose_or_write_cases)
    case (stored out d)
    have "workspace_step (mx_hash X) (wst_db s) (fst (workspace_write_record (mx_hash X) (\<lambda>i. mx_iso X (3 + i))
        (candidate_workspace_record X w) (ww_expected_state_version w) (Some (ww_principal_id w)) (ww_reason w) (wst_db s)))"
      by (rule workspace_step.commit [OF stored(2)])
    then show ?thesis by (simp add: stored(3) r_into_rtranclp)
  qed (auto intro: r_into_rtranclp workspace_step.proposal)
  with p show ?thesis by simp
qed

text \<open>
  C26: In every store that the operations reach from the empty one the ids of workspaces, principals,
  rules and records are unique, a principal has one membership per workspace, a target has at most one
  live record, and every record has the shape its validator demands.
\<close>

theorem workspace_invariant:
  assumes "(workspace_step (mx_hash X))\<^sup>*\<^sup>* empty_workspace_db (wst_db s)"
  shows "workspace_inv (wst_db s) \<and> workspace_inv (wst_db (fst (propose_or_write X w s)))"
proof -
  have inv: "workspace_inv (wst_db s)" by (rule workspace.run_inv [OF assms workspace_inv_empty])
  moreover have "workspace_inv (wst_db (fst (propose_or_write X w s)))"
    by (rule workspace.run_inv [OF propose_or_write_run inv])
  ultimately show ?thesis by blast
qed

section \<open>Instances\<close>

text \<open>One workspace with one owner, one record with a target, and the writes of that owner.\<close>

definition demo_world :: memory_world where
  "demo_world = \<lparr>mx_hash = (\<lambda>s. replicate 64 CHR ''a''), mx_secret_patterns = [], mx_pii_patterns = [],
     mx_clk = (\<lambda>i. ''t''), mx_iso = (\<lambda>i. ''t''), mx_after = (\<lambda>t d. t), mx_env = (\<lambda>i db. db), mx_output_root = ''out''\<rparr>"

definition demo_ws_record :: workspace_record where
  "demo_ws_record = \<lparr>wk_id = ''wm_1'', wk_workspace_id = ''default'', wk_scope_type = ScopePersonal, wk_scope_id = ''ada'',
     wk_owner_principal_id = ''ada'', wk_source_agent_id = None, wk_source_run_id = None, wk_source_user_id = None,
     wk_target = Some ''plan'', wk_version = 1, wk_hash = replicate 64 CHR ''b'', wk_summary = ''ship it'',
     wk_redacted_preview = None, wk_embedding_ref = None, wk_salience = ''0.5'', wk_confidence = ''0.5'',
     wk_classification = ClassInternal, wk_policy_tags = [], wk_ttl_days = None, wk_expires_at_utc = None,
     wk_created_at_utc = ''t'', wk_updated_at_utc = ''t'', wk_tombstoned_at_utc = None\<rparr>"

definition demo_workspace_db :: workspace_db where
  "demo_workspace_db = empty_workspace_db\<lparr>
     wdb_workspaces := [\<lparr>wp_workspace_id = ''default'', wp_display_name = ''Default'', wp_owner_principal_id = ''ada'',
       wp_status = WorkspaceActive, wp_policy_pack_id = None, wp_created_at_utc = ''t'', wp_updated_at_utc = ''t''\<rparr>],
     wdb_principals := [\<lparr>pr_principal_id = ''ada'', pr_principal_type = PrincipalUser, pr_display_name = ''Ada'',
       pr_status = PrincipalActive, pr_external_subject_ref_hash = None, pr_created_at_utc = ''t''\<rparr>],
     wdb_records := [demo_ws_record]\<rparr>"

definition demo_ws_write :: "memory_scope \<Rightarrow> workspace_write" where
  "demo_ws_write scope = \<lparr>ww_workspace_id = ''default'', ww_principal_id = ''ada'', ww_scope_type = scope,
     ww_scope_id = ''ada'', ww_summary = ''ship it'', ww_memory_target = None, ww_expected_state_version = None,
     ww_source_agent_id = None, ww_source_run_id = None, ww_classification = ClassInternal, ww_reason = ''note''\<rparr>"

definition demo_ws_state :: workspace_state where
  "demo_ws_state = \<lparr>wst_db = demo_workspace_db, wst_files = Map.empty\<rparr>"

lemma demo_record_valid: "workspace_record_valid demo_ws_record"
  by code_simp

lemma demo_workspace_inv: "workspace_inv demo_workspace_db"
  using demo_record_valid
  by (simp add: workspace_inv_def demo_workspace_db_def empty_workspace_db_def keys_distinct_def targets_unique_def)

lemma demo_entitled: "entitled demo_workspace_db (write_request demo_world (demo_ws_write ScopePersonal))"
  by (simp add: entitled_def demo_workspace_db_def demo_ws_write_def write_request_def get_workspace_def get_principal_def
      write_classification_def workspace_redaction_def redact_candidate_def demo_world_def Let_def
      personal_owner_shortcut_def)

theorem access_decision_spec_witness:
  "ad_action (evaluate_access demo_workspace_db (write_request demo_world (demo_ws_write ScopePersonal))) = AccAllow \<and>
   ad_action (evaluate_access empty_workspace_db (write_request demo_world (demo_ws_write ScopePersonal))) = AccDeny"
proof -
  have "\<not> entitled empty_workspace_db q" for q
    by (simp add: entitled_def empty_workspace_db_def get_workspace_def)
  moreover have "granted_verdict (write_request demo_world (demo_ws_write ScopePersonal)) = AccAllow"
    by (simp add: granted_verdict_def demo_ws_write_def write_request_def)
  ultimately show ?thesis using demo_entitled by (simp add: access_decision_spec)
qed

theorem workspace_write_gated_witness:
  "wdb_records (wst_db (fst (propose_or_write demo_world (demo_ws_write ScopePersonal) demo_ws_state))) = [demo_ws_record] \<or>
   entitled demo_workspace_db (write_request demo_world (demo_ws_write ScopePersonal))"
proof -
  let ?res = "propose_or_write demo_world (demo_ws_write ScopePersonal) demo_ws_state"
  have "?res = (fst ?res, snd ?res)" by simp
  from workspace_write_gated [OF this] show ?thesis
    by (auto simp: demo_ws_state_def demo_workspace_db_def)
qed

theorem shared_write_deferred_witness:
  "wdb_records (wst_db (fst (propose_or_write demo_world (demo_ws_write ScopeTeam) demo_ws_state))) = [demo_ws_record]"
proof -
  let ?res = "propose_or_write demo_world (demo_ws_write ScopeTeam) demo_ws_state"
  have "?res = (fst ?res, snd ?res)" by simp
  from shared_write_deferred [OF _ this] show ?thesis
    by (simp add: demo_ws_state_def demo_workspace_db_def demo_ws_write_def)
qed

theorem workspace_write_refines_witness:
  "\<exists>db' res. workspace_write_record (\<lambda>s. s) (\<lambda>i. ''t'') (demo_ws_record\<lparr>wk_hash := replicate 64 CHR ''c''\<rparr>) (Some 1) None
      ''edit'' demo_workspace_db = (db', res) \<and> committed_version res = Some 2"
proof -
  let ?r = "demo_ws_record\<lparr>wk_hash := replicate 64 CHR ''c''\<rparr>"
  let ?w = "workspace_write_record (\<lambda>s. s) (\<lambda>i. ''t'') ?r (Some 1) None ''edit'' demo_workspace_db"
  have "?w = (fst ?w, snd ?w)" by simp
  from workspace_write_refines [OF demo_workspace_inv _ _ _ this, of "''plan''"]
  have "committed_version (snd ?w) =
      snd (cas_write (target_cells demo_workspace_db) (record_scope ?r, ''plan'') (Some 1) (wk_hash ?r))"
    by (simp add: demo_ws_record_def demo_workspace_db_def live_def record_scope_def prod_eq_iff)
  also have "\<dots> = Some 2"
    by (simp add: cas_write_def target_cells_def demo_workspace_db_def demo_ws_record_def at_target_def record_scope_def
        live_def empty_workspace_db_def)
  finally show ?thesis by (metis prod.collapse)
qed

text \<open>The pack of that store.\<close>

definition demo_pack :: sync_pack where
  "demo_pack = export_pack (\<lambda>s. s) ''t'' ''default'' ''cli'' 10 demo_workspace_db"

lemma demo_pack_records: "sp_records demo_pack = [demo_ws_record]"
  by (simp add: demo_pack_def export_manifest records_for_sync_def sql_fetchall_def demo_workspace_db_def
      demo_ws_record_def clamp_def live_def)

theorem pack_tampering_detected_witness:
  "\<exists>r \<in> set (sp_records demo_pack). record_hash_key demo_ws_record = record_hash_key r \<and>
     canonicalize_payload (PDict (record_dump demo_ws_record)) = canonicalize_payload (PDict (record_dump r))"
proof -
  have "\<forall>r' \<in> set (sp_records demo_pack). \<exists>r \<in> set (sp_records demo_pack). record_hash_key r' = record_hash_key r \<and>
     canonicalize_payload (PDict (record_dump r')) = canonicalize_payload (PDict (record_dump r))"
  proof (rule pack_tampering_detected [where H = "\<lambda>s. s" and pack = demo_pack and pack' = demo_pack, OF demo_pack_def demo_workspace_inv])
    show "verify_pack_integrity (\<lambda>s. s) demo_pack = []"
      unfolding demo_pack_def by (rule exported_pack_ok [OF demo_workspace_inv])
    show "wf_json (PDict (sm_item_hashes (sp_manifest demo_pack)))"
      unfolding demo_pack_def export_manifest by (rule wf_item_hashes)
  qed (simp_all add: demo_pack_records demo_record_valid sorted_free_def)
  then show ?thesis by (simp add: demo_pack_records)
qed

theorem export_import_restores_witness:
  "\<exists>db3 report. import_pack (\<lambda>s. s) ''t'' (\<lambda>i j. ''t'') (PackFile demo_pack) False (Some ''ok'') empty_workspace_db = (db3, report) \<and>
     map wk_summary (wdb_records db3) = [''ship it'']"
proof -
  let ?i = "import_pack (\<lambda>s. s) ''t'' (\<lambda>i j. ''t'') (PackFile demo_pack) False (Some ''ok'') empty_workspace_db"
  have "?i = (fst ?i, snd ?i)" by simp
  from export_import_restores [OF demo_workspace_inv demo_pack_def _ this]
  obtain new where new: "wdb_records (fst ?i) = new"
    "map (\<lambda>r. (wk_id r, record_scope r, wk_target r, wk_summary r, wk_hash r, live r)) new =
     map (\<lambda>r. (wk_id r, record_scope r, wk_target r, wk_summary r, wk_hash r, live r)) (sp_records demo_pack)"
    by (auto simp: empty_workspace_db_def)
  from new(2) have "map wk_summary new = [''ship it'']" by (auto simp: demo_pack_records demo_ws_record_def)
  with new(1) show ?thesis by (metis prod.collapse)
qed

theorem import_gated_witness:
  "\<exists>db' report. import_pack (\<lambda>s. s) ''t'' (\<lambda>i j. ''t'') (PackFile demo_pack) False (Some ''ok'') empty_workspace_db = (db', report) \<and>
     si_status report = ''applied''"
proof -
  let ?i = "import_pack (\<lambda>s. s) ''t'' (\<lambda>i j. ''t'') (PackFile demo_pack) False (Some ''ok'') empty_workspace_db"
  have "\<forall>r \<in> set (sp_records demo_pack). \<forall>s \<in> set (wdb_records empty_workspace_db). \<not> clashes r s"
    by (simp add: empty_workspace_db_def)
  from import_applies [OF demo_workspace_inv demo_pack_def this, of "''t''" "\<lambda>i j. ''t''" "''ok''"]
  have "wdb_records (fst ?i) = imported (\<lambda>i j. ''t'') 0 [demo_ws_record]"
    by (auto simp: demo_pack_records empty_workspace_db_def)
  then have "fst ?i \<noteq> empty_workspace_db" by (auto simp: empty_workspace_db_def)
  with import_gated [of "\<lambda>s. s" "''t''" "\<lambda>i j. ''t''" "PackFile demo_pack" False "Some ''ok''" empty_workspace_db "fst ?i" "snd ?i"]
  show ?thesis by (metis prod.collapse)
qed

text \<open>A store that was reached by creating the workspace and its owner and committing the record.\<close>

definition demo_reached_db :: workspace_db where
  "demo_reached_db = fst (workspace_write_record (mx_hash demo_world) (\<lambda>i. ''t'') demo_ws_record None None ''first''
     (fst (upsert_principal (hd (wdb_principals demo_workspace_db))
       (fst (create_workspace (hd (wdb_workspaces demo_workspace_db)) empty_workspace_db)))))"

lemma demo_reached: "(workspace_step (mx_hash demo_world))\<^sup>*\<^sup>* empty_workspace_db demo_reached_db"
proof -
  have "validate_workspace (hd (wdb_workspaces demo_workspace_db)) = Some (hd (wdb_workspaces demo_workspace_db))"
    "validate_principal (mx_hash demo_world) (hd (wdb_principals demo_workspace_db)) = Some (hd (wdb_principals demo_workspace_db))"
    by code_simp+
  from workspace_step.workspace [OF this(1)] workspace_step.principal [OF this(2)]
    workspace_step.commit [OF demo_record_valid]
  show ?thesis unfolding demo_reached_db_def
    by (rule rtranclp.rtrancl_into_rtrancl [OF rtranclp.rtrancl_into_rtrancl [OF r_into_rtranclp]])
qed

lemma demo_reached_records: "map wk_summary (wdb_records demo_reached_db) = [''ship it'']"
  by code_simp

theorem workspace_invariant_witness:
  "workspace_inv (wst_db (fst (propose_or_write demo_world (demo_ws_write ScopePersonal)
     \<lparr>wst_db = demo_reached_db, wst_files = Map.empty\<rparr>))) \<and> wdb_records demo_reached_db \<noteq> []"
  using workspace_invariant [of demo_world "\<lparr>wst_db = demo_reached_db, wst_files = Map.empty\<rparr>"
      "demo_ws_write ScopePersonal"] demo_reached demo_reached_records by auto

end
