(* ===== verification/Identity.thy ===== *)
theory Identity imports Signing begin

text \<open>
  The identity of the caller, \<open>imperaos/enterprise/identity.py\<close>: signed assertions, the actor they
  stand for, and its permissions.

  \<^item> \<open>identity_world\<close> holds what the functions read: the section \<open>identity\<close> of the configuration, the
    process environment, the files, the clock and the trusted keys (\<open>keyring\<close>).
  \<^item> A time is in seconds.  \<open>iw_instant\<close> is pydantic's reading of a date: with a time zone, or without
    one, which then does not compare with the clock.
  \<^item> \<open>Identity code message\<close> is an \<open>IdentityResolutionError\<close>; any other exception is \<open>Raised\<close> with its
    class.
\<close>

section \<open>Roles\<close>

definition artifact_all_permissions :: "string list" where
  "artifact_all_permissions =
     [''artifact.read'', ''artifact.create'', ''artifact.update'', ''artifact.restore'', ''artifact.archive'',
      ''artifact.duplicate'', ''artifact.export'', ''artifact.asset.import'', ''artifact.import_evidence'',
      ''artifact.form.submit'', ''artifact.ai.propose'', ''artifact.ai.apply'']"

definition identity_role_permissions :: "(string \<times> string list) list" where
  "identity_role_permissions =
    [(''platform_admin'',
       [''agent.registry.write'', ''evidence.verify'', ''runtime.run'', ''runtime.resume'', ''runtime.disable'',
        ''config.read'', ''config.write'', ''maintenance.enter'', ''backup.create'', ''restore.verify'',
        ''support.export''] @ artifact_all_permissions),
     (''security_admin'',
       [''approval.reconcile'', ''evidence.verify'', ''approval.decide'', ''approval.execute'', ''audit.read'',
        ''audit.export'', ''replay.verify'', ''keys.read'', ''keys.rotate'', ''support.export'', ''config.read'']),
     (''policy_admin'', [''policy.read'', ''policy.write'', ''policy.publish'', ''config.read'']),
     (''operator'',
       [''runtime.run'', ''runtime.resume'', ''audit.read'', ''replay.verify'', ''config.read'', ''artifact.read'',
        ''artifact.create'', ''artifact.update'', ''artifact.restore'', ''artifact.archive'', ''artifact.duplicate'',
        ''artifact.export'', ''artifact.asset.import'', ''artifact.import_evidence'', ''artifact.form.submit'',
        ''artifact.ai.propose'']),
     (''auditor'', [''audit.read'', ''audit.export'', ''replay.verify'', ''config.read'', ''artifact.read'']),
     (''observer'', [''config.read'', ''audit.read'', ''artifact.read'']),
     (''artifact_admin'', artifact_all_permissions),
     (''artifact_editor'',
       [''artifact.read'', ''artifact.create'', ''artifact.update'', ''artifact.restore'', ''artifact.duplicate'',
        ''artifact.export'', ''artifact.asset.import'', ''artifact.import_evidence'', ''artifact.form.submit'',
        ''artifact.ai.propose'']),
     (''artifact_viewer'', [''artifact.read''])]"

definition identity_permissions_for_roles :: "string list \<Rightarrow> string list" where
  "identity_permissions_for_roles roles =
     concat (map (\<lambda>role. case map_of identity_role_permissions role of None \<Rightarrow> [] | Some ps \<Rightarrow> ps) roles)"

section \<open>Assertions\<close>

datatype instant = Aware int | Naive

record identity_assertion =
  ia_actor_id :: string
  ia_subject :: string
  ia_issuer :: string
  ia_roles :: "string list"
  ia_permissions :: "string list"
  ia_issued_at :: instant
  ia_expires_at :: instant
  ia_key_id :: string
  ia_signature :: string

record actor_context =
  ac_actor_id :: string
  ac_subject :: string
  ac_issuer :: string
  ac_roles :: "string list"
  ac_permissions :: "string list"
  ac_auth_mode :: string
  ac_assertion_path :: string
  ac_key_id :: string
  ac_expires_at :: instant
  ac_is_break_glass :: bool

datatype identity_error = Identity string string | Raised string

record identity_config =
  ic_enabled :: bool
  ic_required_for_mutations :: bool
  ic_assertion_path :: string
  ic_break_glass_assertion_path :: string
  ic_allow_break_glass :: bool
  ic_max_clock_skew_seconds :: int
  ic_profile_name :: string

record identity_world =
  iw_config :: identity_config
  iw_environ :: "(string \<times> string) list"
  iw_files :: "string \<Rightarrow> artifact_file"
  iw_now :: int
  iw_keyring :: keyring
  iw_instant :: "pyval \<Rightarrow> instant option"
  iw_iso :: "instant \<Rightarrow> string"

text \<open>A list of strings, as a lax field of that type reads it; a list that is absent is empty.\<close>

fun texts_of :: "pyval list \<Rightarrow> string list option" where
  "texts_of [] = Some []"
| "texts_of (v # vs) = (case (v, texts_of vs) of (PStr s, Some ss) \<Rightarrow> Some (s # ss) | _ \<Rightarrow> None)"

definition text_list_of :: "pydict \<Rightarrow> string \<Rightarrow> string list option" where
  "text_list_of d k = (case map_of d k of
     None \<Rightarrow> Some [] | Some (PList vs) \<Rightarrow> texts_of vs | Some _ \<Rightarrow> None)"

text \<open>\<open>IdentityAssertion.model_validate\<close>.\<close>

definition instant_of :: "identity_world \<Rightarrow> pydict \<Rightarrow> string \<Rightarrow> instant option" where
  "instant_of W d k = (case map_of d k of None \<Rightarrow> None | Some v \<Rightarrow> iw_instant W v)"

definition assertion_validate :: "identity_world \<Rightarrow> pydict \<Rightarrow> identity_assertion option" where
  "assertion_validate W d =
     (case (text_of d ''schema_version'' (Some ''1''), text_of d ''assertion_type'' (Some ''external''),
            text_of d ''actor_id'' None, text_of d ''subject'' None, text_of d ''issuer'' None,
            text_list_of d ''roles'', text_list_of d ''permissions'', instant_of W d ''issued_at'',
            instant_of W d ''expires_at'', text_of d ''key_id'' None, text_of d ''signature'' None) of
        (Some _, Some _, Some actor, Some subject, Some issuer, Some roles, Some permissions, Some issued,
         Some expires, Some key, Some signature) \<Rightarrow>
          Some \<lparr>ia_actor_id = actor, ia_subject = subject, ia_issuer = issuer, ia_roles = roles,
                ia_permissions = permissions, ia_issued_at = issued, ia_expires_at = expires, ia_key_id = key,
                ia_signature = signature\<rparr>
      | _ \<Rightarrow> None)"

section \<open>Resolving the actor\<close>

definition in_quotes :: "string \<Rightarrow> string" where
  "in_quotes s = CHR 0x27 # s @ [CHR 0x27]"

definition identity_trusted_key :: "identity_world \<Rightarrow> string \<Rightarrow> identity_error + trusted_key" where
  "identity_trusted_key W key_id = (case load_trusted_keys (iw_keyring W) key_id of
     None \<Rightarrow> Inl (Identity ''TRUSTED_KEY_NOT_FOUND'' (''unknown key_id '' @ in_quotes key_id))
   | Some key \<Rightarrow> Inr key)"

definition assertion_actor :: "string \<Rightarrow> bool \<Rightarrow> identity_assertion \<Rightarrow> actor_context" where
  "assertion_actor path is_break_glass a =
     \<lparr>ac_actor_id = ia_actor_id a, ac_subject = ia_subject a, ac_issuer = ia_issuer a,
      ac_roles = sort (remdups (ia_roles a)),
      ac_permissions = sort (remdups (identity_permissions_for_roles (ia_roles a) @ ia_permissions a)),
      ac_auth_mode = (if is_break_glass then ''break_glass'' else ''external_assertion''),
      ac_assertion_path = path, ac_key_id = ia_key_id a, ac_expires_at = ia_expires_at a,
      ac_is_break_glass = is_break_glass\<rparr>"

definition check_validity :: "identity_world \<Rightarrow> identity_assertion \<Rightarrow> identity_error + unit" where
  "check_validity W a =
    (let now = iw_now W; skew = ic_max_clock_skew_seconds (iw_config W) in
     case ia_issued_at a of
       Naive \<Rightarrow> Inl (Raised ''TypeError'')
     | Aware issued \<Rightarrow>
         if issued - skew > now then Inl (Identity ''IDENTITY_NOT_YET_VALID'' ''assertion not yet valid'')
         else case ia_expires_at a of
                Naive \<Rightarrow> Inl (Raised ''TypeError'')
              | Aware expires \<Rightarrow>
                  if expires + skew < now then Inl (Identity ''IDENTITY_EXPIRED'' ''assertion expired'')
                  else Inr ())"

definition load_assertion :: "identity_world \<Rightarrow> string \<Rightarrow> bool \<Rightarrow> identity_error + actor_context" where
  "load_assertion W path is_break_glass =
    (case iw_files W path of
       Absent \<Rightarrow> Inl (Raised ''FileNotFoundError'')
     | BadJson _ \<Rightarrow> Inl (Raised ''JSONDecodeError'')
     | Parsed payload \<Rightarrow>
         let raw_payload = filter (\<lambda>kv. fst kv \<noteq> ''signature'') payload;
             signature = py_str (dict_get_default payload ''signature'' (PStr []))
         in case assertion_validate W payload of
              None \<Rightarrow> Inl (Raised ''ValidationError'')
            | Some a \<Rightarrow>
                (case identity_trusted_key W (ia_key_id a) of
                   Inl e \<Rightarrow> Inl e
                 | Inr key \<Rightarrow>
                     let expected_hash = canonical_payload_hash (k_hash (iw_keyring W)) raw_payload None
                     in if \<not> k_verify (iw_keyring W) (tkey_public_key key)
                              (if signature \<noteq> [] then signature else ia_signature a) expected_hash
                        then Inl (Identity ''IDENTITY_SIGNATURE_INVALID'' ''assertion signature invalid'')
                        else case check_validity W a of
                               Inl e \<Rightarrow> Inl e
                             | Inr _ \<Rightarrow> Inr (assertion_actor path is_break_glass a)))"

text \<open>The environment given, or that of the process when it is absent or empty.\<close>

definition env_map :: "identity_world \<Rightarrow> (string \<times> string) list option \<Rightarrow> (string \<times> string) list" where
  "env_map W env = (case env of None \<Rightarrow> iw_environ W | Some [] \<Rightarrow> iw_environ W | Some e \<Rightarrow> e)"

definition assertion_exists :: "identity_world \<Rightarrow> string \<Rightarrow> bool" where
  "assertion_exists W path \<longleftrightarrow> iw_files W path \<noteq> Absent"

definition env_path :: "(string \<times> string) list \<Rightarrow> string \<Rightarrow> bool \<Rightarrow> (string \<times> bool) list" where
  "env_path e name is_break_glass = (if opt_truthy (map_of e name) then [(the (map_of e name), is_break_glass)] else [])"

definition assertion_paths :: "identity_world \<Rightarrow> (string \<times> string) list \<Rightarrow> (string \<times> bool) list" where
  "assertion_paths W e =
    (let c = iw_config W; configured = py_strip (ic_assertion_path c) in
     env_path e ''IMPERAOS_IDENTITY_ASSERTION_PATH'' False
     @ (if configured \<noteq> [] \<and> assertion_exists W configured then [(configured, False)] else [])
     @ (if ic_allow_break_glass c
        then env_path e ''IMPERAOS_BREAK_GLASS_ASSERTION_PATH'' True
             @ (if assertion_exists W (ic_break_glass_assertion_path c)
                then [(ic_break_glass_assertion_path c, True)] else [])
        else []))"

definition path_name :: "string \<Rightarrow> string" where
  "path_name p = rev (takeWhile (\<lambda>c. c \<noteq> CHR ''/'') (rev p))"

text \<open>The loop over the paths: the first assertion that loads; an exception of another class escapes.\<close>

fun try_assertions :: "identity_world \<Rightarrow> (string \<times> bool) list \<Rightarrow> string list \<Rightarrow> identity_error + actor_context" where
  "try_assertions W [] errors =
     (if errors \<noteq> [] then Inl (Identity ''IDENTITY_INVALID'' (py_join ''; '' errors))
      else Inl (Identity ''IDENTITY_REQUIRED'' ''no verified identity assertion available''))"
| "try_assertions W ((path, is_break_glass) # rest) errors =
     (case load_assertion W path is_break_glass of
        Inr actor \<Rightarrow> Inr actor
      | Inl (Identity code _) \<Rightarrow> try_assertions W rest (errors @ [path_name path @ '':'' @ code])
      | Inl (Raised e) \<Rightarrow> Inl (Raised e))"

definition resolve_actor_context ::
  "identity_world \<Rightarrow> (string \<times> string) list option \<Rightarrow> identity_error + actor_context option" where
  "resolve_actor_context W env =
    (if \<not> ic_enabled (iw_config W) then Inr None
     else case try_assertions W (assertion_paths W (env_map W env)) [] of
            Inl e \<Rightarrow> Inl e
          | Inr actor \<Rightarrow> Inr (Some actor))"

section \<open>Permissions\<close>

definition permission_enforced :: "identity_config \<Rightarrow> bool" where
  "permission_enforced c \<longleftrightarrow> ic_enabled c \<and> (ic_profile_name c = ''enterprise'' \<or> ic_required_for_mutations c)"

definition require_permission ::
  "identity_world \<Rightarrow> string \<Rightarrow> (string \<times> string) list option \<Rightarrow> identity_error + actor_context option" where
  "require_permission W permission env =
    (if \<not> permission_enforced (iw_config W) then Inr None
     else case resolve_actor_context W env of
            Inl e \<Rightarrow> Inl e
          | Inr None \<Rightarrow> Inl (Raised ''AttributeError'')
          | Inr (Some actor) \<Rightarrow>
              if permission \<notin> set (ac_permissions actor)
              then Inl (Identity ''RBAC_DENY''
                     (''actor '' @ in_quotes (ac_actor_id actor) @ '' lacks permission '' @ in_quotes permission))
              else Inr (Some actor))"

text \<open>\<open>actor.model_dump(mode="json")\<close>, and the two reports; an exception that is not an identity error
  escapes, as does the one of dumping an actor that is \<open>None\<close>.\<close>

definition actor_dump :: "identity_world \<Rightarrow> actor_context \<Rightarrow> pydict" where
  "actor_dump W a =
     [(''actor_id'', PStr (ac_actor_id a)), (''subject'', PStr (ac_subject a)), (''issuer'', PStr (ac_issuer a)),
      (''roles'', PList (map PStr (ac_roles a))), (''permissions'', PList (map PStr (ac_permissions a))),
      (''auth_mode'', PStr (ac_auth_mode a)), (''assertion_path'', PStr (ac_assertion_path a)),
      (''key_id'', PStr (ac_key_id a)), (''expires_at'', PStr (iw_iso W (ac_expires_at a))),
      (''is_break_glass'', PBool (ac_is_break_glass a))]"

definition describe_actor :: "identity_world \<Rightarrow> (string \<times> string) list option \<Rightarrow> string + pydict" where
  "describe_actor W env =
    (let enabled = PBool (ic_enabled (iw_config W)) in
     case resolve_actor_context W env of
       Inl (Identity code message) \<Rightarrow>
         Inr [(''identity_enabled'', enabled), (''verified'', PBool False), (''error_code'', PStr code),
              (''error'', PStr message)]
     | Inl (Raised e) \<Rightarrow> Inl e
     | Inr None \<Rightarrow> Inl ''AttributeError''
     | Inr (Some actor) \<Rightarrow>
         Inr [(''identity_enabled'', enabled), (''verified'', PBool True), (''actor'', PDict (actor_dump W actor))])"

definition check_permission :: "identity_world \<Rightarrow> string \<Rightarrow> (string \<times> string) list option \<Rightarrow> string + pydict" where
  "check_permission W permission env =
    (case require_permission W permission env of
       Inl (Identity code message) \<Rightarrow>
         Inr [(''permission'', PStr permission), (''allowed'', PBool False), (''error_code'', PStr code),
              (''error'', PStr message)]
     | Inl (Raised e) \<Rightarrow> Inl e
     | Inr None \<Rightarrow> Inr [(''permission'', PStr permission), (''allowed'', PBool True), (''actor'', PNone)]
     | Inr (Some actor) \<Rightarrow>
         Inr [(''permission'', PStr permission), (''allowed'', PBool True), (''actor'', PDict (actor_dump W actor))])"

end
