(* ===== verification/Identity_Props.thy ===== *)
theory Identity_Props imports Identity begin

text \<open>
  Properties of identity resolution: on what an actor is trusted, and what the code does with an
  assertion it cannot read.
\<close>

lemma trusted_key_listed:
  assumes "load_trusted_keys K kid = Some key"
  shows "key \<in> set (k_trusted K) \<and> tkey_key_id key = kid \<and> kid \<notin> set (k_revoked K) \<and> tkey_state key \<noteq> ''revoked''"
proof -
  let ?f = "\<lambda>keys t. if tkey_key_id t \<in> set (k_revoked K) \<or> tkey_state t = ''revoked'' then keys else keys(tkey_key_id t \<mapsto> t)"
  have "foldl ?f m ts kid = Some key \<Longrightarrow> m kid = Some key \<or>
      key \<in> set ts \<and> tkey_key_id key = kid \<and> kid \<notin> set (k_revoked K) \<and> tkey_state key \<noteq> ''revoked''" for m ts
  proof (induction ts arbitrary: m)
    case (Cons t ts)
    from Cons.prems have "foldl ?f (?f m t) ts kid = Some key" by simp
    from Cons.IH [OF this] show ?case by (auto split: if_splits)
  qed simp
  from this [of Map.empty "k_trusted K"] assms show ?thesis by (simp add: load_trusted_keys_def)
qed

lemma check_validity_Inr:
  "check_validity W a = Inr u \<Longrightarrow> \<exists>i e. ia_issued_at a = Aware i \<and> ia_expires_at a = Aware e \<and>
     i - ic_max_clock_skew_seconds (iw_config W) \<le> iw_now W \<and> iw_now W \<le> e + ic_max_clock_skew_seconds (iw_config W)"
  by (auto simp: check_validity_def Let_def split: instant.splits if_splits)

lemma assertion_signature:
  assumes "assertion_validate W d = Some a"
  shows "py_str (dict_get_default d ''signature'' (PStr [])) = ia_signature a"
proof -
  have "text_of d ''signature'' None = Some (ia_signature a)"
    using assms unfolding assertion_validate_def by (simp split: option.splits) (metis identity_assertion.select_convs(9))
  then show ?thesis by (simp add: text_of_def dict_get_default_def split: option.splits pyval.splits)
qed

text \<open>What an assertion that loads establishes.\<close>

definition vouched :: "identity_world \<Rightarrow> string \<Rightarrow> identity_assertion \<Rightarrow> bool" where
  "vouched W path a \<longleftrightarrow> (\<exists>doc key i e. iw_files W path = Parsed doc \<and> assertion_validate W doc = Some a \<and>
     key \<in> set (k_trusted (iw_keyring W)) \<and> tkey_key_id key = ia_key_id a \<and>
     ia_key_id a \<notin> set (k_revoked (iw_keyring W)) \<and> tkey_state key \<noteq> ''revoked'' \<and>
     k_verify (iw_keyring W) (tkey_public_key key) (ia_signature a)
       (canonical_payload_hash (k_hash (iw_keyring W)) (filter (\<lambda>kv. fst kv \<noteq> ''signature'') doc) None) \<and>
     ia_issued_at a = Aware i \<and> ia_expires_at a = Aware e \<and>
     i - ic_max_clock_skew_seconds (iw_config W) \<le> iw_now W \<and> iw_now W \<le> e + ic_max_clock_skew_seconds (iw_config W))"

lemma load_assertion_Inr:
  assumes "load_assertion W path bg = Inr actor"
  shows "\<exists>a. vouched W path a \<and> actor = assertion_actor path bg a"
proof -
  obtain doc a key where d: "iw_files W path = Parsed doc" "assertion_validate W doc = Some a"
    "load_trusted_keys (iw_keyring W) (ia_key_id a) = Some key"
    "k_verify (iw_keyring W) (tkey_public_key key) (ia_signature a)
       (canonical_payload_hash (k_hash (iw_keyring W)) (filter (\<lambda>kv. fst kv \<noteq> ''signature'') doc) None)"
    "check_validity W a = Inr ()" "actor = assertion_actor path bg a"
    using assms by (auto simp: load_assertion_def Let_def identity_trusted_key_def assertion_signature
        split: artifact_file.splits option.splits sum.splits if_splits)
  then show ?thesis using trusted_key_listed [OF d(3)] check_validity_Inr [OF d(5)] unfolding vouched_def by blast
qed

lemma try_assertions_Inr:
  "try_assertions W ps errors = Inr actor \<Longrightarrow> \<exists>(path, bg) \<in> set ps. load_assertion W path bg = Inr actor"
  by (induction ps arbitrary: errors) (auto split: sum.splits identity_error.splits if_splits)

lemma break_glass_paths:
  "(path, True) \<in> set (assertion_paths W e) \<Longrightarrow> ic_allow_break_glass (iw_config W)"
  by (auto simp: assertion_paths_def env_path_def Let_def split: if_splits)

lemma permissions_of_role:
  "p \<in> set (identity_permissions_for_roles roles) \<longleftrightarrow>
     (\<exists>role \<in> set roles. \<exists>ps. map_of identity_role_permissions role = Some ps \<and> p \<in> set ps)"
proof -
  have "p \<in> set (case m of None \<Rightarrow> [] | Some ps \<Rightarrow> ps) \<longleftrightarrow> (\<exists>ps. m = Some ps \<and> p \<in> set ps)" for m
    by (cases m) auto
  then show ?thesis by (simp add: identity_permissions_for_roles_def)
qed

text \<open>
  C28: A permission check that passes with an actor rests on a file it was told to read that holds an
  assertion signed under a trusted key that is not revoked, valid now up to the clock skew, and whose
  roles or own list give the permission; break-glass actors only where the configuration allows them.
  It passes without an actor exactly when permissions are not enforced.
\<close>

theorem permission_sound:
  assumes "require_permission W permission env = Inr answer"
  shows "case answer of
      None \<Rightarrow> \<not> permission_enforced (iw_config W)
    | Some actor \<Rightarrow> permission_enforced (iw_config W) \<and>
        (\<exists>path bg a. (path, bg) \<in> set (assertion_paths W (env_map W env)) \<and> vouched W path a \<and>
           actor = assertion_actor path bg a \<and> (bg \<longrightarrow> ic_allow_break_glass (iw_config W)) \<and>
           (permission \<in> set (ia_permissions a) \<or>
            (\<exists>role \<in> set (ia_roles a). \<exists>ps. map_of identity_role_permissions role = Some ps \<and> permission \<in> set ps)))"
proof (cases answer)
  case None
  then show ?thesis using assms
    by (auto simp: require_permission_def split: if_splits sum.splits option.splits)
next
  case (Some actor)
  then have e: "permission_enforced (iw_config W)" "resolve_actor_context W env = Inr (Some actor)"
    "permission \<in> set (ac_permissions actor)"
    using assms by (auto simp: require_permission_def split: if_splits sum.splits option.splits)
  then have "try_assertions W (assertion_paths W (env_map W env)) [] = Inr actor"
    by (auto simp: resolve_actor_context_def split: if_splits sum.splits)
  from try_assertions_Inr [OF this] obtain path bg where p: "(path, bg) \<in> set (assertion_paths W (env_map W env))"
    "load_assertion W path bg = Inr actor" by blast
  from load_assertion_Inr [OF p(2)] obtain a where a: "vouched W path a" "actor = assertion_actor path bg a" by blast
  have "permission \<in> set (ia_permissions a) \<or> permission \<in> set (identity_permissions_for_roles (ia_roles a))"
    using e(3) a(2) by (auto simp: assertion_actor_def)
  moreover have "bg \<longrightarrow> ic_allow_break_glass (iw_config W)" using p(1) break_glass_paths by (cases bg) auto
  ultimately have "\<exists>path bg a. (path, bg) \<in> set (assertion_paths W (env_map W env)) \<and> vouched W path a \<and>
      actor = assertion_actor path bg a \<and> (bg \<longrightarrow> ic_allow_break_glass (iw_config W)) \<and>
      (permission \<in> set (ia_permissions a) \<or>
       (\<exists>role \<in> set (ia_roles a). \<exists>ps. map_of identity_role_permissions role = Some ps \<and> permission \<in> set ps))"
    using p(1) a unfolding permissions_of_role by blast
  then show ?thesis using Some e(1) by simp
qed

text \<open>A file that does not parse is not an identity error: the other assertions are not tried.\<close>

lemma unreadable_assertion_escapes:
  "iw_files W path = BadJson message \<Longrightarrow> try_assertions W ((path, bg) # rest) errors = Inl (Raised ''JSONDecodeError'')"
  by (simp add: load_assertion_def)

text \<open>The configured mode of identity is not read: a break-glass assertion is one whatever the mode.\<close>

lemma break_glass_same_permissions: "ac_permissions (assertion_actor path True a) = ac_permissions (assertion_actor path False a)"
  by (simp add: assertion_actor_def)

section \<open>An example of an assertion\<close>

definition demo_assertion :: pydict where
  "demo_assertion = [(''actor_id'', PStr ''ada''), (''subject'', PStr ''ada@corp''), (''issuer'', PStr ''corp''),
     (''roles'', PList [PStr ''operator'']), (''issued_at'', PInt 10), (''expires_at'', PInt 100),
     (''key_id'', PStr ''k1''), (''signature'', PStr ''sig'')]"

definition demo_identity :: identity_world where
  "demo_identity = \<lparr>iw_config = \<lparr>ic_enabled = True, ic_required_for_mutations = True, ic_assertion_path = ''a.json'',
       ic_break_glass_assertion_path = ''b.json'', ic_allow_break_glass = False, ic_max_clock_skew_seconds = 60,
       ic_profile_name = ''enterprise''\<rparr>,
     iw_environ = [], iw_files = (\<lambda>p. if p = ''a.json'' then Parsed demo_assertion else Absent), iw_now = 50,
     iw_keyring = \<lparr>k_hash = (\<lambda>_. replicate 64 (CHR ''0'')), k_provider = ''disabled'', k_private = None, k_manager = None,
       k_current_key_id = None, k_allow_env_hmac = False, k_env_key = [],
       k_trusted = [\<lparr>tkey_key_id = ''k1'', tkey_public_key = ''pk'', tkey_state = ''active''\<rparr>], k_revoked = [],
       k_sign = (\<lambda>k m. ''sig''), k_verify = (\<lambda>k s m. s = ''sig''), k_base64 = Some\<rparr>,
     iw_instant = (\<lambda>v. case v of PInt i \<Rightarrow> Some (Aware i) | _ \<Rightarrow> None), iw_iso = (\<lambda>i. ''t'')\<rparr>"

definition demo_actor :: actor_context where
  "demo_actor = \<lparr>ac_actor_id = ''ada'', ac_subject = ''ada@corp'', ac_issuer = ''corp'', ac_roles = [''operator''],
     ac_permissions = sort (remdups (identity_permissions_for_roles [''operator''])), ac_auth_mode = ''external_assertion'',
     ac_assertion_path = ''a.json'', ac_key_id = ''k1'', ac_expires_at = Aware 100, ac_is_break_glass = False\<rparr>"

lemma demo_resolved: "resolve_actor_context demo_identity None = Inr (Some demo_actor)"
proof -
  have p: "py_strip ''a.json'' = ''a.json''" by code_simp
  have l: "load_assertion demo_identity ''a.json'' False = Inr demo_actor"
    by (simp add: load_assertion_def demo_identity_def demo_assertion_def assertion_validate_def text_of_def text_list_of_def
        instant_of_def identity_trusted_key_def load_trusted_keys_def dict_get_default_def check_validity_def assertion_actor_def demo_actor_def)
  have "assertion_paths demo_identity [] = [(''a.json'', False)]"
    using p by (simp add: assertion_paths_def demo_identity_def assertion_exists_def env_path_def)
  then show ?thesis using l by (simp add: resolve_actor_context_def env_map_def demo_identity_def [THEN arg_cong [where f = iw_config]]
        demo_identity_def [THEN arg_cong [where f = iw_environ]])
qed

theorem permission_sound_witness:
  "\<exists>path bg a. vouched demo_identity path a \<and> demo_actor = assertion_actor path bg a"
proof -
  have "''runtime.run'' \<in> set (ac_permissions demo_actor)"
    by (simp add: demo_actor_def identity_permissions_for_roles_def identity_role_permissions_def)
  then have "require_permission demo_identity ''runtime.run'' None = Inr (Some demo_actor)"
    by (simp add: require_permission_def demo_resolved) (simp add: demo_identity_def permission_enforced_def)
  from permission_sound [OF this] show ?thesis by auto
qed

end
