(* ===== verification/Enterprise_Models.thy ===== *)
theory Enterprise_Models imports Identity Workspace_Models begin

text \<open>
  The documents of an enterprise workspace, \<open>imperaos/control_plane/enterprise_workspace.py\<close> and the
  models of \<open>imperaos/control_plane/agent_enrollment.py\<close>: records, validators (\<open>None\<close> is a
  \<open>ValidationError\<close>) and the JSON documents they are stored as.

  \<^item> \<open>enrollment_env\<close> holds what an operation reads besides the store: the digest \<open>H\<close>, the text
    \<open>isoformat()\<close> gives a time, and the clock, of which an operation takes its \<open>n\<close>-th reading as
    \<open>en_clock n\<close>.  A time is in seconds.
\<close>

record enrollment_env =
  en_hash :: "string \<Rightarrow> string"
  en_iso :: "int \<Rightarrow> string"
  en_clock :: "nat \<Rightarrow> int"

section \<open>Identifiers\<close>

definition opt_hex64 :: "string option \<Rightarrow> bool" where
  "opt_hex64 x = (case x of None \<Rightarrow> True | Some s \<Rightarrow> is_hex64 s)"

text \<open>\<open>None\<close>: the reference is empty, which raises \<open>ValueError\<close>.\<close>

definition hash_identity_ref :: "(string \<Rightarrow> string) \<Rightarrow> string \<Rightarrow> string option" where
  "hash_identity_ref H v =
     (let normalized = py_strip v in
      if is_hex64 normalized then Some normalized else if normalized = [] then None else Some (H normalized))"

definition enterprise_id :: "(string \<Rightarrow> string) \<Rightarrow> string \<Rightarrow> string list \<Rightarrow> string" where
  "enterprise_id H prefix parts = prefix @ ''-'' @ take 24 (H (py_join ''|'' parts))"

definition make_membership_id :: "(string \<Rightarrow> string) \<Rightarrow> string \<Rightarrow> string \<Rightarrow> string" where
  "make_membership_id H workspace_id principal_id = enterprise_id H ''membership'' [workspace_id, principal_id]"

section \<open>Enumerations\<close>

datatype organization_status = OrgActive | OrgBlocked | OrgArchived

datatype enterprise_workspace_status = EntActive | EntSetupRequired | EntBlocked | EntArchived

datatype deployment_environment = EnvDev | EnvStaging | EnvProduction | EnvPilot

datatype memory_authority_mode = LocalAuthority | AuthorityDisabled

datatype enterprise_principal_type = HumanUser | ServiceAgent | ExternalAgent | DeviceHost | BreakGlass

datatype enterprise_principal_status = EpActive | EpDisabled | EpRevoked | EpPending

datatype enterprise_membership_status = EmActive | EmSuspended | EmRevoked

datatype device_platform = Linux | MacOS | Windows | UnknownPlatform

datatype device_status = DevPending | DevActive | DevSuspended | DevRevoked

datatype token_status = TokenActive | TokenUsed | TokenRevoked | TokenExpired

datatype enrollment_request_status = ReqPending | ReqApproved | ReqRejected | ReqExpired

datatype enrolled_status = EnrPending | EnrActive | EnrSuspended | EnrRevoked

datatype scope_mode = ModeRead | ModeWrite | ModeProposalOnly | ModeRequiresApproval

fun organization_status_value :: "organization_status \<Rightarrow> string" where
  "organization_status_value OrgActive = ''active''"
| "organization_status_value OrgBlocked = ''blocked''"
| "organization_status_value OrgArchived = ''archived''"

fun enterprise_workspace_status_value :: "enterprise_workspace_status \<Rightarrow> string" where
  "enterprise_workspace_status_value EntActive = ''active''"
| "enterprise_workspace_status_value EntSetupRequired = ''setup_required''"
| "enterprise_workspace_status_value EntBlocked = ''blocked''"
| "enterprise_workspace_status_value EntArchived = ''archived''"

fun environment_value :: "deployment_environment \<Rightarrow> string" where
  "environment_value EnvDev = ''dev''"
| "environment_value EnvStaging = ''staging''"
| "environment_value EnvProduction = ''production''"
| "environment_value EnvPilot = ''pilot''"

fun authority_mode_value :: "memory_authority_mode \<Rightarrow> string" where
  "authority_mode_value LocalAuthority = ''local_authority''"
| "authority_mode_value AuthorityDisabled = ''disabled''"

fun enterprise_principal_type_value :: "enterprise_principal_type \<Rightarrow> string" where
  "enterprise_principal_type_value HumanUser = ''human_user''"
| "enterprise_principal_type_value ServiceAgent = ''service_agent''"
| "enterprise_principal_type_value ExternalAgent = ''external_agent''"
| "enterprise_principal_type_value DeviceHost = ''device_host''"
| "enterprise_principal_type_value BreakGlass = ''break_glass''"

fun enterprise_principal_status_value :: "enterprise_principal_status \<Rightarrow> string" where
  "enterprise_principal_status_value EpActive = ''active''"
| "enterprise_principal_status_value EpDisabled = ''disabled''"
| "enterprise_principal_status_value EpRevoked = ''revoked''"
| "enterprise_principal_status_value EpPending = ''pending''"

fun enterprise_membership_status_value :: "enterprise_membership_status \<Rightarrow> string" where
  "enterprise_membership_status_value EmActive = ''active''"
| "enterprise_membership_status_value EmSuspended = ''suspended''"
| "enterprise_membership_status_value EmRevoked = ''revoked''"

fun platform_value :: "device_platform \<Rightarrow> string" where
  "platform_value Linux = ''linux''"
| "platform_value MacOS = ''macos''"
| "platform_value Windows = ''windows''"
| "platform_value UnknownPlatform = ''unknown''"

definition platform_of :: "string \<Rightarrow> device_platform option" where
  "platform_of s = List.find (\<lambda>p. platform_value p = s) [Linux, MacOS, Windows, UnknownPlatform]"

fun device_status_value :: "device_status \<Rightarrow> string" where
  "device_status_value DevPending = ''pending''"
| "device_status_value DevActive = ''active''"
| "device_status_value DevSuspended = ''suspended''"
| "device_status_value DevRevoked = ''revoked''"

fun token_status_value :: "token_status \<Rightarrow> string" where
  "token_status_value TokenActive = ''active''"
| "token_status_value TokenUsed = ''used''"
| "token_status_value TokenRevoked = ''revoked''"
| "token_status_value TokenExpired = ''expired''"

fun request_status_value :: "enrollment_request_status \<Rightarrow> string" where
  "request_status_value ReqPending = ''pending_approval''"
| "request_status_value ReqApproved = ''approved''"
| "request_status_value ReqRejected = ''rejected''"
| "request_status_value ReqExpired = ''expired''"

fun enrolled_status_value :: "enrolled_status \<Rightarrow> string" where
  "enrolled_status_value EnrPending = ''pending_approval''"
| "enrolled_status_value EnrActive = ''active''"
| "enrolled_status_value EnrSuspended = ''suspended''"
| "enrolled_status_value EnrRevoked = ''revoked''"

fun scope_mode_value :: "scope_mode \<Rightarrow> string" where
  "scope_mode_value ModeRead = ''read''"
| "scope_mode_value ModeWrite = ''write''"
| "scope_mode_value ModeProposalOnly = ''proposal_only''"
| "scope_mode_value ModeRequiresApproval = ''requires_approval''"

section \<open>Records\<close>

record enterprise_organization =
  eo_organization_id :: string
  eo_display_name :: string
  eo_status :: organization_status
  eo_created_by :: string
  eo_created_at :: int
  eo_updated_at :: int

record enterprise_workspace =
  ew_workspace_id :: string
  ew_organization_id :: string
  ew_display_name :: string
  ew_environment :: deployment_environment
  ew_status :: enterprise_workspace_status
  ew_default_policy_pack_id :: "string option"
  ew_memory_authority_mode :: memory_authority_mode
  ew_provider_policy_profile :: string
  ew_created_by :: string
  ew_created_at :: int
  ew_updated_at :: int

record enterprise_principal =
  ep_principal_id :: string
  ep_principal_type :: enterprise_principal_type
  ep_display_name :: string
  ep_status :: enterprise_principal_status
  ep_external_subject_ref_hash :: "string option"
  ep_issuer_hash :: "string option"
  ep_created_at :: int
  ep_last_seen_at :: "int option"

record enterprise_membership =
  em_membership_id :: string
  em_workspace_id :: string
  em_principal_id :: string
  em_roles :: "string list"
  em_status :: enterprise_membership_status
  em_granted_by :: string
  em_granted_at :: int
  em_expires_at :: "int option"

record enterprise_device =
  ed_device_id :: string
  ed_workspace_id :: string
  ed_principal_id :: string
  ed_display_name :: string
  ed_platform :: device_platform
  ed_host_fingerprint_hash :: "string option"
  ed_status :: device_status
  ed_created_at :: int
  ed_last_seen_at :: "int option"

record enrollment_scope =
  es_scope :: string
  es_mode :: scope_mode

record enrollment_token =
  et_token_id :: string
  et_token_hash :: string
  et_organization_id :: string
  et_workspace_id :: string
  et_intended_agent_id :: "string option"
  et_intended_device_label :: string
  et_allowed_principal_type :: enterprise_principal_type
  et_allowed_capabilities :: "string list"
  et_policy_profile :: string
  et_memory_scopes :: "enrollment_scope list"
  et_created_by :: string
  et_created_at :: int
  et_expires_at :: int
  et_use_count :: nat
  et_status :: token_status

record enrollment_request =
  nr_request_id :: string
  nr_token_id :: string
  nr_token_proof_hash :: string
  nr_workspace_id :: string
  nr_agent_id :: string
  nr_agent_display_name :: string
  nr_device_display_name :: string
  nr_platform :: device_platform
  nr_capabilities :: "string list"
  nr_host_fingerprint_hash :: "string option"
  nr_requested_at :: int
  nr_status :: enrollment_request_status
  nr_idempotency_key :: string

record enrolled_agent =
  ea_enrollment_id :: string
  ea_workspace_id :: string
  ea_agent_id :: string
  ea_principal_id :: string
  ea_device_id :: string
  ea_token_id :: string
  ea_status :: enrolled_status
  ea_capabilities :: "string list"
  ea_policy_profile :: string
  ea_created_at :: int
  ea_last_seen_at :: "int option"

section \<open>Validators\<close>

text \<open>Roles and capabilities are stored sorted and without duplicates, and are not empty.\<close>

definition sorted_set :: "string list \<Rightarrow> string list" where
  "sorted_set xs = sort (remdups xs)"

definition validate_organization :: "enterprise_organization \<Rightarrow> enterprise_organization option" where
  "validate_organization v =
    (if is_safe_id (eo_organization_id v) \<and> is_safe_id (eo_created_by v) \<and> between 1 160 (eo_display_name v)
     then Some v else None)"

definition validate_enterprise_workspace :: "enterprise_workspace \<Rightarrow> enterprise_workspace option" where
  "validate_enterprise_workspace v =
    (if is_safe_id (ew_workspace_id v) \<and> is_safe_id (ew_organization_id v) \<and> is_safe_id (ew_created_by v) \<and>
        opt_safe_id (ew_default_policy_pack_id v) \<and> between 1 160 (ew_display_name v) \<and>
        ew_provider_policy_profile v \<noteq> []
     then Some v else None)"

definition validate_enterprise_principal :: "enterprise_principal \<Rightarrow> enterprise_principal option" where
  "validate_enterprise_principal v =
    (if is_safe_id (ep_principal_id v) \<and> between 1 160 (ep_display_name v) \<and>
        opt_hex64 (ep_external_subject_ref_hash v) \<and> opt_hex64 (ep_issuer_hash v)
     then Some v else None)"

definition validate_enterprise_membership :: "enterprise_membership \<Rightarrow> enterprise_membership option" where
  "validate_enterprise_membership v =
    (if is_safe_id (em_membership_id v) \<and> is_safe_id (em_workspace_id v) \<and> is_safe_id (em_principal_id v) \<and>
        is_safe_id (em_granted_by v) \<and> em_roles v \<noteq> [] \<and> list_all is_safe_id (em_roles v)
     then Some (v\<lparr>em_roles := sorted_set (em_roles v)\<rparr>) else None)"

definition validate_device :: "enterprise_device \<Rightarrow> enterprise_device option" where
  "validate_device v =
    (if is_safe_id (ed_device_id v) \<and> is_safe_id (ed_workspace_id v) \<and> is_safe_id (ed_principal_id v) \<and>
        between 1 160 (ed_display_name v) \<and> opt_hex64 (ed_host_fingerprint_hash v)
     then Some v else None)"

definition is_token_principal_type :: "enterprise_principal_type \<Rightarrow> bool" where
  "is_token_principal_type t \<longleftrightarrow> t = ServiceAgent \<or> t = ExternalAgent"

definition validate_token :: "enrollment_token \<Rightarrow> enrollment_token option" where
  "validate_token v =
    (if is_safe_id (et_token_id v) \<and> is_safe_id (et_organization_id v) \<and> is_safe_id (et_workspace_id v) \<and>
        opt_safe_id (et_intended_agent_id v) \<and> is_safe_id (et_created_by v) \<and> is_hex64 (et_token_hash v) \<and>
        between 1 160 (et_intended_device_label v) \<and> is_token_principal_type (et_allowed_principal_type v) \<and>
        et_allowed_capabilities v \<noteq> [] \<and> list_all is_safe_id (et_allowed_capabilities v) \<and>
        et_policy_profile v \<noteq> [] \<and> et_use_count v \<le> 1 \<and>
        list_all (\<lambda>s. between 1 80 (es_scope s)) (et_memory_scopes v)
     then Some (v\<lparr>et_allowed_capabilities := sorted_set (et_allowed_capabilities v)\<rparr>) else None)"

definition validate_request :: "enrollment_request \<Rightarrow> enrollment_request option" where
  "validate_request v =
    (if is_safe_id (nr_request_id v) \<and> is_safe_id (nr_token_id v) \<and> is_safe_id (nr_workspace_id v) \<and>
        is_safe_id (nr_agent_id v) \<and> is_hex64 (nr_token_proof_hash v) \<and>
        between 1 160 (nr_agent_display_name v) \<and> between 1 160 (nr_device_display_name v) \<and>
        nr_capabilities v \<noteq> [] \<and> list_all is_safe_id (nr_capabilities v) \<and>
        opt_hex64 (nr_host_fingerprint_hash v) \<and> between 8 160 (nr_idempotency_key v)
     then Some (v\<lparr>nr_capabilities := sorted_set (nr_capabilities v)\<rparr>) else None)"

definition validate_enrolled :: "enrolled_agent \<Rightarrow> enrolled_agent option" where
  "validate_enrolled v =
    (if is_safe_id (ea_enrollment_id v) \<and> is_safe_id (ea_workspace_id v) \<and> is_safe_id (ea_agent_id v) \<and>
        is_safe_id (ea_principal_id v) \<and> is_safe_id (ea_device_id v) \<and> is_safe_id (ea_token_id v) \<and>
        ea_capabilities v \<noteq> [] \<and> ea_policy_profile v \<noteq> []
     then Some (v\<lparr>ea_capabilities := sorted_set (ea_capabilities v)\<rparr>) else None)"

section \<open>Documents\<close>

text \<open>\<open>model_dump(mode="json", by_alias=True)\<close>; \<open>j\<close> is the text a JSON document has for a time.\<close>

definition en_json_time :: "enrollment_env \<Rightarrow> int \<Rightarrow> string" where
  "en_json_time E t = json_time (en_iso E t)"

definition pv_instant :: "(int \<Rightarrow> string) \<Rightarrow> int option \<Rightarrow> pyval" where
  "pv_instant j t = pv_of_opt (map_option j t)"

definition organization_dump :: "(int \<Rightarrow> string) \<Rightarrow> enterprise_organization \<Rightarrow> pydict" where
  "organization_dump j v =
    [(''schemaVersion'', PStr ''enterprise-organization/v1''), (''organizationId'', PStr (eo_organization_id v)),
     (''displayName'', PStr (eo_display_name v)), (''status'', PStr (organization_status_value (eo_status v))),
     (''createdByPrincipalId'', PStr (eo_created_by v)), (''createdAtUtc'', PStr (j (eo_created_at v))),
     (''updatedAtUtc'', PStr (j (eo_updated_at v)))]"

definition enterprise_workspace_dump :: "(int \<Rightarrow> string) \<Rightarrow> enterprise_workspace \<Rightarrow> pydict" where
  "enterprise_workspace_dump j v =
    [(''schemaVersion'', PStr ''enterprise-workspace/v1''), (''workspaceId'', PStr (ew_workspace_id v)),
     (''organizationId'', PStr (ew_organization_id v)), (''displayName'', PStr (ew_display_name v)),
     (''environment'', PStr (environment_value (ew_environment v))),
     (''status'', PStr (enterprise_workspace_status_value (ew_status v))),
     (''defaultPolicyPackId'', pv_of_opt (ew_default_policy_pack_id v)),
     (''memoryAuthorityMode'', PStr (authority_mode_value (ew_memory_authority_mode v))),
     (''providerPolicyProfile'', PStr (ew_provider_policy_profile v)), (''evidenceMode'', PStr ''hash_only''),
     (''createdByPrincipalId'', PStr (ew_created_by v)), (''createdAtUtc'', PStr (j (ew_created_at v))),
     (''updatedAtUtc'', PStr (j (ew_updated_at v)))]"

definition enterprise_principal_dump :: "(int \<Rightarrow> string) \<Rightarrow> enterprise_principal \<Rightarrow> pydict" where
  "enterprise_principal_dump j v =
    [(''schemaVersion'', PStr ''enterprise-principal/v1''), (''principalId'', PStr (ep_principal_id v)),
     (''principalType'', PStr (enterprise_principal_type_value (ep_principal_type v))),
     (''displayName'', PStr (ep_display_name v)), (''status'', PStr (enterprise_principal_status_value (ep_status v))),
     (''externalSubjectRefHash'', pv_of_opt (ep_external_subject_ref_hash v)),
     (''issuerHash'', pv_of_opt (ep_issuer_hash v)), (''createdAtUtc'', PStr (j (ep_created_at v))),
     (''lastSeenAtUtc'', pv_instant j (ep_last_seen_at v))]"

definition enterprise_membership_dump :: "(int \<Rightarrow> string) \<Rightarrow> enterprise_membership \<Rightarrow> pydict" where
  "enterprise_membership_dump j v =
    [(''schemaVersion'', PStr ''enterprise-membership/v1''), (''membershipId'', PStr (em_membership_id v)),
     (''workspaceId'', PStr (em_workspace_id v)), (''principalId'', PStr (em_principal_id v)),
     (''roles'', PList (map PStr (em_roles v))), (''status'', PStr (enterprise_membership_status_value (em_status v))),
     (''grantedByPrincipalId'', PStr (em_granted_by v)), (''grantedAtUtc'', PStr (j (em_granted_at v))),
     (''expiresAtUtc'', pv_instant j (em_expires_at v))]"

definition device_dump :: "(int \<Rightarrow> string) \<Rightarrow> enterprise_device \<Rightarrow> pydict" where
  "device_dump j v =
    [(''schemaVersion'', PStr ''enterprise-device/v1''), (''deviceId'', PStr (ed_device_id v)),
     (''workspaceId'', PStr (ed_workspace_id v)), (''principalId'', PStr (ed_principal_id v)),
     (''displayName'', PStr (ed_display_name v)), (''platform'', PStr (platform_value (ed_platform v))),
     (''hostFingerprintHash'', pv_of_opt (ed_host_fingerprint_hash v)),
     (''status'', PStr (device_status_value (ed_status v))), (''createdAtUtc'', PStr (j (ed_created_at v))),
     (''lastSeenAtUtc'', pv_instant j (ed_last_seen_at v))]"

definition token_dump :: "(int \<Rightarrow> string) \<Rightarrow> enrollment_token \<Rightarrow> pydict" where
  "token_dump j v =
    [(''schemaVersion'', PStr ''agent-enrollment-token/v1''), (''tokenId'', PStr (et_token_id v)),
     (''tokenHash'', PStr (et_token_hash v)), (''organizationId'', PStr (et_organization_id v)),
     (''workspaceId'', PStr (et_workspace_id v)), (''intendedAgentId'', pv_of_opt (et_intended_agent_id v)),
     (''intendedDeviceLabel'', PStr (et_intended_device_label v)),
     (''allowedPrincipalType'', PStr (enterprise_principal_type_value (et_allowed_principal_type v))),
     (''allowedCapabilities'', PList (map PStr (et_allowed_capabilities v))),
     (''policyProfile'', PStr (et_policy_profile v)),
     (''memoryScopes'', PList (map (\<lambda>s. PDict [(''scope'', PStr (es_scope s)),
        (''mode'', PStr (scope_mode_value (es_mode s)))]) (et_memory_scopes v))),
     (''createdByPrincipalId'', PStr (et_created_by v)), (''createdAtUtc'', PStr (j (et_created_at v))),
     (''expiresAtUtc'', PStr (j (et_expires_at v))), (''maxUses'', PInt 1), (''useCount'', PInt (int (et_use_count v))),
     (''status'', PStr (token_status_value (et_status v))), (''approvalRequired'', PBool True)]"

definition request_dump :: "(int \<Rightarrow> string) \<Rightarrow> enrollment_request \<Rightarrow> pydict" where
  "request_dump j v =
    [(''schemaVersion'', PStr ''agent-enrollment-request/v1''), (''requestId'', PStr (nr_request_id v)),
     (''tokenId'', PStr (nr_token_id v)), (''tokenProofHash'', PStr (nr_token_proof_hash v)),
     (''workspaceId'', PStr (nr_workspace_id v)), (''agentId'', PStr (nr_agent_id v)),
     (''agentDisplayName'', PStr (nr_agent_display_name v)), (''deviceDisplayName'', PStr (nr_device_display_name v)),
     (''platform'', PStr (platform_value (nr_platform v))), (''capabilities'', PList (map PStr (nr_capabilities v))),
     (''hostFingerprintHash'', pv_of_opt (nr_host_fingerprint_hash v)), (''requestedAtUtc'', PStr (j (nr_requested_at v))),
     (''status'', PStr (request_status_value (nr_status v))), (''idempotencyKey'', PStr (nr_idempotency_key v))]"

definition enrolled_dump :: "(int \<Rightarrow> string) \<Rightarrow> enrolled_agent \<Rightarrow> pydict" where
  "enrolled_dump j v =
    [(''schemaVersion'', PStr ''enrolled-agent/v1''), (''enrollmentId'', PStr (ea_enrollment_id v)),
     (''workspaceId'', PStr (ea_workspace_id v)), (''agentId'', PStr (ea_agent_id v)),
     (''principalId'', PStr (ea_principal_id v)), (''deviceId'', PStr (ea_device_id v)),
     (''tokenId'', PStr (ea_token_id v)), (''status'', PStr (enrolled_status_value (ea_status v))),
     (''capabilities'', PList (map PStr (ea_capabilities v))), (''policyProfile'', PStr (ea_policy_profile v)),
     (''createdAtUtc'', PStr (j (ea_created_at v))), (''lastSeenAtUtc'', pv_instant j (ea_last_seen_at v))]"

end
