(* ===== verification/Enterprise_Rbac.thy ===== *)
theory Enterprise_Rbac imports Enterprise_Models begin

text \<open>
  The roles of an enterprise workspace and what they permit, \<open>imperaos/control_plane/enterprise_rbac.py\<close>.
  A set of permissions is the sorted list without duplicates that the code stores.
\<close>

datatype role_risk = RoleLow | RoleMedium | RoleHigh | RoleCritical

record canonical_role =
  cr_role_id :: string
  cr_label :: string
  cr_risk :: role_risk
  cr_permissions :: "string list"

record permission_decision =
  pd_allowed :: bool
  pd_permission :: string
  pd_roles :: "string list"
  pd_permissions :: "string list"
  pd_reason_code :: string

definition canonical_permissions :: "string list" where
  "canonical_permissions =
     [''workspace.read'', ''workspace.bootstrap'', ''workspace.membership.read'', ''workspace.membership.write'',
      ''workspace.role.read'', ''workspace.role.assign'', ''agent.read'', ''agent.enrollment.create'',
      ''agent.enrollment.revoke'', ''agent.enrollment.import'', ''agent.enrollment.approve'',
      ''agent.enrollment.reject'', ''agent.run'', ''approval.read'', ''approval.decide'', ''approval.execute'',
      ''audit.read'', ''audit.export'', ''replay.verify'', ''policy.read'', ''policy.write'', ''policy.promote'',
      ''memory.read'', ''memory.write'', ''memory.admin'', ''support.export'', ''keys.read'', ''keys.rotate'',
      ''config.read'', ''config.write'']"

definition viewer_permissions :: "string list" where
  "viewer_permissions = [''workspace.read'', ''workspace.role.read'', ''agent.read'', ''audit.read'', ''config.read'']"

definition role_catalog :: "canonical_role list" where
  "role_catalog =
    [\<lparr>cr_role_id = ''viewer'', cr_label = ''Viewer'', cr_risk = RoleLow,
      cr_permissions = sorted_set viewer_permissions\<rparr>,
     \<lparr>cr_role_id = ''operator'', cr_label = ''Operator'', cr_risk = RoleMedium,
      cr_permissions = sorted_set (viewer_permissions @ [''agent.run'', ''memory.read'', ''approval.read''])\<rparr>,
     \<lparr>cr_role_id = ''approver'', cr_label = ''Approver'', cr_risk = RoleMedium,
      cr_permissions = sorted_set (viewer_permissions @ [''approval.decide''])\<rparr>,
     \<lparr>cr_role_id = ''auditor'', cr_label = ''Auditor'', cr_risk = RoleMedium,
      cr_permissions = sorted_set (viewer_permissions @ [''audit.export'', ''replay.verify''])\<rparr>,
     \<lparr>cr_role_id = ''policy_admin'', cr_label = ''Policy Admin'', cr_risk = RoleHigh,
      cr_permissions = sorted_set (viewer_permissions @ [''policy.read'', ''policy.write'', ''policy.promote''])\<rparr>,
     \<lparr>cr_role_id = ''security_admin'', cr_label = ''Security Admin'', cr_risk = RoleHigh,
      cr_permissions = sorted_set (viewer_permissions @ [''audit.export'', ''keys.read'', ''keys.rotate'',
        ''support.export'', ''approval.execute'', ''replay.verify''])\<rparr>,
     \<lparr>cr_role_id = ''platform_admin'', cr_label = ''Platform Admin'', cr_risk = RoleHigh,
      cr_permissions = sorted_set (filter (\<lambda>p. p \<notin> set [''keys.rotate'', ''keys.read'', ''approval.execute'',
        ''audit.export'', ''support.export'']) canonical_permissions)\<rparr>,
     \<lparr>cr_role_id = ''break_glass_admin'', cr_label = ''Break Glass Admin'', cr_risk = RoleCritical,
      cr_permissions = sorted_set canonical_permissions\<rparr>]"

definition role_of :: "string \<Rightarrow> canonical_role option" where
  "role_of role_id = List.find (\<lambda>r. cr_role_id r = role_id) role_catalog"

definition permissions_for_roles :: "string list \<Rightarrow> string list" where
  "permissions_for_roles role_ids =
     concat (map (\<lambda>role_id. case role_of role_id of None \<Rightarrow> [] | Some r \<Rightarrow> cr_permissions r) role_ids)"

definition check_roles_for_permission :: "string list \<Rightarrow> string \<Rightarrow> permission_decision" where
  "check_roles_for_permission role_ids permission =
    (let permissions = permissions_for_roles role_ids;
         known_roles = filter (\<lambda>r. role_of r \<noteq> None) role_ids;
         allowed = (permission \<in> set permissions)
     in \<lparr>pd_allowed = allowed, pd_permission = permission, pd_roles = sorted_set known_roles,
         pd_permissions = sorted_set permissions,
         pd_reason_code = (if allowed then ''WORKSPACE_PERMISSION_ALLOWED'' else ''WORKSPACE_PERMISSION_DENIED'')\<rparr>)"

end
