(* ===== verification/Enterprise_Store.thy ===== *)
theory Enterprise_Store imports Enterprise_Rbac Control_Storage begin

text \<open>
  The store of enterprise documents, \<open>imperaos/control_plane/enterprise_workspace_store.py\<close>: one JSON
  file per document under \<open>enterprise-workspace/\<close>.

  \<^item> A directory is the list of its files, name without \<open>.json\<close> and the document, in the order they
    were written; listing it sorts by file name.
  \<^item> Every file of a directory was written by this store, so it reads back as the document it was
    written for; an id is a file name, so it has no slash.
  \<^item> \<open>write_model\<close> never replaces: a document that is there and differs is a conflict, and stays.
\<close>

record enterprise_state =
  est_organization :: "enterprise_organization option"
  est_workspaces :: "(string \<times> enterprise_workspace) list"
  est_principals :: "(string \<times> enterprise_principal) list"
  est_memberships :: "(string \<times> enterprise_membership) list"
  est_devices :: "(string \<times> enterprise_device) list"
  est_tokens :: "(string \<times> enrollment_token) list"
  est_requests :: "(string \<times> enrollment_request) list"
  est_enrolled :: "(string \<times> enrolled_agent) list"
  est_evidence :: "(string \<times> pydict) list"

definition empty_enterprise :: enterprise_state where
  "empty_enterprise = \<lparr>est_organization = None, est_workspaces = [], est_principals = [], est_memberships = [],
     est_devices = [], est_tokens = [], est_requests = [], est_enrolled = [], est_evidence = []\<rparr>"

section \<open>Files\<close>

datatype write_status = Written | Unchanged | Conflicting

record store_write_result =
  sw_status :: write_status
  sw_path :: string
  sw_existing_hash :: "string option"
  sw_new_hash :: "string option"

definition enterprise_path :: "string \<Rightarrow> string" where
  "enterprise_path relative = ''enterprise-workspace/'' @ relative"

text \<open>\<open>_write_model\<close>, given the document that is there: the answer, and whether the new one is written.\<close>

definition write_answer :: "enrollment_env \<Rightarrow> string \<Rightarrow> pydict option \<Rightarrow> pydict \<Rightarrow> store_write_result" where
  "write_answer E relative existing payload =
    (let new_hash = canonical_json_hash (en_hash E) (PDict payload) in
     case existing of
       None \<Rightarrow> \<lparr>sw_status = Written, sw_path = enterprise_path relative, sw_existing_hash = None, sw_new_hash = Some new_hash\<rparr>
     | Some d \<Rightarrow>
         let existing_hash = canonical_json_hash (en_hash E) (PDict d) in
         \<lparr>sw_status = (if existing_hash = new_hash then Unchanged else Conflicting), sw_path = enterprise_path relative,
          sw_existing_hash = Some existing_hash, sw_new_hash = Some new_hash\<rparr>)"

definition write_model ::
  "enrollment_env \<Rightarrow> ((int \<Rightarrow> string) \<Rightarrow> 'm \<Rightarrow> pydict) \<Rightarrow> string \<Rightarrow> string \<Rightarrow> 'm \<Rightarrow> (string \<times> 'm) list
     \<Rightarrow> (string \<times> 'm) list \<times> store_write_result" where
  "write_model E dump directory name model files =
    (let j = en_json_time E;
         answer = write_answer E (directory @ ''/'' @ name @ ''.json'') (map_option (dump j) (map_of files name)) (dump j model)
     in (if sw_status answer = Written then files @ [(name, model)] else files, answer))"

definition list_models :: "(string \<times> 'm) list \<Rightarrow> 'm list" where
  "list_models files = map snd (sort_key (\<lambda>f. fst f @ ''.json'') files)"

section \<open>Documents\<close>

definition write_organization :: "enrollment_env \<Rightarrow> enterprise_organization \<Rightarrow> enterprise_state \<Rightarrow> enterprise_state \<times> store_write_result" where
  "write_organization E v s =
    (let j = en_json_time E;
         answer = write_answer E ''organization.json'' (map_option (organization_dump j) (est_organization s)) (organization_dump j v)
     in (if sw_status answer = Written then s\<lparr>est_organization := Some v\<rparr> else s, answer))"

definition write_workspace :: "enrollment_env \<Rightarrow> enterprise_workspace \<Rightarrow> enterprise_state \<Rightarrow> enterprise_state \<times> store_write_result" where
  "write_workspace E v s =
    (let (files, answer) = write_model E enterprise_workspace_dump ''workspaces'' (ew_workspace_id v) v (est_workspaces s)
     in (s\<lparr>est_workspaces := files\<rparr>, answer))"

definition write_principal :: "enrollment_env \<Rightarrow> enterprise_principal \<Rightarrow> enterprise_state \<Rightarrow> enterprise_state \<times> store_write_result" where
  "write_principal E v s =
    (let (files, answer) = write_model E enterprise_principal_dump ''principals'' (ep_principal_id v) v (est_principals s)
     in (s\<lparr>est_principals := files\<rparr>, answer))"

definition write_membership :: "enrollment_env \<Rightarrow> enterprise_membership \<Rightarrow> enterprise_state \<Rightarrow> enterprise_state \<times> store_write_result" where
  "write_membership E v s =
    (let (files, answer) = write_model E enterprise_membership_dump ''memberships'' (em_membership_id v) v (est_memberships s)
     in (s\<lparr>est_memberships := files\<rparr>, answer))"

definition write_device :: "enrollment_env \<Rightarrow> enterprise_device \<Rightarrow> enterprise_state \<Rightarrow> enterprise_state \<times> store_write_result" where
  "write_device E v s =
    (let (files, answer) = write_model E device_dump ''devices'' (ed_device_id v) v (est_devices s)
     in (s\<lparr>est_devices := files\<rparr>, answer))"

definition write_enrollment_token :: "enrollment_env \<Rightarrow> enrollment_token \<Rightarrow> enterprise_state \<Rightarrow> enterprise_state \<times> store_write_result" where
  "write_enrollment_token E v s =
    (let (files, answer) = write_model E token_dump ''enrollment-tokens'' (et_token_id v) v (est_tokens s)
     in (s\<lparr>est_tokens := files\<rparr>, answer))"

definition write_enrollment_request :: "enrollment_env \<Rightarrow> enrollment_request \<Rightarrow> enterprise_state \<Rightarrow> enterprise_state \<times> store_write_result" where
  "write_enrollment_request E v s =
    (let (files, answer) = write_model E request_dump ''enrollment-requests'' (nr_request_id v) v (est_requests s)
     in (s\<lparr>est_requests := files\<rparr>, answer))"

definition write_enrolled_agent :: "enrollment_env \<Rightarrow> enrolled_agent \<Rightarrow> enterprise_state \<Rightarrow> enterprise_state \<times> store_write_result" where
  "write_enrolled_agent E v s =
    (let (files, answer) = write_model E enrolled_dump ''enrolled-agents'' (ea_enrollment_id v) v (est_enrolled s)
     in (s\<lparr>est_enrolled := files\<rparr>, answer))"

definition get_enterprise_workspace :: "enterprise_state \<Rightarrow> string \<Rightarrow> enterprise_workspace option" where
  "get_enterprise_workspace s = map_of (est_workspaces s)"

definition get_enterprise_principal :: "enterprise_state \<Rightarrow> string \<Rightarrow> enterprise_principal option" where
  "get_enterprise_principal s = map_of (est_principals s)"

definition get_enterprise_membership :: "enterprise_state \<Rightarrow> string \<Rightarrow> enterprise_membership option" where
  "get_enterprise_membership s = map_of (est_memberships s)"

definition get_device :: "enterprise_state \<Rightarrow> string \<Rightarrow> enterprise_device option" where
  "get_device s = map_of (est_devices s)"

definition get_enrollment_token :: "enterprise_state \<Rightarrow> string \<Rightarrow> enrollment_token option" where
  "get_enrollment_token s = map_of (est_tokens s)"

definition get_enrollment_request :: "enterprise_state \<Rightarrow> string \<Rightarrow> enrollment_request option" where
  "get_enrollment_request s = map_of (est_requests s)"

text \<open>The listings keep the documents of a workspace (and principal) when one is given.\<close>

definition of_key :: "('m \<Rightarrow> string) \<Rightarrow> string option \<Rightarrow> 'm list \<Rightarrow> 'm list" where
  "of_key key wanted xs = (case wanted of None \<Rightarrow> xs | Some k \<Rightarrow> filter (\<lambda>x. key x = k) xs)"

definition list_memberships :: "enterprise_state \<Rightarrow> string option \<Rightarrow> string option \<Rightarrow> enterprise_membership list" where
  "list_memberships s workspace_id principal_id =
     of_key em_principal_id principal_id (of_key em_workspace_id workspace_id (list_models (est_memberships s)))"

definition list_devices :: "enterprise_state \<Rightarrow> string option \<Rightarrow> enterprise_device list" where
  "list_devices s workspace_id = of_key ed_workspace_id workspace_id (list_models (est_devices s))"

definition list_enrollment_tokens :: "enterprise_state \<Rightarrow> string option \<Rightarrow> enrollment_token list" where
  "list_enrollment_tokens s workspace_id = of_key et_workspace_id workspace_id (list_models (est_tokens s))"

definition list_enrollment_requests :: "enterprise_state \<Rightarrow> string option \<Rightarrow> enrollment_request list" where
  "list_enrollment_requests s workspace_id = of_key nr_workspace_id workspace_id (list_models (est_requests s))"

definition list_enrolled_agents :: "enterprise_state \<Rightarrow> string option \<Rightarrow> enrolled_agent list" where
  "list_enrolled_agents s workspace_id = of_key ea_workspace_id workspace_id (list_models (est_enrolled s))"

definition get_enrolled_agent_by_agent_id :: "enterprise_state \<Rightarrow> string \<Rightarrow> string option \<Rightarrow> enrolled_agent option" where
  "get_enrolled_agent_by_agent_id s agent_id workspace_id =
     List.find (\<lambda>a. ea_agent_id a = agent_id) (list_enrolled_agents s workspace_id)"

section \<open>Evidence\<close>

text \<open>\<open>n\<close>: the first of the two readings of the clock the event takes.\<close>

definition write_evidence_event ::
  "enrollment_env \<Rightarrow> nat \<Rightarrow> string \<Rightarrow> pydict \<Rightarrow> enterprise_state \<Rightarrow> enterprise_state \<times> string" where
  "write_evidence_event E n event_type payload s =
    (let h = canonical_json_hash (en_hash E) (PDict payload);
         event_id = enterprise_id (en_hash E) ''event'' [event_type, h, en_iso E (en_clock E n)];
         event = [(''eventId'', PStr event_id), (''eventType'', PStr event_type), (''payloadHash'', PStr h),
                  (''payload'', PDict payload), (''rawSecretsExposed'', PBool False),
                  (''generatedAtUtc'', PStr (en_iso E (en_clock E (n + 1))))];
         relative = ''evidence/'' @ event_id @ ''.json''
     in (s\<lparr>est_evidence := AList.update event_id event (est_evidence s)\<rparr>, enterprise_path relative))"

end
