(* ===== verification/Agent_Enrollment.thy ===== *)
theory Agent_Enrollment imports Enterprise_Store begin

text \<open>
  The operations on enterprise documents: \<open>bootstrap_enterprise_workspace\<close> of
  \<open>imperaos/control_plane/enterprise_workspace.py\<close> and the enrollment of agents of
  \<open>imperaos/control_plane/agent_enrollment.py\<close>.

  \<^item> An operation gives the new state and its result, or the class of the exception it raised; what was
    written before the exception stays.
  \<^item> The actor is the answer of \<open>resolve_actor_context\<close>: \<open>None\<close> when identities are disabled.
  \<^item> The texts \<open>secrets\<close> draws are arguments.
\<close>

section \<open>Actors\<close>

definition principal_id_for_actor :: "(string \<Rightarrow> string) \<Rightarrow> actor_context \<Rightarrow> string" where
  "principal_id_for_actor H actor = enterprise_id H ''principal'' [ac_actor_id actor]"

definition roles_for_actor :: "(string \<Rightarrow> string) \<Rightarrow> enterprise_state \<Rightarrow> actor_context \<Rightarrow> string \<Rightarrow> string list" where
  "roles_for_actor H s actor workspace_id =
     sorted_set (concat (map em_roles (filter (\<lambda>m. em_status m = EmActive)
       (list_memberships s (Some workspace_id) (Some (principal_id_for_actor H actor))))))"

definition actor_decision :: "(string \<Rightarrow> string) \<Rightarrow> enterprise_state \<Rightarrow> actor_context \<Rightarrow> string \<Rightarrow> string \<Rightarrow> permission_decision" where
  "actor_decision H s actor workspace_id permission =
     check_roles_for_permission (roles_for_actor H s actor workspace_id) permission"

text \<open>An event that names the actor by the digest of its id, which must not be blank.\<close>

definition actor_event ::
  "enrollment_env \<Rightarrow> nat \<Rightarrow> string \<Rightarrow> pydict \<Rightarrow> pydict \<Rightarrow> actor_context \<Rightarrow> enterprise_state
     \<Rightarrow> enterprise_state \<times> (string + string)" where
  "actor_event E n event_type before after actor s =
    (case hash_identity_ref (en_hash E) (ac_actor_id actor) of
       None \<Rightarrow> (s, Inl ''ValueError'')
     | Some h \<Rightarrow>
         let (s', ref) = write_evidence_event E n event_type (before @ [(''actorIdHash'', PStr h)] @ after) s
         in (s', Inr ref))"

section \<open>Bootstrap\<close>

record bootstrap_request =
  bq_organization_id :: string
  bq_workspace_id :: string
  bq_display_name :: string
  bq_environment :: deployment_environment
  bq_provider_policy_profile :: string

record bootstrap_result =
  br_status :: string
  br_organization_id :: "string option"
  br_workspace_id :: "string option"
  br_bootstrap_principal_id :: "string option"
  br_membership_id :: "string option"
  br_evidence_ref :: "string option"
  br_blocking_reasons :: "string list"

definition bootstrap_blocked :: "string \<Rightarrow> bootstrap_result" where
  "bootstrap_blocked code = \<lparr>br_status = ''blocked'', br_organization_id = None, br_workspace_id = None,
     br_bootstrap_principal_id = None, br_membership_id = None, br_evidence_ref = None, br_blocking_reasons = [code]\<rparr>"

definition build_bootstrap_principal :: "enrollment_env \<Rightarrow> actor_context \<Rightarrow> string + enterprise_principal" where
  "build_bootstrap_principal E actor =
    (case (hash_identity_ref (en_hash E) (ac_subject actor), hash_identity_ref (en_hash E) (ac_issuer actor)) of
       (Some subject, Some issuer) \<Rightarrow>
         (case validate_enterprise_principal
             \<lparr>ep_principal_id = principal_id_for_actor (en_hash E) actor,
              ep_principal_type = (if ac_is_break_glass actor then BreakGlass else HumanUser),
              ep_display_name = ac_actor_id actor, ep_status = EpActive,
              ep_external_subject_ref_hash = Some subject, ep_issuer_hash = Some issuer,
              ep_created_at = en_clock E 1, ep_last_seen_at = Some (en_clock E 2)\<rparr> of
            None \<Rightarrow> Inl ''ValidationError''
          | Some p \<Rightarrow> Inr p)
     | _ \<Rightarrow> Inl ''ValueError'')"

definition bootstrap_organization :: "int \<Rightarrow> bootstrap_request \<Rightarrow> string \<Rightarrow> enterprise_organization" where
  "bootstrap_organization now q principal_id =
     \<lparr>eo_organization_id = bq_organization_id q, eo_display_name = bq_organization_id q, eo_status = OrgActive,
      eo_created_by = principal_id, eo_created_at = now, eo_updated_at = now\<rparr>"

definition bootstrap_workspace :: "int \<Rightarrow> bootstrap_request \<Rightarrow> string \<Rightarrow> enterprise_workspace" where
  "bootstrap_workspace now q principal_id =
     \<lparr>ew_workspace_id = bq_workspace_id q, ew_organization_id = bq_organization_id q,
      ew_display_name = bq_display_name q, ew_environment = bq_environment q, ew_status = EntActive,
      ew_default_policy_pack_id = None, ew_memory_authority_mode = LocalAuthority,
      ew_provider_policy_profile = bq_provider_policy_profile q, ew_created_by = principal_id,
      ew_created_at = now, ew_updated_at = now\<rparr>"

definition bootstrap_membership :: "(string \<Rightarrow> string) \<Rightarrow> int \<Rightarrow> bootstrap_request \<Rightarrow> string \<Rightarrow> enterprise_membership" where
  "bootstrap_membership H now q principal_id =
     \<lparr>em_membership_id = make_membership_id H (bq_workspace_id q) principal_id, em_workspace_id = bq_workspace_id q,
      em_principal_id = principal_id, em_roles = [''platform_admin''], em_status = EmActive,
      em_granted_by = principal_id, em_granted_at = now, em_expires_at = None\<rparr>"

text \<open>The four writes; each one happens whatever the others answered.\<close>

definition bootstrap_writes ::
  "enrollment_env \<Rightarrow> enterprise_organization \<Rightarrow> enterprise_workspace \<Rightarrow> enterprise_principal \<Rightarrow> enterprise_membership
     \<Rightarrow> enterprise_state \<Rightarrow> enterprise_state \<times> write_status list" where
  "bootstrap_writes E org ws p m s =
    (let (s1, a1) = write_organization E org s;
         (s2, a2) = write_workspace E ws s1;
         (s3, a3) = write_principal E p s2;
         (s4, a4) = write_membership E m s3
     in (s4, map sw_status [a1, a2, a3, a4]))"

definition bootstrap_for ::
  "enrollment_env \<Rightarrow> actor_context \<Rightarrow> bootstrap_request \<Rightarrow> enterprise_state
     \<Rightarrow> enterprise_state \<times> (string + bootstrap_result)" where
  "bootstrap_for E actor q s =
    (let now = en_clock E 0; H = en_hash E in
     case build_bootstrap_principal E actor of
       Inl e \<Rightarrow> (s, Inl e)
     | Inr p \<Rightarrow>
         (case (validate_organization (bootstrap_organization now q (ep_principal_id p)),
                validate_enterprise_workspace (bootstrap_workspace now q (ep_principal_id p)),
                validate_enterprise_membership (bootstrap_membership H now q (ep_principal_id p))) of
            (Some org, Some ws, Some m) \<Rightarrow>
              let (s', answers) = bootstrap_writes E org ws p m s;
                  result = \<lparr>br_status = ''conflict'', br_organization_id = Some (bq_organization_id q),
                    br_workspace_id = Some (bq_workspace_id q), br_bootstrap_principal_id = Some (ep_principal_id p),
                    br_membership_id = Some (em_membership_id m), br_evidence_ref = None,
                    br_blocking_reasons = [''ENTERPRISE_WORKSPACE_CONFLICT'']\<rparr>;
                  status = (if Written \<in> set answers then ''created'' else ''unchanged'')
              in if Conflicting \<in> set answers then (s', Inr result)
                 else (case actor_event E 3 ''enterprise_workspace_bootstrap''
                     [(''organizationId'', PStr (bq_organization_id q)), (''workspaceId'', PStr (bq_workspace_id q)),
                      (''principalId'', PStr (ep_principal_id p)), (''membershipId'', PStr (em_membership_id m))]
                     [(''status'', PStr status)] actor s' of
                    (s'', Inl e) \<Rightarrow> (s'', Inl e)
                  | (s'', Inr ref) \<Rightarrow>
                      (s'', Inr (result\<lparr>br_status := status, br_evidence_ref := Some ref, br_blocking_reasons := []\<rparr>)))
          | _ \<Rightarrow> (s, Inl ''ValidationError'')))"

definition bootstrap_enterprise_workspace ::
  "enrollment_env \<Rightarrow> identity_world \<Rightarrow> (string \<times> string) list option \<Rightarrow> bootstrap_request \<Rightarrow> enterprise_state
     \<Rightarrow> enterprise_state \<times> (string + bootstrap_result)" where
  "bootstrap_enterprise_workspace E W env q s =
    (case resolve_actor_context W env of
       Inl (Identity code _) \<Rightarrow> (s, Inr (bootstrap_blocked code))
     | Inl (Raised e) \<Rightarrow> (s, Inl e)
     | Inr None \<Rightarrow> (s, Inl ''AttributeError'')
     | Inr (Some actor) \<Rightarrow> bootstrap_for E actor q s)"

section \<open>Tokens\<close>

record token_create_request =
  tq_workspace_id :: string
  tq_intended_agent_id :: "string option"
  tq_intended_device_label :: string
  tq_allowed_principal_type :: enterprise_principal_type
  tq_allowed_capabilities :: "string list"
  tq_ttl_minutes :: int

text \<open>What constructing the request checks.\<close>

definition token_create_valid :: "token_create_request \<Rightarrow> bool" where
  "token_create_valid q \<longleftrightarrow> between 1 160 (tq_intended_device_label q) \<and>
     is_token_principal_type (tq_allowed_principal_type q) \<and> 1 \<le> tq_ttl_minutes q \<and> tq_ttl_minutes q \<le> 1440"

record token_create_result =
  tc_status :: string
  tc_token_id :: "string option"
  tc_raw_token :: "string option"
  tc_expires_at :: "int option"
  tc_evidence_ref :: "string option"
  tc_raw_token_shown_once :: bool
  tc_blocking_reasons :: "string list"

record token_revoke_result =
  tr_status :: string
  tr_token_id :: string
  tr_evidence_ref :: "string option"
  tr_blocking_reasons :: "string list"

definition token_create_blocked :: "string \<Rightarrow> token_create_result" where
  "token_create_blocked reason = \<lparr>tc_status = ''blocked'', tc_token_id = None, tc_raw_token = None,
     tc_expires_at = None, tc_evidence_ref = None, tc_raw_token_shown_once = False, tc_blocking_reasons = [reason]\<rparr>"

definition bound_raw_token :: "string \<Rightarrow> string \<Rightarrow> string \<Rightarrow> string" where
  "bound_raw_token token_id workspace_id drawn = ''enr_'' @ token_id @ ''_'' @ workspace_id @ ''_'' @ drawn"

text \<open>\<open>None\<close>: an empty token raises \<open>ValueError\<close>.\<close>

definition hash_enrollment_token :: "(string \<Rightarrow> string) \<Rightarrow> string \<Rightarrow> string \<Rightarrow> string \<Rightarrow> string option" where
  "hash_enrollment_token H raw_token token_id workspace_id =
    (if py_strip raw_token = [] then None
     else Some (H (workspace_id @ ''|'' @ token_id @ ''|'' @ py_strip raw_token)))"

definition new_token_id :: "(string \<Rightarrow> string) \<Rightarrow> token_create_request \<Rightarrow> string \<Rightarrow> string" where
  "new_token_id H q drawn = enterprise_id H ''enrtok''
     [tq_workspace_id q, (if opt_truthy (tq_intended_agent_id q) then the (tq_intended_agent_id q) else tq_intended_device_label q), drawn]"

text \<open>The token, with its digest and limits, and its text.\<close>

definition token_to_issue ::
  "enrollment_env \<Rightarrow> actor_context \<Rightarrow> token_create_request \<Rightarrow> string \<Rightarrow> string \<Rightarrow> enterprise_workspace
     \<Rightarrow> enterprise_organization \<Rightarrow> string + (enrollment_token \<times> string)" where
  "token_to_issue E a q drawn_id drawn_token workspace organization =
    (let H = en_hash E; now = en_clock E 0; token_id = new_token_id H q drawn_id;
         raw_token = bound_raw_token token_id (tq_workspace_id q) drawn_token
     in case hash_enrollment_token H raw_token token_id (tq_workspace_id q) of
          None \<Rightarrow> Inl ''ValueError''
        | Some token_hash \<Rightarrow>
          (case validate_token
              \<lparr>et_token_id = token_id, et_token_hash = token_hash,
               et_organization_id = eo_organization_id organization, et_workspace_id = tq_workspace_id q,
               et_intended_agent_id = tq_intended_agent_id q,
               et_intended_device_label = tq_intended_device_label q,
               et_allowed_principal_type = tq_allowed_principal_type q,
               et_allowed_capabilities = tq_allowed_capabilities q,
               et_policy_profile = ew_provider_policy_profile workspace, et_memory_scopes = [],
               et_created_by = principal_id_for_actor H a, et_created_at = now,
               et_expires_at = now + 60 * tq_ttl_minutes q, et_use_count = 0, et_status = TokenActive\<rparr> of
             None \<Rightarrow> Inl ''ValidationError''
           | Some token \<Rightarrow> Inr (token, raw_token)))"

definition issue_token ::
  "enrollment_env \<Rightarrow> actor_context \<Rightarrow> enrollment_token \<Rightarrow> string \<Rightarrow> enterprise_state
     \<Rightarrow> enterprise_state \<times> (string + token_create_result)" where
  "issue_token E a token raw_token s =
    (let (s', answer) = write_enrollment_token E token s in
     if sw_status answer = Conflicting then (s', Inr (token_create_blocked ''TOKEN_ID_CONFLICT''))
     else (case actor_event E 1 ''agent_enrollment_token_created''
         [(''tokenId'', PStr (et_token_id token)), (''tokenHash'', PStr (et_token_hash token)),
          (''workspaceId'', PStr (et_workspace_id token)),
          (''agentId'', pv_of_opt (et_intended_agent_id token))] [] a s' of
        (s'', Inl e) \<Rightarrow> (s'', Inl e)
      | (s'', Inr ref) \<Rightarrow> (s'', Inr
          \<lparr>tc_status = ''created'', tc_token_id = Some (et_token_id token), tc_raw_token = Some raw_token,
           tc_expires_at = Some (et_expires_at token), tc_evidence_ref = Some ref,
           tc_raw_token_shown_once = True, tc_blocking_reasons = []\<rparr>)))"

definition create_enrollment_token ::
  "enrollment_env \<Rightarrow> actor_context option \<Rightarrow> token_create_request \<Rightarrow> string \<Rightarrow> string \<Rightarrow> enterprise_state
     \<Rightarrow> enterprise_state \<times> (string + token_create_result)" where
  "create_enrollment_token E actor q drawn_id drawn_token s =
    (case actor of
       None \<Rightarrow> (s, Inl ''AttributeError'')
     | Some a \<Rightarrow>
       let decision = actor_decision (en_hash E) s a (tq_workspace_id q) ''agent.enrollment.create'' in
       if \<not> pd_allowed decision then (s, Inr (token_create_blocked (pd_reason_code decision)))
       else (case (get_enterprise_workspace s (tq_workspace_id q), est_organization s) of
         (Some workspace, Some organization) \<Rightarrow>
           (case token_to_issue E a q drawn_id drawn_token workspace organization of
              Inl e \<Rightarrow> (s, Inl e)
            | Inr (token, raw_token) \<Rightarrow> issue_token E a token raw_token s)
       | _ \<Rightarrow> (s, Inr (token_create_blocked ''ENTERPRISE_WORKSPACE_SETUP_REQUIRED''))))"

definition revoke_enrollment_token ::
  "enrollment_env \<Rightarrow> actor_context option \<Rightarrow> string \<Rightarrow> string \<Rightarrow> enterprise_state
     \<Rightarrow> enterprise_state \<times> (string + token_revoke_result)" where
  "revoke_enrollment_token E actor token_id reason s =
    (let H = en_hash E;
         blocked = (\<lambda>code. \<lparr>tr_status = ''blocked'', tr_token_id = token_id, tr_evidence_ref = None, tr_blocking_reasons = [code]\<rparr>) in
     case get_enrollment_token s token_id of
       None \<Rightarrow> (s, Inr (blocked ''TOKEN_NOT_FOUND''))
     | Some token \<Rightarrow>
       (case actor of
          None \<Rightarrow> (s, Inl ''AttributeError'')
        | Some a \<Rightarrow>
          let decision = actor_decision H s a (et_workspace_id token) ''agent.enrollment.revoke'' in
          if \<not> pd_allowed decision then (s, Inr (blocked (pd_reason_code decision)))
          else if et_status token = TokenRevoked
          then (s, Inr \<lparr>tr_status = ''unchanged'', tr_token_id = token_id, tr_evidence_ref = None, tr_blocking_reasons = []\<rparr>)
          else let s' = fst (write_enrollment_token E (token\<lparr>et_status := TokenRevoked\<rparr>) s) in
            (case actor_event E 0 ''agent_enrollment_token_revoked''
                [(''tokenId'', PStr token_id), (''workspaceId'', PStr (et_workspace_id token)),
                 (''reasonHash'', PStr (H reason))] [] a s' of
               (s'', Inl e) \<Rightarrow> (s'', Inl e)
             | (s'', Inr ref) \<Rightarrow> (s'', Inr \<lparr>tr_status = ''revoked'', tr_token_id = token_id,
                  tr_evidence_ref = Some ref, tr_blocking_reasons = []\<rparr>))))"

section \<open>Requests\<close>

text \<open>\<open>s.split(c, n)\<close>.\<close>

fun split_max :: "char \<Rightarrow> nat \<Rightarrow> string \<Rightarrow> string list" where
  "split_max c 0 s = [s]"
| "split_max c (Suc n) s =
     (if c \<in> set s then takeWhile (\<lambda>x. x \<noteq> c) s # split_max c n (drop 1 (dropWhile (\<lambda>x. x \<noteq> c) s)) else [s])"

definition parse_raw_enrollment_token :: "string \<Rightarrow> (string \<times> string) option" where
  "parse_raw_enrollment_token raw_token =
    (case split_max CHR ''_'' 3 raw_token of
       [kind, token_id, workspace_id, _] \<Rightarrow> if kind = ''enr'' then Some (token_id, workspace_id) else None
     | _ \<Rightarrow> None)"

definition create_enrollment_request_from_token ::
  "enrollment_env \<Rightarrow> string \<Rightarrow> string \<Rightarrow> string \<Rightarrow> string \<Rightarrow> string \<Rightarrow> string list \<Rightarrow> string + enrollment_request" where
  "create_enrollment_request_from_token E raw_token agent_id agent_display_name device_display_name platform capabilities =
    (let H = en_hash E in
     case parse_raw_enrollment_token raw_token of
       None \<Rightarrow> Inl ''ValueError''
     | Some (token_id, workspace_id) \<Rightarrow>
       (case hash_enrollment_token H raw_token token_id workspace_id of
          None \<Rightarrow> Inl ''ValueError''
        | Some proof \<Rightarrow>
          (case platform_of platform of
             None \<Rightarrow> Inl ''ValidationError''
           | Some pf \<Rightarrow>
             (case validate_request
                 \<lparr>nr_request_id = enterprise_id H ''enrreq'' [token_id, agent_id, device_display_name],
                  nr_token_id = token_id, nr_token_proof_hash = proof, nr_workspace_id = workspace_id,
                  nr_agent_id = agent_id, nr_agent_display_name = agent_display_name,
                  nr_device_display_name = device_display_name, nr_platform = pf, nr_capabilities = capabilities,
                  nr_host_fingerprint_hash = None, nr_requested_at = en_clock E 0, nr_status = ReqPending,
                  nr_idempotency_key = enterprise_id H ''enrollment-request'' [token_id, agent_id]\<rparr> of
                None \<Rightarrow> Inl ''ValidationError''
              | Some request \<Rightarrow> Inr request))))"

definition token_blocking_reason :: "int \<Rightarrow> enrollment_token option \<Rightarrow> enrollment_request \<Rightarrow> string option" where
  "token_blocking_reason now token request =
    (case token of
       None \<Rightarrow> Some ''TOKEN_NOT_FOUND''
     | Some t \<Rightarrow>
         if et_status t = TokenRevoked then Some ''TOKEN_REVOKED''
         else if et_status t = TokenUsed \<or> et_use_count t \<ge> 1 then Some ''TOKEN_ALREADY_USED''
         else if et_status t = TokenExpired \<or> et_expires_at t < now then Some ''TOKEN_EXPIRED''
         else if et_workspace_id t \<noteq> nr_workspace_id request then Some ''WORKSPACE_TOKEN_MISMATCH''
         else if nr_token_proof_hash request \<noteq> et_token_hash t then Some ''TOKEN_PROOF_MISMATCH''
         else if \<not> set (nr_capabilities request) \<subseteq> set (et_allowed_capabilities t) then Some ''CAPABILITY_NOT_ALLOWED''
         else None)"

record import_result =
  ir_status :: string
  ir_request_id :: "string option"
  ir_evidence_ref :: "string option"
  ir_blocking_reasons :: "string list"

definition import_admitted ::
  "enrollment_env \<Rightarrow> actor_context \<Rightarrow> enrollment_request \<Rightarrow> enterprise_state
     \<Rightarrow> enterprise_state \<times> (string + import_result)" where
  "import_admitted E a request s =
    (let (s', answer) = write_enrollment_request E request s;
         text = json_text '','' '':'' (PDict (request_dump (en_json_time E) request)) in
     case actor_event E 1 ''agent_enrollment_request_imported''
         [(''requestId'', PStr (nr_request_id request)), (''tokenId'', PStr (nr_token_id request)),
          (''workspaceId'', PStr (nr_workspace_id request)), (''requestHash'', PStr (en_hash E text))] [] a s' of
       (s'', Inl e) \<Rightarrow> (s'', Inl e)
     | (s'', Inr ref) \<Rightarrow> (s'', Inr
         \<lparr>ir_status = (if sw_status answer = Written then ''imported'' else ''unchanged''),
          ir_request_id = Some (nr_request_id request), ir_evidence_ref = Some ref, ir_blocking_reasons = []\<rparr>))"

definition import_blocked :: "string \<Rightarrow> string \<Rightarrow> import_result" where
  "import_blocked request_id code =
     \<lparr>ir_status = ''blocked'', ir_request_id = Some request_id, ir_evidence_ref = None, ir_blocking_reasons = [code]\<rparr>"

definition import_enrollment_request ::
  "enrollment_env \<Rightarrow> actor_context option \<Rightarrow> enrollment_request \<Rightarrow> enterprise_state
     \<Rightarrow> enterprise_state \<times> (string + import_result)" where
  "import_enrollment_request E actor request s =
    (case actor of
       None \<Rightarrow> (s, Inl ''AttributeError'')
     | Some a \<Rightarrow>
       let decision = actor_decision (en_hash E) s a (nr_workspace_id request) ''agent.enrollment.import'' in
       if \<not> pd_allowed decision then (s, Inr (import_blocked (nr_request_id request) (pd_reason_code decision)))
       else (case token_blocking_reason (en_clock E 0) (get_enrollment_token s (nr_token_id request)) request of
          Some reason \<Rightarrow> (s, Inr (import_blocked (nr_request_id request) reason))
        | None \<Rightarrow> import_admitted E a request s))"

section \<open>Decisions\<close>

record enrollment_decision =
  dn_status :: string
  dn_request_id :: string
  dn_enrollment_id :: "string option"
  dn_device_id :: "string option"
  dn_principal_id :: "string option"
  dn_evidence_ref :: "string option"
  dn_blocking_reasons :: "string list"

definition decision_blocked :: "string \<Rightarrow> string \<Rightarrow> enrollment_decision" where
  "decision_blocked request_id code = \<lparr>dn_status = ''blocked'', dn_request_id = request_id, dn_enrollment_id = None,
     dn_device_id = None, dn_principal_id = None, dn_evidence_ref = None, dn_blocking_reasons = [code]\<rparr>"

text \<open>A principal of the enrollment: \<open>reference\<close> is hashed, \<open>n\<close> is the reading of the clock.\<close>

definition enrollment_principal ::
  "enrollment_env \<Rightarrow> nat \<Rightarrow> string \<Rightarrow> string \<Rightarrow> string \<Rightarrow> enterprise_principal_type \<Rightarrow> string + enterprise_principal" where
  "enrollment_principal E n workspace_id reference display_name principal_type =
    (let H = en_hash E in
     case (hash_identity_ref H reference, hash_identity_ref H ''agent-enrollment'') of
       (Some subject, Some issuer) \<Rightarrow>
         (case validate_enterprise_principal
             \<lparr>ep_principal_id = enterprise_id H ''principal'' [workspace_id, reference],
              ep_principal_type = principal_type, ep_display_name = display_name, ep_status = EpActive,
              ep_external_subject_ref_hash = Some subject, ep_issuer_hash = Some issuer,
              ep_created_at = en_clock E n, ep_last_seen_at = None\<rparr> of
            None \<Rightarrow> Inl ''ValidationError'' | Some p \<Rightarrow> Inr p)
     | _ \<Rightarrow> Inl ''ValueError'')"

definition enrollment_device :: "enrollment_env \<Rightarrow> enrollment_request \<Rightarrow> string \<Rightarrow> enterprise_device option" where
  "enrollment_device E request principal_id = validate_device
     \<lparr>ed_device_id = enterprise_id (en_hash E) ''device'' [nr_workspace_id request, nr_device_display_name request],
      ed_workspace_id = nr_workspace_id request, ed_principal_id = principal_id,
      ed_display_name = nr_device_display_name request, ed_platform = nr_platform request,
      ed_host_fingerprint_hash = nr_host_fingerprint_hash request, ed_status = DevActive,
      ed_created_at = en_clock E 3, ed_last_seen_at = None\<rparr>"

definition enrollment_id_of :: "(string \<Rightarrow> string) \<Rightarrow> string \<Rightarrow> string \<Rightarrow> string" where
  "enrollment_id_of H workspace_id agent_id = enterprise_id H ''enr'' [workspace_id, agent_id]"

definition new_enrollment ::
  "enrollment_env \<Rightarrow> enrollment_request \<Rightarrow> enrollment_token \<Rightarrow> string \<Rightarrow> string \<Rightarrow> enrolled_agent option" where
  "new_enrollment E request token principal_id device_id = validate_enrolled
     \<lparr>ea_enrollment_id = enrollment_id_of (en_hash E) (nr_workspace_id request) (nr_agent_id request),
      ea_workspace_id = nr_workspace_id request, ea_agent_id = nr_agent_id request, ea_principal_id = principal_id,
      ea_device_id = device_id, ea_token_id = nr_token_id request, ea_status = EnrActive,
      ea_capabilities = nr_capabilities request, ea_policy_profile = et_policy_profile token,
      ea_created_at = en_clock E 4, ea_last_seen_at = None\<rparr>"

text \<open>The six writes of an approval; their answers are not looked at.\<close>

definition approval_writes ::
  "enrollment_env \<Rightarrow> enterprise_principal \<Rightarrow> enterprise_principal \<Rightarrow> enterprise_device \<Rightarrow> enrolled_agent
     \<Rightarrow> enrollment_token \<Rightarrow> enrollment_request \<Rightarrow> enterprise_state \<Rightarrow> enterprise_state" where
  "approval_writes E agent_principal device_principal device enrollment token request s =
    (let s1 = fst (write_principal E agent_principal s);
         s2 = fst (write_principal E device_principal s1);
         s3 = fst (write_device E device s2);
         s4 = fst (write_enrolled_agent E enrollment s3);
         s5 = fst (write_enrollment_token E (token\<lparr>et_status := TokenUsed, et_use_count := 1\<rparr>) s4)
     in fst (write_enrollment_request E (request\<lparr>nr_status := ReqApproved\<rparr>) s5))"

definition approve_admitted ::
  "enrollment_env \<Rightarrow> actor_context \<Rightarrow> enrollment_request \<Rightarrow> enrollment_token \<Rightarrow> enterprise_state
     \<Rightarrow> enterprise_state \<times> (string + enrollment_decision)" where
  "approve_admitted E a request token s =
    (case enrollment_principal E 1 (nr_workspace_id request) (nr_agent_id request) (nr_agent_display_name request)
        (et_allowed_principal_type token) of
       Inl e \<Rightarrow> (s, Inl e)
     | Inr agent_principal \<Rightarrow>
       (case enrollment_principal E 2 (nr_workspace_id request) (nr_device_display_name request)
           (nr_device_display_name request) DeviceHost of
          Inl e \<Rightarrow> (s, Inl e)
        | Inr device_principal \<Rightarrow>
          (case enrollment_device E request (ep_principal_id device_principal) of
             None \<Rightarrow> (s, Inl ''ValidationError'')
           | Some device \<Rightarrow>
             (case new_enrollment E request token (ep_principal_id agent_principal) (ed_device_id device) of
                None \<Rightarrow> (s, Inl ''ValidationError'')
              | Some enrollment \<Rightarrow>
                let s' = approval_writes E agent_principal device_principal device enrollment token request s in
                (case actor_event E 5 ''agent_enrollment_approved''
                    [(''requestId'', PStr (nr_request_id request)), (''tokenId'', PStr (nr_token_id request)),
                     (''workspaceId'', PStr (nr_workspace_id request)), (''agentId'', PStr (nr_agent_id request)),
                     (''deviceId'', PStr (ed_device_id device)),
                     (''enrollmentId'', PStr (ea_enrollment_id enrollment))] [] a s' of
                   (s'', Inl e) \<Rightarrow> (s'', Inl e)
                 | (s'', Inr ref) \<Rightarrow> (s'', Inr
                     \<lparr>dn_status = ''approved'', dn_request_id = nr_request_id request,
                      dn_enrollment_id = Some (ea_enrollment_id enrollment), dn_device_id = Some (ed_device_id device),
                      dn_principal_id = Some (ep_principal_id agent_principal), dn_evidence_ref = Some ref,
                      dn_blocking_reasons = []\<rparr>))))))"

definition approve_enrollment_request ::
  "enrollment_env \<Rightarrow> actor_context option \<Rightarrow> string \<Rightarrow> enterprise_state
     \<Rightarrow> enterprise_state \<times> (string + enrollment_decision)" where
  "approve_enrollment_request E actor request_id s =
    (case get_enrollment_request s request_id of
       None \<Rightarrow> (s, Inr (decision_blocked request_id ''REQUEST_NOT_FOUND''))
     | Some request \<Rightarrow>
       (case actor of
          None \<Rightarrow> (s, Inl ''AttributeError'')
        | Some a \<Rightarrow>
          let decision = actor_decision (en_hash E) s a (nr_workspace_id request) ''agent.enrollment.approve'';
              token = get_enrollment_token s (nr_token_id request) in
          if \<not> pd_allowed decision then (s, Inr (decision_blocked request_id (pd_reason_code decision)))
          else (case token_blocking_reason (en_clock E 0) token request of
             Some reason \<Rightarrow> (s, Inr (decision_blocked request_id reason))
           | None \<Rightarrow> approve_admitted E a request (the token) s)))"

definition reject_enrollment_request ::
  "enrollment_env \<Rightarrow> actor_context option \<Rightarrow> string \<Rightarrow> string \<Rightarrow> enterprise_state
     \<Rightarrow> enterprise_state \<times> (string + enrollment_decision)" where
  "reject_enrollment_request E actor request_id reason s =
    (case get_enrollment_request s request_id of
       None \<Rightarrow> (s, Inr (decision_blocked request_id ''REQUEST_NOT_FOUND''))
     | Some request \<Rightarrow>
       let s' = fst (write_enrollment_request E (request\<lparr>nr_status := ReqRejected\<rparr>) s) in
       (case actor of
          None \<Rightarrow> (s', Inl ''AttributeError'')
        | Some a \<Rightarrow>
          (case actor_event E 0 ''agent_enrollment_rejected''
              [(''requestId'', PStr request_id), (''reasonHash'', PStr (en_hash E reason))] [] a s' of
             (s'', Inl e) \<Rightarrow> (s'', Inl e)
           | (s'', Inr ref) \<Rightarrow> (s'', Inr ((decision_blocked request_id [])
               \<lparr>dn_status := ''rejected'', dn_evidence_ref := Some ref, dn_blocking_reasons := []\<rparr>)))))"

section \<open>The check of an enrolled agent\<close>

text \<open>\<open>Inl code\<close>: \<open>EnterpriseEnrollmentError\<close> with that code.\<close>

definition require_active_enrollment :: "enterprise_state \<Rightarrow> string \<Rightarrow> string option \<Rightarrow> string + enrolled_agent" where
  "require_active_enrollment s agent_id workspace_id =
    (case get_enrolled_agent_by_agent_id s agent_id workspace_id of
       None \<Rightarrow> Inl ''AGENT_NOT_ENROLLED''
     | Some a \<Rightarrow>
         if ea_status a = EnrRevoked then Inl ''ENROLLMENT_REVOKED''
         else if ea_status a \<noteq> EnrActive then Inl ''AGENT_NOT_ENROLLED''
         else if (case get_device s (ea_device_id a) of None \<Rightarrow> False
               | Some d \<Rightarrow> ed_status d = DevSuspended \<or> ed_status d = DevRevoked) then Inl ''DEVICE_SUSPENDED''
         else if (case get_enterprise_principal s (ea_principal_id a) of None \<Rightarrow> False
               | Some p \<Rightarrow> ep_status p = EpDisabled \<or> ep_status p = EpRevoked) then Inl ''PRINCIPAL_REVOKED''
         else Inr a)"

end
