(* ===== verification/Enterprise_Snapshot.thy ===== *)
theory Enterprise_Snapshot imports Agent_Enrollment begin

text \<open>
  The summary of an enterprise workspace, \<open>imperaos/control_plane/enterprise_workspace_snapshot.py\<close>.
  The summaries of organizations, workspaces, principals, memberships and devices copy fields of the
  documents, so the snapshot holds the documents themselves; the role catalog is constant.
\<close>

record identity_summary =
  is_enabled :: bool
  is_verified :: bool
  is_actor_id :: "string option"
  is_error_code :: "string option"

record enrollment_summary =
  en_active :: nat
  en_pending_approval :: nat
  en_revoked :: nat
  en_expired_tokens :: nat

record enterprise_snapshot =
  sn_status :: string
  sn_identity :: identity_summary
  sn_organization :: "enterprise_organization option"
  sn_workspaces :: "enterprise_workspace list"
  sn_current_workspace_id :: "string option"
  sn_principals :: "enterprise_principal list"
  sn_memberships :: "enterprise_membership list"
  sn_roles :: "canonical_role list"
  sn_devices :: "enterprise_device list"
  sn_enrollments :: enrollment_summary
  sn_permission_matrix :: "(string \<times> string list) list"
  sn_blocking_reasons :: "string list"

definition snapshot_actor_id :: "pydict \<Rightarrow> string option" where
  "snapshot_actor_id payload = (case dict_get payload ''actor'' of
     PDict actor \<Rightarrow> if truthy (dict_get actor ''actor_id'') then Some (py_str (dict_get actor ''actor_id'')) else None
   | _ \<Rightarrow> None)"

definition identity_summary_of :: "pydict \<Rightarrow> identity_summary" where
  "identity_summary_of payload =
     \<lparr>is_enabled = truthy (dict_get payload ''identity_enabled''), is_verified = truthy (dict_get payload ''verified''),
      is_actor_id = snapshot_actor_id payload,
      is_error_code = (if truthy (dict_get payload ''error_code'') then Some (py_str (dict_get payload ''error_code'')) else None)\<rparr>"

definition snapshot_identity :: "identity_world \<Rightarrow> (string \<times> string) list option \<Rightarrow> string + identity_summary" where
  "snapshot_identity W env =
    (case (if \<not> ic_enabled (iw_config W)
           then Inr [(''identity_enabled'', PBool False), (''verified'', PBool False), (''error_code'', PStr ''IDENTITY_DISABLED'')]
           else describe_actor W env) of
       Inl e \<Rightarrow> Inl e
     | Inr payload \<Rightarrow> Inr (identity_summary_of payload))"

definition snapshot_reasons :: "identity_world \<Rightarrow> identity_summary \<Rightarrow> enterprise_state \<Rightarrow> string list" where
  "snapshot_reasons W identity s =
    (if ic_profile_name (iw_config W) = ''enterprise'' \<and> \<not> is_verified identity
     then [if opt_truthy (is_error_code identity) then the (is_error_code identity) else ''IDENTITY_REQUIRED''] else [])
    @ (if est_organization s = None \<or> list_models (est_workspaces s) = [] then [''ENTERPRISE_WORKSPACE_SETUP_REQUIRED''] else [])"

definition snapshot_status :: "identity_world \<Rightarrow> identity_summary \<Rightarrow> enterprise_state \<Rightarrow> string" where
  "snapshot_status W identity s =
    (let reasons = snapshot_reasons W identity s in
     if \<not> ic_enabled (iw_config W) then ''disabled''
     else if reasons \<noteq> [] \<and> reasons \<noteq> [''ENTERPRISE_WORKSPACE_SETUP_REQUIRED''] then ''blocked''
     else if est_organization s = None \<or> list_models (est_workspaces s) = [] then ''setup_required''
     else ''ready'')"

text \<open>A later membership of a principal replaces the entry of an earlier one.\<close>

definition permission_matrix :: "enterprise_membership list \<Rightarrow> (string \<times> string list) list" where
  "permission_matrix ms = fold (\<lambda>m. AList.update (em_principal_id m) (sorted_set (permissions_for_roles (em_roles m))))
     (filter (\<lambda>m. em_status m = EmActive) ms) []"

definition enrollment_summary_of :: "enterprise_state \<Rightarrow> enrollment_summary" where
  "enrollment_summary_of s =
     \<lparr>en_active = length (filter (\<lambda>a. ea_status a = EnrActive) (list_enrolled_agents s None)),
      en_pending_approval = length (filter (\<lambda>r. nr_status r = ReqPending) (list_enrollment_requests s None)),
      en_revoked = length (filter (\<lambda>a. ea_status a = EnrRevoked) (list_enrolled_agents s None)),
      en_expired_tokens = length (filter (\<lambda>t. et_status t = TokenExpired) (list_enrollment_tokens s None))\<rparr>"

definition build_enterprise_workspace_snapshot ::
  "identity_world \<Rightarrow> (string \<times> string) list option \<Rightarrow> enterprise_state \<Rightarrow> string + enterprise_snapshot" where
  "build_enterprise_workspace_snapshot W env s =
    (case snapshot_identity W env of
       Inl e \<Rightarrow> Inl e
     | Inr identity \<Rightarrow>
       let workspaces = list_models (est_workspaces s); memberships = list_memberships s None None in
       Inr \<lparr>sn_status = snapshot_status W identity s, sn_identity = identity, sn_organization = est_organization s,
            sn_workspaces = workspaces,
            sn_current_workspace_id = (case workspaces of [] \<Rightarrow> None | w # _ \<Rightarrow> Some (ew_workspace_id w)),
            sn_principals = list_models (est_principals s), sn_memberships = memberships, sn_roles = role_catalog,
            sn_devices = list_devices s None, sn_enrollments = enrollment_summary_of s,
            sn_permission_matrix = permission_matrix memberships, sn_blocking_reasons = snapshot_reasons W identity s\<rparr>)"

end
