(* ===== verification/Pilot_Enrollment.thy ===== *)
theory Pilot_Enrollment imports Agent_Enrollment begin

text \<open>
  The pilot client's enrollment of its own agent, \<open>_ensure_pilot_enrollment\<close> of
  \<open>imperaos/control_plane/external_agent_client.py\<close>, and the manifest it works from.  It writes an active
  enrollment straight into the enterprise store: there is no actor, no membership, no token and no request.
\<close>

section \<open>The manifest\<close>

datatype risk_profile = ProfileReadOnly | ProfileMutation | ProfileDestructiveDenied

fun risk_profile_value :: "risk_profile \<Rightarrow> string" where
  "risk_profile_value ProfileReadOnly = ''read_only''"
| "risk_profile_value ProfileMutation = ''mutation''"
| "risk_profile_value ProfileDestructiveDenied = ''destructive_denied''"

record pilot_manifest =
  pm_agent_id :: string
  pm_name :: string
  pm_owner :: string
  pm_risk_profile :: risk_profile
  pm_policy_pack_id :: string
  pm_entrypoint :: "string list"
  pm_allowed_actions :: "string list"
  pm_evidence_required :: bool

definition entrypoint_safe :: "string list \<Rightarrow> bool" where
  "entrypoint_safe value \<longleftrightarrow> value \<noteq> [] \<and>
     \<not> list_ex (\<lambda>part. list_ex (\<lambda>token. substring token part) ['';'', ''&&'', ''||'', ''|'', ''>'', ''<'']) value"

definition manifest_valid :: "pilot_manifest \<Rightarrow> bool" where
  "manifest_valid M \<longleftrightarrow> between 1 120 (pm_name M) \<and> entrypoint_safe (pm_entrypoint M)"

text \<open>\<open>manifest.allowed_actions or ["read"]\<close>.\<close>

definition manifest_actions :: "pilot_manifest \<Rightarrow> string list" where
  "manifest_actions M = (if pm_allowed_actions M = [] then [''read''] else pm_allowed_actions M)"

section \<open>The enrollment\<close>

definition pilot_workspace :: string where
  "pilot_workspace = ''pilot-workspace''"

definition pilot_enrollment :: "enrollment_env \<Rightarrow> pilot_manifest \<Rightarrow> enrolled_agent option" where
  "pilot_enrollment E M = validate_enrolled
     \<lparr>ea_enrollment_id = ''enrollment-'' @ pm_agent_id M, ea_workspace_id = pilot_workspace, ea_agent_id = pm_agent_id M,
      ea_principal_id = ''principal-'' @ pm_agent_id M, ea_device_id = ''device-'' @ pm_agent_id M,
      ea_token_id = ''token-'' @ pm_agent_id M, ea_status = EnrActive, ea_capabilities = manifest_actions M,
      ea_policy_profile = ''enterprise'', ea_created_at = en_clock E 0, ea_last_seen_at = None\<rparr>"

definition ensure_pilot_enrollment ::
  "enrollment_env \<Rightarrow> pilot_manifest \<Rightarrow> enterprise_state \<Rightarrow> enterprise_state \<times> (string + unit)" where
  "ensure_pilot_enrollment E M s =
    (case pilot_enrollment E M of
       None \<Rightarrow> (s, Inl ''ValidationError'')
     | Some a \<Rightarrow> (fst (write_enrolled_agent E a s), Inr ()))"

section \<open>Facts\<close>

lemma pilot_enrollment_Some:
  "pilot_enrollment E M = Some a \<Longrightarrow> ea_agent_id a = pm_agent_id M \<and> ea_workspace_id a = pilot_workspace \<and>
     ea_status a = EnrActive \<and> ea_enrollment_id a = ''enrollment-'' @ pm_agent_id M \<and>
     ea_principal_id a = ''principal-'' @ pm_agent_id M \<and> ea_device_id a = ''device-'' @ pm_agent_id M"
  by (auto simp: pilot_enrollment_def validate_enrolled_def split: if_splits)

end
