(* ===== verification/Enrollment_Machine.thy ===== *)
theory Enrollment_Machine imports Enterprise_Snapshot Pilot_Enrollment Machine "HOL-Library.Sublist" begin

text \<open>
  The enterprise store as a machine: a step is one operation, whatever it answers.  Directories only
  grow at their end, and the invariant says where each document comes from.

  There are two machines: \<open>enterprise_step\<close> has the operations of the workspace and its enrollments,
  \<open>deployed_step\<close> has the pilot client's writer of enrollments beside them.  They share one invariant; its
  argument \<open>pilots\<close> says whether enrollments of the pilot client are among the stored ones.
\<close>

section \<open>Writes only append\<close>

text \<open>\<open>filed key files\<close>: every document is filed under its own id, once.\<close>

definition filed :: "('m \<Rightarrow> string) \<Rightarrow> (string \<times> 'm) list \<Rightarrow> bool" where
  "filed key files \<longleftrightarrow> distinct (map fst files) \<and> (\<forall>f \<in> set files. key (snd f) = fst f)"

lemma write_model_cases:
  obtains (kept) "fst (write_model E dump dir name m files) = files" "map_of files name \<noteq> None"
      "sw_status (snd (write_model E dump dir name m files)) \<noteq> Written"
    | (added) "fst (write_model E dump dir name m files) = files @ [(name, m)]" "map_of files name = None"
      "sw_status (snd (write_model E dump dir name m files)) = Written"
  by (cases "map_of files name") (auto simp: write_model_def write_answer_def Let_def)

lemma write_model_prefix: "prefix files (fst (write_model E dump dir name m files))"
  by (rule write_model_cases [of E dump dir name m files]) auto

lemma filed_Nil [simp]: "filed key []"
  by (simp add: filed_def)

lemma filed_write:
  assumes "filed key files" "key m = name"
  shows "filed key (fst (write_model E dump dir name m files))"
proof (rule write_model_cases [of E dump dir name m files])
  assume w: "fst (write_model E dump dir name m files) = files @ [(name, m)]" "map_of files name = None"
  then have "name \<notin> fst ` set files" by (simp add: map_of_eq_None_iff)
  then show ?thesis unfolding w(1) using assms by (auto simp: filed_def)
qed (use assms in simp)

lemma write_model_set:
  "f \<in> set (fst (write_model E dump dir name m files)) \<Longrightarrow> f \<in> set files \<or> f = (name, m)"
  by (rule write_model_cases [of E dump dir name m files]) auto

lemma filed_get: "filed key files \<Longrightarrow> map_of files k = Some m \<longleftrightarrow> (k, m) \<in> set files"
  by (auto simp: filed_def dest: map_of_SomeD)

lemma filed_id: "filed key files \<Longrightarrow> map_of files k = Some m \<Longrightarrow> key m = k"
  by (auto simp: filed_def dest!: map_of_SomeD)

lemma filed_prefix: "prefix files files' \<Longrightarrow> map_of files k = Some m \<Longrightarrow> map_of files' k = Some m"
  by (auto simp: prefix_def map_add_Some_iff)

lemma list_models_set [simp]: "set (list_models files) = snd ` set files"
  by (simp add: list_models_def)

text \<open>An update of a document that is there leaves the directory as it is.\<close>

lemma write_model_again: "map_of files name \<noteq> None \<Longrightarrow> fst (write_model E dump dir name m files) = files"
  by (rule write_model_cases [of E dump dir name m files]) auto

definition enterprise_grows :: "enterprise_state \<Rightarrow> enterprise_state \<Rightarrow> bool" where
  "enterprise_grows s t \<longleftrightarrow>
     (est_organization s = None \<or> est_organization t = est_organization s) \<and>
     prefix (est_workspaces s) (est_workspaces t) \<and> prefix (est_principals s) (est_principals t) \<and>
     prefix (est_memberships s) (est_memberships t) \<and> prefix (est_devices s) (est_devices t) \<and>
     prefix (est_tokens s) (est_tokens t) \<and> prefix (est_requests s) (est_requests t) \<and>
     prefix (est_enrolled s) (est_enrolled t)"

lemma grows_refl [simp]: "enterprise_grows s s"
  by (simp add: enterprise_grows_def)

lemma grows_trans: "enterprise_grows s t \<Longrightarrow> enterprise_grows t u \<Longrightarrow> enterprise_grows s u"
  unfolding enterprise_grows_def by (auto intro: prefix_order.trans)

section \<open>The documents of each write\<close>

lemma write_docs [simp]:
  "fst (write_workspace E w s) = s\<lparr>est_workspaces := fst (write_model E enterprise_workspace_dump ''workspaces'' (ew_workspace_id w) w (est_workspaces s))\<rparr>"
  "fst (write_principal E p s) = s\<lparr>est_principals := fst (write_model E enterprise_principal_dump ''principals'' (ep_principal_id p) p (est_principals s))\<rparr>"
  "fst (write_membership E m s) = s\<lparr>est_memberships := fst (write_model E enterprise_membership_dump ''memberships'' (em_membership_id m) m (est_memberships s))\<rparr>"
  "fst (write_device E d s) = s\<lparr>est_devices := fst (write_model E device_dump ''devices'' (ed_device_id d) d (est_devices s))\<rparr>"
  "fst (write_enrollment_token E t s) = s\<lparr>est_tokens := fst (write_model E token_dump ''enrollment-tokens'' (et_token_id t) t (est_tokens s))\<rparr>"
  "fst (write_enrollment_request E r s) = s\<lparr>est_requests := fst (write_model E request_dump ''enrollment-requests'' (nr_request_id r) r (est_requests s))\<rparr>"
  "fst (write_enrolled_agent E a s) = s\<lparr>est_enrolled := fst (write_model E enrolled_dump ''enrolled-agents'' (ea_enrollment_id a) a (est_enrolled s))\<rparr>"
  by (simp_all add: write_workspace_def write_principal_def write_membership_def write_device_def
      write_enrollment_token_def write_enrollment_request_def write_enrolled_agent_def case_prod_beta Let_def)

lemma write_organization_cases:
  obtains (kept) "fst (write_organization E v s) = s" "est_organization s \<noteq> None"
    | (added) "fst (write_organization E v s) = s\<lparr>est_organization := Some v\<rparr>" "est_organization s = None"
  by (cases "est_organization s") (auto simp: write_organization_def write_answer_def Let_def)

lemma actor_event_docs:
  "actor_event E n ty b c a s = (t, r) \<Longrightarrow> \<exists>ev. t = s\<lparr>est_evidence := ev\<rparr>"
  by (auto simp: actor_event_def write_evidence_event_def Let_def split: option.splits)
     (metis enterprise_state.surjective enterprise_state.update_convs(9))

lemma actor_event_fst: "\<exists>ev. fst (actor_event E n ty b c a s) = s\<lparr>est_evidence := ev\<rparr>"
  using actor_event_docs [of E n ty b c a s] by (metis prod.collapse)

section \<open>The operations, up to evidence\<close>

text \<open>\<open>same_docs s t\<close>: the states differ in their evidence only.\<close>

definition same_docs :: "enterprise_state \<Rightarrow> enterprise_state \<Rightarrow> bool" where
  "same_docs s t \<longleftrightarrow> (\<exists>ev. t = s\<lparr>est_evidence := ev\<rparr>)"

lemma same_docs_refl [simp]: "same_docs s s"
  unfolding same_docs_def by (rule exI [of _ "est_evidence s"]) simp

lemma same_docs_event [simp]: "same_docs s (fst (actor_event E n ty b c a s))"
  unfolding same_docs_def by (rule actor_event_fst)

lemma same_docs_eventD: "actor_event E n ty b c a s = (t, r) \<Longrightarrow> same_docs s t"
  unfolding same_docs_def by (rule actor_event_docs)

lemma same_docs_simps:
  assumes "same_docs s t"
  shows "est_organization t = est_organization s" "est_workspaces t = est_workspaces s"
    "est_principals t = est_principals s" "est_memberships t = est_memberships s" "est_devices t = est_devices s"
    "est_tokens t = est_tokens s" "est_requests t = est_requests s" "est_enrolled t = est_enrolled s"
  using assms by (auto simp: same_docs_def)

text \<open>Each operation changes nothing but evidence, or makes its writes for an actor it admitted.\<close>

lemma bootstrap_run:
  obtains (none) "same_docs s (fst (bootstrap_enterprise_workspace E W env q s))"
  | (wrote) actor p org ws m where
      "resolve_actor_context W env = Inr (Some actor)" "build_bootstrap_principal E actor = Inr p"
      "validate_organization (bootstrap_organization (en_clock E 0) q (ep_principal_id p)) = Some org"
      "validate_enterprise_workspace (bootstrap_workspace (en_clock E 0) q (ep_principal_id p)) = Some ws"
      "validate_enterprise_membership (bootstrap_membership (en_hash E) (en_clock E 0) q (ep_principal_id p)) = Some m"
      "same_docs (fst (bootstrap_writes E org ws p m s)) (fst (bootstrap_enterprise_workspace E W env q s))"
proof (cases "resolve_actor_context W env")
  case (Inl e)
  then show thesis by (intro none) (cases e; simp add: bootstrap_enterprise_workspace_def)
next
  case resolved: (Inr r)
  show thesis
  proof (cases r)
    case None
    with resolved show thesis by (intro none) (simp add: bootstrap_enterprise_workspace_def)
  next
    case (Some actor)
    note R = resolved [unfolded Some]
    show thesis
    proof (cases "\<exists>p org ws m. build_bootstrap_principal E actor = Inr p \<and>
        validate_organization (bootstrap_organization (en_clock E 0) q (ep_principal_id p)) = Some org \<and>
        validate_enterprise_workspace (bootstrap_workspace (en_clock E 0) q (ep_principal_id p)) = Some ws \<and>
        validate_enterprise_membership (bootstrap_membership (en_hash E) (en_clock E 0) q (ep_principal_id p)) = Some m")
      case False
      then have "fst (bootstrap_for E actor q s) = s"
        by (auto simp: bootstrap_for_def Let_def split: sum.splits option.splits)
      with R show thesis by (intro none) (simp add: bootstrap_enterprise_workspace_def)
    next
      case True
      then obtain p org ws m where v: "build_bootstrap_principal E actor = Inr p"
        "validate_organization (bootstrap_organization (en_clock E 0) q (ep_principal_id p)) = Some org"
        "validate_enterprise_workspace (bootstrap_workspace (en_clock E 0) q (ep_principal_id p)) = Some ws"
        "validate_enterprise_membership (bootstrap_membership (en_hash E) (en_clock E 0) q (ep_principal_id p)) = Some m"
        by blast
      have "same_docs (fst (bootstrap_writes E org ws p m s)) (fst (bootstrap_for E actor q s))"
        using v by (auto simp: bootstrap_for_def Let_def same_docs_eventD split: prod.splits sum.splits)
      with R v show thesis by (intro wrote) (simp_all add: bootstrap_enterprise_workspace_def)
    qed
  qed
qed

lemma sorted_set_simps [simp]:
  "sorted_set (sorted_set xs) = sorted_set xs" "set (sorted_set xs) = set xs"
  "sorted_set xs = [] \<longleftrightarrow> xs = []" "list_all P (sorted_set xs) = list_all P xs"
  by (simp_all add: sorted_set_def sorted_sort_id distinct_remdups_id list_all_iff) (metis remdups_eq_nil_iff set_empty set_sort)

lemma validate_token_SomeD:
  "validate_token t = Some t' \<Longrightarrow> validate_token t' = Some t' \<and>
     t' = t\<lparr>et_allowed_capabilities := sorted_set (et_allowed_capabilities t)\<rparr>"
  by (auto simp: validate_token_def split: if_splits)

lemma validate_request_SomeD:
  "validate_request r = Some r' \<Longrightarrow> validate_request r' = Some r' \<and>
     r' = r\<lparr>nr_capabilities := sorted_set (nr_capabilities r)\<rparr>"
  by (auto simp: validate_request_def split: if_splits)

lemma issue_token_docs: "same_docs (fst (write_enrollment_token E token s)) (fst (issue_token E a token raw s))"
  by (auto simp: issue_token_def Let_def case_prod_beta same_docs_eventD simp del: write_docs split: prod.splits sum.splits)

lemma token_to_issue_SomeD:
  assumes "token_to_issue E a q d1 d2 ws org = Inr (token, raw)"
  shows "validate_token token = Some token" "et_status token = TokenActive" "et_use_count token = 0"
    "et_workspace_id token = tq_workspace_id q" "et_policy_profile token = ew_provider_policy_profile ws"
proof -
  obtain raw where "validate_token raw = Some token" "et_status raw = TokenActive" "et_use_count raw = 0"
    "et_workspace_id raw = tq_workspace_id q" "et_policy_profile raw = ew_provider_policy_profile ws"
    using assms by (auto simp: token_to_issue_def Let_def split: option.splits)
  with validate_token_SomeD [of raw token]
  show "validate_token token = Some token" "et_status token = TokenActive" "et_use_count token = 0"
    "et_workspace_id token = tq_workspace_id q" "et_policy_profile token = ew_provider_policy_profile ws" by auto
qed

lemma create_token_run:
  obtains (none) "fst (create_enrollment_token E actor q d1 d2 s) = s"
  | (wrote) a token workspace organization where
      "actor = Some a" "pd_allowed (actor_decision (en_hash E) s a (tq_workspace_id q) ''agent.enrollment.create'')"
      "get_enterprise_workspace s (tq_workspace_id q) = Some workspace" "est_organization s = Some organization"
      "validate_token token = Some token" "et_status token = TokenActive" "et_use_count token = 0"
      "et_workspace_id token = tq_workspace_id q" "et_policy_profile token = ew_provider_policy_profile workspace"
      "same_docs (fst (write_enrollment_token E token s)) (fst (create_enrollment_token E actor q d1 d2 s))"
proof (cases "\<exists>a workspace organization token raw. actor = Some a \<and>
      pd_allowed (actor_decision (en_hash E) s a (tq_workspace_id q) ''agent.enrollment.create'') \<and>
      get_enterprise_workspace s (tq_workspace_id q) = Some workspace \<and> est_organization s = Some organization \<and>
      token_to_issue E a q d1 d2 workspace organization = Inr (token, raw)")
  case False
  then show thesis
    by (intro none) (auto simp: create_enrollment_token_def Let_def split: option.splits sum.splits)
next
  case True
  then obtain a workspace organization token raw where w: "actor = Some a"
      "pd_allowed (actor_decision (en_hash E) s a (tq_workspace_id q) ''agent.enrollment.create'')"
      "get_enterprise_workspace s (tq_workspace_id q) = Some workspace" "est_organization s = Some organization"
      "token_to_issue E a q d1 d2 workspace organization = Inr (token, raw)" by blast
  then have "create_enrollment_token E actor q d1 d2 s = issue_token E a token raw s"
    by (simp add: create_enrollment_token_def)
  with token_to_issue_SomeD [OF w(5)] issue_token_docs [of E token s a raw]
  show thesis by (intro wrote [OF w(1-4)]) (simp_all del: write_docs)
qed

lemma revoke_run:
  obtains (none) "fst (revoke_enrollment_token E actor token_id reason s) = s"
  | (wrote) a token where
      "actor = Some a" "get_enrollment_token s token_id = Some token"
      "same_docs (fst (write_enrollment_token E (token\<lparr>et_status := TokenRevoked\<rparr>) s))
         (fst (revoke_enrollment_token E actor token_id reason s))"
proof (cases "fst (revoke_enrollment_token E actor token_id reason s) = s")
  case False
  then obtain a token where w: "actor = Some a" "get_enrollment_token s token_id = Some token"
    by (auto simp: revoke_enrollment_token_def Let_def split: option.splits)
  with False show thesis
    by (intro wrote [OF w]) (auto simp: revoke_enrollment_token_def Let_def same_docs_eventD simp del: write_docs
        split: if_splits prod.splits sum.splits)
qed (rule none)

lemma import_request_run:
  obtains (none) "fst (import_enrollment_request E actor request s) = s"
  | (wrote) a token where
      "actor = Some a" "pd_allowed (actor_decision (en_hash E) s a (nr_workspace_id request) ''agent.enrollment.import'')"
      "get_enrollment_token s (nr_token_id request) = Some token"
      "token_blocking_reason (en_clock E 0) (Some token) request = None"
      "same_docs (fst (write_enrollment_request E request s)) (fst (import_enrollment_request E actor request s))"
proof (cases "fst (import_enrollment_request E actor request s) = s")
  case False
  then obtain a where a: "actor = Some a"
    "pd_allowed (actor_decision (en_hash E) s a (nr_workspace_id request) ''agent.enrollment.import'')"
    "token_blocking_reason (en_clock E 0) (get_enrollment_token s (nr_token_id request)) request = None"
    by (auto simp: import_enrollment_request_def Let_def split: option.splits if_splits)
  then obtain token where t: "get_enrollment_token s (nr_token_id request) = Some token"
    by (auto simp: token_blocking_reason_def split: option.splits)
  have "same_docs (fst (write_enrollment_request E request s)) (fst (import_admitted E a request s))"
    by (auto simp: import_admitted_def Let_def case_prod_beta same_docs_eventD simp del: write_docs split: prod.splits sum.splits)
  moreover have "import_enrollment_request E actor request s = import_admitted E a request s"
    using a by (simp add: import_enrollment_request_def)
  ultimately show thesis using a t by (intro wrote [OF a(1,2) t]) (simp_all del: write_docs)
qed (rule none)

lemma approve_run:
  obtains (none) "fst (approve_enrollment_request E actor request_id s) = s"
  | (wrote) a request token agent_principal device_principal device enrollment where
      "actor = Some a" "get_enrollment_request s request_id = Some request"
      "pd_allowed (actor_decision (en_hash E) s a (nr_workspace_id request) ''agent.enrollment.approve'')"
      "get_enrollment_token s (nr_token_id request) = Some token"
      "token_blocking_reason (en_clock E 0) (Some token) request = None"
      "enrollment_principal E 1 (nr_workspace_id request) (nr_agent_id request) (nr_agent_display_name request)
         (et_allowed_principal_type token) = Inr agent_principal"
      "enrollment_principal E 2 (nr_workspace_id request) (nr_device_display_name request)
         (nr_device_display_name request) DeviceHost = Inr device_principal"
      "enrollment_device E request (ep_principal_id device_principal) = Some device"
      "new_enrollment E request token (ep_principal_id agent_principal) (ed_device_id device) = Some enrollment"
      "same_docs (approval_writes E agent_principal device_principal device enrollment token request s)
         (fst (approve_enrollment_request E actor request_id s))"
proof (cases "fst (approve_enrollment_request E actor request_id s) = s")
  case False
  then obtain a request where r: "actor = Some a" "get_enrollment_request s request_id = Some request"
      "pd_allowed (actor_decision (en_hash E) s a (nr_workspace_id request) ''agent.enrollment.approve'')"
      "token_blocking_reason (en_clock E 0) (get_enrollment_token s (nr_token_id request)) request = None"
    by (auto simp: approve_enrollment_request_def Let_def split: option.splits if_splits)
  then obtain token where t: "get_enrollment_token s (nr_token_id request) = Some token"
    by (auto simp: token_blocking_reason_def split: option.splits)
  have eq: "approve_enrollment_request E actor request_id s = approve_admitted E a request token s"
    using r t by (simp add: approve_enrollment_request_def)
  from False [unfolded eq] obtain ap dp d en where w:
      "enrollment_principal E 1 (nr_workspace_id request) (nr_agent_id request) (nr_agent_display_name request)
         (et_allowed_principal_type token) = Inr ap"
      "enrollment_principal E 2 (nr_workspace_id request) (nr_device_display_name request)
         (nr_device_display_name request) DeviceHost = Inr dp"
      "enrollment_device E request (ep_principal_id dp) = Some d"
      "new_enrollment E request token (ep_principal_id ap) (ed_device_id d) = Some en"
    by (auto simp: approve_admitted_def split: sum.splits option.splits)
  have "same_docs (approval_writes E ap dp d en token request s) (fst (approve_admitted E a request token s))"
    using w by (auto simp: approve_admitted_def Let_def same_docs_eventD split: prod.splits sum.splits)
  then have "same_docs (approval_writes E ap dp d en token request s) (fst (approve_enrollment_request E actor request_id s))"
    unfolding eq .
  from wrote [OF r(1-3) t _ w this] r(4) show thesis by (simp add: t)
qed (rule none)

lemma reject_run:
  obtains (none) "fst (reject_enrollment_request E actor request_id reason s) = s"
  | (wrote) request where "get_enrollment_request s request_id = Some request"
      "same_docs (fst (write_enrollment_request E (request\<lparr>nr_status := ReqRejected\<rparr>) s))
         (fst (reject_enrollment_request E actor request_id reason s))"
proof (cases "get_enrollment_request s request_id")
  case None
  then show thesis by (intro none) (simp add: reject_enrollment_request_def)
next
  case (Some request)
  then show thesis
    by (intro wrote [OF Some]) (auto simp: reject_enrollment_request_def Let_def same_docs_eventD simp del: write_docs
        split: option.splits prod.splits sum.splits)
qed

section \<open>Steps and their invariant\<close>

text \<open>One operation under the digest \<open>H\<close>; an imported request is one that validates.\<close>

inductive enterprise_step :: "(string \<Rightarrow> string) \<Rightarrow> enterprise_state \<Rightarrow> enterprise_state \<Rightarrow> bool" for H where
  step_bootstrap: "en_hash E = H \<Longrightarrow> enterprise_step H s (fst (bootstrap_enterprise_workspace E W env q s))"
| step_create_token: "en_hash E = H \<Longrightarrow> enterprise_step H s (fst (create_enrollment_token E actor q d1 d2 s))"
| step_revoke_token: "en_hash E = H \<Longrightarrow> enterprise_step H s (fst (revoke_enrollment_token E actor token_id reason s))"
| step_import: "en_hash E = H \<Longrightarrow> validate_request request = Some request \<Longrightarrow>
    enterprise_step H s (fst (import_enrollment_request E actor request s))"
| step_approve: "en_hash E = H \<Longrightarrow> enterprise_step H s (fst (approve_enrollment_request E actor request_id s))"
| step_reject: "en_hash E = H \<Longrightarrow> enterprise_step H s (fst (reject_enrollment_request E actor request_id reason s))"

text \<open>The operations that write the store in a deployment: those, and the pilot client, which goes past them.\<close>

inductive deployed_step :: "(string \<Rightarrow> string) \<Rightarrow> enterprise_state \<Rightarrow> enterprise_state \<Rightarrow> bool" for H where
  step_operation: "enterprise_step H s t \<Longrightarrow> deployed_step H s t"
| step_pilot: "deployed_step H s (fst (ensure_pilot_enrollment E M s))"

text \<open>A request fits a token: what the admission checks besides expiry.\<close>

definition fits :: "enrollment_request \<Rightarrow> enrollment_token \<Rightarrow> bool" where
  "fits r t \<longleftrightarrow> nr_token_id r = et_token_id t \<and> nr_workspace_id r = et_workspace_id t \<and>
     nr_token_proof_hash r = et_token_hash t \<and> set (nr_capabilities r) \<subseteq> set (et_allowed_capabilities t)"

text \<open>What each directory holds, given the ids or documents of those it refers to.\<close>

definition organization_ok :: "enterprise_organization option \<Rightarrow> bool" where
  "organization_ok org \<longleftrightarrow> (case org of None \<Rightarrow> True | Some v \<Rightarrow> validate_organization v = Some v)"

definition enterprise_workspaces_ok :: "(string \<times> enterprise_workspace) list \<Rightarrow> bool" where
  "enterprise_workspaces_ok ws \<longleftrightarrow> filed ew_workspace_id ws \<and> (\<forall>f \<in> set ws. validate_enterprise_workspace (snd f) = Some (snd f))"

definition principals_ok :: "(string \<times> enterprise_principal) list \<Rightarrow> bool" where
  "principals_ok ps \<longleftrightarrow> filed ep_principal_id ps \<and> (\<forall>f \<in> set ps. ep_status (snd f) = EpActive)"

definition memberships_ok ::
  "(string \<Rightarrow> string) \<Rightarrow> string set \<Rightarrow> string set \<Rightarrow> (string \<times> enterprise_membership) list \<Rightarrow> bool" where
  "memberships_ok H ws ps ms \<longleftrightarrow> filed em_membership_id ms \<and> (\<forall>f \<in> set ms. let m = snd f in
     em_status m = EmActive \<and> em_roles m = [''platform_admin''] \<and>
     em_membership_id m = make_membership_id H (em_workspace_id m) (em_principal_id m) \<and>
     em_workspace_id m \<in> ws \<and> em_principal_id m \<in> ps)"

definition devices_ok :: "(string \<times> enterprise_device) list \<Rightarrow> bool" where
  "devices_ok ds \<longleftrightarrow> filed ed_device_id ds \<and> (\<forall>f \<in> set ds. ed_status (snd f) = DevActive)"

definition tokens_ok :: "string set \<Rightarrow> (string \<times> enrollment_token) list \<Rightarrow> bool" where
  "tokens_ok ws ts \<longleftrightarrow> filed et_token_id ts \<and> (\<forall>f \<in> set ts. let t = snd f in
     validate_token t = Some t \<and> et_status t = TokenActive \<and> et_use_count t = 0 \<and> et_workspace_id t \<in> ws)"

definition requests_ok :: "(string \<times> enrollment_token) list \<Rightarrow> (string \<times> enrollment_request) list \<Rightarrow> bool" where
  "requests_ok ts rs \<longleftrightarrow> filed nr_request_id rs \<and> (\<forall>f \<in> set rs. validate_request (snd f) = Some (snd f) \<and>
     (\<exists>g \<in> set ts. fits (snd f) (snd g)))"

text \<open>An enrolled agent was made from a request and the token it fits.\<close>

definition made_from :: "(string \<Rightarrow> string) \<Rightarrow> enrolled_agent \<Rightarrow> enrollment_request \<Rightarrow> enrollment_token \<Rightarrow> bool" where
  "made_from H a r t \<longleftrightarrow> fits r t \<and> ea_token_id a = et_token_id t \<and> ea_workspace_id a = nr_workspace_id r \<and>
     ea_agent_id a = nr_agent_id r \<and> set (ea_capabilities a) = set (nr_capabilities r) \<and>
     ea_policy_profile a = et_policy_profile t \<and>
     ea_enrollment_id a = enrollment_id_of H (nr_workspace_id r) (nr_agent_id r) \<and>
     ea_principal_id a = enterprise_id H ''principal'' [nr_workspace_id r, nr_agent_id r]"

definition pilot_made :: "enrolled_agent \<Rightarrow> bool" where
  "pilot_made a \<longleftrightarrow> (\<exists>E M. pilot_enrollment E M = Some a)"

definition enrolled_ok ::
  "bool \<Rightarrow> (string \<Rightarrow> string) \<Rightarrow> string set \<Rightarrow> string set \<Rightarrow> (string \<times> enrollment_token) list
     \<Rightarrow> (string \<times> enrollment_request) list \<Rightarrow> (string \<times> enrolled_agent) list \<Rightarrow> bool" where
  "enrolled_ok pilots H ps ds ts rs as \<longleftrightarrow> filed ea_enrollment_id as \<and> (\<forall>f \<in> set as. let a = snd f in
     ea_status a = EnrActive \<and> ((pilots \<and> pilot_made a) \<or>
     ea_principal_id a \<in> ps \<and> ea_device_id a \<in> ds \<and>
     (\<exists>r \<in> set rs. \<exists>t \<in> set ts. made_from H a (snd r) (snd t))))"

definition enterprise_inv :: "bool \<Rightarrow> (string \<Rightarrow> string) \<Rightarrow> enterprise_state \<Rightarrow> bool" where
  "enterprise_inv pilots H s \<longleftrightarrow>
     (let ws = fst ` set (est_workspaces s); ps = fst ` set (est_principals s); ds = fst ` set (est_devices s) in
      organization_ok (est_organization s) \<and> enterprise_workspaces_ok (est_workspaces s) \<and> principals_ok (est_principals s) \<and>
      memberships_ok H ws ps (est_memberships s) \<and> devices_ok (est_devices s) \<and> tokens_ok ws (est_tokens s) \<and>
      requests_ok (est_tokens s) (est_requests s) \<and>
      enrolled_ok pilots H ps ds (est_tokens s) (est_requests s) (est_enrolled s))"

lemma enterprise_inv_empty [simp]: "enterprise_inv pilots H empty_enterprise"
  by (simp add: enterprise_inv_def empty_enterprise_def organization_ok_def enterprise_workspaces_ok_def principals_ok_def memberships_ok_def devices_ok_def
      tokens_ok_def requests_ok_def enrolled_ok_def)

lemma inv_same_docs: "same_docs s t \<Longrightarrow> enterprise_inv pilots H t = enterprise_inv pilots H s"
  by (simp add: enterprise_inv_def same_docs_simps)

lemma grows_same_docs: "same_docs t u \<Longrightarrow> enterprise_grows s u = enterprise_grows s t"
  by (simp add: enterprise_grows_def same_docs_simps)

lemma grows_same: "same_docs s t \<Longrightarrow> enterprise_grows s t"
  by (simp add: enterprise_grows_def same_docs_simps)

lemma write_model_mono:
  "set files \<subseteq> set (fst (write_model E dump dir name m files))"
  "fst ` set files \<subseteq> fst ` set (fst (write_model E dump dir name m files))"
proof -
  show "set files \<subseteq> set (fst (write_model E dump dir name m files))" by (rule set_mono_prefix [OF write_model_prefix])
  then show "fst ` set files \<subseteq> fst ` set (fst (write_model E dump dir name m files))" by (rule image_mono)
qed

lemma write_model_name [simp]: "name \<in> fst ` set (fst (write_model E dump dir name m files))"
proof (rule write_model_cases [of E dump dir name m files])
  assume "fst (write_model E dump dir name m files) = files" "map_of files name \<noteq> None"
  then show ?thesis by (simp add: map_of_eq_None_iff)
qed simp

text \<open>Directories a part refers to may grow.\<close>

lemma ok_mono:
  "memberships_ok H ws ps ms \<Longrightarrow> ws \<subseteq> ws' \<Longrightarrow> ps \<subseteq> ps' \<Longrightarrow> memberships_ok H ws' ps' ms"
  "tokens_ok ws ts \<Longrightarrow> ws \<subseteq> ws' \<Longrightarrow> tokens_ok ws' ts"
  "requests_ok ts rs \<Longrightarrow> set ts \<subseteq> set ts' \<Longrightarrow> requests_ok ts' rs"
  "enrolled_ok pilots H ps ds ts rs as \<Longrightarrow> ps \<subseteq> ps' \<Longrightarrow> ds \<subseteq> ds' \<Longrightarrow> set ts \<subseteq> set ts' \<Longrightarrow> set rs \<subseteq> set rs' \<Longrightarrow>
     enrolled_ok pilots H ps' ds' ts' rs' as"
  unfolding memberships_ok_def tokens_ok_def requests_ok_def enrolled_ok_def Let_def by blast+

text \<open>A write of a document that is as its directory asks.\<close>

lemma ok_write:
  "enterprise_workspaces_ok vs \<Longrightarrow> ew_workspace_id w = n \<Longrightarrow> validate_enterprise_workspace w = Some w \<Longrightarrow>
     enterprise_workspaces_ok (fst (write_model E d0 dir n w vs))"
  "principals_ok ps \<Longrightarrow> ep_principal_id p = n \<Longrightarrow> ep_status p = EpActive \<Longrightarrow> principals_ok (fst (write_model E d1 dir n p ps))"
  "devices_ok ds \<Longrightarrow> ed_device_id d = n \<Longrightarrow> ed_status d = DevActive \<Longrightarrow> devices_ok (fst (write_model E d2 dir n d ds))"
  "memberships_ok H ws is ms \<Longrightarrow> memberships_ok H ws is [(n, m)] \<Longrightarrow> memberships_ok H ws is (fst (write_model E d3 dir n m ms))"
  "tokens_ok ws ts \<Longrightarrow> tokens_ok ws [(n, t)] \<Longrightarrow> tokens_ok ws (fst (write_model E d4 dir n t ts))"
  "requests_ok ts rs \<Longrightarrow> requests_ok ts [(n, r)] \<Longrightarrow> requests_ok ts (fst (write_model E d5 dir n r rs))"
  "enrolled_ok pilots H is js ts rs as \<Longrightarrow> enrolled_ok pilots H is js ts rs [(n, a)] \<Longrightarrow>
     enrolled_ok pilots H is js ts rs (fst (write_model E d6 dir n a as))"
proof -
  show "enterprise_workspaces_ok vs \<Longrightarrow> ew_workspace_id w = n \<Longrightarrow> validate_enterprise_workspace w = Some w \<Longrightarrow>
     enterprise_workspaces_ok (fst (write_model E d0 dir n w vs))"
    by (auto simp: enterprise_workspaces_ok_def filed_write dest!: write_model_set)
  show "principals_ok ps \<Longrightarrow> ep_principal_id p = n \<Longrightarrow> ep_status p = EpActive \<Longrightarrow> principals_ok (fst (write_model E d1 dir n p ps))"
    by (auto simp: principals_ok_def filed_write dest!: write_model_set)
  show "devices_ok ds \<Longrightarrow> ed_device_id d = n \<Longrightarrow> ed_status d = DevActive \<Longrightarrow> devices_ok (fst (write_model E d2 dir n d ds))"
    by (auto simp: devices_ok_def filed_write dest!: write_model_set)
  show "memberships_ok H ws is ms \<Longrightarrow> memberships_ok H ws is [(n, m)] \<Longrightarrow> memberships_ok H ws is (fst (write_model E d3 dir n m ms))"
    by (auto simp: memberships_ok_def filed_write filed_def [of _ "[_]"] dest!: write_model_set)
  show "tokens_ok ws ts \<Longrightarrow> tokens_ok ws [(n, t)] \<Longrightarrow> tokens_ok ws (fst (write_model E d4 dir n t ts))"
    by (auto simp: tokens_ok_def filed_write filed_def [of _ "[_]"] dest!: write_model_set)
  show "requests_ok ts rs \<Longrightarrow> requests_ok ts [(n, r)] \<Longrightarrow> requests_ok ts (fst (write_model E d5 dir n r rs))"
    by (auto simp: requests_ok_def filed_write filed_def [of _ "[_]"] dest!: write_model_set) (metis snd_conv)
  show "enrolled_ok pilots H is js ts rs as \<Longrightarrow> enrolled_ok pilots H is js ts rs [(n, a)] \<Longrightarrow>
     enrolled_ok pilots H is js ts rs (fst (write_model E d6 dir n a as))"
  proof -
    assume a: "enrolled_ok pilots H is js ts rs as" and b: "enrolled_ok pilots H is js ts rs [(n, a)]"
    have "\<forall>f \<in> set as \<union> {(n, a)}. let a = snd f in ea_status a = EnrActive \<and> ((pilots \<and> pilot_made a) \<or>
        ea_principal_id a \<in> is \<and> ea_device_id a \<in> js \<and> (\<exists>r \<in> set rs. \<exists>t \<in> set ts. made_from H a (snd r) (snd t)))"
      using a b unfolding enrolled_ok_def by (metis Un_iff list.simps(15) empty_set)
    moreover have "set (fst (write_model E d6 dir n a as)) \<subseteq> set as \<union> {(n, a)}" by (auto dest: write_model_set)
    moreover have "filed ea_enrollment_id (fst (write_model E d6 dir n a as))"
      using a b by (intro filed_write) (simp_all add: enrolled_ok_def filed_def)
    ultimately show ?thesis unfolding enrolled_ok_def by blast
  qed
qed

lemma inv_write_organization:
  "enterprise_inv pilots H s \<Longrightarrow> validate_organization v = Some v \<Longrightarrow> enterprise_inv pilots H (fst (write_organization E v s))"
  by (rule write_organization_cases [of E v s]) (simp_all add: enterprise_inv_def organization_ok_def)

lemma inv_write_workspace:
  assumes "enterprise_inv pilots H s" "validate_enterprise_workspace w = Some w"
  shows "enterprise_inv pilots H (fst (write_workspace E w s))"
  using assms write_model_mono(2) [of "est_workspaces s" E enterprise_workspace_dump "''workspaces''" "ew_workspace_id w" w]
  unfolding write_docs enterprise_inv_def Let_def by (auto intro: ok_write ok_mono)

lemma inv_write_principal:
  assumes "enterprise_inv pilots H s" "ep_status p = EpActive"
  shows "enterprise_inv pilots H (fst (write_principal E p s))"
  using assms write_model_mono(2) [of "est_principals s" E enterprise_principal_dump "''principals''" "ep_principal_id p" p]
  unfolding write_docs enterprise_inv_def Let_def by (auto intro: ok_write ok_mono)

lemma inv_write_membership:
  assumes "enterprise_inv pilots H s"
    "memberships_ok H (fst ` set (est_workspaces s)) (fst ` set (est_principals s)) [(em_membership_id m, m)]"
  shows "enterprise_inv pilots H (fst (write_membership E m s))"
  using assms unfolding write_docs enterprise_inv_def Let_def by (auto intro: ok_write)

lemma inv_write_device:
  assumes "enterprise_inv pilots H s" "ed_status d = DevActive"
  shows "enterprise_inv pilots H (fst (write_device E d s))"
  using assms write_model_mono(2) [of "est_devices s" E device_dump "''devices''" "ed_device_id d" d]
  unfolding write_docs enterprise_inv_def Let_def by (auto intro: ok_write ok_mono)

lemma inv_write_token:
  assumes "enterprise_inv pilots H s" "tokens_ok (fst ` set (est_workspaces s)) [(et_token_id t, t)]"
  shows "enterprise_inv pilots H (fst (write_enrollment_token E t s))"
  using assms write_model_mono(1) [of "est_tokens s" E token_dump "''enrollment-tokens''" "et_token_id t" t]
  unfolding write_docs enterprise_inv_def Let_def by (auto intro: ok_write ok_mono)

lemma inv_write_request:
  assumes "enterprise_inv pilots H s" "requests_ok (est_tokens s) [(nr_request_id r, r)]"
  shows "enterprise_inv pilots H (fst (write_enrollment_request E r s))"
  using assms write_model_mono(1) [of "est_requests s" E request_dump "''enrollment-requests''" "nr_request_id r" r]
  unfolding write_docs enterprise_inv_def Let_def by (auto intro: ok_write ok_mono)

lemma inv_write_enrolled:
  assumes "enterprise_inv pilots H s"
    "enrolled_ok pilots H (fst ` set (est_principals s)) (fst ` set (est_devices s)) (est_tokens s) (est_requests s) [(ea_enrollment_id a, a)]"
  shows "enterprise_inv pilots H (fst (write_enrolled_agent E a s))"
  using assms unfolding write_docs enterprise_inv_def Let_def by (auto intro: ok_write)

lemma enterprise_invD:
  assumes "enterprise_inv pilots H s"
  shows "filed et_token_id (est_tokens s)" "filed nr_request_id (est_requests s)" "filed ea_enrollment_id (est_enrolled s)"
    "filed ep_principal_id (est_principals s)" "filed ed_device_id (est_devices s)"
    "tokens_ok (fst ` set (est_workspaces s)) (est_tokens s)" "requests_ok (est_tokens s) (est_requests s)"
    "filed ew_workspace_id (est_workspaces s)" "filed em_membership_id (est_memberships s)"
    "enrolled_ok pilots H (fst ` set (est_principals s)) (fst ` set (est_devices s)) (est_tokens s) (est_requests s) (est_enrolled s)"
  using assms by (simp_all add: enterprise_inv_def Let_def tokens_ok_def requests_ok_def enrolled_ok_def
      enterprise_workspaces_ok_def principals_ok_def devices_ok_def memberships_ok_def)

text \<open>A token, request or agent that is stored is not replaced.\<close>

lemma token_kept:
  assumes "enterprise_inv pilots H s" "get_enrollment_token s k = Some t" "et_token_id t' = et_token_id t"
  shows "fst (write_enrollment_token E t' s) = s"
proof -
  have "et_token_id t = k" using filed_id [OF enterprise_invD(1) [OF assms(1)]] assms(2) by (simp add: get_enrollment_token_def)
  then have "map_of (est_tokens s) (et_token_id t') \<noteq> None" using assms(2,3) by (simp add: get_enrollment_token_def)
  from write_model_again [OF this] show ?thesis by simp
qed

lemma request_kept:
  assumes "enterprise_inv pilots H s" "get_enrollment_request s k = Some r" "nr_request_id r' = nr_request_id r"
  shows "fst (write_enrollment_request E r' s) = s"
proof -
  have "nr_request_id r = k" using filed_id [OF enterprise_invD(2) [OF assms(1)]] assms(2) by (simp add: get_enrollment_request_def)
  then have "map_of (est_requests s) (nr_request_id r') \<noteq> None" using assms(2,3) by (simp add: get_enrollment_request_def)
  from write_model_again [OF this] show ?thesis by simp
qed

lemma get_in_docs:
  "get_enrollment_token s k = Some t \<Longrightarrow> (k, t) \<in> set (est_tokens s)"
  "get_enrollment_request s k = Some r \<Longrightarrow> (k, r) \<in> set (est_requests s)"
  "get_enterprise_workspace s k = Some w \<Longrightarrow> k \<in> fst ` set (est_workspaces s)"
  by (auto simp: get_enrollment_token_def get_enrollment_request_def get_enterprise_workspace_def dest!: map_of_SomeD intro: rev_image_eqI)

lemma fits_if_admitted:
  assumes "enterprise_inv pilots H s" "get_enrollment_token s (nr_token_id r) = Some t" "token_blocking_reason now (Some t) r = None"
  shows "fits r t"
proof -
  have "et_token_id t = nr_token_id r"
    using filed_id [OF enterprise_invD(1) [OF assms(1)]] assms(2) by (simp add: get_enrollment_token_def)
  with assms(3) show ?thesis by (auto simp: token_blocking_reason_def fits_def split: if_splits)
qed

lemma inv_bootstrap_writes:
  assumes inv: "enterprise_inv pilots H s" and valid: "validate_organization org = Some org" "validate_enterprise_workspace ws = Some ws"
    and ok: "ep_status p = EpActive" "em_workspace_id m = ew_workspace_id ws"
    "em_principal_id m = ep_principal_id p" "em_status m = EmActive" "em_roles m = [''platform_admin'']"
    "em_membership_id m = make_membership_id H (em_workspace_id m) (em_principal_id m)"
  shows "enterprise_inv pilots H (fst (bootstrap_writes E org ws p m s))"
proof -
  let ?s1 = "fst (write_organization E org s)" let ?s2 = "fst (write_workspace E ws ?s1)"
  let ?s3 = "fst (write_principal E p ?s2)"
  have 3: "enterprise_inv pilots H ?s3" by (intro inv_write_principal inv_write_workspace inv_write_organization inv valid ok)
  have "memberships_ok H (fst ` set (est_workspaces ?s3)) (fst ` set (est_principals ?s3)) [(em_membership_id m, m)]"
    using ok by (simp add: memberships_ok_def filed_def)
  from inv_write_membership [OF 3 this] show ?thesis by (simp add: bootstrap_writes_def Let_def case_prod_beta)
qed

lemma build_bootstrap_principal_Inr:
  "build_bootstrap_principal E a = Inr p \<Longrightarrow> ep_status p = EpActive \<and> ep_principal_id p = principal_id_for_actor (en_hash E) a"
  by (auto simp: build_bootstrap_principal_def validate_enterprise_principal_def split: option.splits if_splits)

lemma validate_enterprise_membership_SomeD:
  "validate_enterprise_membership m = Some m' \<Longrightarrow> m' = m\<lparr>em_roles := sorted_set (em_roles m)\<rparr>"
  by (auto simp: validate_enterprise_membership_def split: if_splits)

lemma inv_bootstrap:
  assumes "enterprise_inv pilots H s" "en_hash E = H"
  shows "enterprise_inv pilots H (fst (bootstrap_enterprise_workspace E W env q s))"
proof (cases rule: bootstrap_run [of s E W env q])
  case none
  then show ?thesis using assms by (simp add: inv_same_docs)
next
  case (wrote actor p org ws m)
  have "enterprise_inv pilots H (fst (bootstrap_writes E org ws p m s))"
    using build_bootstrap_principal_Inr [OF wrote(2)] wrote(3,4) validate_enterprise_membership_SomeD [OF wrote(5)] assms
    by (intro inv_bootstrap_writes) (auto simp: bootstrap_membership_def bootstrap_workspace_def
        validate_organization_def validate_enterprise_workspace_def sorted_set_def split: if_splits)
  then show ?thesis using wrote(6) by (simp add: inv_same_docs)
qed

lemma enrollment_principal_Inr:
  "enrollment_principal E n w x d ty = Inr p \<Longrightarrow> ep_status p = EpActive \<and>
     ep_principal_id p = enterprise_id (en_hash E) ''principal'' [w, x]"
  by (auto simp: enrollment_principal_def Let_def validate_enterprise_principal_def split: option.splits if_splits)

lemma enrollment_device_Some:
  "enrollment_device E r p = Some d \<Longrightarrow> ed_status d = DevActive \<and>
     ed_device_id d = enterprise_id (en_hash E) ''device'' [nr_workspace_id r, nr_device_display_name r] \<and>
     ed_principal_id d = p \<and> ed_workspace_id d = nr_workspace_id r"
  by (auto simp: enrollment_device_def validate_device_def split: if_splits)

lemma new_enrollment_Some:
  "new_enrollment E r t p d = Some a \<Longrightarrow> ea_status a = EnrActive \<and> ea_principal_id a = p \<and> ea_device_id a = d \<and>
     ea_token_id a = nr_token_id r \<and> ea_workspace_id a = nr_workspace_id r \<and> ea_agent_id a = nr_agent_id r \<and>
     set (ea_capabilities a) = set (nr_capabilities r) \<and> ea_policy_profile a = et_policy_profile t \<and>
     ea_enrollment_id a = enrollment_id_of (en_hash E) (nr_workspace_id r) (nr_agent_id r)"
  by (auto simp: new_enrollment_def validate_enrolled_def split: if_splits)

text \<open>The last two writes of an approval change nothing.\<close>

lemma approval_writes_kept:
  assumes "enterprise_inv pilots H s" "get_enrollment_request s k = Some r" "get_enrollment_token s (nr_token_id r) = Some t"
  shows "approval_writes E ap dp d a t r s =
    fst (write_enrolled_agent E a (fst (write_device E d (fst (write_principal E dp (fst (write_principal E ap s)))))))"
proof -
  let ?u = "fst (write_enrolled_agent E a (fst (write_device E d (fst (write_principal E dp (fst (write_principal E ap s)))))))"
  have ids: "map_of (est_tokens s) (et_token_id t) \<noteq> None" "map_of (est_requests s) (nr_request_id r) \<noteq> None"
    using filed_id [OF enterprise_invD(1) [OF assms(1)]] filed_id [OF enterprise_invD(2) [OF assms(1)]] assms(2,3)
    by (auto simp: get_enrollment_token_def get_enrollment_request_def)
  then show ?thesis by (simp add: approval_writes_def Let_def write_model_again)
qed

lemma inv_approve:
  assumes inv: "enterprise_inv pilots H s" and E: "en_hash E = H"
  shows "enterprise_inv pilots H (fst (approve_enrollment_request E actor k s))"
proof (cases rule: approve_run [of E actor k s])
  case none
  then show ?thesis using assms by simp
next
  case (wrote a r t ap dp d en)
  let ?s2 = "fst (write_principal E dp (fst (write_principal E ap s)))" let ?s3 = "fst (write_device E d ?s2)"
  have 3: "enterprise_inv pilots H ?s3"
    using enrollment_principal_Inr [OF wrote(6)] enrollment_principal_Inr [OF wrote(7)] enrollment_device_Some [OF wrote(8)]
    by (intro inv_write_device inv_write_principal inv) simp_all
  have n: "ea_principal_id en = ep_principal_id ap" "ea_device_id en = ed_device_id d" "ea_status en = EnrActive"
    using new_enrollment_Some [OF wrote(9)] by simp_all
  have "ep_principal_id ap \<in> fst ` set (est_principals ?s3)" "ed_device_id d \<in> fst ` set (est_devices ?s3)"
    using subsetD [OF write_model_mono(2) write_model_name] by simp_all
  moreover have "(k, r) \<in> set (est_requests ?s3)" "(nr_token_id r, t) \<in> set (est_tokens ?s3)"
    using get_in_docs(1) [OF wrote(4)] get_in_docs(2) [OF wrote(2)] by simp_all
  moreover have "made_from H en r t"
    using fits_if_admitted [OF inv wrote(4,5)] new_enrollment_Some [OF wrote(9)] enrollment_principal_Inr [OF wrote(6)] E
    by (auto simp: made_from_def fits_def)
  ultimately have "enrolled_ok pilots H (fst ` set (est_principals ?s3)) (fst ` set (est_devices ?s3)) (est_tokens ?s3) (est_requests ?s3)
      [(ea_enrollment_id en, en)]"
    unfolding enrolled_ok_def Let_def using n by (force simp: filed_def simp del: write_docs)
  from inv_write_enrolled [OF 3 this] wrote(10) show ?thesis
    by (simp add: approval_writes_kept [OF inv wrote(2,4)] inv_same_docs del: write_docs)
qed

lemma inv_create_token:
  assumes inv: "enterprise_inv pilots H s"
  shows "enterprise_inv pilots H (fst (create_enrollment_token E actor q d1 d2 s))"
proof (cases rule: create_token_run [of E actor q d1 d2 s])
  case none
  then show ?thesis using assms by simp
next
  case (wrote a t w org)
  have "tokens_ok (fst ` set (est_workspaces s)) [(et_token_id t, t)]"
    using wrote(5-8) get_in_docs(3) [OF wrote(3)] by (simp add: tokens_ok_def filed_def)
  from inv_write_token [OF inv this] wrote(10) show ?thesis by (simp add: inv_same_docs del: write_docs)
qed

lemma inv_import:
  assumes inv: "enterprise_inv pilots H s" and valid: "validate_request r = Some r"
  shows "enterprise_inv pilots H (fst (import_enrollment_request E actor r s))"
proof (cases rule: import_request_run [of E actor r s])
  case none
  then show ?thesis using assms by simp
next
  case (wrote a t)
  have "requests_ok (est_tokens s) [(nr_request_id r, r)]"
    using fits_if_admitted [OF inv wrote(3,4)] get_in_docs(1) [OF wrote(3)] valid by (force simp: requests_ok_def filed_def)
  from inv_write_request [OF inv this] wrote(5) show ?thesis by (simp add: inv_same_docs del: write_docs)
qed

text \<open>Revoking a token and rejecting a request leave every document as it was.\<close>

lemma revoke_docs:
  assumes inv: "enterprise_inv pilots H s"
  shows "same_docs s (fst (revoke_enrollment_token E actor token_id reason s))"
proof (cases rule: revoke_run [of E actor token_id reason s])
  case (wrote a t)
  then show ?thesis using token_kept [OF inv wrote(2), of "t\<lparr>et_status := TokenRevoked\<rparr>" E] by simp
qed simp

lemma reject_docs:
  assumes inv: "enterprise_inv pilots H s"
  shows "same_docs s (fst (reject_enrollment_request E actor k reason s))"
proof (cases rule: reject_run [of E actor k reason s])
  case (wrote r)
  then show ?thesis using request_kept [OF inv wrote(1), of "r\<lparr>nr_status := ReqRejected\<rparr>" E] by simp
qed simp

lemma enterprise_inv_step: "enterprise_step H s t \<Longrightarrow> enterprise_inv pilots H s \<Longrightarrow> enterprise_inv pilots H t"
proof (induction rule: enterprise_step.induct)
  case (step_revoke_token E s actor token_id reason)
  then show ?case using inv_same_docs [OF revoke_docs] by blast
next
  case (step_reject E s actor request_id reason)
  then show ?case using inv_same_docs [OF reject_docs] by blast
qed (auto intro: inv_bootstrap inv_create_token inv_import inv_approve)

lemma inv_pilot: "enterprise_inv True H s \<Longrightarrow> enterprise_inv True H (fst (ensure_pilot_enrollment E M s))"
proof (cases "pilot_enrollment E M")
  case (Some a)
  assume inv: "enterprise_inv True H s"
  have "pilot_made a" using Some by (auto simp: pilot_made_def)
  then have "enrolled_ok True H (fst ` set (est_principals s)) (fst ` set (est_devices s)) (est_tokens s) (est_requests s)
      [(ea_enrollment_id a, a)]"
    using pilot_enrollment_Some [OF Some] by (simp add: enrolled_ok_def filed_def)
  from inv_write_enrolled [OF inv this] Some show ?thesis by (simp add: ensure_pilot_enrollment_def del: write_docs)
qed (simp add: ensure_pilot_enrollment_def)

lemma deployed_inv_step: "deployed_step H s t \<Longrightarrow> enterprise_inv True H s \<Longrightarrow> enterprise_inv True H t"
  by (erule deployed_step.cases) (auto intro: enterprise_inv_step inv_pilot simp del: write_docs)

section \<open>Directories only grow\<close>

lemma grows_write [simp]:
  "enterprise_grows s (fst (write_organization E org s))"
  "enterprise_grows s (fst (write_workspace E w s))" "enterprise_grows s (fst (write_principal E p s))"
  "enterprise_grows s (fst (write_membership E m s))" "enterprise_grows s (fst (write_device E d s))"
  "enterprise_grows s (fst (write_enrollment_token E t s))" "enterprise_grows s (fst (write_enrollment_request E r s))"
  "enterprise_grows s (fst (write_enrolled_agent E a s))"
proof -
  show "enterprise_grows s (fst (write_organization E org s))"
    by (rule write_organization_cases [of E org s]) (simp_all add: enterprise_grows_def)
qed (simp_all add: enterprise_grows_def write_model_prefix)

lemmas grows_then = grows_write [THEN grows_trans [rotated]]

lemma grows_bootstrap_writes: "enterprise_grows s (fst (bootstrap_writes E org ws p m s))"
  unfolding bootstrap_writes_def Let_def case_prod_beta fst_conv by (intro grows_then grows_refl)

lemma grows_approval_writes: "enterprise_grows s (approval_writes E ap dp d a t r s)"
  unfolding approval_writes_def Let_def by (intro grows_then grows_refl)

lemma enterprise_grows_step: "enterprise_step H s t \<Longrightarrow> enterprise_grows s t"
proof (induction rule: enterprise_step.induct)
  case (step_bootstrap E s W env q)
  show ?case by (rule bootstrap_run [of s E W env q]) (simp_all add: grows_same grows_same_docs grows_bootstrap_writes)
next
  case (step_create_token E s actor q d1 d2)
  show ?case by (rule create_token_run [of E actor q d1 d2 s]) (simp_all add: grows_same_docs del: write_docs)
next
  case (step_revoke_token E s actor token_id reason)
  show ?case by (rule revoke_run [of E actor token_id reason s]) (simp_all add: grows_same_docs del: write_docs)
next
  case (step_import E request s actor)
  show ?case by (rule import_request_run [of E actor request s]) (simp_all add: grows_same_docs del: write_docs)
next
  case (step_approve E s actor request_id)
  show ?case by (rule approve_run [of E actor request_id s]) (simp_all add: grows_same_docs grows_approval_writes)
next
  case (step_reject E s actor request_id reason)
  show ?case by (rule reject_run [of E actor request_id reason s]) (simp_all add: grows_same_docs del: write_docs)
qed

lemma deployed_grows_step: "deployed_step H s t \<Longrightarrow> enterprise_grows s t"
proof (induction rule: deployed_step.induct)
  case (step_operation s t)
  then show ?case by (rule enterprise_grows_step)
next
  case (step_pilot s E M)
  show ?case by (cases "pilot_enrollment E M") (simp_all add: ensure_pilot_enrollment_def del: write_docs)
qed

interpretation enterprise: history_machine "enterprise_step H" "enterprise_inv pilots H" enterprise_grows for pilots H
  by unfold_locales (auto intro: enterprise_inv_step enterprise_grows_step grows_trans)

interpretation deployed: history_machine "deployed_step H" "enterprise_inv True H" enterprise_grows for H
  by unfold_locales (auto intro: deployed_inv_step deployed_grows_step grows_trans)

end
