(* ===== verification/Enrollment_Props.thy ===== *)
theory Enrollment_Props imports Enrollment_Machine Identity_Props begin

text \<open>
  Properties of enterprise workspaces and agent enrollment: who becomes enrolled and on what, what
  revocation and rejection do, who may bootstrap, and that an honest enrollment completes.
\<close>

section \<open>Reading the store\<close>

lemma enterprise_reachable: "(enterprise_step H)\<^sup>*\<^sup>* empty_enterprise s \<Longrightarrow> enterprise_inv False H s"
  by (erule enterprise.run_inv) simp

lemma deployed_reachable: "(deployed_step H)\<^sup>*\<^sup>* empty_enterprise s \<Longrightarrow> enterprise_inv True H s"
  by (erule deployed.run_inv) simp

lemma enrolled_unique:
  assumes "enterprise_inv False H s" "(k, a) \<in> set (est_enrolled s)"
  shows "k = enrollment_id_of H (ea_workspace_id a) (ea_agent_id a)" "map_of (est_enrolled s) k = Some a"
proof -
  have ok: "enrolled_ok False H (fst ` set (est_principals s)) (fst ` set (est_devices s)) (est_tokens s) (est_requests s) (est_enrolled s)"
    using enterprise_invD(10) [OF assms(1)] .
  then have f: "filed ea_enrollment_id (est_enrolled s)" by (simp add: enrolled_ok_def)
  have "ea_enrollment_id a = enrollment_id_of H (ea_workspace_id a) (ea_agent_id a)"
    using ok assms(2) by (fastforce simp: enrolled_ok_def made_from_def Let_def)
  then show "k = enrollment_id_of H (ea_workspace_id a) (ea_agent_id a)" using f assms(2) by (auto simp: filed_def)
  show "map_of (est_enrolled s) k = Some a" using f assms(2) by (simp add: filed_get)
qed

lemma find_agent:
  assumes "get_enrolled_agent_by_agent_id s agent ws = Some a"
  shows "\<exists>k. (k, a) \<in> set (est_enrolled s)" "ea_agent_id a = agent" "ws = None \<or> ws = Some (ea_workspace_id a)"
proof -
  have f: "a \<in> set (list_enrolled_agents s ws)" "ea_agent_id a = agent"
    using find_eq_SomeD assms unfolding get_enrolled_agent_by_agent_id_def by fastforce+
  then show "\<exists>k. (k, a) \<in> set (est_enrolled s)" "ea_agent_id a = agent" "ws = None \<or> ws = Some (ea_workspace_id a)"
    by (auto simp: list_enrolled_agents_def of_key_def split: option.splits)
qed

lemma enrolled_okD:
  assumes "enrolled_ok pilots H ps ds ts rs as" "(k, a) \<in> set as"
  shows "ea_status a = EnrActive"
    "pilots \<and> pilot_made a \<or> ea_principal_id a \<in> ps \<and> ea_device_id a \<in> ds \<and>
       (\<exists>i r j t. (i, r) \<in> set rs \<and> (j, t) \<in> set ts \<and> made_from H a r t)"
proof -
  have "let a = snd (k, a) in ea_status a = EnrActive \<and> (pilots \<and> pilot_made a \<or> ea_principal_id a \<in> ps \<and> ea_device_id a \<in> ds \<and>
     (\<exists>r \<in> set rs. \<exists>t \<in> set ts. made_from H a (snd r) (snd t)))"
    using assms unfolding enrolled_ok_def by blast
  then show "ea_status a = EnrActive"
    "pilots \<and> pilot_made a \<or> ea_principal_id a \<in> ps \<and> ea_device_id a \<in> ds \<and>
       (\<exists>i r j t. (i, r) \<in> set rs \<and> (j, t) \<in> set ts \<and> made_from H a r t)"
    by (auto simp: Let_def) blast+
qed

lemma tokens_okD:
  assumes "tokens_ok ws ts" "(k, t) \<in> set ts"
  shows "validate_token t = Some t" "et_status t = TokenActive" "et_use_count t = 0" "et_workspace_id t \<in> ws"
proof -
  have "let t = snd (k, t) in validate_token t = Some t \<and> et_status t = TokenActive \<and> et_use_count t = 0 \<and> et_workspace_id t \<in> ws"
    using assms unfolding tokens_ok_def by blast
  then show "validate_token t = Some t" "et_status t = TokenActive" "et_use_count t = 0" "et_workspace_id t \<in> ws"
    by (simp_all add: Let_def)
qed

lemma memberships_okD:
  assumes "memberships_ok H ws ps ms" "(k, m) \<in> set ms"
  shows "em_status m = EmActive" "em_roles m = [''platform_admin'']"
    "em_membership_id m = make_membership_id H (em_workspace_id m) (em_principal_id m)"
proof -
  have "let m = snd (k, m) in em_status m = EmActive \<and> em_roles m = [''platform_admin''] \<and>
     em_membership_id m = make_membership_id H (em_workspace_id m) (em_principal_id m) \<and>
     em_workspace_id m \<in> ws \<and> em_principal_id m \<in> ps"
    using assms unfolding memberships_ok_def by blast
  then show "em_status m = EmActive" "em_roles m = [''platform_admin'']"
    "em_membership_id m = make_membership_id H (em_workspace_id m) (em_principal_id m)" by (simp_all add: Let_def)
qed

lemma find_agent_iff:
  assumes "enterprise_inv False H s"
  shows "get_enrolled_agent_by_agent_id s agent (Some ws) = map_of (est_enrolled s) (enrollment_id_of H ws agent)
    \<or> get_enrolled_agent_by_agent_id s agent (Some ws) = None"
proof (cases "get_enrolled_agent_by_agent_id s agent (Some ws)")
  case (Some a)
  from find_agent [OF Some] obtain k where "(k, a) \<in> set (est_enrolled s)" "ea_agent_id a = agent" "ea_workspace_id a = ws"
    by auto
  with enrolled_unique [OF assms, of k a] Some show ?thesis by simp
qed simp

lemma find_agent_there:
  assumes "enterprise_inv False H s" "(k, a) \<in> set (est_enrolled s)" "ea_agent_id a = agent" "ea_workspace_id a = ws"
  shows "get_enrolled_agent_by_agent_id s agent (Some ws) = Some a"
proof -
  have "a \<in> set (list_enrolled_agents s (Some ws))"
    using assms by (force simp: list_enrolled_agents_def of_key_def)
  then have "get_enrolled_agent_by_agent_id s agent (Some ws) \<noteq> None"
    using assms(3) by (auto simp: get_enrolled_agent_by_agent_id_def find_None_iff)
  with find_agent_iff [OF assms(1), of agent ws] enrolled_unique [OF assms(1,2)] assms(3,4) show ?thesis by auto
qed

text \<open>In a reachable store every enrolled agent passes the check.\<close>

lemma require_active_iff:
  assumes "enterprise_inv pilots H s"
  shows "require_active_enrollment s agent ws =
    (case get_enrolled_agent_by_agent_id s agent ws of None \<Rightarrow> Inl ''AGENT_NOT_ENROLLED'' | Some a \<Rightarrow> Inr a)"
proof (cases "get_enrolled_agent_by_agent_id s agent ws")
  case None
  then show ?thesis by (simp add: require_active_enrollment_def)
next
  case (Some a)
  from find_agent(1) [OF Some] obtain k where "(k, a) \<in> set (est_enrolled s)" by blast
  then have "ea_status a = EnrActive" by (rule enrolled_okD(1) [OF enterprise_invD(10) [OF assms]])
  moreover have "devices_ok (est_devices s)" "principals_ok (est_principals s)"
    using assms by (simp_all add: enterprise_inv_def Let_def)
  then have "\<And>d. get_device s (ea_device_id a) = Some d \<Longrightarrow> ed_status d = DevActive"
    "\<And>p. get_enterprise_principal s (ea_principal_id a) = Some p \<Longrightarrow> ep_status p = EpActive"
    by (fastforce simp: devices_ok_def principals_ok_def get_device_def get_enterprise_principal_def dest!: map_of_SomeD)+
  ultimately show ?thesis using Some by (auto simp: require_active_enrollment_def split: option.splits)
qed

section \<open>Who is enrolled\<close>

lemma pd_allowed_role: "pd_allowed (check_roles_for_permission roles perm) \<Longrightarrow> roles \<noteq> []"
  by (auto simp: check_roles_for_permission_def permissions_for_roles_def Let_def)

lemma allowed_member:
  assumes "pd_allowed (actor_decision H s a ws perm)"
  obtains m where "m \<in> snd ` set (est_memberships s)" "em_workspace_id m = ws" "em_status m = EmActive"
    "em_principal_id m = principal_id_for_actor H a"
proof -
  have "roles_for_actor H s a ws \<noteq> []" using pd_allowed_role assms unfolding actor_decision_def by blast
  then have "filter (\<lambda>m. em_status m = EmActive) (list_memberships s (Some ws) (Some (principal_id_for_actor H a))) \<noteq> []"
    unfolding roles_for_actor_def by (cases "filter (\<lambda>m. em_status m = EmActive) (list_memberships s (Some ws) (Some (principal_id_for_actor H a)))") auto
  then obtain m where "m \<in> set (list_memberships s (Some ws) (Some (principal_id_for_actor H a)))" "em_status m = EmActive"
    by (auto simp: filter_empty_conv)
  then show thesis by (intro that [of m]) (auto simp: list_memberships_def of_key_def)
qed

text \<open>
  C29: Where the enrollment behind an answer of the check comes from, in any store that a deployment
  reaches.  Either it was made from a stored request and the stored token the request fits: the same
  token id and workspace, the proof equal to the token's digest, the capabilities within those the token
  allows, the policy profile the token's, and the workspace, the principal and the device stored; or it
  is the one the pilot client writes for the agent of a manifest, in the workspace \<open>pilot-workspace\<close>,
  which nothing stored stands behind.
\<close>

theorem enrollment_backed:
  assumes "(deployed_step H)\<^sup>*\<^sup>* empty_enterprise s" "require_active_enrollment s agent ws = Inr a"
  shows "(\<exists>E M. pilot_enrollment E M = Some a \<and> pm_agent_id M = agent \<and> (ws = None \<or> ws = Some ''pilot-workspace'')) \<or>
    (\<exists>r t. get_enrollment_request s (nr_request_id r) = Some r \<and> get_enrollment_token s (ea_token_id a) = Some t \<and>
    nr_agent_id r = agent \<and> (ws = None \<or> ws = Some (nr_workspace_id r)) \<and> made_from H a r t \<and>
    get_enterprise_workspace s (et_workspace_id t) \<noteq> None \<and> get_enterprise_principal s (ea_principal_id a) \<noteq> None \<and>
    get_device s (ea_device_id a) \<noteq> None)"
proof -
  have inv: "enterprise_inv True H s" using deployed_reachable [OF assms(1)] .
  have a: "get_enrolled_agent_by_agent_id s agent ws = Some a"
    using assms(2) by (auto simp: require_active_iff [OF inv] split: option.splits)
  from find_agent [OF a] obtain k where k: "(k, a) \<in> set (est_enrolled s)" and
    w: "ea_agent_id a = agent" "ws = None \<or> ws = Some (ea_workspace_id a)" by blast
  from enrolled_okD(2) [OF enterprise_invD(10) [OF inv] k] consider (pilot) "pilot_made a"
    | (backed) i r j t where "(i, r) \<in> set (est_requests s)" "(j, t) \<in> set (est_tokens s)"
    "made_from H a r t" "ea_principal_id a \<in> fst ` set (est_principals s)" "ea_device_id a \<in> fst ` set (est_devices s)"
    by blast
  then show ?thesis
  proof cases
    case pilot
    then obtain E M where M: "pilot_enrollment E M = Some a" by (auto simp: pilot_made_def)
    then show ?thesis using w pilot_enrollment_Some [OF M] unfolding pilot_workspace_def by metis
  next
    case rt: backed
    have "map_of (est_requests s) (nr_request_id r) = Some r" "map_of (est_tokens s) (et_token_id t) = Some t"
      using rt(1,2) enterprise_invD(1,2) [OF inv] by (auto simp: filed_get) (auto simp: filed_def)
  moreover have "et_workspace_id t \<in> fst ` set (est_workspaces s)"
    by (rule tokens_okD(4) [OF enterprise_invD(6) [OF inv] rt(2)])
  ultimately have "get_enrollment_request s (nr_request_id r) = Some r \<and> get_enrollment_token s (ea_token_id a) = Some t \<and>
    nr_agent_id r = agent \<and> (ws = None \<or> ws = Some (nr_workspace_id r)) \<and> made_from H a r t \<and>
    get_enterprise_workspace s (et_workspace_id t) \<noteq> None \<and> get_enterprise_principal s (ea_principal_id a) \<noteq> None \<and>
    get_device s (ea_device_id a) \<noteq> None"
    using rt(3-5) w by (auto simp: get_enrollment_request_def get_enrollment_token_def made_from_def
        get_enterprise_workspace_def get_enterprise_principal_def get_device_def map_of_eq_None_iff)
  then show ?thesis by blast
  qed
qed

text \<open>An approval that adds an agent: who made it, for which request, on which token.\<close>

definition approval_adds :: "(string \<Rightarrow> string) \<Rightarrow> enterprise_state \<Rightarrow> enterprise_state \<Rightarrow> bool" where
  "approval_adds H s t \<longleftrightarrow> (\<exists>E a k r token en. t = fst (approve_enrollment_request E (Some a) k s) \<and> en_hash E = H \<and>
    get_enrollment_request s k = Some r \<and> get_enrollment_token s (nr_token_id r) = Some token \<and>
    en_clock E 0 \<le> et_expires_at token \<and> made_from H en r token \<and> est_enrolled t = est_enrolled s @ [(ea_enrollment_id en, en)] \<and>
    pd_allowed (actor_decision H s a (nr_workspace_id r) ''agent.enrollment.approve'') \<and>
    (\<exists>m \<in> snd ` set (est_memberships s). em_workspace_id m = nr_workspace_id r \<and> em_status m = EmActive \<and>
       em_principal_id m = principal_id_for_actor H a))"

lemma operation_gated:
  assumes inv: "enterprise_inv pilots H s" and st: "enterprise_step H s t" and ne: "est_enrolled t \<noteq> est_enrolled s"
  shows "approval_adds H s t"
  using st
proof cases
  case (step_approve E actor k)
  show ?thesis
  proof (cases rule: approve_run [of E actor k s])
    case none
    then show ?thesis using ne step_approve by simp
  next
    case (wrote a r token ap dp d en)
    have t: "est_enrolled t = fst (write_model E enrolled_dump ''enrolled-agents'' (ea_enrollment_id en) en (est_enrolled s))"
      using same_docs_simps(8) [OF wrote(10)] approval_writes_kept [OF inv wrote(2,4)] step_approve by simp
    then have "est_enrolled t = est_enrolled s @ [(ea_enrollment_id en, en)]"
      using ne by (cases rule: write_model_cases [of E enrolled_dump "''enrolled-agents''" "ea_enrollment_id en" en "est_enrolled s"]) auto
    moreover have "made_from H en r token"
      using fits_if_admitted [OF inv wrote(4,5)] new_enrollment_Some [OF wrote(9)] enrollment_principal_Inr [OF wrote(6)] step_approve
      by (auto simp: made_from_def fits_def)
    moreover have "en_clock E 0 \<le> et_expires_at token" using wrote(5) by (auto simp: token_blocking_reason_def split: if_splits)
    ultimately show ?thesis using step_approve wrote(1-4) allowed_member [OF wrote(3)] unfolding approval_adds_def
      by (intro exI [of _ E] exI [of _ a] exI [of _ k] exI [of _ r] exI [of _ token] exI [of _ en]) (auto, blast?)
  qed
next
  case (step_bootstrap E W env q)
  have "est_enrolled t = est_enrolled s"
  proof (cases rule: bootstrap_run [of s E W env q])
    case none
    then show ?thesis using step_bootstrap by (simp add: same_docs_simps)
  next
    case (wrote actor p org ws m)
    from same_docs_simps(8) [OF wrote(6)] show ?thesis unfolding step_bootstrap
      by (rule trans) (rule write_organization_cases [of E org s]; simp add: bootstrap_writes_def Let_def case_prod_beta)
  qed
  with ne show ?thesis by simp
next
  case (step_create_token E actor q d1 d2)
  have "est_enrolled t = est_enrolled s"
    unfolding step_create_token by (rule create_token_run [of E actor q d1 d2 s]) (simp_all add: same_docs_simps)
  with ne show ?thesis by simp
next
  case (step_revoke_token E actor k reason)
  have "est_enrolled t = est_enrolled s"
    unfolding step_revoke_token by (rule revoke_run [of E actor k reason s]) (simp_all add: same_docs_simps)
  with ne show ?thesis by simp
next
  case (step_import E r actor)
  have "est_enrolled t = est_enrolled s"
    unfolding step_import by (rule import_request_run [of E actor r s]) (simp_all add: same_docs_simps)
  with ne show ?thesis by simp
next
  case (step_reject E actor k reason)
  have "est_enrolled t = est_enrolled s"
    unfolding step_reject by (rule reject_run [of E actor k reason s]) (simp_all add: same_docs_simps)
  with ne show ?thesis by simp
qed

text \<open>
  C30: The enrolled agents of a deployment change in two ways only, each of which adds one agent at the
  end.  Either by an approval: for a stored request and the stored token it fits, not expired at that
  moment, by an actor with an active membership in the workspace of the request whose roles have the
  permission to approve.  Or by the pilot client, which writes the enrollment of its manifest without any
  of that.
\<close>

theorem enrollment_gated:
  assumes "(deployed_step H)\<^sup>*\<^sup>* empty_enterprise s" "deployed_step H s t" "est_enrolled t \<noteq> est_enrolled s"
  shows "approval_adds H s t \<or>
    (\<exists>E M en. t = fst (ensure_pilot_enrollment E M s) \<and> pilot_enrollment E M = Some en \<and>
       est_enrolled t = est_enrolled s @ [(ea_enrollment_id en, en)])"
  using assms(2)
proof cases
  case step_operation
  then show ?thesis using operation_gated [OF deployed_reachable [OF assms(1)] _ assms(3)] by blast
next
  case (step_pilot E M)
  show ?thesis
  proof (cases "pilot_enrollment E M")
    case None
    then show ?thesis using step_pilot assms(3) by (simp add: ensure_pilot_enrollment_def)
  next
    case (Some en)
    have t: "est_enrolled t = fst (write_model E enrolled_dump ''enrolled-agents'' (ea_enrollment_id en) en (est_enrolled s))"
      using step_pilot Some by (simp add: ensure_pilot_enrollment_def)
    then have "est_enrolled t = est_enrolled s @ [(ea_enrollment_id en, en)]" using assms(3)
      by (cases rule: write_model_cases [of E enrolled_dump "''enrolled-agents''" "ea_enrollment_id en" en "est_enrolled s"]) auto
    then show ?thesis using step_pilot Some by blast
  qed
qed

text \<open>
  So the pilot client's agent always passes the check of \<open>pilot-workspace\<close>, in every store that a
  deployment reaches, the empty one included.
\<close>

lemma pilot_enrolls_itself:
  assumes "(deployed_step H)\<^sup>*\<^sup>* empty_enterprise s" "pilot_enrollment E M = Some a"
  shows "\<exists>b. require_active_enrollment (fst (ensure_pilot_enrollment E M s)) (pm_agent_id M) (Some ''pilot-workspace'') = Inr b"
proof -
  let ?t = "fst (ensure_pilot_enrollment E M s)" and ?k = "ea_enrollment_id a"
  note a = pilot_enrollment_Some [OF assms(2)]
  have "(deployed_step H)\<^sup>*\<^sup>* empty_enterprise ?t" using assms(1) step_pilot by (rule rtranclp.rtrancl_into_rtrancl)
  then have inv: "enterprise_inv True H ?t" by (rule deployed_reachable)
  have "est_enrolled ?t = fst (write_model E enrolled_dump ''enrolled-agents'' ?k a (est_enrolled s))"
    using assms(2) by (simp add: ensure_pilot_enrollment_def)
  then have "?k \<in> fst ` set (est_enrolled ?t)" using write_model_name by metis
  then obtain b where b: "(?k, b) \<in> set (est_enrolled ?t)" by auto
  then have id: "ea_enrollment_id b = ?k"
    using enterprise_invD(3) [OF inv] by (fastforce simp: filed_def)
  have "pilot_made b"
    using enrolled_okD(2) [OF enterprise_invD(10) [OF inv] b] id a
    by (auto simp: made_from_def enrollment_id_of_def enterprise_id_def)
  then have "ea_agent_id b = pm_agent_id M" "ea_workspace_id b = pilot_workspace"
    using id a by (auto simp: pilot_made_def dest: pilot_enrollment_Some)
  then have "b \<in> set (list_enrolled_agents ?t (Some ''pilot-workspace''))" "ea_agent_id b = pm_agent_id M"
    using b by (force simp: list_enrolled_agents_def of_key_def pilot_workspace_def)+
  then have "get_enrolled_agent_by_agent_id ?t (pm_agent_id M) (Some ''pilot-workspace'') \<noteq> None"
    by (auto simp: get_enrolled_agent_by_agent_id_def find_None_iff)
  then show ?thesis by (auto simp: require_active_iff [OF inv])
qed

text \<open>The operations of the workspace alone are a part of the deployment.\<close>

lemma operations_deployed: "(enterprise_step H)\<^sup>*\<^sup>* s t \<Longrightarrow> (deployed_step H)\<^sup>*\<^sup>* s t"
  by (induction rule: rtranclp_induct) (auto intro: step_operation rtranclp.rtrancl_into_rtrancl)

section \<open>Nothing is ever revoked\<close>

text \<open>
  C32: What the code does, against what its statuses promise: once an agent passes the check of its
  workspace, it passes it, with the same document, whatever operations run afterwards.  No operation
  suspends or revokes an enrollment, because a stored document is never replaced.
\<close>

theorem enrollment_irrevocable:
  assumes "(enterprise_step H)\<^sup>*\<^sup>* empty_enterprise s" "(enterprise_step H)\<^sup>*\<^sup>* s t"
    and "require_active_enrollment s agent (Some ws) = Inr a"
  shows "require_active_enrollment t agent (Some ws) = Inr a"
proof -
  have inv: "enterprise_inv False H s" "enterprise_inv False H t"
    using enterprise_reachable [OF assms(1)] enterprise.run_inv [OF assms(2)] by auto
  have a: "get_enrolled_agent_by_agent_id s agent (Some ws) = Some a"
    using assms(3) by (auto simp: require_active_iff [OF inv(1)] split: option.splits)
  from find_agent [OF a] obtain k where k: "(k, a) \<in> set (est_enrolled s)" "ea_agent_id a = agent" "ea_workspace_id a = ws" by auto
  have "prefix (est_enrolled s) (est_enrolled t)"
    using enterprise.run_rel [OF assms(2) inv(1)] by (simp add: enterprise_grows_def)
  with k have "(k, a) \<in> set (est_enrolled t)" by (auto dest: set_mono_prefix)
  from find_agent_there [OF inv(2) this k(2,3)] show ?thesis by (simp add: require_active_iff [OF inv(2)])
qed

text \<open>
  Also a defect: after a revocation that answers \<open>revoked\<close>, and any operations after it, the token
  is stored as it was: active and never used.
\<close>

theorem revocation_ineffective:
  assumes "(enterprise_step H)\<^sup>*\<^sup>* empty_enterprise s" "en_hash E = H"
    and "revoke_enrollment_token E actor token_id reason s = (s', Inr result)" "tr_status result = ''revoked''"
    and "(enterprise_step H)\<^sup>*\<^sup>* s' t"
  shows "\<exists>token. get_enrollment_token t token_id = Some token \<and> get_enrollment_token s token_id = Some token \<and>
    et_status token = TokenActive \<and> et_use_count token = 0"
proof -
  have inv: "enterprise_inv False H s" using enterprise_reachable [OF assms(1)] .
  have sd: "same_docs s s'" using revoke_docs [OF inv, of E actor token_id reason] assms(3) by simp
  have inv': "enterprise_inv False H s'" using inv sd by (simp add: inv_same_docs)
  obtain token where t: "get_enrollment_token s token_id = Some token"
    using assms(3,4) by (auto simp: revoke_enrollment_token_def Let_def split: option.splits)
  have "prefix (est_tokens s') (est_tokens t)"
    using enterprise.run_rel [OF assms(5) inv'] by (simp add: enterprise_grows_def)
  then have "get_enrollment_token t token_id = Some token"
    using filed_prefix t sd by (simp add: get_enrollment_token_def same_docs_simps)
  moreover have "et_status token = TokenActive" "et_use_count token = 0"
    using tokens_okD [OF enterprise_invD(6) [OF inv] get_in_docs(1) [OF t]] by simp_all
  ultimately show ?thesis using t by blast
qed

section \<open>Identifiers and digests\<close>

text \<open>What the program relies on of SHA-256: a digest is 64 hexadecimal digits.\<close>

definition hex_digest :: "(string \<Rightarrow> string) \<Rightarrow> bool" where
  "hex_digest H \<longleftrightarrow> (\<forall>x. is_hex64 (H x))"

lemma hex_char: "c \<in> set ''0123456789abcdef'' \<Longrightarrow> is_alnum c \<and> c \<noteq> CHR ''_'' \<and> \<not> is_space c"
  by (auto simp: is_alnum_def is_space_def)

lemma enterprise_id_safe:
  assumes "hex_digest H" "is_safe_id kind" "length kind \<le> 90"
  shows "is_safe_id (enterprise_id H kind parts)"
proof -
  let ?h = "take 24 (H (py_join ''|'' parts))"
  have "list_all (\<lambda>c. c \<in> set ''0123456789abcdef'') (H (py_join ''|'' parts))"
    using assms(1) unfolding hex_digest_def is_hex64_def by blast
  then have "list_all (\<lambda>c. c \<in> set ''0123456789abcdef'') ?h"
    unfolding list_all_iff by (meson in_set_takeD)
  then have h: "list_all (\<lambda>c. is_alnum c \<or> c \<in> set ''._:-'') ?h" unfolding list_all_iff using hex_char by blast
  obtain c rest where k: "kind = c # rest" using assms(2) by (cases kind) (simp_all add: is_safe_id_def safe_text_def)
  then have "is_alnum c" "list_all (\<lambda>c. is_alnum c \<or> c \<in> set ''._:-'') rest"
    using assms(2) by (simp_all add: is_safe_id_def safe_text_def)
  moreover have "length (take 24 (H (py_join ''|'' parts))) \<le> 24" "CHR ''-'' \<in> set ''._:-''" by simp_all
  ultimately show ?thesis using h assms(3) unfolding is_safe_id_def safe_text_def enterprise_id_def k
    by (simp del: set_simps length_take)
qed

lemma enterprise_id_plain:
  assumes "hex_digest H" "CHR ''_'' \<notin> set kind"
  shows "CHR ''_'' \<notin> set (enterprise_id H kind parts)"
proof -
  have "list_all (\<lambda>c. c \<in> set ''0123456789abcdef'') (H (py_join ''|'' parts))"
    using assms(1) by (auto simp: hex_digest_def is_hex64_def)
  then have "CHR ''_'' \<notin> set (H (py_join ''|'' parts))" using hex_char by (auto simp: list_all_iff)
  then show ?thesis using assms(2) by (auto simp: enterprise_id_def dest!: in_set_takeD)
qed

lemma hash_identity_ref_hex:
  assumes "hex_digest H" "py_strip v \<noteq> []"
  shows "\<exists>h. hash_identity_ref H v = Some h \<and> is_hex64 h"
  using assms by (auto simp: hash_identity_ref_def hex_digest_def Let_def)

section \<open>Bootstrap\<close>

definition admin_permissions :: "string list" where
  "admin_permissions = [''agent.enrollment.create'', ''agent.enrollment.revoke'', ''agent.enrollment.import'',
     ''agent.enrollment.approve'']"

lemma platform_admin_allows:
  assumes "''platform_admin'' \<in> set roles" "perm \<in> set admin_permissions"
  shows "pd_allowed (check_roles_for_permission roles perm)"
proof -
  have "role_of ''platform_admin'' = Some \<lparr>cr_role_id = ''platform_admin'', cr_label = ''Platform Admin'', cr_risk = RoleHigh,
      cr_permissions = sorted_set (filter (\<lambda>p. p \<notin> set [''keys.rotate'', ''keys.read'', ''approval.execute'',
        ''audit.export'', ''support.export'']) canonical_permissions)\<rparr>"
    by (simp add: role_of_def role_catalog_def)
  moreover have "perm \<in> set (filter (\<lambda>p. p \<notin> set [''keys.rotate'', ''keys.read'', ''approval.execute'',
        ''audit.export'', ''support.export'']) canonical_permissions)"
    using assms(2) by (auto simp: admin_permissions_def canonical_permissions_def)
  ultimately show ?thesis using assms(1)
    by (auto simp: check_roles_for_permission_def permissions_for_roles_def Let_def intro!: bexI [of _ "''platform_admin''"])
qed

lemma member_allowed:
  assumes "m \<in> snd ` set (est_memberships s)" "em_workspace_id m = ws" "em_principal_id m = principal_id_for_actor H a"
    "em_status m = EmActive" "''platform_admin'' \<in> set (em_roles m)" "perm \<in> set admin_permissions"
  shows "pd_allowed (actor_decision H s a ws perm)"
proof -
  have "''platform_admin'' \<in> set (roles_for_actor H s a ws)"
    using assms(1-5) by (force simp: roles_for_actor_def list_memberships_def of_key_def)
  then show ?thesis unfolding actor_decision_def using platform_admin_allows assms(6) by blast
qed

lemma build_bootstrap_principal_ok:
  assumes "hex_digest (en_hash E)" "between 1 160 (ac_actor_id a)" "py_strip (ac_subject a) \<noteq> []" "py_strip (ac_issuer a) \<noteq> []"
  shows "\<exists>p. build_bootstrap_principal E a = Inr p"
proof -
  have "is_safe_id ''principal''" by code_simp
  then have "is_safe_id (principal_id_for_actor (en_hash E) a)"
    unfolding principal_id_for_actor_def by (intro enterprise_id_safe assms) simp_all
  then show ?thesis
    using assms hash_identity_ref_hex [OF assms(1,3)] hash_identity_ref_hex [OF assms(1,4)]
    by (auto simp: build_bootstrap_principal_def validate_enterprise_principal_def opt_hex64_def)
qed

text \<open>What a bootstrap asks of the actor and the request.\<close>

definition bootstrap_admitted :: "actor_context \<Rightarrow> bootstrap_request \<Rightarrow> bool" where
  "bootstrap_admitted actor q \<longleftrightarrow> between 1 160 (ac_actor_id actor) \<and> py_strip (ac_subject actor) \<noteq> [] \<and>
     py_strip (ac_issuer actor) \<noteq> [] \<and> is_safe_id (bq_organization_id q) \<and> is_safe_id (bq_workspace_id q) \<and>
     between 1 160 (bq_organization_id q) \<and> between 1 160 (bq_display_name q) \<and> bq_provider_policy_profile q \<noteq> []"

lemma bootstrap_docs:
  assumes "hex_digest (en_hash E)" "resolve_actor_context W env = Inr (Some actor)" "bootstrap_admitted actor q"
  defines "pid \<equiv> principal_id_for_actor (en_hash E) actor"
  shows "\<exists>p. ep_principal_id p = pid \<and>
    same_docs (fst (bootstrap_writes E (bootstrap_organization (en_clock E 0) q pid) (bootstrap_workspace (en_clock E 0) q pid) p
        (bootstrap_membership (en_hash E) (en_clock E 0) q pid) s))
      (fst (bootstrap_enterprise_workspace E W env q s))"
proof -
  note q = assms(3) [unfolded bootstrap_admitted_def]
  from build_bootstrap_principal_ok [OF assms(1)] q obtain p where p: "build_bootstrap_principal E actor = Inr p" by blast
  have pid: "ep_principal_id p = pid" using build_bootstrap_principal_Inr [OF p] by (simp add: pid_def)
  have safe: "is_safe_id pid" "is_safe_id (make_membership_id (en_hash E) (bq_workspace_id q) pid)"
    unfolding pid_def principal_id_for_actor_def make_membership_id_def by (intro enterprise_id_safe assms(1); code_simp)+
  have r: "is_safe_id ''platform_admin''" "sorted_set [''platform_admin''] = [''platform_admin'']" by code_simp+
  have "validate_organization (bootstrap_organization (en_clock E 0) q pid) = Some (bootstrap_organization (en_clock E 0) q pid)"
    "validate_enterprise_workspace (bootstrap_workspace (en_clock E 0) q pid) = Some (bootstrap_workspace (en_clock E 0) q pid)"
    "validate_enterprise_membership (bootstrap_membership (en_hash E) (en_clock E 0) q pid) = Some (bootstrap_membership (en_hash E) (en_clock E 0) q pid)"
    using q safe r by (auto simp: validate_organization_def bootstrap_organization_def validate_enterprise_workspace_def
        bootstrap_workspace_def validate_enterprise_membership_def bootstrap_membership_def opt_safe_id_def)
  then show ?thesis
    using assms(2) p by (intro exI [of _ p]) (auto simp: bootstrap_enterprise_workspace_def bootstrap_for_def Let_def pid
        same_docs_eventD split: prod.splits sum.splits)
qed

text \<open>
  C33: Also a defect: an actor with any valid identity who bootstraps a workspace, even one that exists
  and is another's, has the permissions of its platform administrator afterwards, whatever the
  operation answered.  (The digest must not give the membership of another principal the same id.)
\<close>

theorem bootstrap_takes_over:
  assumes "(enterprise_step (en_hash E))\<^sup>*\<^sup>* empty_enterprise s" "hex_digest (en_hash E)"
    and "resolve_actor_context W env = Inr (Some actor)" "bootstrap_admitted actor q"
    and "\<forall>m \<in> snd ` set (est_memberships s).
      em_membership_id m = make_membership_id (en_hash E) (bq_workspace_id q) (principal_id_for_actor (en_hash E) actor) \<longrightarrow>
      em_workspace_id m = bq_workspace_id q \<and> em_principal_id m = principal_id_for_actor (en_hash E) actor"
    and "perm \<in> set admin_permissions"
  shows "pd_allowed (actor_decision (en_hash E) (fst (bootstrap_enterprise_workspace E W env q s)) actor (bq_workspace_id q) perm)"
proof -
  let ?H = "en_hash E" let ?pid = "principal_id_for_actor ?H actor"
  have inv: "enterprise_inv False ?H s" by (rule enterprise_reachable [OF assms(1)])
  define org where "org = bootstrap_organization (en_clock E 0) q ?pid"
  define ws where "ws = bootstrap_workspace (en_clock E 0) q ?pid"
  define m where "m = bootstrap_membership ?H (en_clock E 0) q ?pid"
  from bootstrap_docs [OF assms(2-4), of s] obtain p where
    sd: "same_docs (fst (bootstrap_writes E org ws p m s)) (fst (bootstrap_enterprise_workspace E W env q s))"
    unfolding org_def ws_def m_def by blast
  let ?s3 = "fst (write_principal E p (fst (write_workspace E ws (fst (write_organization E org s)))))"
  have ms: "est_memberships ?s3 = est_memberships s"
    by (rule write_organization_cases [of E org s]) simp_all
  let ?files = "fst (write_model E enterprise_membership_dump ''memberships'' (em_membership_id m) m (est_memberships s))"
  have "est_memberships (fst (bootstrap_enterprise_workspace E W env q s)) = ?files"
    using same_docs_simps(4) [OF sd] ms by (simp add: bootstrap_writes_def Let_def case_prod_beta)
  moreover have "\<exists>m' \<in> snd ` set ?files. em_workspace_id m' = bq_workspace_id q \<and> em_principal_id m' = ?pid \<and>
      em_status m' = EmActive \<and> ''platform_admin'' \<in> set (em_roles m')"
  proof (cases rule: write_model_cases [of E enterprise_membership_dump "''memberships''" "em_membership_id m" m "est_memberships s"])
    case added
    then show ?thesis by (simp add: m_def bootstrap_membership_def)
  next
    case kept
    then obtain m' where m': "map_of (est_memberships s) (em_membership_id m) = Some m'" by blast
    then have in_s: "(em_membership_id m, m') \<in> set (est_memberships s)" by (rule map_of_SomeD)
    have "em_membership_id m' = em_membership_id m" by (rule filed_id [OF enterprise_invD(9) [OF inv] m'])
    then have "em_workspace_id m' = bq_workspace_id q" "em_principal_id m' = ?pid"
      using assms(5) in_s by (force simp: m_def bootstrap_membership_def)+
    moreover have "em_status m' = EmActive" "em_roles m' = [''platform_admin'']"
      using memberships_okD in_s inv unfolding enterprise_inv_def Let_def by blast+
    ultimately show ?thesis using in_s unfolding kept(1) by force
  qed
  ultimately show ?thesis using member_allowed [OF _ _ _ _ _ assms(6)] by metis
qed

section \<open>The text of a token\<close>

lemma cut_at:
  "c \<notin> set x \<Longrightarrow> takeWhile (\<lambda>a. a \<noteq> c) (x @ c # y) = x" "c \<notin> set x \<Longrightarrow> dropWhile (\<lambda>a. a \<noteq> c) (x @ c # y) = c # y"
  by (induction x) auto

lemma split_max_cut: "c \<notin> set x \<Longrightarrow> split_max c (Suc n) (x @ c # y) = x # split_max c n y"
  by (simp add: cut_at)

lemma parse_bound_token:
  assumes "CHR ''_'' \<notin> set token_id" "CHR ''_'' \<notin> set workspace_id"
  shows "parse_raw_enrollment_token (bound_raw_token token_id workspace_id drawn) = Some (token_id, workspace_id)"
proof -
  have "split_max CHR ''_'' 3 (bound_raw_token token_id workspace_id drawn) = [''enr'', token_id, workspace_id, drawn]"
    using split_max_cut [of "CHR ''_''" "''enr''" 2] split_max_cut [OF assms(1), of 1] split_max_cut [OF assms(2), of 0]
    by (simp add: bound_raw_token_def numeral_3_eq_3 numeral_2_eq_2 del: split_max.simps(2))
  then show ?thesis by (simp add: parse_raw_enrollment_token_def)
qed

text \<open>A workspace id with an underscore is cut: the token of \<open>a_b\<close> is read as one of \<open>a\<close>.\<close>

lemma parse_bound_token_cut:
  assumes "CHR ''_'' \<notin> set token_id" "CHR ''_'' \<notin> set x"
  shows "parse_raw_enrollment_token (bound_raw_token token_id (x @ ''_'' @ y) drawn) = Some (token_id, x)"
proof -
  have "split_max CHR ''_'' 3 (bound_raw_token token_id (x @ ''_'' @ y) drawn) = [''enr'', token_id, x, y @ ''_'' @ drawn]"
    using split_max_cut [of "CHR ''_''" "''enr''" 2] split_max_cut [OF assms(1), of 1] split_max_cut [OF assms(2), of 0]
    by (simp add: bound_raw_token_def numeral_3_eq_3 numeral_2_eq_2 del: split_max.simps(2))
  then show ?thesis by (simp add: parse_raw_enrollment_token_def)
qed

lemma py_strip_nonempty: "c \<in> set s \<Longrightarrow> \<not> is_space c \<Longrightarrow> py_strip s \<noteq> []"
  unfolding py_strip_def by (metis dropWhile_eq_Nil_conv rev_is_Nil_conv set_rev set_dropWhileD dropWhile_append3 in_set_conv_decomp split_list)

lemma hash_bound_token: "hash_enrollment_token H (bound_raw_token t w d) t w = Some (H (w @ ''|'' @ t @ ''|'' @ py_strip (bound_raw_token t w d)))"
  using py_strip_nonempty [of "CHR ''e''" "bound_raw_token t w d"]
  by (simp add: hash_enrollment_token_def bound_raw_token_def is_space_def)

section \<open>An honest enrollment\<close>

lemma actor_event_ok:
  assumes "hex_digest (en_hash E)" "py_strip (ac_actor_id a) \<noteq> []"
  shows "\<exists>t ref. actor_event E n ty b c a s = (t, Inr ref) \<and> same_docs s t"
proof -
  from hash_identity_ref_hex [OF assms] obtain h where "hash_identity_ref (en_hash E) (ac_actor_id a) = Some h" by blast
  then have "\<exists>t ref. actor_event E n ty b c a s = (t, Inr ref)"
    by (simp add: actor_event_def write_evidence_event_def Let_def)
  then show ?thesis using same_docs_eventD by blast
qed

lemma actor_decision_same: "est_memberships t = est_memberships s \<Longrightarrow> actor_decision H t a w perm = actor_decision H s a w perm"
  by (simp add: actor_decision_def roles_for_actor_def list_memberships_def)

lemma write_new:
  assumes "map_of files n = None"
  shows "fst (write_model E dump dir n m files) = files @ [(n, m)]" "sw_status (snd (write_model E dump dir n m files)) = Written"
  using assms by (auto simp: write_model_def write_answer_def)

lemma issue_token_new:
  assumes "hex_digest (en_hash E)" "py_strip (ac_actor_id a) \<noteq> []" "map_of (est_tokens s) (et_token_id t) = None"
  shows "\<exists>s1 c. issue_token E a t raw s = (s1, Inr c) \<and> tc_status c = ''created'' \<and> tc_raw_token c = Some raw \<and>
    same_docs (s\<lparr>est_tokens := est_tokens s @ [(et_token_id t, t)]\<rparr>) s1"
proof -
  let ?s = "s\<lparr>est_tokens := est_tokens s @ [(et_token_id t, t)]\<rparr>"
  have w: "fst (write_enrollment_token E t s) = ?s" "sw_status (snd (write_enrollment_token E t s)) = Written"
    using write_new [OF assms(3)] by (simp_all add: write_enrollment_token_def case_prod_beta Let_def)
  from actor_event_ok [OF assms(1,2), of 1 "''agent_enrollment_token_created''" "[(''tokenId'', PStr (et_token_id t)),
     (''tokenHash'', PStr (et_token_hash t)), (''workspaceId'', PStr (et_workspace_id t)), (''agentId'', pv_of_opt (et_intended_agent_id t))]" "[]" ?s]
  obtain s1 ref where "actor_event E 1 ''agent_enrollment_token_created'' [(''tokenId'', PStr (et_token_id t)),
     (''tokenHash'', PStr (et_token_hash t)), (''workspaceId'', PStr (et_workspace_id t)), (''agentId'', pv_of_opt (et_intended_agent_id t))] [] a ?s
     = (s1, Inr ref)" "same_docs ?s s1" by blast
  then show ?thesis using w by (simp add: issue_token_def case_prod_beta del: write_docs)
qed

lemma import_admitted_new:
  assumes "hex_digest (en_hash E)" "py_strip (ac_actor_id a) \<noteq> []" "map_of (est_requests s) (nr_request_id r) = None"
  shows "\<exists>s1 i. import_admitted E a r s = (s1, Inr i) \<and> ir_status i = ''imported'' \<and>
    same_docs (s\<lparr>est_requests := est_requests s @ [(nr_request_id r, r)]\<rparr>) s1"
proof -
  let ?s = "s\<lparr>est_requests := est_requests s @ [(nr_request_id r, r)]\<rparr>"
  let ?b = "[(''requestId'', PStr (nr_request_id r)), (''tokenId'', PStr (nr_token_id r)), (''workspaceId'', PStr (nr_workspace_id r)),
     (''requestHash'', PStr (en_hash E (json_text '','' '':'' (PDict (request_dump (en_json_time E) r)))))]"
  have w: "fst (write_enrollment_request E r s) = ?s" "sw_status (snd (write_enrollment_request E r s)) = Written"
    using write_new [OF assms(3)] by (simp_all add: write_enrollment_request_def case_prod_beta Let_def)
  from actor_event_ok [OF assms(1,2), of 1 "''agent_enrollment_request_imported''" ?b "[]" ?s]
  obtain s1 ref where "actor_event E 1 ''agent_enrollment_request_imported'' ?b [] a ?s = (s1, Inr ref)" "same_docs ?s s1" by blast
  then show ?thesis using w by (simp add: import_admitted_def case_prod_beta Let_def del: write_docs)
qed

lemma enrollment_principal_ok:
  assumes "hex_digest (en_hash E)" "py_strip x \<noteq> []" "between 1 160 d"
  shows "\<exists>p. enrollment_principal E n w x d ty = Inr p"
proof -
  have "is_safe_id (enterprise_id (en_hash E) ''principal'' [w, x])" by (intro enterprise_id_safe assms(1); code_simp)
  moreover obtain h i where "hash_identity_ref (en_hash E) x = Some h" "is_hex64 h"
      "hash_identity_ref (en_hash E) ''agent-enrollment'' = Some i" "is_hex64 i"
    using hash_identity_ref_hex [OF assms(1,2)] hash_identity_ref_hex [OF assms(1), of "''agent-enrollment''"]
      py_strip_nonempty [of "CHR ''a''" "''agent-enrollment''"] by (auto simp: is_space_def)
  ultimately show ?thesis using assms(3)
    by (simp add: enrollment_principal_def validate_enterprise_principal_def opt_hex64_def)
qed

text \<open>An admitted approval of an agent that is not enrolled enrolls it.\<close>

lemma approve_admitted_new:
  assumes hex: "hex_digest (en_hash E)" and actor: "py_strip (ac_actor_id a) \<noteq> []"
    and r: "validate_request r = Some r" "py_strip (nr_device_display_name r) \<noteq> []" "et_policy_profile t \<noteq> []"
    and stored: "enterprise_inv False H s" "get_enrollment_request s k = Some r" "get_enrollment_token s (nr_token_id r) = Some t"
    and new: "map_of (est_enrolled s) (enrollment_id_of (en_hash E) (nr_workspace_id r) (nr_agent_id r)) = None"
  shows "\<exists>s1 d en. approve_admitted E a r t s = (s1, Inr d) \<and> dn_status d = ''approved'' \<and>
    est_enrolled s1 = est_enrolled s @ [(ea_enrollment_id en, en)] \<and> ea_agent_id en = nr_agent_id r \<and>
    ea_workspace_id en = nr_workspace_id r \<and> set (ea_capabilities en) = set (nr_capabilities r) \<and>
    ea_policy_profile en = et_policy_profile t"
proof -
  have ids: "is_safe_id (nr_workspace_id r)" "is_safe_id (nr_agent_id r)" "is_safe_id (nr_token_id r)" "nr_capabilities r \<noteq> []"
    "between 1 160 (nr_agent_display_name r)" "between 1 160 (nr_device_display_name r)" "opt_hex64 (nr_host_fingerprint_hash r)"
    using r(1) by (auto simp: validate_request_def split: if_splits)
  have "py_strip (nr_agent_id r) \<noteq> []"
  proof -
    obtain c rest where "nr_agent_id r = c # rest" "is_alnum c"
      using ids(2) by (cases "nr_agent_id r") (auto simp: is_safe_id_def safe_text_def)
    then show ?thesis using py_strip_nonempty [of c "nr_agent_id r"] by (auto simp: is_alnum_def is_space_def Let_def)
  qed
  then obtain ap dp where p:
    "enrollment_principal E 1 (nr_workspace_id r) (nr_agent_id r) (nr_agent_display_name r) (et_allowed_principal_type t) = Inr ap"
    "enrollment_principal E 2 (nr_workspace_id r) (nr_device_display_name r) (nr_device_display_name r) DeviceHost = Inr dp"
    using enrollment_principal_ok [OF hex] r(2) ids(5,6) by blast
  note P = enrollment_principal_Inr [OF p(1)] enrollment_principal_Inr [OF p(2)]
  have safe: "is_safe_id (ep_principal_id ap)" "is_safe_id (ep_principal_id dp)"
      "is_safe_id (enterprise_id (en_hash E) ''device'' [nr_workspace_id r, nr_device_display_name r])"
      "is_safe_id (enrollment_id_of (en_hash E) (nr_workspace_id r) (nr_agent_id r))"
    unfolding P [THEN conjunct2] enrollment_id_of_def by (intro enterprise_id_safe hex; code_simp)+
  have "\<exists>d. enrollment_device E r (ep_principal_id dp) = Some d"
    using safe ids by (simp add: enrollment_device_def validate_device_def)
  then obtain d where d: "enrollment_device E r (ep_principal_id dp) = Some d" by blast
  have "\<exists>en. new_enrollment E r t (ep_principal_id ap) (ed_device_id d) = Some en"
    using safe ids enrollment_device_Some [OF d] r(3) by (simp add: new_enrollment_def validate_enrolled_def)
  then obtain en where en: "new_enrollment E r t (ep_principal_id ap) (ed_device_id d) = Some en" by blast
  note N = new_enrollment_Some [OF en]
  let ?u = "approval_writes E ap dp d en t r s"
  have "est_enrolled ?u = est_enrolled s @ [(ea_enrollment_id en, en)]"
    unfolding approval_writes_kept [OF stored] using N write_new(1) [of "est_enrolled s" "ea_enrollment_id en"] new by simp
  moreover obtain s1 x where x: "approve_admitted E a r t s = (s1, Inr x)" "dn_status x = ''approved''" "same_docs ?u s1"
    using actor_event_ok [OF hex actor, of 5 "''agent_enrollment_approved''" "[(''requestId'', PStr (nr_request_id r)),
       (''tokenId'', PStr (nr_token_id r)), (''workspaceId'', PStr (nr_workspace_id r)), (''agentId'', PStr (nr_agent_id r)),
       (''deviceId'', PStr (ed_device_id d)), (''enrollmentId'', PStr (ea_enrollment_id en))]" "[]" ?u] p d en
    by (auto simp: approve_admitted_def)
  ultimately have "est_enrolled s1 = est_enrolled s @ [(ea_enrollment_id en, en)]" by (simp only: same_docs_simps(8) [OF x(3)])
  with x(1,2) N show ?thesis by (intro exI [of _ s1] exI [of _ x] exI [of _ en]) simp
qed

definition enrollment_asked :: "string \<Rightarrow> string \<Rightarrow> string \<Rightarrow> string list \<Rightarrow> bool" where
  "enrollment_asked agent agent_name device_name capabilities \<longleftrightarrow> is_safe_id agent \<and> between 1 160 agent_name \<and>
     between 1 160 device_name \<and> py_strip device_name \<noteq> [] \<and> capabilities \<noteq> [] \<and> list_all is_safe_id capabilities"

lemma token_to_issue_ok:
  assumes hex: "hex_digest (en_hash E)" and q: "token_create_valid q" "is_safe_id (tq_workspace_id q)"
    "opt_safe_id (tq_intended_agent_id q)" "tq_allowed_capabilities q \<noteq> []" "list_all is_safe_id (tq_allowed_capabilities q)"
    and w: "ew_provider_policy_profile w \<noteq> []" "is_safe_id (eo_organization_id org)"
  shows "\<exists>t. token_to_issue E a q d1 d2 w org =
      Inr (t, bound_raw_token (new_token_id (en_hash E) q d1) (tq_workspace_id q) d2) \<and>
    et_token_id t = new_token_id (en_hash E) q d1 \<and> et_workspace_id t = tq_workspace_id q \<and>
    et_expires_at t = en_clock E 0 + 60 * tq_ttl_minutes q \<and> et_status t = TokenActive \<and> et_use_count t = 0 \<and>
    set (et_allowed_capabilities t) = set (tq_allowed_capabilities q) \<and> et_policy_profile t = ew_provider_policy_profile w \<and>
    hash_enrollment_token (en_hash E) (bound_raw_token (new_token_id (en_hash E) q d1) (tq_workspace_id q) d2)
      (new_token_id (en_hash E) q d1) (tq_workspace_id q) = Some (et_token_hash t)"
proof -
  have "is_safe_id (new_token_id (en_hash E) q d1)" "is_safe_id (principal_id_for_actor (en_hash E) a)"
    unfolding new_token_id_def principal_id_for_actor_def by (intro enterprise_id_safe hex; code_simp)+
  then show ?thesis using assms
    by (auto simp: token_to_issue_def Let_def hash_bound_token validate_token_def token_create_valid_def hex_digest_def)
qed

lemma request_from_token_ok:
  assumes hex: "hex_digest (en_hash E)" and "CHR ''_'' \<notin> set token_id" "CHR ''_'' \<notin> set ws" "is_safe_id token_id" "is_safe_id ws"
    and "enrollment_asked agent agent_name device_name capabilities" "platform_of platform = Some pf"
  shows "\<exists>r. create_enrollment_request_from_token E (bound_raw_token token_id ws d) agent agent_name device_name platform capabilities = Inr r \<and>
    validate_request r = Some r \<and> nr_request_id r = enterprise_id (en_hash E) ''enrreq'' [token_id, agent, device_name] \<and>
    nr_token_id r = token_id \<and> nr_workspace_id r = ws \<and> nr_agent_id r = agent \<and> nr_device_display_name r = device_name \<and>
    set (nr_capabilities r) = set capabilities \<and>
    hash_enrollment_token (en_hash E) (bound_raw_token token_id ws d) token_id ws = Some (nr_token_proof_hash r)"
proof -
  have "is_safe_id (enterprise_id (en_hash E) ''enrreq'' [token_id, agent, device_name])"
    "is_safe_id (enterprise_id (en_hash E) ''enrollment-request'' [token_id, agent])"
    by (intro enterprise_id_safe hex; code_simp)+
  moreover have "between 8 160 (enterprise_id (en_hash E) ''enrollment-request'' [token_id, agent])"
    using hex by (simp add: enterprise_id_def between_def hex_digest_def is_hex64_def)
  moreover define raw where "raw = \<lparr>nr_request_id = enterprise_id (en_hash E) ''enrreq'' [token_id, agent, device_name],
      nr_token_id = token_id, nr_token_proof_hash = en_hash E (ws @ ''|'' @ token_id @ ''|'' @ py_strip (bound_raw_token token_id ws d)),
      nr_workspace_id = ws, nr_agent_id = agent, nr_agent_display_name = agent_name, nr_device_display_name = device_name,
      nr_platform = pf, nr_capabilities = capabilities, nr_host_fingerprint_hash = None, nr_requested_at = en_clock E 0,
      nr_status = ReqPending, nr_idempotency_key = enterprise_id (en_hash E) ''enrollment-request'' [token_id, agent]\<rparr>"
  ultimately have v: "validate_request raw = Some (raw\<lparr>nr_capabilities := sorted_set capabilities\<rparr>)"
    using assms by (simp add: validate_request_def enrollment_asked_def hex_digest_def opt_hex64_def)
  then have "create_enrollment_request_from_token E (bound_raw_token token_id ws d) agent agent_name device_name platform capabilities
      = Inr (raw\<lparr>nr_capabilities := sorted_set capabilities\<rparr>)"
    using assms by (simp add: create_enrollment_request_from_token_def parse_bound_token hash_bound_token Let_def raw_def)
  then show ?thesis using validate_request_SomeD [OF v] hash_bound_token [of "en_hash E" token_id ws d]
    by (intro exI [of _ "raw\<lparr>nr_capabilities := sorted_set capabilities\<rparr>"]) (simp add: raw_def)
qed

text \<open>Each operation of an honest enrollment, for an actor that may do it.\<close>

lemma create_token_new:
  assumes inv: "enterprise_inv False H s" and hex: "hex_digest H" and E: "en_hash E = H" and named: "py_strip (ac_actor_id a) \<noteq> []"
    and allowed: "pd_allowed (actor_decision H s a (tq_workspace_id q) ''agent.enrollment.create'')"
    and stored: "get_enterprise_workspace s (tq_workspace_id q) = Some w" "est_organization s = Some org"
    and q: "token_create_valid q" "is_safe_id (tq_workspace_id q)" "opt_safe_id (tq_intended_agent_id q)"
      "tq_allowed_capabilities q \<noteq> []" "list_all is_safe_id (tq_allowed_capabilities q)"
    and fresh: "get_enrollment_token s (new_token_id H q d1) = None"
  shows "\<exists>s1 c t. create_enrollment_token E (Some a) q d1 d2 s = (s1, Inr c) \<and> tc_status c = ''created'' \<and>
    tc_raw_token c = Some (bound_raw_token (new_token_id H q d1) (tq_workspace_id q) d2) \<and>
    same_docs (s\<lparr>est_tokens := est_tokens s @ [(new_token_id H q d1, t)]\<rparr>) s1 \<and> et_workspace_id t = tq_workspace_id q \<and>
    et_expires_at t = en_clock E 0 + 60 * tq_ttl_minutes q \<and> et_status t = TokenActive \<and> et_use_count t = 0 \<and>
    set (et_allowed_capabilities t) = set (tq_allowed_capabilities q) \<and> et_policy_profile t = ew_provider_policy_profile w \<and>
    et_policy_profile t \<noteq> [] \<and>
    hash_enrollment_token H (bound_raw_token (new_token_id H q d1) (tq_workspace_id q) d2) (new_token_id H q d1) (tq_workspace_id q)
      = Some (et_token_hash t)"
proof -
  let ?tid = "new_token_id H q d1" let ?raw = "bound_raw_token ?tid (tq_workspace_id q) d2"
  have wo: "ew_provider_policy_profile w \<noteq> []" "is_safe_id (eo_organization_id org)"
    using inv stored by (auto simp: enterprise_inv_def Let_def organization_ok_def enterprise_workspaces_ok_def get_enterprise_workspace_def
        validate_organization_def validate_enterprise_workspace_def dest!: map_of_SomeD split: if_splits)
  from token_to_issue_ok [OF hex [folded E] q wo, of a d1 d2, unfolded E]
  obtain t where t: "token_to_issue E a q d1 d2 w org = Inr (t, ?raw)" "et_token_id t = ?tid" "et_workspace_id t = tq_workspace_id q"
    "et_expires_at t = en_clock E 0 + 60 * tq_ttl_minutes q" "et_status t = TokenActive" "et_use_count t = 0"
    "set (et_allowed_capabilities t) = set (tq_allowed_capabilities q)" "et_policy_profile t = ew_provider_policy_profile w"
    "hash_enrollment_token H ?raw ?tid (tq_workspace_id q) = Some (et_token_hash t)" by blast
  have "map_of (est_tokens s) (et_token_id t) = None" using fresh t(2) by (simp add: get_enrollment_token_def)
  from issue_token_new [OF hex [folded E] named this, of ?raw, unfolded t(2)]
  obtain s1 c where c: "issue_token E a t ?raw s = (s1, Inr c)" "tc_status c = ''created''" "tc_raw_token c = Some ?raw"
    "same_docs (s\<lparr>est_tokens := est_tokens s @ [(?tid, t)]\<rparr>) s1" by blast
  have "create_enrollment_token E (Some a) q d1 d2 s = (s1, Inr c)"
    using t(1) c(1) stored allowed E by (simp add: create_enrollment_token_def)
  with c(2-4) t(3-9) wo(1) show ?thesis by (intro exI [of _ s1] exI [of _ c] exI [of _ t]) simp
qed

lemma import_new:
  assumes hex: "hex_digest H" and E: "en_hash E = H" and named: "py_strip (ac_actor_id a) \<noteq> []"
    and allowed: "pd_allowed (actor_decision H s a (nr_workspace_id r) ''agent.enrollment.import'')"
    and ok: "get_enrollment_token s (nr_token_id r) = Some t" "token_blocking_reason (en_clock E 0) (Some t) r = None"
    and fresh: "get_enrollment_request s (nr_request_id r) = None"
  shows "\<exists>s1 i. import_enrollment_request E (Some a) r s = (s1, Inr i) \<and> ir_status i = ''imported'' \<and>
    get_enrollment_request s1 (nr_request_id r) = Some r \<and> est_tokens s1 = est_tokens s \<and>
    est_memberships s1 = est_memberships s \<and> est_enrolled s1 = est_enrolled s"
proof -
  have none: "map_of (est_requests s) (nr_request_id r) = None" using fresh by (simp add: get_enrollment_request_def)
  from import_admitted_new [OF hex [folded E] named none] obtain s1 i where i: "import_admitted E a r s = (s1, Inr i)"
    "ir_status i = ''imported''" "same_docs (s\<lparr>est_requests := est_requests s @ [(nr_request_id r, r)]\<rparr>) s1" by blast
  then show ?thesis using same_docs_simps [OF i(3)] none ok allowed E
    by (simp add: import_enrollment_request_def get_enrollment_request_def map_add_def)
qed

lemma approve_new:
  assumes inv: "enterprise_inv False H s" and hex: "hex_digest H" and E: "en_hash E = H" and named: "py_strip (ac_actor_id a) \<noteq> []"
    and allowed: "pd_allowed (actor_decision H s a (nr_workspace_id r) ''agent.enrollment.approve'')"
    and r: "get_enrollment_request s (nr_request_id r) = Some r" "validate_request r = Some r" "py_strip (nr_device_display_name r) \<noteq> []"
    and t: "get_enrollment_token s (nr_token_id r) = Some t" "token_blocking_reason (en_clock E 0) (Some t) r = None"
      "et_policy_profile t \<noteq> []"
    and fresh: "map_of (est_enrolled s) (enrollment_id_of H (nr_workspace_id r) (nr_agent_id r)) = None"
  shows "\<exists>s1 d en. approve_enrollment_request E (Some a) (nr_request_id r) s = (s1, Inr d) \<and> dn_status d = ''approved'' \<and>
    require_active_enrollment s1 (nr_agent_id r) (Some (nr_workspace_id r)) = Inr en \<and>
    set (ea_capabilities en) = set (nr_capabilities r) \<and> ea_policy_profile en = et_policy_profile t"
proof -
  from approve_admitted_new [OF hex [folded E] named r(2,3) t(3) inv [folded E] r(1) t(1), unfolded E, OF fresh]
  obtain s1 d en where d: "approve_admitted E a r t s = (s1, Inr d)" "dn_status d = ''approved''"
    "est_enrolled s1 = est_enrolled s @ [(ea_enrollment_id en, en)]" "ea_agent_id en = nr_agent_id r"
    "ea_workspace_id en = nr_workspace_id r" "set (ea_capabilities en) = set (nr_capabilities r)"
    "ea_policy_profile en = et_policy_profile t" by blast
  have app: "approve_enrollment_request E (Some a) (nr_request_id r) s = (s1, Inr d)"
    using d(1) r(1) t(1,2) allowed E by (simp add: approve_enrollment_request_def)
  have inv1: "enterprise_inv False H s1" using inv_approve [OF inv E, of "Some a" "nr_request_id r"] app by simp
  have "(ea_enrollment_id en, en) \<in> set (est_enrolled s1)" using d(3) by simp
  from find_agent_there [OF inv1 this d(4,5)]
  have "require_active_enrollment s1 (nr_agent_id r) (Some (nr_workspace_id r)) = Inr en" by (simp add: require_active_iff [OF inv1])
  with app d show ?thesis by (intro exI [of _ s1] exI [of _ d] exI [of _ en]) simp
qed

lemma honest_enrollment:
  assumes reach: "(enterprise_step H)\<^sup>*\<^sup>* empty_enterprise s" and hex: "hex_digest H"
    and E: "en_hash E1 = H" "en_hash E2 = H" "en_hash E3 = H" "en_hash E4 = H"
    and admin: "\<forall>perm \<in> set admin_permissions. pd_allowed (actor_decision H s a (tq_workspace_id q) perm)"
    and named: "py_strip (ac_actor_id a) \<noteq> []"
    and stored: "get_enterprise_workspace s (tq_workspace_id q) = Some w" "est_organization s = Some org"
    and q: "token_create_valid q" "is_safe_id (tq_workspace_id q)" "CHR ''_'' \<notin> set (tq_workspace_id q)"
      "opt_safe_id (tq_intended_agent_id q)" "tq_allowed_capabilities q \<noteq> []" "list_all is_safe_id (tq_allowed_capabilities q)"
    and asked: "enrollment_asked agent agent_name device_name capabilities" "platform_of platform = Some pf"
      "set capabilities \<subseteq> set (tq_allowed_capabilities q)"
    and fresh: "get_enrollment_token s (new_token_id H q d1) = None"
      "get_enrollment_request s (enterprise_id H ''enrreq'' [new_token_id H q d1, agent, device_name]) = None"
      "map_of (est_enrolled s) (enrollment_id_of H (tq_workspace_id q) agent) = None"
    and clock: "en_clock E3 0 \<le> en_clock E1 0 + 60 * tq_ttl_minutes q" "en_clock E4 0 \<le> en_clock E1 0 + 60 * tq_ttl_minutes q"
  shows "\<exists>s1 c raw r s2 i s3 d en.
    create_enrollment_token E1 (Some a) q d1 d2 s = (s1, Inr c) \<and> tc_status c = ''created'' \<and> tc_raw_token c = Some raw \<and>
    create_enrollment_request_from_token E2 raw agent agent_name device_name platform capabilities = Inr r \<and>
    import_enrollment_request E3 (Some a) r s1 = (s2, Inr i) \<and> ir_status i = ''imported'' \<and>
    approve_enrollment_request E4 (Some a) (nr_request_id r) s2 = (s3, Inr d) \<and> dn_status d = ''approved'' \<and>
    require_active_enrollment s3 agent (Some (tq_workspace_id q)) = Inr en \<and>
    set (ea_capabilities en) = set capabilities \<and> ea_policy_profile en = ew_provider_policy_profile w \<and>
    (enterprise_step H)\<^sup>*\<^sup>* s s2 \<and> est_enrolled s2 = est_enrolled s \<and> (enterprise_step H)\<^sup>*\<^sup>* s s3"
proof -
  let ?ws = "tq_workspace_id q" let ?tid = "new_token_id H q d1" let ?raw = "bound_raw_token ?tid ?ws d2"
  have inv: "enterprise_inv False H s" by (rule enterprise_reachable [OF reach])
  have allowed: "pd_allowed (actor_decision H s a ?ws ''agent.enrollment.create'')"
    "pd_allowed (actor_decision H s a ?ws ''agent.enrollment.import'')" "pd_allowed (actor_decision H s a ?ws ''agent.enrollment.approve'')"
    using admin by (simp_all add: admin_permissions_def)
  from create_token_new [OF inv hex E(1) named allowed(1) stored q(1,2,4-6) fresh(1), of d2]
  obtain s1 c t where c: "create_enrollment_token E1 (Some a) q d1 d2 s = (s1, Inr c)" "tc_status c = ''created''"
    "tc_raw_token c = Some ?raw" and sd: "same_docs (s\<lparr>est_tokens := est_tokens s @ [(?tid, t)]\<rparr>) s1" and
    t: "et_workspace_id t = ?ws" "et_expires_at t = en_clock E1 0 + 60 * tq_ttl_minutes q" "et_status t = TokenActive"
    "et_use_count t = 0" "set (et_allowed_capabilities t) = set (tq_allowed_capabilities q)"
    "et_policy_profile t = ew_provider_policy_profile w" "et_policy_profile t \<noteq> []"
    "hash_enrollment_token H ?raw ?tid ?ws = Some (et_token_hash t)" by blast
  note S1 = same_docs_simps [OF sd]
  have inv1: "enterprise_inv False H s1" using inv_create_token [OF inv, of E1 "Some a" q d1 d2] c(1) by simp
  have plain: "CHR ''_'' \<notin> set ?tid" "is_safe_id ?tid"
    unfolding new_token_id_def by (intro enterprise_id_plain enterprise_id_safe hex; code_simp)+
  from request_from_token_ok [OF hex [folded E(2)] plain(1) q(3) plain(2) q(2) asked(1,2), of d2, unfolded E]
  obtain r where r: "create_enrollment_request_from_token E2 ?raw agent agent_name device_name platform capabilities = Inr r"
    "validate_request r = Some r" "nr_request_id r = enterprise_id H ''enrreq'' [?tid, agent, device_name]"
    "nr_token_id r = ?tid" "nr_workspace_id r = ?ws" "nr_agent_id r = agent" "nr_device_display_name r = device_name"
    "set (nr_capabilities r) = set capabilities" "hash_enrollment_token H ?raw ?tid ?ws = Some (nr_token_proof_hash r)" by blast
  have tok: "get_enrollment_token s1 (nr_token_id r) = Some t"
    using S1(6) fresh(1) r(4) by (simp add: get_enrollment_token_def map_add_def split: option.splits)
  have open_t: "token_blocking_reason (en_clock E3 0) (Some t) r = None" "token_blocking_reason (en_clock E4 0) (Some t) r = None"
    using t(1-5,8) r(5,8,9) clock asked(3) by (simp_all add: token_blocking_reason_def)
  have dec: "actor_decision H u a ?ws perm = actor_decision H s a ?ws perm" if "est_memberships u = est_memberships s" for u perm
    by (rule actor_decision_same) (rule that)
  have ms1: "est_memberships s1 = est_memberships s" using S1(4) by simp
  have req1: "get_enrollment_request s1 (nr_request_id r) = None" using S1(7) fresh(2) r(3) by (simp add: get_enrollment_request_def)
  from import_new [OF hex E(3) named _ tok open_t(1) req1] allowed(2) dec [OF ms1] r(5)
  obtain s2 i where i: "import_enrollment_request E3 (Some a) r s1 = (s2, Inr i)" "ir_status i = ''imported''"
    "get_enrollment_request s2 (nr_request_id r) = Some r" "est_tokens s2 = est_tokens s1"
    "est_memberships s2 = est_memberships s1" "est_enrolled s2 = est_enrolled s1" by metis
  have inv2: "enterprise_inv False H s2" using inv_import [OF inv1 r(2), of E3 "Some a"] i(1) by simp
  have tok2: "get_enrollment_token s2 (nr_token_id r) = Some t" using tok i(4) by (simp add: get_enrollment_token_def)
  have dev: "py_strip (nr_device_display_name r) \<noteq> []" using asked(1) unfolding r(7) enrollment_asked_def by blast
  have "pd_allowed (actor_decision H s2 a (nr_workspace_id r) ''agent.enrollment.approve'')"
    using allowed(3) dec [of s2] ms1 i(5) r(5) by simp
  moreover have "map_of (est_enrolled s2) (enrollment_id_of H (nr_workspace_id r) (nr_agent_id r)) = None"
    using fresh(3) i(6) S1(8) r(5,6) by simp
  ultimately have "\<exists>s3 d en. approve_enrollment_request E4 (Some a) (nr_request_id r) s2 = (s3, Inr d) \<and> dn_status d = ''approved'' \<and>
      require_active_enrollment s3 agent (Some ?ws) = Inr en \<and> set (ea_capabilities en) = set capabilities \<and>
      ea_policy_profile en = ew_provider_policy_profile w"
    using approve_new [OF inv2 hex E(4) named _ i(3) r(2) dev tok2 open_t(2) t(7)] unfolding r(5,6,8) t(6) by blast
  then obtain s3 d en where d: "approve_enrollment_request E4 (Some a) (nr_request_id r) s2 = (s3, Inr d)" "dn_status d = ''approved''"
      "require_active_enrollment s3 agent (Some ?ws) = Inr en" "set (ea_capabilities en) = set capabilities"
      "ea_policy_profile en = ew_provider_policy_profile w" by blast
  have "enterprise_step H s s1" "enterprise_step H s1 s2" "enterprise_step H s2 s3"
    using step_create_token [OF E(1), of s "Some a" q d1 d2] step_import [OF E(3) r(2), of s1 "Some a"]
      step_approve [OF E(4), of s2 "Some a" "nr_request_id r"] c(1) i(1) d(1) by simp_all
  then have "(enterprise_step H)\<^sup>*\<^sup>* s s2" "(enterprise_step H)\<^sup>*\<^sup>* s s3"
    by (meson r_into_rtranclp rtranclp.rtrancl_into_rtrancl)+
  moreover have "est_enrolled s2 = est_enrolled s" using i(6) S1(8) by simp
  ultimately show ?thesis using c r(1) i(1,2) d by blast
qed

text \<open>
  C31: An administrator can enroll an agent: where the workspace and its organization are stored, the token
  is created, the request made from its text and imported, and the approval before the token expires
  enrolls the agent with the capabilities asked for.  The workspace id must have no underscore.
\<close>

theorem enrollment_completes:
  assumes reach: "(enterprise_step H)\<^sup>*\<^sup>* empty_enterprise s" and hex: "hex_digest H"
    and E: "en_hash E1 = H" "en_hash E2 = H" "en_hash E3 = H" "en_hash E4 = H"
    and admin: "\<forall>perm \<in> set admin_permissions. pd_allowed (actor_decision H s a (tq_workspace_id q) perm)"
    and named: "py_strip (ac_actor_id a) \<noteq> []"
    and stored: "get_enterprise_workspace s (tq_workspace_id q) = Some w" "est_organization s = Some org"
    and q: "token_create_valid q" "is_safe_id (tq_workspace_id q)" "CHR ''_'' \<notin> set (tq_workspace_id q)"
      "opt_safe_id (tq_intended_agent_id q)" "tq_allowed_capabilities q \<noteq> []" "list_all is_safe_id (tq_allowed_capabilities q)"
    and asked: "enrollment_asked agent agent_name device_name capabilities" "platform_of platform = Some pf"
      "set capabilities \<subseteq> set (tq_allowed_capabilities q)"
    and fresh: "get_enrollment_token s (new_token_id H q d1) = None"
      "get_enrollment_request s (enterprise_id H ''enrreq'' [new_token_id H q d1, agent, device_name]) = None"
      "map_of (est_enrolled s) (enrollment_id_of H (tq_workspace_id q) agent) = None"
    and clock: "en_clock E3 0 \<le> en_clock E1 0 + 60 * tq_ttl_minutes q" "en_clock E4 0 \<le> en_clock E1 0 + 60 * tq_ttl_minutes q"
  shows "\<exists>s1 c raw r s2 i s3 d en.
    create_enrollment_token E1 (Some a) q d1 d2 s = (s1, Inr c) \<and> tc_status c = ''created'' \<and> tc_raw_token c = Some raw \<and>
    create_enrollment_request_from_token E2 raw agent agent_name device_name platform capabilities = Inr r \<and>
    import_enrollment_request E3 (Some a) r s1 = (s2, Inr i) \<and> ir_status i = ''imported'' \<and>
    approve_enrollment_request E4 (Some a) (nr_request_id r) s2 = (s3, Inr d) \<and> dn_status d = ''approved'' \<and>
    require_active_enrollment s3 agent (Some (tq_workspace_id q)) = Inr en \<and>
    set (ea_capabilities en) = set capabilities \<and> ea_policy_profile en = ew_provider_policy_profile w"
  using honest_enrollment [OF assms] by blast

section \<open>An example\<close>

definition demo_env :: enrollment_env where
  "demo_env = \<lparr>en_hash = (\<lambda>_. replicate 64 (CHR ''0'')), en_iso = (\<lambda>_. ''t''), en_clock = (\<lambda>_. 50)\<rparr>"

definition demo_bootstrap :: bootstrap_request where
  "demo_bootstrap = \<lparr>bq_organization_id = ''acme'', bq_workspace_id = ''main'', bq_display_name = ''Main'',
     bq_environment = EnvPilot, bq_provider_policy_profile = ''enterprise''\<rparr>"

definition demo_enterprise :: enterprise_state where
  "demo_enterprise = fst (bootstrap_enterprise_workspace demo_env demo_identity None demo_bootstrap empty_enterprise)"

definition demo_token_request :: token_create_request where
  "demo_token_request = \<lparr>tq_workspace_id = ''main'', tq_intended_agent_id = None, tq_intended_device_label = ''laptop'',
     tq_allowed_principal_type = ExternalAgent, tq_allowed_capabilities = [''mail''], tq_ttl_minutes = 15\<rparr>"

lemma demo_env_simps [simp]: "en_clock demo_env n = 50" "hex_digest (en_hash demo_env)"
proof -
  have "is_hex64 (replicate 64 (CHR ''0''))" by (simp add: is_hex64_def list_all_iff)
  then show "hex_digest (en_hash demo_env)" by (simp add: demo_env_def hex_digest_def)
qed (simp add: demo_env_def)

lemma demo_admitted: "bootstrap_admitted demo_actor demo_bootstrap"
proof -
  have "is_safe_id ''acme''" "is_safe_id ''main''" "py_strip ''ada@corp'' \<noteq> []" "py_strip ''corp'' \<noteq> []" by code_simp+
  then show ?thesis by (simp add: bootstrap_admitted_def demo_actor_def demo_bootstrap_def between_def)
qed

lemma demo_enterprise_docs:
  shows "get_enterprise_workspace demo_enterprise ''main'' \<noteq> None" "est_organization demo_enterprise \<noteq> None"
    "est_tokens demo_enterprise = []" "est_requests demo_enterprise = []" "est_enrolled demo_enterprise = []"
    "(enterprise_step (en_hash demo_env))\<^sup>*\<^sup>* empty_enterprise demo_enterprise"
proof -
  from bootstrap_docs [OF demo_env_simps(2) demo_resolved demo_admitted, of empty_enterprise] obtain p where
    sd: "same_docs (fst (bootstrap_writes demo_env
       (bootstrap_organization (en_clock demo_env 0) demo_bootstrap (principal_id_for_actor (en_hash demo_env) demo_actor))
       (bootstrap_workspace (en_clock demo_env 0) demo_bootstrap (principal_id_for_actor (en_hash demo_env) demo_actor)) p
       (bootstrap_membership (en_hash demo_env) (en_clock demo_env 0) demo_bootstrap (principal_id_for_actor (en_hash demo_env) demo_actor))
       empty_enterprise)) demo_enterprise"
    unfolding demo_enterprise_def by blast
  note S = same_docs_simps [OF sd]
  show "get_enterprise_workspace demo_enterprise ''main'' \<noteq> None" "est_organization demo_enterprise \<noteq> None"
    "est_tokens demo_enterprise = []" "est_requests demo_enterprise = []" "est_enrolled demo_enterprise = []"
    unfolding get_enterprise_workspace_def S
    by (simp_all add: bootstrap_writes_def Let_def case_prod_beta empty_enterprise_def write_organization_def write_answer_def
        write_new bootstrap_workspace_def demo_bootstrap_def)
  show "(enterprise_step (en_hash demo_env))\<^sup>*\<^sup>* empty_enterprise demo_enterprise"
    unfolding demo_enterprise_def by (intro r_into_rtranclp step_bootstrap refl)
qed

theorem bootstrap_takes_over_witness:
  "pd_allowed (actor_decision (en_hash demo_env) demo_enterprise demo_actor ''main'' ''agent.enrollment.approve'')"
proof -
  have w: "bq_workspace_id demo_bootstrap = ''main''" by (simp add: demo_bootstrap_def)
  show ?thesis unfolding demo_enterprise_def w [symmetric]
    by (rule bootstrap_takes_over [OF _ demo_env_simps(2) demo_resolved demo_admitted])
      (simp_all add: empty_enterprise_def admin_permissions_def)
qed

lemma demo_enrollment_facts:
  shows "\<forall>perm \<in> set admin_permissions. pd_allowed (actor_decision (en_hash demo_env) demo_enterprise demo_actor
      (tq_workspace_id demo_token_request) perm)"
    "py_strip (ac_actor_id demo_actor) \<noteq> []" "token_create_valid demo_token_request" "is_safe_id (tq_workspace_id demo_token_request)"
    "CHR ''_'' \<notin> set (tq_workspace_id demo_token_request)" "opt_safe_id (tq_intended_agent_id demo_token_request)"
    "tq_allowed_capabilities demo_token_request \<noteq> []" "list_all is_safe_id (tq_allowed_capabilities demo_token_request)"
    "enrollment_asked ''bot-1'' ''Bot'' ''Laptop'' [''mail'']" "platform_of ''linux'' = Some Linux"
    "set [''mail''] \<subseteq> set (tq_allowed_capabilities demo_token_request)"
    "get_enrollment_token demo_enterprise k = None" "get_enrollment_request demo_enterprise k = None"
    "map_of (est_enrolled demo_enterprise) k = None" "tq_workspace_id demo_token_request = ''main''"
    "en_clock demo_env n \<le> en_clock demo_env n + 60 * tq_ttl_minutes demo_token_request"
proof -
  have w: "tq_workspace_id demo_token_request = ''main''" "bq_workspace_id demo_bootstrap = ''main''"
    by (simp_all add: demo_token_request_def demo_bootstrap_def)
  have m: "\<exists>m \<in> snd ` set (est_memberships demo_enterprise). em_workspace_id m = ''main'' \<and> em_status m = EmActive \<and>
      em_principal_id m = principal_id_for_actor (en_hash demo_env) demo_actor \<and> em_roles m = [''platform_admin'']"
  proof -
    from bootstrap_docs [OF demo_env_simps(2) demo_resolved demo_admitted, of empty_enterprise] obtain p where
      sd: "same_docs (fst (bootstrap_writes demo_env
         (bootstrap_organization (en_clock demo_env 0) demo_bootstrap (principal_id_for_actor (en_hash demo_env) demo_actor))
         (bootstrap_workspace (en_clock demo_env 0) demo_bootstrap (principal_id_for_actor (en_hash demo_env) demo_actor)) p
         (bootstrap_membership (en_hash demo_env) (en_clock demo_env 0) demo_bootstrap (principal_id_for_actor (en_hash demo_env) demo_actor))
         empty_enterprise)) demo_enterprise"
      unfolding demo_enterprise_def by blast
    show ?thesis unfolding same_docs_simps(4) [OF sd]
      by (simp add: bootstrap_writes_def Let_def case_prod_beta empty_enterprise_def write_organization_def write_answer_def
          write_new bootstrap_membership_def w(2))
  qed
  show "\<forall>perm \<in> set admin_permissions. pd_allowed (actor_decision (en_hash demo_env) demo_enterprise demo_actor
      (tq_workspace_id demo_token_request) perm)"
    using m member_allowed unfolding w by fastforce
  show "py_strip (ac_actor_id demo_actor) \<noteq> []" unfolding demo_actor_def by code_simp
  show "is_safe_id (tq_workspace_id demo_token_request)" unfolding w by code_simp
  show "list_all is_safe_id (tq_allowed_capabilities demo_token_request)" unfolding demo_token_request_def by code_simp
  show "enrollment_asked ''bot-1'' ''Bot'' ''Laptop'' [''mail'']" unfolding enrollment_asked_def between_def by code_simp
  show "platform_of ''linux'' = Some Linux" by (simp add: platform_of_def)
qed (simp_all add: demo_token_request_def token_create_valid_def between_def is_token_principal_type_def opt_safe_id_def
    get_enrollment_token_def get_enrollment_request_def demo_enterprise_docs)

lemma demo_docs_Some:
  obtains w org where "get_enterprise_workspace demo_enterprise (tq_workspace_id demo_token_request) = Some w"
    "est_organization demo_enterprise = Some org"
  using demo_enterprise_docs(1,2) unfolding demo_enrollment_facts(15) by blast

text \<open>An agent enrolled in the example, and the state just before.\<close>

lemma demo_approved:
  obtains s k t en where "(enterprise_step (en_hash demo_env))\<^sup>*\<^sup>* empty_enterprise s" "est_enrolled s = []"
    "t = fst (approve_enrollment_request demo_env (Some demo_actor) k s)"
    "require_active_enrollment t ''bot-1'' (Some ''main'') = Inr en"
proof -
  obtain w org where wo: "get_enterprise_workspace demo_enterprise (tq_workspace_id demo_token_request) = Some w"
    "est_organization demo_enterprise = Some org" by (rule demo_docs_Some)
  have clock: "en_clock demo_env 0 \<le> en_clock demo_env 0 + 60 * tq_ttl_minutes demo_token_request"
    by (simp add: demo_token_request_def)
  from honest_enrollment [where ?d1.0 = "''d1''" and ?d2.0 = "''d2''", OF demo_enterprise_docs(6) demo_env_simps(2) refl refl refl refl
      demo_enrollment_facts(1,2) wo demo_enrollment_facts(3-8) demo_enrollment_facts(9,10,11) demo_enrollment_facts(12,13,14) clock clock]
  obtain s2 s3 k d en where e: "approve_enrollment_request demo_env (Some demo_actor) k s2 = (s3, Inr d)"
      "require_active_enrollment s3 ''bot-1'' (Some ''main'') = Inr en"
      "(enterprise_step (en_hash demo_env))\<^sup>*\<^sup>* demo_enterprise s2" "est_enrolled s2 = est_enrolled demo_enterprise"
    unfolding demo_enrollment_facts(15) by blast
  have "(enterprise_step (en_hash demo_env))\<^sup>*\<^sup>* empty_enterprise s2" using demo_enterprise_docs(6) e(3) by (rule rtranclp_trans)
  with e(1,2,4) that [of s2 s3 k en] demo_enterprise_docs(5) show thesis by simp
qed

lemma demo_enrolled:
  obtains s en where "(enterprise_step (en_hash demo_env))\<^sup>*\<^sup>* empty_enterprise s"
    "require_active_enrollment s ''bot-1'' (Some ''main'') = Inr en"
proof -
  obtain s k t en where d: "(enterprise_step (en_hash demo_env))\<^sup>*\<^sup>* empty_enterprise s"
    "t = fst (approve_enrollment_request demo_env (Some demo_actor) k s)"
    "require_active_enrollment t ''bot-1'' (Some ''main'') = Inr en" by (rule demo_approved)
  have "(enterprise_step (en_hash demo_env))\<^sup>*\<^sup>* empty_enterprise t"
    unfolding d(2) by (rule rtranclp.rtrancl_into_rtrancl [OF d(1)]) (intro step_approve refl)
  with d(3) that show thesis by blast
qed

theorem enrollment_completes_witness:
  "\<exists>s1 c raw r. create_enrollment_token demo_env (Some demo_actor) demo_token_request ''d1'' ''d2'' demo_enterprise = (s1, Inr c) \<and>
     tc_raw_token c = Some raw \<and>
     create_enrollment_request_from_token demo_env raw ''bot-1'' ''Bot'' ''Laptop'' ''linux'' [''mail''] = Inr r"
proof -
  obtain w org where wo: "get_enterprise_workspace demo_enterprise (tq_workspace_id demo_token_request) = Some w"
    "est_organization demo_enterprise = Some org" by (rule demo_docs_Some)
  have clock: "en_clock demo_env 0 \<le> en_clock demo_env 0 + 60 * tq_ttl_minutes demo_token_request"
    by (simp add: demo_token_request_def)
  from enrollment_completes [where ?d1.0 = "''d1''" and ?d2.0 = "''d2''", OF demo_enterprise_docs(6) demo_env_simps(2) refl refl refl refl demo_enrollment_facts(1,2) wo
      demo_enrollment_facts(3-8) demo_enrollment_facts(9,10,11) demo_enrollment_facts(12,13,14) clock clock]
  show ?thesis by blast
qed

theorem enrollment_backed_witness:
  "\<exists>s en r t. require_active_enrollment s ''bot-1'' (Some ''main'') = Inr en \<and> made_from (en_hash demo_env) en r t"
proof -
  obtain s en where d: "(enterprise_step (en_hash demo_env))\<^sup>*\<^sup>* empty_enterprise s"
    "require_active_enrollment s ''bot-1'' (Some ''main'') = Inr en" by (rule demo_enrolled)
  from enrollment_backed [OF operations_deployed [OF d(1)] d(2)]
  have "\<exists>r t. made_from (en_hash demo_env) en r t" by auto
  with d(2) show ?thesis by blast
qed

theorem enrollment_irrevocable_witness:
  "\<exists>s en. require_active_enrollment (fst (reject_enrollment_request demo_env (Some demo_actor) ''enrreq'' ''no'' s)) ''bot-1'' (Some ''main'') = Inr en"
proof -
  obtain s en where d: "(enterprise_step (en_hash demo_env))\<^sup>*\<^sup>* empty_enterprise s"
    "require_active_enrollment s ''bot-1'' (Some ''main'') = Inr en" by (rule demo_enrolled)
  have "(enterprise_step (en_hash demo_env))\<^sup>*\<^sup>* s (fst (reject_enrollment_request demo_env (Some demo_actor) ''enrreq'' ''no'' s))"
    by (intro r_into_rtranclp step_reject refl)
  from enrollment_irrevocable [OF d(1) this d(2)] show ?thesis by blast
qed

text \<open>The state with a token, and one revocation of it.\<close>

lemma demo_token:
  obtains s t where "(enterprise_step (en_hash demo_env))\<^sup>*\<^sup>* empty_enterprise s"
    "get_enrollment_token s (new_token_id (en_hash demo_env) demo_token_request ''d1'') = Some t" "et_status t = TokenActive"
    "pd_allowed (actor_decision (en_hash demo_env) s demo_actor (et_workspace_id t) ''agent.enrollment.revoke'')"
proof -
  obtain w org where wo: "get_enterprise_workspace demo_enterprise (tq_workspace_id demo_token_request) = Some w"
    "est_organization demo_enterprise = Some org" by (rule demo_docs_Some)
  have allowed: "pd_allowed (actor_decision (en_hash demo_env) demo_enterprise demo_actor (tq_workspace_id demo_token_request) perm)"
    if "perm \<in> set admin_permissions" for perm using demo_enrollment_facts(1) that by blast
  have "''agent.enrollment.create'' \<in> set admin_permissions" "''agent.enrollment.revoke'' \<in> set admin_permissions"
    by (simp_all add: admin_permissions_def)
  note al = allowed [OF this(1)] allowed [OF this(2)]
  from create_token_new [where ?d1.0 = "''d1''" and ?d2.0 = "''d2''", OF enterprise_reachable [OF demo_enterprise_docs(6)] demo_env_simps(2) refl demo_enrollment_facts(2) al(1) wo
      demo_enrollment_facts(3,4,6,7,8,12)]
  obtain s1 c t where c: "create_enrollment_token demo_env (Some demo_actor) demo_token_request ''d1'' ''d2'' demo_enterprise = (s1, Inr c)"
    "same_docs (demo_enterprise\<lparr>est_tokens := est_tokens demo_enterprise @ [(new_token_id (en_hash demo_env) demo_token_request ''d1'', t)]\<rparr>) s1"
    "et_workspace_id t = tq_workspace_id demo_token_request" "et_status t = TokenActive" by blast
  have "enterprise_step (en_hash demo_env) demo_enterprise s1"
    using step_create_token [of demo_env _ demo_enterprise "Some demo_actor" demo_token_request "''d1''" "''d2''"] c(1) by simp
  then have "(enterprise_step (en_hash demo_env))\<^sup>*\<^sup>* empty_enterprise s1"
    using demo_enterprise_docs(6) by (rule rtranclp.rtrancl_into_rtrancl [rotated])
  moreover have "get_enrollment_token s1 (new_token_id (en_hash demo_env) demo_token_request ''d1'') = Some t"
    using same_docs_simps(6) [OF c(2)] by (simp add: get_enrollment_token_def demo_enterprise_docs(3))
  moreover have "actor_decision (en_hash demo_env) s1 demo_actor (et_workspace_id t) ''agent.enrollment.revoke'' =
      actor_decision (en_hash demo_env) demo_enterprise demo_actor (et_workspace_id t) ''agent.enrollment.revoke''"
    by (rule actor_decision_same) (simp add: same_docs_simps(4) [OF c(2)])
  ultimately show thesis using that [of s1 t] al(2) c(3,4) by simp
qed

theorem revocation_ineffective_witness:
  "\<exists>s t r. revoke_enrollment_token demo_env (Some demo_actor) (new_token_id (en_hash demo_env) demo_token_request ''d1'') ''lost'' s = (t, Inr r) \<and>
     tr_status r = ''revoked'' \<and> get_enrollment_token t (new_token_id (en_hash demo_env) demo_token_request ''d1'') =
       get_enrollment_token s (new_token_id (en_hash demo_env) demo_token_request ''d1'')"
proof -
  let ?k = "new_token_id (en_hash demo_env) demo_token_request ''d1''"
  obtain s t where d: "(enterprise_step (en_hash demo_env))\<^sup>*\<^sup>* empty_enterprise s" "get_enrollment_token s ?k = Some t"
    "et_status t = TokenActive" "pd_allowed (actor_decision (en_hash demo_env) s demo_actor (et_workspace_id t) ''agent.enrollment.revoke'')"
    by (rule demo_token)
  let ?b = "[(''tokenId'', PStr ?k), (''workspaceId'', PStr (et_workspace_id t)), (''reasonHash'', PStr (en_hash demo_env ''lost''))]"
  from actor_event_ok [OF demo_env_simps(2) demo_enrollment_facts(2), of 0 "''agent_enrollment_token_revoked''" ?b "[]"
      "fst (write_enrollment_token demo_env (t\<lparr>et_status := TokenRevoked\<rparr>) s)"]
  obtain u ref where "actor_event demo_env 0 ''agent_enrollment_token_revoked'' ?b [] demo_actor
      (fst (write_enrollment_token demo_env (t\<lparr>et_status := TokenRevoked\<rparr>) s)) = (u, Inr ref)" by blast
  then have r: "revoke_enrollment_token demo_env (Some demo_actor) ?k ''lost'' s =
      (u, Inr \<lparr>tr_status = ''revoked'', tr_token_id = ?k, tr_evidence_ref = Some ref, tr_blocking_reasons = []\<rparr>)"
    using d(2-4) by (simp add: revoke_enrollment_token_def Let_def del: write_docs)
  from revocation_ineffective [OF d(1) refl r _ rtranclp.rtrancl_refl] r show ?thesis by fastforce
qed

theorem enrollment_gated_witness:
  "\<exists>s t en. enterprise_step (en_hash demo_env) s t \<and> est_enrolled s = [] \<and> est_enrolled t = [en]"
proof -
  obtain s k t en where d: "(enterprise_step (en_hash demo_env))\<^sup>*\<^sup>* empty_enterprise s" "est_enrolled s = []"
    "t = fst (approve_enrollment_request demo_env (Some demo_actor) k s)"
    "require_active_enrollment t ''bot-1'' (Some ''main'') = Inr en" by (rule demo_approved)
  have st: "enterprise_step (en_hash demo_env) s t" unfolding d(3) by (intro step_approve refl)
  have "est_enrolled t \<noteq> []"
  proof
    assume "est_enrolled t = []"
    then have "get_enrolled_agent_by_agent_id t ''bot-1'' (Some ''main'') = None"
      by (simp add: get_enrolled_agent_by_agent_id_def list_enrolled_agents_def of_key_def list_models_def)
    with d(4) show False by (simp add: require_active_enrollment_def)
  qed
  then have ne: "est_enrolled t \<noteq> est_enrolled s" unfolding d(2) .
  from enrollment_gated [OF operations_deployed [OF d(1)] step_operation [OF st] ne]
  have "\<exists>x. est_enrolled t = est_enrolled s @ [x]" unfolding approval_adds_def by blast
  with d(2) st show ?thesis by auto
qed

end
