(* ===== verification/Control_Models.thy ===== *)
theory Control_Models imports Control_Storage Workspace_Models begin

text \<open>
  The data of the agent control plane, the first part of \<open>imperaos/control_plane/models.py\<close>: agents and
  their records in the registry, proposals, policy decisions, simulations and runs, with their
  validators and the JSON documents they are stored as.

  \<^item> A time is the text \<open>isoformat()\<close> gives; \<open>json_time\<close> is the text it has in a document.
  \<^item> A record stands for an object that passed its validators: \<open>spec_valid\<close> is what they ask.
\<close>

section \<open>Enumerations\<close>

datatype runtime_kind = ImperaosCore | ImperaosTeam | ExternalStdio | ExternalHttp | ComputerUseAdapter

datatype execution_surface = SurfaceCore | SurfaceTeam | SurfaceStdio | SurfaceComputerUse | SurfaceOperatorPanel

datatype risk_class = RiskReadOnly | RiskLocalWrite | RiskExternalWrite | RiskMutation | RiskDestructive
  | RiskCredentialSensitive | RiskFinancialOrLegal | RiskSecuritySensitive | RiskComputerUseVisual | RiskUnknown

datatype cp_action = CpAllow | CpDeny | CpRequireApproval | CpUnknown

datatype agent_status = AgentRegistered | AgentDisabled | AgentBlocked

datatype agent_readiness = NotEvaluated | PolicySimulated | ReadyQualified | ProductionAllowed | ReadinessBlocked

datatype run_status = RunCreated | RunPolicyEvaluating | RunPolicyBlocked | RunApprovalPending | RunApprovalRejected
  | RunApproved | RunExecuting | RunBlocked | RunFailed | RunCompleted | RunEvidenceExported | RunVerified

fun runtime_kind_value :: "runtime_kind \<Rightarrow> string" where
  "runtime_kind_value ImperaosCore = ''imperaos_core''"
| "runtime_kind_value ImperaosTeam = ''imperaos_team''"
| "runtime_kind_value ExternalStdio = ''external_stdio''"
| "runtime_kind_value ExternalHttp = ''external_http''"
| "runtime_kind_value ComputerUseAdapter = ''computer_use_adapter''"

fun surface_value :: "execution_surface \<Rightarrow> string" where
  "surface_value SurfaceCore = ''core_runtime''"
| "surface_value SurfaceTeam = ''team_runtime''"
| "surface_value SurfaceStdio = ''external_stdio''"
| "surface_value SurfaceComputerUse = ''computer_use_live''"
| "surface_value SurfaceOperatorPanel = ''operator_panel''"

fun risk_value :: "risk_class \<Rightarrow> string" where
  "risk_value RiskReadOnly = ''read_only''"
| "risk_value RiskLocalWrite = ''local_write''"
| "risk_value RiskExternalWrite = ''external_write''"
| "risk_value RiskMutation = ''mutation''"
| "risk_value RiskDestructive = ''destructive''"
| "risk_value RiskCredentialSensitive = ''credential_sensitive''"
| "risk_value RiskFinancialOrLegal = ''financial_or_legal''"
| "risk_value RiskSecuritySensitive = ''security_sensitive''"
| "risk_value RiskComputerUseVisual = ''computer_use_visual''"
| "risk_value RiskUnknown = ''unknown''"

fun cp_action_value :: "cp_action \<Rightarrow> string" where
  "cp_action_value CpAllow = ''allow''"
| "cp_action_value CpDeny = ''deny''"
| "cp_action_value CpRequireApproval = ''require_approval''"
| "cp_action_value CpUnknown = ''unknown''"

fun run_status_value :: "run_status \<Rightarrow> string" where
  "run_status_value RunCreated = ''created''"
| "run_status_value RunPolicyEvaluating = ''policy_evaluating''"
| "run_status_value RunPolicyBlocked = ''policy_blocked''"
| "run_status_value RunApprovalPending = ''approval_pending''"
| "run_status_value RunApprovalRejected = ''approval_rejected''"
| "run_status_value RunApproved = ''approved''"
| "run_status_value RunExecuting = ''executing''"
| "run_status_value RunBlocked = ''blocked''"
| "run_status_value RunFailed = ''failed''"
| "run_status_value RunCompleted = ''completed''"
| "run_status_value RunEvidenceExported = ''evidence_exported''"
| "run_status_value RunVerified = ''verified''"

section \<open>Identifiers\<close>

definition is_lower_alnum :: "char \<Rightarrow> bool" where
  "is_lower_alnum c = (let n = (of_char c :: nat) in (48 \<le> n \<and> n \<le> 57) \<or> (97 \<le> n \<and> n \<le> 122))"

text \<open>The pattern \<open>[a-z0-9][a-z0-9-]{1,62}[a-z0-9]\<close>.\<close>

definition is_agent_id :: "string \<Rightarrow> bool" where
  "is_agent_id s \<longleftrightarrow> 3 \<le> length s \<and> length s \<le> 64 \<and> is_lower_alnum (hd s) \<and> is_lower_alnum (last s) \<and>
     list_all (\<lambda>c. is_lower_alnum c \<or> c = CHR ''-'') s"

text \<open>The pattern \<open>[a-z0-9][a-z0-9\<close>\<open>extra\<close>\<open>]{1,127}\<close>.\<close>

definition is_action_id :: "string \<Rightarrow> string \<Rightarrow> bool" where
  "is_action_id extra s \<longleftrightarrow> 2 \<le> length s \<and> length s \<le> 128 \<and> is_lower_alnum (hd s) \<and>
     list_all (\<lambda>c. is_lower_alnum c \<or> c \<in> set extra) s"

section \<open>Records\<close>

record declared_action =
  dact_action_id :: string
  dact_phase :: string
  dact_risk_class :: risk_class
  dact_target_kind :: string
  dact_effect :: string
  dact_action_type :: string

record agent_spec =
  spec_agent_id :: string
  spec_display_name :: string
  spec_description :: string
  spec_runtime_kind :: runtime_kind
  spec_profile :: string
  spec_policy_profile :: "string option"
  spec_owner_team :: string
  spec_owner_contact :: string
  spec_allowed_surfaces :: "execution_surface list"
  spec_blocked_surfaces :: "execution_surface list"
  spec_declared_actions :: "declared_action list"
  spec_qualification_required :: bool
  spec_qualification_minimum_level :: string
  spec_qualification_status :: string
  spec_signed_pack_required :: bool
  spec_replay_required :: bool
  spec_metadata :: pydict

record agent_record =
  arec_agent_id :: string
  arec_spec_hash :: string
  arec_status :: agent_status
  arec_readiness :: agent_readiness
  arec_created_at :: string
  arec_updated_at :: string
  arec_disabled_reason :: "string option"
  arec_last_run_id :: "string option"
  arec_spec :: agent_spec

record action_proposal =
  prop_correlation_id :: string
  prop_run_id :: string
  prop_agent_id :: string
  prop_phase :: string
  prop_action_id :: string
  prop_action_type :: string
  prop_target_kind :: string
  prop_target_ref :: string
  prop_risk_class :: risk_class
  prop_effect_summary :: string
  prop_args_fingerprint :: string
  prop_idempotency_key :: string
  prop_payload_redacted :: bool
  prop_requested_at :: string

record cp_decision =
  pdec_action_id :: string
  pdec_phase :: string
  pdec_risk_class :: risk_class
  pdec_action :: cp_action
  pdec_reason_code :: string
  pdec_matched_rule_path :: string
  pdec_policy_hash :: string
  pdec_qualification_required :: bool

record policy_simulation =
  psim_agent_id :: string
  psim_policy_hash :: string
  psim_overall_status :: string
  psim_decisions :: "cp_decision list"
  psim_blocking_reasons :: "string list"

record run_summary =
  run_run_id :: string
  run_agent_id :: string
  run_profile :: string
  run_status :: run_status
  run_submitted_by :: string
  run_identity_ref :: "string option"
  run_input_hash :: string
  run_policy_hash :: string
  run_started_at :: string
  run_completed_at :: "string option"
  run_approval_ids :: "string list"
  run_artifact_refs :: "string list"
  run_blocking_reasons :: "string list"
  run_next_actions :: "string list"

section \<open>Validators\<close>

text \<open>\<open>AgentSpec.model_validate\<close>: the profile stands in for a missing policy profile.\<close>

definition spec_valid :: "agent_spec \<Rightarrow> bool" where
  "spec_valid v \<longleftrightarrow> is_agent_id (spec_agent_id v) \<and> 1 \<le> length (spec_display_name v) \<and>
     length (spec_display_name v) \<le> 120 \<and> length (spec_description v) \<le> 2000 \<and>
     list_all (\<lambda>a. is_action_id ''_-'' (dact_action_id a)) (spec_declared_actions v) \<and>
     set (spec_allowed_surfaces v) \<inter> set (spec_blocked_surfaces v) = {}"

definition validate_spec :: "agent_spec \<Rightarrow> agent_spec option" where
  "validate_spec v =
    (if spec_valid v
     then Some (v\<lparr>spec_policy_profile := Some (case spec_policy_profile v of None \<Rightarrow> spec_profile v | Some p \<Rightarrow> p)\<rparr>)
     else None)"

section \<open>Documents\<close>

text \<open>\<open>model_dump(mode="json")\<close>.\<close>

definition strs :: "string list \<Rightarrow> pyval" where
  "strs xs = PList (map PStr xs)"

definition declared_action_dump :: "declared_action \<Rightarrow> pydict" where
  "declared_action_dump a =
    [(''action_id'', PStr (dact_action_id a)), (''phase'', PStr (dact_phase a)),
     (''risk_class'', PStr (risk_value (dact_risk_class a))), (''target_kind'', PStr (dact_target_kind a)),
     (''effect'', PStr (dact_effect a)), (''action_type'', PStr (dact_action_type a))]"

definition agent_spec_dump :: "agent_spec \<Rightarrow> pydict" where
  "agent_spec_dump v =
    [(''version'', PStr ''control-plane.agent/v1''), (''agent_id'', PStr (spec_agent_id v)),
     (''display_name'', PStr (spec_display_name v)), (''description'', PStr (spec_description v)),
     (''runtime_kind'', PStr (runtime_kind_value (spec_runtime_kind v))), (''profile'', PStr (spec_profile v)),
     (''policy_profile'', pv_of_opt (spec_policy_profile v)),
     (''owner'', PDict [(''team'', PStr (spec_owner_team v)), (''contact'', PStr (spec_owner_contact v))]),
     (''allowed_surfaces'', strs (map surface_value (spec_allowed_surfaces v))),
     (''blocked_surfaces'', strs (map surface_value (spec_blocked_surfaces v))),
     (''declared_actions'', PList (map (\<lambda>a. PDict (declared_action_dump a)) (spec_declared_actions v))),
     (''qualification'', PDict [(''required'', PBool (spec_qualification_required v)),
        (''minimum_level'', PStr (spec_qualification_minimum_level v)),
        (''status'', PStr (spec_qualification_status v))]),
     (''evidence'', PDict [(''signed_pack_required'', PBool (spec_signed_pack_required v)),
        (''replay_required'', PBool (spec_replay_required v))]),
     (''metadata'', PDict (spec_metadata v))]"

definition proposal_dump :: "action_proposal \<Rightarrow> pydict" where
  "proposal_dump p =
    [(''version'', PStr ''control-plane.action-proposal/v1''), (''correlation_id'', PStr (prop_correlation_id p)),
     (''run_id'', PStr (prop_run_id p)), (''agent_id'', PStr (prop_agent_id p)), (''phase'', PStr (prop_phase p)),
     (''action_id'', PStr (prop_action_id p)), (''action_type'', PStr (prop_action_type p)),
     (''target_kind'', PStr (prop_target_kind p)), (''target_ref'', PStr (prop_target_ref p)),
     (''risk_class'', PStr (risk_value (prop_risk_class p))), (''effect_summary'', PStr (prop_effect_summary p)),
     (''args_fingerprint'', PStr (prop_args_fingerprint p)), (''idempotency_key'', PStr (prop_idempotency_key p)),
     (''payload_redacted'', PBool (prop_payload_redacted p)), (''requested_at'', PStr (json_time (prop_requested_at p)))]"

definition cp_decision_dump :: "cp_decision \<Rightarrow> pydict" where
  "cp_decision_dump d =
    [(''action_id'', PStr (pdec_action_id d)), (''phase'', PStr (pdec_phase d)),
     (''risk_class'', PStr (risk_value (pdec_risk_class d))),
     (''decision_action'', PStr (cp_action_value (pdec_action d))), (''reason_code'', PStr (pdec_reason_code d)),
     (''matched_rule_path'', PStr (pdec_matched_rule_path d)), (''policy_hash'', PStr (pdec_policy_hash d)),
     (''approval_id'', PNone), (''qualification_required'', PBool (pdec_qualification_required d))]"

definition counted :: "cp_action \<Rightarrow> cp_decision list \<Rightarrow> pyval" where
  "counted a ds = PInt (int (length (filter (\<lambda>d. pdec_action d = a) ds)))"

definition simulation_dump :: "policy_simulation \<Rightarrow> pydict" where
  "simulation_dump s =
    [(''version'', PStr ''control-plane.policy-simulation/v1''), (''agent_id'', PStr (psim_agent_id s)),
     (''policy_hash'', PStr (psim_policy_hash s)), (''overall_status'', PStr (psim_overall_status s)),
     (''summary'', PDict [(''allow'', counted CpAllow (psim_decisions s)),
        (''require_approval'', counted CpRequireApproval (psim_decisions s)),
        (''deny'', counted CpDeny (psim_decisions s)), (''unknown'', counted CpUnknown (psim_decisions s))]),
     (''decisions'', PList (map (\<lambda>d. PDict (cp_decision_dump d)) (psim_decisions s))),
     (''blocking_reasons'', strs (psim_blocking_reasons s))]"

definition run_dump :: "run_summary \<Rightarrow> pydict" where
  "run_dump r =
    [(''version'', PStr ''control-plane.run/v1''), (''run_id'', PStr (run_run_id r)),
     (''agent_id'', PStr (run_agent_id r)), (''profile'', PStr (run_profile r)),
     (''status'', PStr (run_status_value (run_status r))), (''submitted_by'', PStr (run_submitted_by r)),
     (''identity_ref'', pv_of_opt (run_identity_ref r)), (''input_hash'', PStr (run_input_hash r)),
     (''policy_hash'', PStr (run_policy_hash r)), (''started_at'', PStr (json_time (run_started_at r))),
     (''completed_at'', pv_time (run_completed_at r)), (''approval_ids'', strs (run_approval_ids r)),
     (''artifact_refs'', strs (run_artifact_refs r)), (''evidence_pack_id'', PNone),
     (''blocking_reasons'', strs (run_blocking_reasons r)), (''next_actions'', strs (run_next_actions r))]"

lemma risk_value_inject [simp]: "risk_value a = risk_value b \<longleftrightarrow> a = b"
  by (cases a; cases b) simp_all

lemma run_status_value_inject [simp]: "run_status_value a = run_status_value b \<longleftrightarrow> a = b"
  by (cases a; cases b) simp_all

end
