(* ===== verification/Agent_Registry.thy ===== *)
theory Agent_Registry imports Control_Models begin

text \<open>
  The registry of agents, \<open>AgentRegistry\<close> of \<open>imperaos/control_plane/registry.py\<close>: one document,
  \<open>agents.json\<close>, that every operation reads, changes and writes back.

  \<^item> \<open>registry_file\<close> is that document: missing, text that does not parse (which reading moves away), a
    value that is no object, or the registry.  An entry that is no object is \<open>None\<close>; an entry that is
    one was written by this class, so it reads back as the record it was written for.
  \<^item> \<open>now\<close> is the text of the time an operation reads; \<open>Inl code\<close> is a \<open>ControlPlaneError\<close>.
\<close>

record registry =
  rg_agents :: "(string \<times> agent_record option) list"
  rg_created_at :: "string option"
  rg_updated_at :: "string option"
  rg_last_actor :: "string option"

datatype registry_file = RegistryMissing | RegistryUnreadable | RegistryNoObject | RegistryFile registry

definition empty_registry :: "string option \<Rightarrow> registry" where
  "empty_registry now = \<lparr>rg_agents = [], rg_created_at = now, rg_updated_at = now, rg_last_actor = None\<rparr>"

definition read_registry :: "string \<Rightarrow> registry_file \<Rightarrow> registry_file \<times> (string + registry)" where
  "read_registry now f =
    (case f of
       RegistryMissing \<Rightarrow> (f, Inr (empty_registry (Some now)))
     | RegistryUnreadable \<Rightarrow> (RegistryMissing, Inl ''CONTROL_PLANE_STATE_CORRUPTED'')
     | RegistryNoObject \<Rightarrow> (f, Inr (empty_registry None))
     | RegistryFile g \<Rightarrow> (f, Inr g))"

definition put_agent :: "agent_record \<Rightarrow> string \<Rightarrow> registry \<Rightarrow> registry" where
  "put_agent r now g = g\<lparr>rg_agents := AList.update (arec_agent_id r) (Some r) (rg_agents g), rg_updated_at := Some now\<rparr>"

section \<open>Operations\<close>

record register_result =
  reg_registered :: bool
  reg_agent_id :: string
  reg_spec_hash :: string
  reg_record :: agent_record

definition spec_hash_of :: "(string \<Rightarrow> string) \<Rightarrow> agent_spec \<Rightarrow> string" where
  "spec_hash_of H v = canonical_json_hash H (PDict (agent_spec_dump v))"

definition new_record :: "(string \<Rightarrow> string) \<Rightarrow> string \<Rightarrow> agent_spec \<Rightarrow> agent_record" where
  "new_record H now v =
     \<lparr>arec_agent_id = spec_agent_id v, arec_spec_hash = spec_hash_of H v, arec_status = AgentRegistered,
      arec_readiness = NotEvaluated, arec_created_at = now, arec_updated_at = now, arec_disabled_reason = None,
      arec_last_run_id = None, arec_spec = v\<rparr>"

definition register :: "(string \<Rightarrow> string) \<Rightarrow> string \<Rightarrow> agent_spec \<Rightarrow> string \<Rightarrow> registry_file
    \<Rightarrow> registry_file \<times> (string + register_result)" where
  "register H now v actor f =
    (case read_registry now f of
       (f1, Inl e) \<Rightarrow> (f1, Inl e)
     | (f1, Inr g) \<Rightarrow>
         let spec_hash = spec_hash_of H v in
         (case map_of (rg_agents g) (spec_agent_id v) of
            Some (Some r) \<Rightarrow>
              if arec_spec_hash r \<noteq> spec_hash then (f1, Inl ''AGENT_ID_CONFLICT'')
              else (f1, Inr \<lparr>reg_registered = False, reg_agent_id = spec_agent_id v, reg_spec_hash = spec_hash,
                             reg_record = r\<rparr>)
          | _ \<Rightarrow>
              let r = new_record H now v in
              (RegistryFile ((put_agent r now g)\<lparr>rg_last_actor := Some actor\<rparr>),
               Inr \<lparr>reg_registered = True, reg_agent_id = spec_agent_id v, reg_spec_hash = spec_hash, reg_record = r\<rparr>)))"

definition list_agents :: "string \<Rightarrow> registry_file \<Rightarrow> registry_file \<times> (string + agent_record list)" where
  "list_agents now f =
    (case read_registry now f of
       (f1, Inl e) \<Rightarrow> (f1, Inl e)
     | (f1, Inr g) \<Rightarrow> (f1, Inr (map the (filter (\<lambda>x. x \<noteq> None) (map snd (sort_key fst (rg_agents g)))))))"

definition get_agent :: "string \<Rightarrow> string \<Rightarrow> registry_file \<Rightarrow> registry_file \<times> (string + agent_record)" where
  "get_agent now agent_id f =
    (case read_registry now f of
       (f1, Inl e) \<Rightarrow> (f1, Inl e)
     | (f1, Inr g) \<Rightarrow>
         (case map_of (rg_agents g) agent_id of
            Some (Some r) \<Rightarrow> (f1, Inr r)
          | _ \<Rightarrow> (f1, Inl ''AGENT_NOT_FOUND'')))"

definition update_record :: "string \<Rightarrow> agent_record \<Rightarrow> registry_file \<Rightarrow> registry_file \<times> (string + agent_record)" where
  "update_record now r f =
    (case read_registry now f of
       (f1, Inl e) \<Rightarrow> (f1, Inl e)
     | (f1, Inr g) \<Rightarrow>
         if map_of (rg_agents g) (arec_agent_id r) = None then (f1, Inl ''AGENT_NOT_FOUND'')
         else let next_record = r\<lparr>arec_updated_at := now\<rparr>
              in (RegistryFile (put_agent next_record now g), Inr next_record))"

text \<open>\<open>other\<close> is what another process made of the document between the two reads of \<open>disable\<close>.\<close>

definition disabled :: "string \<Rightarrow> string \<Rightarrow> agent_record \<Rightarrow> agent_record" where
  "disabled now reason r =
     r\<lparr>arec_status := AgentDisabled, arec_readiness := ReadinessBlocked, arec_disabled_reason := Some reason,
       arec_updated_at := now\<rparr>"

definition disable ::
  "string \<Rightarrow> (registry_file \<Rightarrow> registry_file) \<Rightarrow> string \<Rightarrow> string \<Rightarrow> string \<Rightarrow> registry_file
     \<Rightarrow> registry_file \<times> (string + agent_record)" where
  "disable now other agent_id reason actor f =
    (case get_agent now agent_id f of
       (f1, Inl e) \<Rightarrow> (f1, Inl e)
     | (f1, Inr r) \<Rightarrow>
         (case read_registry now (other f1) of
            (f2, Inl e) \<Rightarrow> (f2, Inl e)
          | (f2, Inr g) \<Rightarrow>
              let next_record = disabled now reason r in
              (RegistryFile (g\<lparr>rg_agents := AList.update agent_id (Some next_record) (rg_agents g),
                               rg_updated_at := Some now, rg_last_actor := Some actor\<rparr>),
               Inr next_record)))"

section \<open>Specifications\<close>

text \<open>\<open>load_agent_spec\<close>: the file is missing, does not hold a specification, or holds the fields of one.\<close>

datatype spec_file = SpecMissing | SpecUnreadable | SpecFields agent_spec

definition load_agent_spec :: "spec_file \<Rightarrow> string + agent_spec" where
  "load_agent_spec f =
    (case f of
       SpecMissing \<Rightarrow> Inl ''AGENT_SPEC_NOT_FOUND''
     | SpecUnreadable \<Rightarrow> Inl ''AGENT_SPEC_INVALID''
     | SpecFields v \<Rightarrow> (case validate_spec v of None \<Rightarrow> Inl ''AGENT_SPEC_INVALID'' | Some w \<Rightarrow> Inr w))"

end
