(* ===== verification/Policy_Simulator.thy ===== *)
theory Policy_Simulator imports Control_Models begin

text \<open>
  The policy of the control plane, \<open>imperaos/control_plane/policy_simulator.py\<close>: the decision on the
  risk of an action, an agent's declared actions together, and the digest of the policy the decisions
  name.  \<open>control_config\<close> is what the control plane reads of its configuration: \<open>cc_policy_file\<close> is the
  content of the policy file, \<open>None\<close> when there is none; \<open>cc_hash\<close> is the hexadecimal SHA-256 and
  \<open>cc_iso\<close> the text of a time.
\<close>

record control_config =
  cc_hash :: "string \<Rightarrow> string"
  cc_iso :: "int \<Rightarrow> string"
  cc_profile_name :: string
  cc_governance_enabled :: bool
  cc_policy_file :: "string option"
  cc_default_workspace_id :: string
  cc_approval_ttl_seconds :: int
  cc_runtime_version :: string

definition cp_policy_hash :: "control_config \<Rightarrow> string" where
  "cp_policy_hash C =
    (if \<not> cc_governance_enabled C then ''sha256:governance-disabled''
     else case cc_policy_file C of None \<Rightarrow> ''unavailable'' | Some content \<Rightarrow> ''sha256:'' @ cc_hash C content)"

definition policy_available :: "control_config \<Rightarrow> bool" where
  "policy_available C \<longleftrightarrow> \<not> cc_governance_enabled C \<or> cp_policy_hash C \<noteq> ''unavailable''"

definition risk_path :: "risk_class \<Rightarrow> string" where
  "risk_path r = ''risk_defaults['' @ risk_value r @ '']''"

definition risk_default :: "risk_class \<Rightarrow> cp_action \<times> string" where
  "risk_default r =
    (if r = RiskReadOnly then (CpAllow, ''RISK_READ_ONLY_ALLOWED'')
     else if r \<in> {RiskLocalWrite, RiskExternalWrite, RiskMutation} then (CpRequireApproval, ''RISK_REQUIRES_APPROVAL'')
     else if r = RiskComputerUseVisual then (CpRequireApproval, ''COMPUTER_USE_REQUIRES_QUALIFICATION'')
     else (CpDeny, if r = RiskUnknown then ''UNKNOWN_RISK_DENIED'' else ''RISK_DENIED''))"

definition decision_for_risk :: "string \<Rightarrow> string \<Rightarrow> risk_class \<Rightarrow> string \<Rightarrow> cp_decision" where
  "decision_for_risk action_id phase r policy_hash =
    (if policy_hash = ''unavailable''
     then \<lparr>pdec_action_id = action_id, pdec_phase = phase, pdec_risk_class = r, pdec_action = CpDeny,
           pdec_reason_code = ''POLICY_UNAVAILABLE'', pdec_matched_rule_path = ''control_plane.policy_available'',
           pdec_policy_hash = policy_hash, pdec_qualification_required = False\<rparr>
     else let (action, reason) = risk_default r in
          \<lparr>pdec_action_id = action_id, pdec_phase = phase, pdec_risk_class = r, pdec_action = action,
           pdec_reason_code = reason, pdec_matched_rule_path = risk_path r, pdec_policy_hash = policy_hash,
           pdec_qualification_required = (r = RiskComputerUseVisual)\<rparr>)"

definition simulate_action :: "control_config \<Rightarrow> action_proposal \<Rightarrow> cp_decision" where
  "simulate_action C p = decision_for_risk (prop_action_id p) (prop_phase p) (prop_risk_class p) (cp_policy_hash C)"

definition sorted_codes :: "string list \<Rightarrow> string list" where
  "sorted_codes xs = sorted_list_of_set (set xs)"

definition simulate_agent :: "control_config \<Rightarrow> agent_spec \<Rightarrow> policy_simulation" where
  "simulate_agent C v =
    (let policy_hash = cp_policy_hash C;
         decisions = map (\<lambda>a. decision_for_risk (dact_action_id a) (dact_phase a) (dact_risk_class a) policy_hash)
           (spec_declared_actions v);
         blocking = (if policy_hash = ''unavailable'' then [''POLICY_UNAVAILABLE''] else []) @
           map pdec_reason_code (filter (\<lambda>d. pdec_action d = CpDeny) decisions)
     in \<lparr>psim_agent_id = spec_agent_id v, psim_policy_hash = policy_hash,
         psim_overall_status = (if blocking \<noteq> [] then ''blocked''
            else if list_ex (\<lambda>d. pdec_action d = CpRequireApproval) decisions then ''conditional'' else ''pass''),
         psim_decisions = decisions, psim_blocking_reasons = sorted_codes blocking\<rparr>)"

text \<open>\<open>evaluate_action_proposal_file\<close>: \<open>None\<close> is a file that does not hold a proposal, with the text of the
  exception.\<close>

definition evaluate_action_proposal_file :: "control_config \<Rightarrow> string + action_proposal \<Rightarrow> pydict" where
  "evaluate_action_proposal_file C f =
    (case f of
       Inl e \<Rightarrow> [(''type'', PStr ''policy_decision''),
                 (''payload'', PDict [(''decision_action'', PStr ''deny''), (''reason_code'', PStr ''ADAPTER_CONTRACT_INVALID''),
                    (''policy_hash'', PStr ''unavailable''), (''error'', PStr e)])]
     | Inr p \<Rightarrow> [(''type'', PStr ''policy_decision''), (''payload'', PDict (cp_decision_dump (simulate_action C p)))])"

section \<open>Facts\<close>

lemma policy_hash_unavailable:
  "cp_policy_hash C = ''unavailable'' \<longleftrightarrow> cc_governance_enabled C \<and> cc_policy_file C = None"
  by (auto simp: cp_policy_hash_def split: option.splits)

lemma decision_simps [simp]:
  "pdec_action_id (decision_for_risk a ph r h) = a" "pdec_phase (decision_for_risk a ph r h) = ph"
  "pdec_risk_class (decision_for_risk a ph r h) = r" "pdec_policy_hash (decision_for_risk a ph r h) = h"
  by (simp_all add: decision_for_risk_def Let_def split: prod.splits)

lemma decision_actions:
  "pdec_action (decision_for_risk a ph r h) = (if h = ''unavailable'' then CpDeny else fst (risk_default r))"
  by (simp add: decision_for_risk_def Let_def split: prod.splits)

lemma risk_default_actions:
  "fst (risk_default r) = CpAllow \<longleftrightarrow> r = RiskReadOnly"
  "fst (risk_default r) = CpRequireApproval \<longleftrightarrow>
     r \<in> {RiskLocalWrite, RiskExternalWrite, RiskMutation, RiskComputerUseVisual}"
  "fst (risk_default r) = CpDeny \<longleftrightarrow>
     r \<in> {RiskDestructive, RiskCredentialSensitive, RiskFinancialOrLegal, RiskSecuritySensitive, RiskUnknown}"
  "fst (risk_default r) \<noteq> CpUnknown"
  by (cases r; simp add: risk_default_def)+

lemma sorted_codes_Nil [simp]: "sorted_codes xs = [] \<longleftrightarrow> xs = []"
  by (simp add: sorted_codes_def)

end
