(* ===== verification/Control_State.thy ===== *)
theory Control_State imports Agent_Registry Policy_Simulator Enterprise_Snapshot Approval_Ops begin

text \<open>
  What the control plane keeps under its root and beside it, shared by the gateway and by the
  coordinator of runs: the registry, the runs (\<open>runs/\<close>), the other documents, the enterprise
  workspace and the approval store.  A file of a run is text that does not parse, or the run with the
  other fields of the document; it was written by this program.
\<close>

datatype run_file = RunUnreadable | RunFile (file_run: run_summary) (file_fields: pydict)

record control_state =
  cs_registry :: registry_file
  cs_runs :: "string \<rightharpoonup> run_file"
  cs_docs :: documents
  cs_enterprise :: enterprise_state
  cs_approvals :: approval_db

text \<open>Writing a run, and a document whose reference has no path of its own.\<close>

definition put_run :: "run_summary \<Rightarrow> pydict \<Rightarrow> control_state \<Rightarrow> control_state" where
  "put_run run rest s = s\<lparr>cs_runs := (cs_runs s)(run_run_id run \<mapsto> RunFile run rest)\<rparr>"

definition put_doc :: "string \<Rightarrow> pydict \<Rightarrow> control_state \<Rightarrow> control_state" where
  "put_doc ref d s = s\<lparr>cs_docs := fst (write_json_atomic (\<lambda>_. True) (cs_docs s) ref (PDict d))\<rparr>"

definition get_doc :: "string \<Rightarrow> control_state \<Rightarrow> control_state \<times> (string + pyval)" where
  "get_doc ref s =
    (case read_json (\<lambda>_. True) (cs_docs s) ref of (docs, answer) \<Rightarrow> (s\<lparr>cs_docs := docs\<rparr>, answer))"

text \<open>The exception of \<open>create_ticket\<close>.\<close>

definition create_error_name :: "create_error \<Rightarrow> string" where
  "create_error_name e = (case e of ValueError m \<Rightarrow> ''ValueError'' | IntegrityError \<Rightarrow> ''IntegrityError'')"

lemma put_run_simps [simp]:
  "cs_registry (put_run r d s) = cs_registry s" "cs_docs (put_run r d s) = cs_docs s"
  "cs_enterprise (put_run r d s) = cs_enterprise s" "cs_approvals (put_run r d s) = cs_approvals s"
  "cs_runs (put_run r d s) = (cs_runs s)(run_run_id r \<mapsto> RunFile r d)"
  by (simp_all add: put_run_def)

lemma put_doc_simps [simp]:
  "cs_registry (put_doc ref d s) = cs_registry s" "cs_runs (put_doc ref d s) = cs_runs s"
  "cs_enterprise (put_doc ref d s) = cs_enterprise s" "cs_approvals (put_doc ref d s) = cs_approvals s"
  "cs_docs (put_doc ref d s) = (cs_docs s)(ref \<mapsto> Document (canonicalize_payload (PDict d)))"
  by (simp_all add: put_doc_def write_json_atomic_def)

lemma get_doc_document: "cs_docs s ref = Some (Document v) \<Longrightarrow> get_doc ref s = (s, Inr v)"
  by (simp add: get_doc_def read_json_def)

lemma get_doc_absent: "cs_docs s ref = None \<Longrightarrow> get_doc ref s = (s, Inr PNone)"
  by (simp add: get_doc_def read_json_def)

text \<open>A ticket that is no artifact's is bound to the workspace it names, when its snapshot names none.\<close>

lemma plain_binding:
  assumes "\<not> starts_with kind ''artifact''" "dict_get snapshot ''workspaceId'' = PNone"
    and "dict_get snapshot ''workspace_id'' = PNone" "py_strip w = w" "w \<noteq> []" "w \<noteq> legacy_unbound_workspace"
  shows "canonical_workspace_binding (Some w) kind ref snapshot = Inr w"
  using assms by (simp add: canonical_workspace_binding_def binding_candidate_def pv_of_opt_def split: prod.split)

lemma created_in_empty:
  "canonical_workspace_binding (q_workspace_id q) (q_target_kind q) (q_target_ref q) (q_snapshot q) = Inr w \<Longrightarrow>
     create_ticket H now uuid q empty_db =
       (empty_db\<lparr>approvals := [insert_row (new_ticket now uuid w q)]\<rparr>, Inr (new_ticket now uuid w q))"
  by (simp add: create_ticket_def violates_unique_def empty_db_def Let_def)

end
