(* ===== verification/Run_Coordinator.thy ===== *)
theory Run_Coordinator imports Control_State Approval_Execution Identity begin

text \<open>
  Runs of registered agents, \<open>ControlPlaneRunCoordinator\<close> of
  \<open>imperaos/control_plane/run_coordinator.py\<close>: the declared actions of an agent are simulated; the ones
  that need an approval leave a proposal document and a ticket each; the run is stored and, once every
  ticket is executed, completed.

  \<^item> \<open>run_id\<close> is the name \<open>_new_run_id\<close> makes of the time, \<open>uuid n\<close> the identifier of the \<open>n\<close>-th ticket;
    \<open>identity\<close> is the answer of \<open>require_permission\<close> for \<open>runtime.run\<close>.
  \<^item> \<open>Inl e\<close> is an exception that escapes, with its class or code.
\<close>

section \<open>Submitting\<close>

text \<open>\<open>_identity_ref\<close>: the reference, and the error code; an exception that is no identity error escapes.\<close>

definition identity_ref :: "identity_error + actor_context option \<Rightarrow> string + string option \<times> string option" where
  "identity_ref identity =
    (case identity of
       Inl (Identity code message) \<Rightarrow> Inr (None, Some code)
     | Inl (Identity.Raised e) \<Rightarrow> Inl e
     | Inr None \<Rightarrow> Inr (Some ''identity:disabled'', None)
     | Inr (Some a) \<Rightarrow> Inr (Some (''identity:'' @ ac_actor_id a @ '':'' @ ac_key_id a), None))"

definition run_input_hash_of :: "(string \<Rightarrow> string) \<Rightarrow> string \<Rightarrow> string \<Rightarrow> string" where
  "run_input_hash_of H agent_id user_input =
     canonical_json_hash H (PDict [(''agent_id'', PStr agent_id), (''user_input'', PStr user_input)])"

definition run_proposal :: "string \<Rightarrow> string \<Rightarrow> string \<Rightarrow> cp_decision \<Rightarrow> pydict" where
  "run_proposal run_id agent_id input_hash d =
    [(''run_id'', PStr run_id), (''agent_id'', PStr agent_id), (''action_id'', PStr (pdec_action_id d)),
     (''decision'', PDict (cp_decision_dump d)), (''input_hash'', PStr input_hash)]"

definition proposal_ref_of :: "string \<Rightarrow> string \<Rightarrow> string" where
  "proposal_ref_of run_id action_id = ''proposals/'' @ run_id @ ''/'' @ action_id @ ''.json''"

definition run_snapshot :: "control_config \<Rightarrow> string \<Rightarrow> string \<Rightarrow> string \<Rightarrow> cp_decision \<Rightarrow> approval_snapshot" where
  "run_snapshot C run_id agent_id input_hash d =
     ControlPlaneActionSnapshot run_id (pdec_policy_hash d) agent_id (pdec_action_id d)
       (proposal_ref_of run_id (pdec_action_id d))
       (canonical_json_hash (cc_hash C) (PDict (run_proposal run_id agent_id input_hash d)))
       input_hash (cc_runtime_version C)"

definition run_ticket :: "control_config \<Rightarrow> string \<Rightarrow> string \<Rightarrow> string \<Rightarrow> cp_decision \<Rightarrow> create_args" where
  "run_ticket C run_id agent_id input_hash d =
    (let snapshot = run_snapshot C run_id agent_id input_hash d;
         request_hash = compute_approval_request_hash (cc_hash C) snapshot
     in \<lparr>q_workspace_id = Some (cc_default_workspace_id C), q_run_id = run_id,
         q_target_kind = ''control_plane_action'', q_target_ref = agent_id @ '':'' @ pdec_action_id d,
         q_action_hash = sn_proposal_hash snapshot, q_policy_hash = pdec_policy_hash d,
         q_request_hash = request_hash, q_snapshot_hash = request_hash, q_snapshot = model_dump snapshot,
         q_ttl_seconds = cc_approval_ttl_seconds C,
         q_idempotency_key = ''control-plane:'' @ run_id @ '':'' @ pdec_action_id d\<rparr>)"

text \<open>The loop over the decisions that need an approval: the state, and the tickets so far.\<close>

fun open_approvals ::
  "control_config \<Rightarrow> (nat \<Rightarrow> int) \<Rightarrow> (nat \<Rightarrow> string) \<Rightarrow> string \<Rightarrow> string \<Rightarrow> string \<Rightarrow> nat \<Rightarrow> cp_decision list
     \<Rightarrow> control_state \<Rightarrow> control_state \<times> (string + string list)" where
  "open_approvals C clk uuid run_id agent_id input_hash n [] s = (s, Inr [])"
| "open_approvals C clk uuid run_id agent_id input_hash n (d # ds) s =
    (let s1 = put_doc (proposal_ref_of run_id (pdec_action_id d)) (run_proposal run_id agent_id input_hash d) s in
     case create_ticket (cc_hash C) (clk n) (uuid n) (run_ticket C run_id agent_id input_hash d) (cs_approvals s1) of
       (db, Inl e) \<Rightarrow> (s1\<lparr>cs_approvals := db\<rparr>, Inl (create_error_name e))
     | (db, Inr ticket) \<Rightarrow>
         (case open_approvals C clk uuid run_id agent_id input_hash (Suc n) ds (s1\<lparr>cs_approvals := db\<rparr>) of
            (s2, Inl e) \<Rightarrow> (s2, Inl e)
          | (s2, Inr ids) \<Rightarrow> (s2, Inr (t_approval_id ticket # ids))))"

definition approval_decisions :: "policy_simulation \<Rightarrow> cp_decision list" where
  "approval_decisions sim = filter (\<lambda>d. pdec_action d = CpRequireApproval) (psim_decisions sim)"

text \<open>The status of the run, its tickets and what to do next.\<close>

definition run_verdict ::
  "control_config \<Rightarrow> (nat \<Rightarrow> int) \<Rightarrow> (nat \<Rightarrow> string) \<Rightarrow> string \<Rightarrow> string \<Rightarrow> string \<Rightarrow> string \<Rightarrow> string list \<Rightarrow> policy_simulation
     \<Rightarrow> control_state \<Rightarrow> control_state \<times> (string + run_status \<times> string list \<times> string list)" where
  "run_verdict C clk uuid run_id agent_id input_hash mode blocking sim s =
    (if blocking \<noteq> [] then (s, Inr (RunPolicyBlocked, [], [''policy.simulate'', ''agent.update'']))
     else if approval_decisions sim \<noteq> [] \<and> mode \<noteq> ''dry_run''
     then (case open_approvals C clk uuid run_id agent_id input_hash 0 (approval_decisions sim) s of
             (s1, Inl e) \<Rightarrow> (s1, Inl e)
           | (s1, Inr ids) \<Rightarrow>
               (s1, Inr (RunApprovalPending, ids, [''approval.show'', ''approval.decide'', ''approval.execute''])))
     else (s, Inr (RunCompleted, [], [''evidence.export'', ''evidence.verify''])))"

definition submitted_run ::
  "control_config \<Rightarrow> int \<Rightarrow> string \<Rightarrow> string \<Rightarrow> string \<Rightarrow> string option \<Rightarrow> string \<Rightarrow> string \<Rightarrow> string list
     \<Rightarrow> run_status \<times> string list \<times> string list \<Rightarrow> run_summary" where
  "submitted_run C t run_id agent_id actor ref input_hash policy_hash blocking v =
    (case v of (status, ids, next_actions) \<Rightarrow>
       \<lparr>run_run_id = run_id, run_agent_id = agent_id, run_profile = cc_profile_name C, run_status = status,
        run_submitted_by = actor, run_identity_ref = ref, run_input_hash = input_hash, run_policy_hash = policy_hash,
        run_started_at = cc_iso C t, run_completed_at = (if status = RunCompleted then Some (cc_iso C t) else None),
        run_approval_ids = ids, run_artifact_refs = [], run_blocking_reasons = sorted_codes blocking,
        run_next_actions = next_actions\<rparr>)"

definition run_fields :: "control_config \<Rightarrow> int \<Rightarrow> agent_spec \<Rightarrow> policy_simulation \<Rightarrow> pydict" where
  "run_fields C t v sim =
    [(''version'', PStr ''control-plane.run-state/v1''), (''agent_spec'', PDict (agent_spec_dump v)),
     (''policy_simulation'', PDict (simulation_dump sim)), (''created_at'', PStr (cc_iso C t))]"

definition submit_run ::
  "control_config \<Rightarrow> identity_error + actor_context option \<Rightarrow> (nat \<Rightarrow> int) \<Rightarrow> (nat \<Rightarrow> string) \<Rightarrow> string \<Rightarrow> string
     \<Rightarrow> string \<Rightarrow> string \<Rightarrow> string \<Rightarrow> control_state \<Rightarrow> control_state \<times> (string + run_summary)" where
  "submit_run C identity clk uuid run_id agent_id user_input actor mode s =
    (case get_agent (cc_iso C (clk 0)) agent_id (cs_registry s) of
       (f, Inl e) \<Rightarrow> (s\<lparr>cs_registry := f\<rparr>, Inl e)
     | (f, Inr a) \<Rightarrow>
         let s0 = s\<lparr>cs_registry := f\<rparr>; input_hash = run_input_hash_of (cc_hash C) agent_id user_input in
         (case identity_ref identity of
            Inl e \<Rightarrow> (s0, Inl e)
          | Inr (ref, identity_error) \<Rightarrow>
              let sim = simulate_agent C (arec_spec a);
                  blocking = psim_blocking_reasons sim @ (case identity_error of None \<Rightarrow> [] | Some code \<Rightarrow> [code])
              in (case run_verdict C (\<lambda>n. clk (Suc n)) uuid run_id agent_id input_hash mode blocking sim s0 of
                    (s1, Inl e) \<Rightarrow> (s1, Inl e)
                  | (s1, Inr v) \<Rightarrow>
                      let t = clk (Suc (length (spec_declared_actions (arec_spec a))));
                          run = submitted_run C t run_id agent_id actor ref input_hash (psim_policy_hash sim) blocking v;
                          s2 = put_run run (run_fields C t (arec_spec a) sim) s1
                      in (case update_record (cc_iso C t) (a\<lparr>arec_last_run_id := Some run_id, arec_updated_at := cc_iso C t\<rparr>)
                                 (cs_registry s2) of
                            (f2, Inl e) \<Rightarrow> (s2\<lparr>cs_registry := f2\<rparr>, Inl e)
                          | (f2, Inr _) \<Rightarrow> (s2\<lparr>cs_registry := f2\<rparr>, Inr run)))))"

section \<open>Status\<close>

definition ticket_executed :: "control_config \<Rightarrow> approval_db \<Rightarrow> string \<Rightarrow> bool" where
  "ticket_executed C db approval_id =
    (case get (cc_hash C) db approval_id (Some (cc_default_workspace_id C)) of
       None \<Rightarrow> False | Some t \<Rightarrow> t_status t = Executed)"

definition get_status ::
  "control_config \<Rightarrow> (string \<Rightarrow> bool) \<Rightarrow> int \<Rightarrow> string \<Rightarrow> control_state \<Rightarrow> control_state \<times> (string + run_summary)" where
  "get_status C inside t run_id s =
    (if \<not> inside (''runs/'' @ run_id @ ''.json'') then (s, Inl ''PathOutsideRoot'')
     else case cs_runs s run_id of
       None \<Rightarrow> (s, Inl ''FileNotFoundError'')
     | Some RunUnreadable \<Rightarrow> (s\<lparr>cs_runs := (cs_runs s)(run_id := None)\<rparr>, Inl ''RegistryCorrupted'')
     | Some (RunFile run rest) \<Rightarrow>
         if run_status run = RunApprovalPending \<and> run_approval_ids run \<noteq> [] \<and>
            list_all (ticket_executed C (cs_approvals s)) (run_approval_ids run)
         then let run1 = run\<lparr>run_status := RunCompleted, run_completed_at := Some (cc_iso C t),
                             run_next_actions := [''evidence.export'', ''evidence.verify'']\<rparr>
              in (s\<lparr>cs_runs := (cs_runs s)(run_id \<mapsto> RunFile run1 rest)\<rparr>, Inr run1)
         else (s, Inr run))"

text \<open>\<open>list_runs\<close>, given the names of the files under \<open>runs/\<close>, each with what it holds.\<close>

fun read_runs :: "(string \<times> run_file) list \<Rightarrow> string + run_summary list" where
  "read_runs [] = Inr []"
| "read_runs ((name, RunUnreadable) # fs) = Inl ''RegistryCorrupted''"
| "read_runs ((name, RunFile run rest) # fs) =
    (case read_runs fs of Inl e \<Rightarrow> Inl e | Inr runs \<Rightarrow> Inr (run # runs))"

definition list_runs :: "(string \<times> run_file) list \<Rightarrow> string + run_summary list" where
  "list_runs fs = read_runs (rev (sort_key (\<lambda>f. fst f @ ''.json'') fs))"

section \<open>Facts\<close>

text \<open>The idempotency key of the ticket of a decision, and the columns of that ticket.\<close>

definition run_key :: "string \<Rightarrow> cp_decision \<Rightarrow> string" where
  "run_key run_id d = ''control-plane:'' @ run_id @ '':'' @ pdec_action_id d"

lemma run_ticket_simps [simp]:
  "q_idempotency_key (run_ticket C run ag ih d) = run_key run d"
  "q_snapshot (run_ticket C run ag ih d) = model_dump (run_snapshot C run ag ih d)"
  "q_request_hash (run_ticket C run ag ih d) = compute_approval_request_hash (cc_hash C) (run_snapshot C run ag ih d)"
  "q_policy_hash (run_ticket C run ag ih d) = pdec_policy_hash d" "q_run_id (run_ticket C run ag ih d) = run"
  "q_target_kind (run_ticket C run ag ih d) = ''control_plane_action''"
  "q_target_ref (run_ticket C run ag ih d) = ag @ '':'' @ pdec_action_id d"
  "q_action_hash (run_ticket C run ag ih d) = canonical_json_hash (cc_hash C) (PDict (run_proposal run ag ih d))"
  "q_workspace_id (run_ticket C run ag ih d) = Some (cc_default_workspace_id C)"
  "q_ttl_seconds (run_ticket C run ag ih d) = cc_approval_ttl_seconds C"
  by (simp_all add: run_ticket_def run_key_def run_snapshot_def Let_def)

end
