(* ===== verification/External_Contracts.thy ===== *)
theory External_Contracts imports Policy_Simulator begin

text \<open>
  The contracts of the external gateway, \<open>imperaos/control_plane/external_contracts.py\<close>: requests and
  answers of version 1 and 1.1, their validators and documents.

  \<^item> A request is a record of its fields; \<open>xrequest_valid\<close> and \<open>vrequest_valid\<close> are what the validators
    ask of them.  \<open>requested_at\<close> is the text \<open>isoformat()\<close> gives.
  \<^item> \<open>generated_at\<close> of an answer is the text it has in a JSON document.
\<close>

section \<open>Enumerations\<close>

datatype action_kind = KindRead | KindMutate | KindExternalWrite | KindDestructive | KindCredentialSensitive | KindUnknown

datatype xstatus = XAccepted | XRequiresApproval | XBlockedPendingApproval | XDenied | XInvalidRequest | XUnknownAgent

datatype vdecision = VAllow | VDeny | VRequireApproval | VUnknown

datatype replay_status = ReplayRecorded | ReplayReplayed | ReplayVerified | ReplayMismatch | ReplayMissing

datatype idempotency_status = IdemCreated | IdemReplayed | IdemConflict

fun action_kind_value :: "action_kind \<Rightarrow> string" where
  "action_kind_value KindRead = ''read''"
| "action_kind_value KindMutate = ''mutate''"
| "action_kind_value KindExternalWrite = ''external_write''"
| "action_kind_value KindDestructive = ''destructive''"
| "action_kind_value KindCredentialSensitive = ''credential_sensitive''"
| "action_kind_value KindUnknown = ''unknown''"

fun xstatus_value :: "xstatus \<Rightarrow> string" where
  "xstatus_value XAccepted = ''accepted''"
| "xstatus_value XRequiresApproval = ''requires_approval''"
| "xstatus_value XBlockedPendingApproval = ''blocked_pending_approval''"
| "xstatus_value XDenied = ''denied''"
| "xstatus_value XInvalidRequest = ''invalid_request''"
| "xstatus_value XUnknownAgent = ''unknown_agent''"

fun vdecision_value :: "vdecision \<Rightarrow> string" where
  "vdecision_value VAllow = ''allow''"
| "vdecision_value VDeny = ''deny''"
| "vdecision_value VRequireApproval = ''require_approval''"
| "vdecision_value VUnknown = ''unknown''"

fun replay_value :: "replay_status \<Rightarrow> string" where
  "replay_value ReplayRecorded = ''recorded''"
| "replay_value ReplayReplayed = ''replayed''"
| "replay_value ReplayVerified = ''verified''"
| "replay_value ReplayMismatch = ''mismatch''"
| "replay_value ReplayMissing = ''missing''"

fun idempotency_value :: "idempotency_status \<Rightarrow> string" where
  "idempotency_value IdemCreated = ''created''"
| "idempotency_value IdemReplayed = ''replayed''"
| "idempotency_value IdemConflict = ''conflict''"

section \<open>Identifiers\<close>

text \<open>The pattern \<open>[A-Za-z0-9][A-Za-z0-9_.:-]{2,127}\<close>.\<close>

definition is_external_id :: "string \<Rightarrow> bool" where
  "is_external_id s \<longleftrightarrow> 3 \<le> length s \<and> safe_text ''_.:-'' 127 s"

text \<open>The pattern \<open>sha256:[a-fA-F0-9]{64}\<close>; the value is kept in lower case.\<close>

definition is_payload_hash :: "string \<Rightarrow> bool" where
  "is_payload_hash s \<longleftrightarrow> starts_with s ''sha256:'' \<and> is_hex64 (py_lower (drop 7 s))"

definition sensitive_markers :: "string list" where
  "sensitive_markers = [''secret'', ''token'', ''password'', ''private_key'', ''api_key'']"

definition mentions_sensitive :: "string \<Rightarrow> bool" where
  "mentions_sensitive s \<longleftrightarrow> list_ex (\<lambda>m. substring m (py_lower s)) sensitive_markers"

section \<open>Version 1\<close>

record xrequest =
  xreq_request_id :: string
  xreq_agent_id :: string
  xreq_actor_id :: string
  xreq_intent :: string
  xreq_action_kind :: action_kind
  xreq_target_ref :: "string option"
  xreq_payload_hash :: string
  xreq_redaction_summary :: pydict
  xreq_requested_at :: string
  xreq_dry_run :: bool

definition xrequest_valid :: "xrequest \<Rightarrow> bool" where
  "xrequest_valid r \<longleftrightarrow> is_external_id (xreq_request_id r) \<and> is_agent_id (xreq_agent_id r) \<and>
     1 \<le> length (xreq_intent r) \<and> length (xreq_intent r) \<le> 500 \<and> is_payload_hash (xreq_payload_hash r)"

definition xrequest_dump :: "xrequest \<Rightarrow> pydict" where
  "xrequest_dump r =
    [(''version'', PStr ''control-plane.external-action-request/v1''), (''requestId'', PStr (xreq_request_id r)),
     (''agentId'', PStr (xreq_agent_id r)), (''actorId'', PStr (xreq_actor_id r)), (''intent'', PStr (xreq_intent r)),
     (''actionKind'', PStr (action_kind_value (xreq_action_kind r))), (''targetRef'', pv_of_opt (xreq_target_ref r)),
     (''payloadHash'', PStr (xreq_payload_hash r)), (''payloadRedactionSummary'', PDict (xreq_redaction_summary r)),
     (''requestedAt'', PStr (json_time (xreq_requested_at r))), (''dryRun'', PBool (xreq_dry_run r))]"

record xresponse =
  xres_request_id :: string
  xres_agent_id :: string
  xres_status :: xstatus
  xres_reason_code :: string
  xres_policy_decision :: "cp_decision option"
  xres_run_id :: "string option"
  xres_approval_id :: "string option"
  xres_evidence_ref :: "string option"
  xres_dry_run :: bool
  xres_next_actions :: "string list"
  xres_generated_at :: string

definition xresponse_dump :: "xresponse \<Rightarrow> pydict" where
  "xresponse_dump r =
    [(''version'', PStr ''control-plane.external-action-response/v1''), (''requestId'', PStr (xres_request_id r)),
     (''agentId'', PStr (xres_agent_id r)), (''status'', PStr (xstatus_value (xres_status r))),
     (''reasonCode'', PStr (xres_reason_code r)),
     (''policyDecision'', (case xres_policy_decision r of None \<Rightarrow> PNone | Some d \<Rightarrow> PDict (cp_decision_dump d))),
     (''runId'', pv_of_opt (xres_run_id r)), (''approvalId'', pv_of_opt (xres_approval_id r)),
     (''evidenceRef'', pv_of_opt (xres_evidence_ref r)), (''dryRun'', PBool (xres_dry_run r)),
     (''nextActions'', strs (xres_next_actions r)), (''generatedAt'', PStr (xres_generated_at r))]"

section \<open>Version 1.1\<close>

record vaction =
  vact_action_id :: string
  vact_kind :: action_kind
  vact_target_ref :: "string option"
  vact_effect :: string

text \<open>\<open>risk_hint\<close> has a value per kind: \<open>read_only\<close> for \<open>read\<close>, \<open>mutation\<close> for \<open>mutate\<close>, the others alike.\<close>

fun risk_hint_value :: "action_kind \<Rightarrow> string" where
  "risk_hint_value KindRead = ''read_only''"
| "risk_hint_value KindMutate = ''mutation''"
| "risk_hint_value k = action_kind_value k"

record vrequest =
  vreq_request_id :: string
  vreq_agent_id :: string
  vreq_workflow_id :: string
  vreq_intent :: string
  vreq_actions :: "vaction list"
  vreq_idempotency_key :: string
  vreq_requested_by :: string
  vreq_risk_hint :: action_kind
  vreq_metadata :: pydict
  vreq_requested_at :: string
  vreq_dry_run :: bool

definition vrequest_valid :: "vrequest \<Rightarrow> bool" where
  "vrequest_valid r \<longleftrightarrow> is_external_id (vreq_request_id r) \<and> is_external_id (vreq_idempotency_key r) \<and>
     is_agent_id (vreq_agent_id r) \<and> 1 \<le> length (vreq_intent r) \<and> length (vreq_intent r) \<le> 500 \<and>
     vreq_actions r \<noteq> [] \<and>
     list_all (\<lambda>a. is_action_id ''_.:-'' (vact_action_id a) \<and> length (vact_effect a) \<le> 500) (vreq_actions r) \<and>
     \<not> list_ex (\<lambda>(k, v). mentions_sensitive k) (vreq_metadata r)"

definition vaction_dump :: "vaction \<Rightarrow> pydict" where
  "vaction_dump a =
    [(''actionId'', PStr (vact_action_id a)), (''kind'', PStr (action_kind_value (vact_kind a))),
     (''targetRef'', pv_of_opt (vact_target_ref a)), (''effect'', PStr (vact_effect a))]"

definition vactions_dump :: "vrequest \<Rightarrow> pyval" where
  "vactions_dump r = PList (map (\<lambda>a. PDict (vaction_dump a)) (vreq_actions r))"

definition vrequest_dump :: "vrequest \<Rightarrow> pydict" where
  "vrequest_dump r =
    [(''version'', PStr ''control-plane.external-agent-request/v1.1''), (''requestId'', PStr (vreq_request_id r)),
     (''agentId'', PStr (vreq_agent_id r)), (''workflowId'', PStr (vreq_workflow_id r)),
     (''intent'', PStr (vreq_intent r)), (''actions'', vactions_dump r),
     (''idempotencyKey'', PStr (vreq_idempotency_key r)), (''requestedBy'', PStr (vreq_requested_by r)),
     (''riskHint'', PStr (risk_hint_value (vreq_risk_hint r))), (''metadata'', PDict (vreq_metadata r)),
     (''requestedAt'', PStr (json_time (vreq_requested_at r))), (''dryRun'', PBool (vreq_dry_run r))]"

record vresult =
  vres_request_id :: string
  vres_agent_id :: string
  vres_workflow_id :: string
  vres_status :: xstatus
  vres_reason_code :: string
  vres_policy_decision :: vdecision
  vres_run_id :: "string option"
  vres_approval_id :: "string option"
  vres_evidence_ref :: "string option"
  vres_replay_status :: replay_status
  vres_idempotency_status :: idempotency_status
  vres_request_hash :: string
  vres_generated_at :: string

definition vresult_dump :: "vresult \<Rightarrow> pydict" where
  "vresult_dump r =
    [(''version'', PStr ''control-plane.external-agent-result/v1.1''), (''requestId'', PStr (vres_request_id r)),
     (''agentId'', PStr (vres_agent_id r)), (''workflowId'', PStr (vres_workflow_id r)),
     (''status'', PStr (xstatus_value (vres_status r))), (''reasonCode'', PStr (vres_reason_code r)),
     (''policyDecision'', PStr (vdecision_value (vres_policy_decision r))), (''runId'', pv_of_opt (vres_run_id r)),
     (''approvalId'', pv_of_opt (vres_approval_id r)), (''evidenceRef'', pv_of_opt (vres_evidence_ref r)),
     (''replayStatus'', PStr (replay_value (vres_replay_status r))),
     (''idempotencyStatus'', PStr (idempotency_value (vres_idempotency_status r))),
     (''requestHash'', PStr (vres_request_hash r)), (''generatedAt'', PStr (vres_generated_at r))]"

section \<open>Reading an answer back\<close>

text \<open>
  \<open>ExternalAgentV11Result.model_validate\<close> on a dictionary with the names a document has: \<open>None\<close> is a
  \<open>ValidationError\<close>.  A status of version 1 that 1.1 does not have is refused; a missing \<open>generatedAt\<close>,
  which no document lacks, is refused too.
\<close>

definition value_of :: "('a \<Rightarrow> string) \<Rightarrow> 'a list \<Rightarrow> pyval \<Rightarrow> 'a option" where
  "value_of f xs v = (case v of PStr s \<Rightarrow> List.find (\<lambda>x. f x = s) xs | _ \<Rightarrow> None)"

definition text_value :: "pyval \<Rightarrow> string option" where
  "text_value v = (case v of PStr s \<Rightarrow> Some s | _ \<Rightarrow> None)"

definition opt_text_value :: "pyval \<Rightarrow> string option option" where
  "opt_text_value v = (case v of PNone \<Rightarrow> Some None | PStr s \<Rightarrow> Some (Some s) | _ \<Rightarrow> None)"

definition vresult_keys :: "string list" where
  "vresult_keys = [''version'', ''requestId'', ''agentId'', ''workflowId'', ''status'', ''reasonCode'', ''policyDecision'',
     ''runId'', ''approvalId'', ''evidenceRef'', ''replayStatus'', ''idempotencyStatus'', ''requestHash'', ''generatedAt'']"

definition parse_vresult :: "pydict \<Rightarrow> vresult option" where
  "parse_vresult d =
    (case (text_value (dict_get d ''requestId''), text_value (dict_get d ''agentId''), text_value (dict_get d ''workflowId''),
           value_of xstatus_value [XAccepted, XBlockedPendingApproval, XDenied, XInvalidRequest, XUnknownAgent]
             (dict_get d ''status''),
           text_value (dict_get d ''reasonCode''),
           value_of vdecision_value [VAllow, VDeny, VRequireApproval, VUnknown] (dict_get d ''policyDecision'')) of
       (Some request_id, Some agent_id, Some workflow_id, Some status, Some reason, Some decision) \<Rightarrow>
         (case (opt_text_value (dict_get d ''runId''), opt_text_value (dict_get d ''approvalId''),
                opt_text_value (dict_get d ''evidenceRef''),
                value_of replay_value [ReplayRecorded, ReplayReplayed, ReplayVerified, ReplayMismatch, ReplayMissing]
                  (dict_get d ''replayStatus''),
                value_of idempotency_value [IdemCreated, IdemReplayed, IdemConflict] (dict_get d ''idempotencyStatus''),
                text_value (dict_get d ''requestHash''), text_value (dict_get d ''generatedAt'')) of
            (Some run_id, Some approval_id, Some evidence_ref, Some replay, Some idem, Some hash, Some generated) \<Rightarrow>
              if set (map fst d) \<subseteq> set vresult_keys \<and>
                 dict_get_default d ''version'' (PStr ''control-plane.external-agent-result/v1.1'')
                   = PStr ''control-plane.external-agent-result/v1.1''
              then Some \<lparr>vres_request_id = request_id, vres_agent_id = agent_id, vres_workflow_id = workflow_id,
                         vres_status = status, vres_reason_code = reason, vres_policy_decision = decision,
                         vres_run_id = run_id, vres_approval_id = approval_id, vres_evidence_ref = evidence_ref,
                         vres_replay_status = replay, vres_idempotency_status = idem, vres_request_hash = hash,
                         vres_generated_at = generated\<rparr>
              else None
          | _ \<Rightarrow> None)
     | _ \<Rightarrow> None)"

lemma value_of_text [simp]:
  "value_of f xs (PStr s) = List.find (\<lambda>x. f x = s) xs"
  by (simp add: value_of_def)

lemma text_value_text [simp]: "text_value (PStr s) = Some s"
  by (simp add: text_value_def)

lemma opt_text_value_opt [simp]: "opt_text_value (pv_of_opt x) = Some x"
  by (cases x) (simp_all add: opt_text_value_def pv_of_opt_def)

end
