(* ===== verification/External_Gateway.thy ===== *)
theory External_Gateway imports Control_State External_Contracts begin

text \<open>
  The gateway of external agents, \<open>ExternalAgentGateway\<close> of
  \<open>imperaos/control_plane/external_gateway.py\<close>.  A request passes the checks of \<open>admit_external\<close>, in
  the code's order, is decided by the policy on the risk of its kind, leaves a run, an evidence document
  and, when the policy asks for it, an approval ticket.

  \<^item> \<open>clk n\<close> is the \<open>n\<close>-th time an operation reads, \<open>uuid\<close> the identifier of a new ticket; \<open>Inl e\<close> is an
    exception that escapes, with its class or code.
  \<^item> An id in a reference has no slash (its validator sees to it), so the reference stays under the root;
    \<open>replay_v1_1\<close> takes any text, so it goes through \<open>inside\<close>.
\<close>

section \<open>Requests\<close>

fun redaction_summary_safe :: "pyval \<Rightarrow> bool" where
  "redaction_summary_safe (PDict d) = list_all (\<lambda>kv. \<not> mentions_sensitive (fst kv) \<and> redaction_summary_safe (snd kv)) d"
| "redaction_summary_safe (PList xs) = list_all redaction_summary_safe xs"
| "redaction_summary_safe (PStr s) = (\<not> mentions_sensitive s)"
| "redaction_summary_safe v = True"

definition dashed :: "string \<Rightarrow> string \<Rightarrow> string" where
  "dashed keep s = map (\<lambda>c. if is_alnum c \<or> c \<in> set keep then c else CHR ''-'') s"

definition gateway_run_id :: "string \<Rightarrow> string" where
  "gateway_run_id request_id = ''cp-ext-run-'' @ take 72 (dashed ''-_'' request_id)"

definition safe_file_key :: "string \<Rightarrow> string" where
  "safe_file_key v = take 120 (dashed ''-_.'' v)"

definition evidence_path :: "string \<Rightarrow> string" where
  "evidence_path request_id = ''external-gateway/evidence/'' @ request_id @ ''.json''"

definition metadata_string_or_none :: "pydict \<Rightarrow> string \<Rightarrow> string option" where
  "metadata_string_or_none metadata key =
    (case dict_get metadata key of PStr s \<Rightarrow> (if py_strip s \<noteq> [] then Some s else None) | _ \<Rightarrow> None)"

fun risk_for_action_kind :: "action_kind \<Rightarrow> risk_class" where
  "risk_for_action_kind KindRead = RiskReadOnly"
| "risk_for_action_kind KindMutate = RiskMutation"
| "risk_for_action_kind KindExternalWrite = RiskExternalWrite"
| "risk_for_action_kind KindDestructive = RiskDestructive"
| "risk_for_action_kind KindCredentialSensitive = RiskCredentialSensitive"
| "risk_for_action_kind KindUnknown = RiskUnknown"

definition proposal_from_request :: "xrequest \<Rightarrow> string \<Rightarrow> action_proposal" where
  "proposal_from_request r run_id =
     \<lparr>prop_correlation_id = xreq_request_id r, prop_run_id = run_id, prop_agent_id = xreq_agent_id r,
      prop_phase = ''tool'', prop_action_id = ''external_'' @ action_kind_value (xreq_action_kind r),
      prop_action_type = ''external_agent_action'', prop_target_kind = action_kind_value (xreq_action_kind r),
      prop_target_ref = (case xreq_target_ref r of None \<Rightarrow> [] | Some t \<Rightarrow> t),
      prop_risk_class = risk_for_action_kind (xreq_action_kind r), prop_effect_summary = xreq_intent r,
      prop_args_fingerprint = xreq_payload_hash r, prop_idempotency_key = xreq_request_id r,
      prop_payload_redacted = True, prop_requested_at = xreq_requested_at r\<rparr>"

definition request_hash_of :: "(string \<Rightarrow> string) \<Rightarrow> xrequest \<Rightarrow> string" where
  "request_hash_of H r = canonical_json_hash H (PDict (xrequest_dump r))"

section \<open>Evidence\<close>

definition gateway_evidence :: "control_config \<Rightarrow> int \<Rightarrow> xrequest \<Rightarrow> xresponse \<Rightarrow> string option \<Rightarrow> pydict" where
  "gateway_evidence C t r a run_id =
    [(''version'', PStr ''control-plane.external-gateway-evidence/v1''), (''request_id'', PStr (xreq_request_id r)),
     (''agent_id'', PStr (xreq_agent_id r)), (''run_id'', pv_of_opt run_id),
     (''request'', PDict [(''actorId'', PStr (xreq_actor_id r)), (''intent'', PStr (xreq_intent r)),
        (''actionKind'', PStr (action_kind_value (xreq_action_kind r))), (''targetRef'', pv_of_opt (xreq_target_ref r)),
        (''payloadHash'', PStr (xreq_payload_hash r)), (''payloadRedactionSummary'', PDict (xreq_redaction_summary r)),
        (''requestedAt'', PStr (xreq_requested_at r)), (''dryRun'', PBool (xreq_dry_run r))]),
     (''response'', PDict (xresponse_dump a)), (''request_hash'', PStr (request_hash_of (cc_hash C) r)),
     (''response_hash'', PStr (canonical_json_hash (cc_hash C) (PDict (xresponse_dump a)))),
     (''generated_at'', PStr (cc_iso C t))]"

definition write_evidence :: "control_config \<Rightarrow> int \<Rightarrow> xrequest \<Rightarrow> xresponse \<Rightarrow> string option \<Rightarrow> control_state \<Rightarrow> control_state" where
  "write_evidence C t r a run_id s = put_doc (evidence_path (xreq_request_id r)) (gateway_evidence C t r a run_id) s"

section \<open>The checks before the policy\<close>

definition enrollment_error :: "agent_record \<Rightarrow> enterprise_state \<Rightarrow> string option" where
  "enrollment_error a es =
    (case require_active_enrollment es (arec_agent_id a) (metadata_string_or_none (spec_metadata (arec_spec a)) ''workspace_id'') of
       Inl code \<Rightarrow> Some code | Inr _ \<Rightarrow> None)"

type_synonym refusal = "xstatus \<times> string \<times> string list"

definition admit_external :: "string \<Rightarrow> xrequest \<Rightarrow> control_state \<Rightarrow> control_state \<times> (refusal + agent_record)" where
  "admit_external now r s =
    (case get_agent now (xreq_agent_id r) (cs_registry s) of
       (f, Inl _) \<Rightarrow> (s\<lparr>cs_registry := f\<rparr>, Inl (XUnknownAgent, ''UNKNOWN_AGENT'', [''agent.register'']))
     | (f, Inr a) \<Rightarrow>
         (s\<lparr>cs_registry := f\<rparr>,
          if arec_status a \<noteq> AgentRegistered
          then Inl (XDenied, ''AGENT_DISABLED'', [''agent.show'', ''agent.enable''])
          else if spec_runtime_kind (arec_spec a) \<notin> {ExternalStdio, ExternalHttp}
          then Inl (XDenied, ''AGENT_RUNTIME_NOT_EXTERNAL'', [''agent.register_external''])
          else case enrollment_error a (cs_enterprise s) of
                 Some code \<Rightarrow> Inl (XDenied, code, [''enterprise enrollment approve''])
               | None \<Rightarrow>
                   if \<not> redaction_summary_safe (PDict (xreq_redaction_summary r))
                   then Inl (XInvalidRequest, ''PAYLOAD_REDACTION_UNSAFE'', [''redact.payload'', ''retry''])
                   else Inr a))"

definition refused_answer :: "string \<Rightarrow> xrequest \<Rightarrow> refusal \<Rightarrow> xresponse" where
  "refused_answer now r x =
    (case x of (status, reason, next_actions) \<Rightarrow>
       \<lparr>xres_request_id = xreq_request_id r, xres_agent_id = xreq_agent_id r, xres_status = status,
        xres_reason_code = reason, xres_policy_decision = None, xres_run_id = None, xres_approval_id = None,
        xres_evidence_ref = Some (evidence_path (xreq_request_id r)), xres_dry_run = xreq_dry_run r,
        xres_next_actions = next_actions, xres_generated_at = json_time now\<rparr>)"

section \<open>The decision\<close>

definition gateway_ticket :: "control_config \<Rightarrow> xrequest \<Rightarrow> create_args" where
  "gateway_ticket C r =
    (let run_id = gateway_run_id (xreq_request_id r); p = proposal_from_request r run_id; d = simulate_action C p;
         request = PDict (xrequest_dump r); decision = PDict (cp_decision_dump d)
     in \<lparr>q_workspace_id = Some (cc_default_workspace_id C), q_run_id = run_id,
         q_target_kind = ''external_agent_action'',
         q_target_ref = xreq_agent_id r @ '':'' @ action_kind_value (xreq_action_kind r),
         q_action_hash = canonical_json_hash (cc_hash C) (PDict (proposal_dump p)),
         q_policy_hash = pdec_policy_hash d, q_request_hash = request_hash_of (cc_hash C) r,
         q_snapshot_hash = canonical_json_hash (cc_hash C) (PDict [(''request'', request), (''decision'', decision)]),
         q_snapshot = [(''kind'', PStr ''external_agent_action''),
            (''contract_version'', PStr ''control-plane.external-gateway/v1''), (''request'', request),
            (''decision'', decision), (''runtime_version'', PStr (cc_runtime_version C))],
         q_ttl_seconds = cc_approval_ttl_seconds C,
         q_idempotency_key = ''external-gateway:'' @ xreq_request_id r\<rparr>)"

text \<open>The status of the run and of the answer, the ticket and what to do next.\<close>

type_synonym gateway_verdict_value = "run_status \<times> xstatus \<times> string option \<times> string list"

definition gateway_verdict :: "control_config \<Rightarrow> int \<Rightarrow> string \<Rightarrow> xrequest \<Rightarrow> cp_decision \<Rightarrow> approval_db
    \<Rightarrow> approval_db \<times> (string + gateway_verdict_value)" where
  "gateway_verdict C t uuid r d db =
    (if pdec_action d = CpDeny
     then (db, Inr (RunPolicyBlocked, XDenied, None, [''policy.review'', ''request.update'']))
     else if pdec_action d = CpRequireApproval then
       if xreq_dry_run r
       then (db, Inr (RunCreated, XRequiresApproval, None, [''gateway.submit --dry-run false'', ''approval.required'']))
       else (case create_ticket (cc_hash C) t uuid (gateway_ticket C r) db of
               (db1, Inl e) \<Rightarrow> (db1, Inl (create_error_name e))
             | (db1, Inr ticket) \<Rightarrow>
                 (db1, Inr (RunApprovalPending, XBlockedPendingApproval, Some (t_approval_id ticket),
                            [''approval.show'', ''approval.decide'', ''approval.execute''])))
     else (db, Inr (RunCompleted, XAccepted, None, [''evidence.inspect'', ''evidence.verify''])))"

definition gateway_run :: "control_config \<Rightarrow> (nat \<Rightarrow> int) \<Rightarrow> xrequest \<Rightarrow> cp_decision \<Rightarrow> gateway_verdict_value \<Rightarrow> run_summary" where
  "gateway_run C clk r d v =
    (case v of (status, _, approval_id, next_actions) \<Rightarrow>
       \<lparr>run_run_id = gateway_run_id (xreq_request_id r), run_agent_id = xreq_agent_id r,
        run_profile = cc_profile_name C, run_status = status, run_submitted_by = ''external:'' @ xreq_actor_id r,
        run_identity_ref = Some (''external:'' @ xreq_actor_id r), run_input_hash = request_hash_of (cc_hash C) r,
        run_policy_hash = pdec_policy_hash d, run_started_at = cc_iso C (clk 2),
        run_completed_at = (if status = RunCompleted then Some (cc_iso C (clk 3)) else None),
        run_approval_ids = (if opt_truthy approval_id then [the approval_id] else []),
        run_artifact_refs = [evidence_path (xreq_request_id r)],
        run_blocking_reasons = (if status = RunPolicyBlocked then [pdec_reason_code d] else []),
        run_next_actions = next_actions\<rparr>)"

definition gateway_run_fields :: "control_config \<Rightarrow> int \<Rightarrow> xrequest \<Rightarrow> action_proposal \<Rightarrow> cp_decision \<Rightarrow> pydict" where
  "gateway_run_fields C t r p d =
    [(''version'', PStr ''control-plane.external-run-state/v1''), (''external_request'', PDict (xrequest_dump r)),
     (''action_proposal'', PDict (proposal_dump p)), (''policy_decision'', PDict (cp_decision_dump d)),
     (''created_at'', PStr (cc_iso C t))]"

definition decided_answer :: "string \<Rightarrow> xrequest \<Rightarrow> cp_decision \<Rightarrow> gateway_verdict_value \<Rightarrow> xresponse" where
  "decided_answer now r d v =
    (case v of (_, status, approval_id, next_actions) \<Rightarrow>
       \<lparr>xres_request_id = xreq_request_id r, xres_agent_id = xreq_agent_id r, xres_status = status,
        xres_reason_code = pdec_reason_code d, xres_policy_decision = Some d,
        xres_run_id = Some (gateway_run_id (xreq_request_id r)), xres_approval_id = approval_id,
        xres_evidence_ref = Some (evidence_path (xreq_request_id r)), xres_dry_run = xreq_dry_run r,
        xres_next_actions = next_actions, xres_generated_at = json_time now\<rparr>)"

definition simulated :: "string \<Rightarrow> string \<Rightarrow> agent_record \<Rightarrow> agent_record" where
  "simulated now run_id a =
     a\<lparr>arec_readiness := PolicySimulated, arec_last_run_id := Some run_id, arec_updated_at := now\<rparr>"

section \<open>Submitting\<close>

definition submit_action ::
  "control_config \<Rightarrow> (nat \<Rightarrow> int) \<Rightarrow> string \<Rightarrow> xrequest \<Rightarrow> control_state \<Rightarrow> control_state \<times> (string + xresponse)" where
  "submit_action C clk uuid r s =
    (let run_id = gateway_run_id (xreq_request_id r) in
     case admit_external (cc_iso C (clk 0)) r s of
       (s1, Inl x) \<Rightarrow>
         let answer = refused_answer (cc_iso C (clk 1)) r x in (write_evidence C (clk 2) r answer None s1, Inr answer)
     | (s1, Inr a) \<Rightarrow>
         let p = proposal_from_request r run_id; d = simulate_action C p in
         (case gateway_verdict C (clk 1) uuid r d (cs_approvals s1) of
            (db, Inl e) \<Rightarrow> (s1\<lparr>cs_approvals := db\<rparr>, Inl e)
          | (db, Inr v) \<Rightarrow>
              let s2 = put_run (gateway_run C clk r d v) (gateway_run_fields C (clk 4) r p d) (s1\<lparr>cs_approvals := db\<rparr>)
              in (case update_record (cc_iso C (clk 6)) (simulated (cc_iso C (clk 5)) run_id a) (cs_registry s2) of
                    (f, Inl e) \<Rightarrow> (s2\<lparr>cs_registry := f\<rparr>, Inl e)
                  | (f, Inr _) \<Rightarrow>
                      let answer = decided_answer (cc_iso C (clk 7)) r d v in
                      (write_evidence C (clk 8) r answer (Some run_id) (s2\<lparr>cs_registry := f\<rparr>), Inr answer))))"

section \<open>Version 1.1\<close>

fun risk_order :: "action_kind \<Rightarrow> nat" where
  "risk_order KindDestructive = 5"
| "risk_order KindCredentialSensitive = 4"
| "risk_order KindExternalWrite = 3"
| "risk_order KindMutate = 2"
| "risk_order KindUnknown = 1"
| "risk_order KindRead = 0"

text \<open>The kind a request counts as: its hint, or the kind of greatest risk of its actions (the first).\<close>

definition action_kind_for_v1_1 :: "vrequest \<Rightarrow> action_kind" where
  "action_kind_for_v1_1 r =
    (if vreq_risk_hint r \<noteq> KindUnknown then vreq_risk_hint r
     else let kinds = map vact_kind (vreq_actions r); highest = Max (set (map risk_order kinds))
          in hd (filter (\<lambda>k. risk_order k = highest) kinds))"

definition v1_request_from_v1_1 :: "(string \<Rightarrow> string) \<Rightarrow> vrequest \<Rightarrow> xrequest" where
  "v1_request_from_v1_1 H r =
     \<lparr>xreq_request_id = vreq_request_id r, xreq_agent_id = vreq_agent_id r, xreq_actor_id = vreq_requested_by r,
      xreq_intent = vreq_intent r, xreq_action_kind = action_kind_for_v1_1 r,
      xreq_target_ref = Option.bind (List.find (\<lambda>a. opt_truthy (vact_target_ref a)) (vreq_actions r)) vact_target_ref,
      xreq_payload_hash = canonical_json_hash H (PDict [(''workflowId'', PStr (vreq_workflow_id r)),
         (''actions'', vactions_dump r), (''metadata'', PDict (vreq_metadata r))]),
      xreq_redaction_summary = [(''payloadRedacted'', PBool True), (''sensitiveValuesFound'', PBool False),
         (''contractVersion'', PStr ''v1.1'')],
      xreq_requested_at = vreq_requested_at r, xreq_dry_run = vreq_dry_run r\<rparr>"

definition v1_1_result :: "string \<Rightarrow> vrequest \<Rightarrow> xresponse \<Rightarrow> string \<Rightarrow> vresult" where
  "v1_1_result now r a request_hash =
     \<lparr>vres_request_id = vreq_request_id r, vres_agent_id = vreq_agent_id r, vres_workflow_id = vreq_workflow_id r,
      vres_status = (if xres_status a = XRequiresApproval then XBlockedPendingApproval else xres_status a),
      vres_reason_code = xres_reason_code a,
      vres_policy_decision = (if xres_status a = XAccepted then VAllow
         else if xres_status a \<in> {XRequiresApproval, XBlockedPendingApproval} then VRequireApproval
         else if xres_status a = XDenied then VDeny else VUnknown),
      vres_run_id = xres_run_id a, vres_approval_id = xres_approval_id a, vres_evidence_ref = xres_evidence_ref a,
      vres_replay_status = ReplayRecorded, vres_idempotency_status = IdemCreated, vres_request_hash = request_hash,
      vres_generated_at = json_time now\<rparr>"

definition idempotency_path :: "string \<Rightarrow> string" where
  "idempotency_path key = ''external-gateway/idempotency/'' @ safe_file_key key @ ''.json''"

definition vrequest_hash :: "(string \<Rightarrow> string) \<Rightarrow> vrequest \<Rightarrow> string" where
  "vrequest_hash H r = canonical_json_hash H (PDict (vrequest_dump r))"

definition idempotency_doc :: "control_config \<Rightarrow> int \<Rightarrow> vrequest \<Rightarrow> vresult \<Rightarrow> pydict" where
  "idempotency_doc C t r a =
    [(''version'', PStr ''control-plane.external-gateway/v1.1''), (''idempotencyKey'', PStr (vreq_idempotency_key r)),
     (''requestId'', PStr (vreq_request_id r)), (''requestHash'', PStr (vrequest_hash (cc_hash C) r)),
     (''response'', PDict (vresult_dump a)), (''generatedAt'', PStr (cc_iso C t))]"

definition v1_1_evidence :: "control_config \<Rightarrow> vrequest \<Rightarrow> vresult \<Rightarrow> pydict" where
  "v1_1_evidence C r a =
    [(''contract_version'', PStr ''control-plane.external-gateway/v1.1''), (''workflow_id'', PStr (vreq_workflow_id r)),
     (''idempotency_key'', PStr (vreq_idempotency_key r)), (''risk_hint'', PStr (risk_hint_value (vreq_risk_hint r))),
     (''request_hash_v1_1'', PStr (vrequest_hash (cc_hash C) r)),
     (''request_v1_1'', PDict [(''requestId'', PStr (vreq_request_id r)), (''agentId'', PStr (vreq_agent_id r)),
        (''workflowId'', PStr (vreq_workflow_id r)), (''intent'', PStr (vreq_intent r)), (''actions'', vactions_dump r),
        (''requestedBy'', PStr (vreq_requested_by r)), (''riskHint'', PStr (risk_hint_value (vreq_risk_hint r))),
        (''dryRun'', PBool (vreq_dry_run r))]),
     (''result_v1_1'', PDict (vresult_dump a))]"

text \<open>\<open>dict.update\<close>.\<close>

definition dict_update :: "pydict \<Rightarrow> pydict \<Rightarrow> pydict" where
  "dict_update d e = foldl (\<lambda>d (k, v). dict_set d k v) d e"

definition write_v1_1_evidence :: "control_config \<Rightarrow> vrequest \<Rightarrow> vresult \<Rightarrow> control_state \<Rightarrow> control_state \<times> (string + unit)" where
  "write_v1_1_evidence C r a s =
    (case vres_evidence_ref a of
       None \<Rightarrow> (s, Inr ())
     | Some ref \<Rightarrow>
         (case get_doc ref s of
            (s1, Inl e) \<Rightarrow> (s1, Inl e)
          | (s1, Inr (PDict d)) \<Rightarrow> (put_doc ref (dict_update d (v1_1_evidence C r a)) s1, Inr ())
          | (s1, Inr _) \<Rightarrow> (put_doc ref (dict_update [] (v1_1_evidence C r a)) s1, Inr ())))"

definition idempotency_conflict :: "string \<Rightarrow> vrequest \<Rightarrow> string \<Rightarrow> vresult" where
  "idempotency_conflict now r request_hash =
     \<lparr>vres_request_id = vreq_request_id r, vres_agent_id = vreq_agent_id r, vres_workflow_id = vreq_workflow_id r,
      vres_status = XInvalidRequest, vres_reason_code = ''EXTERNAL_AGENT_DUPLICATE_REQUEST'',
      vres_policy_decision = VUnknown, vres_run_id = None, vres_approval_id = None, vres_evidence_ref = None,
      vres_replay_status = ReplayMismatch, vres_idempotency_status = IdemConflict, vres_request_hash = request_hash,
      vres_generated_at = json_time now\<rparr>"

definition submit_new_v1_1 ::
  "control_config \<Rightarrow> (nat \<Rightarrow> int) \<Rightarrow> string \<Rightarrow> vrequest \<Rightarrow> control_state \<Rightarrow> control_state \<times> (string + vresult)" where
  "submit_new_v1_1 C clk uuid r s =
    (let request_hash = vrequest_hash (cc_hash C) r in
     case submit_action C clk uuid (v1_request_from_v1_1 (cc_hash C) r) s of
       (s1, Inl e) \<Rightarrow> (s1, Inl e)
     | (s1, Inr response) \<Rightarrow>
         let a = v1_1_result (cc_iso C (clk 9)) r response request_hash in
         (case write_v1_1_evidence C r a s1 of
            (s2, Inl e) \<Rightarrow> (s2, Inl e)
          | (s2, Inr _) \<Rightarrow>
              (put_doc (idempotency_path (vreq_idempotency_key r)) (idempotency_doc C (clk 10) r a) s2, Inr a)))"

definition replayed_fields :: pydict where
  "replayed_fields = [(''replayStatus'', PStr ''replayed''), (''idempotencyStatus'', PStr ''replayed'')]"

definition submit_action_v1_1 ::
  "control_config \<Rightarrow> (nat \<Rightarrow> int) \<Rightarrow> string \<Rightarrow> vrequest \<Rightarrow> control_state \<Rightarrow> control_state \<times> (string + vresult)" where
  "submit_action_v1_1 C clk uuid r s =
    (let request_hash = vrequest_hash (cc_hash C) r in
     case get_doc (idempotency_path (vreq_idempotency_key r)) s of
       (s1, Inl e) \<Rightarrow> (s1, Inl e)
     | (s1, Inr PNone) \<Rightarrow> submit_new_v1_1 C clk uuid r s1
     | (s1, Inr (PDict existing)) \<Rightarrow>
         if dict_get existing ''requestHash'' \<noteq> PStr request_hash
         then (s1, Inr (idempotency_conflict (cc_iso C (clk 0)) r request_hash))
         else (case dict_get existing ''response'' of
                 PDict response \<Rightarrow>
                   (case parse_vresult (dict_update response replayed_fields) of
                      None \<Rightarrow> (s1, Inl ''ValidationError'') | Some a \<Rightarrow> (s1, Inr a))
               | _ \<Rightarrow> submit_new_v1_1 C clk uuid r s1)
     | (s1, Inr _) \<Rightarrow> (s1, Inl ''AttributeError''))"

section \<open>Replay\<close>

definition replay_v1_1 :: "(string \<Rightarrow> bool) \<Rightarrow> string \<Rightarrow> string option \<Rightarrow> documents \<Rightarrow> documents \<times> (string + pydict)" where
  "replay_v1_1 inside request_id expected docs =
    (let ref = evidence_path request_id;
         head = (\<lambda>status reason. [(''version'', PStr ''control-plane.external-agent-replay/v1.1''),
            (''requestId'', PStr request_id), (''status'', PStr status), (''evidenceRef'', PStr ref),
            (''reasonCode'', PStr reason)])
     in case read_json inside docs ref of
          (docs1, Inl e) \<Rightarrow> (docs1, Inl e)
        | (docs1, Inr evidence) \<Rightarrow>
            if \<not> truthy evidence then (docs1, Inr (head ''missing'' ''EXTERNAL_AGENT_EVIDENCE_MISSING''))
            else (case evidence of
                    PDict d \<Rightarrow>
                      let actual = py_or (dict_get d ''request_hash_v1_1'') (dict_get d ''request_hash'') in
                      if opt_truthy expected \<and> actual \<noteq> pv_of_opt expected
                      then (docs1, Inr (head ''mismatch'' ''EXTERNAL_AGENT_REPLAY_MISMATCH'' @
                              [(''expectedRequestHash'', pv_of_opt expected), (''actualRequestHash'', actual)]))
                      else (docs1, Inr (head ''verified'' ''EXTERNAL_AGENT_REPLAY_VERIFIED'' @
                              [(''actualRequestHash'', actual)]))
                  | _ \<Rightarrow> (docs1, Inl ''AttributeError'')))"

section \<open>Files\<close>

text \<open>
  A file holds the fields of a request and whether it gives \<open>requestedAt\<close>, which is otherwise the time
  of reading; \<open>None\<close> is a file that cannot be read or does not hold the fields.
\<close>

definition validate_xrequest :: "string \<Rightarrow> bool \<Rightarrow> xrequest \<Rightarrow> xrequest option" where
  "validate_xrequest now dated r =
    (if xrequest_valid r
     then Some (r\<lparr>xreq_payload_hash := py_lower (xreq_payload_hash r),
                  xreq_requested_at := (if dated then xreq_requested_at r else now)\<rparr>)
     else None)"

definition validate_vrequest :: "string \<Rightarrow> bool \<Rightarrow> vrequest \<Rightarrow> vrequest option" where
  "validate_vrequest now dated r =
    (if vrequest_valid r then Some (r\<lparr>vreq_requested_at := (if dated then vreq_requested_at r else now)\<rparr>) else None)"

definition invalid_response :: "string \<Rightarrow> xresponse" where
  "invalid_response now =
     \<lparr>xres_request_id = ''invalid'', xres_agent_id = ''unknown'', xres_status = XInvalidRequest,
      xres_reason_code = ''EXTERNAL_ACTION_CONTRACT_INVALID'', xres_policy_decision = None, xres_run_id = None,
      xres_approval_id = None, xres_evidence_ref = None, xres_dry_run = True,
      xres_next_actions = [''fix.request.schema''], xres_generated_at = json_time now\<rparr>"

definition submit_external_action_file ::
  "control_config \<Rightarrow> int \<Rightarrow> (nat \<Rightarrow> int) \<Rightarrow> string \<Rightarrow> (xrequest \<times> bool) option \<Rightarrow> control_state
     \<Rightarrow> control_state \<times> (string + xresponse)" where
  "submit_external_action_file C t clk uuid f s =
    (case Option.bind f (\<lambda>(r, dated). validate_xrequest (cc_iso C t) dated r) of
       None \<Rightarrow> (s, Inr (invalid_response (cc_iso C t)))
     | Some r \<Rightarrow> submit_action C clk uuid r s)"

definition invalid_result :: "string \<Rightarrow> vresult" where
  "invalid_result now =
     \<lparr>vres_request_id = ''invalid'', vres_agent_id = ''unknown'', vres_workflow_id = ''unknown'',
      vres_status = XInvalidRequest, vres_reason_code = ''EXTERNAL_AGENT_V1_1_CONTRACT_INVALID'',
      vres_policy_decision = VUnknown, vres_run_id = None, vres_approval_id = None, vres_evidence_ref = None,
      vres_replay_status = ReplayMissing, vres_idempotency_status = IdemConflict,
      vres_request_hash = ''sha256:invalid'', vres_generated_at = json_time now\<rparr>"

definition submit_external_action_v1_1_file ::
  "control_config \<Rightarrow> int \<Rightarrow> (nat \<Rightarrow> int) \<Rightarrow> string \<Rightarrow> (vrequest \<times> bool) option \<Rightarrow> control_state
     \<Rightarrow> control_state \<times> (string + vresult)" where
  "submit_external_action_v1_1_file C t clk uuid f s =
    (case Option.bind f (\<lambda>(r, dated). validate_vrequest (cc_iso C t) dated r) of
       None \<Rightarrow> (s, Inr (invalid_result (cc_iso C t)))
     | Some r \<Rightarrow> submit_action_v1_1 C clk uuid r s)"

end
