(* ===== verification/Control_Demo.thy ===== *)
theory Control_Demo imports Run_Coordinator External_Gateway begin

text \<open>A concrete control plane: one external agent that may read and write, enrolled nowhere.\<close>

definition demo_digest :: "string \<Rightarrow> string" where
  "demo_digest s = ''h''"

definition demo_config :: control_config where
  "demo_config = \<lparr>cc_hash = demo_digest, cc_iso = (\<lambda>t. ''2026-01-01T00:00:00+00:00''), cc_profile_name = ''enterprise'',
     cc_governance_enabled = False, cc_policy_file = None, cc_default_workspace_id = ''ws'',
     cc_approval_ttl_seconds = 60, cc_runtime_version = ''1''\<rparr>"

definition demo_declared :: "string \<Rightarrow> risk_class \<Rightarrow> declared_action" where
  "demo_declared name risk = \<lparr>dact_action_id = name, dact_phase = ''tool'', dact_risk_class = risk, dact_target_kind = ''k'',
     dact_effect = ''e'', dact_action_type = ''control_plane_action''\<rparr>"

definition demo_spec :: agent_spec where
  "demo_spec = \<lparr>spec_agent_id = ''agent'', spec_display_name = ''Agent'', spec_description = [],
     spec_runtime_kind = ExternalHttp, spec_profile = ''enterprise'', spec_policy_profile = Some ''enterprise'',
     spec_owner_team = ''t'', spec_owner_contact = ''c'', spec_allowed_surfaces = [], spec_blocked_surfaces = [],
     spec_declared_actions = [demo_declared ''look'' RiskReadOnly, demo_declared ''edit'' RiskMutation],
     spec_qualification_required = True, spec_qualification_minimum_level = ''pilot'',
     spec_qualification_status = ''missing'', spec_signed_pack_required = True, spec_replay_required = True,
     spec_metadata = []\<rparr>"

definition demo_record :: agent_record where
  "demo_record = new_record demo_digest ''2026-01-01T00:00:00+00:00'' demo_spec"

definition demo_control :: control_state where
  "demo_control = \<lparr>cs_registry = RegistryFile ((empty_registry None)\<lparr>rg_agents := [(''agent'', Some demo_record)]\<rparr>),
     cs_runs = (\<lambda>_. None), cs_docs = (\<lambda>_. None), cs_enterprise = empty_enterprise, cs_approvals = empty_db\<rparr>"

section \<open>A submitted run\<close>

definition demo_submitted :: "control_state \<times> (string + run_summary)" where
  "demo_submitted = submit_run demo_config (Inr None) (\<lambda>n. 0) (\<lambda>n. ''a1'') ''run'' ''agent'' ''hello'' ''me'' ''supervised'' demo_control"

definition demo_decision :: cp_decision where
  "demo_decision = decision_for_risk ''edit'' ''tool'' RiskMutation ''sha256:governance-disabled''"

definition demo_row :: approval_row where
  "demo_row = insert_row (new_ticket 0 ''a1'' ''ws''
     (run_ticket demo_config ''run'' ''agent'' (run_input_hash_of demo_digest ''agent'' ''hello'') demo_decision))"

lemma demo_config_simps [simp]:
  "cc_hash demo_config = demo_digest" "cc_default_workspace_id demo_config = ''ws''"
  "cc_approval_ttl_seconds demo_config = 60" "cp_policy_hash demo_config = ''sha256:governance-disabled''"
  by (simp_all add: demo_config_def cp_policy_hash_def)

lemma demo_agent:
  "get_agent now ''agent'' (cs_registry demo_control) = (cs_registry demo_control, Inr demo_record)"
  "arec_spec demo_record = demo_spec" "arec_agent_id demo_record = ''agent''"
  by (simp_all add: get_agent_def read_registry_def demo_control_def demo_record_def new_record_def demo_spec_def)

lemma demo_update:
  "update_record now (demo_record\<lparr>arec_last_run_id := i, arec_updated_at := u\<rparr>) (cs_registry demo_control) =
     (fst (update_record now (demo_record\<lparr>arec_last_run_id := i, arec_updated_at := u\<rparr>) (cs_registry demo_control)),
      Inr (demo_record\<lparr>arec_last_run_id := i, arec_updated_at := now\<rparr>))"
  by (simp add: update_record_def read_registry_def demo_control_def demo_agent Let_def)

lemma demo_simulation:
  "psim_blocking_reasons (simulate_agent demo_config demo_spec) = []"
  "approval_decisions (simulate_agent demo_config demo_spec) = [demo_decision]"
  by (simp_all add: simulate_agent_def demo_spec_def demo_declared_def approval_decisions_def demo_decision_def
      decision_actions risk_default_def Let_def)

lemma demo_texts:
  "starts_with ''control_plane_action'' ''artifact'' = False" "py_strip ''ws'' = ''ws''"
  "''ws'' \<noteq> legacy_unbound_workspace" "''ws'' \<noteq> []"
  by code_simp+

lemma demo_created:
  "create_ticket demo_digest 0 ''a1'' (run_ticket demo_config ''run'' ''agent'' ih demo_decision) empty_db =
     (empty_db\<lparr>approvals := [insert_row (new_ticket 0 ''a1'' ''ws'' (run_ticket demo_config ''run'' ''agent'' ih demo_decision))]\<rparr>,
      Inr (new_ticket 0 ''a1'' ''ws'' (run_ticket demo_config ''run'' ''agent'' ih demo_decision)))"
proof (rule created_in_empty)
  let ?m = "model_dump (run_snapshot demo_config ''run'' ''agent'' ih demo_decision)"
  have keys: "dict_get ?m ''workspaceId'' = PNone" "dict_get ?m ''workspace_id'' = PNone"
    by (simp_all add: run_snapshot_def base_fields_def dict_get_def)
  have art: "\<not> starts_with ''control_plane_action'' ''artifact''" using demo_texts(1) by simp
  show "canonical_workspace_binding (q_workspace_id (run_ticket demo_config ''run'' ''agent'' ih demo_decision))
      (q_target_kind (run_ticket demo_config ''run'' ''agent'' ih demo_decision))
      (q_target_ref (run_ticket demo_config ''run'' ''agent'' ih demo_decision))
      (q_snapshot (run_ticket demo_config ''run'' ''agent'' ih demo_decision)) = Inr ''ws''"
    unfolding run_ticket_simps demo_config_simps by (rule plain_binding [OF art keys demo_texts(2,4,3)])
qed

lemma demo_submitted_run:
  obtains s1 run where "demo_submitted = (s1, Inr run)" "run_status run = RunApprovalPending" "run_approval_ids run = [''a1'']"
    "cs_approvals s1 = empty_db\<lparr>approvals := [demo_row]\<rparr>" "\<exists>rest. cs_runs s1 ''run'' = Some (RunFile run rest)"
proof -
  define ih where "ih = run_input_hash_of demo_digest ''agent'' ''hello''"
  define db where "db = empty_db\<lparr>approvals := [demo_row]\<rparr>"
  have id: "t_approval_id (new_ticket n u w q) = u" for n u w q by (simp add: new_ticket_def)
  have empty: "cs_approvals demo_control = empty_db" by (simp add: demo_control_def)
  have same: "demo_control\<lparr>cs_registry := cs_registry demo_control\<rparr> = demo_control" by simp
  define s0 where "s0 = put_doc (proposal_ref_of ''run'' ''edit'') (run_proposal ''run'' ''agent'' ih demo_decision) demo_control"
  have s0: "cs_approvals s0 = empty_db" "cs_registry s0 = cs_registry demo_control" by (simp_all add: s0_def empty)
  have edit: "pdec_action_id demo_decision = ''edit''" by (simp add: demo_decision_def)
  define tk where "tk = new_ticket 0 ''a1'' ''ws'' (run_ticket demo_config ''run'' ''agent'' ih demo_decision)"
  have cr: "create_ticket demo_digest 0 ''a1'' (run_ticket demo_config ''run'' ''agent'' ih demo_decision) empty_db = (db, Inr tk)"
    unfolding demo_created tk_def db_def demo_row_def ih_def ..
  have opened: "open_approvals demo_config (\<lambda>n. 0) (\<lambda>n. ''a1'') ''run'' ''agent'' ih 0 [demo_decision] demo_control =
      (s0\<lparr>cs_approvals := db\<rparr>, Inr [''a1''])"
    unfolding open_approvals.simps Let_def edit s0_def [symmetric] by (simp add: s0 cr) (simp add: tk_def id)
  have verdict: "run_verdict demo_config (\<lambda>n. 0) (\<lambda>n. ''a1'') ''run'' ''agent'' ih ''supervised'' []
      (simulate_agent demo_config demo_spec) demo_control =
    (s0\<lparr>cs_approvals := db\<rparr>, Inr (RunApprovalPending, [''a1''], [''approval.show'', ''approval.decide'', ''approval.execute'']))"
    unfolding run_verdict_def demo_simulation opened by simp
  define run where "run = submitted_run demo_config 0 ''run'' ''agent'' ''me'' (Some ''identity:disabled'') ih
     (psim_policy_hash (simulate_agent demo_config demo_spec)) []
     (RunApprovalPending, [''a1''], [''approval.show'', ''approval.decide'', ''approval.execute''])"
  define s2 where "s2 = put_run run (run_fields demo_config 0 demo_spec (simulate_agent demo_config demo_spec)) (s0\<lparr>cs_approvals := db\<rparr>)"
  have s2: "cs_registry s2 = cs_registry demo_control" "cs_approvals s2 = db" "run_run_id run = ''run''"
    by (simp_all add: s2_def s0 run_def submitted_run_def)
  obtain f where f: "update_record (cc_iso demo_config 0) (demo_record\<lparr>arec_last_run_id := Some ''run'',
      arec_updated_at := cc_iso demo_config 0\<rparr>) (cs_registry demo_control) = (f, Inr (demo_record\<lparr>arec_last_run_id := Some ''run'',
      arec_updated_at := cc_iso demo_config 0\<rparr>))"
    using demo_update [where now = "cc_iso demo_config 0" and i = "Some ''run''" and u = "cc_iso demo_config 0"] that by blast
  have "demo_submitted = (s2\<lparr>cs_registry := f\<rparr>, Inr run)"
    unfolding demo_submitted_def submit_run_def demo_agent
    by (simp add: identity_ref_def same demo_agent demo_simulation(1) ih_def [symmetric] verdict Let_def
        run_def [symmetric] s2_def [symmetric] s0(2) f)
  moreover have "run_status run = RunApprovalPending" "run_approval_ids run = [''a1'']"
    by (simp_all add: run_def submitted_run_def)
  moreover have "cs_runs (s2\<lparr>cs_registry := f\<rparr>) ''run'' = Some (RunFile run (run_fields demo_config 0 demo_spec (simulate_agent demo_config demo_spec)))"
    using s2(3) by (simp add: s2_def)
  ultimately show ?thesis using that s2(2) by (simp add: db_def)
qed

end
