(* ===== verification/Control_Tickets.thy ===== *)
theory Control_Tickets imports Control_State Approval_Facts begin

text \<open>What the coordinator and the gateway rely on of the approval store: a ticket under a new key is a new row.\<close>

text \<open>A ticket made under a new idempotency key is a new row, as it was asked for.\<close>

lemma created_fresh:
  assumes "create_ticket H now uuid q db = (db1, Inr tk)"
    and "q_idempotency_key q \<notin> r_idempotency_key ` set (approvals db)"
  obtains bw where "canonical_workspace_binding (q_workspace_id q) (q_target_kind q) (q_target_ref q) (q_snapshot q) = Inr bw"
    "tk = new_ticket now uuid bw q" "approvals db1 = approvals db @ [insert_row tk]"
    "uuid \<notin> r_approval_id ` set (approvals db)"
proof -
  obtain bw where bw: "canonical_workspace_binding (q_workspace_id q) (q_target_kind q) (q_target_ref q) (q_snapshot q) = Inr bw"
    using assms(1) by (auto simp: create_ticket_def split: sum.splits)
  let ?t = "new_ticket now uuid bw q"
  have key: "r_idempotency_key (insert_row ?t) = q_idempotency_key q" "r_approval_id (insert_row ?t) = uuid"
    by (simp_all add: insert_row_def new_ticket_def)
  have "List.find (\<lambda>r. r_idempotency_key r = q_idempotency_key q \<and> r_workspace_id r = bw) (approvals db) = None"
    using assms(2) by (auto simp: find_None_iff image_iff)
  then have none: "get_by_idempotency_key_conn H db (q_idempotency_key q) (Some bw) = None"
    by (simp add: get_by_idempotency_key_conn_def sql_fetchone_def)
  have v: "\<not> violates_unique (insert_row ?t) db"
    using assms(1) none by (auto simp: create_ticket_def bw Let_def)
  then have "tk = ?t" "approvals db1 = approvals db @ [insert_row tk]"
    using assms(1) by (auto simp: create_ticket_def bw Let_def)
  moreover have "uuid \<notin> r_approval_id ` set (approvals db)" using v key by (auto simp: violates_unique_def)
  ultimately show ?thesis using that bw by blast
qed

end
