(* ===== verification/Registry_Machine.thy ===== *)
theory Registry_Machine imports Agent_Registry Machine begin

text \<open>
  The registry as a state machine: an agent id denotes one specification from its registration on.
  A step writes one record; \<open>update_record\<close> and \<open>disable\<close> write a copy of a record they (or their caller)
  read before, perhaps of a registry that another process has changed since, so a write may carry any
  record with the registered specification.
\<close>

definition agents_of :: "registry_file \<Rightarrow> (string \<times> agent_record option) list" where
  "agents_of f = (case f of RegistryFile g \<Rightarrow> rg_agents g | _ \<Rightarrow> [])"

definition agent_at :: "registry_file \<Rightarrow> string \<Rightarrow> agent_record option" where
  "agent_at f k = (case map_of (agents_of f) k of Some (Some a) \<Rightarrow> Some a | _ \<Rightarrow> None)"

definition record_ok :: "(string \<Rightarrow> string) \<Rightarrow> string \<Rightarrow> agent_record \<Rightarrow> bool" where
  "record_ok H k a \<longleftrightarrow> arec_agent_id a = k \<and> spec_agent_id (arec_spec a) = k \<and> spec_valid (arec_spec a) \<and>
     arec_spec_hash a = spec_hash_of H (arec_spec a) \<and>
     (arec_status a = AgentDisabled \<longrightarrow> arec_disabled_reason a \<noteq> None)"

definition registry_inv :: "(string \<Rightarrow> string) \<Rightarrow> registry_file \<Rightarrow> bool" where
  "registry_inv H f \<longleftrightarrow> distinct (map fst (agents_of f)) \<and> (\<forall>k a. agent_at f k = Some a \<longrightarrow> record_ok H k a)"

definition same_agent :: "agent_record \<Rightarrow> agent_record \<Rightarrow> bool" where
  "same_agent a b \<longleftrightarrow> arec_spec b = arec_spec a \<and> arec_spec_hash b = arec_spec_hash a \<and> arec_created_at b = arec_created_at a"

definition registry_keeps :: "registry_file \<Rightarrow> registry_file \<Rightarrow> bool" where
  "registry_keeps f f' \<longleftrightarrow> (\<forall>k a. agent_at f k = Some a \<longrightarrow> (\<exists>b. agent_at f' k = Some b \<and> same_agent a b))"

text \<open>A file that reading moved away, a registration, and the write of a record.\<close>

inductive registry_step :: "(string \<Rightarrow> string) \<Rightarrow> registry_file \<Rightarrow> registry_file \<Rightarrow> bool" for H where
  step_gone: "registry_step H RegistryUnreadable RegistryMissing"
| step_register: "spec_valid v \<Longrightarrow> registry_step H f (fst (register H now v actor f))"
| step_put: "agent_at (RegistryFile g) k = Some a \<Longrightarrow> record_ok H k b \<Longrightarrow> same_agent a b \<Longrightarrow>
    rg_agents g' = AList.update k (Some b) (rg_agents g) \<Longrightarrow> registry_step H (RegistryFile g) (RegistryFile g')"

section \<open>Reading and writing\<close>

lemma agents_of_file [simp]:
  "agents_of (RegistryFile g) = rg_agents g" "agents_of RegistryMissing = []"
  "agents_of RegistryUnreadable = []" "agents_of RegistryNoObject = []"
  by (simp_all add: agents_of_def)

lemma agent_at_put:
  "rg_agents g' = AList.update k (Some b) (rg_agents g) \<Longrightarrow>
     agent_at (RegistryFile g') k' = (if k' = k then Some b else agent_at (RegistryFile g) k')"
  by (simp add: agent_at_def update_conv')

lemma agent_at_none [simp]:
  "agent_at RegistryMissing k = None" "agent_at RegistryUnreadable k = None" "agent_at RegistryNoObject k = None"
  by (simp_all add: agent_at_def)

lemma same_agent_refl [simp]: "same_agent a a"
  by (simp add: same_agent_def)

lemma same_agent_trans: "same_agent a b \<Longrightarrow> same_agent b c \<Longrightarrow> same_agent a c"
  by (simp add: same_agent_def)

lemma read_registry_cases:
  obtains "read_registry now f = (f, Inr (empty_registry (Some now)))" "f = RegistryMissing"
  | "read_registry now f = (RegistryMissing, Inl ''CONTROL_PLANE_STATE_CORRUPTED'')" "f = RegistryUnreadable"
  | "read_registry now f = (f, Inr (empty_registry None))" "f = RegistryNoObject"
  | g where "read_registry now f = (f, Inr g)" "f = RegistryFile g"
  by (cases f) (simp_all add: read_registry_def)

lemma empty_registry_agents [simp]: "rg_agents (empty_registry t) = []"
  by (simp add: empty_registry_def)

lemma put_agent_agents [simp]: "rg_agents (put_agent r now g) = AList.update (arec_agent_id r) (Some r) (rg_agents g)"
  by (simp add: put_agent_def)

lemma get_agent_Inr:
  "get_agent now k f = (f', Inr a) \<longleftrightarrow> f' = f \<and> agent_at f k = Some a"
  by (cases f) (auto simp: get_agent_def read_registry_def agent_at_def split: option.splits)

lemma get_agent_fst: "fst (get_agent now k f) = (if f = RegistryUnreadable then RegistryMissing else f)"
  by (cases f) (auto simp: get_agent_def read_registry_def split: option.splits)

lemma registry_invD: "registry_inv H f \<Longrightarrow> agent_at f k = Some a \<Longrightarrow> record_ok H k a"
  by (simp add: registry_inv_def)

lemma new_record_ok: "spec_valid v \<Longrightarrow> record_ok H (spec_agent_id v) (new_record H now v)"
  by (simp add: record_ok_def new_record_def)

section \<open>The invariant\<close>

lemma registry_inv_missing [simp]: "registry_inv H RegistryMissing"
  by (simp add: registry_inv_def)

lemma registry_inv_write:
  assumes "distinct (map fst (agents_of f))" "\<And>k' a. k' \<noteq> k \<Longrightarrow> agent_at f k' = Some a \<Longrightarrow> record_ok H k' a"
    and "record_ok H k b" "rg_agents g' = AList.update k (Some b) (agents_of f)"
  shows "registry_inv H (RegistryFile g')"
  using assms by (auto simp: registry_inv_def agent_at_def distinct_update update_conv' split: if_splits option.splits)

lemma register_cases:
  obtains (unreadable) "f = RegistryUnreadable" "register H now v actor f = (RegistryMissing, Inl ''CONTROL_PLANE_STATE_CORRUPTED'')"
  | (conflict) a where "agent_at f (spec_agent_id v) = Some a" "arec_spec_hash a \<noteq> spec_hash_of H v"
      "register H now v actor f = (f, Inl ''AGENT_ID_CONFLICT'')"
  | (unchanged) a where "agent_at f (spec_agent_id v) = Some a" "arec_spec_hash a = spec_hash_of H v"
      "register H now v actor f = (f, Inr \<lparr>reg_registered = False, reg_agent_id = spec_agent_id v,
         reg_spec_hash = spec_hash_of H v, reg_record = a\<rparr>)"
  | (fresh) g' where "agent_at f (spec_agent_id v) = None"
      "rg_agents g' = AList.update (spec_agent_id v) (Some (new_record H now v)) (agents_of f)"
      "register H now v actor f = (RegistryFile g', Inr \<lparr>reg_registered = True, reg_agent_id = spec_agent_id v,
         reg_spec_hash = spec_hash_of H v, reg_record = new_record H now v\<rparr>)"
proof -
  have id: "arec_agent_id (new_record H now v) = spec_agent_id v" by (simp add: new_record_def)
  show ?thesis
  proof (cases "f = RegistryUnreadable")
    case True
    then show ?thesis using unreadable by (simp add: register_def read_registry_def)
  next
    case False
    obtain g where g: "read_registry now f = (f, Inr g)" "rg_agents g = agents_of f"
      by (cases rule: read_registry_cases [of now f]) (use False in auto)
    show ?thesis
    proof (cases "agent_at f (spec_agent_id v)")
      case (Some a)
      then have m: "map_of (rg_agents g) (spec_agent_id v) = Some (Some a)"
        by (simp add: g agent_at_def split: option.splits)
      show ?thesis using conflict [OF Some] unchanged [OF Some] by (cases "arec_spec_hash a = spec_hash_of H v")
        (simp_all add: register_def g(1) m)
    next
      case None
      then have m: "map_of (rg_agents g) (spec_agent_id v) = None \<or> map_of (rg_agents g) (spec_agent_id v) = Some None"
        by (simp add: g agent_at_def split: option.splits)
      let ?g = "(put_agent (new_record H now v) now g)\<lparr>rg_last_actor := Some actor\<rparr>"
      have "rg_agents ?g = AList.update (spec_agent_id v) (Some (new_record H now v)) (agents_of f)"
        by (simp add: id g(2))
      moreover have "register H now v actor f = (RegistryFile ?g, Inr \<lparr>reg_registered = True, reg_agent_id = spec_agent_id v,
         reg_spec_hash = spec_hash_of H v, reg_record = new_record H now v\<rparr>)"
        using m by (auto simp: register_def g(1) Let_def)
      ultimately show ?thesis using fresh [OF None] by blast
    qed
  qed
qed

lemma registry_inv_step: "registry_step H f f' \<Longrightarrow> registry_inv H f \<Longrightarrow> registry_inv H f'"
proof (induction rule: registry_step.induct)
  case (step_register v f now actor)
  then show ?case
    by (cases rule: register_cases [of f H now v actor])
      (auto simp: registry_inv_def [of H f] intro!: registry_inv_write [of f] new_record_ok)
next
  case (step_put g k a b g')
  then show ?case by (intro registry_inv_write [of "RegistryFile g" k]) (auto simp: registry_inv_def)
qed simp

lemma registry_keeps_step: "registry_step H f f' \<Longrightarrow> registry_keeps f f'"
proof (induction rule: registry_step.induct)
  case (step_register v f now actor)
  then show ?case
  proof (cases rule: register_cases [of f H now v actor])
    case (fresh g')
    then show ?thesis by (auto simp: registry_keeps_def agent_at_def update_conv' agents_of_def [symmetric] split: if_splits option.splits)
  qed (auto simp: registry_keeps_def)
next
  case (step_put g k a b g')
  then show ?case by (auto simp: registry_keeps_def agent_at_put [OF step_put(4)])
qed (simp add: registry_keeps_def)

lemma registry_keeps_trans: "registry_keeps f g \<Longrightarrow> registry_keeps g h \<Longrightarrow> registry_keeps f h"
  unfolding registry_keeps_def by (meson same_agent_trans)

interpretation registry: history_machine "registry_step H" "registry_inv H" registry_keeps for H
proof unfold_locales
  show "registry_step H f g \<Longrightarrow> registry_inv H f \<Longrightarrow> registry_inv H g" for f g by (rule registry_inv_step)
  show "registry_step H f g \<Longrightarrow> registry_keeps f g" for f g by (rule registry_keeps_step)
  show "registry_keeps f f" for f by (auto simp: registry_keeps_def)
  show "registry_keeps f g \<Longrightarrow> registry_keeps g h \<Longrightarrow> registry_keeps f h" for f g h by (rule registry_keeps_trans)
qed

section \<open>The operations are runs\<close>

lemma get_agent_run: "(registry_step H)\<^sup>*\<^sup>* f (fst (get_agent now k f))"
  by (auto simp: get_agent_fst intro: registry_step.step_gone)

lemma register_run: "spec_valid v \<Longrightarrow> (registry_step H)\<^sup>*\<^sup>* f (fst (register H now v actor f))"
  by (blast intro: registry_step.step_register)

lemma update_record_run:
  assumes "agent_at f k = Some a" "record_ok H k b" "same_agent a b"
  shows "(registry_step H)\<^sup>*\<^sup>* f (fst (update_record now b f))"
    and "\<exists>f'. update_record now b f = (f', Inr (b\<lparr>arec_updated_at := now\<rparr>)) \<and> agent_at f' k = Some (b\<lparr>arec_updated_at := now\<rparr>)"
proof -
  obtain g where f: "f = RegistryFile g" using assms(1) by (cases f) auto
  have k: "arec_agent_id b = k" using assms(2) by (simp add: record_ok_def)
  have m: "map_of (rg_agents g) k \<noteq> None" using assms(1) by (auto simp: f agent_at_def split: option.splits)
  let ?b = "b\<lparr>arec_updated_at := now\<rparr>"
  have eq: "update_record now b f = (RegistryFile (put_agent ?b now g), Inr ?b)"
    using m by (simp add: update_record_def f read_registry_def k Let_def)
  have ag: "rg_agents (put_agent ?b now g) = AList.update k (Some ?b) (rg_agents g)" by (simp add: k)
  have "record_ok H k ?b" using assms(2) by (simp add: record_ok_def)
  moreover have "same_agent a ?b" using assms(3) by (simp add: same_agent_def)
  ultimately have "registry_step H (RegistryFile g) (RegistryFile (put_agent ?b now g))"
    by (rule step_put [OF assms(1) [unfolded f] _ _ ag])
  then
  show "(registry_step H)\<^sup>*\<^sup>* f (fst (update_record now b f))"
    unfolding eq fst_conv unfolding f by (rule r_into_rtranclp)
  show "\<exists>f'. update_record now b f = (f', Inr ?b) \<and> agent_at f' k = Some ?b"
    using eq agent_at_put [OF ag] by auto
qed

lemma disable_run:
  assumes "registry_inv H f" "\<And>x. (registry_step H)\<^sup>*\<^sup>* x (other x)"
  shows "(registry_step H)\<^sup>*\<^sup>* f (fst (disable now other k reason actor f))"
proof -
  obtain f1 x where g: "get_agent now k f = (f1, x)" by fastforce
  have r1: "(registry_step H)\<^sup>*\<^sup>* f f1" using get_agent_run [of H f now k] g by simp
  show ?thesis
  proof (cases x)
    case (Inl e)
    then show ?thesis using r1 by (simp add: disable_def g)
  next
    case (Inr a)
    then have f1: "f1 = f" "agent_at f k = Some a" using g by (simp_all add: get_agent_Inr)
    have r2: "(registry_step H)\<^sup>*\<^sup>* f (other f)" by (rule assms(2))
    obtain b where b: "agent_at (other f) k = Some b" "same_agent a b"
      using registry.run_rel [OF r2 assms(1)] f1(2) unfolding registry_keeps_def by blast
    obtain g2 where g2: "other f = RegistryFile g2" using b(1) by (cases "other f") auto
    let ?r = "disabled now reason a"
    have ok: "record_ok H k ?r" using registry_invD [OF assms(1) f1(2)] by (simp add: record_ok_def disabled_def)
    have same: "same_agent b ?r" using b(2) by (simp add: disabled_def same_agent_def)
    let ?g = "g2\<lparr>rg_agents := AList.update k (Some ?r) (rg_agents g2), rg_updated_at := Some now, rg_last_actor := Some actor\<rparr>"
    have "registry_step H (other f) (RegistryFile ?g)"
      unfolding g2 by (rule step_put [OF b(1) [unfolded g2] ok same]) simp
    moreover have "fst (disable now other k reason actor f) = RegistryFile ?g"
      by (simp add: disable_def g Inr f1(1) g2 read_registry_def Let_def)
    ultimately show ?thesis using r2 by simp
  qed
qed

end
