(* ===== verification/Coordinator_Props.thy ===== *)
theory Coordinator_Props imports Control_Demo Control_Tickets Registry_Machine Approval_Facts begin

text \<open>
  What holds of runs: which of them the policy and the identity let through, that the tickets a run
  leaves are ones the approval service can execute, and that a run is completed only when they are.
\<close>

section \<open>The loop over the decisions\<close>

lemma run_binding:
  assumes "canonical_workspace_binding (q_workspace_id (run_ticket C run ag ih d)) (q_target_kind (run_ticket C run ag ih d))
      (q_target_ref (run_ticket C run ag ih d)) (q_snapshot (run_ticket C run ag ih d)) = Inr bw"
  shows "bw = py_strip (cc_default_workspace_id C)" "py_strip (cc_default_workspace_id C) \<noteq> []"
    "bw \<noteq> legacy_unbound_workspace"
  using assms by (auto simp: canonical_workspace_binding_def run_snapshot_def base_fields_def dict_get_def
      binding_candidate_def pv_of_opt_def starts_with_def Let_def split: if_splits list.splits prod.splits)

text \<open>The row a decision leaves, and what the loop keeps.\<close>

definition run_row ::
  "control_config \<Rightarrow> (nat \<Rightarrow> int) \<Rightarrow> string \<Rightarrow> string \<Rightarrow> string \<Rightarrow> cp_decision \<Rightarrow> approval_row \<Rightarrow> bool" where
  "run_row C clk run ag ih d r \<longleftrightarrow> r_status r = Pending \<and> r_run_id r = run \<and> r_target_ref r = ag @ '':'' @ pdec_action_id d \<and>
     r_workspace_id r = py_strip (cc_default_workspace_id C) \<and> r_idempotency_key r = run_key run d \<and>
     r_action_hash r = canonical_json_hash (cc_hash C) (PDict (run_proposal run ag ih d)) \<and>
     r_policy_hash r = pdec_policy_hash d \<and>
     r_request_hash r = compute_approval_request_hash (cc_hash C) (run_snapshot C run ag ih d) \<and>
     r_snapshot_json r = canonical_dict (model_dump (run_snapshot C run ag ih d)) \<and>
     (\<exists>n. r_expires_at r = clk n + cc_approval_ttl_seconds C * 1000000)"

lemma run_row_inserted:
  "tk = new_ticket (clk n) uuid bw (run_ticket C run ag ih d) \<Longrightarrow> bw = py_strip (cc_default_workspace_id C) \<Longrightarrow>
     run_row C clk run ag ih d (insert_row tk)"
  by (auto simp: run_row_def insert_row_def new_ticket_def)

definition run_doc :: "string \<Rightarrow> string \<Rightarrow> string \<Rightarrow> cp_decision \<Rightarrow> documents \<Rightarrow> bool" where
  "run_doc run ag ih d docs \<longleftrightarrow>
     docs (proposal_ref_of run (pdec_action_id d)) = Some (Document (canonicalize_payload (PDict (run_proposal run ag ih d))))"

lemma proposal_ref_inject [simp]: "proposal_ref_of run a = proposal_ref_of run b \<longleftrightarrow> a = b"
  by (simp add: proposal_ref_of_def)

lemma run_key_inject [simp]: "run_key run d = run_key run e \<longleftrightarrow> pdec_action_id d = pdec_action_id e"
  by (simp add: run_key_def)

lemma open_approvals_same:
  "open_approvals C clk uuid run ag ih n ds s = (s', res) \<Longrightarrow>
     cs_registry s' = cs_registry s \<and> cs_runs s' = cs_runs s \<and> cs_enterprise s' = cs_enterprise s \<and>
     store_step\<^sup>*\<^sup>* (cs_approvals s) (cs_approvals s')"
proof (induction ds arbitrary: n s s' res)
  case (Cons d ds)
  let ?s = "put_doc (proposal_ref_of run (pdec_action_id d)) (run_proposal run ag ih d) s"
  obtain db x where t: "create_ticket (cc_hash C) (clk n) (uuid n) (run_ticket C run ag ih d) (cs_approvals s) = (db, x)"
    by fastforce
  have r: "store_step\<^sup>*\<^sup>* (cs_approvals s) db" using create_ticket_run [of "cs_approvals s"] t by (metis fst_conv)
  show ?case
  proof (cases x)
    case (Inl e)
    then show ?thesis using Cons.prems r by (auto simp: t)
  next
    case (Inr tk)
    obtain s2 y where y: "open_approvals C clk uuid run ag ih (Suc n) ds (?s\<lparr>cs_approvals := db\<rparr>) = (s2, y)" by fastforce
    then have "s' = s2" using Cons.prems by (auto simp: t Inr split: sum.splits)
    then show ?thesis using Cons.IH [OF y] r by (auto intro: rtranclp_trans)
  qed
qed simp

lemma open_approvals_docs:
  "open_approvals C clk uuid run ag ih n ds s = (s', Inr ids) \<Longrightarrow> ref \<notin> (\<lambda>d. proposal_ref_of run (pdec_action_id d)) ` set ds \<Longrightarrow>
     cs_docs s' ref = cs_docs s ref"
  by (induction ds arbitrary: n s ids) (auto simp: Let_def split: prod.splits sum.splits)

lemma created_appends: "\<exists>rows. approvals (fst (create_ticket H now uuid q db)) = approvals db @ rows"
  by (auto simp: create_ticket_def Let_def split: sum.splits option.splits)

lemma open_approvals_appends:
  "\<exists>rows. approvals (cs_approvals (fst (open_approvals C clk uuid run ag ih n ds s))) = approvals (cs_approvals s) @ rows"
proof (induction ds arbitrary: n s)
  case (Cons d ds)
  let ?s = "put_doc (proposal_ref_of run (pdec_action_id d)) (run_proposal run ag ih d) s"
  obtain db x where t: "create_ticket (cc_hash C) (clk n) (uuid n) (run_ticket C run ag ih d) (cs_approvals s) = (db, x)"
    by fastforce
  obtain rows where rows: "approvals db = approvals (cs_approvals s) @ rows"
    using created_appends [of "cc_hash C" "clk n" "uuid n" "run_ticket C run ag ih d" "cs_approvals s"] t by auto
  show ?case
  proof (cases x)
    case (Inl e)
    then show ?thesis using rows by (auto simp: t Let_def)
  next
    case (Inr tk)
    obtain s2 y where y: "open_approvals C clk uuid run ag ih (Suc n) ds (?s\<lparr>cs_approvals := db\<rparr>) = (s2, y)" by fastforce
    have "fst (open_approvals C clk uuid run ag ih n (d # ds) s) = s2" by (auto simp: t Inr y Let_def split: sum.splits)
    then show ?thesis using Cons.IH [of "Suc n" "?s\<lparr>cs_approvals := db\<rparr>"] rows y by auto
  qed
qed simp

lemma row_of_appended: "approvals db' = approvals db @ rows \<Longrightarrow> row_of k db = Some r \<Longrightarrow> row_of k db' = Some r"
  by (simp add: lookup_key_append)

lemma open_approvals_rows:
  assumes "open_approvals C clk uuid run ag ih n ds s = (s', Inr ids)" "db_inv (cs_approvals s)"
    and "distinct (map pdec_action_id ds)"
    and "\<forall>d \<in> set ds. run_key run d \<notin> r_idempotency_key ` set (approvals (cs_approvals s))"
  shows "list_all2 (\<lambda>d k. (\<exists>r. row_of k (cs_approvals s') = Some r \<and> run_row C clk run ag ih d r) \<and> run_doc run ag ih d (cs_docs s')) ds ids \<and>
    (ds \<noteq> [] \<longrightarrow> py_strip (cc_default_workspace_id C) \<notin> {[], legacy_unbound_workspace})"
  using assms
proof (induction ds arbitrary: n s ids)
  case (Cons d ds)
  let ?s = "put_doc (proposal_ref_of run (pdec_action_id d)) (run_proposal run ag ih d) s"
  let ?q = "run_ticket C run ag ih d"
  obtain db tk ids2 where t: "create_ticket (cc_hash C) (clk n) (uuid n) ?q (cs_approvals s) = (db, Inr tk)"
    and rest: "open_approvals C clk uuid run ag ih (Suc n) ds (?s\<lparr>cs_approvals := db\<rparr>) = (s', Inr ids2)"
    and ids: "ids = t_approval_id tk # ids2"
    using Cons.prems(1) by (auto simp: Let_def split: prod.splits sum.splits)
  have new: "q_idempotency_key ?q \<notin> r_idempotency_key ` set (approvals (cs_approvals s))"
    using Cons.prems(4) by simp
  obtain bw where bw: "canonical_workspace_binding (q_workspace_id ?q) (q_target_kind ?q) (q_target_ref ?q) (q_snapshot ?q) = Inr bw"
      and tk: "tk = new_ticket (clk n) (uuid n) bw ?q"
      and app: "approvals db = approvals (cs_approvals s) @ [insert_row tk]"
      and id: "uuid n \<notin> r_approval_id ` set (approvals (cs_approvals s))"
    using created_fresh [OF t new] by metis
  note bnd = run_binding [OF bw]
  have inv: "db_inv db" using db_inv_run [OF create_ticket_run Cons.prems(2)] t by (metis fst_conv)
  have "insert_row tk \<in> set (approvals db)" "r_approval_id (insert_row tk) = t_approval_id tk"
    using app by (simp_all add: insert_row_def)
  then have row: "row_of (t_approval_id tk) db = Some (insert_row tk)"
    using lookup_key_member [of r_approval_id "approvals db" "insert_row tk"] inv by (simp add: db_inv_def)
  have later: "store_step\<^sup>*\<^sup>* db (cs_approvals s')" using open_approvals_same [OF rest] by simp
  have keys: "\<forall>e \<in> set ds. run_key run e \<notin> r_idempotency_key ` set (approvals db)"
  proof -
    have "r_idempotency_key ` set (approvals db) = insert (run_key run d) (r_idempotency_key ` set (approvals (cs_approvals s)))"
      by (simp add: app tk insert_row_def new_ticket_def)
    then show ?thesis using Cons.prems(3,4) by (auto simp: image_iff)
  qed
  have IH: "list_all2 (\<lambda>d k. (\<exists>r. row_of k (cs_approvals s') = Some r \<and> run_row C clk run ag ih d r) \<and> run_doc run ag ih d (cs_docs s')) ds ids2"
    using Cons.IH [OF rest] inv Cons.prems(3) keys by simp
  obtain rows where "approvals (cs_approvals s') = approvals db @ rows"
    using open_approvals_appends [of C clk uuid run ag ih "Suc n" ds "?s\<lparr>cs_approvals := db\<rparr>"] rest by auto
  then have kept: "row_of (t_approval_id tk) (cs_approvals s') = Some (insert_row tk)" using row row_of_appended by blast
  have "cs_docs s' (proposal_ref_of run (pdec_action_id d)) = cs_docs (?s\<lparr>cs_approvals := db\<rparr>) (proposal_ref_of run (pdec_action_id d))"
    by (rule open_approvals_docs [OF rest]) (use Cons.prems(3) in auto)
  then have doc: "run_doc run ag ih d (cs_docs s')" by (simp add: run_doc_def)
  show ?case using IH kept doc run_row_inserted [where clk = clk and n = n, OF tk bnd(1)] bnd ids by auto
qed simp

section \<open>Submitting a run\<close>

lemma update_record_Inr:
  assumes "update_record now r f = (f', Inr b)"
  shows "b = r\<lparr>arec_updated_at := now\<rparr>" "agent_at f' k = (if k = arec_agent_id r then Some b else agent_at f k)"
proof -
  let ?b = "r\<lparr>arec_updated_at := now\<rparr>"
  obtain g where g: "f = RegistryFile g" "map_of (rg_agents g) (arec_agent_id r) \<noteq> None"
    using assms by (cases f) (simp_all add: update_record_def read_registry_def split: if_splits)
  then have "update_record now r f = (RegistryFile (put_agent ?b now g), Inr ?b)"
    by (simp add: update_record_def read_registry_def Let_def)
  then have b: "b = ?b" and f': "f' = RegistryFile (put_agent b now g)" using assms by simp_all
  show "b = r\<lparr>arec_updated_at := now\<rparr>" by (rule b)
  have "rg_agents (put_agent b now g) = AList.update (arec_agent_id r) (Some b) (rg_agents g)" by (simp add: b)
  from agent_at_put [OF this] show "agent_at f' k = (if k = arec_agent_id r then Some b else agent_at f k)"
    by (simp add: g(1) f')
qed

lemma submit_run_Inr:
  assumes "submit_run C identity clk uuid run_id ag inp actor mode s = (s', Inr run)"
  obtains a ref err t blocking s1 v b where
    "agent_at (cs_registry s) ag = Some a" "identity_ref identity = Inr (ref, err)"
    "blocking = psim_blocking_reasons (simulate_agent C (arec_spec a)) @ (case err of None \<Rightarrow> [] | Some code \<Rightarrow> [code])"
    "run_verdict C (\<lambda>n. clk (Suc n)) uuid run_id ag (run_input_hash_of (cc_hash C) ag inp) mode blocking
       (simulate_agent C (arec_spec a)) s = (s1, Inr v)"
    "run = submitted_run C t run_id ag actor ref (run_input_hash_of (cc_hash C) ag inp) (cp_policy_hash C) blocking v"
    "cs_docs s' = cs_docs s1" "cs_approvals s' = cs_approvals s1" "cs_enterprise s' = cs_enterprise s1"
    "cs_runs s' = (cs_runs s1)(run_id \<mapsto> RunFile run (run_fields C t (arec_spec a) (simulate_agent C (arec_spec a))))"
    "update_record (cc_iso C t) (a\<lparr>arec_last_run_id := Some run_id, arec_updated_at := cc_iso C t\<rparr>) (cs_registry s1) = (cs_registry s', Inr b)"
proof -
  obtain f x where g: "get_agent (cc_iso C (clk 0)) ag (cs_registry s) = (f, x)" by fastforce
  then obtain a where x: "x = Inr a" using assms by (cases x) (auto simp: submit_run_def)
  have a: "f = cs_registry s" "agent_at (cs_registry s) ag = Some a" using g x by (simp_all add: get_agent_Inr)
  have s: "s\<lparr>cs_registry := cs_registry s\<rparr> = s" by simp
  obtain ref err where i: "identity_ref identity = Inr (ref, err)"
    using assms by (cases "identity_ref identity") (auto simp: submit_run_def g x Let_def)
  define blocking where "blocking = psim_blocking_reasons (simulate_agent C (arec_spec a)) @ (case err of None \<Rightarrow> [] | Some code \<Rightarrow> [code])"
  obtain s1 y where v: "run_verdict C (\<lambda>n. clk (Suc n)) uuid run_id ag (run_input_hash_of (cc_hash C) ag inp) mode blocking
       (simulate_agent C (arec_spec a)) s = (s1, y)" by fastforce
  obtain w where y: "y = Inr w" using assms v by (cases y) (auto simp: submit_run_def g x i a(1) s blocking_def [symmetric] Let_def)
  define t where "t = clk (Suc (length (spec_declared_actions (arec_spec a))))"
  define run1 where "run1 = submitted_run C t run_id ag actor ref (run_input_hash_of (cc_hash C) ag inp) (cp_policy_hash C) blocking w"
  define s2 where "s2 = put_run run1 (run_fields C t (arec_spec a) (simulate_agent C (arec_spec a))) s1"
  obtain f2 z where u: "update_record (cc_iso C t) (a\<lparr>arec_last_run_id := Some run_id, arec_updated_at := cc_iso C t\<rparr>) (cs_registry s1) = (f2, z)"
    by fastforce
  have ph: "psim_policy_hash (simulate_agent C (arec_spec a)) = cp_policy_hash C" by (simp add: simulate_agent_def Let_def)
  obtain b where z: "z = Inr b" using assms v u
    by (cases z) (auto simp: submit_run_def g x i a(1) s y ph blocking_def [symmetric] t_def [symmetric] run1_def [symmetric]
        s2_def [symmetric] Let_def)
  have "s' = s2\<lparr>cs_registry := f2\<rparr>" "run = run1"
    using assms v u by (auto simp: submit_run_def g x i a(1) s y ph blocking_def [symmetric] t_def [symmetric] run1_def [symmetric]
        s2_def [symmetric] Let_def split: sum.splits)
  moreover have "run_run_id run1 = run_id" by (simp add: run1_def submitted_run_def split: prod.splits)
  ultimately show ?thesis using that [OF a(2) i blocking_def v [unfolded y], of t] u by (simp add: s2_def run1_def z)
qed

lemma run_status_verdict [simp]:
  "run_status (submitted_run C t run_id ag actor ref ih ph blocking v) = fst v"
  "run_approval_ids (submitted_run C t run_id ag actor ref ih ph blocking v) = fst (snd v)"
  "run_run_id (submitted_run C t run_id ag actor ref ih ph blocking v) = run_id"
  by (simp_all add: submitted_run_def split: prod.splits)

text \<open>The risks the policy lets through, at once or with an approval.\<close>

definition approvable :: "risk_class \<Rightarrow> bool" where
  "approvable r \<longleftrightarrow> r \<in> {RiskLocalWrite, RiskExternalWrite, RiskMutation, RiskComputerUseVisual}"

definition risks_of :: "agent_record \<Rightarrow> risk_class set" where
  "risks_of a = dact_risk_class ` set (spec_declared_actions (arec_spec a))"

lemma simulation_blocks:
  "psim_blocking_reasons (simulate_agent C v) = [] \<longleftrightarrow>
     cp_policy_hash C \<noteq> ''unavailable'' \<and> (\<forall>r \<in> dact_risk_class ` set (spec_declared_actions v). r = RiskReadOnly \<or> approvable r)"
proof -
  have "fst (risk_default r) = CpDeny \<longleftrightarrow> \<not> (r = RiskReadOnly \<or> approvable r)" for r
    by (cases r) (simp_all add: risk_default_def approvable_def)
  then show ?thesis by (auto simp: simulate_agent_def Let_def decision_actions filter_empty_conv)
qed

lemma approval_decisions_eq:
  assumes "cp_policy_hash C \<noteq> ''unavailable''"
  shows "approval_decisions (simulate_agent C v) =
    map (\<lambda>a. decision_for_risk (dact_action_id a) (dact_phase a) (dact_risk_class a) (cp_policy_hash C))
      (filter (\<lambda>a. approvable (dact_risk_class a)) (spec_declared_actions v))"
  using assms by (simp add: approval_decisions_def simulate_agent_def Let_def filter_map comp_def decision_actions
      risk_default_actions approvable_def)

lemma run_verdict_blocked:
  "blocking \<noteq> [] \<Longrightarrow> run_verdict C clk uuid run_id ag ih mode blocking sim s = (s1, Inr v) \<Longrightarrow>
     s1 = s \<and> fst v = RunPolicyBlocked \<and> fst (snd v) = []"
  by (auto simp: run_verdict_def)

lemma run_verdict_free:
  assumes "run_verdict C clk uuid run_id ag ih mode [] sim s = (s1, Inr v)"
  obtains (pending) ids where "approval_decisions sim \<noteq> []" "mode \<noteq> ''dry_run''" "fst v = RunApprovalPending"
      "fst (snd v) = ids" "open_approvals C clk uuid run_id ag ih 0 (approval_decisions sim) s = (s1, Inr ids)"
  | (completed) "approval_decisions sim = [] \<or> mode = ''dry_run''" "s1 = s" "fst v = RunCompleted" "fst (snd v) = []"
  using assms by (auto simp: run_verdict_def split: if_splits prod.splits sum.splits)

definition run_blocked :: "control_config \<Rightarrow> agent_record \<Rightarrow> string option \<Rightarrow> bool" where
  "run_blocked C a err \<longleftrightarrow> cp_policy_hash C = ''unavailable'' \<or> err \<noteq> None \<or>
     (\<exists>r \<in> risks_of a. r \<noteq> RiskReadOnly \<and> \<not> approvable r)"

lemma blocking_iff:
  "psim_blocking_reasons (simulate_agent C (arec_spec a)) @ (case err of None \<Rightarrow> [] | Some code \<Rightarrow> [code]) = [] \<longleftrightarrow>
     \<not> run_blocked C a err"
  by (auto simp: simulation_blocks run_blocked_def risks_of_def split: option.splits)

lemma no_approval_decisions:
  "cp_policy_hash C \<noteq> ''unavailable'' \<Longrightarrow>
     approval_decisions (simulate_agent C (arec_spec a)) = [] \<longleftrightarrow> (\<forall>r \<in> risks_of a. \<not> approvable r)"
  by (simp add: approval_decisions_eq risks_of_def filter_empty_conv)

section \<open>The tickets of a run\<close>

definition run_tickets_fresh :: "string \<Rightarrow> agent_record \<Rightarrow> approval_db \<Rightarrow> bool" where
  "run_tickets_fresh run_id a db \<longleftrightarrow>
     (\<forall>d \<in> set (spec_declared_actions (arec_spec a)).
        ''control-plane:'' @ run_id @ '':'' @ dact_action_id d \<notin> r_idempotency_key ` set (approvals db))"

lemma run_tickets:
  assumes "submit_run C identity clk uuid run_id ag inp actor mode s = (s', Inr run)" "run_status run = RunApprovalPending"
    and "db_inv (cs_approvals s)" "agent_at (cs_registry s) ag = Some a"
    and "distinct (map dact_action_id (spec_declared_actions (arec_spec a)))" "run_tickets_fresh run_id a (cs_approvals s)"
  obtains ds where "ds \<noteq> []" "ds = approval_decisions (simulate_agent C (arec_spec a))" "cp_policy_hash C \<noteq> ''unavailable''"
    "list_all2 (\<lambda>d k. (\<exists>r. row_of k (cs_approvals s') = Some r \<and>
        run_row C (\<lambda>n. clk (Suc n)) run_id ag (run_input_hash_of (cc_hash C) ag inp) d r) \<and>
        run_doc run_id ag (run_input_hash_of (cc_hash C) ag inp) d (cs_docs s')) ds (run_approval_ids run)"
    "py_strip (cc_default_workspace_id C) \<notin> {[], legacy_unbound_workspace}" "db_inv (cs_approvals s')"
proof -
  obtain b ref err t blocking s1 v where b: "agent_at (cs_registry s) ag = Some b" "identity_ref identity = Inr (ref, err)"
    and bl: "blocking = psim_blocking_reasons (simulate_agent C (arec_spec b)) @ (case err of None \<Rightarrow> [] | Some code \<Rightarrow> [code])"
    and v: "run_verdict C (\<lambda>n. clk (Suc n)) uuid run_id ag (run_input_hash_of (cc_hash C) ag inp) mode blocking
       (simulate_agent C (arec_spec b)) s = (s1, Inr v)"
    and run: "run = submitted_run C t run_id ag actor ref (run_input_hash_of (cc_hash C) ag inp) (cp_policy_hash C) blocking v"
    and s': "cs_docs s' = cs_docs s1" "cs_approvals s' = cs_approvals s1"
    using submit_run_Inr [OF assms(1)] by metis
  have ab: "b = a" using b(1) assms(4) by simp
  have st: "fst v = RunApprovalPending" using assms(2) by (simp add: run)
  have nil: "blocking = []" using run_verdict_blocked [OF _ v] st by auto
  then have pol: "cp_policy_hash C \<noteq> ''unavailable''" using bl by (simp add: simulation_blocks)
  let ?ds = "approval_decisions (simulate_agent C (arec_spec a))"
  have open_: "?ds \<noteq> []" "open_approvals C (\<lambda>n. clk (Suc n)) uuid run_id ag (run_input_hash_of (cc_hash C) ag inp) 0 ?ds s = (s1, Inr (run_approval_ids run))"
    using run_verdict_free [OF v [unfolded nil]] st by (auto simp: run ab)
  note ds = approval_decisions_eq [OF pol, of "arec_spec a"]
  have dist: "distinct (map pdec_action_id ?ds)"
    using assms(5) by (simp add: ds comp_def distinct_map_filter)
  have fresh: "\<forall>d \<in> set ?ds. run_key run_id d \<notin> r_idempotency_key ` set (approvals (cs_approvals s))"
    using assms(6) by (auto simp: ds run_tickets_fresh_def run_key_def)
  have inv: "db_inv (cs_approvals s')"
    using db_inv_run [OF _ assms(3)] open_approvals_same [OF open_(2)] s' by metis
  show ?thesis
    using that [of ?ds] open_approvals_rows [OF open_(2) assms(3) dist fresh] open_(1) pol s' inv by simp
qed

lemma list_all2_member: "list_all2 P xs ys \<Longrightarrow> x \<in> set xs \<Longrightarrow> \<exists>y \<in> set ys. P x y"
  by (induction rule: list_all2_induct) auto

lemma list_all2_member_right: "list_all2 P xs ys \<Longrightarrow> y \<in> set ys \<Longrightarrow> \<exists>x \<in> set xs. P x y"
  by (induction rule: list_all2_induct) auto

lemma run_ids_distinct:
  assumes "list_all2 (\<lambda>d k. (\<exists>r. row_of k db = Some r \<and> run_row C clk run ag ih d r) \<and> run_doc run ag ih d docs) ds ids"
    and "distinct (map pdec_action_id ds)"
  shows "distinct ids"
  using assms
proof (induction rule: list_all2_induct)
  case (Cons d ds k ks)
  have "k \<notin> set ks"
  proof
    assume "k \<in> set ks"
    then obtain e where e: "e \<in> set ds" "\<exists>r. row_of k db = Some r \<and> run_row C clk run ag ih e r"
      using list_all2_member_right [OF Cons(2)] by blast
    then have "run_key run e = run_key run d" using Cons(1) by (auto simp: run_row_def)
    then have "pdec_action_id d \<in> pdec_action_id ` set ds" using e(1) by (metis image_eqI run_key_inject)
    then show False using Cons.prems by simp
  qed
  then show ?case using Cons by simp
qed simp

lemma submit_run_stored:
  "submit_run C identity clk uuid run_id ag inp actor mode s = (s', Inr run) \<Longrightarrow> \<exists>rest. cs_runs s' run_id = Some (RunFile run rest)"
  by (erule submit_run_Inr) simp

lemma canonical_hash_idem [simp]: "canonical_json_hash H (canonicalize_payload v) = canonical_json_hash H v"
  by (simp add: canonical_json_hash_def payload_hash_def canonical_text_def)

text \<open>
  One ticket and one proposal document for an action: the ticket waits for a decision, on this action of
  this run and agent, under the digest of the document.
\<close>

definition asked_for :: "control_config \<Rightarrow> string \<Rightarrow> string \<Rightarrow> control_state \<Rightarrow> declared_action \<Rightarrow> string \<Rightarrow> bool" where
  "asked_for C run_id ag s d k \<longleftrightarrow> (\<exists>r p.
     row_of k (cs_approvals s) = Some r \<and> r_status r = Pending \<and> r_run_id r = run_id \<and>
     r_target_ref r = ag @ '':'' @ dact_action_id d \<and>
     cs_docs s (proposal_ref_of run_id (dact_action_id d)) = Some (Document p) \<and>
     r_action_hash r = canonical_json_hash (cc_hash C) p)"

lemma asked_for_all:
  assumes "submit_run C identity clk uuid run_id ag inp actor mode s = (s', Inr run)" "run_status run = RunApprovalPending"
    and "db_inv (cs_approvals s)" "agent_at (cs_registry s) ag = Some a"
    and "distinct (map dact_action_id (spec_declared_actions (arec_spec a)))" "run_tickets_fresh run_id a (cs_approvals s)"
  shows "distinct (run_approval_ids run) \<and>
    list_all2 (asked_for C run_id ag s') (filter (\<lambda>d. approvable (dact_risk_class d)) (spec_declared_actions (arec_spec a)))
      (run_approval_ids run)"
proof -
  let ?ih = "run_input_hash_of (cc_hash C) ag inp"
  obtain ds where ds: "ds = approval_decisions (simulate_agent C (arec_spec a))" "cp_policy_hash C \<noteq> ''unavailable''"
    and rows: "list_all2 (\<lambda>d k. (\<exists>r. row_of k (cs_approvals s') = Some r \<and> run_row C (\<lambda>n. clk (Suc n)) run_id ag ?ih d r) \<and>
        run_doc run_id ag ?ih d (cs_docs s')) ds (run_approval_ids run)"
    by (rule run_tickets [OF assms])
  have "distinct (map pdec_action_id ds)"
    using assms(5) by (simp add: ds(1) approval_decisions_eq [OF ds(2)] comp_def distinct_map_filter)
  then have "distinct (run_approval_ids run)" by (rule run_ids_distinct [OF rows])
  moreover have "list_all2 (asked_for C run_id ag s') (filter (\<lambda>d. approvable (dact_risk_class d)) (spec_declared_actions (arec_spec a)))
      (run_approval_ids run)"
    using rows unfolding ds(1) approval_decisions_eq [OF ds(2)] list_all2_map1
    by (rule list_all2_mono) (auto simp: asked_for_def run_row_def run_doc_def simp del: canonicalize_payload.simps)
  ultimately show ?thesis by blast
qed

text \<open>
  C34: The decision on a run, and what it leaves, on every branch.  A run that is answered belongs to a
  registered agent, is stored under its id, and is the last run of the agent from then on; no other
  agent and no other run changes.  It is blocked exactly when the policy is unavailable, the identity
  lacks the permission or an action has a risk the policy denies; otherwise it waits for approvals when
  an action needs one and it is no dry run, and is completed at once in the remaining cases.  A run that
  waits has, for each action that needs an approval, one pending ticket of its own and the proposal
  document the ticket is for (given distinct action ids, and no ticket yet under the keys of the run);
  any other run leaves no ticket and no document.
\<close>

theorem run_decided:
  assumes "submit_run C identity clk uuid run_id ag inp actor mode s = (s', Inr run)"
  shows "\<exists>a ref err rest t. agent_at (cs_registry s) ag = Some a \<and> identity_ref identity = Inr (ref, err) \<and>
    cs_runs s' = (cs_runs s)(run_id \<mapsto> RunFile run rest) \<and>
    (\<forall>k. agent_at (cs_registry s') k = (if k = arec_agent_id a
       then Some (a\<lparr>arec_last_run_id := Some run_id, arec_updated_at := cc_iso C t\<rparr>) else agent_at (cs_registry s) k)) \<and>
    (run_status run = RunPolicyBlocked \<longleftrightarrow> run_blocked C a err) \<and>
    (run_status run = RunApprovalPending \<longleftrightarrow>
       \<not> run_blocked C a err \<and> mode \<noteq> ''dry_run'' \<and> (\<exists>r \<in> risks_of a. approvable r)) \<and>
    (run_status run = RunCompleted \<longleftrightarrow>
       \<not> run_blocked C a err \<and> (mode = ''dry_run'' \<or> (\<forall>r \<in> risks_of a. r = RiskReadOnly))) \<and>
    (if run_status run = RunApprovalPending
     then db_inv (cs_approvals s) \<and> distinct (map dact_action_id (spec_declared_actions (arec_spec a))) \<and>
          run_tickets_fresh run_id a (cs_approvals s) \<longrightarrow>
            distinct (run_approval_ids run) \<and>
            list_all2 (asked_for C run_id ag s') (filter (\<lambda>d. approvable (dact_risk_class d)) (spec_declared_actions (arec_spec a)))
              (run_approval_ids run)
     else run_approval_ids run = [] \<and> cs_docs s' = cs_docs s \<and> cs_approvals s' = cs_approvals s)"
proof -
  obtain a ref err t blocking s1 v b where a: "agent_at (cs_registry s) ag = Some a" "identity_ref identity = Inr (ref, err)"
    and b: "blocking = psim_blocking_reasons (simulate_agent C (arec_spec a)) @ (case err of None \<Rightarrow> [] | Some code \<Rightarrow> [code])"
    and v: "run_verdict C (\<lambda>n. clk (Suc n)) uuid run_id ag (run_input_hash_of (cc_hash C) ag inp) mode blocking
       (simulate_agent C (arec_spec a)) s = (s1, Inr v)"
    and run: "run = submitted_run C t run_id ag actor ref (run_input_hash_of (cc_hash C) ag inp) (cp_policy_hash C) blocking v"
    and docs: "cs_docs s' = cs_docs s1" "cs_approvals s' = cs_approvals s1"
    and runs: "cs_runs s' = (cs_runs s1)(run_id \<mapsto> RunFile run (run_fields C t (arec_spec a) (simulate_agent C (arec_spec a))))"
    and upd: "update_record (cc_iso C t) (a\<lparr>arec_last_run_id := Some run_id, arec_updated_at := cc_iso C t\<rparr>) (cs_registry s1)
       = (cs_registry s', Inr b)"
    by (rule submit_run_Inr [OF assms])
  note bi = blocking_iff [of C a err, folded b]
  have status: "run_status run = fst v" "run_approval_ids run = fst (snd v)" by (simp_all add: run)
  have same: "cs_registry s1 = cs_registry s" "cs_runs s1 = cs_runs s"
    using v by (auto simp: run_verdict_def split: if_splits prod.splits sum.splits dest!: open_approvals_same)
  have agents: "\<forall>k. agent_at (cs_registry s') k = (if k = arec_agent_id a
       then Some (a\<lparr>arec_last_run_id := Some run_id, arec_updated_at := cc_iso C t\<rparr>) else agent_at (cs_registry s) k)"
    using update_record_Inr [OF upd] by (simp add: same(1))
  have tickets: "run_status run = RunApprovalPending \<and> db_inv (cs_approvals s) \<and>
      distinct (map dact_action_id (spec_declared_actions (arec_spec a))) \<and> run_tickets_fresh run_id a (cs_approvals s) \<longrightarrow>
        distinct (run_approval_ids run) \<and>
        list_all2 (asked_for C run_id ag s') (filter (\<lambda>d. approvable (dact_risk_class d)) (spec_declared_actions (arec_spec a)))
          (run_approval_ids run)"
    using asked_for_all [OF assms _ _ a(1)] by blast
  have rest: "(run_status run = RunPolicyBlocked \<longleftrightarrow> run_blocked C a err) \<and>
    (run_status run = RunApprovalPending \<longleftrightarrow>
       \<not> run_blocked C a err \<and> mode \<noteq> ''dry_run'' \<and> (\<exists>r \<in> risks_of a. approvable r)) \<and>
    (run_status run = RunCompleted \<longleftrightarrow>
       \<not> run_blocked C a err \<and> (mode = ''dry_run'' \<or> (\<forall>r \<in> risks_of a. r = RiskReadOnly))) \<and>
    (run_status run \<noteq> RunApprovalPending \<longrightarrow> run_approval_ids run = [] \<and> s1 = s)"
  proof (cases "blocking = []")
    case True
    then have free: "\<not> run_blocked C a err" using bi by simp
    then have pol: "cp_policy_hash C \<noteq> ''unavailable''" and risks: "\<forall>r \<in> risks_of a. r = RiskReadOnly \<or> approvable r"
      by (auto simp: run_blocked_def)
    note none = no_approval_decisions [OF pol, of a]
    have ro: "\<not> approvable RiskReadOnly" by (simp add: approvable_def)
    from v [unfolded True] show ?thesis
      by (cases rule: run_verdict_free) (use status free none risks ro in auto)
  next
    case False
    then show ?thesis using run_verdict_blocked [OF False v] status bi by auto
  qed
  have left: "if run_status run = RunApprovalPending
     then db_inv (cs_approvals s) \<and> distinct (map dact_action_id (spec_declared_actions (arec_spec a))) \<and>
          run_tickets_fresh run_id a (cs_approvals s) \<longrightarrow>
            distinct (run_approval_ids run) \<and>
            list_all2 (asked_for C run_id ag s') (filter (\<lambda>d. approvable (dact_risk_class d)) (spec_declared_actions (arec_spec a)))
              (run_approval_ids run)
     else run_approval_ids run = [] \<and> cs_docs s' = cs_docs s \<and> cs_approvals s' = cs_approvals s"
  proof (cases "run_status run = RunApprovalPending")
    case False
    then have "run_approval_ids run = []" "s1 = s" using rest by blast+
    then show ?thesis using False docs by simp
  qed (use tickets in simp)
  have "cs_runs s' = (cs_runs s)(run_id \<mapsto> RunFile run (run_fields C t (arec_spec a) (simulate_agent C (arec_spec a))))"
    using runs same(2) by simp
  then show ?thesis
    by (intro exI conjI) (rule a | assumption | rule agents rest [THEN conjunct1] rest [THEN conjunct2, THEN conjunct1]
        rest [THEN conjunct2, THEN conjunct2, THEN conjunct1] left)+
qed

lemma put_doc_registry: "put_doc ref d (s\<lparr>cs_registry := f\<rparr>) = (put_doc ref d s)\<lparr>cs_registry := f\<rparr>"
  by (simp add: put_doc_def)

lemma open_approvals_registry:
  "open_approvals C clk uuid run ag ih n ds (s\<lparr>cs_registry := f\<rparr>) =
     (case open_approvals C clk uuid run ag ih n ds s of (s', r) \<Rightarrow> (s'\<lparr>cs_registry := f\<rparr>, r))"
proof (induction ds arbitrary: n s)
  case (Cons d ds)
  have swap: "s\<lparr>cs_registry := f, cs_approvals := db\<rparr> = s\<lparr>cs_approvals := db\<rparr>\<lparr>cs_registry := f\<rparr>" for s db by simp
  show ?case
    by (simp add: put_doc_registry Let_def Cons.IH swap del: control_state.update_convs split: prod.split sum.split)
qed simp

lemma run_verdict_registry:
  "run_verdict C clk uuid run ag ih mode blocking sim (s\<lparr>cs_registry := f\<rparr>) =
     (case run_verdict C clk uuid run ag ih mode blocking sim s of (s', r) \<Rightarrow> (s'\<lparr>cs_registry := f\<rparr>, r))"
  by (auto simp: run_verdict_def open_approvals_registry split: prod.splits sum.splits)

text \<open>
  The registry's status of the agent plays no part: a disabled agent's run is decided like any other.
\<close>

lemma disabled_agent_runs:
  assumes "submit_run C identity clk uuid run_id ag inp actor mode s = (s', Inr run)" "agent_at (cs_registry s) ag = Some a"
    and "agent_at f ag = Some (disabled now reason a)" "registry_inv H f"
  shows "snd (submit_run C identity clk uuid run_id ag inp actor mode (s\<lparr>cs_registry := f\<rparr>)) = Inr run"
proof -
  obtain b ref err t blocking s1 v where b: "agent_at (cs_registry s) ag = Some b" and i: "identity_ref identity = Inr (ref, err)"
    and bl: "blocking = psim_blocking_reasons (simulate_agent C (arec_spec b)) @ (case err of None \<Rightarrow> [] | Some code \<Rightarrow> [code])"
    and v: "run_verdict C (\<lambda>n. clk (Suc n)) uuid run_id ag (run_input_hash_of (cc_hash C) ag inp) mode blocking
       (simulate_agent C (arec_spec b)) s = (s1, Inr v)"
    using submit_run_Inr [OF assms(1)] by metis
  have ab: "b = a" using b assms(2) by simp
  let ?d = "disabled now reason a"
  have spec: "arec_spec ?d = arec_spec a" by (simp add: disabled_def)
  have g: "get_agent x ag f = (f, Inr ?d)" for x using assms(3) by (simp add: get_agent_Inr)
  have g0: "get_agent x ag (cs_registry s) = (cs_registry s, Inr a)" for x using assms(2) by (simp add: get_agent_Inr)
  have v2: "run_verdict C (\<lambda>n. clk (Suc n)) uuid run_id ag (run_input_hash_of (cc_hash C) ag inp) mode blocking
       (simulate_agent C (arec_spec a)) (s\<lparr>cs_registry := f\<rparr>) = (s1\<lparr>cs_registry := f\<rparr>, Inr v)"
    using v by (simp add: run_verdict_registry ab)
  have ok: "record_ok H ag ?d" by (rule registry_invD [OF assms(4,3)])
  have u: "\<exists>f' y. update_record x (?d\<lparr>arec_last_run_id := l, arec_updated_at := x\<rparr>) f = (f', Inr y)" for x l
  proof -
    have "record_ok H ag (?d\<lparr>arec_last_run_id := l, arec_updated_at := x\<rparr>)" using ok by (simp add: record_ok_def)
    moreover have "same_agent ?d (?d\<lparr>arec_last_run_id := l, arec_updated_at := x\<rparr>)" by (simp add: same_agent_def)
    ultimately show ?thesis using update_record_run(2) [OF assms(3)] by blast
  qed
  define n where "n = clk (Suc (length (spec_declared_actions (arec_spec a))))"
  define r where "r = submitted_run C n run_id ag actor ref (run_input_hash_of (cc_hash C) ag inp)
    (psim_policy_hash (simulate_agent C (arec_spec a))) blocking v"
  have same: "s\<lparr>cs_registry := cs_registry s\<rparr> = s" by simp
  have run: "run = r"
    using assms(1) v unfolding submit_run_def g0 bl ab
    by (auto simp: i same Let_def r_def n_def bl ab split: prod.splits sum.splits)
  obtain f' y where f': "update_record (cc_iso C n) (?d\<lparr>arec_last_run_id := Some run_id, arec_updated_at := cc_iso C n\<rparr>) f = (f', Inr y)"
    using u by blast
  have bl2: "psim_blocking_reasons (simulate_agent C (arec_spec a)) @ (case err of None \<Rightarrow> [] | Some code \<Rightarrow> [code]) = blocking"
    using bl ab by simp
  show ?thesis
    unfolding submit_run_def by (simp add: g i Let_def spec bl2 v2 n_def [symmetric] f' run r_def)
qed

lemma run_proposal_fields:
  "dict_get (canonical_dict (run_proposal run ag ih d)) ''run_id'' = PStr run"
  "dict_get (canonical_dict (run_proposal run ag ih d)) ''agent_id'' = PStr ag"
  "dict_get (canonical_dict (run_proposal run ag ih d)) ''action_id'' = PStr (pdec_action_id d)"
proof -
  have "wf_dict (run_proposal run ag ih d)" by (simp add: run_proposal_def wf_dict_def)
  note get = map_of_canonical_dict [OF this]
  show "dict_get (canonical_dict (run_proposal run ag ih d)) ''run_id'' = PStr run"
    "dict_get (canonical_dict (run_proposal run ag ih d)) ''agent_id'' = PStr ag"
    "dict_get (canonical_dict (run_proposal run ag ih d)) ''action_id'' = PStr (pdec_action_id d)"
    unfolding dict_get_def get by (simp_all add: run_proposal_def)
qed

lemma run_preflight:
  assumes "run_doc run ag ih d docs" "r_policy_hash r = pdec_policy_hash d" "inside (proposal_ref_of run (pdec_action_id d))"
  shows "control_plane_preflight (cc_hash C) inside None docs (row_to_ticket H r) (run_snapshot C run ag ih d) = (docs, Inr (True, ''OK''))"
proof -
  have read: "read_json inside docs (proposal_ref_of run (pdec_action_id d)) = (docs, Inr (PDict (canonical_dict (run_proposal run ag ih d))))"
    using assms(1,3) by (simp add: read_json_def run_doc_def canonicalize_PDict del: canonicalize_payload.simps)
  have hash: "canonical_json_hash (cc_hash C) (PDict (canonical_dict (run_proposal run ag ih d))) = canonical_json_hash (cc_hash C) (PDict (run_proposal run ag ih d))"
    using canonical_hash_idem [of "cc_hash C" "PDict (run_proposal run ag ih d)"] unfolding canonicalize_PDict .
  show ?thesis
    using assms(2) by (simp add: control_plane_preflight_def run_snapshot_def read hash run_proposal_fields)
qed

section \<open>A completed run was executed\<close>

lemma get_status_completed:
  assumes "get_status C inside t run_id s = (s', Inr run')" "run_status run' = RunCompleted"
    and "cs_runs s run_id = Some (RunFile run rest)" "run_status run = RunApprovalPending"
  shows "run_approval_ids run \<noteq> []" "list_all (ticket_executed C (cs_approvals s)) (run_approval_ids run)"
proof -
  have "run_approval_ids run \<noteq> [] \<and> list_all (ticket_executed C (cs_approvals s)) (run_approval_ids run)"
  proof (rule ccontr)
    assume "\<not> ?thesis"
    then have "run' = run" using assms(1,3,4) by (auto simp: get_status_def split: if_splits)
    then show False using assms(2,4) by simp
  qed
  then show "run_approval_ids run \<noteq> []" "list_all (ticket_executed C (cs_approvals s)) (run_approval_ids run)" by simp_all
qed

lemma ticket_executed_row:
  assumes "db_inv db"
  shows "ticket_executed C db k \<longleftrightarrow>
     (\<exists>r. row_of k db = Some r \<and> r_workspace_id r = cc_default_workspace_id C \<and> py_strip (cc_default_workspace_id C) \<noteq> [] \<and>
          r_status r = Executed)"
proof (cases "get (cc_hash C) db k (Some (cc_default_workspace_id C))")
  case None
  then show ?thesis using get_None [OF assms, THEN iffD1, OF None] unfolding ticket_executed_def None by auto
next
  case (Some tk)
  then obtain r where "row_of k db = Some r" "r_workspace_id r = cc_default_workspace_id C"
      "py_strip (cc_default_workspace_id C) \<noteq> []" "tk = row_to_ticket (cc_hash C) r"
    using get_Some [OF assms] by blast
  then show ?thesis using Some by (simp add: ticket_executed_def)
qed

text \<open>
  C35: A run that waited for approvals is completed only when every action that needed one was executed.
  Whatever the approval store went through since, when \<open>get_status\<close> reports the run as completed, each
  action of the agent that needs an approval has a ticket of its own for this run and agent, for the
  very proposal the run stored, and that ticket is executed; it was executed once, from an approval
  (see the properties of execution).
\<close>

theorem completed_run_was_executed:
  assumes "submit_run C identity clk uuid run_id ag inp actor mode s = (s1, Inr run)" "run_status run = RunApprovalPending"
    and "db_inv (cs_approvals s)" "agent_at (cs_registry s) ag = Some a"
    and "distinct (map dact_action_id (spec_declared_actions (arec_spec a)))" "run_tickets_fresh run_id a (cs_approvals s)"
    and "cs_runs s2 run_id = cs_runs s1 run_id" "store_step\<^sup>*\<^sup>* (cs_approvals s1) (cs_approvals s2)"
    and "get_status C inside t run_id s2 = (s3, Inr run')" "run_status run' = RunCompleted"
  shows "\<forall>d \<in> set (spec_declared_actions (arec_spec a)). approvable (dact_risk_class d) \<longrightarrow>
    (\<exists>k r p. k \<in> set (run_approval_ids run) \<and> row_of k (cs_approvals s2) = Some r \<and> r_status r = Executed \<and>
       r_run_id r = run_id \<and> r_target_ref r = ag @ '':'' @ dact_action_id d \<and>
       cs_docs s1 (proposal_ref_of run_id (dact_action_id d)) = Some (Document p) \<and>
       r_action_hash r = canonical_json_hash (cc_hash C) p)"
proof (intro ballI impI)
  fix e assume e: "e \<in> set (spec_declared_actions (arec_spec a))" "approvable (dact_risk_class e)"
  let ?ih = "run_input_hash_of (cc_hash C) ag inp"
  obtain ds where nonempty: "ds \<noteq> []"
    and ds: "ds = approval_decisions (simulate_agent C (arec_spec a))" "cp_policy_hash C \<noteq> ''unavailable''"
    and rows: "list_all2 (\<lambda>d k. (\<exists>r. row_of k (cs_approvals s1) = Some r \<and> run_row C (\<lambda>n. clk (Suc n)) run_id ag ?ih d r) \<and>
        run_doc run_id ag ?ih d (cs_docs s1)) ds (run_approval_ids run)"
    and bound: "py_strip (cc_default_workspace_id C) \<notin> {[], legacy_unbound_workspace}" and inv: "db_inv (cs_approvals s1)"
    by (rule run_tickets [OF assms(1-6)])
  obtain rest where "cs_runs s1 run_id = Some (RunFile run rest)" using submit_run_stored [OF assms(1)] by blast
  then have stored: "cs_runs s2 run_id = Some (RunFile run rest)" using assms(7) by simp
  note done_ = get_status_completed [OF assms(9,10) stored assms(2)]
  have inv2: "db_inv (cs_approvals s2)" by (rule db_inv_run [OF assms(8) inv])
  let ?d = "decision_for_risk (dact_action_id e) (dact_phase e) (dact_risk_class e) (cp_policy_hash C)"
  have "?d \<in> set ds" using e by (auto simp: ds(1) approval_decisions_eq [OF ds(2)])
  then obtain k r where k: "k \<in> set (run_approval_ids run)" "row_of k (cs_approvals s1) = Some r"
      "run_row C (\<lambda>n. clk (Suc n)) run_id ag ?ih ?d r" "run_doc run_id ag ?ih ?d (cs_docs s1)"
    using list_all2_member [OF rows] by blast
  obtain r' where r': "row_of k (cs_approvals s2) = Some r'" "row_later r r'"
    by (rule later_row [OF inv assms(8) k(2)])
  have "r_status r' = Executed"
    using done_(2) k(1) ticket_executed_row [OF inv2, of C k] r'(1) by (auto simp: list_all_iff)
  moreover have "r_run_id r' = r_run_id r" "r_target_ref r' = r_target_ref r" "r_action_hash r' = r_action_hash r"
    using r'(2) by (simp_all add: row_later_def fixed_columns_def)
  ultimately show "\<exists>k r p. k \<in> set (run_approval_ids run) \<and> row_of k (cs_approvals s2) = Some r \<and> r_status r = Executed \<and>
       r_run_id r = run_id \<and> r_target_ref r = ag @ '':'' @ dact_action_id e \<and>
       cs_docs s1 (proposal_ref_of run_id (dact_action_id e)) = Some (Document p) \<and>
       r_action_hash r = canonical_json_hash (cc_hash C) p"
    using k r'(1) by (auto simp: run_row_def run_doc_def simp del: canonicalize_payload.simps)
qed

section \<open>A concrete run\<close>

lemma demo_run_facts:
  "db_inv (cs_approvals demo_control)" "agent_at (cs_registry demo_control) ''agent'' = Some demo_record"
  "distinct (map dact_action_id (spec_declared_actions (arec_spec demo_record)))"
  "run_tickets_fresh ''run'' demo_record (cs_approvals demo_control)"
  by (simp_all add: demo_control_def empty_db_def db_inv_def keys_distinct_def agent_at_def demo_agent demo_spec_def
      demo_declared_def run_tickets_fresh_def)

lemma demo_row_columns:
  "r_approval_id demo_row = ''a1''" "r_workspace_id demo_row = ''ws''" "r_status demo_row = Pending" "r_version demo_row = 0"
  by (simp_all add: demo_row_def insert_row_def new_ticket_def)

definition demo_executed_db :: "approval_db \<Rightarrow> approval_db" where
  "demo_executed_db db = exec_stmt (SMarkExecuted ''a1'' ''ws'' 1 1 ''op'') (exec_stmt (SDecide ''a1'' ''ws'' 0 1 True ''op'' None) db)"

lemma demo_executed_run: "store_step\<^sup>*\<^sup>* db (demo_executed_db db)"
  unfolding demo_executed_db_def by (meson run_exec rtranclp_trans)

lemma demo_executed_row:
  "\<exists>r. row_of ''a1'' (demo_executed_db (empty_db\<lparr>approvals := [demo_row]\<rparr>)) = Some r \<and> r_workspace_id r = ''ws'' \<and> r_status r = Executed"
  by (simp add: demo_executed_db_def row_of_exec demo_row_columns guard_defs decide_effect_def mark_executed_effect_def)

theorem run_decided_witness:
  "\<not> run_blocked demo_config demo_record None \<and> (\<exists>r \<in> risks_of demo_record. approvable r)"
proof -
  obtain s1 run where run: "demo_submitted = (s1, Inr run)" "run_status run = RunApprovalPending"
    by (rule demo_submitted_run)
  show ?thesis
    using run_decided [OF run(1) [unfolded demo_submitted_def]] run(2) demo_run_facts(2) by (auto simp: identity_ref_def)
qed

theorem completed_run_was_executed_witness:
  "\<exists>k r. row_of k (demo_executed_db (empty_db\<lparr>approvals := [demo_row]\<rparr>)) = Some r \<and> r_status r = Executed \<and> r_target_ref r = ''agent:edit''"
proof -
  let ?db = "demo_executed_db (empty_db\<lparr>approvals := [demo_row]\<rparr>)"
  obtain s1 run where run: "demo_submitted = (s1, Inr run)" "run_status run = RunApprovalPending" "run_approval_ids run = [''a1'']"
    and db: "cs_approvals s1 = empty_db\<lparr>approvals := [demo_row]\<rparr>" and "\<exists>rest. cs_runs s1 ''run'' = Some (RunFile run rest)"
    by (rule demo_submitted_run)
  then obtain rest where stored: "cs_runs s1 ''run'' = Some (RunFile run rest)" by blast
  let ?s2 = "s1\<lparr>cs_approvals := ?db\<rparr>"
  have inv0: "db_inv (cs_approvals s1)"
    unfolding db by (simp add: db_inv_def keys_distinct_def demo_row_def insert_row_def new_ticket_def shape_defs)
  have inv: "db_inv ?db" by (rule db_inv_run [OF demo_executed_run inv0 [unfolded db]])
  have "ticket_executed demo_config ?db ''a1''"
    using demo_executed_row demo_texts by (simp add: ticket_executed_row [OF inv])
  then obtain s3 run' where done_: "get_status demo_config (\<lambda>_. True) 5 ''run'' ?s2 = (s3, Inr run')" "run_status run' = RunCompleted"
    using stored run(2,3) by (simp add: get_status_def Let_def)
  have edit: "demo_declared ''edit'' RiskMutation \<in> set (spec_declared_actions (arec_spec demo_record))"
    "approvable (dact_risk_class (demo_declared ''edit'' RiskMutation))" "dact_action_id (demo_declared ''edit'' RiskMutation) = ''edit''"
    by (simp_all add: demo_agent demo_spec_def demo_declared_def approvable_def)
  have "store_step\<^sup>*\<^sup>* (cs_approvals s1) (cs_approvals ?s2)" using demo_executed_run by (simp add: db)
  from completed_run_was_executed [OF run(1) [unfolded demo_submitted_def] run(2) demo_run_facts _ this done_,
      THEN bspec, OF _ edit(1), THEN mp, OF _ edit(2)]
  show ?thesis by (auto simp: edit(3))
qed

end
