(* ===== verification/Execution_Quiet.thy ===== *)
theory Execution_Quiet imports Approval_Execution Approval_Facts begin

text \<open>
  What deciding and executing a ticket do when no other connection writes and nothing expires: the
  operation succeeds, the row moves on, and the other rows stay.
\<close>

abbreviation quiet :: "nat \<Rightarrow> approval_db \<Rightarrow> approval_db" where
  "quiet \<equiv> \<lambda>i db. db"

definition others_same :: "time \<Rightarrow> string \<Rightarrow> approval_db \<Rightarrow> approval_db \<Rightarrow> bool" where
  "others_same now k db db' \<longleftrightarrow>
     (\<forall>k' r. k' \<noteq> k \<longrightarrow> row_of k' db = Some r \<longrightarrow> \<not> expire_guard now r \<longrightarrow> row_of k' db' = Some r)"

lemma others_same_trans: "others_same now k a b \<Longrightarrow> others_same now k b c \<Longrightarrow> others_same now k a c"
  unfolding others_same_def by blast

lemma live_after_expiry: "row_of k db = Some r \<Longrightarrow> \<not> expire_guard now r \<Longrightarrow> row_of k (expire_pending now db) = Some r"
  by (simp add: expire_pending_exec row_of_exec)

lemma others_same_expiry: "others_same now k db (expire_pending now db)"
  by (simp add: others_same_def live_after_expiry)

lemma others_same_target: "stmt_target st = Some (k, w) \<Longrightarrow> others_same now k db (exec_stmt st db)"
  by (simp add: others_same_def row_of_target)

lemma target_applied:
  assumes "db_inv db" "stmt_target st = Some (k, w)" "row_of k db = Some r" "stmt_guard st r"
  shows "run_update (stmt_guard st) (stmt_effect st) db = (exec_stmt st db, 1)"
    "row_of k (exec_stmt st db) = Some (stmt_effect st r)" "db_inv (exec_stmt st db)"
proof -
  have "upd_count st db = 1" using upd_count_target [OF assms(1,2)] assms(3,4) by simp
  then show "run_update (stmt_guard st) (stmt_effect st) db = (exec_stmt st db, 1)"
    by (simp add: run_update_exec upd_count_def)
qed (use assms(3,4) in \<open>simp_all add: row_of_target [OF assms(2)] db_inv_update [OF assms(1)]\<close>)

lemma quiet_decide:
  assumes "db_inv db" "row_of k db = Some r" "r_workspace_id r = w" "py_strip w \<noteq> []" "r_status r = Pending"
    and "now < r_expires_at r"
  obtains db' tk where "decide H (\<lambda>_. now) quiet k (Some w) True p why db = (db', (Some tk, None))"
    "row_of k db' = Some (decide_effect now True p why r)" "db_inv db'" "others_same now k db db'"
proof -
  define db1 where "db1 = expire_pending now db"
  have inv: "db_inv db1" unfolding db1_def by (rule db_inv_expire [OF assms(1)])
  have row: "row_of k db1 = Some r" unfolding db1_def
    by (rule live_after_expiry [OF assms(2)]) (use assms(6) in \<open>simp add: expire_guard_def\<close>)
  let ?st = "SDecide k w (r_version r) now True p why"
  have guard: "stmt_guard ?st r" using assms(3,5) lookup_key_Some [OF assms(2)] by (simp add: guard_defs)
  have st: "stmt_target ?st = Some (k, w)" by simp
  note app = target_applied [OF inv st row guard]
  have g1: "get H db1 k (Some w) = Some (row_to_ticket H r)" using get_Some [OF inv] row assms(3,4) by blast
  have g2: "get H (exec_stmt ?st db1) k (Some w) = Some (row_to_ticket H (stmt_effect ?st r))"
    using get_Some [OF app(3)] app(2) assms(3,4) by (auto simp: decide_effect_def)
  have "decide H (\<lambda>_. now) quiet k (Some w) True p why db = (exec_stmt ?st db1, (Some (row_to_ticket H (stmt_effect ?st r)), None))"
    using g1 g2 app(1) assms(3,5) by (simp add: decide_def db1_def [symmetric])
  moreover have "others_same now k db (exec_stmt ?st db1)"
    unfolding db1_def by (rule others_same_trans [OF others_same_expiry others_same_target [OF st]])
  ultimately show ?thesis using that app(2,3) by simp
qed

lemma quiet_claim:
  assumes "db_inv db" "row_of k db = Some r" "r_workspace_id r = w" "py_strip w \<noteq> []" "r_status r = Approved"
    and "now < r_expires_at r"
  obtains db' tk where "claim_execution H (\<lambda>_. now) quiet k w att p db = (db', (Some tk, None))"
    "row_of k db' = Some (claim_execution_effect now att p r)" "db_inv db'" "others_same now k db db'"
proof -
  define db1 where "db1 = expire_pending now db"
  have inv: "db_inv db1" unfolding db1_def by (rule db_inv_expire [OF assms(1)])
  have row: "row_of k db1 = Some r" unfolding db1_def
    by (rule live_after_expiry [OF assms(2)]) (use assms(6) in \<open>simp add: expire_guard_def\<close>)
  let ?st = "SClaimExecution k w (r_version r) now att p"
  have guard: "stmt_guard ?st r" using assms(3,5) lookup_key_Some [OF assms(2)] by (simp add: guard_defs)
  have st: "stmt_target ?st = Some (k, w)" by simp
  note app = target_applied [OF inv st row guard]
  have sel: "select_row k w db1 = Some r" using row assms(3) by (simp add: select_row_Some [OF inv])
  have g2: "get H (exec_stmt ?st db1) k (Some w) = Some (row_to_ticket H (stmt_effect ?st r))"
    using get_Some [OF app(3)] app(2) assms(3,4) by (auto simp: claim_execution_effect_def)
  have "claim_execution H (\<lambda>_. now) quiet k w att p db = (exec_stmt ?st db1, (Some (row_to_ticket H (stmt_effect ?st r)), None))"
    using sel g2 app(1) assms(5) by (simp add: claim_execution_def db1_def [symmetric])
  moreover have "others_same now k db (exec_stmt ?st db1)"
    unfolding db1_def by (rule others_same_trans [OF others_same_expiry others_same_target [OF st]])
  ultimately show ?thesis using that app(2,3) by simp
qed

lemma quiet_finalize:
  assumes "db_inv db" "row_of k db = Some r" "r_workspace_id r = w" "r_status r = Executing" "r_execution_attempt_id r = Some att"
  obtains db' res where "finalize_execution_success H now quiet k w att h db = (db', (res, None))"
    "row_of k db' = Some (finalize_effect now Executed ExecExecuted (Some h) None r)" "db_inv db'" "others_same now k db db'"
proof -
  let ?st = "SFinalizeSuccess k w att now h"
  have guard: "stmt_guard ?st r" using assms(3-5) lookup_key_Some [OF assms(2)] by (simp add: guard_defs)
  have st: "stmt_target ?st = Some (k, w)" by simp
  note app = target_applied [OF assms(1) st assms(2) guard]
  have "finalize_execution_success H now quiet k w att h db = (exec_stmt ?st db, (get H (exec_stmt ?st db) k (Some w), None))"
    using app(1) by (simp add: finalize_execution_success_def finalize_execution_def)
  then show ?thesis using that app(2,3) others_same_target [OF st] by simp
qed

text \<open>The service carries out an approved ticket whose preflight and execution succeed.\<close>

lemma quiet_execute:
  assumes "db_inv db" "row_of k db = Some r" "r_workspace_id r = w" "py_strip w \<noteq> []" "r_status r = Approved"
    and "now < r_expires_at r" "parse_approval_snapshot (r_snapshot_json r) = Some sn"
    and "compute_approval_request_hash H sn = r_request_hash r" "executor_for es (snapshot_kind sn) = Some ex"
    and "ex_preflight ex wd (row_to_ticket H r) sn = (wd1, Inr (True, code))"
    and "ex_execute ex wd1 (row_to_ticket H r) sn att = (wd2, Inr outcome)"
  obtains db' res r' where "service_execute H (\<lambda>_. now) quiet att es k w p (db, wd) = ((db', wd2), Inr res)" "xr_ok res"
    "row_of k db' = Some r'" "r_status r' = Executed" "r_workspace_id r' = w" "db_inv db'" "others_same now k db db'"
proof -
  have g: "get H db k (Some w) = Some (row_to_ticket H r)" using get_Some [OF assms(1)] assms(2-4) by blast
  obtain db1 tk where c: "claim_execution H (\<lambda>_. now) quiet k w att p db = (db1, (Some tk, None))"
      "row_of k db1 = Some (claim_execution_effect now att p r)" "db_inv db1" "others_same now k db db1"
    by (rule quiet_claim [OF assms(1-6)])
  obtain db2 x where f: "finalize_execution_success H now quiet k w att (oc_result_hash outcome) db1 = (db2, (x, None))"
      "row_of k db2 = Some (finalize_effect now Executed ExecExecuted (Some (oc_result_hash outcome)) None (claim_execution_effect now att p r))"
      "db_inv db2" "others_same now k db1 db2"
    by (rule quiet_finalize [OF c(3,2)]) (simp_all add: claim_execution_effect_def assms(3))
  have "admit H (\<lambda>_. now) quiet att es k w p (db, wd) = ((db1, wd1), Admitted (row_to_ticket H r) sn ex)"
    using assms(7-10) c(1) by (simp add: admit_def g)
  then have "service_execute H (\<lambda>_. now) quiet att es k w p (db, wd) =
      ((db2, wd2), Inr \<lparr>xr_ok = True, xr_approval_id = k, xr_attempt_id = Some att, xr_reason_code = ''OK'',
         xr_result = Some (oc_result outcome)\<rparr>)"
    using assms(11) f(1) by (simp add: service_execute_def perform_def)
  then show ?thesis
    using that f(2,3) others_same_trans [OF c(4) f(4)] assms(3) by (simp add: finalize_effect_def claim_execution_effect_def)
qed

end
