(* ===== verification/Run_Pipeline.thy ===== *)
theory Run_Pipeline imports Coordinator_Props Execution_Quiet begin

text \<open>
  The life of a run across the coordinator, the approval store and the execution service: once its
  tickets are approved and executed, one after the other, the run is completed.
\<close>

text \<open>An operator approves the tickets and has them executed, as \<open>imperaos operator approval\<close> does.\<close>

fun carry_out ::
  "(string \<Rightarrow> string) \<Rightarrow> (string \<Rightarrow> bool) \<Rightarrow> time \<Rightarrow> string \<Rightarrow> (nat \<Rightarrow> string) \<Rightarrow> string \<Rightarrow> string \<Rightarrow> string \<Rightarrow> nat \<Rightarrow> string list
     \<Rightarrow> approval_db \<times> documents \<Rightarrow> approval_db \<times> documents" where
  "carry_out H inside now stamp attempt approver operator w n [] s = s"
| "carry_out H inside now stamp attempt approver operator w n (k # ks) s =
    (let db1 = fst (decide H (\<lambda>_. now) quiet k (Some w) True approver None (fst s));
         s2 = fst (service_execute H (\<lambda>_. now) quiet (attempt n) (command_executors H inside None stamp) k w operator
                     (db1, snd s))
     in carry_out H inside now stamp attempt approver operator w (Suc n) ks s2)"

lemma run_ticket_executes:
  assumes "db_inv db" "row_of k db = Some r" "run_row C clk run ag ih d r" "run_doc run ag ih d docs"
    and "py_strip (cc_default_workspace_id C) \<noteq> []" "inside (proposal_ref_of run (pdec_action_id d))"
    and "\<forall>n. now < clk n + cc_approval_ttl_seconds C * 1000000" "w = py_strip (cc_default_workspace_id C)" "py_strip w = w"
  obtains db1 db2 docs2 res tk r' where
    "decide (cc_hash C) (\<lambda>_. now) quiet k (Some w) True approver None db = (db1, (Some tk, None))"
    "service_execute (cc_hash C) (\<lambda>_. now) quiet att (command_executors (cc_hash C) inside None stamp) k w operator (db1, docs)
       = ((db2, docs2), Inr res)" "xr_ok res"
    "row_of k db2 = Some r'" "r_status r' = Executed" "r_workspace_id r' = w" "db_inv db2" "others_same now k db db2"
    "\<forall>e. run_doc run ag ih e docs \<longrightarrow> run_doc run ag ih e docs2"
proof -
  have row: "r_workspace_id r = w" "r_status r = Pending" "now < r_expires_at r"
    "r_snapshot_json r = canonical_dict (model_dump (run_snapshot C run ag ih d))"
    "r_request_hash r = compute_approval_request_hash (cc_hash C) (run_snapshot C run ag ih d)"
    using assms(3,7,8) by (auto simp: run_row_def)
  have w: "py_strip w \<noteq> []" using assms(5,8,9) by simp
  obtain db1 tk where dec: "decide (cc_hash C) (\<lambda>_. now) quiet k (Some w) True approver None db = (db1, (Some tk, None))"
      "row_of k db1 = Some (decide_effect now True approver None r)" "db_inv db1" "others_same now k db db1"
    by (rule quiet_decide [OF assms(1,2) row(1) w row(2,3)])
  let ?r = "decide_effect now True approver None r" and ?sn = "run_snapshot C run ag ih d"
  let ?ex = "control_plane_executor (cc_hash C) inside None stamp"
  have r: "r_workspace_id ?r = w" "r_status ?r = Approved" "now < r_expires_at ?r"
    "parse_approval_snapshot (r_snapshot_json ?r) = Some ?sn" "compute_approval_request_hash (cc_hash C) ?sn = r_request_hash ?r"
    using row parse_canonical_dump by (simp_all add: decide_effect_def)
  have kind: "snapshot_kind ?sn = ''control_plane_action''" by (simp add: run_snapshot_def)
  have "executor_for (command_executors (cc_hash C) inside None stamp) (snapshot_kind ?sn) = Some ?ex"
    by (simp add: kind executor_for_def command_executors_def control_plane_executor_def external_agent_executor_def
        device_executor_def)
  moreover have "ex_preflight ?ex docs (row_to_ticket (cc_hash C) ?r) ?sn = (docs, Inr (True, ''OK''))"
    using run_preflight [of run ag ih d docs ?r inside C "cc_hash C"] assms(3,4,6)
    by (simp add: control_plane_executor_def run_row_def decide_effect_def)
  moreover obtain v oc where exec: "ex_execute ?ex docs (row_to_ticket (cc_hash C) ?r) ?sn att
      = (docs(''evidence/executions/'' @ att @ ''.json'' \<mapsto> v), Inr oc)"
    using kind by (simp add: control_plane_executor_def control_plane_execute_def Let_def)
  ultimately obtain db2 res r' where s: "service_execute (cc_hash C) (\<lambda>_. now) quiet att
        (command_executors (cc_hash C) inside None stamp) k w operator (db1, docs)
      = ((db2, docs(''evidence/executions/'' @ att @ ''.json'' \<mapsto> v)), Inr res)" "xr_ok res"
      "row_of k db2 = Some r'" "r_status r' = Executed" "r_workspace_id r' = w" "db_inv db2" "others_same now k db1 db2"
    using quiet_execute [OF dec(3,2) r(1) w r(2,3,4,5)] by metis
  have "\<forall>e. run_doc run ag ih e docs \<longrightarrow> run_doc run ag ih e (docs(''evidence/executions/'' @ att @ ''.json'' \<mapsto> v))"
    by (simp add: run_doc_def proposal_ref_of_def)
  then show ?thesis using that [OF dec(1) s(1-6) others_same_trans [OF dec(4) s(7)]] by blast
qed

text \<open>The tickets of a run, one after the other.\<close>

lemma carry_out_executes:
  assumes "list_all2 (\<lambda>d k. (\<exists>r. row_of k db = Some r \<and> run_row C clk run ag ih d r) \<and> run_doc run ag ih d docs) ds ids"
    and "distinct ids" "db_inv db" "py_strip w = w" "w \<noteq> []" "w = cc_default_workspace_id C"
    and "\<forall>ref. inside ref" "\<forall>n. now < clk n + cc_approval_ttl_seconds C * 1000000"
    and "carry_out (cc_hash C) inside now stamp attempt approver operator w n ids (db, docs) = (db', docs')"
  shows "db_inv db' \<and> (\<forall>k \<in> set ids. \<exists>r. row_of k db' = Some r \<and> r_status r = Executed \<and> r_workspace_id r = w) \<and>
    (\<forall>k r. k \<notin> set ids \<longrightarrow> row_of k db = Some r \<longrightarrow> \<not> expire_guard now r \<longrightarrow> row_of k db' = Some r)"
  using assms
proof (induction ids arbitrary: ds n db docs rule: list.induct)
  case (Cons k ks)
  then obtain d es r where ds: "ds = d # es" "row_of k db = Some r" "run_row C clk run ag ih d r" "run_doc run ag ih d docs"
    and rest: "list_all2 (\<lambda>d k. (\<exists>r. row_of k db = Some r \<and> run_row C clk run ag ih d r) \<and> run_doc run ag ih d docs) es ks"
    by (auto simp: list_all2_Cons2)
  have w: "py_strip (cc_default_workspace_id C) \<noteq> []" "w = py_strip (cc_default_workspace_id C)" using Cons.prems(4-6) by auto
  have ref: "inside (proposal_ref_of run (pdec_action_id d))" using Cons.prems(7) by blast
  obtain db1 db2 docs2 res tk r' where step:
    "decide (cc_hash C) (\<lambda>_. now) quiet k (Some w) True approver None db = (db1, (Some tk, None))"
    "service_execute (cc_hash C) (\<lambda>_. now) quiet (attempt n) (command_executors (cc_hash C) inside None stamp) k w operator (db1, docs)
       = ((db2, docs2), Inr res)" "xr_ok res"
    and row: "row_of k db2 = Some r'" "r_status r' = Executed" "r_workspace_id r' = w" and inv: "db_inv db2"
    and same: "others_same now k db db2" and docs: "\<forall>e. run_doc run ag ih e docs \<longrightarrow> run_doc run ag ih e docs2"
    by (rule run_ticket_executes [where inside = inside and att = "attempt n" and approver = approver and stamp = stamp and
          operator = operator, OF Cons.prems(3) ds(2-4) w(1) ref Cons.prems(8) w(2) Cons.prems(4)])
  have live: "\<not> expire_guard now x" if "run_row C clk run ag ih e x" for e x
    using that Cons.prems(8) by (auto simp: run_row_def expire_guard_def not_le)
  have rest2: "list_all2 (\<lambda>d k. (\<exists>r. row_of k db2 = Some r \<and> run_row C clk run ag ih d r) \<and> run_doc run ag ih d docs2) es ks"
  proof (rule list.rel_mono_strong [OF rest])
    fix e j assume "e \<in> set es" "j \<in> set ks" and e: "(\<exists>r. row_of j db = Some r \<and> run_row C clk run ag ih e r) \<and> run_doc run ag ih e docs"
    then have "j \<noteq> k" using Cons.prems(2) by auto
    then show "(\<exists>r. row_of j db2 = Some r \<and> run_row C clk run ag ih e r) \<and> run_doc run ag ih e docs2"
      using e same live docs unfolding others_same_def by blast
  qed
  have more: "carry_out (cc_hash C) inside now stamp attempt approver operator w (Suc n) ks (db2, docs2) = (db', docs')"
    using Cons.prems(9) by (simp add: step)
  note IH = Cons.IH [OF rest2 _ inv Cons.prems(4-8) more]
  have "\<not> expire_guard now r'" using row(2) by (simp add: expire_guard_def)
  then show ?case using IH Cons.prems(2) row same unfolding others_same_def by auto
qed simp

text \<open>
  C36: A run can be carried through.  When a run waits for approvals, the actions of its agent have
  distinct ids and nobody else writes, approving and executing its tickets one after the other, before
  they expire and by an actor who is granted the permission to execute, leaves a run that \<open>get_status\<close>
  reports completed: every ticket the coordinator made passes the service's checks (snapshot, request
  digest, proposal and policy digests), is claimed, executed and finalised.
\<close>

theorem approved_run_completes:
  assumes "submit_run C identity clk uuid run_id ag inp actor mode s = (s1, Inr run)" "run_status run = RunApprovalPending"
    and "db_inv (cs_approvals s)" "agent_at (cs_registry s) ag = Some a"
    and "distinct (map dact_action_id (spec_declared_actions (arec_spec a)))" "run_tickets_fresh run_id a (cs_approvals s)"
    and "py_strip (cc_default_workspace_id C) = cc_default_workspace_id C" "\<forall>ref. inside ref"
    and "\<forall>n. now < clk n + cc_approval_ttl_seconds C * 1000000"
    and "carry_out (cc_hash C) inside now stamp attempt approver operator (cc_default_workspace_id C) 0 (run_approval_ids run)
       (cs_approvals s1, cs_docs s1) = (db, docs)"
  shows "\<exists>run' s3. get_status C inside t run_id (s1\<lparr>cs_approvals := db, cs_docs := docs\<rparr>) = (s3, Inr run') \<and>
    run_status run' = RunCompleted"
proof -
  let ?ih = "run_input_hash_of (cc_hash C) ag inp" and ?w = "cc_default_workspace_id C" and ?ids = "run_approval_ids run"
  obtain ds where ds: "ds \<noteq> []" "ds = approval_decisions (simulate_agent C (arec_spec a))" "cp_policy_hash C \<noteq> ''unavailable''"
    and rows: "list_all2 (\<lambda>d k. (\<exists>r. row_of k (cs_approvals s1) = Some r \<and> run_row C (\<lambda>n. clk (Suc n)) run_id ag ?ih d r) \<and>
        run_doc run_id ag ?ih d (cs_docs s1)) ds ?ids"
    and bound: "py_strip ?w \<notin> {[], legacy_unbound_workspace}" and inv: "db_inv (cs_approvals s1)"
    by (rule run_tickets [OF assms(1-6)])
  have nonempty: "?ids \<noteq> []" using ds(1) rows by auto
  have "distinct (map pdec_action_id ds)"
    using assms(5) by (simp add: ds(2) approval_decisions_eq [OF ds(3)] comp_def distinct_map_filter)
  then have dist: "distinct ?ids" using run_ids_distinct [OF rows] by blast
  have w: "py_strip ?w = ?w" "?w \<noteq> []" "?w = ?w" using assms(7) bound by auto
  have soon: "\<forall>n. now < (\<lambda>n. clk (Suc n)) n + cc_approval_ttl_seconds C * 1000000" using assms(9) by blast
  note done_ = carry_out_executes [OF rows dist inv w assms(8) soon assms(10)]
  have inv2: "db_inv db" using done_ by blast
  have all: "list_all (ticket_executed C db) ?ids"
    using done_ w bound by (auto simp: list_all_iff ticket_executed_row [OF inv2])
  obtain rest where "cs_runs s1 run_id = Some (RunFile run rest)" using submit_run_stored [OF assms(1)] by blast
  then show ?thesis using all nonempty assms(2,8) by (auto simp: get_status_def Let_def)
qed

theorem approved_run_completes_witness:
  "\<exists>s1 run. demo_submitted = (s1, Inr run) \<and>
    (\<exists>run' s3. get_status demo_config (\<lambda>_. True) 5 ''run''
       (s1\<lparr>cs_approvals := fst (carry_out demo_digest (\<lambda>_. True) 1 ''now'' (\<lambda>n. ''t1'') ''ann'' ''op'' ''ws'' 0 [''a1''] (cs_approvals s1, cs_docs s1)),
          cs_docs := snd (carry_out demo_digest (\<lambda>_. True) 1 ''now'' (\<lambda>n. ''t1'') ''ann'' ''op'' ''ws'' 0 [''a1''] (cs_approvals s1, cs_docs s1))\<rparr>)
       = (s3, Inr run') \<and> run_status run' = RunCompleted)"
proof -
  obtain s1 run where run: "demo_submitted = (s1, Inr run)" "run_status run = RunApprovalPending" "run_approval_ids run = [''a1'']"
    by (rule demo_submitted_run)
  have "py_strip (cc_default_workspace_id demo_config) = cc_default_workspace_id demo_config" using demo_texts by simp
  moreover have "\<forall>n. (1::int) < (\<lambda>n. 0) (n::nat) + cc_approval_ttl_seconds demo_config * 1000000" by simp
  moreover have "carry_out (cc_hash demo_config) (\<lambda>_. True) 1 ''now'' (\<lambda>n. ''t1'') ''ann'' ''op'' (cc_default_workspace_id demo_config) 0
      (run_approval_ids run) (cs_approvals s1, cs_docs s1) =
      (fst (carry_out demo_digest (\<lambda>_. True) 1 ''now'' (\<lambda>n. ''t1'') ''ann'' ''op'' ''ws'' 0 [''a1''] (cs_approvals s1, cs_docs s1)),
       snd (carry_out demo_digest (\<lambda>_. True) 1 ''now'' (\<lambda>n. ''t1'') ''ann'' ''op'' ''ws'' 0 [''a1''] (cs_approvals s1, cs_docs s1)))"
    by (simp only: run(3) demo_config_simps prod.collapse)
  ultimately have "\<exists>run' s3. get_status demo_config (\<lambda>_. True) 5 ''run''
       (s1\<lparr>cs_approvals := fst (carry_out demo_digest (\<lambda>_. True) 1 ''now'' (\<lambda>n. ''t1'') ''ann'' ''op'' ''ws'' 0 [''a1''] (cs_approvals s1, cs_docs s1)),
          cs_docs := snd (carry_out demo_digest (\<lambda>_. True) 1 ''now'' (\<lambda>n. ''t1'') ''ann'' ''op'' ''ws'' 0 [''a1''] (cs_approvals s1, cs_docs s1))\<rparr>)
       = (s3, Inr run') \<and> run_status run' = RunCompleted"
    by (intro approved_run_completes [OF run(1) [unfolded demo_submitted_def] run(2) demo_run_facts]) simp_all
  then show ?thesis using run(1) by blast
qed

end
