(* ===== verification/Gateway_Props.thy ===== *)
theory Gateway_Props imports Control_Demo Control_Tickets Registry_Machine Approval_Execution Approval_Facts begin

text \<open>
  What holds of the external gateway: which requests it accepts, what it leaves in the stores, what
  becomes of its tickets, and the idempotency of version 1.1.
\<close>

section \<open>The checks\<close>

text \<open>An agent the gateway serves: registered and external, with an active enrollment.\<close>

definition served :: "control_state \<Rightarrow> string \<Rightarrow> bool" where
  "served s agent_id \<longleftrightarrow> (\<exists>a e. agent_at (cs_registry s) agent_id = Some a \<and> arec_status a = AgentRegistered \<and>
     spec_runtime_kind (arec_spec a) \<in> {ExternalStdio, ExternalHttp} \<and>
     require_active_enrollment (cs_enterprise s) (arec_agent_id a)
       (metadata_string_or_none (spec_metadata (arec_spec a)) ''workspace_id'') = Inr e)"

definition admitted :: "control_state \<Rightarrow> xrequest \<Rightarrow> bool" where
  "admitted s r \<longleftrightarrow> served s (xreq_agent_id r) \<and> redaction_summary_safe (PDict (xreq_redaction_summary r))"

lemma enrollment_error_None:
  "enrollment_error a es = None \<longleftrightarrow>
     (\<exists>e. require_active_enrollment es (arec_agent_id a) (metadata_string_or_none (spec_metadata (arec_spec a)) ''workspace_id'') = Inr e)"
  by (auto simp: enrollment_error_def split: sum.splits)

lemma admit_external_cases:
  obtains (refusal) f x where "admit_external now r s = (s\<lparr>cs_registry := f\<rparr>, Inl x)" "\<not> admitted s r"
      "fst x \<in> {XUnknownAgent, XDenied, XInvalidRequest}" "f = fst (get_agent now (xreq_agent_id r) (cs_registry s))"
  | (passed) a where "admit_external now r s = (s, Inr a)" "admitted s r" "agent_at (cs_registry s) (xreq_agent_id r) = Some a"
proof -
  obtain f g where g: "get_agent now (xreq_agent_id r) (cs_registry s) = (f, g)" by fastforce
  show ?thesis
  proof (cases g)
    case (Inl e)
    then have none: "agent_at (cs_registry s) (xreq_agent_id r) = None"
    proof -
      have "agent_at (cs_registry s) (xreq_agent_id r) \<noteq> Some a" for a
        using get_agent_Inr [of now "xreq_agent_id r" "cs_registry s" "cs_registry s" a] g Inl by auto
      then show ?thesis by (meson not_None_eq)
    qed
    show ?thesis
    proof (rule refusal)
      show "admit_external now r s = (s\<lparr>cs_registry := f\<rparr>, Inl (XUnknownAgent, ''UNKNOWN_AGENT'', [''agent.register'']))"
        by (simp add: admit_external_def g Inl)
      show "\<not> admitted s r" by (simp add: admitted_def served_def none)
    qed (simp_all add: g)
  next
    case (Inr a)
    then have a: "f = cs_registry s" "agent_at (cs_registry s) (xreq_agent_id r) = Some a" using g by (simp_all add: get_agent_Inr)
    have adm: "admitted s r \<longleftrightarrow> arec_status a = AgentRegistered \<and> spec_runtime_kind (arec_spec a) \<in> {ExternalStdio, ExternalHttp} \<and>
        enrollment_error a (cs_enterprise s) = None \<and> redaction_summary_safe (PDict (xreq_redaction_summary r))"
      by (auto simp: admitted_def served_def a(2) enrollment_error_None)
    define safe where "safe = redaction_summary_safe (PDict (xreq_redaction_summary r))"
    define y :: "refusal + agent_record" where "y = (if arec_status a \<noteq> AgentRegistered
          then Inl (XDenied, ''AGENT_DISABLED'', [''agent.show'', ''agent.enable''])
          else if spec_runtime_kind (arec_spec a) \<notin> {ExternalStdio, ExternalHttp}
          then Inl (XDenied, ''AGENT_RUNTIME_NOT_EXTERNAL'', [''agent.register_external''])
          else case enrollment_error a (cs_enterprise s) of
                 Some code \<Rightarrow> Inl (XDenied, code, [''enterprise enrollment approve''])
               | None \<Rightarrow> if \<not> safe then Inl (XInvalidRequest, ''PAYLOAD_REDACTION_UNSAFE'', [''redact.payload'', ''retry'']) else Inr a)"
    have ae: "admit_external now r s = (s\<lparr>cs_registry := f\<rparr>, y)"
      unfolding admit_external_def g Inr y_def safe_def by (simp only: prod.case sum.case)
    note adm = adm [folded safe_def]
    show ?thesis
    proof (cases y)
      case (Inl x)
      have "\<not> admitted s r \<and> fst x \<in> {XUnknownAgent, XDenied, XInvalidRequest}"
        using Inl unfolding adm y_def by (auto split: if_splits option.splits)
      then show ?thesis using refusal [OF ae [unfolded Inl]] g by simp
    next
      case (Inr b)
      have "admitted s r \<and> b = a"
        using Inr unfolding adm y_def by (auto split: if_splits option.splits)
      then show ?thesis using passed [of a] ae Inr a by simp
    qed
  qed
qed

section \<open>The decision\<close>

lemma external_decision:
  "pdec_action (simulate_action C (proposal_from_request r run_id)) =
     (if cp_policy_hash C = ''unavailable'' then CpDeny else fst (risk_default (risk_for_action_kind (xreq_action_kind r))))"
  by (simp add: simulate_action_def decision_actions proposal_from_request_def)

definition needs_approval :: "action_kind \<Rightarrow> bool" where
  "needs_approval k \<longleftrightarrow> k = KindMutate \<or> k = KindExternalWrite"

lemma kind_risks:
  "fst (risk_default (risk_for_action_kind k)) = (if k = KindRead then CpAllow else if needs_approval k then CpRequireApproval else CpDeny)"
  by (cases k) (simp_all add: risk_default_def needs_approval_def)

text \<open>The status of an admitted request, and the answer the gateway gives it.\<close>

definition expected_status :: "control_config \<Rightarrow> xrequest \<Rightarrow> xstatus" where
  "expected_status C r =
     (if cp_policy_hash C = ''unavailable'' then XDenied else if xreq_action_kind r = KindRead then XAccepted
      else if needs_approval (xreq_action_kind r)
      then (if xreq_dry_run r then XRequiresApproval else XBlockedPendingApproval) else XDenied)"

text \<open>The status of the run it leaves.\<close>

fun run_status_for :: "xstatus \<Rightarrow> run_status" where
  "run_status_for XAccepted = RunCompleted"
| "run_status_for XBlockedPendingApproval = RunApprovalPending"
| "run_status_for XRequiresApproval = RunCreated"
| "run_status_for _ = RunPolicyBlocked"

lemma expected_cases: "expected_status C r \<in> {XAccepted, XBlockedPendingApproval, XRequiresApproval, XDenied}"
  by (simp add: expected_status_def)

lemma gateway_verdict_Inr:
  assumes "gateway_verdict C t uuid r (simulate_action C (proposal_from_request r run_id)) db = (db1, Inr v)"
  obtains status k next_actions where "v = (status, expected_status C r, k, next_actions)"
    "expected_status C r = XBlockedPendingApproval \<Longrightarrow> status = RunApprovalPending \<and>
       (\<exists>ticket. create_ticket (cc_hash C) t uuid (gateway_ticket C r) db = (db1, Inr ticket) \<and> k = Some (t_approval_id ticket))"
    "expected_status C r \<noteq> XBlockedPendingApproval \<Longrightarrow> db1 = db \<and> k = None \<and>
       status = (if expected_status C r = XAccepted then RunCompleted else if expected_status C r = XDenied then RunPolicyBlocked else RunCreated)"
proof -
  show ?thesis
    using assms that unfolding gateway_verdict_def external_decision kind_risks
    by (auto simp: expected_status_def split: if_splits prod.splits sum.splits)
qed

lemma update_simulated:
  assumes "registry_inv H f" "agent_at f k = Some a"
  obtains f' b where "update_record now (simulated t run_id a) f = (f', Inr b)" "(registry_step H)\<^sup>*\<^sup>* f f'"
proof -
  have "record_ok H k (simulated t run_id a)" "same_agent a (simulated t run_id a)"
    using registry_invD [OF assms] by (simp_all add: record_ok_def simulated_def same_agent_def)
  from update_record_run [OF assms(2) this, of now] show ?thesis using that by (metis fst_conv)
qed

text \<open>A submission that is answered, refused or decided.\<close>

lemma submit_action_cases:
  assumes "submit_action C clk uuid r s = (s', Inr x)"
  obtains (refusal) f st why na where "\<not> admitted s r" "x = refused_answer (cc_iso C (clk 1)) r (st, why, na)"
      "st \<in> {XUnknownAgent, XDenied, XInvalidRequest}"
      "s' = write_evidence C (clk 2) r x None (s\<lparr>cs_registry := f\<rparr>)" "f = fst (get_agent (cc_iso C (clk 0)) (xreq_agent_id r) (cs_registry s))"
  | (decision) a d db v f b where "admitted s r" "agent_at (cs_registry s) (xreq_agent_id r) = Some a"
      "d = simulate_action C (proposal_from_request r (gateway_run_id (xreq_request_id r)))"
      "gateway_verdict C (clk 1) uuid r d (cs_approvals s) = (db, Inr v)"
      "update_record (cc_iso C (clk 6)) (simulated (cc_iso C (clk 5)) (gateway_run_id (xreq_request_id r)) a) (cs_registry s) = (f, Inr b)"
      "x = decided_answer (cc_iso C (clk 7)) r d v"
      "s' = write_evidence C (clk 8) r x (Some (gateway_run_id (xreq_request_id r)))
         ((put_run (gateway_run C clk r d v)
            (gateway_run_fields C (clk 4) r (proposal_from_request r (gateway_run_id (xreq_request_id r))) d)
            (s\<lparr>cs_approvals := db\<rparr>))\<lparr>cs_registry := f\<rparr>)"
proof (cases rule: admit_external_cases [of "cc_iso C (clk 0)" r s])
  case (refusal f y)
  obtain st why na where "y = (st, why, na)" by (cases y)
  then show ?thesis using assms refusal that(1) by (auto simp: submit_action_def Let_def)
next
  case (passed a)
  define d where "d = simulate_action C (proposal_from_request r (gateway_run_id (xreq_request_id r)))"
  obtain db w where w: "gateway_verdict C (clk 1) uuid r d (cs_approvals s) = (db, w)" by fastforce
  obtain v where v: "w = Inr v" using assms passed w by (cases w) (auto simp: submit_action_def d_def [symmetric] Let_def)
  define run where "run = gateway_run C clk r d v"
  define rest where "rest = gateway_run_fields C (clk 4) r (proposal_from_request r (gateway_run_id (xreq_request_id r))) d"
  obtain f u where u: "update_record (cc_iso C (clk 6)) (simulated (cc_iso C (clk 5)) (gateway_run_id (xreq_request_id r)) a)
      (cs_registry s) = (f, u)" by fastforce
  obtain b where b: "u = Inr b"
    using assms passed w v u by (cases u) (auto simp: submit_action_def d_def [symmetric] Let_def)
  show ?thesis
    by (rule that(2) [OF passed(2,3) d_def w [unfolded v] u [unfolded b]])
      (use assms passed w v u b in \<open>auto simp: submit_action_def d_def [symmetric] Let_def\<close>)
qed

lemma answer_status [simp]:
  "xres_status (refused_answer now r (st, why, na)) = st" "xres_run_id (refused_answer now r (st, why, na)) = None"
  "xres_status (decided_answer now r d (rs, st, k, na)) = st" "xres_approval_id (decided_answer now r d (rs, st, k, na)) = k"
  "xres_approval_id (refused_answer now r (st, why, na)) = None"
  "xres_run_id (decided_answer now r d v) = Some (gateway_run_id (xreq_request_id r))"
  "xres_evidence_ref (refused_answer now r y) = Some (evidence_path (xreq_request_id r))"
  "xres_evidence_ref (decided_answer now r d v) = Some (evidence_path (xreq_request_id r))"
  by (simp_all add: refused_answer_def decided_answer_def split: prod.splits)

lemma gateway_run_simps [simp]:
  "run_run_id (gateway_run C clk r d (rs, st, k, na)) = gateway_run_id (xreq_request_id r)"
  "run_status (gateway_run C clk r d (rs, st, k, na)) = rs"
  "run_approval_ids (gateway_run C clk r d (rs, st, k, na)) = (if opt_truthy k then [the k] else [])"
  "run_agent_id (gateway_run C clk r d (rs, st, k, na)) = xreq_agent_id r"
  by (simp_all add: gateway_run_def)

section \<open>Its tickets\<close>

lemma gateway_ticket_simps [simp]:
  "q_target_kind (gateway_ticket C r) = ''external_agent_action''"
  "q_idempotency_key (gateway_ticket C r) = ''external-gateway:'' @ xreq_request_id r"
  "q_request_hash (gateway_ticket C r) = request_hash_of (cc_hash C) r"
  "q_workspace_id (gateway_ticket C r) = Some (cc_default_workspace_id C)"
  by (simp_all add: gateway_ticket_def Let_def)

lemma blocked_ticket:
  assumes "submit_action C clk uuid r s = (s', Inr x)" "xres_status x = XBlockedPendingApproval"
  obtains ticket where "create_ticket (cc_hash C) (clk 1) uuid (gateway_ticket C r) (cs_approvals s) = (cs_approvals s', Inr ticket)"
    "xres_approval_id x = Some (t_approval_id ticket)"
  using assms(1)
proof (cases rule: submit_action_cases)
  case (refusal f st why na)
  then show ?thesis using assms(2) by auto
next
  case (decision a d db v f b)
  obtain rs k na where v: "v = (rs, expected_status C r, k, na)"
    and pend: "expected_status C r = XBlockedPendingApproval \<Longrightarrow>
       (\<exists>ticket. create_ticket (cc_hash C) (clk 1) uuid (gateway_ticket C r) (cs_approvals s) = (db, Inr ticket) \<and> k = Some (t_approval_id ticket))"
    using gateway_verdict_Inr [OF decision(4) [unfolded decision(3)]] by metis
  then obtain ticket where "create_ticket (cc_hash C) (clk 1) uuid (gateway_ticket C r) (cs_approvals s) = (db, Inr ticket)" "k = Some (t_approval_id ticket)"
    using assms(2) by (auto simp: decision(6))
  then show ?thesis using that unfolding decision(6,7) v by (simp add: write_evidence_def)
qed

text \<open>The ticket of a request that waits: one of its request id; a new one, when there was none, is for this request.\<close>

definition gateway_asked :: "control_config \<Rightarrow> xrequest \<Rightarrow> approval_db \<Rightarrow> string \<Rightarrow> bool" where
  "gateway_asked C r db k \<longleftrightarrow> (\<exists>row. row_of k db = Some row \<and> r_status row = Pending \<and>
     r_run_id row = gateway_run_id (xreq_request_id r) \<and>
     r_target_ref row = xreq_agent_id r @ '':'' @ action_kind_value (xreq_action_kind r) \<and>
     r_request_hash row = request_hash_of (cc_hash C) r)"

lemma blocked_asked:
  assumes "submit_action C clk uuid r s = (s', Inr x)" "xres_status x = XBlockedPendingApproval" "db_inv (cs_approvals s)"
  obtains k where "xres_approval_id x = Some k" "row_of k (cs_approvals s') \<noteq> None"
    "''external-gateway:'' @ xreq_request_id r \<notin> r_idempotency_key ` set (approvals (cs_approvals s)) \<Longrightarrow>
       gateway_asked C r (cs_approvals s') k"
proof -
  obtain tk where tk: "create_ticket (cc_hash C) (clk 1) uuid (gateway_ticket C r) (cs_approvals s) = (cs_approvals s', Inr tk)"
    and k: "xres_approval_id x = Some (t_approval_id tk)"
    by (rule blocked_ticket [OF assms(1,2)])
  have "gateway_asked C r (cs_approvals s') (t_approval_id tk)"
    if new: "''external-gateway:'' @ xreq_request_id r \<notin> r_idempotency_key ` set (approvals (cs_approvals s))"
  proof -
    obtain bw where bw: "tk = new_ticket (clk 1) uuid bw (gateway_ticket C r)"
        "approvals (cs_approvals s') = approvals (cs_approvals s) @ [insert_row tk]"
      using created_fresh [OF tk] new by (metis gateway_ticket_simps(2))
    have inv: "db_inv (cs_approvals s')" using db_inv_run [OF create_ticket_run assms(3)] tk by (metis fst_conv)
    have "insert_row tk \<in> set (approvals (cs_approvals s'))" "r_approval_id (insert_row tk) = t_approval_id tk"
      using bw(2) by (simp_all add: insert_row_def)
    then have "row_of (t_approval_id tk) (cs_approvals s') = Some (insert_row tk)" using row_of_member [OF inv] by metis
    then show ?thesis by (simp add: gateway_asked_def bw(1) insert_row_def new_ticket_def gateway_ticket_def Let_def)
  qed
  moreover have "row_of (t_approval_id tk) (cs_approvals s') \<noteq> None"
    using created_row [OF assms(3) tk] by (metis option.distinct(1))
  ultimately show ?thesis using that k by blast
qed

text \<open>
  C38: The gateway's decision on every branch.  A request that is not from a registered, external,
  actively enrolled agent with a clean redaction summary is refused, and leaves no run and no ticket;
  an admitted one gets the answer its kind and the policy call for (reads are accepted, mutations and
  external writes need an approval, everything else and any request without a policy is denied) and
  leaves one run of its agent, completed, waiting, created (a dry run that would need an approval) or
  blocked as the answer says, with the ticket of the answer.  A request that waits names a stored ticket,
  and when its request id had none yet, a pending one of this run for this very request; no other
  request touches the approval store.  Every answer leaves its evidence, with the run it names.
\<close>

theorem gateway_decided:
  assumes "submit_action C clk uuid r s = (s', Inr x)"
  shows "(if admitted s r
      then xres_status x = expected_status C r \<and> xres_run_id x = Some (gateway_run_id (xreq_request_id r)) \<and>
        (\<exists>run rest. cs_runs s' = (cs_runs s)(gateway_run_id (xreq_request_id r) \<mapsto> RunFile run rest) \<and>
          run_agent_id run = xreq_agent_id r \<and> run_status run = run_status_for (expected_status C r) \<and>
          run_approval_ids run = (if opt_truthy (xres_approval_id x) then [the (xres_approval_id x)] else []))
      else xres_status x \<in> {XUnknownAgent, XDenied, XInvalidRequest} \<and> xres_run_id x = None \<and> cs_runs s' = cs_runs s) \<and>
    (if xres_status x = XBlockedPendingApproval
     then db_inv (cs_approvals s) \<longrightarrow> (\<exists>k. xres_approval_id x = Some k \<and> row_of k (cs_approvals s') \<noteq> None \<and>
       (''external-gateway:'' @ xreq_request_id r \<notin> r_idempotency_key ` set (approvals (cs_approvals s)) \<longrightarrow>
          gateway_asked C r (cs_approvals s') k))
     else cs_approvals s' = cs_approvals s \<and> xres_approval_id x = None) \<and>
    (\<exists>t. cs_docs s' = (cs_docs s)(evidence_path (xreq_request_id r) \<mapsto>
        Document (canonicalize_payload (PDict (gateway_evidence C t r x (xres_run_id x)))))) \<and>
    cs_enterprise s' = cs_enterprise s"
proof -
  have ticket: "db_inv (cs_approvals s) \<longrightarrow> (\<exists>k. xres_approval_id x = Some k \<and> row_of k (cs_approvals s') \<noteq> None \<and>
       (''external-gateway:'' @ xreq_request_id r \<notin> r_idempotency_key ` set (approvals (cs_approvals s)) \<longrightarrow>
          gateway_asked C r (cs_approvals s') k))" if "xres_status x = XBlockedPendingApproval"
    using blocked_asked [OF assms that] by metis
  from assms show ?thesis
  proof (cases rule: submit_action_cases)
    case (refusal f st why na)
    then show ?thesis by (auto simp: write_evidence_def simp del: canonicalize_payload.simps)
  next
    case (decision a d db v f b)
    obtain rs k na where v: "v = (rs, expected_status C r, k, na)"
      and pend: "expected_status C r = XBlockedPendingApproval \<Longrightarrow> rs = RunApprovalPending"
      and other: "expected_status C r \<noteq> XBlockedPendingApproval \<Longrightarrow> db = cs_approvals s \<and> k = None \<and>
         rs = (if expected_status C r = XAccepted then RunCompleted else if expected_status C r = XDenied then RunPolicyBlocked else RunCreated)"
      using gateway_verdict_Inr [OF decision(4) [unfolded decision(3)]] by metis
    have status: "rs = run_status_for (expected_status C r)"
      using pend other expected_cases [of C r] by auto
    have x: "xres_status x = expected_status C r" "xres_approval_id x = k"
      "xres_run_id x = Some (gateway_run_id (xreq_request_id r))" unfolding decision(6) v by simp_all
    have s': "cs_approvals s' = db" "cs_enterprise s' = cs_enterprise s"
      "cs_runs s' = (cs_runs s)(gateway_run_id (xreq_request_id r) \<mapsto> RunFile (gateway_run C clk r d v)
         (gateway_run_fields C (clk 4) r (proposal_from_request r (gateway_run_id (xreq_request_id r))) d))"
      "cs_docs s' = (cs_docs s)(evidence_path (xreq_request_id r) \<mapsto>
         Document (canonicalize_payload (PDict (gateway_evidence C (clk 8) r x (xres_run_id x)))))"
      unfolding decision(7) x(3) v by (simp_all add: write_evidence_def del: canonicalize_payload.simps)
    show ?thesis
      using decision(1) ticket other s' status
      by (auto simp: x v simp del: canonicalize_payload.simps)
  qed
qed

lemma gateway_snapshot_unparsable: "parse_approval_snapshot (canonical_dict (q_snapshot (gateway_ticket C r))) = None"
proof -
  have "wf_dict (q_snapshot (gateway_ticket C r))" by (simp add: gateway_ticket_def wf_dict_def Let_def)
  then have "dict_get (canonical_dict (q_snapshot (gateway_ticket C r))) ''schema_version'' = PNone"
    by (simp add: dict_get_def map_of_canonical_dict) (simp add: gateway_ticket_def Let_def)
  then show ?thesis by (simp add: parse_approval_snapshot_def)
qed

text \<open>
  C39: An external action is never carried out.  A request that waits for an approval leaves a ticket for
  its own request digest, in the default workspace; but the snapshot of that ticket is not one the
  approval service reads, so whatever happens to the ticket short of a new snapshot being attached,
  executing it is rejected with every set of executors: the next action the gateway names
  (\<open>approval.execute\<close>) always fails, and nothing external is done through the approval path.
\<close>

theorem gateway_ticket_inert:
  assumes "submit_action C clk uuid r s = (s', Inr x)" "xres_status x = XBlockedPendingApproval" "db_inv (cs_approvals s)"
    and "''external-gateway:'' @ xreq_request_id r \<notin> r_idempotency_key ` set (approvals (cs_approvals s))"
    and "store_step\<^sup>*\<^sup>* (cs_approvals s') db"
  shows "\<exists>k r0 r1. xres_approval_id x = Some k \<and> row_of k (cs_approvals s') = Some r0 \<and> r_status r0 = Pending \<and>
    r_request_hash r0 = request_hash_of (cc_hash C) r \<and> row_of k db = Some r1 \<and> r_request_hash r1 = request_hash_of (cc_hash C) r \<and>
    (r_snapshot_json r1 = r_snapshot_json r0 \<longrightarrow> py_strip (r_workspace_id r1) \<noteq> [] \<longrightarrow>
       snd (admit H clk' env att es k (r_workspace_id r1) actor (db, wd)) =
         Rejected (rejected k None ''APPROVAL_SNAPSHOT_SCHEMA_UNSUPPORTED''))"
proof -
  obtain tk where tk: "create_ticket (cc_hash C) (clk 1) uuid (gateway_ticket C r) (cs_approvals s) = (cs_approvals s', Inr tk)"
    and k: "xres_approval_id x = Some (t_approval_id tk)"
    by (rule blocked_ticket [OF assms(1,2)])
  obtain bw where bw: "tk = new_ticket (clk 1) uuid bw (gateway_ticket C r)"
      "approvals (cs_approvals s') = approvals (cs_approvals s) @ [insert_row tk]"
    using created_fresh [OF tk] assms(4) by (metis gateway_ticket_simps(2))
  have inv: "db_inv (cs_approvals s')" using db_inv_run [OF create_ticket_run assms(3)] tk by (metis fst_conv)
  have "insert_row tk \<in> set (approvals (cs_approvals s'))" "r_approval_id (insert_row tk) = t_approval_id tk"
    using bw(2) by (simp_all add: insert_row_def)
  then have row: "row_of (t_approval_id tk) (cs_approvals s') = Some (insert_row tk)" using row_of_member [OF inv] by metis
  have cols: "r_status (insert_row tk) = Pending" "r_request_hash (insert_row tk) = request_hash_of (cc_hash C) r"
    "r_snapshot_json (insert_row tk) = canonical_dict (q_snapshot (gateway_ticket C r))"
    by (simp_all add: bw(1) insert_row_def new_ticket_def)
  obtain r1 where r1: "row_of (t_approval_id tk) db = Some r1" "row_later (insert_row tk) r1"
    by (rule later_row [OF inv assms(5) row])
  have hash: "r_request_hash r1 = request_hash_of (cc_hash C) r" using r1(2) cols(2) by (simp add: row_later_def fixed_columns_def)
  have "snd (admit H clk' env att es (t_approval_id tk) (r_workspace_id r1) actor (db, wd)) =
      Rejected (rejected (t_approval_id tk) None ''APPROVAL_SNAPSHOT_SCHEMA_UNSUPPORTED'')"
    if "r_snapshot_json r1 = r_snapshot_json (insert_row tk)" "py_strip (r_workspace_id r1) \<noteq> []"
  proof -
    have "get H db (t_approval_id tk) (Some (r_workspace_id r1)) = Some (row_to_ticket H r1)"
      using get_Some [OF db_inv_run [OF assms(5) inv]] r1(1) that(2) by blast
    then show ?thesis by (simp add: admit_def that(1) cols(3) gateway_snapshot_unparsable)
  qed
  then show ?thesis using k row cols r1(1) hash by blast
qed

section \<open>Version 1.1\<close>

lemma get_doc_put: "get_doc ref (put_doc ref d s) = (put_doc ref d s, Inr (PDict (canonical_dict d)))"
  by (rule get_doc_document) (simp add: canonicalize_PDict del: canonicalize_payload.simps)

lemma find_vstatus:
  "st \<noteq> XRequiresApproval \<Longrightarrow>
     List.find (\<lambda>x. xstatus_value x = xstatus_value st) [XAccepted, XBlockedPendingApproval, XDenied, XInvalidRequest, XUnknownAgent] = Some st"
  by (cases st) simp_all

lemma find_vdecision:
  "List.find (\<lambda>x. vdecision_value x = vdecision_value d) [VAllow, VDeny, VRequireApproval, VUnknown] = Some d"
  by (cases d) simp_all

text \<open>A stored answer reads back as it was, with the fields that say it is a replay.\<close>

lemma parse_replayed:
  assumes "vres_status a \<noteq> XRequiresApproval"
  shows "parse_vresult (dict_update (canonical_dict (vresult_dump a)) replayed_fields) =
    Some (a\<lparr>vres_replay_status := ReplayReplayed, vres_idempotency_status := IdemReplayed\<rparr>)"
proof -
  define d where "d = dict_update (canonical_dict (vresult_dump a)) replayed_fields"
  have wf: "wf_dict (vresult_dump a)" by (simp add: vresult_dump_def wf_dict_def)
  have get: "map_of d k = (if k = ''idempotencyStatus'' then Some (PStr ''replayed'') else if k = ''replayStatus'' then Some (PStr ''replayed'')
      else map_option canonicalize_payload (map_of (vresult_dump a) k))" for k
    by (simp add: d_def dict_update_def replayed_fields_def dict_set_def update_conv' map_of_canonical_dict [OF wf])
  have opt: "canonicalize_payload (pv_of_opt y) = pv_of_opt y" for y by (cases y) (simp_all add: pv_of_opt_def)
  have keys: "set (map fst d) \<subseteq> set vresult_keys"
  proof
    fix k assume "k \<in> set (map fst d)"
    then have "map_of d k \<noteq> None" by (simp add: map_of_eq_None_iff)
    then show "k \<in> set vresult_keys" unfolding get by (auto simp: vresult_dump_def vresult_keys_def split: if_splits)
  qed
  have fields:
    "dict_get d ''requestId'' = PStr (vres_request_id a)" "dict_get d ''agentId'' = PStr (vres_agent_id a)"
    "dict_get d ''workflowId'' = PStr (vres_workflow_id a)" "dict_get d ''status'' = PStr (xstatus_value (vres_status a))"
    "dict_get d ''reasonCode'' = PStr (vres_reason_code a)"
    "dict_get d ''policyDecision'' = PStr (vdecision_value (vres_policy_decision a))"
    "dict_get d ''runId'' = pv_of_opt (vres_run_id a)" "dict_get d ''approvalId'' = pv_of_opt (vres_approval_id a)"
    "dict_get d ''evidenceRef'' = pv_of_opt (vres_evidence_ref a)" "dict_get d ''replayStatus'' = PStr ''replayed''"
    "dict_get d ''idempotencyStatus'' = PStr ''replayed''" "dict_get d ''requestHash'' = PStr (vres_request_hash a)"
    "dict_get d ''generatedAt'' = PStr (vres_generated_at a)"
    "dict_get_default d ''version'' w = PStr ''control-plane.external-agent-result/v1.1''" for w
    unfolding dict_get_def dict_get_default_def get by (simp_all add: vresult_dump_def opt)
  have "parse_vresult d = Some (a\<lparr>vres_replay_status := ReplayReplayed, vres_idempotency_status := IdemReplayed\<rparr>)"
    unfolding parse_vresult_def fields value_of_text find_vstatus [OF assms] find_vdecision text_value_text opt_text_value_opt
    using keys by simp
  then show ?thesis by (simp add: d_def)
qed

lemma v1_1_status: "vres_status (v1_1_result now r a h) \<noteq> XRequiresApproval"
  by (simp add: v1_1_result_def)

lemma parse_idempotency:
  assumes "parse_vresult d = Some b"
  shows "value_of idempotency_value [IdemCreated, IdemReplayed, IdemConflict] (dict_get d ''idempotencyStatus'') =
    Some (vres_idempotency_status b)"
proof -
  have "parse_vresult d = Some b \<longrightarrow>
    value_of idempotency_value [IdemCreated, IdemReplayed, IdemConflict] (dict_get d ''idempotencyStatus'') = Some (vres_idempotency_status b)"
    unfolding parse_vresult_def by (auto split: option.split)
  then show ?thesis using assms by blast
qed

lemma created_is_new:
  assumes "submit_action_v1_1 C clk uuid r s = (s1, Inr a)" "vres_idempotency_status a = IdemCreated"
  shows "\<exists>s0. submit_new_v1_1 C clk uuid r s0 = (s1, Inr a) \<and> cs_registry s0 = cs_registry s \<and>
    cs_enterprise s0 = cs_enterprise s \<and> cs_approvals s0 = cs_approvals s \<and> cs_runs s0 = cs_runs s"
proof -
  obtain s0 y where g: "get_doc (idempotency_path (vreq_idempotency_key r)) s = (s0, y)" by fastforce
  then have same: "cs_registry s0 = cs_registry s" "cs_enterprise s0 = cs_enterprise s" "cs_approvals s0 = cs_approvals s"
    "cs_runs s0 = cs_runs s" by (auto simp: get_doc_def split: prod.splits)
  have replayed: "vres_idempotency_status b = IdemReplayed" if "parse_vresult (dict_update d replayed_fields) = Some b" for d b
  proof -
    have "map_of (dict_update d replayed_fields) ''idempotencyStatus'' = Some (PStr ''replayed'')"
      by (simp add: dict_update_def replayed_fields_def dict_set_def update_conv')
    then show ?thesis using parse_idempotency [OF that] by (simp add: dict_get_def)
  qed
  have "submit_new_v1_1 C clk uuid r s0 = (s1, Inr a)"
    using assms g by (auto simp: submit_action_v1_1_def Let_def idempotency_conflict_def dest!: replayed
        split: sum.splits pyval.splits if_splits option.splits)
  then show ?thesis using same by blast
qed

text \<open>
  C40: Version 1.1 is idempotent.  Once a request has been answered as new, submitting under its
  idempotency key changes nothing any more, at any time: the same request (digest) gets the stored
  answer back, marked as a replay, and a different one is refused as a conflict.
\<close>

theorem gateway_replay:
  assumes "submit_action_v1_1 C clk uuid r s = (s1, Inr a)" "vres_idempotency_status a = IdemCreated"
    and "safe_file_key (vreq_idempotency_key r2) = safe_file_key (vreq_idempotency_key r)"
  shows "submit_action_v1_1 C clk2 uuid2 r2 s1 = (s1, Inr
    (if vrequest_hash (cc_hash C) r2 = vrequest_hash (cc_hash C) r
     then a\<lparr>vres_replay_status := ReplayReplayed, vres_idempotency_status := IdemReplayed\<rparr>
     else idempotency_conflict (cc_iso C (clk2 0)) r2 (vrequest_hash (cc_hash C) r2)))"
proof -
  obtain s0 where new: "submit_new_v1_1 C clk uuid r s0 = (s1, Inr a)"
    using created_is_new [OF assms(1,2)] by blast
  obtain x s2 where x: "a = v1_1_result (cc_iso C (clk 9)) r x (vrequest_hash (cc_hash C) r)"
      "s1 = put_doc (idempotency_path (vreq_idempotency_key r)) (idempotency_doc C (clk 10) r a) s2"
    using new by (auto simp: submit_new_v1_1_def Let_def split: prod.splits sum.splits)
  have path: "idempotency_path (vreq_idempotency_key r2) = idempotency_path (vreq_idempotency_key r)"
    by (simp add: idempotency_path_def assms(3))
  let ?d = "canonical_dict (idempotency_doc C (clk 10) r a)"
  have read: "get_doc (idempotency_path (vreq_idempotency_key r2)) s1 = (s1, Inr (PDict ?d))"
    unfolding path x(2) by (rule get_doc_put)
  have wf: "wf_dict (idempotency_doc C (clk 10) r a)" by (simp add: idempotency_doc_def wf_dict_def)
  have fields: "dict_get ?d ''requestHash'' = PStr (vrequest_hash (cc_hash C) r)"
    "dict_get ?d ''response'' = PDict (canonical_dict (vresult_dump a))"
    by (simp_all only: dict_get_def map_of_canonical_dict [OF wf]) (simp_all add: idempotency_doc_def canonical_dict_def)
  show ?thesis
    using parse_replayed [of a] v1_1_status [of "cc_iso C (clk 9)" r x "vrequest_hash (cc_hash C) r"]
    by (simp add: submit_action_v1_1_def read fields Let_def x(1) [symmetric])
qed

section \<open>Concrete requests\<close>

text \<open>The demo agent enrolled, and a request of its.\<close>

definition demo_enrolled :: enrolled_agent where
  "demo_enrolled = \<lparr>ea_enrollment_id = ''enr'', ea_workspace_id = ''ws'', ea_agent_id = ''agent'', ea_principal_id = ''p'',
     ea_device_id = ''d'', ea_token_id = ''tok'', ea_status = EnrActive, ea_capabilities = [], ea_policy_profile = ''enterprise'',
     ea_created_at = 0, ea_last_seen_at = None\<rparr>"

definition enrolled_control :: control_state where
  "enrolled_control = demo_control\<lparr>cs_enterprise := empty_enterprise\<lparr>est_enrolled := [(''enr'', demo_enrolled)]\<rparr>\<rparr>"

definition demo_request :: xrequest where
  "demo_request = \<lparr>xreq_request_id = ''q1'', xreq_agent_id = ''agent'', xreq_actor_id = ''bob'', xreq_intent = ''edit'',
     xreq_action_kind = KindMutate, xreq_target_ref = None, xreq_payload_hash = ''h'', xreq_redaction_summary = [],
     xreq_requested_at = ''2026'', xreq_dry_run = False\<rparr>"

definition demo_gateway :: "control_state \<times> (string + xresponse)" where
  "demo_gateway = submit_action demo_config (\<lambda>_. 0) ''a1'' demo_request enrolled_control"

lemma demo_request_simps [simp]:
  "xreq_request_id demo_request = ''q1''" "xreq_agent_id demo_request = ''agent''" "xreq_action_kind demo_request = KindMutate"
  "xreq_dry_run demo_request = False" "xreq_redaction_summary demo_request = []"
  by (simp_all add: demo_request_def)

lemma enrolled_control_simps [simp]:
  "cs_registry enrolled_control = cs_registry demo_control" "cs_approvals enrolled_control = empty_db"
  "cs_enterprise enrolled_control = empty_enterprise\<lparr>est_enrolled := [(''enr'', demo_enrolled)]\<rparr>"
  by (simp_all add: enrolled_control_def demo_control_def)

lemma demo_enrollment: "enrollment_error demo_record (empty_enterprise\<lparr>est_enrolled := [(''enr'', demo_enrolled)]\<rparr>) = None"
  by (simp add: enrollment_error_def require_active_enrollment_def get_enrolled_agent_by_agent_id_def demo_agent demo_spec_def
      metadata_string_or_none_def dict_get_def demo_enrolled_def empty_enterprise_def get_device_def get_enterprise_principal_def list_enrolled_agents_def list_models_def of_key_def)

lemma demo_request_admitted: "admit_external now demo_request enrolled_control = (enrolled_control, Inr demo_record)"
proof -
  have "arec_status demo_record = AgentRegistered" "spec_runtime_kind (arec_spec demo_record) = ExternalHttp"
    by (simp_all add: demo_record_def new_record_def demo_spec_def)
  then show ?thesis by (simp add: admit_external_def demo_agent demo_enrollment)
qed

definition demo_gateway_db :: approval_db where
  "demo_gateway_db = empty_db\<lparr>approvals := [insert_row (new_ticket 0 ''a1'' ''ws'' (gateway_ticket demo_config demo_request))]\<rparr>"

lemma demo_gateway_created:
  "\<exists>t. create_ticket demo_digest 0 ''a1'' (gateway_ticket demo_config demo_request) empty_db = (demo_gateway_db, Inr t) \<and> t_approval_id t = ''a1''"
proof -
  let ?q = "gateway_ticket demo_config demo_request"
  have keys: "dict_get (q_snapshot ?q) ''workspaceId'' = PNone" "dict_get (q_snapshot ?q) ''workspace_id'' = PNone"
    by (simp_all add: gateway_ticket_def Let_def dict_get_def)
  have art: "\<not> starts_with ''external_agent_action'' ''artifact''" by code_simp
  have "canonical_workspace_binding (q_workspace_id ?q) (q_target_kind ?q) (q_target_ref ?q) (q_snapshot ?q) = Inr ''ws''"
    unfolding gateway_ticket_simps demo_config_simps by (rule plain_binding [OF art keys demo_texts(2,4,3)])
  from created_in_empty [OF this] show ?thesis by (simp add: new_ticket_def demo_gateway_db_def)
qed

lemma demo_gateway_blocked:
  obtains s1 x where "demo_gateway = (s1, Inr x)" "xres_status x = XBlockedPendingApproval" "xres_approval_id x = Some ''a1''"
    "cs_approvals s1 = demo_gateway_db"
proof -
  define d where "d = simulate_action demo_config (proposal_from_request demo_request (gateway_run_id ''q1''))"
  have act: "pdec_action d = CpRequireApproval" by (simp add: d_def external_decision risk_default_def)
  obtain t where t: "create_ticket demo_digest 0 ''a1'' (gateway_ticket demo_config demo_request) empty_db = (demo_gateway_db, Inr t)"
      "t_approval_id t = ''a1''" using demo_gateway_created by blast
  define v where "v = (RunApprovalPending, XBlockedPendingApproval, Some ''a1'', [''approval.show'', ''approval.decide'', ''approval.execute''])"
  have v: "gateway_verdict demo_config 0 ''a1'' demo_request d empty_db = (demo_gateway_db, Inr v)"
    by (simp add: gateway_verdict_def act t v_def)
  define run where "run = gateway_run demo_config (\<lambda>_. 0) demo_request d v"
  define rest where "rest = gateway_run_fields demo_config 0 demo_request (proposal_from_request demo_request (gateway_run_id ''q1'')) d"
  obtain f where f: "update_record (cc_iso demo_config 0) (simulated (cc_iso demo_config 0) (gateway_run_id ''q1'') demo_record)
      (cs_registry demo_control) = (f, Inr (demo_record\<lparr>arec_readiness := PolicySimulated, arec_last_run_id := Some (gateway_run_id ''q1''),
        arec_updated_at := cc_iso demo_config 0\<rparr>))"
    by (simp add: update_record_def read_registry_def demo_control_def demo_agent Let_def simulated_def)
  define x where "x = decided_answer (cc_iso demo_config 0) demo_request d v"
  have "\<exists>s1. demo_gateway = (s1, Inr x) \<and> cs_approvals s1 = demo_gateway_db"
    unfolding demo_gateway_def submit_action_def Let_def demo_request_admitted prod.case sum.case demo_request_simps
      d_def [symmetric] enrolled_control_simps v run_def [symmetric] rest_def [symmetric] put_run_simps
    by (simp add: f x_def write_evidence_def)
  moreover have "xres_status x = XBlockedPendingApproval" "xres_approval_id x = Some ''a1''" by (simp_all add: x_def v_def)
  ultimately show ?thesis using that by blast
qed

theorem gateway_decided_witness:
  "\<exists>s1 x run rest. demo_gateway = (s1, Inr x) \<and> cs_runs s1 (gateway_run_id ''q1'') = Some (RunFile run rest) \<and> run_status run = RunApprovalPending"
proof -
  obtain s1 x where run: "demo_gateway = (s1, Inr x)" "xres_status x = XBlockedPendingApproval" by (rule demo_gateway_blocked)
  have adm: "admitted enrolled_control demo_request"
    by (rule admit_external_cases [of "[]" demo_request enrolled_control]) (simp_all add: demo_request_admitted)
  show ?thesis using gateway_decided [OF run(1) [unfolded demo_gateway_def]] run adm by auto
qed

theorem gateway_ticket_inert_witness:
  "\<exists>s1 x. demo_gateway = (s1, Inr x) \<and>
     snd (admit demo_digest (\<lambda>_. 0) (\<lambda>_ db. db) ''t1'' [] ''a1'' ''ws'' ''ann'' (cs_approvals s1, ())) =
       Rejected (rejected ''a1'' None ''APPROVAL_SNAPSHOT_SCHEMA_UNSUPPORTED'')"
proof -
  obtain s1 x where run: "demo_gateway = (s1, Inr x)" "xres_status x = XBlockedPendingApproval" "xres_approval_id x = Some ''a1''"
    and db: "cs_approvals s1 = demo_gateway_db" by (rule demo_gateway_blocked)
  have empty: "db_inv (cs_approvals enrolled_control)"
    "''external-gateway:'' @ xreq_request_id demo_request \<notin> r_idempotency_key ` set (approvals (cs_approvals enrolled_control))"
    by (simp_all add: empty_db_def db_inv_def keys_distinct_def)
  have ws: "r_workspace_id r = ''ws''" if "row_of ''a1'' (cs_approvals s1) = Some r" for r
    using that by (auto simp: db demo_gateway_db_def insert_row_def new_ticket_def split: if_splits)
  have strip: "py_strip ''ws'' \<noteq> []" using demo_texts by simp
  obtain r0 where r0: "row_of ''a1'' (cs_approvals s1) = Some r0"
    "snd (admit demo_digest (\<lambda>_. 0) (\<lambda>_ db. db) ''t1'' [] ''a1'' (r_workspace_id r0) ''ann'' (cs_approvals s1, ())) =
       Rejected (rejected ''a1'' None ''APPROVAL_SNAPSHOT_SCHEMA_UNSUPPORTED'')"
    using gateway_ticket_inert [OF run(1) [unfolded demo_gateway_def] run(2) empty rtranclp.rtrancl_refl,
        where H = demo_digest and clk' = "\<lambda>_. 0" and env = "\<lambda>_ db. db" and att = "''t1''" and es = "[]"
          and actor = "''ann''" and wd = "()"] run(3) ws strip by auto
  then show ?thesis using run(1) ws by auto
qed

text \<open>The hint of a request replaces the kinds of its actions, whatever they are.\<close>

lemma read_hint_accepts:
  assumes "vreq_risk_hint r = KindRead" "cp_policy_hash C \<noteq> ''unavailable''"
  shows "expected_status C (v1_request_from_v1_1 H r) = XAccepted"
  using assms by (simp add: expected_status_def v1_request_from_v1_1_def action_kind_for_v1_1_def)

text \<open>Different requests may share a run and an idempotency record.\<close>

lemma run_ids_collide:
  "gateway_run_id ''req:1'' = gateway_run_id ''req.1''" "idempotency_path ''key:1'' = idempotency_path ''key-1''"
  by code_simp+

text \<open>A request in version 1.1 whose decision is answered is answered.\<close>

lemma new_answered:
  assumes "submit_action C clk uuid (v1_request_from_v1_1 (cc_hash C) r) s = (s1, Inr x)"
  shows "\<exists>s2. submit_new_v1_1 C clk uuid r s = (s2, Inr (v1_1_result (cc_iso C (clk 9)) r x (vrequest_hash (cc_hash C) r)))"
proof -
  let ?ref = "evidence_path (xreq_request_id (v1_request_from_v1_1 (cc_hash C) r))"
  have "xres_evidence_ref x = Some ?ref \<and> (\<exists>t run_id s0. s1 = write_evidence C t (v1_request_from_v1_1 (cc_hash C) r) x run_id s0)"
    using assms
  proof (cases rule: submit_action_cases)
    case (refusal f st why na)
    then show ?thesis by (metis answer_status(7))
  next
    case (decision a d db v f b)
    then show ?thesis by (metis answer_status(8))
  qed
  then obtain t run_id s0 where x: "xres_evidence_ref x = Some ?ref"
      "s1 = put_doc ?ref (gateway_evidence C t (v1_request_from_v1_1 (cc_hash C) r) x run_id) s0"
    by (auto simp: write_evidence_def)
  have ref: "vres_evidence_ref (v1_1_result n r x h) = Some ?ref" for n h by (simp add: v1_1_result_def x(1))
  show ?thesis
    unfolding submit_new_v1_1_def Let_def assms prod.case sum.case write_v1_1_evidence_def ref option.case x(2) get_doc_put
    by simp
qed

text \<open>A request of an agent that is not enrolled: it is denied, and the answer is kept.\<close>

definition demo_vrequest :: "string \<Rightarrow> vrequest" where
  "demo_vrequest intent = \<lparr>vreq_request_id = ''q1'', vreq_agent_id = ''agent'', vreq_workflow_id = ''w'', vreq_intent = intent,
     vreq_actions = [\<lparr>vact_action_id = ''a'', vact_kind = KindMutate, vact_target_ref = None, vact_effect = ''e''\<rparr>],
     vreq_idempotency_key = ''k1'', vreq_requested_by = ''bob'', vreq_risk_hint = KindUnknown, vreq_metadata = [],
     vreq_requested_at = ''2026'', vreq_dry_run = False\<rparr>"

lemma demo_vrequest_created:
  obtains s1 a where "submit_action_v1_1 demo_config (\<lambda>_. 0) ''a1'' (demo_vrequest i) demo_control = (s1, Inr a)"
    "vres_idempotency_status a = IdemCreated"
proof -
  let ?r = "v1_request_from_v1_1 (cc_hash demo_config) (demo_vrequest i)"
  have "xreq_agent_id ?r = ''agent''" by (simp add: v1_request_from_v1_1_def demo_vrequest_def)
  moreover have "enrollment_error demo_record (cs_enterprise demo_control) = Some ''AGENT_NOT_ENROLLED''"
    by (simp add: enrollment_error_def require_active_enrollment_def get_enrolled_agent_by_agent_id_def demo_agent demo_spec_def
        metadata_string_or_none_def dict_get_def empty_enterprise_def demo_control_def list_enrolled_agents_def list_models_def of_key_def)
  moreover have "arec_status demo_record = AgentRegistered" "spec_runtime_kind (arec_spec demo_record) = ExternalHttp"
    by (simp_all add: demo_record_def new_record_def demo_spec_def)
  ultimately obtain y where "admit_external (cc_iso demo_config 0) ?r demo_control = (demo_control, Inl y)"
    by (simp add: admit_external_def demo_agent)
  then obtain s1 x where "submit_action demo_config (\<lambda>_. 0) ''a1'' ?r demo_control = (s1, Inr x)"
    by (simp add: submit_action_def Let_def)
  from new_answered [OF this] obtain s2 where s2: "submit_new_v1_1 demo_config (\<lambda>_. 0) ''a1'' (demo_vrequest i) demo_control =
      (s2, Inr (v1_1_result (cc_iso demo_config 0) (demo_vrequest i) x (vrequest_hash (cc_hash demo_config) (demo_vrequest i))))"
    by blast
  have "get_doc p demo_control = (demo_control, Inr PNone)" for p by (simp add: get_doc_absent demo_control_def)
  then show ?thesis using that s2 by (simp add: submit_action_v1_1_def Let_def v1_1_result_def)
qed

theorem gateway_replay_witness:
  "\<exists>s1 a b. submit_action_v1_1 demo_config (\<lambda>_. 0) ''a1'' (demo_vrequest ''edit'') demo_control = (s1, Inr a) \<and>
     submit_action_v1_1 demo_config (\<lambda>_. 1) ''a2'' (demo_vrequest ''edit'') s1 = (s1, Inr b) \<and> vres_replay_status b = ReplayReplayed"
proof -
  obtain s1 a where a: "submit_action_v1_1 demo_config (\<lambda>_. 0) ''a1'' (demo_vrequest ''edit'') demo_control = (s1, Inr a)"
    "vres_idempotency_status a = IdemCreated" by (rule demo_vrequest_created)
  have "submit_action_v1_1 demo_config (\<lambda>_. 1) ''a2'' (demo_vrequest ''edit'') s1 =
      (s1, Inr (a\<lparr>vres_replay_status := ReplayReplayed, vres_idempotency_status := IdemReplayed\<rparr>))"
    using gateway_replay [OF a refl, of "\<lambda>_. 1" "''a2''"] by simp
  then show ?thesis using a(1) by auto
qed

end
