(* ===== verification/External_Client.thy ===== *)
theory External_Client imports External_Gateway Pilot_Enrollment begin

text \<open>
  The pilot client of external agents, \<open>imperaos/control_plane/external_agent_client.py\<close> (the command
  \<open>external-agent run\<close>): it enrolls and registers the agent of a manifest by itself and submits one action
  to the gateway.  Reading and parsing the two files is left out; the manifest and the request are what
  \<open>model_validate\<close> is given.  \<open>E\<close> is the environment of the enterprise store, \<open>now\<close> the text of the time
  the registry reads, \<open>clk\<close> and \<open>uuid\<close> are the gateway's.
\<close>

section \<open>The specification\<close>

definition manifest_risk :: "pilot_manifest \<Rightarrow> risk_class" where
  "manifest_risk M = (case pm_risk_profile M of ProfileReadOnly \<Rightarrow> RiskReadOnly | ProfileMutation \<Rightarrow> RiskExternalWrite
     | ProfileDestructiveDenied \<Rightarrow> RiskDestructive)"

definition manifest_action :: "pilot_manifest \<Rightarrow> string \<Rightarrow> declared_action" where
  "manifest_action M action =
     \<lparr>dact_action_id = ''external_'' @ action, dact_phase = ''tool'',
      dact_risk_class = (if action \<noteq> ''read'' then manifest_risk M else RiskReadOnly),
      dact_target_kind = ''external_system'', dact_effect = action, dact_action_type = ''control_plane_action''\<rparr>"

definition agent_spec_from_manifest :: "pilot_manifest \<Rightarrow> agent_spec option" where
  "agent_spec_from_manifest M = validate_spec
     \<lparr>spec_agent_id = pm_agent_id M, spec_display_name = pm_name M,
      spec_description = ''Design partner pilot external stdio JSON agent.'', spec_runtime_kind = ExternalStdio,
      spec_profile = ''enterprise'', spec_policy_profile = Some ''enterprise'', spec_owner_team = pm_owner M,
      spec_owner_contact = pm_owner M @ ''@example.local'', spec_allowed_surfaces = [SurfaceStdio],
      spec_blocked_surfaces = [SurfaceComputerUse], spec_declared_actions = map (manifest_action M) (manifest_actions M),
      spec_qualification_required = True, spec_qualification_minimum_level = ''pilot'',
      spec_qualification_status = ''missing'', spec_signed_pack_required = True, spec_replay_required = True,
      spec_metadata = [(''agent_type'', PStr ''external_stdio''), (''policy_pack_id'', PStr (pm_policy_pack_id M)),
        (''risk_profile'', PStr (risk_profile_value (pm_risk_profile M))), (''transport'', PStr ''stdio_json''),
        (''workspace_id'', PStr pilot_workspace), (''principal_id'', PStr (''principal-'' @ pm_agent_id M)),
        (''device_id'', PStr (''device-'' @ pm_agent_id M)), (''enrollment_id'', PStr (''enrollment-'' @ pm_agent_id M)),
        (''enrollment_status'', PStr ''active''), (''workspace_binding_status'', PStr ''bound'')]\<rparr>"

section \<open>Submitting\<close>

record client_response =
  cr_agent_id :: string
  cr_run_id :: "string option"
  cr_policy_decision :: string
  cr_reason_code :: string
  cr_approval_id :: "string option"
  cr_evidence_id :: "string option"
  cr_evidence_verify_status :: string
  cr_status :: xstatus

definition client_response_of :: "xresponse \<Rightarrow> client_response" where
  "client_response_of x =
     \<lparr>cr_agent_id = xres_agent_id x, cr_run_id = xres_run_id x,
      cr_policy_decision = (if xres_status x = XAccepted then ''allow''
        else if xres_status x \<in> {XRequiresApproval, XBlockedPendingApproval} then ''require_approval'' else ''deny''),
      cr_reason_code = xres_reason_code x, cr_approval_id = xres_approval_id x, cr_evidence_id = xres_evidence_ref x,
      cr_evidence_verify_status = (if opt_truthy (xres_evidence_ref x) then ''valid'' else ''missing''),
      cr_status = xres_status x\<rparr>"

definition client_submit_action ::
  "control_config \<Rightarrow> enrollment_env \<Rightarrow> string \<Rightarrow> (nat \<Rightarrow> int) \<Rightarrow> string \<Rightarrow> pilot_manifest \<Rightarrow> xrequest \<Rightarrow> control_state
     \<Rightarrow> control_state \<times> (string + client_response)" where
  "client_submit_action C E now clk uuid M r s =
    (case ensure_pilot_enrollment E M (cs_enterprise s) of
       (es, Inl e) \<Rightarrow> (s\<lparr>cs_enterprise := es\<rparr>, Inl e)
     | (es, Inr _) \<Rightarrow>
         let s1 = s\<lparr>cs_enterprise := es\<rparr> in
         (case agent_spec_from_manifest M of
            None \<Rightarrow> (s1, Inl ''ValidationError'')
          | Some v \<Rightarrow>
              (case register (cc_hash C) now v ''external-agent-client'' (cs_registry s1) of
                 (f, Inl e) \<Rightarrow> (s1\<lparr>cs_registry := f\<rparr>, Inl e)
               | (f, Inr _) \<Rightarrow>
                   (case submit_action C clk uuid r (s1\<lparr>cs_registry := f\<rparr>) of
                      (s2, Inl e) \<Rightarrow> (s2, Inl e)
                    | (s2, Inr response) \<Rightarrow> (s2, Inr (client_response_of response))))))"

definition run_external_agent_manifest ::
  "control_config \<Rightarrow> enrollment_env \<Rightarrow> string \<Rightarrow> string \<Rightarrow> (nat \<Rightarrow> int) \<Rightarrow> string \<Rightarrow> pilot_manifest \<Rightarrow> xrequest \<times> bool
     \<Rightarrow> control_state \<Rightarrow> control_state \<times> (string + client_response)" where
  "run_external_agent_manifest C E read_at now clk uuid M f s =
    (if \<not> manifest_valid M then (s, Inl ''ValidationError'')
     else case validate_xrequest read_at (snd f) (fst f) of
       None \<Rightarrow> (s, Inl ''ValidationError'')
     | Some r \<Rightarrow> client_submit_action C E now clk uuid M r s)"

end
