(* ===== verification/Control_Machine.thy ===== *)
theory Control_Machine imports Coordinator_Props Gateway_Props External_Client begin

text \<open>
  The control plane as one machine: its operations, whoever calls them and in whatever order, beside the
  operations of the approval store.  Its invariant joins those of the registry and of the approval
  store with what holds between them and the stored runs.  An operation is one step: processes that
  write the registry at the same time are the matter of \<open>Registry_Machine\<close>.
\<close>

section \<open>The policy simulation of the command line\<close>

text \<open>
  \<open>control-plane policy simulate\<close> of \<open>imperaos/cli.py\<close> stores what the simulation says of an agent as its
  readiness; \<open>now n\<close> is the text of the \<open>n\<close>-th time it reads.
\<close>

definition control_plane_policy_simulate ::
  "control_config \<Rightarrow> (nat \<Rightarrow> string) \<Rightarrow> string \<Rightarrow> registry_file \<Rightarrow> registry_file \<times> (string + policy_simulation)" where
  "control_plane_policy_simulate C now agent_id f =
    (case get_agent (now 0) agent_id f of
       (f1, Inl e) \<Rightarrow> (f1, Inl e)
     | (f1, Inr a) \<Rightarrow>
         let result = simulate_agent C (arec_spec a);
             readiness = (if psim_overall_status result = ''blocked'' then ReadinessBlocked else PolicySimulated)
         in (case update_record (now 1) (a\<lparr>arec_readiness := readiness\<rparr>) f1 of
               (f2, Inl e) \<Rightarrow> (f2, Inl e)
             | (f2, Inr _) \<Rightarrow> (f2, Inr result)))"

section \<open>Steps\<close>

inductive control_step :: "control_config \<Rightarrow> (string \<Rightarrow> bool) \<Rightarrow> control_state \<Rightarrow> control_state \<Rightarrow> bool" for C inside where
  step_register: "spec_valid v \<Longrightarrow>
    control_step C inside s (s\<lparr>cs_registry := fst (register (cc_hash C) now v actor (cs_registry s))\<rparr>)"
| step_disable: "control_step C inside s (s\<lparr>cs_registry := fst (disable now (\<lambda>f. f) k reason actor (cs_registry s))\<rparr>)"
| step_simulate: "control_step C inside s (s\<lparr>cs_registry := fst (control_plane_policy_simulate C' stamps k (cs_registry s))\<rparr>)"
| step_submit: "control_step C inside s (fst (submit_run C identity clk uuid run_id ag inp actor mode s))"
| step_status: "control_step C inside s (fst (get_status C inside t run_id s))"
| step_gateway: "control_step C inside s (fst (submit_action C clk uid r s))"
| step_gateway_v1_1: "control_step C inside s (fst (submit_action_v1_1 C clk uid vr s))"
| step_store: "store_step (cs_approvals s) db \<Longrightarrow> control_step C inside s (s\<lparr>cs_approvals := db\<rparr>)"
| step_beside: "control_step C inside s (s\<lparr>cs_docs := docs, cs_enterprise := es\<rparr>)"

section \<open>The invariant\<close>

definition run_ok :: "control_state \<Rightarrow> string \<Rightarrow> run_summary \<Rightarrow> bool" where
  "run_ok s k run \<longleftrightarrow> run_run_id run = k \<and> agent_at (cs_registry s) (run_agent_id run) \<noteq> None \<and>
     (run_completed_at run \<noteq> None \<longleftrightarrow> run_status run = RunCompleted) \<and>
     (\<forall>i \<in> set (run_approval_ids run). row_of i (cs_approvals s) \<noteq> None) \<and>
     run_status run \<in> {RunPolicyBlocked, RunApprovalPending, RunCompleted, RunCreated}"

definition runs_ok :: "control_state \<Rightarrow> bool" where
  "runs_ok s \<longleftrightarrow> (\<forall>k run rest. cs_runs s k = Some (RunFile run rest) \<longrightarrow> run_ok s k run)"

definition control_inv :: "control_config \<Rightarrow> control_state \<Rightarrow> bool" where
  "control_inv C s \<longleftrightarrow> registry_inv (cc_hash C) (cs_registry s) \<and> db_inv (cs_approvals s) \<and> runs_ok s"

definition control_keeps :: "control_state \<Rightarrow> control_state \<Rightarrow> bool" where
  "control_keeps s s' \<longleftrightarrow> registry_keeps (cs_registry s) (cs_registry s') \<and> db_later (cs_approvals s) (cs_approvals s')"

text \<open>A ticket is executed now, in the status \<open>executed\<close>; all tickets of a completed run are.\<close>

definition executed_now :: "approval_db \<Rightarrow> string \<Rightarrow> bool" where
  "executed_now db k \<longleftrightarrow> (\<exists>r. row_of k db = Some r \<and> r_status r = Executed)"

definition carried_out :: "control_state \<Rightarrow> run_summary \<Rightarrow> bool" where
  "carried_out s run \<longleftrightarrow> (run_status run = RunCompleted \<longrightarrow> list_all (executed_now (cs_approvals s)) (run_approval_ids run))"

text \<open>
  What a step leaves: the stores moved on by their own steps, and each run is an old one, or it fits and,
  when it is completed, its tickets are executed at this moment.
\<close>

definition moved_on :: "control_config \<Rightarrow> control_state \<Rightarrow> control_state \<Rightarrow> bool" where
  "moved_on C s s' \<longleftrightarrow> (registry_step (cc_hash C))\<^sup>*\<^sup>* (cs_registry s) (cs_registry s') \<and>
     store_step\<^sup>*\<^sup>* (cs_approvals s) (cs_approvals s') \<and>
     (\<forall>k run rest. cs_runs s' k = Some (RunFile run rest) \<longrightarrow>
        cs_runs s k = Some (RunFile run rest) \<or> run_ok s' k run \<and> carried_out s' run)"

lemma run_ok_later:
  assumes "run_ok s k run" "control_keeps s s'"
  shows "run_ok s' k run"
proof -
  have agents: "agent_at (cs_registry s') a \<noteq> None" if "agent_at (cs_registry s) a \<noteq> None" for a
    using that assms(2) unfolding control_keeps_def registry_keeps_def by blast
  have later: "db_later (cs_approvals s) (cs_approvals s')" using assms(2) by (simp add: control_keeps_def)
  then have rows: "row_of i (cs_approvals s') \<noteq> None" if "row_of i (cs_approvals s) \<noteq> None" for i
    using that unfolding db_later_def by blast
  show ?thesis
    using assms(1) agents rows unfolding run_ok_def by auto
qed

lemma moved_on_keeps:
  assumes "moved_on C s s'" "control_inv C s"
  shows "control_inv C s'" "control_keeps s s'"
proof -
  have reg: "registry_inv (cc_hash C) (cs_registry s')" "registry_keeps (cs_registry s) (cs_registry s')"
    using assms registry.run_inv registry.run_rel unfolding moved_on_def control_inv_def by blast+
  have db: "db_inv (cs_approvals s')" "db_later (cs_approvals s) (cs_approvals s')"
    using assms store.run_inv store.run_rel unfolding moved_on_def control_inv_def by blast+
  show keeps: "control_keeps s s'" using reg(2) db(2) by (simp add: control_keeps_def)
  have "runs_ok s'"
    using assms run_ok_later [OF _ keeps] unfolding runs_ok_def moved_on_def control_inv_def by blast
  then show "control_inv C s'" using reg(1) db(1) by (simp add: control_inv_def)
qed

section \<open>The operations\<close>

lemma run_ok_cong:
  "cs_registry s' = cs_registry s \<Longrightarrow> cs_approvals s' = cs_approvals s \<Longrightarrow> run_ok s' k run = run_ok s k run"
  "cs_approvals s' = cs_approvals s \<Longrightarrow> carried_out s' run = carried_out s run"
  by (simp_all add: run_ok_def carried_out_def)

lemma moved_on_beside:
  assumes "moved_on C s t" "cs_registry t' = cs_registry t" "cs_approvals t' = cs_approvals t" "cs_runs t' = cs_runs t"
  shows "moved_on C s t'"
  using assms(1) run_ok_cong(1) [OF assms(2,3)] run_ok_cong(2) [OF assms(3)] by (simp add: moved_on_def assms(2-4))

lemma moved_on_refl [simp]: "moved_on C s s"
  by (simp add: moved_on_def)

lemma moved_on_registry: "(registry_step (cc_hash C))\<^sup>*\<^sup>* (cs_registry s) f \<Longrightarrow> moved_on C s (s\<lparr>cs_registry := f\<rparr>)"
  by (simp add: moved_on_def)

lemma moved_on_run:
  assumes "(registry_step (cc_hash C))\<^sup>*\<^sup>* (cs_registry s) (cs_registry s')" "store_step\<^sup>*\<^sup>* (cs_approvals s) (cs_approvals s')"
    and "cs_runs s' = (cs_runs s)(k \<mapsto> RunFile run rest)" "run_ok s' k run" "carried_out s' run"
  shows "moved_on C s s'"
  using assms by (simp add: moved_on_def)

lemma agent_after:
  "(registry_step H)\<^sup>*\<^sup>* f f' \<Longrightarrow> registry_inv H f \<Longrightarrow> agent_at f k = Some a \<Longrightarrow> agent_at f' k \<noteq> None"
  using registry.run_rel unfolding registry_keeps_def by blast

lemma open_approvals_ids:
  "open_approvals C clk uuid run ag ih n ds s = (s', Inr ids) \<Longrightarrow> db_inv (cs_approvals s) \<Longrightarrow>
     \<forall>i \<in> set ids. row_of i (cs_approvals s') \<noteq> None"
proof (induction ds arbitrary: n s ids)
  case (Cons d ds)
  let ?s = "put_doc (proposal_ref_of run (pdec_action_id d)) (run_proposal run ag ih d) s"
  obtain db tk ids2 where t: "create_ticket (cc_hash C) (clk n) (uuid n) (run_ticket C run ag ih d) (cs_approvals s) = (db, Inr tk)"
    and rest: "open_approvals C clk uuid run ag ih (Suc n) ds (?s\<lparr>cs_approvals := db\<rparr>) = (s', Inr ids2)"
    and ids: "ids = t_approval_id tk # ids2"
    using Cons.prems(1) by (auto simp: Let_def split: prod.splits sum.splits)
  obtain r where r: "row_of (t_approval_id tk) db = Some r" "db_inv db" by (rule created_row [OF Cons.prems(2) t])
  obtain rows where "approvals (cs_approvals s') = approvals db @ rows"
    using open_approvals_appends [of C clk uuid run ag ih "Suc n" ds "?s\<lparr>cs_approvals := db\<rparr>"] rest by auto
  then have "row_of (t_approval_id tk) (cs_approvals s') = Some r" by (rule row_of_appended [OF _ r(1)])
  then show ?case using Cons.IH [OF rest] r(2) ids by auto
qed simp

lemma moved_on_status: "control_inv C s \<Longrightarrow> moved_on C s (fst (get_status C inside t run_id s))"
proof -
  assume inv: "control_inv C s"
  show ?thesis
  proof (cases "cs_runs s run_id")
    case (Some f)
    show ?thesis
    proof (cases f)
      case (RunFile run rest)
      have ok: "run_ok s run_id run" using inv Some RunFile by (simp add: control_inv_def runs_ok_def)
      have db: "db_inv (cs_approvals s)" using inv by (simp add: control_inv_def)
      have "ticket_executed C (cs_approvals s) i \<Longrightarrow> executed_now (cs_approvals s) i" for i
        by (auto simp: ticket_executed_row [OF db] executed_now_def)
      then have "list_all (ticket_executed C (cs_approvals s)) ids \<Longrightarrow> list_all (executed_now (cs_approvals s)) ids" for ids
        by (auto simp: list_all_iff)
      then show ?thesis using Some RunFile ok by (auto simp: get_status_def moved_on_def run_ok_def carried_out_def Let_def)
    qed (use Some in \<open>auto simp: get_status_def moved_on_def\<close>)
  qed (simp add: get_status_def)
qed

text \<open>Submitting a run.\<close>

lemma run_verdict_moves:
  assumes "run_verdict C clk uuid run_id ag ih mode blocking sim s = (s1, x)" "db_inv (cs_approvals s)"
  shows "cs_registry s1 = cs_registry s" "cs_runs s1 = cs_runs s" "store_step\<^sup>*\<^sup>* (cs_approvals s) (cs_approvals s1)"
    and "x = Inr v \<Longrightarrow> (\<forall>i \<in> set (fst (snd v)). row_of i (cs_approvals s1) \<noteq> None) \<and>
      (fst v = RunCompleted \<longrightarrow> fst (snd v) = []) \<and> fst v \<in> {RunPolicyBlocked, RunApprovalPending, RunCompleted}"
proof -
  obtain s2 y where o2: "open_approvals C clk uuid run_id ag ih 0 (approval_decisions sim) s = (s2, y)" by fastforce
  note same = open_approvals_same [OF o2]
  show "cs_registry s1 = cs_registry s" "cs_runs s1 = cs_runs s" "store_step\<^sup>*\<^sup>* (cs_approvals s) (cs_approvals s1)"
    using assms(1) same by (auto simp: run_verdict_def o2 split: if_splits sum.splits)
  show "x = Inr v \<Longrightarrow> (\<forall>i \<in> set (fst (snd v)). row_of i (cs_approvals s1) \<noteq> None) \<and>
      (fst v = RunCompleted \<longrightarrow> fst (snd v) = []) \<and> fst v \<in> {RunPolicyBlocked, RunApprovalPending, RunCompleted}"
    using assms(1) open_approvals_ids [of C clk uuid run_id ag ih 0 "approval_decisions sim" s s2] o2 assms(2)
    by (auto simp: run_verdict_def split: if_splits sum.splits)
qed

lemma moved_on_submit: "control_inv C s \<Longrightarrow> moved_on C s (fst (submit_run C identity clk uuid run_id ag inp actor mode s))"
proof -
  assume inv: "control_inv C s"
  then have reg: "registry_inv (cc_hash C) (cs_registry s)" and db: "db_inv (cs_approvals s)" by (simp_all add: control_inv_def)
  obtain f x where g: "get_agent (cc_iso C (clk 0)) ag (cs_registry s) = (f, x)" by fastforce
  show ?thesis
  proof (cases x)
    case (Inl e)
    have "(registry_step (cc_hash C))\<^sup>*\<^sup>* (cs_registry s) f" using get_agent_run g by (metis fst_conv)
    then show ?thesis by (simp add: submit_run_def g Inl moved_on_registry)
  next
    case (Inr a)
    have f: "f = cs_registry s" and a: "agent_at (cs_registry s) ag = Some a" using g Inr by (simp_all add: get_agent_Inr)
    have s: "s\<lparr>cs_registry := cs_registry s\<rparr> = s" by simp
    show ?thesis
    proof (cases "identity_ref identity")
      case (Inl e)
      then show ?thesis by (simp add: submit_run_def g Inr f)
    next
      fix i assume i: "identity_ref identity = Inr i"
      obtain ref err where i: "identity_ref identity = Inr (ref, err)" using i by (cases i) auto
      define blocking where "blocking = psim_blocking_reasons (simulate_agent C (arec_spec a)) @ (case err of None \<Rightarrow> [] | Some code \<Rightarrow> [code])"
      obtain s1 y where v: "run_verdict C (\<lambda>n. clk (Suc n)) uuid run_id ag (run_input_hash_of (cc_hash C) ag inp) mode blocking
         (simulate_agent C (arec_spec a)) s = (s1, y)" by fastforce
      note moves = run_verdict_moves [OF v db]
      show ?thesis
      proof (cases y)
        case (Inl e)
        have "fst (submit_run C identity clk uuid run_id ag inp actor mode s) = s1"
          by (simp add: submit_run_def g Inr f i blocking_def [symmetric] v Inl Let_def)
        then show ?thesis using moves(1-3) by (simp add: moved_on_def)
      next
        fix w assume y: "y = Inr w"
        define t where "t = clk (Suc (length (spec_declared_actions (arec_spec a))))"
        define run where "run = submitted_run C t run_id ag actor ref (run_input_hash_of (cc_hash C) ag inp)
          (psim_policy_hash (simulate_agent C (arec_spec a))) blocking w"
        define s2 where "s2 = put_run run (run_fields C t (arec_spec a) (simulate_agent C (arec_spec a))) s1"
        let ?b = "a\<lparr>arec_last_run_id := Some run_id, arec_updated_at := cc_iso C t\<rparr>"
        have "record_ok (cc_hash C) ag ?b" "same_agent a ?b"
          using registry_invD [OF reg a] by (simp_all add: record_ok_def same_agent_def)
        note upd = update_record_run [OF a this, of "cc_iso C t"]
        obtain f2 b where u: "update_record (cc_iso C t) ?b (cs_registry s) = (f2, Inr b)" using upd(2) by blast
        have run2: "(registry_step (cc_hash C))\<^sup>*\<^sup>* (cs_registry s) f2" using upd(1) u by (metis fst_conv)
        have s2: "cs_registry s2 = cs_registry s" "cs_approvals s2 = cs_approvals s1"
          "cs_runs s2 = (cs_runs s)(run_id \<mapsto> RunFile run (run_fields C t (arec_spec a) (simulate_agent C (arec_spec a))))"
          by (simp_all add: s2_def run_def moves(1,2))
        have res: "fst (submit_run C identity clk uuid run_id ag inp actor mode s) = s2\<lparr>cs_registry := f2\<rparr>"
          by (simp add: submit_run_def g Inr f i blocking_def [symmetric] v y t_def [symmetric] run_def [symmetric]
              s2_def [symmetric] s2(1) moves(1) u Let_def)
        have ok: "run_ok (s2\<lparr>cs_registry := f2\<rparr>) run_id run"
          using moves(4) [OF y] agent_after [OF run2 reg a]
          by (auto simp: run_ok_def run_def s2(2) submitted_run_def split: prod.splits)
        have out: "carried_out (s2\<lparr>cs_registry := f2\<rparr>) run"
          using moves(4) [OF y] by (auto simp: carried_out_def run_def)
        show ?thesis
          unfolding res by (rule moved_on_run [OF _ _ _ ok out]) (simp_all add: run2 s2 moves(3))
      qed
    qed
  qed
qed

text \<open>Submitting an external action.\<close>

lemma gateway_verdict_moves:
  assumes "gateway_verdict C t uuid r d db = (db1, x)" "db_inv db"
  shows "store_step\<^sup>*\<^sup>* db db1"
    and "x = Inr (rs, st, k, na) \<Longrightarrow> (\<forall>i. k = Some i \<longrightarrow> row_of i db1 \<noteq> None) \<and> (rs = RunCompleted \<longrightarrow> k = None) \<and>
      rs \<in> {RunPolicyBlocked, RunApprovalPending, RunCompleted, RunCreated}"
proof -
  obtain db2 y where c: "create_ticket (cc_hash C) t uuid (gateway_ticket C r) db = (db2, y)" by fastforce
  have run: "store_step\<^sup>*\<^sup>* db db2" using create_ticket_run c by (metis fst_conv)
  have row: "y = Inr tk \<Longrightarrow> row_of (t_approval_id tk) db2 \<noteq> None" for tk
    using created_row [OF assms(2), of "cc_hash C" t uuid "gateway_ticket C r" db2 tk] c by (metis option.distinct(1))
  show "store_step\<^sup>*\<^sup>* db db1"
    using assms(1) run by (auto simp: gateway_verdict_def c split: if_splits sum.splits)
  show "x = Inr (rs, st, k, na) \<Longrightarrow> (\<forall>i. k = Some i \<longrightarrow> row_of i db1 \<noteq> None) \<and> (rs = RunCompleted \<longrightarrow> k = None) \<and>
      rs \<in> {RunPolicyBlocked, RunApprovalPending, RunCompleted, RunCreated}"
    using assms(1) row by (auto simp: gateway_verdict_def c split: if_splits sum.splits)
qed

lemma moved_on_gateway: "control_inv C s \<Longrightarrow> moved_on C s (fst (submit_action C clk uid r s))"
proof -
  assume inv: "control_inv C s"
  then have reg: "registry_inv (cc_hash C) (cs_registry s)" and db: "db_inv (cs_approvals s)" by (simp_all add: control_inv_def)
  let ?rid = "gateway_run_id (xreq_request_id r)"
  show ?thesis
  proof (cases rule: admit_external_cases [of "cc_iso C (clk 0)" r s])
    case (refusal f y)
    have "(registry_step (cc_hash C))\<^sup>*\<^sup>* (cs_registry s) f" unfolding refusal(4) by (rule get_agent_run)
    from moved_on_registry [OF this] show ?thesis
      by (rule moved_on_beside) (simp_all add: submit_action_def refusal(1) write_evidence_def Let_def)
  next
    case (passed a)
    define d where "d = simulate_action C (proposal_from_request r ?rid)"
    obtain db1 x where v: "gateway_verdict C (clk 1) uid r d (cs_approvals s) = (db1, x)" by fastforce
    note moves = gateway_verdict_moves [OF v db]
    show ?thesis
    proof (cases x)
      case (Inl e)
      have "fst (submit_action C clk uid r s) = s\<lparr>cs_approvals := db1\<rparr>"
        by (simp add: submit_action_def passed(1) d_def [symmetric] v [unfolded One_nat_def] Inl Let_def)
      then show ?thesis using moves(1) by (simp add: moved_on_def)
    next
      fix w assume x: "x = Inr w"
      obtain rs st k na where w: "w = (rs, st, k, na)" by (cases w)
      define run where "run = gateway_run C clk r d w"
      define rest where "rest = gateway_run_fields C (clk 4) r (proposal_from_request r ?rid) d"
      have ok: "record_ok (cc_hash C) (xreq_agent_id r) (simulated (cc_iso C (clk 5)) ?rid a)"
          "same_agent a (simulated (cc_iso C (clk 5)) ?rid a)"
        using registry_invD [OF reg passed(3)] by (simp_all add: record_ok_def simulated_def same_agent_def)
      note upd = update_record_run [OF passed(3) ok, of "cc_iso C (clk 6)"]
      obtain f b where u: "update_record (cc_iso C (clk 6)) (simulated (cc_iso C (clk 5)) ?rid a) (cs_registry s) = (f, Inr b)"
        using upd(2) by blast
      have run2: "(registry_step (cc_hash C))\<^sup>*\<^sup>* (cs_registry s) f" using upd(1) u by (metis fst_conv)
      define s2 where "s2 = (put_run run rest (s\<lparr>cs_approvals := db1\<rparr>))\<lparr>cs_registry := f\<rparr>"
      have s2: "cs_registry s2 = f" "cs_approvals s2 = db1" "cs_runs s2 = (cs_runs s)(?rid \<mapsto> RunFile run rest)"
        by (simp_all add: s2_def run_def w)
      have fits: "run_ok s2 ?rid run"
        using moves(2) [OF x [unfolded w]] agent_after [OF run2 reg passed(3)]
        by (auto simp: run_ok_def run_def w s2 gateway_run_def)
      have out: "carried_out s2 run" using moves(2) [OF x [unfolded w]] by (auto simp: carried_out_def run_def w)
      have "moved_on C s s2" by (rule moved_on_run [OF _ _ s2(3) fits out]) (simp_all add: s2 run2 moves(1))
      then show ?thesis
        by (rule moved_on_beside) (simp_all add: submit_action_def passed(1) d_def [symmetric] v [unfolded One_nat_def] x run_def [symmetric]
            rest_def [symmetric] u write_evidence_def s2_def Let_def)
    qed
  qed
qed

lemma get_doc_beside:
  "get_doc ref s = (s', x) \<Longrightarrow> cs_registry s' = cs_registry s \<and> cs_approvals s' = cs_approvals s \<and> cs_runs s' = cs_runs s"
  by (auto simp: get_doc_def split: prod.splits)

lemma write_v1_1_beside:
  "write_v1_1_evidence C r a s = (s', x) \<Longrightarrow>
     cs_registry s' = cs_registry s \<and> cs_approvals s' = cs_approvals s \<and> cs_runs s' = cs_runs s"
  by (auto simp: write_v1_1_evidence_def dest!: get_doc_beside split: option.splits prod.splits sum.splits pyval.splits)

lemma submit_new_moves: "control_inv C s \<Longrightarrow> moved_on C s (fst (submit_new_v1_1 C clk uid r s))"
proof -
  assume "control_inv C s"
  note m = moved_on_gateway [OF this, of clk uid "v1_request_from_v1_1 (cc_hash C) r"]
  obtain s1 x where x: "submit_action C clk uid (v1_request_from_v1_1 (cc_hash C) r) s = (s1, x)" by fastforce
  have "moved_on C s s1" using m x by simp
  then show ?thesis
    by (rule moved_on_beside) (auto simp: submit_new_v1_1_def x Let_def dest!: write_v1_1_beside split: sum.splits prod.splits)
qed

lemma control_inv_cong:
  "cs_registry s' = cs_registry s \<Longrightarrow> cs_approvals s' = cs_approvals s \<Longrightarrow> cs_runs s' = cs_runs s \<Longrightarrow>
     control_inv C s' = control_inv C s"
  by (simp add: control_inv_def runs_ok_def run_ok_def)

lemma moved_on_from:
  "moved_on C s t \<Longrightarrow> cs_registry s = cs_registry s' \<Longrightarrow> cs_approvals s = cs_approvals s' \<Longrightarrow> cs_runs s = cs_runs s' \<Longrightarrow> moved_on C s' t"
  by (simp add: moved_on_def)

lemma moved_on_gateway_v1_1: "control_inv C s \<Longrightarrow> moved_on C s (fst (submit_action_v1_1 C clk uid r s))"
proof -
  assume inv: "control_inv C s"
  obtain s0 x where g: "get_doc (idempotency_path (vreq_idempotency_key r)) s = (s0, x)" by fastforce
  note same = get_doc_beside [OF g]
  have eq: "cs_registry s0 = cs_registry s" "cs_approvals s0 = cs_approvals s" "cs_runs s0 = cs_runs s" using same by blast+
  have here: "moved_on C s s0" by (rule moved_on_beside [OF moved_on_refl eq])
  have "control_inv C s0" using inv unfolding control_inv_cong [OF eq] .
  from moved_on_from [OF submit_new_moves [OF this] eq] have new: "moved_on C s (fst (submit_new_v1_1 C clk uid r s0))" .
  have "fst (submit_action_v1_1 C clk uid r s) \<in> {s0, fst (submit_new_v1_1 C clk uid r s0)}"
    unfolding submit_action_v1_1_def Let_def g prod.case by (simp split: sum.split pyval.split option.split)
  then show ?thesis using here new by (metis empty_iff insert_iff)
qed

lemma policy_simulate_run:
  assumes "registry_inv H f"
  shows "(registry_step H)\<^sup>*\<^sup>* f (fst (control_plane_policy_simulate C stamps k f))"
proof -
  obtain f1 x where g: "get_agent (stamps 0) k f = (f1, x)" by fastforce
  show ?thesis
  proof (cases x)
    case (Inl e)
    then show ?thesis using get_agent_run [of H f "stamps 0" k] by (simp add: control_plane_policy_simulate_def g)
  next
    case (Inr a)
    then have f1: "f1 = f" "agent_at f k = Some a" using g by (simp_all add: get_agent_Inr)
    have upd: "(registry_step H)\<^sup>*\<^sup>* f (fst (update_record now (a\<lparr>arec_readiness := r\<rparr>) f))" for now r
      using registry_invD [OF assms f1(2)]
      by (intro update_record_run(1) [OF f1(2)]) (simp_all add: record_ok_def same_agent_def)
    define r where "r = (if psim_overall_status (simulate_agent C (arec_spec a)) = ''blocked'' then ReadinessBlocked else PolicySimulated)"
    obtain f2 y where u: "update_record (stamps 1) (a\<lparr>arec_readiness := r\<rparr>) f = (f2, y)" by fastforce
    have "fst (control_plane_policy_simulate C stamps k f) = f2"
      unfolding control_plane_policy_simulate_def g Inr f1(1) Let_def r_def [symmetric] prod.case sum.case u
      by (simp split: sum.split)
    then show ?thesis using upd [of "stamps 1" r] u by simp
  qed
qed

lemma control_step_moves: "control_step C inside s s' \<Longrightarrow> control_inv C s \<Longrightarrow> moved_on C s s'"
proof (induction rule: control_step.induct)
  case (step_register v s now actor)
  then show ?case by (intro moved_on_registry register_run)
next
  case (step_disable s now k reason actor)
  then show ?case by (intro moved_on_registry disable_run) (simp_all add: control_inv_def)
next
  case (step_simulate s C' stamps k)
  then show ?case by (intro moved_on_registry policy_simulate_run) (simp add: control_inv_def)
next
  case (step_store s db)
  then show ?case by (simp add: moved_on_def)
next
  case (step_beside s docs es)
  show ?case by (simp add: moved_on_def)
qed (rule moved_on_submit moved_on_status moved_on_gateway moved_on_gateway_v1_1, assumption)+

interpretation control: history_machine "control_step C inside" "control_inv C" control_keeps for C inside
proof unfold_locales
  show "control_step C inside s t \<Longrightarrow> control_inv C s \<Longrightarrow> control_inv C t" for s t
    using control_step_moves moved_on_keeps(1) by blast
  show "control_inv C s \<Longrightarrow> control_step C inside s t \<Longrightarrow> control_keeps s t" for s t
    using control_step_moves moved_on_keeps(2) by blast
  show "control_keeps s s" for s by (auto simp: control_keeps_def registry_keeps_def db_later_def)
  show "control_keeps s t \<Longrightarrow> control_keeps t u \<Longrightarrow> control_keeps s u" for s t u
    unfolding control_keeps_def by (blast intro: registry_keeps_trans db_later_trans)
qed

text \<open>The pilot client does nothing else: its call is a run of at most three of these steps.\<close>

lemma agent_spec_from_manifest_valid: "agent_spec_from_manifest M = Some v \<Longrightarrow> spec_valid v"
  by (auto simp: agent_spec_from_manifest_def validate_spec_def spec_valid_def split: if_splits)

lemma client_is_run: "(control_step C inside)\<^sup>*\<^sup>* s (fst (client_submit_action C E now clk uuid M r s))"
proof -
  obtain es x where e: "ensure_pilot_enrollment E M (cs_enterprise s) = (es, x)" by fastforce
  define s1 where "s1 = s\<lparr>cs_enterprise := es\<rparr>"
  have 1: "control_step C inside s s1"
    using step_beside [of C inside s es "cs_docs s"] by (simp add: s1_def)
  show ?thesis
  proof (cases "(\<exists>e. x = Inl e) \<or> agent_spec_from_manifest M = None")
    case True
    then have "fst (client_submit_action C E now clk uuid M r s) = s1"
      by (auto simp: client_submit_action_def e s1_def Let_def split: sum.split)
    then show ?thesis using 1 by auto
  next
    case False
    then obtain u v where x: "x = Inr u" and v: "agent_spec_from_manifest M = Some v" by (cases x) auto
    obtain f y where f: "register (cc_hash C) now v ''external-agent-client'' (cs_registry s1) = (f, y)" by fastforce
    define s2 where "s2 = s1\<lparr>cs_registry := f\<rparr>"
    have 2: "control_step C inside s1 s2"
      using step_register [OF agent_spec_from_manifest_valid [OF v], of C inside s1 now "''external-agent-client''"]
      by (simp add: s2_def f)
    have 3: "control_step C inside s2 (fst (submit_action C clk uuid r s2))" by (rule step_gateway)
    have "fst (client_submit_action C E now clk uuid M r s) \<in> {s2, fst (submit_action C clk uuid r s2)}"
      by (simp add: client_submit_action_def e x v s1_def [symmetric] f s2_def [symmetric] Let_def split: sum.split prod.split)
    then show ?thesis using 1 2 3 by (auto intro: rtranclp.rtrancl_into_rtrancl)
  qed
qed

section \<open>The property\<close>

text \<open>The moment a run is completed is one at which all its tickets are in the status \<open>executed\<close>.\<close>

lemma completed_when_executed:
  assumes "(control_step C inside)\<^sup>*\<^sup>* s s'" "control_inv C s"
    and "cs_runs s' k = Some (RunFile run rest)" "run_status run = RunCompleted"
  shows "cs_runs s k = Some (RunFile run rest) \<or>
    (\<exists>u. (control_step C inside)\<^sup>*\<^sup>* s u \<and> (control_step C inside)\<^sup>*\<^sup>* u s' \<and>
       cs_runs u k = Some (RunFile run rest) \<and> list_all (executed_now (cs_approvals u)) (run_approval_ids run))"
  using assms(1,3)
proof (induction rule: rtranclp_induct)
  case (step t t')
  have "moved_on C t t'" using control_step_moves [OF step(2)] control.run_inv [OF step(1) assms(2)] by blast
  then consider (old) "cs_runs t k = Some (RunFile run rest)" | (new) "carried_out t' run"
    using step(4) unfolding moved_on_def by blast
  then show ?case
  proof cases
    case old
    from step(3) [OF this] step(2) show ?thesis by (meson rtranclp.rtrancl_into_rtrancl)
  next
    case new
    then have "list_all (executed_now (cs_approvals t')) (run_approval_ids run)" using assms(4) by (simp add: carried_out_def)
    then show ?thesis using step(1,2,4) by (meson rtranclp.rtrancl_into_rtrancl rtranclp.rtrancl_refl)
  qed
qed simp

text \<open>
  C37: What the control plane keeps, whatever operations are called in whatever order and whatever the
  approval service does beside them: every stored run is filed under its own id and belongs to a
  registered agent, its tickets are in the approval store, and it has a time of completion exactly when
  it is completed; a run that was not completed at the start and is at the end was completed at a
  moment at which every one of its tickets was in the status \<open>executed\<close>; and an agent id that was
  registered denotes the same valid specification, with its digest, for ever.
\<close>

theorem control_plane_invariant:
  assumes "(control_step C inside)\<^sup>*\<^sup>* s s'" "control_inv C s"
  shows "control_inv C s' \<and>
    (\<forall>k run rest. cs_runs s' k = Some (RunFile run rest) \<and> run_status run = RunCompleted \<longrightarrow>
       cs_runs s k = Some (RunFile run rest) \<or>
       (\<exists>u. (control_step C inside)\<^sup>*\<^sup>* s u \<and> (control_step C inside)\<^sup>*\<^sup>* u s' \<and> cs_runs u k = Some (RunFile run rest) \<and>
          (\<forall>i \<in> set (run_approval_ids run). \<exists>r. row_of i (cs_approvals u) = Some r \<and> r_status r = Executed))) \<and>
    (\<forall>k a. agent_at (cs_registry s) k = Some a \<longrightarrow>
       (\<exists>b. agent_at (cs_registry s') k = Some b \<and> arec_spec b = arec_spec a \<and> arec_agent_id b = k \<and>
            arec_spec_hash b = spec_hash_of (cc_hash C) (arec_spec a)))"
proof -
  have inv: "control_inv C s'" using control.run_inv assms by blast
  have keeps: "control_keeps s s'" using control.run_rel assms by blast
  have agents: "\<exists>b. agent_at (cs_registry s') k = Some b \<and> arec_spec b = arec_spec a \<and> arec_agent_id b = k \<and>
      arec_spec_hash b = spec_hash_of (cc_hash C) (arec_spec a)" if ag: "agent_at (cs_registry s) k = Some a" for k a
  proof -
    obtain b where b: "agent_at (cs_registry s') k = Some b" "same_agent a b"
      using keeps ag unfolding control_keeps_def registry_keeps_def by blast
    have "record_ok (cc_hash C) k b" using inv b(1) registry_invD by (simp add: control_inv_def) blast
    then show ?thesis using b by (auto simp: record_ok_def same_agent_def)
  qed
  show ?thesis
    using inv completed_when_executed [OF assms] agents unfolding list_all_iff executed_now_def by blast
qed

lemma demo_control_inv: "control_inv demo_config demo_control"
proof -
  have valid: "spec_valid demo_spec" by code_simp
  have "spec_agent_id demo_spec = ''agent''" by (simp add: demo_spec_def)
  with new_record_ok [OF valid, of demo_digest "''2026-01-01T00:00:00+00:00''"]
  have "record_ok demo_digest ''agent'' demo_record" by (simp add: demo_record_def)
  then show ?thesis
    by (simp add: control_inv_def demo_control_def registry_inv_def agent_at_def runs_ok_def empty_db_def db_inv_def keys_distinct_def)
qed

theorem control_plane_invariant_witness:
  "\<exists>s1 run. demo_submitted = (s1, Inr run) \<and> control_inv demo_config s1 \<and> cs_runs s1 ''run'' \<noteq> None"
proof -
  obtain s1 run where run: "demo_submitted = (s1, Inr run)" "\<exists>rest. cs_runs s1 ''run'' = Some (RunFile run rest)"
    by (rule demo_submitted_run)
  have "control_step demo_config (\<lambda>_. True) demo_control s1"
    using step_submit [of demo_config "\<lambda>_. True" demo_control] run(1) unfolding demo_submitted_def by (metis fst_conv)
  from control_plane_invariant [OF r_into_rtranclp, OF this demo_control_inv] show ?thesis using run by blast
qed

end
