(* ===== verification/Spec2Isabelle.thy ===== *)
theory Spec2Isabelle imports Approval_Props Approval_Workspace Approval_Resume Execution_Props Governance_Props Team_Props Audit_Props Memory_Props Workspace_Props Identity_Props Enrollment_Props Run_Pipeline Gateway_Props Control_Machine begin

text \<open>
  A verification development for the governance core of imperaos (\<open>src/imperaos\<close>, Python): who may do what,
  who approved it, that it is done once, what is recorded of it, in which order the tasks of a team run,
  and what is remembered.

  \<^bold>\<open>The program.\<close>  Every action of an agent (a task, a tool command, a handoff to another role, a write
  to memory, a device action) is put to the governance runtime (\<open>governance/runtime.py\<close>).  The runtime
  asks the policy (\<open>governance/policy.py\<close>) for allow, deny or require approval, records the decision in
  the state of the run, and for the third answer opens a ticket in the approval store
  (\<open>governance/approval_store.py\<close>), an SQLite table that several processes share.  A named principal
  decides a ticket; an approved ticket is either presented again by the run it belongs to, as an
  override of the decision, or executed by the approval execution service
  (\<open>governance/approval_execution.py\<close> and \<open>approval_executors\<close>), which claims it, checks the stored
  snapshot against the request digest and runs the executor of its kind.  When a run ends its records
  are redacted (\<open>governance/redaction.py\<close>), signed (\<open>enterprise/signing.py\<close>) and written as an audit
  file.  A team (\<open>team\<close>) is a graph of tasks with roles, validated (\<open>team/validation.py\<close>) and then run
  by a scheduler over a thread pool (\<open>team/scheduler.py\<close>).  The memory authority (\<open>memory\<close>) redacts,
  judges, stores and retrieves what agents want remembered, for one user or, with the workspace
  authority (\<open>memory/workspace_*.py\<close>), for a workspace with members and clearances that exchanges signed
  packs.  Around this core lies the control plane (\<open>control_plane\<close>): a registry of agents; a policy
  simulator that decides each declared action by its risk; a coordinator that turns a submitted run
  into approval tickets and reports it completed when they are executed; a gateway through which external
  agents submit actions; and the enterprise workspace, where a signed identity (\<open>enterprise/identity.py\<close>)
  may issue enrollment tokens and approve the agents that use them.

  \<^bold>\<open>Theories, and the code they model.\<close>
  \<^item> \<open>Prelude\<close>: Python values, strings and dictionaries, the collections \<open>py_simps\<close>, \<open>row_simps\<close>,
    \<open>table_simps\<close>, \<open>step_keeps\<close>.  \<open>Json\<close>: \<open>json.dumps\<close>, the canonical text of a payload and its digest, with
    the proof that the text determines the payload up to the order of keys (\<open>canonical_text_inject\<close>).
    \<open>Sql_Table\<close>: the SQL statements over a list of rows, with the interfaces \<open>keyed_update\<close> and
    \<open>versioned_update\<close>.  \<open>Machine\<close>: the interfaces \<open>invariant_machine\<close> and \<open>history_machine\<close> of components
    that change in steps.
  \<^item> \<open>Governance_Models\<close>: \<open>governance/models.py\<close>.  \<open>Approval_Store\<close>, \<open>Approval_Ops\<close>: the tables, statements
    and operations of \<open>ApprovalStore\<close>, each with the name of its method; a row is \<open>approval_row\<close>, one field
    per column; \<open>_guard\<close> and \<open>_effect\<close> are the \<open>WHERE\<close> and \<open>SET\<close> of its statement.  \<open>Approval_Machine\<close>: the
    store as a machine.  \<open>Approval_Facts\<close>, \<open>Approval_Props\<close>, \<open>Approval_Workspace\<close>, \<open>Approval_Resume\<close>: its
    properties.
  \<^item> \<open>Policy\<close>: \<open>governance/policy.py\<close>.  \<open>Redaction\<close>: \<open>governance/redaction.py\<close>.  \<open>Governance_Runtime\<close>: the
    operations of \<open>GovernanceRuntime\<close> that decide, with the prefix \<open>runtime_\<close> where the policy has the name;
    \<open>Governance_Facts\<close>, \<open>Governance_Props\<close>: their properties.  \<open>Governance_Audit\<close>: \<open>AuditRecord\<close> and
    \<open>finalize_run\<close>; \<open>Audit_Props\<close>: what the file holds.
  \<^item> \<open>Approval_Snapshots\<close>: \<open>approval_snapshots.py\<close>.  \<open>Approval_Execution\<close>: \<open>approval_execution.py\<close> and the
    executors, \<open>admit\<close> being the part of \<open>execute\<close> up to the claim and \<open>perform\<close> the rest;
    \<open>Execution_Props\<close>: the properties.
  \<^item> \<open>Signing\<close>: \<open>enterprise/signing.py\<close>; \<open>Signing_Props\<close>.
  \<^item> \<open>Team_Models\<close>: \<open>team/models.py\<close>.  \<open>Team_Scheduler\<close>: \<open>ParallelScheduler\<close>; \<open>Team_Schedule_Props\<close>: the loop
    in small steps (a device of the proofs, \<open>sched_step\<close>), its end, the abstract schedule it refines, and
    the loop when each of its waits is watched (\<open>watched\<close>).  \<open>Team_Validation\<close>: \<open>team/validation.py\<close>
    and the handoff check of \<open>team/supervisor.py\<close>.  \<open>Team_Props\<close>: the properties.
  \<^item> \<open>Memory_Models\<close>: \<open>memory/models.py\<close> with its validators.  \<open>Memory_Store\<close>: \<open>memory/store_v3.py\<close>.
    \<open>Memory_Authority\<close>: \<open>memory/redaction.py\<close>, \<open>policy.py\<close>, \<open>evidence.py\<close>, \<open>authority.py\<close> and the text index.
    \<open>Memory_Machine\<close>: the store as a machine.  \<open>Memory_Props\<close>: the properties.
  \<^item> \<open>Workspace_Models\<close>, \<open>Workspace_Store\<close>, \<open>Workspace_Authority\<close>, \<open>Workspace_Sync\<close>: the files
    \<open>workspace_models.py\<close>, \<open>workspace_store.py\<close>, \<open>workspace_access.py\<close>, \<open>workspace_authority.py\<close> and
    \<open>workspace_sync.py\<close> of \<open>memory\<close>; \<open>Workspace_Machine\<close>: the store as a machine; \<open>Workspace_Props\<close>.
  \<^item> \<open>Identity\<close>: \<open>enterprise/identity.py\<close>; \<open>Identity_Props\<close>.  \<open>Control_Storage\<close>: \<open>control_plane/storage.py\<close>.
    \<open>Enterprise_Models\<close>, \<open>Enterprise_Store\<close>, \<open>Enterprise_Rbac\<close>, \<open>Enterprise_Snapshot\<close>, \<open>Agent_Enrollment\<close>:
    the documents, the store, the roles, the snapshot and the operations of \<open>enterprise_workspace*.py\<close>,
    \<open>enterprise_rbac.py\<close> and \<open>agent_enrollment.py\<close>.  \<open>Pilot_Enrollment\<close>: the enrollment that
    \<open>external_agent_client.py\<close> writes for its own agent.  \<open>Enrollment_Machine\<close>: the store as two machines,
    \<open>enterprise_step\<close> of the operations of enrollment and \<open>deployed_step\<close> of these and the pilot client.
    \<open>Enrollment_Props\<close>: the properties; where the enrolled agents come from is said of \<open>deployed_step\<close>, the
    two of single operations and their order of \<open>enterprise_step\<close>.
  \<^item> \<open>Control_Models\<close>: the classes of \<open>control_plane/models.py\<close> that decide.  \<open>Agent_Registry\<close>: \<open>registry.py\<close>,
    \<open>Registry_Machine\<close>: the registry as a machine.  \<open>Policy_Simulator\<close>: \<open>policy_simulator.py\<close> and
    \<open>adapter_contracts.py\<close>.  \<open>Control_State\<close>: the stores the coordinator and the gateway share, one record.
    \<open>Run_Coordinator\<close>: \<open>run_coordinator.py\<close>.  \<open>External_Contracts\<close>, \<open>External_Gateway\<close>: the files of these
    names; \<open>External_Client\<close>: the rest of \<open>external_agent_client.py\<close>.  \<open>Control_Tickets\<close>,
    \<open>Execution_Quiet\<close>: what the coordinator needs of the approval store and of the execution service when
    nobody else writes.  \<open>Control_Demo\<close>: a concrete control plane for the
    witnesses.  \<open>Coordinator_Props\<close>, \<open>Run_Pipeline\<close>, \<open>Gateway_Props\<close>: the properties; \<open>Control_Machine\<close>: the
    operations of both, of the registry and of the approval store and the policy simulation of the command
    line as one machine, its invariant, and that the pilot client is a run of it.

  \<^bold>\<open>What is shown.\<close>
  \<^item> Approval store: the invariant of every reachable store, the life cycle and the columns that never
    change; that a claim found an approved, unexpired ticket and that there is at most one; who can
    finish an execution; racing deciders; isolation of workspaces; idempotent creation; consumption and
    resumption once; consistency of attached contracts.  All of them hold whatever other connections commit
    between the statements of an operation.
  \<^item> Execution: what is executed is the snapshot that was approved, through the executor of its kind, at
    most once, and the ticket and the caller learn the outcome, exceptions included.
  \<^item> Runtime and policy: every decision is recorded; an override stands for a decided ticket of the same
    action; approval is required exactly with a ticket; without a policy everything is denied; handoffs
    and memory writes are denied by default; a normalised command stays where it claims.
  \<^item> Records: redaction reveals nothing of a protected text but its length, digest and match; the audit
    file is complete; signing and verifying are inverse; a verified document was not altered.
  \<^item> Teams: the scheduler is safe whenever it waits, always returns and refines the abstract schedule
    whatever the threads do; a validated team is well formed and, within the bound on its tasks, runs to
    the end; a cyclic specification exhausts the recursion limit.
  \<^item> Memory: the invariant of every reachable store; nothing is remembered unless allowed; a proposal is
    remembered once; no update is lost within a process; a retrieval with a scope filter is confined; a
    tombstone is final.
  \<^item> Workspaces: who may read and write is the specification \<open>access_decision\<close> implements; the store
    refines a map of targets; a search shows what the reader may see; a pack that was altered is not
    imported, and importing an export restores it.
  \<^item> Identity and enrollment: a permission rests on a valid signed assertion; an enrolled agent on a
    token that fits, or on the manifest of the pilot client alone (a defect); enrollment can be completed,
    and no operation of enrollment revokes it (a defect, as is the bootstrap).
  \<^item> Control plane: what a submitted run and an external action leave on every branch; a run becomes
    completed only at a moment when all its tickets are executed, and it does when they are approved and
    executed in time; an
    external action is never carried out through its ticket (a defect); version 1.1 is idempotent; the
    invariant of every reachable state joins registry, runs and tickets.

  \<^bold>\<open>How it is modelled.\<close>
  \<^item> State is passed explicitly.  An operation that raises answers \<open>Inl\<close>, \<open>None\<close> or a value of an error
    datatype, and what it committed before stays.
  \<^item> An operation of a store is its sequence of statements.  \<open>env i\<close> is what other connections committed
    before the \<open>i\<close>-th; \<open>legal_env\<close> and \<open>legal_memory_env\<close> say that they too run the code's statements,
    \<open>clk i\<close> is the clock at the \<open>i\<close>-th reading.  A run is the reflexive transitive closure of the steps.
  \<^item> Parameters stand for what is not under \<open>src\<close>: SHA-256 and HMAC (any function; properties that compare
    digests assume \<open>collision_free\<close> on the two payloads at hand), compiled regular expressions, Unicode
    normalisation and path resolution, Ed25519 and base64, the answer of a managed signer, the answer of
    a worker thread and which futures \<open>wait\<close> reports (\<open>legal_waits\<close> states its documentation), and the ids
    and times that are drawn.
  \<^item> The loop of the scheduler is a \<open>partial_function\<close>; \<open>sched_loop_ends\<close> shows that it returns, because every
    round settles a running task.  The walks of the validation take the number of nested calls that
    Python allows and answer \<open>None\<close> beyond it; the properties hold for every limit.
  \<^item> Strings are Latin-1; numbers in memory records are rationals because the code only compares them.

  \<^bold>\<open>Not modelled.\<close>  Reading configuration and policy files (a parse error is one value); the supervisor of a
  team beyond its handoff check, its checkpoints and replay; the runtime policy and the semantic index of
  the memory; the snapshot of the panel, evidence packs, reports and releases of the control plane and the
  pilot suite, which aggregate files; artifacts; the router; the orchestrator and the model providers, which
  call language models; backup and qualification reports; the computer use extension and the panel; the
  command line but for its policy simulation.  The machines hold the operations of the modelled files: a
  script that writes a store by itself (\<open>scripts/run_external_agent_gateway_smoke.py\<close> stores an enrollment
  for its smoke test) is outside them, and what is said of one operation (of \<open>propose_or_write\<close>, say) is not
  said of the others (\<open>import_pack\<close> puts records without an access decision).
\<close>

end
